(* ===== verification/Prelude.thy ===== *)
theory Prelude
  imports Complex_Main "HOL-Library.List_Lexorder" "HOL-Library.Char_ord" "HOL-Library.Sublist"
    "HOL-Library.Code_Target_Nat"
begin

text \<open>
  Shared vocabulary of the development: the exceptions of the modelled Python code, results
  (\<open>exn + 'a\<close>, \<open>Inl\<close> for a raised exception), the list helpers that several source files
  define for themselves (\<open>_has_duplicates\<close>, \<open>_unique_sorted\<close>, \<open>_same_members\<close>,
  \<open>_symmetric_difference_sorted\<close>), decimal text, and the lemmas every component uses.
  Python strings are HOL strings holding their UTF-8 bytes; bytewise lexicographic order is
  code point order, so \<open>sorted\<close> on strings is \<open>sort\<close>.
\<close>

named_theorems model_simps \<open>unfolding rules of the small helpers of the model\<close>
named_theorems hash_simps \<open>facts about hashing that the ledger and Merkle proofs share\<close>

section \<open>Results\<close>

text \<open>The left-to-right evaluation of a list comprehension whose body may raise.\<close>

fun rbind :: "'e + 'a \<Rightarrow> ('a \<Rightarrow> 'e + 'b) \<Rightarrow> 'e + 'b" where
  "rbind (Inl e) f = Inl e"
| "rbind (Inr x) f = f x"

lemma rbind_Inr_iff: "rbind m f = Inr y \<longleftrightarrow> (\<exists>x. m = Inr x \<and> f x = Inr y)"
  by (cases m) auto

lemma rbind_assoc: "rbind (rbind m f) g = rbind m (\<lambda>x. rbind (f x) g)"
  by (cases m) auto

lemma rbind_cong [fundef_cong]:
  "m = m' \<Longrightarrow> (\<And>x. m' = Inr x \<Longrightarrow> f x = g x) \<Longrightarrow> rbind m f = rbind m' g"
  by (cases m') auto

fun traverse :: "('a \<Rightarrow> 'e + 'b) \<Rightarrow> 'a list \<Rightarrow> 'e + 'b list" where
  "traverse f [] = Inr []"
| "traverse f (x # xs) = rbind (f x) (\<lambda>y. rbind (traverse f xs) (\<lambda>ys. Inr (y # ys)))"

lemma traverse_cong [fundef_cong]:
  "xs = ys \<Longrightarrow> (\<And>x. x \<in> set ys \<Longrightarrow> f x = g x) \<Longrightarrow> traverse f xs = traverse g ys"
proof -
  assume "xs = ys" and fg: "\<And>x. x \<in> set ys \<Longrightarrow> f x = g x"
  moreover from fg have "traverse f ys = traverse g ys"
    by (induction ys) auto
  ultimately show ?thesis by simp
qed

lemma traverse_Inr_map: "(\<And>x. x \<in> set xs \<Longrightarrow> f x = Inr (g x)) \<Longrightarrow> traverse f xs = Inr (map g xs)"
  by (induction xs) auto

lemma traverse_length: "traverse f xs = Inr ys \<Longrightarrow> length ys = length xs"
  by (induction xs arbitrary: ys) (auto simp: rbind_Inr_iff)

lemma traverse_nth:
  "traverse f xs = Inr ys \<Longrightarrow> i < length xs \<Longrightarrow> f (xs ! i) = Inr (ys ! i)"
  by (induction xs arbitrary: ys i) (auto simp: rbind_Inr_iff nth_Cons split: nat.split)

lemma traverse_set:
  "traverse f xs = Inr ys \<Longrightarrow> y \<in> set ys \<Longrightarrow> \<exists>x \<in> set xs. f x = Inr y"
  by (induction xs arbitrary: ys) (auto simp: rbind_Inr_iff)

section \<open>List helpers of the source\<close>

text \<open>\<open>_has_duplicates\<close>: one pass with a list of the items seen so far.\<close>

fun has_dup_from :: "'a list \<Rightarrow> 'a list \<Rightarrow> bool" where
  "has_dup_from seen [] = False"
| "has_dup_from seen (x # xs) =
     (if x \<in> set seen then True else has_dup_from (seen @ [x]) xs)"

definition has_duplicates :: "'a list \<Rightarrow> bool" where
  "has_duplicates xs = has_dup_from [] xs"

lemma has_dup_from_iff:
  "has_dup_from seen xs \<longleftrightarrow> \<not> distinct xs \<or> set xs \<inter> set seen \<noteq> {}"
  by (induction xs arbitrary: seen) auto

lemma has_duplicates_iff [simp]: "has_duplicates xs \<longleftrightarrow> \<not> distinct xs"
  by (simp add: has_duplicates_def has_dup_from_iff)

text \<open>\<open>_unique_sorted\<close>: keep first occurrences in order, then sort.\<close>

fun unique_from :: "'a list \<Rightarrow> 'a list \<Rightarrow> 'a list" where
  "unique_from acc [] = acc"
| "unique_from acc (x # xs) = unique_from (if x \<in> set acc then acc else acc @ [x]) xs"

definition unique_sorted :: "'a::linorder list \<Rightarrow> 'a list" where
  "unique_sorted xs = sort (unique_from [] xs)"

lemma set_unique_from [simp]: "set (unique_from acc xs) = set acc \<union> set xs"
  by (induction xs arbitrary: acc) auto

lemma distinct_unique_from: "distinct acc \<Longrightarrow> distinct (unique_from acc xs)"
  by (induction xs arbitrary: acc) auto

lemma set_unique_sorted [simp]: "set (unique_sorted xs) = set xs"
  by (simp add: unique_sorted_def)

lemma distinct_unique_sorted [simp]: "distinct (unique_sorted xs)"
  by (simp add: unique_sorted_def distinct_unique_from)

lemma sorted_unique_sorted [simp]: "sorted (unique_sorted xs)"
  by (simp add: unique_sorted_def)

lemma unique_sorted_cong: "set xs = set ys \<Longrightarrow> unique_sorted xs = unique_sorted ys"
  by (rule sorted_distinct_set_unique) simp_all

text \<open>\<open>_same_members\<close> and \<open>_symmetric_difference_sorted\<close>.\<close>

definition same_members :: "'a list \<Rightarrow> 'a list \<Rightarrow> bool" where
  "same_members l r = (list_all (\<lambda>x. x \<in> set r) l \<and> list_all (\<lambda>x. x \<in> set l) r)"

lemma same_members_iff [simp]: "same_members l r \<longleftrightarrow> set l = set r"
  by (auto simp: same_members_def list_all_iff)

fun diff_from :: "'a list \<Rightarrow> 'a list \<Rightarrow> 'a list \<Rightarrow> 'a list" where
  "diff_from other acc [] = acc"
| "diff_from other acc (x # xs) =
     diff_from other (if x \<notin> set other \<and> x \<notin> set acc then acc @ [x] else acc) xs"

definition symmetric_difference_sorted :: "'a::linorder list \<Rightarrow> 'a list \<Rightarrow> 'a list" where
  "symmetric_difference_sorted l r = sort (diff_from l (diff_from r [] l) r)"

lemma set_diff_from: "set (diff_from other acc xs) = set acc \<union> (set xs - set other)"
  by (induction xs arbitrary: acc) auto

lemma set_symmetric_difference:
  "set (symmetric_difference_sorted l r) = (set l - set r) \<union> (set r - set l)"
  by (auto simp: symmetric_difference_sorted_def set_diff_from)

text \<open>\<open>max(items, key=f)\<close>: the first item with the greatest key; \<open>None\<close> for no items.\<close>

fun max_from :: "('a \<Rightarrow> 'b::linorder) \<Rightarrow> 'a \<Rightarrow> 'a list \<Rightarrow> 'a" where
  "max_from f best [] = best"
| "max_from f best (x # xs) = max_from f (if f best < f x then x else best) xs"

definition max_by :: "('a \<Rightarrow> 'b::linorder) \<Rightarrow> 'a list \<Rightarrow> 'a option" where
  "max_by f xs = (case xs of [] \<Rightarrow> None | x # r \<Rightarrow> Some (max_from f x r))"

lemma max_from_in: "max_from f b xs \<in> set (b # xs)"
proof (induction xs arbitrary: b)
  case (Cons a xs)
  have "max_from f (if f b < f a then a else b) xs \<in> set ((if f b < f a then a else b) # xs)"
    by (rule Cons.IH)
  then show ?case by (auto split: if_splits)
qed simp

lemma max_from_ge: "x \<in> set (b # xs) \<Longrightarrow> f x \<le> f (max_from f b xs)"
proof (induction xs arbitrary: b x)
  case (Cons a xs)
  let ?m = "if f b < f a then a else b"
  have "f ?m \<le> f (max_from f ?m xs)" by (rule Cons.IH) simp
  moreover have "f b \<le> f ?m" and "f a \<le> f ?m" by auto
  ultimately have "f b \<le> f (max_from f ?m xs)" and "f a \<le> f (max_from f ?m xs)"
    by (meson order_trans)+
  moreover have "x \<in> set xs \<Longrightarrow> f x \<le> f (max_from f ?m xs)" by (rule Cons.IH) simp
  ultimately show ?case using Cons.prems by auto
qed simp

lemma max_by_Some: "max_by f xs = Some m \<Longrightarrow> m \<in> set xs \<and> (\<forall>x \<in> set xs. f x \<le> f m)"
proof (cases xs)
  case (Cons a r)
  assume "max_by f xs = Some m"
  with Cons have "m = max_from f a r" by (simp add: max_by_def)
  with Cons show ?thesis using max_from_in [of f a r] max_from_ge [of _ a r f] by auto
qed (simp add: max_by_def)

lemma max_by_None [simp]: "max_by f xs = None \<longleftrightarrow> xs = []"
  by (simp add: max_by_def split: list.split)

section \<open>Text\<close>

definition startswith :: "string \<Rightarrow> string \<Rightarrow> bool" where
  "startswith s p = (take (length p) s = p)"

definition removeprefix :: "string \<Rightarrow> string \<Rightarrow> string" where
  "removeprefix s p = (if startswith s p then drop (length p) s else s)"

lemma startswith_append [simp]: "startswith (p @ s) p"
  by (simp add: startswith_def)

lemma removeprefix_append [simp]: "removeprefix (p @ s) p = s"
  by (simp add: removeprefix_def)

fun join :: "string \<Rightarrow> string list \<Rightarrow> string" where
  "join sep [] = []"
| "join sep [x] = x"
| "join sep (x # y # r) = x @ sep @ join sep (y # r)"

text \<open>Python's \<open>str(n)\<close> on integers, and reading a digit string back.\<close>

definition digit_char :: "nat \<Rightarrow> char" where
  "digit_char d = char_of (48 + d)"

definition is_digit :: "char \<Rightarrow> bool" where
  "is_digit c = (48 \<le> (of_char c :: nat) \<and> (of_char c :: nat) \<le> 57)"

definition digit_val :: "char \<Rightarrow> nat" where
  "digit_val c = of_char c - 48"

fun nat_str :: "nat \<Rightarrow> string" where
  "nat_str n = (if n < 10 then [digit_char n] else nat_str (n div 10) @ [digit_char (n mod 10)])"

declare nat_str.simps [simp del]

definition str_nat :: "string \<Rightarrow> nat" where
  "str_nat s = foldl (\<lambda>acc c. 10 * acc + digit_val c) 0 s"

definition int_str :: "int \<Rightarrow> string" where
  "int_str i = (if i < 0 then CHR ''-'' # nat_str (nat (- i)) else nat_str (nat i))"

lemma of_char_digit: "d < 10 \<Longrightarrow> (of_char (digit_char d) :: nat) = 48 + d"
  by (simp add: digit_char_def)

lemma is_digit_char [simp]: "d < 10 \<Longrightarrow> is_digit (digit_char d)"
  by (simp add: is_digit_def of_char_digit)

lemma digit_val_char [simp]: "d < 10 \<Longrightarrow> digit_val (digit_char d) = d"
  by (simp add: digit_val_def of_char_digit)

lemma str_nat_snoc [simp]: "str_nat (s @ [c]) = 10 * str_nat s + digit_val c"
  by (simp add: str_nat_def)

lemma str_nat_nat_str [simp]: "str_nat (nat_str n) = n"
proof (induction n rule: nat_str.induct)
  case (1 n)
  show ?case
  proof (cases "n < 10")
    case True
    then show ?thesis by (simp add: nat_str.simps [of n] str_nat_def)
  next
    case False
    with "1.IH" show ?thesis by (simp add: nat_str.simps [of n])
  qed
qed

lemma nat_str_inj: "nat_str m = nat_str n \<longleftrightarrow> m = n"
  by (metis str_nat_nat_str)

lemma nat_str_digits: "c \<in> set (nat_str n) \<Longrightarrow> is_digit c"
proof (induction n rule: nat_str.induct)
  case (1 n)
  then show ?case by (cases "n < 10") (auto simp: nat_str.simps [of n])
qed

lemma nat_str_nonempty [simp]: "nat_str n \<noteq> []"
  by (subst nat_str.simps) simp


text \<open>The number of decimal digits, as \<open>Decimal.adjusted()\<close> counts them.\<close>

fun ndigits :: "nat \<Rightarrow> nat" where
  "ndigits n = (if n < 10 then 1 else Suc (ndigits (n div 10)))"

declare ndigits.simps [simp del]

lemma length_nat_str: "length (nat_str n) = ndigits n"
proof (induction n rule: nat_str.induct)
  case (1 n)
  then show ?case by (cases "n < 10") (simp_all add: nat_str.simps [of n] ndigits.simps [of n])
qed

end
