(* ===== verification/Enums.thy ===== *)
theory Enums
  imports Prelude
begin

text \<open>
  The string enumerations of \<open>src/redline/models.py\<close>: one constructor per member, and the
  member's \<open>.value\<close> (what JSON, hashes and proof ids contain). The exceptions of the modelled
  code are one datatype; \<open>is_value_error\<close> and \<open>is_os_error\<close> give the part of Python's class
  hierarchy that the \<open>except\<close> clauses of the code rest on.
\<close>

section \<open>Verdict vocabulary\<close>

datatype status =
    St_PASS
  | St_WITHHELD
  | St_REDUCE_SIZE
  | St_REJECT
  | St_UNVERIFIED_NO_VERDICT

fun status_value :: "status \<Rightarrow> string" where
  "status_value St_PASS = ''pass''"
| "status_value St_WITHHELD = ''withheld''"
| "status_value St_REDUCE_SIZE = ''reduce_size''"
| "status_value St_REJECT = ''reject''"
| "status_value St_UNVERIFIED_NO_VERDICT = ''unverified_no_verdict''"

lemma status_value_inj [simp]: "status_value x = status_value y \<longleftrightarrow> x = y"
  by (cases x; cases y) simp_all

datatype verdict_tier =
    Tier_ALLOW
  | Tier_REDUCE_SIZE
  | Tier_HUMAN_REVIEW
  | Tier_BLOCK

fun tier_value :: "verdict_tier \<Rightarrow> string" where
  "tier_value Tier_ALLOW = ''ALLOW''"
| "tier_value Tier_REDUCE_SIZE = ''REDUCE_SIZE''"
| "tier_value Tier_HUMAN_REVIEW = ''HUMAN_REVIEW''"
| "tier_value Tier_BLOCK = ''BLOCK''"

lemma tier_value_inj [simp]: "tier_value x = tier_value y \<longleftrightarrow> x = y"
  by (cases x; cases y) simp_all

datatype reason_code =
    RC_PASS
  | RC_NEW_BLOCK_BREACH
  | RC_RECEIPT_MISMATCH
  | RC_PROOF_HASH_MISMATCH
  | RC_LEDGER_CHAIN_BROKEN
  | RC_CHECKPOINT_MISMATCH
  | RC_EXECUTION_LEDGER_BROKEN
  | RC_MERKLE_INCLUSION_FAILED
  | RC_APPROVAL_LINK_MISMATCH
  | RC_APPROVAL_CONSUMED
  | RC_APPROVAL_EXPIRED
  | RC_CHAIN_LINK_MISMATCH
  | RC_BASELINE_UNCHAINED
  | RC_BASELINE_GENESIS
  | RC_COVERAGE_INCOMPLETE
  | RC_PROBE_ERROR
  | RC_ENGINE_FAILURE
  | RC_DATA_MISSING
  | RC_CALIBRATION_FAILED
  | RC_BASELINE_BREACHES
  | RC_BASELINE_UNRUNNABLE
  | RC_NONFINITE_VALUE
  | RC_ENGINE_IDENTITY_MISMATCH
  | RC_CANDIDATE_SANDBOX_VIOLATION
  | RC_VERDICT_PATH_VIOLATION
  | RC_RECEIPT_BINDING_FAILED
  | RC_SPONSOR_READBACK_MISMATCH
  | RC_SPONSOR_EVIDENCE_UNVERIFIED
  | RC_UNVERIFIED_NO_VERDICT
  | RC_FILE_NOT_FOUND
  | RC_PARSE_ERROR
  | RC_SCHEMA_INVALID
  | RC_VERSION_UNSUPPORTED
  | RC_OUT_OF_SCOPE

fun reason_value :: "reason_code \<Rightarrow> string" where
  "reason_value RC_PASS = ''PASS''"
| "reason_value RC_NEW_BLOCK_BREACH = ''NEW_BLOCK_BREACH''"
| "reason_value RC_RECEIPT_MISMATCH = ''RECEIPT_MISMATCH''"
| "reason_value RC_PROOF_HASH_MISMATCH = ''PROOF_HASH_MISMATCH''"
| "reason_value RC_LEDGER_CHAIN_BROKEN = ''LEDGER_CHAIN_BROKEN''"
| "reason_value RC_CHECKPOINT_MISMATCH = ''CHECKPOINT_MISMATCH''"
| "reason_value RC_EXECUTION_LEDGER_BROKEN = ''EXECUTION_LEDGER_BROKEN''"
| "reason_value RC_MERKLE_INCLUSION_FAILED = ''MERKLE_INCLUSION_FAILED''"
| "reason_value RC_APPROVAL_LINK_MISMATCH = ''APPROVAL_LINK_MISMATCH''"
| "reason_value RC_APPROVAL_CONSUMED = ''APPROVAL_CONSUMED''"
| "reason_value RC_APPROVAL_EXPIRED = ''APPROVAL_EXPIRED''"
| "reason_value RC_CHAIN_LINK_MISMATCH = ''CHAIN_LINK_MISMATCH''"
| "reason_value RC_BASELINE_UNCHAINED = ''BASELINE_UNCHAINED''"
| "reason_value RC_BASELINE_GENESIS = ''BASELINE_GENESIS''"
| "reason_value RC_COVERAGE_INCOMPLETE = ''COVERAGE_INCOMPLETE''"
| "reason_value RC_PROBE_ERROR = ''PROBE_ERROR''"
| "reason_value RC_ENGINE_FAILURE = ''ENGINE_FAILURE''"
| "reason_value RC_DATA_MISSING = ''DATA_MISSING''"
| "reason_value RC_CALIBRATION_FAILED = ''CALIBRATION_FAILED''"
| "reason_value RC_BASELINE_BREACHES = ''BASELINE_BREACHES''"
| "reason_value RC_BASELINE_UNRUNNABLE = ''BASELINE_UNRUNNABLE''"
| "reason_value RC_NONFINITE_VALUE = ''NONFINITE_VALUE''"
| "reason_value RC_ENGINE_IDENTITY_MISMATCH = ''ENGINE_IDENTITY_MISMATCH''"
| "reason_value RC_CANDIDATE_SANDBOX_VIOLATION = ''CANDIDATE_SANDBOX_VIOLATION''"
| "reason_value RC_VERDICT_PATH_VIOLATION = ''VERDICT_PATH_VIOLATION''"
| "reason_value RC_RECEIPT_BINDING_FAILED = ''RECEIPT_BINDING_FAILED''"
| "reason_value RC_SPONSOR_READBACK_MISMATCH = ''SPONSOR_READBACK_MISMATCH''"
| "reason_value RC_SPONSOR_EVIDENCE_UNVERIFIED = ''SPONSOR_EVIDENCE_UNVERIFIED''"
| "reason_value RC_UNVERIFIED_NO_VERDICT = ''UNVERIFIED_NO_VERDICT''"
| "reason_value RC_FILE_NOT_FOUND = ''FILE_NOT_FOUND''"
| "reason_value RC_PARSE_ERROR = ''PARSE_ERROR''"
| "reason_value RC_SCHEMA_INVALID = ''SCHEMA_INVALID''"
| "reason_value RC_VERSION_UNSUPPORTED = ''VERSION_UNSUPPORTED''"
| "reason_value RC_OUT_OF_SCOPE = ''OUT_OF_SCOPE''"

lemma reason_value_inj [simp]: "reason_value x = reason_value y \<longleftrightarrow> x = y"
  by (cases x; cases y) simp_all

datatype proof_kind =
    PK_PACKAGE_CANONICAL
  | PK_EDIT_PROVENANCE
  | PK_SPEC_COMPILE
  | PK_BASELINE_CALIBRATION
  | PK_REPLAY
  | PK_REPLAY_WELLFORMED
  | PK_PROBE
  | PK_COVERAGE
  | PK_CANDIDATE_ABSOLUTE
  | PK_DECISION
  | PK_SPONSOR_READBACK
  | PK_VERIFICATION

fun kind_value :: "proof_kind \<Rightarrow> string" where
  "kind_value PK_PACKAGE_CANONICAL = ''package_canonical''"
| "kind_value PK_EDIT_PROVENANCE = ''edit_provenance''"
| "kind_value PK_SPEC_COMPILE = ''spec_compile''"
| "kind_value PK_BASELINE_CALIBRATION = ''baseline_calibration''"
| "kind_value PK_REPLAY = ''replay''"
| "kind_value PK_REPLAY_WELLFORMED = ''replay_wellformed''"
| "kind_value PK_PROBE = ''probe''"
| "kind_value PK_COVERAGE = ''coverage''"
| "kind_value PK_CANDIDATE_ABSOLUTE = ''candidate_absolute''"
| "kind_value PK_DECISION = ''decision''"
| "kind_value PK_SPONSOR_READBACK = ''sponsor_readback''"
| "kind_value PK_VERIFICATION = ''verification''"

lemma kind_value_inj [simp]: "kind_value x = kind_value y \<longleftrightarrow> x = y"
  by (cases x; cases y) simp_all

datatype probe_outcome =
    PO_PASS
  | PO_BREACH
  | PO_ERRORED

fun outcome_value :: "probe_outcome \<Rightarrow> string" where
  "outcome_value PO_PASS = ''pass''"
| "outcome_value PO_BREACH = ''breach''"
| "outcome_value PO_ERRORED = ''errored''"

lemma outcome_value_inj [simp]: "outcome_value x = outcome_value y \<longleftrightarrow> x = y"
  by (cases x; cases y) simp_all

datatype probe_type =
    PT_MAX_DRAWDOWN
  | PT_NO_ENTRY_WHEN
  | PT_TRADE_BUDGET
  | PT_UNAUTHORIZED_ORDER
  | PT_SKIP_CONFIRM
  | PT_BLIND_RETRY

fun probe_type_value :: "probe_type \<Rightarrow> string" where
  "probe_type_value PT_MAX_DRAWDOWN = ''max_drawdown''"
| "probe_type_value PT_NO_ENTRY_WHEN = ''no_entry_when''"
| "probe_type_value PT_TRADE_BUDGET = ''trade_budget''"
| "probe_type_value PT_UNAUTHORIZED_ORDER = ''unauthorized_order''"
| "probe_type_value PT_SKIP_CONFIRM = ''skip_confirm''"
| "probe_type_value PT_BLIND_RETRY = ''blind_retry''"

lemma probe_type_value_inj [simp]: "probe_type_value x = probe_type_value y \<longleftrightarrow> x = y"
  by (cases x; cases y) simp_all

datatype chain_status =
    CS_CHAINED
  | CS_GENESIS
  | CS_UNCHAINED

fun chain_value :: "chain_status \<Rightarrow> string" where
  "chain_value CS_CHAINED = ''chained''"
| "chain_value CS_GENESIS = ''genesis''"
| "chain_value CS_UNCHAINED = ''unchained''"

lemma chain_value_inj [simp]: "chain_value x = chain_value y \<longleftrightarrow> x = y"
  by (cases x; cases y) simp_all

datatype verification_level =
    VL_HASH_ONLY
  | VL_REPLAYED

fun level_value :: "verification_level \<Rightarrow> string" where
  "level_value VL_HASH_ONLY = ''hash_only''"
| "level_value VL_REPLAYED = ''replayed''"

lemma level_value_inj [simp]: "level_value x = level_value y \<longleftrightarrow> x = y"
  by (cases x; cases y) simp_all

datatype verification_status =
    VS_VERIFIED
  | VS_REJECTED
  | VS_UNVERIFIED_NO_VERDICT
  | VS_BAD_INPUT

fun verification_value :: "verification_status \<Rightarrow> string" where
  "verification_value VS_VERIFIED = ''verified''"
| "verification_value VS_REJECTED = ''rejected''"
| "verification_value VS_UNVERIFIED_NO_VERDICT = ''unverified_no_verdict''"
| "verification_value VS_BAD_INPUT = ''bad_input''"

lemma verification_value_inj [simp]: "verification_value x = verification_value y \<longleftrightarrow> x = y"
  by (cases x; cases y) simp_all

section \<open>Exceptions\<close>

datatype exn =
    CanonicalizationError reason_code
  | ReplayEngineError reason_code
  | ExecutionBlocked string
  | HTTPException nat
  | IssuanceLedgerConflict
  | ValueError
  | ValidationError
  | JSONDecodeError
  | InvalidSignature
  | InvalidOperation
  | DivisionByZero
  | KeyError
  | IndexError
  | TypeError
  | AttributeError
  | OSError
  | FileNotFoundError
  | RuntimeError
  | IntegrityError

text \<open>\<open>CanonicalizationError\<close>, pydantic's \<open>ValidationError\<close> and \<open>JSONDecodeError\<close> are
  subclasses of \<open>ValueError\<close>; \<open>FileNotFoundError\<close> is an \<open>OSError\<close>.\<close>

fun is_value_error :: "exn \<Rightarrow> bool" where
  "is_value_error (CanonicalizationError r) = True"
| "is_value_error ValueError = True"
| "is_value_error ValidationError = True"
| "is_value_error JSONDecodeError = True"
| "is_value_error _ = False"

fun is_os_error :: "exn \<Rightarrow> bool" where
  "is_os_error OSError = True"
| "is_os_error FileNotFoundError = True"
| "is_os_error _ = False"

text \<open>\<open>ReasonCode(text)\<close>: \<open>None\<close> is a \<open>ValueError\<close>.\<close>

definition all_reasons :: "reason_code list" where
  "all_reasons =
    [RC_PASS, RC_NEW_BLOCK_BREACH, RC_RECEIPT_MISMATCH, RC_PROOF_HASH_MISMATCH,
     RC_LEDGER_CHAIN_BROKEN, RC_CHECKPOINT_MISMATCH, RC_EXECUTION_LEDGER_BROKEN,
     RC_MERKLE_INCLUSION_FAILED, RC_APPROVAL_LINK_MISMATCH, RC_APPROVAL_CONSUMED,
     RC_APPROVAL_EXPIRED, RC_CHAIN_LINK_MISMATCH, RC_BASELINE_UNCHAINED, RC_BASELINE_GENESIS,
     RC_COVERAGE_INCOMPLETE, RC_PROBE_ERROR, RC_ENGINE_FAILURE, RC_DATA_MISSING,
     RC_CALIBRATION_FAILED, RC_BASELINE_BREACHES, RC_BASELINE_UNRUNNABLE, RC_NONFINITE_VALUE,
     RC_ENGINE_IDENTITY_MISMATCH, RC_CANDIDATE_SANDBOX_VIOLATION, RC_VERDICT_PATH_VIOLATION,
     RC_RECEIPT_BINDING_FAILED, RC_SPONSOR_READBACK_MISMATCH, RC_SPONSOR_EVIDENCE_UNVERIFIED,
     RC_UNVERIFIED_NO_VERDICT, RC_FILE_NOT_FOUND, RC_PARSE_ERROR, RC_SCHEMA_INVALID,
     RC_VERSION_UNSUPPORTED, RC_OUT_OF_SCOPE]"

definition reason_of :: "string \<Rightarrow> reason_code option" where
  "reason_of s = find (\<lambda>r. reason_value r = s) all_reasons"

section \<open>Reason metadata (\<open>violations.py\<close>)\<close>

datatype severity = Blocking | Advisory

text \<open>\<open>_REASON_SUMMARIES\<close>: severity and recoverability of every reason code (the prose
  summaries are left out).\<close>

fun reason_meta :: "reason_code \<Rightarrow> severity \<times> bool" where
  "reason_meta RC_PASS = (Advisory, True)"
| "reason_meta RC_NEW_BLOCK_BREACH = (Blocking, True)"
| "reason_meta RC_RECEIPT_MISMATCH = (Blocking, True)"
| "reason_meta RC_PROOF_HASH_MISMATCH = (Blocking, True)"
| "reason_meta RC_LEDGER_CHAIN_BROKEN = (Blocking, True)"
| "reason_meta RC_CHECKPOINT_MISMATCH = (Blocking, True)"
| "reason_meta RC_EXECUTION_LEDGER_BROKEN = (Blocking, True)"
| "reason_meta RC_MERKLE_INCLUSION_FAILED = (Blocking, True)"
| "reason_meta RC_APPROVAL_LINK_MISMATCH = (Blocking, True)"
| "reason_meta RC_APPROVAL_CONSUMED = (Blocking, True)"
| "reason_meta RC_APPROVAL_EXPIRED = (Blocking, True)"
| "reason_meta RC_CHAIN_LINK_MISMATCH = (Blocking, True)"
| "reason_meta RC_BASELINE_UNCHAINED = (Advisory, True)"
| "reason_meta RC_BASELINE_GENESIS = (Advisory, True)"
| "reason_meta RC_COVERAGE_INCOMPLETE = (Blocking, True)"
| "reason_meta RC_PROBE_ERROR = (Blocking, True)"
| "reason_meta RC_ENGINE_FAILURE = (Blocking, True)"
| "reason_meta RC_DATA_MISSING = (Blocking, True)"
| "reason_meta RC_CALIBRATION_FAILED = (Blocking, True)"
| "reason_meta RC_BASELINE_BREACHES = (Blocking, True)"
| "reason_meta RC_BASELINE_UNRUNNABLE = (Blocking, True)"
| "reason_meta RC_NONFINITE_VALUE = (Blocking, True)"
| "reason_meta RC_ENGINE_IDENTITY_MISMATCH = (Blocking, True)"
| "reason_meta RC_CANDIDATE_SANDBOX_VIOLATION = (Blocking, False)"
| "reason_meta RC_VERDICT_PATH_VIOLATION = (Blocking, False)"
| "reason_meta RC_RECEIPT_BINDING_FAILED = (Blocking, True)"
| "reason_meta RC_SPONSOR_READBACK_MISMATCH = (Blocking, True)"
| "reason_meta RC_SPONSOR_EVIDENCE_UNVERIFIED = (Blocking, True)"
| "reason_meta RC_UNVERIFIED_NO_VERDICT = (Blocking, True)"
| "reason_meta RC_FILE_NOT_FOUND = (Blocking, True)"
| "reason_meta RC_PARSE_ERROR = (Blocking, True)"
| "reason_meta RC_SCHEMA_INVALID = (Blocking, True)"
| "reason_meta RC_VERSION_UNSUPPORTED = (Blocking, True)"
| "reason_meta RC_OUT_OF_SCOPE = (Blocking, True)"

end
