(* ===== verification/Canonical.thy ===== *)
theory Canonical
  imports Enums "HOL-Library.Multiset"
begin

text \<open>
  \<open>src/redline/canonical.py\<close>: decimals and their canonical text, the normalisation of Python
  values to JSON, the canonical JSON bytes and the hashes over them. SHA-256 itself
  (\<open>hashlib\<close>) is the parameter \<open>H\<close>, the function from the hashed bytes to the hex digest; the
  lemmas that need collision freeness ask for \<open>inj_on H\<close> on the messages they hash.
\<close>

section \<open>Decimals\<close>

text \<open>\<open>decimal.Decimal\<close>: \<open>Finite c e\<close> is \<open>c * 10 ^ e\<close> (the sign of a zero is not kept).\<close>

datatype pydec = Finite int int | Infinity bool | NaN

definition pow10 :: "int \<Rightarrow> rat" where
  "pow10 e = (if 0 \<le> e then 10 ^ nat e else 1 / 10 ^ nat (- e))"

fun dval :: "pydec \<Rightarrow> rat" where
  "dval (Finite c e) = of_int c * pow10 e"
| "dval _ = 0"

fun is_finite :: "pydec \<Rightarrow> bool" where
  "is_finite (Finite c e) = True"
| "is_finite _ = False"

text \<open>Rounding to an integer, ties to even (\<open>ROUND_HALF_EVEN\<close>).\<close>

definition round_half_even :: "rat \<Rightarrow> int" where
  "round_half_even x =
     (let f = \<lfloor>x\<rfloor>; r = x - of_int f
      in if r < 1/2 then f else if 1/2 < r then f + 1 else if even f then f else f + 1)"

lemma round_half_even_bounds:
  "\<lfloor>x\<rfloor> \<le> round_half_even x" "round_half_even x \<le> \<lfloor>x\<rfloor> + 1"
  by (auto simp: round_half_even_def Let_def)

lemma round_half_even_of_int [simp]: "round_half_even (of_int n) = n"
  by (simp add: round_half_even_def)

lemma round_half_even_0 [simp]: "round_half_even 0 = 0"
  by (simp add: round_half_even_def)

lemma round_half_even_error: "\<bar>of_int (round_half_even x) - x\<bar> \<le> 1/2"
proof -
  have "of_int \<lfloor>x\<rfloor> \<le> x" and "x < of_int \<lfloor>x\<rfloor> + 1" by linarith+
  then show ?thesis by (auto simp: round_half_even_def Let_def abs_le_iff)
qed

lemma round_half_even_mono: "x \<le> y \<Longrightarrow> round_half_even x \<le> round_half_even y"
proof -
  assume xy: "x \<le> y"
  show ?thesis
  proof (cases "\<lfloor>x\<rfloor> = \<lfloor>y\<rfloor>")
    case True
    then show ?thesis using xy by (auto simp: round_half_even_def Let_def)
  next
    case False
    with floor_mono [OF xy] have "\<lfloor>x\<rfloor> + 1 \<le> \<lfloor>y\<rfloor>" by linarith
    then show ?thesis
      using round_half_even_bounds(2) [of x] round_half_even_bounds(1) [of y] by linarith
  qed
qed

lemma round_half_even_nonneg: "0 \<le> x \<Longrightarrow> 0 \<le> round_half_even x"
  using round_half_even_mono [of 0 x] by simp

text \<open>\<open>QUANT = Decimal("1e-8")\<close>: \<open>quantize8 x\<close> is the number of \<open>1e-8\<close> units nearest to \<open>x\<close>.\<close>

definition quantize8 :: "rat \<Rightarrow> int" where
  "quantize8 x = round_half_even (x * 10 ^ 8)"

definition pad8 :: "string \<Rightarrow> string" where
  "pad8 s = replicate (8 - length s) (CHR ''0'') @ s"

definition fixed8 :: "int \<Rightarrow> string" where
  "fixed8 n =
     (if n < 0 then ''-'' else '''') @ nat_str (nat \<bar>n\<bar> div 10 ^ 8) @ ''.''
       @ pad8 (nat_str (nat \<bar>n\<bar> mod 10 ^ 8))"

text \<open>\<open>canonical_number\<close>: quantize to eight decimals; every zero is the text \<open>0\<close>. The local
  context's precision never limits \<open>quantize\<close>, its \<open>Emax = 999999\<close> does: a result of more than
  1000000 integer digits is an \<open>InvalidOperation\<close>, raised again as the same error.\<close>

definition quantize_overflow :: "int \<Rightarrow> bool" where
  "quantize_overflow q = (1000008 < ndigits (nat \<bar>q\<bar>))"

definition canonical_number :: "pydec \<Rightarrow> exn + string" where
  "canonical_number d =
     (if is_finite d
      then (let q = quantize8 (dval d)
            in if quantize_overflow q then Inl (CanonicalizationError RC_NONFINITE_VALUE)
               else Inr (if q = 0 then ''0'' else fixed8 q))
      else Inl (CanonicalizationError RC_NONFINITE_VALUE))"

text \<open>Parsing of \<open>Decimal(text)\<close> for ASCII text; \<open>None\<close> is \<open>InvalidOperation\<close>.\<close>

definition is_space :: "char \<Rightarrow> bool" where
  "is_space c = (let n = (of_char c :: nat) in n = 32 \<or> (9 \<le> n \<and> n \<le> 13) \<or> (28 \<le> n \<and> n \<le> 31))"

definition strip :: "string \<Rightarrow> string" where
  "strip s = rev (dropWhile is_space (rev (dropWhile is_space s)))"

definition ascii_lower :: "char \<Rightarrow> char" where
  "ascii_lower c = (let n = (of_char c :: nat) in if 65 \<le> n \<and> n \<le> 90 then char_of (n + 32) else c)"

definition lower :: "string \<Rightarrow> string" where
  "lower s = map ascii_lower s"

definition split_sign :: "string \<Rightarrow> bool \<times> string" where
  "split_sign s =
     (case s of [] \<Rightarrow> (False, [])
      | c # r \<Rightarrow> if c = CHR ''-'' then (True, r) else if c = CHR ''+'' then (False, r) else (False, s))"

definition all_digits :: "string \<Rightarrow> bool" where
  "all_digits s = (s \<noteq> [] \<and> list_all is_digit s)"

definition signed :: "bool \<Rightarrow> nat \<Rightarrow> int" where
  "signed neg n = (if neg then - int n else int n)"

definition parse_exponent :: "string \<Rightarrow> int option" where
  "parse_exponent s =
     (case s of [] \<Rightarrow> Some 0
      | c # r \<Rightarrow>
          if ascii_lower c = CHR ''e''
          then (let (neg, t) = split_sign r
                in if all_digits t then Some (signed neg (str_nat t)) else None)
          else None)"

definition is_nan_text :: "string \<Rightarrow> bool" where
  "is_nan_text s =
     ((startswith s ''nan'' \<and> list_all is_digit (drop 3 s)) \<or>
      (startswith s ''snan'' \<and> list_all is_digit (drop 4 s)))"

definition parse_decimal :: "string \<Rightarrow> pydec option" where
  "parse_decimal s =
     (let (neg, u) = split_sign (filter (\<lambda>c. c \<noteq> CHR ''_'') (strip s));
          w = lower u
      in if w = ''inf'' \<or> w = ''infinity'' then Some (Infinity neg)
         else if is_nan_text w then Some NaN
         else
           let ip = takeWhile is_digit u; r1 = dropWhile is_digit u;
               (fp, r2) = (case r1 of [] \<Rightarrow> ([], [])
                           | c # r \<Rightarrow> if c = CHR ''.''
                                      then (takeWhile is_digit r, dropWhile is_digit r)
                                      else ([], r1))
           in if ip @ fp = [] then None
              else map_option (\<lambda>e. Finite (signed neg (str_nat (ip @ fp))) (e - int (length fp)))
                     (parse_exponent r2))"

text \<open>\<open>int(text)\<close> for ASCII text; \<open>None\<close> is \<open>ValueError\<close>. Underscores only between digits.\<close>

fun underscores_ok :: "string \<Rightarrow> bool" where
  "underscores_ok [] = True"
| "underscores_ok [c] = is_digit c"
| "underscores_ok (c # d # r) =
     ((is_digit c \<or> (c = CHR ''_'' \<and> is_digit d)) \<and> underscores_ok (d # r))"

definition parse_int :: "string \<Rightarrow> int option" where
  "parse_int s =
     (let (neg, u) = split_sign (strip s)
      in case u of [] \<Rightarrow> None
         | c # r \<Rightarrow> if is_digit c \<and> underscores_ok u
                    then Some (signed neg (str_nat (filter (\<lambda>c. c \<noteq> CHR ''_'') u))) else None)"

section \<open>JSON text\<close>

datatype json =
    JNull
  | JBool bool
  | JInt int
  | JStr string
  | JList "json list"
  | JObj "(string \<times> json) list"

definition hex_char :: "nat \<Rightarrow> char" where
  "hex_char n = (if n < 10 then char_of (48 + n) else char_of (87 + n))"

definition hex_val :: "char \<Rightarrow> nat" where
  "hex_val c = (let n = of_char c in if n < 58 then n - 48 else n - 87)"

text \<open>The escapes of \<open>json.dumps(ensure_ascii=False)\<close>.\<close>

definition esc_char :: "char \<Rightarrow> string" where
  "esc_char c =
     (let n = (of_char c :: nat)
      in if n = 34 then [CHR 0x5C, CHR 0x22]
         else if n = 92 then [CHR 0x5C, CHR 0x5C]
         else if n = 10 then [CHR 0x5C, CHR ''n'']
         else if n = 13 then [CHR 0x5C, CHR ''r'']
         else if n = 9 then [CHR 0x5C, CHR ''t'']
         else if n = 12 then [CHR 0x5C, CHR ''f'']
         else if n = 8 then [CHR 0x5C, CHR ''b'']
         else if n < 32 then [CHR 0x5C, CHR ''u'', CHR ''0'', CHR ''0'', hex_char (n div 16), hex_char (n mod 16)]
         else [c])"

definition dumps_str :: "string \<Rightarrow> string" where
  "dumps_str s = CHR 0x22 # concat (map esc_char s) @ [CHR 0x22]"

text \<open>\<open>json.dumps(..., separators=(",", ":"))\<close>; the flag says whether the next item is the
  first of its list or object.\<close>

fun dumps :: "json \<Rightarrow> string"
  and dumps_elems :: "bool \<Rightarrow> json list \<Rightarrow> string"
  and dumps_members :: "bool \<Rightarrow> (string \<times> json) list \<Rightarrow> string" where
  "dumps JNull = ''null''"
| "dumps (JBool b) = (if b then ''true'' else ''false'')"
| "dumps (JInt i) = int_str i"
| "dumps (JStr s) = dumps_str s"
| "dumps (JList xs) = CHR ''['' # dumps_elems True xs"
| "dumps (JObj kvs) = CHR ''{'' # dumps_members True kvs"
| "dumps_elems first [] = '']''"
| "dumps_elems first (x # xs) = (if first then '''' else '','') @ dumps x @ dumps_elems False xs"
| "dumps_members first [] = ''}''"
| "dumps_members first ((k, v) # r) =
     (if first then '''' else '','') @ dumps_str k @ '':'' @ dumps v @ dumps_members False r"

text \<open>\<open>sort_keys=True\<close>: every object's members in key order.\<close>

fun sort_keys :: "json \<Rightarrow> json" where
  "sort_keys (JList xs) = JList (map sort_keys xs)"
| "sort_keys (JObj kvs) = JObj (map (\<lambda>(k, v). (k, sort_keys v)) (sort_key fst kvs))"
| "sort_keys j = j"

subsection \<open>The text determines the value\<close>

text \<open>Reading one escaped character back.\<close>

definition unesc :: "string \<Rightarrow> char \<times> string" where
  "unesc s =
     (case s of
        a # b # r \<Rightarrow>
          if a \<noteq> CHR 0x5C then (a, b # r)
          else if b = CHR ''n'' then (CHR 0x0A, r)
          else if b = CHR ''r'' then (CHR 0x0D, r)
          else if b = CHR ''t'' then (CHR 0x09, r)
          else if b = CHR ''f'' then (CHR 0x0C, r)
          else if b = CHR ''b'' then (CHR 0x08, r)
          else if b = CHR ''u''
               then (char_of (16 * hex_val (r ! 2) + hex_val (r ! 3)), drop 4 r)
          else (b, r)
      | [a] \<Rightarrow> (a, [])
      | [] \<Rightarrow> (CHR 0x00, []))"

lemma hex_val_char: "n < 16 \<Longrightarrow> hex_val (hex_char n) = n"
  by (auto simp: hex_val_def hex_char_def Let_def)

lemma char_eq_of_char: "c = d \<longleftrightarrow> (of_char c :: nat) = of_char d"
  by (metis char_of_char)

lemma unesc_esc: "unesc (esc_char c @ t) = (c, t)"
proof -
  have "16 * (of_char c div 16) + of_char c mod 16 = (of_char c :: nat)" by simp
  then show ?thesis
    by (cases t) (auto simp: esc_char_def unesc_def Let_def hex_val_char char_eq_of_char)
qed

lemma esc_char_hd: "esc_char c \<noteq> [] \<and> hd (esc_char c) \<noteq> CHR 0x22"
  by (auto simp: esc_char_def Let_def char_eq_of_char)

lemma esc_text_inj:
  "concat (map esc_char s) @ CHR 0x22 # r = concat (map esc_char s') @ CHR 0x22 # r' \<Longrightarrow>
   s = s' \<and> r = r'"
proof (induction s arbitrary: s')
  case Nil
  then show ?case using esc_char_hd by (cases s') (auto, metis hd_append2 list.sel(1))
next
  case (Cons c s)
  note prem = Cons.prems
  show ?case
  proof (cases s')
    case Nil
    with prem esc_char_hd [of c] show ?thesis by (auto, metis hd_append2 list.sel(1))
  next
    case (Cons c' t')
    let ?u = "concat (map esc_char s) @ CHR 0x22 # r"
    let ?u' = "concat (map esc_char t') @ CHR 0x22 # r'"
    from prem Cons have "esc_char c @ ?u = esc_char c' @ ?u'" by simp
    then have "(c, ?u) = (c', ?u')" by (metis unesc_esc)
    with Cons.IH [of t'] Cons show ?thesis by simp
  qed
qed

lemma dumps_str_inj: "dumps_str s @ r = dumps_str s' @ r' \<Longrightarrow> s = s' \<and> r = r'"
  using esc_text_inj [of s r s' r'] by (simp add: dumps_str_def)

definition stops :: "string \<Rightarrow> bool" where
  "stops r = (r = [] \<or> hd r \<in> {CHR '','', CHR '']'', CHR ''}''})"

lemma stops_not_digit: "stops r \<Longrightarrow> r = [] \<or> \<not> is_digit (hd r)"
  by (auto simp: stops_def is_digit_def)

lemma digits_takeWhile: "stops r \<Longrightarrow> takeWhile is_digit (nat_str n @ r) = nat_str n"
proof -
  assume "stops r"
  then have "r = [] \<or> \<not> is_digit (hd r)" by (rule stops_not_digit)
  then have "takeWhile is_digit r = []" by (cases r) auto
  moreover have "\<And>c. c \<in> set (nat_str n) \<Longrightarrow> is_digit c" by (rule nat_str_digits)
  ultimately show ?thesis by (simp add: takeWhile_append2)
qed

lemma nat_str_hd_digit: "is_digit (hd (nat_str n))"
  by (rule nat_str_digits [of _ n]) simp

lemma int_str_inj:
  assumes "stops r" "stops r'" and eq: "int_str i @ r = int_str j @ r'"
  shows "i = j \<and> r = r'"
proof -
  have minus: "\<not> is_digit (CHR ''-'')" by (simp add: is_digit_def)
  have neg: "(hd (int_str k @ s) = CHR ''-'') = (k < 0)" for k s
    using nat_str_hd_digit [of "nat k"] minus by (auto simp: int_str_def)
  from eq neg have sign: "(i < 0) = (j < 0)" by metis
  let ?n = "nat \<bar>i\<bar>" and ?m = "nat \<bar>j\<bar>"
  from eq sign have core: "nat_str ?n @ r = nat_str ?m @ r'"
    by (auto simp: int_str_def split: if_splits)
  then have "nat_str ?n = nat_str ?m" using assms(1,2) by (metis digits_takeWhile)
  then have "?n = ?m" by (simp add: nat_str_inj)
  with core sign show ?thesis by auto
qed

datatype tok = TWord | TNum | TStr | TList | TObj

fun tok_of :: "json \<Rightarrow> tok" where
  "tok_of (JInt i) = TNum"
| "tok_of (JStr s) = TStr"
| "tok_of (JList xs) = TList"
| "tok_of (JObj kvs) = TObj"
| "tok_of _ = TWord"

definition tok_char :: "char \<Rightarrow> tok option" where
  "tok_char c =
     (if c \<in> {CHR ''n'', CHR ''t'', CHR ''f''} then Some TWord
      else if is_digit c \<or> c = CHR ''-'' then Some TNum
      else if c = CHR 0x22 then Some TStr else if c = CHR ''['' then Some TList
      else if c = CHR ''{'' then Some TObj else None)"

lemma dumps_nonempty [simp]: "dumps j \<noteq> []"
  by (cases j) (auto simp: dumps_str_def int_str_def)

lemma tok_char_dumps: "tok_char (hd (dumps j)) = Some (tok_of j)"
proof (cases j)
  case (JInt i)
  have d: "tok_char c = Some TNum" if "is_digit c" for c
    using that by (auto simp: tok_char_def is_digit_def)
  have "tok_char (CHR ''-'') = Some TNum" by (simp add: tok_char_def is_digit_def)
  then show ?thesis using JInt d [OF nat_str_hd_digit] by (simp add: int_str_def)
qed (auto simp: tok_char_def dumps_str_def is_digit_def)

lemma dumps_tok: "dumps x @ r = dumps y @ r' \<Longrightarrow> tok_of x = tok_of y"
  by (metis dumps_nonempty hd_append2 option.inject tok_char_dumps)

lemma dumps_not_close: "dumps x @ r \<noteq> CHR '']'' # s"
proof
  assume "dumps x @ r = CHR '']'' # s"
  then have "hd (dumps x) = CHR '']''" by (metis dumps_nonempty hd_append2 list.sel(1))
  then show False using tok_char_dumps [of x] by (simp add: tok_char_def is_digit_def)
qed

lemma stops_rest [simp]:
  "stops (dumps_elems False xs @ r)" "stops (dumps_members False kvs @ r)"
  by (cases xs; simp add: stops_def) (cases kvs; auto simp: stops_def)

theorem dumps_decodes:
  "\<And>y r r'. stops r \<Longrightarrow> stops r' \<Longrightarrow> dumps x @ r = dumps y @ r' \<Longrightarrow> x = y \<and> r = r'"
  "\<And>ys r r'. dumps_elems first xs @ r = dumps_elems first ys @ r' \<Longrightarrow> xs = ys \<and> r = r'"
  "\<And>ms r r'. dumps_members first' kvs @ r = dumps_members first' ms @ r' \<Longrightarrow> kvs = ms \<and> r = r'"
proof (induction x and first xs and first' kvs rule: dumps_dumps_elems_dumps_members.induct)
  case 1
  from dumps_tok [OF "1.prems"(3)] have "tok_of y = TWord" by simp
  with 1 show ?case by (cases y) (auto split: if_splits)
next
  case (2 b)
  from dumps_tok [OF "2.prems"(3)] have "tok_of y = TWord" by simp
  with 2 show ?case by (cases y) (auto split: if_splits)
next
  case (3 i)
  from dumps_tok [OF "3.prems"(3)] have "tok_of y = TNum" by simp
  with 3 show ?case by (cases y) (auto dest: int_str_inj)
next
  case (4 s)
  from dumps_tok [OF "4.prems"(3)] have "tok_of y = TStr" by simp
  with 4 show ?case by (cases y) (auto dest: dumps_str_inj)
next
  case (5 xs)
  from dumps_tok [OF "5.prems"(3)] have "tok_of y = TList" by simp
  then obtain ys where y: "y = JList ys" by (cases y) simp_all
  with "5.prems"(3) have "dumps_elems True xs @ r = dumps_elems True ys @ r'" by simp
  from "5.IH" [OF this] y show ?case by simp
next
  case (6 kvs)
  from dumps_tok [OF "6.prems"(3)] have "tok_of y = TObj" by simp
  then obtain ms where y: "y = JObj ms" by (cases y) simp_all
  with "6.prems"(3) have "dumps_members True kvs @ r = dumps_members True ms @ r'" by simp
  from "6.IH" [OF this] y show ?case by simp
next
  case (7 first)
  show ?case
  proof (cases ys)
    case Nil
    with 7 show ?thesis by simp
  next
    case (Cons y ys')
    with 7 have "dumps y @ (dumps_elems False ys' @ r') = CHR '']'' # r"
      by (cases first) auto
    then show ?thesis using dumps_not_close by blast
  qed
next
  case (8 first x xs)
  show ?case
  proof (cases ys)
    case Nil
    with "8.prems" have "dumps x @ (dumps_elems False xs @ r) = CHR '']'' # r'"
      by (cases first) auto
    then show ?thesis using dumps_not_close by blast
  next
    case (Cons y ys')
    with "8.prems" have "dumps x @ (dumps_elems False xs @ r) = dumps y @ (dumps_elems False ys' @ r')"
      by (auto split: if_splits)
    then have "x = y \<and> dumps_elems False xs @ r = dumps_elems False ys' @ r'"
      by (intro "8.IH"(1)) simp_all
    with "8.IH"(2) [of r ys' r'] Cons show ?thesis by auto
  qed
next
  case (9 first)
  then show ?case by (cases ms) (auto simp: dumps_str_def split: if_splits)
next
  case (10 first k v rest)
  show ?case
  proof (cases ms)
    case Nil
    with "10.prems" show ?thesis by (auto simp: dumps_str_def split: if_splits)
  next
    case (Cons m ms')
    obtain k' v' where m: "m = (k', v')" by (cases m)
    from "10.prems" Cons m have
      "dumps_str k @ (CHR '':'' # dumps v @ dumps_members False rest @ r)
       = dumps_str k' @ (CHR '':'' # dumps v' @ dumps_members False ms' @ r')"
      by (auto split: if_splits)
    from dumps_str_inj [OF this] have k: "k = k'"
      and v: "dumps v @ (dumps_members False rest @ r) = dumps v' @ (dumps_members False ms' @ r')"
      by auto
    from v have "v = v' \<and> dumps_members False rest @ r = dumps_members False ms' @ r'"
      by (intro "10.IH"(1)) simp_all
    with "10.IH"(2) [of r ms' r'] k Cons m show ?thesis by auto
  qed
qed

lemma dumps_inj: "dumps x = dumps y \<longleftrightarrow> x = y"
  using dumps_decodes(1) [of "[]" "[]" x y] by (auto simp: stops_def)

section \<open>Normalisation and hashing\<close>

text \<open>The Python values that reach \<open>normalize\<close>. \<open>PFloat\<close> holds the text \<open>str\<close> gives the float, \<open>PModel\<close> is a pydantic model with its fields in
  declaration order, \<open>PDict\<close> a plain dict (its keys already text), \<open>POther\<close> any other type.\<close>

datatype pyval =
    PNone
  | PBool bool
  | PInt int
  | PStr string
  | PDec pydec
  | PFloat string
  | PEnum string
  | PPath string
  | PList "pyval list"
  | PDict "(string \<times> pyval) list"
  | PModel "(string \<times> pyval) list"
  | POther

lemma size_in_sort_key:
  "(k, v) \<in> set (sort_key fst (filter P kvs)) \<Longrightarrow> size v < Suc (size_list (size_prod (\<lambda>x. 0) size) kvs)"
  "(k, v) \<in> set (sort_key fst kvs) \<Longrightarrow> size v < Suc (size_list (size_prod (\<lambda>x. 0) size) kvs)"
proof -
  have "(k, v) \<in> set kvs \<Longrightarrow> size v < Suc (size_list (size_prod (\<lambda>x. 0) size) kvs)"
    using size_list_estimation' [of "(k, v)" kvs "size v" "size_prod (\<lambda>x. 0) size"] by simp
  then show "(k, v) \<in> set (sort_key fst (filter P kvs)) \<Longrightarrow> size v < Suc (size_list (size_prod (\<lambda>x. 0) size) kvs)"
    and "(k, v) \<in> set (sort_key fst kvs) \<Longrightarrow> size v < Suc (size_list (size_prod (\<lambda>x. 0) size) kvs)"
    by auto
qed

definition kept :: "bool \<Rightarrow> string \<times> pyval \<Rightarrow> bool" where
  "kept exclude_none kv = (\<not> (exclude_none \<and> snd kv = PNone))"

function normalize :: "bool \<Rightarrow> pyval \<Rightarrow> exn + json" where
  "normalize en PNone = Inr JNull"
| "normalize en (PBool b) = Inr (JBool b)"
| "normalize en (PInt i) = Inr (JInt i)"
| "normalize en (PStr s) = Inr (JStr s)"
| "normalize en (PDec d) = rbind (canonical_number d) (\<lambda>s. Inr (JStr s))"
| "normalize en (PFloat t) = Inl (CanonicalizationError RC_NONFINITE_VALUE)"
| "normalize en (PEnum s) = Inr (JStr s)"
| "normalize en (PPath s) = Inr (JStr s)"
| "normalize en (PList xs) = rbind (traverse (normalize en) xs) (\<lambda>js. Inr (JList js))"
| "normalize en (PDict kvs) =
     rbind (traverse (\<lambda>(k, v). rbind (normalize en v) (\<lambda>j. Inr (k, j))) (sort_key fst kvs))
       (\<lambda>js. Inr (JObj js))"
| "normalize en (PModel kvs) =
     rbind (traverse (\<lambda>(k, v). rbind (normalize en v) (\<lambda>j. Inr (k, j)))
              (sort_key fst (filter (kept en) kvs)))
       (\<lambda>js. Inr (JObj js))"
| "normalize en POther = Inl (CanonicalizationError RC_SCHEMA_INVALID)"
  by pat_completeness auto
termination
  by (relation "measure (size \<circ> snd)")
     (auto simp: size_list_estimation' size_in_sort_key dest: size_in_sort_key less_Suc_eq_le [THEN iffD1]
       intro: less_Suc_eq_le [THEN iffD2])

definition canonical_bytes :: "bool \<Rightarrow> pyval \<Rightarrow> exn + string" where
  "canonical_bytes en v = rbind (normalize en v) (\<lambda>j. Inr (dumps (sort_keys j)))"

definition sha256_bytes :: "(string \<Rightarrow> string) \<Rightarrow> string \<Rightarrow> string" where
  "sha256_bytes H b = ''sha256:'' @ H b"

text \<open>Values that \<open>normalize\<close> accepts: finite numbers that \<open>quantize\<close> can hold, no floats and no
  other types.\<close>

lemma length_nat_str_bound: "n < 10 ^ k \<Longrightarrow> 0 < k \<Longrightarrow> length (nat_str n) \<le> k"
proof (induction n arbitrary: k rule: nat_str.induct)
  case (1 n)
  show ?case
  proof (cases "n < 10")
    case True
    with "1.prems" show ?thesis by (subst nat_str.simps) simp
  next
    case False
    have "k \<noteq> 1" using "1.prems"(1) False by auto
    then have "1 < k" using "1.prems"(2) by simp
    then obtain m where k: "k = Suc m" "0 < m" by (cases k) auto
    have "n div 10 < 10 ^ m" using "1.prems"(1) k by (simp add: less_mult_imp_div_less mult.commute)
    with "1.IH" [OF False this k(2)] False k show ?thesis by (subst nat_str.simps) simp
  qed
qed

lemma quantize_overflow_code [code]:
  "quantize_overflow q = (if \<bar>q\<bar> < 10 ^ 40 then False else 1000008 < ndigits (nat \<bar>q\<bar>))"
proof (cases "\<bar>q\<bar> < 10 ^ 40")
  case True
  then have "nat \<bar>q\<bar> < 10 ^ 40" by (simp add: nat_less_iff)
  from length_nat_str_bound [OF this] True show ?thesis by (simp add: quantize_overflow_def length_nat_str)
qed (simp add: quantize_overflow_def)

fun plain :: "pyval \<Rightarrow> bool" where
  "plain (PDec d) = (is_finite d \<and> \<not> quantize_overflow (quantize8 (dval d)))"
| "plain (PFloat t) = False"
| "plain POther = False"
| "plain (PList xs) = list_all plain xs"
| "plain (PDict kvs) = list_all (\<lambda>(k, v). plain v) kvs"
| "plain (PModel kvs) = list_all (\<lambda>(k, v). plain v) kvs"
| "plain _ = True"

lemma traverse_total:
  "(\<And>x. x \<in> set xs \<Longrightarrow> \<exists>y. f x = Inr y) \<Longrightarrow> \<exists>ys. traverse f xs = Inr ys"
proof (induction xs)
  case (Cons x xs)
  from Cons.prems [of x] obtain y where "f x = Inr y" by auto
  moreover from Cons.IH Cons.prems obtain ys where "traverse f xs = Inr ys" by auto
  ultimately show ?case by simp
qed simp

lemma plain_normalizes: "plain v \<Longrightarrow> \<exists>j. normalize en v = Inr j"
proof (induction en v rule: normalize.induct)
  case (9 en xs)
  then have "\<exists>js. traverse (normalize en) xs = Inr js"
    by (intro traverse_total) (auto simp: list_all_iff)
  then show ?case by auto
next
  case (10 en kvs)
  have "\<exists>js. traverse (\<lambda>(k, v). rbind (normalize en v) (\<lambda>j. Inr (k, j))) (sort_key fst kvs) = Inr js"
  proof (rule traverse_total)
    fix x assume x: "x \<in> set (sort_key fst kvs)"
    obtain k v where kv: "x = (k, v)" by (cases x)
    with x "10.prems" have "plain v" by (auto simp: list_all_iff)
    with "10.IH" [OF x kv [symmetric]] kv show "\<exists>y. (case x of (k, v) \<Rightarrow> rbind (normalize en v) (\<lambda>j. Inr (k, j))) = Inr y"
      by auto
  qed
  then show ?case by auto
next
  case (11 en kvs)
  have "\<exists>js. traverse (\<lambda>(k, v). rbind (normalize en v) (\<lambda>j. Inr (k, j))) (sort_key fst (filter (kept en) kvs)) = Inr js"
  proof (rule traverse_total)
    fix x assume x: "x \<in> set (sort_key fst (filter (kept en) kvs))"
    obtain k v where kv: "x = (k, v)" by (cases x)
    with x "11.prems" have "plain v" by (auto simp: list_all_iff)
    with "11.IH" [OF x kv [symmetric]] kv show "\<exists>y. (case x of (k, v) \<Rightarrow> rbind (normalize en v) (\<lambda>j. Inr (k, j))) = Inr y"
      by auto
  qed
  then show ?case by auto
qed (auto simp: canonical_number_def Let_def)

text \<open>The hash of a value that is JSON already (text, numbers, dicts and lists of them).\<close>

definition hash_json :: "(string \<Rightarrow> string) \<Rightarrow> json \<Rightarrow> string" where
  "hash_json H j = sha256_bytes H (dumps (sort_keys j))"

definition hash_obj :: "(string \<Rightarrow> string) \<Rightarrow> bool \<Rightarrow> pyval \<Rightarrow> exn + string" where
  "hash_obj H en v = rbind (canonical_bytes en v) (\<lambda>b. Inr (sha256_bytes H b))"

lemma traverse_pairs_keys:
  "traverse (\<lambda>(k, v). rbind (f v) (\<lambda>j. Inr (k, j))) kvs = Inr js \<Longrightarrow>
   map fst js = map fst kvs \<and> (\<forall>(k, j) \<in> set js. \<exists>v. (k, v) \<in> set kvs \<and> f v = Inr j)"
  by (induction kvs arbitrary: js) (fastforce simp: rbind_Inr_iff)+

lemma sort_key_sorted_id: "sorted (map f xs) \<Longrightarrow> sort_key f xs = xs"
  by (induction xs) (simp_all add: insort_is_Cons)

lemma sort_keys_JObj_id:
  assumes "traverse (\<lambda>(k, v). rbind (f v) (\<lambda>j. Inr (k, j))) (sort_key fst kvs) = Inr js"
    and "\<And>k v j. (k, v) \<in> set kvs \<Longrightarrow> f v = Inr j \<Longrightarrow> sort_keys j = j"
  shows "sort_keys (JObj js) = JObj js"
proof -
  from traverse_pairs_keys [OF assms(1)] have keys: "map fst js = map fst (sort_key fst kvs)"
    and vals: "\<forall>(k, j) \<in> set js. \<exists>v. (k, v) \<in> set kvs \<and> f v = Inr j" by auto
  have "sorted (map fst js)" unfolding keys by simp
  then have "sort_key fst js = js" by (rule sort_key_sorted_id)
  moreover have "map (\<lambda>(k, v). (k, sort_keys v)) js = js"
    by (rule map_idI) (use vals assms(2) in fastforce)
  ultimately show ?thesis by simp
qed

text \<open>Normalised values are already in key order: \<open>sort_keys=True\<close> changes nothing.\<close>

lemma normalize_sorted: "normalize en v = Inr j \<Longrightarrow> sort_keys j = j"
proof (induction en v arbitrary: j rule: normalize.induct)
  case (9 en xs)
  then obtain js where js: "traverse (normalize en) xs = Inr js" "j = JList js"
    by (auto simp: rbind_Inr_iff)
  have "map sort_keys js = js"
    by (rule map_idI) (use "9.IH" js(1) in \<open>blast dest: traverse_set\<close>)
  with js show ?case by simp
next
  case (10 en kvs)
  then obtain js where js: "traverse (\<lambda>(k, v). rbind (normalize en v) (\<lambda>j. Inr (k, j))) (sort_key fst kvs) = Inr js"
    "j = JObj js" by (auto simp: rbind_Inr_iff)
  show ?case unfolding js(2)
    by (rule sort_keys_JObj_id [OF js(1)]) (rule "10.IH"; simp)
next
  case (11 en kvs)
  then obtain js where js: "traverse (\<lambda>(k, v). rbind (normalize en v) (\<lambda>j. Inr (k, j)))
      (sort_key fst (filter (kept en) kvs)) = Inr js"
    "j = JObj js" by (auto simp: rbind_Inr_iff)
  show ?case unfolding js(2)
    by (rule sort_keys_JObj_id [OF js(1)]) (rule "11.IH"; simp)
qed (auto simp: rbind_Inr_iff)

lemma canonical_bytes_Inr:
  "canonical_bytes en v = Inr b \<longleftrightarrow> (\<exists>j. normalize en v = Inr j \<and> b = dumps j)"
  by (auto simp: canonical_bytes_def rbind_Inr_iff normalize_sorted)

text \<open>Equal canonical bytes mean equal normalised values; with a collision-free digest on the two
  messages, so do equal hashes.\<close>

lemma canonical_bytes_inj:
  "canonical_bytes en v = Inr b \<Longrightarrow> canonical_bytes en' w = Inr b \<Longrightarrow> normalize en v = normalize en' w"
  by (auto simp: canonical_bytes_Inr dumps_inj)

lemma sha256_bytes_eq_iff [hash_simps]: "sha256_bytes H a = sha256_bytes H b \<longleftrightarrow> H a = H b"
  by (simp add: sha256_bytes_def)

lemma hash_obj_normal: "normalize en v = Inr j \<Longrightarrow> hash_obj H en v = Inr (hash_json H j)"
  by (simp add: hash_obj_def canonical_bytes_def hash_json_def)

lemma plain_hashes: "plain v \<Longrightarrow> \<exists>h. hash_obj H en v = Inr h"
  using plain_normalizes [of v en] by (auto simp: hash_obj_normal)

lemma hash_obj_Inr:
  "hash_obj H en v = Inr h \<longleftrightarrow> (\<exists>b. canonical_bytes en v = Inr b \<and> h = sha256_bytes H b)"
  by (auto simp: hash_obj_def rbind_Inr_iff)

lemma hash_obj_inj:
  assumes "hash_obj H en v = Inr h" "hash_obj H en' w = Inr h"
    and "\<And>a b. canonical_bytes en v = Inr a \<Longrightarrow> canonical_bytes en' w = Inr b \<Longrightarrow> H a = H b \<Longrightarrow> a = b"
  shows "normalize en v = normalize en' w"
proof -
  from assms(1) obtain a where a: "canonical_bytes en v = Inr a" "h = sha256_bytes H a"
    by (auto simp: hash_obj_Inr)
  from assms(2) obtain b where b: "canonical_bytes en' w = Inr b" "h = sha256_bytes H b"
    by (auto simp: hash_obj_Inr)
  from a b have "H a = H b" by (simp add: hash_simps)
  with assms(3) a b have "a = b" by blast
  with a b have "canonical_bytes en' w = Inr a" by simp
  from canonical_bytes_inj [OF a(1) this] show ?thesis .
qed

section \<open>Canonical numbers read back\<close>

lemma str_nat_append: "str_nat (s @ t) = str_nat s * 10 ^ length t + str_nat t"
proof (induction t rule: rev_induct)
  case Nil
  then show ?case by (simp add: str_nat_def)
next
  case (snoc c t)
  then show ?case
    by (simp add: append_assoc [symmetric] algebra_simps del: append_assoc)
qed

lemma str_nat_zeros [simp]: "str_nat (replicate n (CHR ''0'')) = 0"
  by (induction n) (simp_all add: str_nat_def digit_val_def)

lemma pad8_facts:
  assumes "n < 10 ^ 8"
  shows "length (pad8 (nat_str n)) = 8" "str_nat (pad8 (nat_str n)) = n"
    "list_all is_digit (pad8 (nat_str n))"
proof -
  from length_nat_str_bound [OF assms] have "length (nat_str n) \<le> 8" by simp
  then show "length (pad8 (nat_str n)) = 8" by (simp add: pad8_def)
  show "str_nat (pad8 (nat_str n)) = n" by (simp add: pad8_def str_nat_append)
  have "is_digit (CHR ''0'')" by (simp add: is_digit_def)
  then show "list_all is_digit (pad8 (nat_str n))"
    by (auto simp: pad8_def list_all_iff intro: nat_str_digits)
qed


lemma digit_facts:
  assumes "is_digit c"
  shows "\<not> is_space c" "ascii_lower c = c" "c \<noteq> CHR ''_''" "c \<noteq> CHR ''-''" "c \<noteq> CHR ''+''" "c \<noteq> CHR ''.''"
    "c \<noteq> CHR ''i''" "c \<noteq> CHR ''n''" "c \<noteq> CHR ''s''"
  using assms by (auto simp: is_digit_def is_space_def ascii_lower_def Let_def)

lemma strip_id: "s \<noteq> [] \<Longrightarrow> \<not> is_space (hd s) \<Longrightarrow> \<not> is_space (last s) \<Longrightarrow> strip s = s"
proof -
  assume s: "s \<noteq> []" "\<not> is_space (hd s)" "\<not> is_space (last s)"
  then show ?thesis by (simp add: strip_def dropWhile_eq_self_iff [THEN iffD2] hd_rev)
qed

text \<open>A plain decimal literal: sign, digits, and a fraction where there is one.\<close>

definition fraction :: "string \<Rightarrow> string" where
  "fraction fp = (if fp = [] then [] else CHR ''.'' # fp)"

lemma parse_decimal_plain:
  assumes ip: "list_all is_digit ip" "ip \<noteq> []" and fp: "list_all is_digit fp"
  shows "parse_decimal ((if neg then ''-'' else '''') @ ip @ fraction fp)
         = Some (Finite (signed neg (str_nat (ip @ fp))) (- int (length fp)))"
proof -
  let ?u = "ip @ fraction fp" and ?s = "(if neg then ''-'' else '''') @ ip @ fraction fp"
  obtain c r where c: "ip = c # r" "is_digit c" using ip by (cases ip) auto
  have "is_digit (last ip)" using ip by (metis last_in_set list_all_iff)
  then have lst: "is_digit (last ?u)"
    using fp ip by (auto simp: fraction_def list_all_iff last_in_set)
  have chars: "is_digit x \<or> x = CHR ''.''" if "x \<in> set ?u" for x
    using that ip fp by (auto simp: list_all_iff fraction_def split: if_splits)
  have strip: "strip ?s = ?s"
  proof (rule strip_id)
    show "\<not> is_space (hd ?s)" using c digit_facts(1) by (cases neg) (simp_all add: is_space_def)
    have "last ?s = last ?u" using c by simp
    with lst digit_facts(1) show "\<not> is_space (last ?s)" by simp
  qed (use c in simp)
  have flt: "filter (\<lambda>c. c \<noteq> CHR ''_'') ?s = ?s"
  proof -
    have "x \<noteq> CHR ''_''" if "x \<in> set ?s" for x
      using that chars [of x] digit_facts(3) [of x] by (cases neg) auto
    then show ?thesis by (simp only: filter_id_conv) blast
  qed
  have sgn: "split_sign ?s = (neg, ?u)"
    using c digit_facts(4,5) [OF c(2)] by (auto simp: split_sign_def)
  have hd: "hd (lower ?u) = c" using c digit_facts(2) by (simp add: lower_def)
  have noinf: "lower ?u \<noteq> ''inf''" "lower ?u \<noteq> ''infinity''" "\<not> is_nan_text (lower ?u)"
    using hd digit_facts(7-9) [OF c(2)] c by (auto simp: is_nan_text_def startswith_def lower_def)
  have tw: "takeWhile is_digit ?u = ip" "dropWhile is_digit ?u = fraction fp"
    using ip by (auto simp: takeWhile_append2 dropWhile_append2 list_all_iff is_digit_def fraction_def)
  have fps: "takeWhile is_digit fp = fp" "dropWhile is_digit fp = []"
    using fp by (auto simp: takeWhile_eq_all_conv dropWhile_eq_Nil_conv list_all_iff)
  show ?thesis
    unfolding parse_decimal_def strip flt sgn
    using ip(2) noinf
    by (simp add: tw Let_def del: append_Cons append_assoc)
       (simp add: fps parse_exponent_def fraction_def)
qed

lemma pow10_neg: "pow10 (- int n) = 1 / 10 ^ n"
  by (cases "n = 0") (simp_all add: pow10_def)

lemma parse_fixed8: "parse_decimal (fixed8 q) = Some (Finite q (- 8))"
proof -
  let ?n = "nat \<bar>q\<bar>"
  let ?ip = "nat_str (?n div 10 ^ 8)" and ?fp = "pad8 (nat_str (?n mod 10 ^ 8))"
  have m: "?n mod 10 ^ 8 < 10 ^ 8" by simp
  have ip: "list_all is_digit ?ip" "?ip \<noteq> []"
    by (auto simp: list_all_iff intro: nat_str_digits)
  have fp: "list_all is_digit ?fp" "length ?fp = 8" "str_nat ?fp = ?n mod 10 ^ 8"
    using pad8_facts [OF m] by auto
  then have ne: "?fp \<noteq> []" by force
  have "str_nat (?ip @ ?fp) = ?n" by (simp only: str_nat_append fp str_nat_nat_str div_mult_mod_eq)
  then have "signed (q < 0) (str_nat (?ip @ ?fp)) = q" by (simp add: signed_def)
  with parse_decimal_plain [OF ip fp(1), of "q < 0"] fp(2) ne show ?thesis
    by (simp only: fixed8_def fraction_def if_False) simp
qed

lemma parse_zero: "parse_decimal ''0'' = Some (Finite 0 0)"
  by code_simp

lemma canonical_number_reads_back:
  assumes "canonical_number d = Inr s"
  shows "\<exists>c e. parse_decimal s = Some (Finite c e)
           \<and> dval (Finite c e) = of_int (quantize8 (dval d)) / 10 ^ 8"
proof (cases "quantize8 (dval d) = 0")
  case True
  with assms parse_zero show ?thesis
    by (auto simp: canonical_number_def Let_def split: if_splits)
next
  case False
  with assms have "s = fixed8 (quantize8 (dval d))"
    by (auto simp: canonical_number_def Let_def split: if_splits)
  with parse_fixed8 [of "quantize8 (dval d)"] pow10_neg [of 8] show ?thesis by auto
qed

lemma canonical_number_eq_iff:
  assumes "canonical_number d = Inr s" "canonical_number d' = Inr s'"
  shows "s = s' \<longleftrightarrow> quantize8 (dval d) = quantize8 (dval d')"
proof
  assume "s = s'"
  with canonical_number_reads_back [OF assms(1)] canonical_number_reads_back [OF assms(2)]
  have "(of_int (quantize8 (dval d)) / 10 ^ 8 :: rat) = of_int (quantize8 (dval d')) / 10 ^ 8" by auto
  then show "quantize8 (dval d) = quantize8 (dval d')" by simp
qed (use assms in \<open>auto simp: canonical_number_def Let_def split: if_splits\<close>)

lemma quantize8_error: "\<bar>of_int (quantize8 x) / 10 ^ 8 - x\<bar> \<le> 1 / (2 * 10 ^ 8)"
  using round_half_even_error [of "x * 10 ^ 8"]
  by (simp add: quantize8_def abs_le_iff field_simps)

lemma canonical_number_value:
  assumes "canonical_number d = Inr s"
  shows "\<exists>c e. parse_decimal s = Some (Finite c e) \<and> \<bar>dval (Finite c e) - dval d\<bar> \<le> 1 / (2 * 10 ^ 8)"
proof -
  from canonical_number_reads_back [OF assms] obtain c e where
    ce: "parse_decimal s = Some (Finite c e)" "dval (Finite c e) = of_int (quantize8 (dval d)) / 10 ^ 8" by blast
  from quantize8_error [of "dval d"] have "\<bar>dval (Finite c e) - dval d\<bar> \<le> 1 / (2 * 10 ^ 8)"
    by (simp only: ce(2))
  with ce(1) show ?thesis by blast
qed

text \<open>C38: canonical decimal text reads back: what \<open>canonical_number\<close> writes parses to a finite
  decimal within half a unit of the eighth digit of the number, and two numbers have the same text
  exactly when they quantise to the same multiple of \<open>10 ^ -8\<close>.\<close>

theorem canonical_number_roundtrip:
  assumes "canonical_number d = Inr s" "canonical_number d' = Inr s'"
  shows "(\<exists>c e. parse_decimal s = Some (Finite c e) \<and> \<bar>dval (Finite c e) - dval d\<bar> \<le> 1 / (2 * 10 ^ 8))
    \<and> (s = s' \<longleftrightarrow> quantize8 (dval d) = quantize8 (dval d'))"
  using canonical_number_value [OF assms(1)] canonical_number_eq_iff [OF assms] by simp

theorem canonical_number_roundtrip_witness:
  "\<exists>s. canonical_number (Finite 15 (-1)) = Inr s
    \<and> (\<exists>c e. parse_decimal s = Some (Finite c e)
         \<and> \<bar>dval (Finite c e) - dval (Finite 15 (-1))\<bar> \<le> 1 / (2 * 10 ^ 8))"
proof -
  have "case canonical_number (Finite 15 (-1)) of Inl e \<Rightarrow> False | Inr s \<Rightarrow> True" by code_simp
  then obtain s where "canonical_number (Finite 15 (-1)) = Inr s" by (auto split: sum.splits)
  with canonical_number_roundtrip [OF this this] show ?thesis by blast
qed

text \<open>C39: canonical JSON is injective: two values have the same canonical bytes exactly when they
  normalise to the same JSON value, and a value has canonical bytes exactly when it normalises.\<close>

theorem canonical_bytes_iff:
  assumes "canonical_bytes en v = Inr b"
  shows "canonical_bytes en' w = Inr b \<longleftrightarrow> (\<exists>j. normalize en v = Inr j \<and> normalize en' w = Inr j)"
  using assms by (auto simp: canonical_bytes_Inr dumps_inj)

theorem canonical_bytes_iff_witness:
  "canonical_bytes True (PBool True) = canonical_bytes True (PBool True)
    \<and> (\<exists>j. normalize True (PBool True) = Inr j)"
  using canonical_bytes_iff [of True "PBool True" "dumps (JBool True)" True "PBool True"]
  by (simp add: canonical_bytes_Inr)

section \<open>Package trees\<close>

text \<open>What \<open>root.rglob("*")\<close> meets: the path's parts below the root, whether it is a symlink or a
  regular file, whether it resolves outside the root, and the bytes of a file.\<close>

record tree_entry =
  te_parts :: "string list"
  te_symlink :: bool
  te_file :: bool
  te_escapes :: bool
  te_bytes :: string

datatype tree = Tree_Missing | Tree_Not_Dir | Tree "tree_entry list"

fun contains :: "string \<Rightarrow> string \<Rightarrow> bool" where
  "contains [] p = (p = [])"
| "contains (c # s) p = (startswith (c # s) p \<or> contains s p)"

definition endswith :: "string \<Rightarrow> string \<Rightarrow> bool" where
  "endswith s p = startswith (rev s) (rev p)"

definition excluded_rel :: "string \<Rightarrow> bool" where
  "excluded_rel rel =
     (startswith rel ''.redline/'' \<or> startswith rel ''__pycache__/'' \<or> contains rel ''/__pycache__/'' \<or>
      endswith rel ''.pyc'' \<or> endswith rel ''.pyo'' \<or> rel = ''playbook_identity.lock'')"

fun canonical_files_from :: "tree_entry list \<Rightarrow> exn + (string \<times> tree_entry) list" where
  "canonical_files_from [] = Inr []"
| "canonical_files_from (f # fs) =
     (if te_symlink f then Inl (CanonicalizationError RC_RECEIPT_BINDING_FAILED)
      else if \<not> te_file f then canonical_files_from fs
      else
        let rel = join ''/'' (te_parts f)
        in if excluded_rel rel then canonical_files_from fs
           else if te_escapes f then Inl (CanonicalizationError RC_RECEIPT_BINDING_FAILED)
           else rbind (canonical_files_from fs) (\<lambda>r. Inr ((rel, f) # r)))"

definition iter_canonical_files :: "tree_entry list \<Rightarrow> exn + (string \<times> tree_entry) list" where
  "iter_canonical_files fs = canonical_files_from (sort_key te_parts fs)"

definition hash_file :: "(string \<Rightarrow> string) \<Rightarrow> string \<Rightarrow> string" where
  "hash_file H content = sha256_bytes H content"

definition tree_value :: "(string \<Rightarrow> string) \<Rightarrow> (string \<times> tree_entry) list \<Rightarrow> pyval" where
  "tree_value H files =
     PList (map (\<lambda>(rel, f). PDict [(''path'', PStr rel), (''hash'', PStr (hash_file H (te_bytes f)))]) files)"

definition hash_tree :: "(string \<Rightarrow> string) \<Rightarrow> tree \<Rightarrow> exn + string" where
  "hash_tree H t =
     (case t of
        Tree_Missing \<Rightarrow> Inl FileNotFoundError
      | Tree_Not_Dir \<Rightarrow> Inl OSError
      | Tree fs \<Rightarrow> rbind (iter_canonical_files fs) (\<lambda>files. hash_obj H True (tree_value H files)))"

text \<open>The messages that the hash of a package tree digests: the bytes of every file, then the JSON
  list of paths and file hashes.\<close>

definition package_messages :: "(string \<Rightarrow> string) \<Rightarrow> (string \<times> tree_entry) list \<Rightarrow> string list" where
  "package_messages H files =
     map (te_bytes \<circ> snd) files @
     (case canonical_bytes True (tree_value H files) of Inl e \<Rightarrow> [] | Inr b \<Rightarrow> [b])"

lemma normalize_tree_value:
  "normalize True (tree_value H files) =
     Inr (JList (map (\<lambda>(rel, f). JObj [(''hash'', JStr (hash_file H (te_bytes f))), (''path'', JStr rel)]) files))"
proof -
  have "normalize True (PDict [(''path'', PStr rel), (''hash'', PStr h)])
      = Inr (JObj [(''hash'', JStr h), (''path'', JStr rel)])" for rel h
    by (simp add: kept_def)
  then have "traverse (normalize True)
       (map (\<lambda>(rel, f). PDict [(''path'', PStr rel), (''hash'', PStr (hash_file H (te_bytes f)))]) files)
     = Inr (map (\<lambda>(rel, f). JObj [(''hash'', JStr (hash_file H (te_bytes f))), (''path'', JStr rel)]) files)"
    by (induction files) auto
  then show ?thesis by (simp add: tree_value_def)
qed

lemma map_eq_of_hashed:
  assumes "map (\<lambda>(rel, f). JObj [(''hash'', JStr (hash_file H (te_bytes f))), (''path'', JStr rel)]) fs
         = map (\<lambda>(rel, f). JObj [(''hash'', JStr (hash_file H (te_bytes f))), (''path'', JStr rel)]) gs"
    and "inj_on H (te_bytes ` snd ` (set fs \<union> set gs))"
  shows "map (\<lambda>(rel, f). (rel, te_bytes f)) fs = map (\<lambda>(rel, f). (rel, te_bytes f)) gs"
proof -
  from assms(1) have len: "length fs = length gs" by (rule map_eq_imp_length_eq)
  have "(\<lambda>(rel, f). (rel, te_bytes f)) (fs ! i) = (\<lambda>(rel, f). (rel, te_bytes f)) (gs ! i)"
    if i: "i < length gs" for i
  proof -
    obtain r f where fi: "fs ! i = (r, f)" by (cases "fs ! i")
    obtain r' g where gi: "gs ! i = (r', g)" by (cases "gs ! i")
    from arg_cong [OF assms(1), of "\<lambda>l. l ! i"] i len fi gi
    have eq: "r = r'" "H (te_bytes f) = H (te_bytes g)"
      by (auto simp: hash_file_def sha256_bytes_def)
    from i len fi gi have "(r, f) \<in> set fs" "(r', g) \<in> set gs" by (metis nth_mem)+
    then have "te_bytes f \<in> te_bytes ` snd ` (set fs \<union> set gs)"
      "te_bytes g \<in> te_bytes ` snd ` (set fs \<union> set gs)" by force+
    with eq(2) assms(2) have "te_bytes f = te_bytes g" by (rule_tac inj_onD)
    with eq(1) fi gi show "(\<lambda>(rel, f). (rel, te_bytes f)) (fs ! i) = (\<lambda>(rel, f). (rel, te_bytes f)) (gs ! i)"
      by simp
  qed
  with len show ?thesis by (auto intro: nth_equalityI)
qed

text \<open>C40: a package hash binds the package: two trees with the same hash, and no digest collision
  among the file contents and the two listings, hold the same canonical files with the same bytes.\<close>

theorem package_hash_binds:
  assumes files: "iter_canonical_files fs = Inr files" "iter_canonical_files gs = Inr files'"
    and hash: "hash_tree H (Tree fs) = hash_tree H (Tree gs)"
    and inj: "inj_on H (set (package_messages H files) \<union> set (package_messages H files'))"
  shows "map (\<lambda>(rel, f). (rel, te_bytes f)) files = map (\<lambda>(rel, f). (rel, te_bytes f)) files'"
proof -
  let ?J = "\<lambda>xs. JList (map (\<lambda>(rel, f). JObj [(''hash'', JStr (hash_file H (te_bytes f))), (''path'', JStr rel)]) xs)"
  have bytes: "canonical_bytes True (tree_value H xs) = Inr (dumps (?J xs))" for xs
    by (simp add: canonical_bytes_Inr normalize_tree_value)
  from hash files have "H (dumps (?J files)) = H (dumps (?J files'))"
    by (simp add: hash_tree_def hash_obj_def bytes hash_simps)
  moreover have "dumps (?J files) \<in> set (package_messages H files) \<union> set (package_messages H files')"
    "dumps (?J files') \<in> set (package_messages H files) \<union> set (package_messages H files')"
    by (simp_all add: package_messages_def bytes)
  ultimately have "dumps (?J files) = dumps (?J files')" using inj by (rule_tac inj_onD)
  then have eq: "?J files = ?J files'" by (rule dumps_inj [THEN iffD1])
  have "te_bytes ` snd ` (set files \<union> set files')
      \<subseteq> set (package_messages H files) \<union> set (package_messages H files')"
    by (auto simp: package_messages_def)
  with inj have "inj_on H (te_bytes ` snd ` (set files \<union> set files'))" by (rule inj_on_subset)
  with eq show ?thesis by (intro map_eq_of_hashed) simp_all
qed

definition sample_file :: tree_entry where
  "sample_file = \<lparr> te_parts = [''main.py''], te_symlink = False, te_file = True, te_escapes = False, te_bytes = ''x'' \<rparr>"

theorem package_hash_binds_witness:
  "map (\<lambda>(rel, f). (rel, te_bytes f)) [(''main.py'', sample_file)] = [(''main.py'', ''x'')]"
proof -
  have f: "iter_canonical_files [sample_file] = Inr [(''main.py'', sample_file)]" by code_simp
  from package_hash_binds [OF f f refl, of "\<lambda>m. m"] show ?thesis by (simp add: sample_file_def)
qed

text \<open>The order in which the file system lists a package does not matter: two listings of the
  same entries, no two at the same path, have the same hash or raise the same exception.\<close>

theorem hash_tree_order_independent:
  assumes "mset fs = mset gs" "inj_on te_parts (set fs)"
  shows "hash_tree H (Tree fs) = hash_tree H (Tree gs)"
proof -
  have "sort_key te_parts fs = sort_key te_parts gs"
    by (rule sort_key_inj_key_eq) (use assms in \<open>auto dest: mset_eq_setD\<close>)
  then show ?thesis by (simp add: hash_tree_def iter_canonical_files_def)
qed

theorem hash_tree_order_independent_witness:
  "hash_tree (\<lambda>m. m) (Tree [sample_file, sample_file\<lparr> te_parts := [''a.py''] \<rparr>])
     = hash_tree (\<lambda>m. m) (Tree [sample_file\<lparr> te_parts := [''a.py''] \<rparr>, sample_file])"
  by (rule hash_tree_order_independent) (simp_all add: sample_file_def)

end
