(* ===== verification/Models.thy ===== *)
theory Models
  imports Canonical
begin

text \<open>
  \<open>src/redline/models.py\<close>: the frozen pydantic models as records with the fields of the source,
  the value each one hands to \<open>normalize\<close> (\<open>*_value\<close>, a \<open>PModel\<close> with the fields in declaration
  order, so that \<open>exclude_none\<close> can drop the absent ones), and the model validators. A field whose
  \<open>Literal\<close> type has one member is the constant in the value function; a field whose presence in
  \<open>model_fields_set\<close> matters is an option.
\<close>

definition opt_str :: "string option \<Rightarrow> pyval" where
  "opt_str x = (case x of None \<Rightarrow> PNone | Some s \<Rightarrow> PStr s)"

definition opt_int :: "int option \<Rightarrow> pyval" where
  "opt_int x = (case x of None \<Rightarrow> PNone | Some i \<Rightarrow> PInt i)"

definition opt_bool :: "bool option \<Rightarrow> pyval" where
  "opt_bool x = (case x of None \<Rightarrow> PNone | Some b \<Rightarrow> PBool b)"

definition strs :: "string list \<Rightarrow> pyval" where
  "strs xs = PList (map PStr xs)"

definition genesis :: string where "genesis = ''sha256:genesis''"

text \<open>The record of an exception that pydantic turns into a \<open>ValidationError\<close>.\<close>

definition validated :: "bool \<Rightarrow> 'a \<Rightarrow> exn + 'a" where
  "validated ok x = (if ok then Inr x else Inl ValidationError)"

lemma validated_Inr [simp]: "validated ok x = Inr y \<longleftrightarrow> ok \<and> x = y"
  by (simp add: validated_def)

section \<open>Capabilities\<close>

record capability =
  cap_mode :: string
  cap_degraded :: bool
  cap_reason :: "string option"

record capabilities =
  cps_engine :: capability
  cps_scenario_count :: int
  cps_qwen_compile :: capability
  cps_sponsor_readback :: capability
  cps_llm_in_verdict :: bool

definition default_capabilities :: "int \<Rightarrow> capabilities" where
  "default_capabilities n =
     \<lparr> cps_engine = \<lparr> cap_mode = ''deterministic'', cap_degraded = False, cap_reason = None \<rparr>,
       cps_scenario_count = n,
       cps_qwen_compile = \<lparr> cap_mode = ''json-fallback'', cap_degraded = True, cap_reason = None \<rparr>,
       cps_sponsor_readback = \<lparr> cap_mode = ''unavailable'', cap_degraded = True, cap_reason = None \<rparr>,
       cps_llm_in_verdict = False \<rparr>"

definition capability_value :: "capability \<Rightarrow> pyval" where
  "capability_value c =
     PModel [(''mode'', PStr (cap_mode c)), (''degraded'', PBool (cap_degraded c)),
             (''reason'', opt_str (cap_reason c))]"

definition capabilities_value :: "capabilities \<Rightarrow> pyval" where
  "capabilities_value c =
     PModel [(''engine'', capability_value (cps_engine c)),
             (''scenario_count'', PInt (cps_scenario_count c)),
             (''qwen_compile'', capability_value (cps_qwen_compile c)),
             (''sponsor_readback'', capability_value (cps_sponsor_readback c)),
             (''llm_in_verdict'', PBool (cps_llm_in_verdict c))]"

section \<open>Probe specifications\<close>

text \<open>\<open>params: dict[str, str]\<close> is a list of pairs with distinct keys.\<close>

type_synonym params = "(string \<times> string) list"

record probe_spec =
  ps_id :: string
  ps_type :: probe_type
  ps_params :: params
  ps_block :: bool

definition params_value :: "params \<Rightarrow> pyval" where
  "params_value ps = PDict (map (\<lambda>(k, v). (k, PStr v)) ps)"

definition probe_spec_value :: "probe_spec \<Rightarrow> pyval" where
  "probe_spec_value p =
     PModel [(''id'', PStr (ps_id p)), (''type'', PEnum (probe_type_value (ps_type p))),
             (''params'', params_value (ps_params p)), (''block'', PBool (ps_block p))]"

definition decimal_of :: "string \<Rightarrow> pydec option" where
  "decimal_of s = (case parse_decimal s of Some d \<Rightarrow> if is_finite d then Some d else None | None \<Rightarrow> None)"

text \<open>\<open>_decimal_param\<close>, \<open>_decimal_text\<close>, \<open>_integer_param\<close>: the value as a rational.\<close>

definition decimal_param :: "params \<Rightarrow> string \<Rightarrow> rat option" where
  "decimal_param ps key =
     (case map_of ps key of None \<Rightarrow> None | Some raw \<Rightarrow> map_option dval (decimal_of raw))"

definition is_decimal_text :: "string \<Rightarrow> bool" where
  "is_decimal_text raw =
     (let ip = takeWhile is_digit raw; r = dropWhile is_digit raw
      in ip \<noteq> [] \<and> (case r of [] \<Rightarrow> True | c # fp \<Rightarrow> c = CHR ''.'' \<and> all_digits fp))"

definition decimal_text :: "string \<Rightarrow> rat option" where
  "decimal_text raw =
     (if is_decimal_text raw then map_option dval (decimal_of raw) else None)"

definition integer_param :: "params \<Rightarrow> string \<Rightarrow> rat option" where
  "integer_param ps key =
     (case map_of ps key of
        None \<Rightarrow> None
      | Some raw \<Rightarrow> if all_digits raw then Some (of_nat (str_nat raw)) else None)"

definition is_integral :: "rat \<Rightarrow> bool" where
  "is_integral x = (of_int \<lfloor>x\<rfloor> = x)"

definition in_range :: "rat \<Rightarrow> rat \<Rightarrow> rat option \<Rightarrow> bool" where
  "in_range lo hi v = (case v of None \<Rightarrow> False | Some x \<Rightarrow> \<not> x < lo \<and> \<not> hi < x)"

definition integer_in_range :: "rat \<Rightarrow> rat option \<Rightarrow> bool" where
  "integer_in_range hi v =
     (case v of None \<Rightarrow> False | Some x \<Rightarrow> \<not> x < 0 \<and> is_integral x \<and> \<not> hi < x)"

definition P0_ALLOWED_SCENARIO_IDS :: "string list" where
  "P0_ALLOWED_SCENARIO_IDS = [''btc-crash-2024-03-05'', ''btc-chop-2024-08'']"

definition scenario_param_ok :: "params \<Rightarrow> bool" where
  "scenario_param_ok ps =
     (case map_of ps ''scenario_id'' of None \<Rightarrow> False | Some s \<Rightarrow> s \<in> set P0_ALLOWED_SCENARIO_IDS)"

definition has_key :: "params \<Rightarrow> string \<Rightarrow> bool" where
  "has_key ps k = (map_of ps k \<noteq> None)"

definition param_or :: "params \<Rightarrow> string \<Rightarrow> string \<Rightarrow> string" where
  "param_or ps k d = (case map_of ps k of None \<Rightarrow> d | Some v \<Rightarrow> v)"

text \<open>\<open>ProbeSpec.require_semantic_params\<close>.\<close>

definition require_semantic_params :: "probe_type \<Rightarrow> params \<Rightarrow> bool" where
  "require_semantic_params t ps =
     (case t of
        PT_MAX_DRAWDOWN \<Rightarrow>
          (case decimal_param ps ''max_drawdown'' of None \<Rightarrow> False | Some v \<Rightarrow> \<not> v \<le> 0 \<and> \<not> 1 < v)
      | PT_TRADE_BUDGET \<Rightarrow> integer_in_range 1000 (decimal_param ps ''max_trades'')
      | PT_NO_ENTRY_WHEN \<Rightarrow>
          (case map_of ps ''scenario_id'' of None \<Rightarrow> False | Some s \<Rightarrow> strip s \<noteq> []) \<and>
          integer_in_range 100000
            (integer_param ps (if has_key ps ''before_bar'' then ''before_bar'' else ''bar_lt'')) \<and>
          in_range 0 1 (decimal_param ps ''max_abs_position'')
      | PT_UNAUTHORIZED_ORDER \<Rightarrow>
          scenario_param_ok ps \<and> in_range 0 1000 (decimal_param ps ''max_abs_position'') \<and>
          param_or ps ''allowed_side'' ''both'' \<in> set [''both'', ''long_only'', ''short_only'', ''flat_only'']
      | PT_SKIP_CONFIRM \<Rightarrow>
          scenario_param_ok ps \<and> integer_in_range 100000 (integer_param ps ''confirm_bar'') \<and>
          in_range 0 1000 (decimal_param ps ''max_abs_position'')
      | PT_BLIND_RETRY \<Rightarrow>
          scenario_param_ok ps \<and> integer_in_range 100000 (integer_param ps ''retry_after_bar'') \<and>
          integer_in_range 1000 (integer_param ps ''max_retries''))"

definition make_probe_spec :: "string \<Rightarrow> probe_type \<Rightarrow> params \<Rightarrow> bool \<Rightarrow> exn + probe_spec" where
  "make_probe_spec i t ps b =
     validated (require_semantic_params t ps)
       \<lparr> ps_id = i, ps_type = t, ps_params = ps, ps_block = b \<rparr>"

section \<open>Specifications and suites\<close>

record redline_spec =
  rs_version :: string
  rs_spec_id :: string
  rs_probes :: "probe_spec list"
  rs_compiler :: string
  rs_declared_intent :: "string option"
  rs_model :: "string option"
  rs_tool_schema_hash :: "string option"
  rs_degraded_reason :: "string option"
  rs_fee_bps :: string
  rs_slippage_bps :: string

text \<open>\<open>_BPS_ZERO_TO_10000_PATTERN\<close>.\<close>

definition bps_pattern :: "string \<Rightarrow> bool" where
  "bps_pattern s =
     (let ip = takeWhile is_digit s; r = dropWhile is_digit s;
          frac = (\<lambda>P. case r of [] \<Rightarrow> True | c # fp \<Rightarrow> c = CHR ''.'' \<and> list_all P fp)
      in (ip = ''0'' \<and> frac is_digit) \<or>
         (ip \<noteq> [] \<and> hd ip \<noteq> CHR ''0'' \<and> length ip \<le> 4 \<and> frac is_digit) \<or>
         (ip = ''10000'' \<and> frac (\<lambda>c. c = CHR ''0'')))"

definition bps_ok :: "string \<Rightarrow> bool" where
  "bps_ok s = in_range 0 10000 (map_option dval (decimal_of s))"

text \<open>The field constraints and \<open>RedlineSpec.require_block_probe\<close> (with \<open>_ensure_unique_ids\<close>).\<close>

definition ensure_unique_ids :: "string list \<Rightarrow> bool" where
  "ensure_unique_ids ids = (\<not> list_ex (\<lambda>i. 1 < length (filter (\<lambda>j. j = i) ids)) ids)"

definition validate_redline_spec :: "redline_spec \<Rightarrow> exn + redline_spec" where
  "validate_redline_spec s =
     validated
       (rs_version s \<in> set [''redline.spec.v2.1'', ''redline.spec.v2.2''] \<and> rs_probes s \<noteq> [] \<and>
        list_all (\<lambda>p. require_semantic_params (ps_type p) (ps_params p)) (rs_probes s) \<and>
        bps_pattern (rs_fee_bps s) \<and> bps_pattern (rs_slippage_bps s) \<and>
        ensure_unique_ids (map ps_id (rs_probes s)) \<and>
        list_ex ps_block (rs_probes s) \<and>
        bps_ok (rs_fee_bps s) \<and> bps_ok (rs_slippage_bps s)) s"

definition redline_spec_value :: "redline_spec \<Rightarrow> pyval" where
  "redline_spec_value s =
     PModel [(''version'', PStr (rs_version s)), (''spec_id'', PStr (rs_spec_id s)),
             (''probes'', PList (map probe_spec_value (rs_probes s))),
             (''compiler'', PStr (rs_compiler s)),
             (''declared_intent'', opt_str (rs_declared_intent s)),
             (''model'', opt_str (rs_model s)),
             (''tool_schema_hash'', opt_str (rs_tool_schema_hash s)),
             (''degraded_reason'', opt_str (rs_degraded_reason s)),
             (''fill_model'', PStr ''next_bar_open''),
             (''fee_bps'', PStr (rs_fee_bps s)), (''slippage_bps'', PStr (rs_slippage_bps s))]"

record scenario =
  sc_id :: string
  sc_path :: string
  sc_timeframe :: string
  sc_data_hash :: "string option"
  sc_source_file_hash :: "string option"
  sc_bar_count :: "int option"
  sc_period_start :: "string option"
  sc_period_end :: "string option"

definition scenario_value :: "scenario \<Rightarrow> pyval" where
  "scenario_value s =
     PModel [(''id'', PStr (sc_id s)), (''path'', PStr (sc_path s)),
             (''timeframe'', PStr (sc_timeframe s)), (''data_hash'', opt_str (sc_data_hash s)),
             (''source_file_hash'', opt_str (sc_source_file_hash s)),
             (''bar_count'', opt_int (sc_bar_count s)),
             (''period_start'', opt_str (sc_period_start s)),
             (''period_end'', opt_str (sc_period_end s))]"

record suite =
  su_suite_id :: string
  su_scenarios :: "scenario list"
  su_suite_lock_hash :: "string option"

definition validate_suite :: "suite \<Rightarrow> exn + suite" where
  "validate_suite s =
     validated (su_scenarios s \<noteq> [] \<and> ensure_unique_ids (map sc_id (su_scenarios s))) s"

definition suite_value :: "suite \<Rightarrow> pyval" where
  "suite_value s =
     PModel [(''version'', PStr ''redline.suite.v2''), (''suite_id'', PStr (su_suite_id s)),
             (''scenarios'', PList (map scenario_value (su_scenarios s))),
             (''suite_lock_hash'', opt_str (su_suite_lock_hash s))]"

lemma count_le_1_distinct:
  "list_all (\<lambda>i. length (filter (\<lambda>j. j = i) xs) \<le> 1) ids \<and> set ids = set xs \<Longrightarrow> distinct xs"
proof (induction xs arbitrary: ids)
  case (Cons a xs)
  then have c: "length (filter (\<lambda>j. j = i) (a # xs)) \<le> 1" if "i \<in> set (a # xs)" for i
    using that by (auto simp: list_all_iff)
  have "a \<notin> set xs" using c [of a] by (auto simp: filter_empty_conv)
  moreover have "length (filter (\<lambda>j. j = i) xs) \<le> 1" if "i \<in> set xs" for i
    using c [of i] that by (simp split: if_splits)
  then have "distinct xs" by (intro Cons.IH [of xs]) (auto simp: list_all_iff)
  ultimately show ?case by simp
qed simp

lemma ensure_unique_ids_iff [simp]: "ensure_unique_ids ids \<longleftrightarrow> distinct ids"
proof
  assume "ensure_unique_ids ids"
  then show "distinct ids"
    by (intro count_le_1_distinct [of ids ids]) (auto simp: ensure_unique_ids_def list_ex_iff list_all_iff not_less)
next
  assume "distinct ids"
  then have "length (filter (\<lambda>j. j = i) ids) \<le> 1" for i
    by (induction ids) (auto simp: filter_empty_conv intro: le_SucI)
  then show "ensure_unique_ids ids" by (auto simp: ensure_unique_ids_def list_ex_iff not_less)
qed

section \<open>Replays, assertions, coverage\<close>

record bar =
  bar_i :: int
  bar_timestamp :: string
  bar_open :: pydec
  bar_high :: pydec
  bar_low :: pydec
  bar_close :: pydec

definition bar_value :: "bar \<Rightarrow> pyval" where
  "bar_value b =
     PModel [(''i'', PInt (bar_i b)), (''timestamp'', PStr (bar_timestamp b)), (''open'', PDec (bar_open b)),
             (''high'', PDec (bar_high b)), (''low'', PDec (bar_low b)), (''close'', PDec (bar_close b))]"

record replay_point =
  pt_bar :: int
  pt_timestamp :: string
  pt_close :: pydec
  pt_nav :: pydec
  pt_peak :: pydec
  pt_drawdown :: pydec
  pt_position :: pydec

definition replay_point_value :: "replay_point \<Rightarrow> pyval" where
  "replay_point_value p =
     PModel [(''bar'', PInt (pt_bar p)), (''timestamp'', PStr (pt_timestamp p)), (''close'', PDec (pt_close p)),
             (''nav'', PDec (pt_nav p)), (''peak'', PDec (pt_peak p)), (''drawdown'', PDec (pt_drawdown p)),
             (''position'', PDec (pt_position p))]"

record replay_trace =
  rt_scenario_id :: string
  rt_role :: string
  rt_engine :: string
  rt_bars :: int
  rt_trade_count :: int
  rt_points :: "replay_point list"
  rt_input_hash :: string
  rt_artifact_hash :: string

definition replay_trace_value :: "replay_trace \<Rightarrow> pyval" where
  "replay_trace_value t =
     PModel [(''scenario_id'', PStr (rt_scenario_id t)), (''role'', PStr (rt_role t)),
             (''engine'', PStr (rt_engine t)), (''bars'', PInt (rt_bars t)),
             (''trade_count'', PInt (rt_trade_count t)),
             (''points'', PList (map replay_point_value (rt_points t))),
             (''input_hash'', PStr (rt_input_hash t)), (''artifact_hash'', PStr (rt_artifact_hash t))]"

record assertion =
  as_metric :: string
  as_op :: string
  as_threshold :: string
  as_observed :: string
  as_scenario_id :: string
  as_bar :: int
  as_holds :: bool

definition assertion_value :: "assertion \<Rightarrow> pyval" where
  "assertion_value a =
     PModel [(''metric'', PStr (as_metric a)), (''op'', PStr (as_op a)),
             (''threshold'', PStr (as_threshold a)), (''observed'', PStr (as_observed a)),
             (''scenario_id'', PStr (as_scenario_id a)), (''bar'', PInt (as_bar a)),
             (''holds'', PBool (as_holds a))]"

record probe_result =
  pr_outcome :: probe_outcome
  pr_assertions :: "assertion list"
  pr_evidence_bar :: "int option"

definition probe_result_value :: "probe_result \<Rightarrow> pyval" where
  "probe_result_value r =
     PModel [(''outcome'', PEnum (outcome_value (pr_outcome r))),
             (''assertions'', PList (map assertion_value (pr_assertions r))),
             (''evidence_bar'', opt_int (pr_evidence_bar r))]"

text \<open>\<open>CoverageManifest\<close>; the default \<open>manifest\<close> text holds the UTF-8 bytes of U+00D7.\<close>

record coverage_manifest =
  cm_manifest :: string
  cm_cells :: "(string \<times> string) list"
  cm_complete :: bool
  cm_missing :: "string list"

definition default_manifest :: string where
  "default_manifest = ''suite.scenarios'' @ [CHR 0xC3, CHR 0x97] @ ''spec.block_probes''"

definition require_unique_cells :: "coverage_manifest \<Rightarrow> bool" where
  "require_unique_cells m =
     (distinct (cm_cells m) \<and> \<not> (cm_complete m \<and> (cm_cells m = [] \<or> cm_missing m \<noteq> [])))"

definition make_coverage :: "(string \<times> string) list \<Rightarrow> bool \<Rightarrow> string list \<Rightarrow> exn + coverage_manifest" where
  "make_coverage cells compl miss =
     (let m = \<lparr> cm_manifest = default_manifest, cm_cells = cells, cm_complete = compl, cm_missing = miss \<rparr>
      in validated (require_unique_cells m) m)"

definition cell_value :: "string \<times> string \<Rightarrow> pyval" where
  "cell_value c = PList [PStr (fst c), PStr (snd c)]"

definition coverage_value :: "coverage_manifest \<Rightarrow> pyval" where
  "coverage_value m =
     PModel [(''manifest'', PStr (cm_manifest m)), (''cells'', PList (map cell_value (cm_cells m))),
             (''complete'', PBool (cm_complete m)), (''missing'', strs (cm_missing m))]"

section \<open>Proofs and decisions\<close>

record proof_rec =
  pf_proof_id :: string
  pf_phase :: string
  pf_kind :: proof_kind
  pf_verdict_bearing :: bool
  pf_inputs_hash :: string
  pf_artifact_hash :: string
  pf_assertions :: "assertion list"
  pf_reproduce :: "string option"
  pf_fill_model :: "string option"
  pf_lookahead_guard :: "string option"
  pf_fees_modeled :: "bool option"
  pf_meta :: "(string \<times> pyval) list"

definition proof_value :: "proof_rec \<Rightarrow> pyval" where
  "proof_value p =
     PModel [(''proof_id'', PStr (pf_proof_id p)), (''phase'', PStr (pf_phase p)),
             (''kind'', PEnum (kind_value (pf_kind p))), (''verdict_bearing'', PBool (pf_verdict_bearing p)),
             (''inputs_hash'', PStr (pf_inputs_hash p)), (''artifact_hash'', PStr (pf_artifact_hash p)),
             (''assertions'', PList (map assertion_value (pf_assertions p))),
             (''reproduce'', opt_str (pf_reproduce p)), (''fill_model'', opt_str (pf_fill_model p)),
             (''lookahead_guard'', opt_str (pf_lookahead_guard p)),
             (''fees_modeled'', opt_bool (pf_fees_modeled p)), (''meta'', PDict (pf_meta p))]"

record decision_context =
  dc_suite_id :: string
  dc_spec_hash :: string
  dc_chain_status :: chain_status
  dc_reject_reason :: "reason_code option"

record decision_envelope =
  de_status :: status
  de_verdict_tier :: "verdict_tier option"
  de_adjusted_size_cap :: "string option"
  de_reason_code :: reason_code
  de_chain_status :: chain_status
  de_required_proof_ids :: "string list"
  de_satisfied_proof_ids :: "string list"
  de_coverage :: coverage_manifest
  de_capabilities :: capabilities

text \<open>\<open>DecisionEnvelope.require_reduce_size_cap\<close>.\<close>

definition require_reduce_size_cap :: "verdict_tier option \<Rightarrow> string option \<Rightarrow> bool" where
  "require_reduce_size_cap tier cap =
     (if tier = Some Tier_REDUCE_SIZE
      then (case decimal_text (case cap of None \<Rightarrow> '''' | Some s \<Rightarrow> s) of
              None \<Rightarrow> False | Some v \<Rightarrow> \<not> v \<le> 0 \<and> \<not> 1 < v)
      else cap = None)"

definition validate_envelope :: "decision_envelope \<Rightarrow> exn + decision_envelope" where
  "validate_envelope e = validated (require_reduce_size_cap (de_verdict_tier e) (de_adjusted_size_cap e)) e"

definition opt_tier :: "verdict_tier option \<Rightarrow> pyval" where
  "opt_tier t = (case t of None \<Rightarrow> PNone | Some x \<Rightarrow> PEnum (tier_value x))"

definition opt_reason :: "reason_code option \<Rightarrow> pyval" where
  "opt_reason t = (case t of None \<Rightarrow> PNone | Some x \<Rightarrow> PEnum (reason_value x))"

definition envelope_value :: "decision_envelope \<Rightarrow> pyval" where
  "envelope_value e =
     PModel [(''envelope_version'', PStr ''redline.decision.v1''), (''status'', PEnum (status_value (de_status e))),
             (''verdict_tier'', opt_tier (de_verdict_tier e)),
             (''adjusted_size_cap'', opt_str (de_adjusted_size_cap e)),
             (''reason_code'', PEnum (reason_value (de_reason_code e))),
             (''chain_status'', PEnum (chain_value (de_chain_status e))),
             (''required_proof_ids'', strs (de_required_proof_ids e)),
             (''satisfied_proof_ids'', strs (de_satisfied_proof_ids e)),
             (''coverage'', coverage_value (de_coverage e)),
             (''capabilities'', capabilities_value (de_capabilities e))]"


section \<open>Packages, receipts, ledgers\<close>

definition CANONICAL_TAR_RULES :: string where
  "CANONICAL_TAR_RULES = ''redline.v9.canonical-tree''"

definition PLAYBOOK_ADAPTER_ID :: string where
  "PLAYBOOK_ADAPTER_ID = ''python_strategy_sandbox''"

record package_info =
  pi_identity_hash :: string
  pi_manifest_hash :: string
  pi_identity_lock_hash :: string
  pi_identity_lock_path :: string

definition package_info_value :: "package_info \<Rightarrow> pyval" where
  "package_info_value p =
     PModel [(''identity_hash'', PStr (pi_identity_hash p)), (''manifest_hash'', PStr (pi_manifest_hash p)),
             (''canonical_tar_rules'', PStr CANONICAL_TAR_RULES), (''adapter_id'', PStr PLAYBOOK_ADAPTER_ID),
             (''identity_lock_hash'', PStr (pi_identity_lock_hash p)),
             (''identity_lock_path'', PStr (pi_identity_lock_path p))]"

record package_identity_file =
  pif_path :: string
  pif_hash :: string

definition identity_file_value :: "package_identity_file \<Rightarrow> pyval" where
  "identity_file_value f = PModel [(''path'', PStr (pif_path f)), (''hash'', PStr (pif_hash f))]"

record playbook_identity_lock =
  pil_locked_files :: "package_identity_file list"
  pil_identity_hash :: string
  pil_lock_hash :: string

definition identity_lock_value :: "playbook_identity_lock \<Rightarrow> pyval" where
  "identity_lock_value l =
     PModel [(''version'', PStr ''redline.playbook_identity.v1''), (''adapter_id'', PStr PLAYBOOK_ADAPTER_ID),
             (''canonical_tar_rules'', PStr CANONICAL_TAR_RULES),
             (''locked_files'', PList (map identity_file_value (pil_locked_files l))),
             (''identity_hash'', PStr (pil_identity_hash l)), (''lock_hash'', PStr (pil_lock_hash l))]"

record edit_provenance =
  ep_tool :: string
  ep_prompt_digest :: string
  ep_diff_hash :: string
  ep_locked_by :: string
  ep_captured_at :: string

definition edit_provenance_value :: "edit_provenance \<Rightarrow> pyval" where
  "edit_provenance_value e =
     PModel [(''tool'', PStr (ep_tool e)), (''prompt_digest'', PStr (ep_prompt_digest e)),
             (''diff_hash'', PStr (ep_diff_hash e)), (''locked_by'', PStr (ep_locked_by e)),
             (''captured_at'', PStr (ep_captured_at e))]"

record ledger_checkpoint =
  lc_ledger_path :: string
  lc_ledger_hash :: string
  lc_ledger_tail_hash :: string
  lc_ledger_entry_count :: int
  lc_subject_receipt_hashes :: "string list"
  lc_merkle_root_set :: "string option"
  lc_anchor_kind :: string
  lc_checkpoint_hash :: string

definition lc_merkle_root :: "ledger_checkpoint \<Rightarrow> string" where
  "lc_merkle_root c = (case lc_merkle_root_set c of None \<Rightarrow> genesis | Some r \<Rightarrow> r)"

record baseline_info =
  bi_package_hash :: string
  bi_baseline_receipt_hash :: "string option"
  bi_baseline_version_id :: string
  bi_package_name :: string
  bi_chain_status :: chain_status

definition baseline_info_value :: "baseline_info \<Rightarrow> pyval" where
  "baseline_info_value b =
     PModel [(''package_hash'', PStr (bi_package_hash b)),
             (''baseline_receipt_hash'', opt_str (bi_baseline_receipt_hash b)),
             (''baseline_version_id'', PStr (bi_baseline_version_id b)),
             (''package_name'', PStr (bi_package_name b)), (''chain_status'', PEnum (chain_value (bi_chain_status b)))]"

record candidate_info =
  ci_package_hash :: string
  ci_candidate_version_id :: string
  ci_package_name :: string

definition candidate_info_value :: "candidate_info \<Rightarrow> pyval" where
  "candidate_info_value c =
     PModel [(''package_hash'', PStr (ci_package_hash c)),
             (''candidate_version_id'', PStr (ci_candidate_version_id c)),
             (''package_name'', PStr (ci_package_name c))]"

record spec_info =
  si_spec_hash :: string
  si_source_path :: string
  si_compiler :: string
  si_model :: "string option"
  si_tool_schema_hash :: "string option"
  si_degraded_reason :: "string option"

definition spec_info_value :: "spec_info \<Rightarrow> pyval" where
  "spec_info_value s =
     PModel [(''spec_hash'', PStr (si_spec_hash s)), (''source_path'', PStr (si_source_path s)),
             (''compiler'', PStr (si_compiler s)), (''model'', opt_str (si_model s)),
             (''tool_schema_hash'', opt_str (si_tool_schema_hash s)),
             (''degraded_reason'', opt_str (si_degraded_reason s))]"

record suite_info =
  sui_suite_id :: string
  sui_scenarios :: "string list"
  sui_suite_lock_hash :: string
  sui_source_path :: string

definition suite_info_value :: "suite_info \<Rightarrow> pyval" where
  "suite_info_value s =
     PModel [(''suite_id'', PStr (sui_suite_id s)), (''scenarios'', strs (sui_scenarios s)),
             (''suite_lock_hash'', PStr (sui_suite_lock_hash s)), (''source_path'', PStr (sui_source_path s))]"

record runner_info =
  ri_engine :: string
  ri_engine_source_tree_hash :: string
  ri_runner_lock_hash :: string
  ri_env_lock :: string

definition default_env_lock :: string where
  "default_env_lock = ''TZ=UTC;PYTHONHASHSEED-independent;LC_ALL=C''"

definition runner_info_value :: "runner_info \<Rightarrow> pyval" where
  "runner_info_value r =
     PModel [(''engine'', PStr (ri_engine r)), (''engine_source_tree_hash'', PStr (ri_engine_source_tree_hash r)),
             (''runner_lock_hash'', PStr (ri_runner_lock_hash r)), (''env_lock'', PStr (ri_env_lock r))]"

record result_info =
  re_status :: status
  re_new_breaches :: "assertion list"
  re_result_hash :: string

definition result_info_value :: "result_info \<Rightarrow> pyval" where
  "result_info_value r =
     PModel [(''status'', PEnum (status_value (re_status r))),
             (''new_breaches'', PList (map assertion_value (re_new_breaches r))),
             (''result_hash'', PStr (re_result_hash r))]"

record receipt_decision =
  rd_reason_code :: reason_code
  rd_verdict_tier :: "verdict_tier option"
  rd_adjusted_size_cap :: "string option"
  rd_required_proof_ids_source :: string
  rd_required_proof_ids :: "string list"
  rd_satisfied_proof_ids :: "string list"
  rd_verdict_source :: string
  rd_llm_used_for_verdict :: bool

definition receipt_decision_value :: "receipt_decision \<Rightarrow> pyval" where
  "receipt_decision_value d =
     PModel [(''reason_code'', PEnum (reason_value (rd_reason_code d))),
             (''verdict_tier'', opt_tier (rd_verdict_tier d)),
             (''adjusted_size_cap'', opt_str (rd_adjusted_size_cap d)),
             (''required_proof_ids_source'', PStr (rd_required_proof_ids_source d)),
             (''required_proof_ids'', strs (rd_required_proof_ids d)),
             (''satisfied_proof_ids'', strs (rd_satisfied_proof_ids d)),
             (''verdict_source'', PStr (rd_verdict_source d)),
             (''llm_used_for_verdict'', PBool (rd_llm_used_for_verdict d))]"

record report_info =
  rpi_report_hash :: string
  rpi_attribution_report_hash :: "string option"

definition report_info_value :: "report_info \<Rightarrow> pyval" where
  "report_info_value r =
     PModel [(''report_hash'', PStr (rpi_report_hash r)),
             (''attribution_report_hash'', opt_str (rpi_attribution_report_hash r))]"

record publish_info =
  pu_attempted :: bool
  pu_stop_before_final_publish :: bool
  pu_sponsor_status :: string
  pu_version_id :: "string option"
  pu_run_id :: "string option"
  pu_run_evidence_hash :: "string option"
  pu_readback_hash :: "string option"
  pu_note :: string

definition default_publish :: publish_info where
  "default_publish =
     \<lparr> pu_attempted = False, pu_stop_before_final_publish = True, pu_sponsor_status = ''not_attempted'',
       pu_version_id = None, pu_run_id = None, pu_run_evidence_hash = None, pu_readback_hash = None,
       pu_note = ''run_id is platform execution evidence, not local-equivalence proof'' \<rparr>"

definition publish_info_value :: "publish_info \<Rightarrow> pyval" where
  "publish_info_value p =
     PModel [(''attempted'', PBool (pu_attempted p)),
             (''stop_before_final_publish'', PBool (pu_stop_before_final_publish p)),
             (''sponsor_status'', PStr (pu_sponsor_status p)), (''version_id'', opt_str (pu_version_id p)),
             (''run_id'', opt_str (pu_run_id p)), (''run_evidence_hash'', opt_str (pu_run_evidence_hash p)),
             (''readback_hash'', opt_str (pu_readback_hash p)), (''note'', PStr (pu_note p))]"

text \<open>\<open>prev_receipt_hash\<close> is an option: \<open>None\<close> when the field was not set (a v3.2 receipt).\<close>

record receipt =
  rc_version :: string
  rc_prev_receipt_hash_set :: "string option"
  rc_package :: package_info
  rc_edit_provenance :: edit_provenance
  rc_baseline :: baseline_info
  rc_candidate :: candidate_info
  rc_spec :: spec_info
  rc_suite :: suite_info
  rc_runner :: runner_info
  rc_result :: result_info
  rc_coverage :: coverage_manifest
  rc_decision :: receipt_decision
  rc_proofs :: "proof_rec list"
  rc_capabilities :: capabilities
  rc_strength_summary :: string
  rc_report :: report_info
  rc_publish :: publish_info
  rc_receipt_hash :: string

definition rc_prev_receipt_hash :: "receipt \<Rightarrow> string" where
  "rc_prev_receipt_hash r = (case rc_prev_receipt_hash_set r of None \<Rightarrow> genesis | Some h \<Rightarrow> h)"

text \<open>The payload that \<open>compute_receipt_hash\<close> hashes, for any text in \<open>receipt_hash\<close>.\<close>

definition receipt_fields :: "receipt \<Rightarrow> string \<Rightarrow> (string \<times> pyval) list" where
  "receipt_fields r h =
     [(''version'', PStr (rc_version r)), (''prev_receipt_hash'', opt_str (rc_prev_receipt_hash_set r)),
      (''package'', package_info_value (rc_package r)),
      (''edit_provenance'', edit_provenance_value (rc_edit_provenance r)),
      (''baseline'', baseline_info_value (rc_baseline r)),
      (''candidate'', candidate_info_value (rc_candidate r)), (''spec'', spec_info_value (rc_spec r)),
      (''suite'', suite_info_value (rc_suite r)), (''runner'', runner_info_value (rc_runner r)),
      (''result'', result_info_value (rc_result r)), (''coverage'', coverage_value (rc_coverage r)),
      (''decision'', receipt_decision_value (rc_decision r)),
      (''proofs'', PList (map proof_value (rc_proofs r))),
      (''capabilities'', capabilities_value (rc_capabilities r)),
      (''strength_summary'', PStr (rc_strength_summary r)), (''report'', report_info_value (rc_report r)),
      (''publish'', publish_info_value (rc_publish r)), (''receipt_hash'', PStr h)]"


section \<open>Which models always have a hash\<close>

lemma plain_basic [simp]:
  "plain (opt_str a)" "plain (opt_int b)" "plain (opt_bool c)" "plain (strs d)" "plain (opt_tier e)"
  "plain (opt_reason f)" "plain (params_value g)"
  by (simp_all add: opt_str_def opt_int_def opt_bool_def strs_def opt_tier_def opt_reason_def
      params_value_def list_all_iff split_beta split: option.splits)

lemma plain_models [simp]:
  "plain (capability_value a)" "plain (capabilities_value b)" "plain (assertion_value c)"
  "plain (coverage_value d)" "plain (envelope_value e)" "plain (probe_spec_value f)"
  "plain (redline_spec_value g)" "plain (suite_value h)"
  by (simp_all add: capability_value_def capabilities_value_def assertion_value_def coverage_value_def
      cell_value_def envelope_value_def probe_spec_value_def redline_spec_value_def suite_value_def
      scenario_value_def list_all_iff)

lemma plain_receipt_parts [simp]:
  "plain (package_info_value a)" "plain (identity_file_value b)" "plain (identity_lock_value c)"
  "plain (edit_provenance_value d)" "plain (baseline_info_value e)" "plain (candidate_info_value f)"
  "plain (spec_info_value g)" "plain (suite_info_value h)" "plain (runner_info_value i)"
  "plain (result_info_value j)" "plain (receipt_decision_value k)" "plain (report_info_value l)"
  "plain (publish_info_value m)"
  by (simp_all add: package_info_value_def identity_file_value_def identity_lock_value_def
      edit_provenance_value_def baseline_info_value_def candidate_info_value_def spec_info_value_def
      suite_info_value_def runner_info_value_def result_info_value_def receipt_decision_value_def
      report_info_value_def publish_info_value_def list_all_iff)

lemma plain_proof [simp]: "plain (proof_value p) \<longleftrightarrow> list_all (\<lambda>(k, v). plain v) (pf_meta p)"
  by (simp add: proof_value_def list_all_iff)

lemma plain_receipt:
  "list_all (\<lambda>p. plain (proof_value p)) (rc_proofs r) \<Longrightarrow> plain (PModel (receipt_fields r h))"
  by (simp add: receipt_fields_def list_all_iff)

end
