(* ===== verification/Merkle.thy ===== *)
theory Merkle
  imports Models
begin

text \<open>
  \<open>src/redline/merkle.py\<close>: the Merkle root, inclusion proofs and their verification. A level of odd
  length pairs its last node with itself. Leaves are hashed with the tag \<open>leaf\<close> and inner nodes
  with the tag \<open>node\<close>, so with a digest that has no collision among the messages of one tree and
  one inclusion path, verification accepts exactly the leaf at the claimed index.
\<close>

section \<open>Nodes and levels\<close>

definition leaf_value :: "pyval \<Rightarrow> pyval" where
  "leaf_value x = PDict [(''merkle'', PStr ''leaf''), (''value'', x)]"

definition leaf_hash :: "(string \<Rightarrow> string) \<Rightarrow> pyval \<Rightarrow> exn + string" where
  "leaf_hash H x = hash_obj H True (leaf_value x)"

definition node_json :: "string \<Rightarrow> string \<Rightarrow> json" where
  "node_json l r = JObj [(''merkle'', JStr ''node''), (''left'', JStr l), (''right'', JStr r)]"

definition node_hash :: "(string \<Rightarrow> string) \<Rightarrow> string \<Rightarrow> string \<Rightarrow> string" where
  "node_hash H l r = hash_json H (node_json l r)"

fun pairs :: "'a list \<Rightarrow> ('a \<times> 'a) list" where
  "pairs [] = []"
| "pairs [a] = [(a, a)]"
| "pairs (a # b # r) = (a, b) # pairs r"

definition parent_level :: "(string \<Rightarrow> string) \<Rightarrow> string list \<Rightarrow> string list" where
  "parent_level H level = map (\<lambda>(l, r). node_hash H l r) (pairs level)"

lemma length_pairs [simp]: "length (pairs xs) = (length xs + 1) div 2"
  by (induction xs rule: pairs.induct) auto

lemma length_parent_level [simp]: "length (parent_level H xs) = (length xs + 1) div 2"
  by (simp add: parent_level_def)

lemma pairs_nth:
  "k < (length xs + 1) div 2 \<Longrightarrow>
   pairs xs ! k = (xs ! (2 * k), if 2 * k + 1 < length xs then xs ! (2 * k + 1) else xs ! (2 * k))"
proof (induction xs arbitrary: k rule: pairs.induct)
  case (3 a b r)
  then show ?case by (cases k) auto
qed auto

function reduce_level :: "(string \<Rightarrow> string) \<Rightarrow> string list \<Rightarrow> string" where
  "reduce_level H level =
     (if 1 < length level then reduce_level H (parent_level H level)
      else case level of [] \<Rightarrow> genesis | x # _ \<Rightarrow> x)"
  by pat_completeness auto
termination by (relation "measure (length \<circ> snd)") auto

declare reduce_level.simps [simp del]

lemma reduce_level_single [simp]: "reduce_level H [x] = x"
  by (simp add: reduce_level.simps)

lemma reduce_level_step: "1 < length level \<Longrightarrow> reduce_level H level = reduce_level H (parent_level H level)"
  by (subst reduce_level.simps) simp

definition merkle_root :: "(string \<Rightarrow> string) \<Rightarrow> pyval list \<Rightarrow> exn + string" where
  "merkle_root H leaves =
     (if leaves = [] then Inr genesis
      else rbind (traverse (leaf_hash H) leaves) (\<lambda>level. Inr (reduce_level H level)))"

section \<open>Inclusion proofs\<close>

text \<open>A step as it arrives in a bundle; \<open>None\<close> is a missing key.\<close>

record merkle_step =
  ms_side :: "string option"
  ms_hash :: "string option"

definition sibling :: "nat \<Rightarrow> 'a list \<Rightarrow> nat" where
  "sibling cursor level =
     (let s = (if odd cursor then cursor - 1 else cursor + 1)
      in if length level \<le> s then cursor else s)"

function proof_steps :: "(string \<Rightarrow> string) \<Rightarrow> nat \<Rightarrow> string list \<Rightarrow> merkle_step list" where
  "proof_steps H cursor level =
     (if 1 < length level
      then (let s = sibling cursor level
            in \<lparr> ms_side = Some (if s < cursor then ''left'' else ''right''), ms_hash = Some (level ! s) \<rparr>
                 # proof_steps H (cursor div 2) (parent_level H level))
      else [])"
  by pat_completeness auto
termination by (relation "measure (length \<circ> snd \<circ> snd)") auto

declare proof_steps.simps [simp del]

definition merkle_proof :: "(string \<Rightarrow> string) \<Rightarrow> pyval list \<Rightarrow> int \<Rightarrow> exn + merkle_step list" where
  "merkle_proof H leaves index =
     (if index < 0 \<or> int (length leaves) \<le> index then Inl IndexError
      else rbind (traverse (leaf_hash H) leaves) (\<lambda>level. Inr (proof_steps H (nat index) level)))"

text \<open>The loop of \<open>verify_inclusion\<close>; \<open>None\<close> is its early \<open>return False\<close>.\<close>

fun climb :: "(string \<Rightarrow> string) \<Rightarrow> nat \<Rightarrow> nat option \<Rightarrow> string \<Rightarrow> merkle_step list \<Rightarrow> string option" where
  "climb H cursor width current [] = Some current"
| "climb H cursor width current (s # ss) =
     (case (ms_side s, ms_hash s) of
        (Some side, Some h) \<Rightarrow>
          if side = ''left'' then
            (if even cursor then None
             else climb H (cursor div 2) (map_option (\<lambda>w. (w + 1) div 2) width) (node_hash H h current) ss)
          else if side = ''right'' then
            (if odd cursor then None
             else if (case width of None \<Rightarrow> False | Some w \<Rightarrow> w \<le> cursor + 1) \<and> h \<noteq> current then None
             else climb H (cursor div 2) (map_option (\<lambda>w. (w + 1) div 2) width) (node_hash H current h) ss)
          else None
      | _ \<Rightarrow> None)"

definition verify_inclusion ::
  "(string \<Rightarrow> string) \<Rightarrow> pyval \<Rightarrow> int \<Rightarrow> merkle_step list \<Rightarrow> string \<Rightarrow> int option \<Rightarrow> exn + bool" where
  "verify_inclusion H leaf index path rt leaf_count =
     (if index < 0 then Inr False
      else if (case leaf_count of None \<Rightarrow> False | Some n \<Rightarrow> n \<le> 0 \<or> n \<le> index) then Inr False
      else rbind (leaf_hash H leaf)
             (\<lambda>h. Inr (climb H (nat index) (map_option nat leaf_count) h path = Some rt)))"

section \<open>Completeness\<close>

lemma parent_level_nth:
  assumes "cursor < length level"
  shows "odd cursor \<Longrightarrow>
      parent_level H level ! (cursor div 2) = node_hash H (level ! (cursor - 1)) (level ! cursor)"
    and "even cursor \<Longrightarrow> parent_level H level ! (cursor div 2)
      = node_hash H (level ! cursor) (if cursor + 1 < length level then level ! (cursor + 1) else level ! cursor)"
proof -
  have k: "cursor div 2 < (length level + 1) div 2" using assms by auto
  show "parent_level H level ! (cursor div 2) = node_hash H (level ! (cursor - 1)) (level ! cursor)"
    if "odd cursor"
  proof -
    from that obtain m where "cursor = 2 * m + 1" by (rule oddE)
    then show ?thesis using k assms by (simp add: parent_level_def pairs_nth)
  qed
  show "parent_level H level ! (cursor div 2)
      = node_hash H (level ! cursor) (if cursor + 1 < length level then level ! (cursor + 1) else level ! cursor)"
    if "even cursor"
  proof -
    from that obtain m where "cursor = 2 * m" by (rule evenE)
    then show ?thesis using k assms by (simp add: parent_level_def pairs_nth)
  qed
qed

lemma climb_one_step:
  assumes "1 < length level" "cursor < length level" "width = None \<or> width = Some (length level)"
  shows "climb H cursor width (level ! cursor) (proof_steps H cursor level)
    = climb H (cursor div 2) (map_option (\<lambda>w. (w + 1) div 2) width)
        (parent_level H level ! (cursor div 2)) (proof_steps H (cursor div 2) (parent_level H level))"
proof (cases "odd cursor")
  case True
  then have "0 < cursor" by (cases cursor) auto
  moreover have "\<not> length level \<le> cursor - 1" using assms(2) by simp
  ultimately show ?thesis using True assms
    by (simp add: proof_steps.simps [of H cursor level] sibling_def Let_def parent_level_nth)
next
  case False
  with assms show ?thesis
    by (auto simp: proof_steps.simps [of H cursor level] sibling_def Let_def parent_level_nth)
qed

lemma climb_proof_steps:
  assumes "cursor < length level" "width = None \<or> width = Some (length level)"
  shows "climb H cursor width (level ! cursor) (proof_steps H cursor level) = Some (reduce_level H level)"
  using assms
proof (induction H cursor level arbitrary: width rule: proof_steps.induct)
  case (1 H cursor level)
  show ?case
  proof (cases "1 < length level")
    case True
    have k: "cursor div 2 < length (parent_level H level)" using "1.prems"(1) by auto
    have "map_option (\<lambda>w. (w + 1) div 2) width = None \<or>
          map_option (\<lambda>w. (w + 1) div 2) width = Some (length (parent_level H level))"
      using "1.prems"(2) by auto
    from "1.IH" [OF True refl k this] show ?thesis
      using climb_one_step [OF True "1.prems"] True by (simp add: reduce_level_step)
  next
    case False
    with "1.prems" obtain x where "level = [x]" "cursor = 0" by (cases level) auto
    then show ?thesis by (simp add: proof_steps.simps)
  qed
qed

text \<open>C22: the proof that \<open>merkle_proof\<close> makes for any index of the leaves is accepted by
  \<open>verify_inclusion\<close> for the leaf at that index against the root, with or without the leaf count.\<close>

theorem merkle_complete:
  assumes idx: "0 \<le> i" "i < int (length leaves)" and root: "merkle_root H leaves = Inr rt"
    and cnt: "cnt = None \<or> cnt = Some (int (length leaves))"
  shows "\<exists>p. merkle_proof H leaves i = Inr p \<and> verify_inclusion H (leaves ! nat i) i p rt cnt = Inr True"
proof -
  from idx have ne: "leaves \<noteq> []" by auto
  with root obtain level where level: "traverse (leaf_hash H) leaves = Inr level" "rt = reduce_level H level"
    by (auto simp: merkle_root_def rbind_Inr_iff)
  have len: "length level = length leaves" by (rule traverse_length [OF level(1)])
  have i: "nat i < length leaves" using idx by simp
  have "leaf_hash H (leaves ! nat i) = Inr (level ! nat i)" by (rule traverse_nth [OF level(1) i])
  moreover have "climb H (nat i) (map_option nat cnt) (level ! nat i) (proof_steps H (nat i) level)
      = Some (reduce_level H level)"
    using cnt i len by (intro climb_proof_steps) auto
  ultimately show ?thesis
    using idx cnt level by (auto simp: merkle_proof_def verify_inclusion_def)
qed


section \<open>Soundness\<close>

text \<open>The messages that are hashed: by the tree over a list of leaves, and along a path.\<close>

definition leaf_msg :: "json \<Rightarrow> string" where
  "leaf_msg j = dumps (JObj [(''merkle'', JStr ''leaf''), (''value'', j)])"

definition node_msg :: "string \<Rightarrow> string \<Rightarrow> string" where
  "node_msg l r = dumps (JObj [(''left'', JStr l), (''merkle'', JStr ''node''), (''right'', JStr r)])"

definition leaf_messages :: "pyval list \<Rightarrow> string list" where
  "leaf_messages xs = map (\<lambda>x. case normalize True x of Inl _ \<Rightarrow> '''' | Inr j \<Rightarrow> leaf_msg j) xs"

function node_messages :: "(string \<Rightarrow> string) \<Rightarrow> string list \<Rightarrow> string list" where
  "node_messages H level =
     (if 1 < length level
      then map (\<lambda>(l, r). node_msg l r) (pairs level) @ node_messages H (parent_level H level) else [])"
  by pat_completeness auto
termination by (relation "measure (length \<circ> snd)") auto

declare node_messages.simps [simp del]

definition tree_messages :: "(string \<Rightarrow> string) \<Rightarrow> pyval list \<Rightarrow> string list" where
  "tree_messages H xs =
     leaf_messages xs @ (case traverse (leaf_hash H) xs of Inl _ \<Rightarrow> [] | Inr level \<Rightarrow> node_messages H level)"

fun path_messages :: "(string \<Rightarrow> string) \<Rightarrow> string \<Rightarrow> merkle_step list \<Rightarrow> string list" where
  "path_messages H current [] = []"
| "path_messages H current (s # ss) =
     (case ms_hash s of
        None \<Rightarrow> []
      | Some h \<Rightarrow>
          if ms_side s = Some ''left''
          then node_msg h current # path_messages H (node_hash H h current) ss
          else node_msg current h # path_messages H (node_hash H current h) ss)"

definition inclusion_messages :: "(string \<Rightarrow> string) \<Rightarrow> pyval \<Rightarrow> merkle_step list \<Rightarrow> string list" where
  "inclusion_messages H x p =
     leaf_messages [x] @ (case leaf_hash H x of Inl _ \<Rightarrow> [] | Inr h \<Rightarrow> path_messages H h p)"

lemma leaf_hash_msg:
  "leaf_hash H x = Inr h \<longleftrightarrow> (\<exists>j. normalize True x = Inr j \<and> h = sha256_bytes H (leaf_msg j))"
  by (auto simp: leaf_hash_def leaf_value_def hash_obj_Inr canonical_bytes_Inr rbind_Inr_iff leaf_msg_def)

lemma node_hash_msg: "node_hash H l r = sha256_bytes H (node_msg l r)"
  by (simp add: node_hash_def hash_json_def node_json_def node_msg_def)

lemma node_msg_inj: "node_msg l r = node_msg l' r' \<longleftrightarrow> l = l' \<and> r = r'"
  by (simp add: node_msg_def dumps_inj del: dumps.simps)

lemma leaf_msg_inj: "leaf_msg j = leaf_msg j' \<longleftrightarrow> j = j'"
  by (simp add: leaf_msg_def dumps_inj del: dumps.simps)

lemma leaf_not_node: "leaf_msg j \<noteq> node_msg l r"
  by (simp add: leaf_msg_def node_msg_def dumps_inj del: dumps.simps)

lemma msg_eq: "inj_on H M \<Longrightarrow> a \<in> M \<Longrightarrow> b \<in> M \<Longrightarrow> sha256_bytes H a = sha256_bytes H b \<longleftrightarrow> a = b"
  by (auto simp: hash_simps dest: inj_onD)

text \<open>\<open>full M H d v\<close>: \<open>v\<close> is the root of a full tree of height \<open>d\<close> whose messages lie in \<open>M\<close>.\<close>

fun full :: "string set \<Rightarrow> (string \<Rightarrow> string) \<Rightarrow> nat \<Rightarrow> string \<Rightarrow> bool" where
  "full M H 0 v = (\<exists>j. leaf_msg j \<in> M \<and> v = sha256_bytes H (leaf_msg j))"
| "full M H (Suc d) v = (\<exists>l r. node_msg l r \<in> M \<and> v = node_hash H l r \<and> full M H d l \<and> full M H d r)"

fun depth :: "nat \<Rightarrow> nat" where
  "depth n = (if 1 < n then Suc (depth ((n + 1) div 2)) else 0)"

declare depth.simps [simp del]

lemma node_msg_in_messages:
  assumes "1 < length level" "cursor < length level"
  shows "odd cursor \<Longrightarrow> node_msg (level ! (cursor - 1)) (level ! cursor) \<in> set (node_messages H level)"
    and "even cursor \<Longrightarrow>
      node_msg (level ! cursor) (if cursor + 1 < length level then level ! (cursor + 1) else level ! cursor)
        \<in> set (node_messages H level)"
proof -
  let ?k = "cursor div 2"
  have k: "?k < length (pairs level)" using assms(2) by auto
  have "(case pairs level ! ?k of (l, r) \<Rightarrow> node_msg l r) \<in> (\<lambda>(l, r). node_msg l r) ` set (pairs level)"
    using k by (intro imageI) (simp only: nth_mem)
  then have m: "(case pairs level ! ?k of (l, r) \<Rightarrow> node_msg l r) \<in> set (node_messages H level)"
    using assms(1) by (subst node_messages.simps) auto
  show "node_msg (level ! (cursor - 1)) (level ! cursor) \<in> set (node_messages H level)" if "odd cursor"
  proof -
    from that obtain q where "cursor = 2 * q + 1" by (rule oddE)
    with m k assms(2) show ?thesis by (simp add: pairs_nth)
  qed
  show "node_msg (level ! cursor) (if cursor + 1 < length level then level ! (cursor + 1) else level ! cursor)
        \<in> set (node_messages H level)" if "even cursor"
  proof -
    from that obtain q where "cursor = 2 * q" by (rule evenE)
    with m k assms(2) show ?thesis by (auto simp: pairs_nth split: if_splits)
  qed
qed

lemma pairs_set: "(a, b) \<in> set (pairs xs) \<Longrightarrow> a \<in> set xs \<and> b \<in> set xs"
  by (induction xs rule: pairs.induct) auto

lemma full_parent_level:
  assumes "\<And>v. v \<in> set level \<Longrightarrow> full M H d v" "set (node_messages H level) \<subseteq> M" "1 < length level"
  shows "v \<in> set (parent_level H level) \<Longrightarrow> full M H (Suc d) v"
proof -
  assume "v \<in> set (parent_level H level)"
  then obtain l r where lr: "(l, r) \<in> set (pairs level)" "v = node_hash H l r"
    by (auto simp: parent_level_def)
  have "node_msg l r \<in> M"
    using assms(2,3) lr(1) by (subst (asm) node_messages.simps) auto
  moreover have "full M H d l" "full M H d r" using pairs_set [OF lr(1)] assms(1) by auto
  ultimately show ?thesis using lr(2) by auto
qed

lemma full_reduce_level:
  "level \<noteq> [] \<Longrightarrow> (\<And>v. v \<in> set level \<Longrightarrow> full M H d v) \<Longrightarrow> set (node_messages H level) \<subseteq> M \<Longrightarrow>
   full M H (d + depth (length level)) (reduce_level H level)"
proof (induction H level arbitrary: d rule: reduce_level.induct)
  case (1 H level)
  show ?case
  proof (cases "1 < length level")
    case True
    have ne: "parent_level H level \<noteq> []" using True by (simp flip: length_greater_0_conv)
    have sub: "set (node_messages H (parent_level H level)) \<subseteq> M"
      using "1.prems"(3) True by (subst (asm) node_messages.simps) auto
    have "full M H (Suc d + depth (length (parent_level H level))) (reduce_level H (parent_level H level))"
      by (rule "1.IH" [OF True ne _ sub]) (rule full_parent_level [OF "1.prems"(2,3) True])
    then show ?thesis using True by (simp add: reduce_level_step depth.simps [of "length level"])
  next
    case False
    with "1.prems"(1) obtain x where "level = [x]" by (cases level) auto
    with "1.prems"(2) show ?thesis by (simp add: depth.simps)
  qed
qed

lemma climb_full:
  assumes inj: "inj_on H M"
  shows "climb H c w cur p = Some v \<Longrightarrow> full M H D v \<Longrightarrow> set (path_messages H cur p) \<subseteq> M \<Longrightarrow>
    length p \<le> D \<and> full M H (D - length p) cur"
proof (induction p arbitrary: c w cur)
  case (Cons s ss)
  obtain side h where s: "ms_side s = Some side" "ms_hash s = Some h"
    using Cons.prems(1) by (auto split: option.splits)
  define l where "l = (if side = ''left'' then h else cur)"
  define r where "r = (if side = ''left'' then cur else h)"
  obtain c' w' where step: "climb H c' w' (node_hash H l r) ss = Some v"
    using Cons.prems(1) s by (auto simp: l_def r_def split: if_splits)
  have m: "node_msg l r \<in> M" and rest: "set (path_messages H (node_hash H l r) ss) \<subseteq> M"
    using Cons.prems(3) s by (auto simp: l_def r_def split: if_splits)
  from Cons.IH [OF step Cons.prems(2) rest]
  have ih: "length ss \<le> D" "full M H (D - length ss) (node_hash H l r)" by auto
  show ?case
  proof (cases "D - length ss")
    case 0
    with ih(2) obtain j where "leaf_msg j \<in> M" "node_hash H l r = sha256_bytes H (leaf_msg j)" by auto
    with m msg_eq [OF inj] leaf_not_node show ?thesis by (simp add: node_hash_msg) metis
  next
    case (Suc k)
    with ih(2) obtain l' r' where lr: "node_msg l' r' \<in> M" "node_hash H l r = node_hash H l' r'"
      "full M H k l'" "full M H k r'" by auto
    with m msg_eq [OF inj] have "l = l'" "r = r'" by (simp_all add: node_hash_msg node_msg_inj)
    with lr have "full M H k cur" by (auto simp: l_def r_def split: if_splits)
    moreover have "D - length (s # ss) = k" "length (s # ss) \<le> D" using Suc by simp_all
    ultimately show ?thesis by simp
  qed
qed simp

lemma climb_position:
  assumes inj: "inj_on H M"
  shows "climb H c w cur p = Some (reduce_level H level) \<Longrightarrow> length p = depth (length level) \<Longrightarrow>
    c < length level \<Longrightarrow> set (path_messages H cur p) \<subseteq> M \<Longrightarrow> set (node_messages H level) \<subseteq> M \<Longrightarrow>
    cur = level ! c"
proof (induction p arbitrary: c w cur level)
  case Nil
  then have "length level = 1" by (cases level) (auto simp: depth.simps split: if_splits)
  with Nil show ?case by (cases level) auto
next
  case (Cons s ss)
  obtain side h where s: "ms_side s = Some side" "ms_hash s = Some h"
    using Cons.prems(1) by (auto split: option.splits)
  have long: "1 < length level" using Cons.prems(2) by (simp add: depth.simps split: if_splits)
  define l where "l = (if side = ''left'' then h else cur)"
  define r where "r = (if side = ''left'' then cur else h)"
  obtain w' where step: "climb H (c div 2) w' (node_hash H l r) ss = Some (reduce_level H (parent_level H level))"
    and side: "side = ''left'' \<longleftrightarrow> odd c"
    using Cons.prems(1) s by (auto simp: l_def r_def reduce_level_step [OF long] split: if_splits)
  have m: "node_msg l r \<in> M" and rest: "set (path_messages H (node_hash H l r) ss) \<subseteq> M"
    using Cons.prems(4) s by (auto simp: l_def r_def split: if_splits)
  have up: "set (node_messages H (parent_level H level)) \<subseteq> M"
    using Cons.prems(5) long by (subst (asm) node_messages.simps) auto
  have len: "length ss = depth (length (parent_level H level))"
    using Cons.prems(2) long by (simp add: depth.simps [of "length level"])
  have "c div 2 < length (parent_level H level)" using Cons.prems(3) by auto
  from Cons.IH [OF step len this rest up] have eq: "node_hash H l r = parent_level H level ! (c div 2)" .
  show ?case
  proof (cases "odd c")
    case True
    from node_msg_in_messages(1) [OF long Cons.prems(3) True] Cons.prems(5)
    have "node_msg (level ! (c - 1)) (level ! c) \<in> M" by auto
    with eq m msg_eq [OF inj] have "r = level ! c"
      by (simp add: parent_level_nth(1) [OF Cons.prems(3) True] node_hash_msg node_msg_inj)
    with True side show ?thesis by (simp add: r_def)
  next
    case False
    then have ev: "even c" by simp
    from node_msg_in_messages(2) [OF long Cons.prems(3) ev] Cons.prems(5)
    have "node_msg (level ! c) (if c + 1 < length level then level ! (c + 1) else level ! c) \<in> M" by auto
    with eq m msg_eq [OF inj] have "l = level ! c"
      unfolding parent_level_nth(2) [OF Cons.prems(3) ev] node_hash_msg by (simp only: node_msg_inj)
    with False side show ?thesis by (simp add: l_def)
  qed
qed


lemma leaf_messages_in:
  "x \<in> set xs \<Longrightarrow> normalize True x = Inr j \<Longrightarrow> leaf_msg j \<in> set (leaf_messages xs)"
  by (force simp: leaf_messages_def)

text \<open>C20: only the leaf at the index is accepted there: with no digest collision among the messages of
  the tree and of the path, an inclusion proof that verifies against the root of \<open>leaves\<close> at index
  \<open>i\<close> is for a value that normalises to the leaf at \<open>i\<close>.\<close>

theorem merkle_sound:
  assumes root: "merkle_root H leaves = Inr rt" "leaves \<noteq> []"
    and ok: "verify_inclusion H x i p rt cnt = Inr True" "i < int (length leaves)"
    and inj: "inj_on H (set (tree_messages H leaves) \<union> set (inclusion_messages H x p))"
  shows "normalize True x = normalize True (leaves ! nat i)"
proof -
  let ?M = "set (tree_messages H leaves) \<union> set (inclusion_messages H x p)"
  from root obtain level where level: "traverse (leaf_hash H) leaves = Inr level" "rt = reduce_level H level"
    by (auto simp: merkle_root_def rbind_Inr_iff)
  have len: "length level = length leaves" by (rule traverse_length [OF level(1)])
  from ok obtain h w where i: "0 \<le> i" and h: "leaf_hash H x = Inr h"
    and climb: "climb H (nat i) w h p = Some (reduce_level H level)"
    by (auto simp: verify_inclusion_def rbind_Inr_iff level(2) split: if_splits)
  from h obtain j where j: "normalize True x = Inr j" "h = sha256_bytes H (leaf_msg j)"
    by (auto simp: leaf_hash_msg)
  have jM: "leaf_msg j \<in> ?M" using leaf_messages_in [of x "[x]" j] j by (auto simp: inclusion_messages_def)
  have leafM: "leaf_msg k \<in> ?M" if "y \<in> set leaves" "normalize True y = Inr k" for y k
    using leaf_messages_in [OF that] by (auto simp: tree_messages_def)
  have pathM: "set (path_messages H h p) \<subseteq> ?M" using h by (auto simp: inclusion_messages_def)
  have nodeM: "set (node_messages H level) \<subseteq> ?M" using level(1) by (auto simp: tree_messages_def)
  have lf: "full ?M H 0 v" if "v \<in> set level" for v
    using traverse_set [OF level(1) that] leafM by (auto simp: leaf_hash_msg)
  have ne: "level \<noteq> []" using len root(2) by auto
  have "full ?M H (0 + depth (length level)) (reduce_level H level)"
    by (rule full_reduce_level [OF ne _ nodeM]) (rule lf)
  then have "length p \<le> depth (length level) \<and> full ?M H (depth (length level) - length p) h"
    by (intro climb_full [OF inj climb _ pathM]) simp
  moreover have "\<not> full ?M H (Suc k) h" for k
    using jM msg_eq [OF inj] leaf_not_node by (auto simp: j(2) node_hash_msg)
  ultimately have "length p = depth (length level)"
    by (metis le_antisym diff_is_0_eq not0_implies_Suc)
  then have "h = level ! nat i"
    using ok(2) i len by (intro climb_position [OF inj climb _ _ pathM nodeM]) auto
  moreover have i': "nat i < length leaves" using ok(2) i by simp
  ultimately have "leaf_hash H (leaves ! nat i) = Inr h" using traverse_nth [OF level(1) i'] by simp
  then obtain k where k: "normalize True (leaves ! nat i) = Inr k" "h = sha256_bytes H (leaf_msg k)"
    by (auto simp: leaf_hash_msg)
  have "leaf_msg k \<in> ?M" by (rule leafM [OF nth_mem [OF i'] k(1)])
  with jM msg_eq [OF inj] j k show ?thesis by (simp add: leaf_msg_inj)
qed

lemma duplicate_last_leaf:
  "merkle_root H [a, b, c] = merkle_root H [a, b, c, c]"
proof -
  have "reduce_level H [x, y, z] = reduce_level H [x, y, z, z]" for x y z
    by (simp add: reduce_level_step parent_level_def)
  then show ?thesis
    by (cases "leaf_hash H a"; cases "leaf_hash H b"; cases "leaf_hash H c") (simp_all add: merkle_root_def)
qed

lemma merkle_root_Inr: "merkle_root H leaves = Inr rt \<Longrightarrow> leaves \<noteq> [] \<Longrightarrow>
   \<exists>level. traverse (leaf_hash H) leaves = Inr level \<and> length level = length leaves \<and> rt = reduce_level H level"
  by (auto simp: merkle_root_def rbind_Inr_iff dest: traverse_length)


section \<open>Witnesses\<close>

text \<open>A concrete tree over two leaves, with the identity for the digest.\<close>

definition two_leaves :: "pyval list" where
  "two_leaves = [PStr ''a'', PStr ''b'']"

definition two_root :: string where
  "two_root = projr (merkle_root id two_leaves)"

definition two_path :: "merkle_step list" where
  "two_path = projr (merkle_proof id two_leaves 1)"

lemma two_leaves_facts:
  "merkle_root id two_leaves = Inr two_root" "two_leaves \<noteq> []" "(1::int) < int (length two_leaves)"
  "verify_inclusion id (PStr ''b'') 1 two_path two_root (Some 2) = Inr True"
  by code_simp+

theorem merkle_complete_witness:
  "\<exists>p. merkle_proof id two_leaves 1 = Inr p \<and>
     verify_inclusion id (two_leaves ! nat 1) 1 p two_root (Some (int (length two_leaves))) = Inr True"
  by (rule merkle_complete) (use two_leaves_facts in simp_all)

theorem merkle_sound_witness:
  "verify_inclusion id (PStr ''b'') 1 two_path two_root (Some 2) = Inr True \<and>
   normalize True (PStr ''b'') = normalize True (two_leaves ! nat 1)"
  using merkle_sound [OF two_leaves_facts(1,2,4,3)] two_leaves_facts(4) by simp

end
