(* ===== verification/Proof_Kernel.thy ===== *)
theory Proof_Kernel
  imports Models "HOL-Library.Product_Lexorder" "HOL-Library.Multiset"
begin

text \<open>
  \<open>src/redline/proof_kernel.py\<close>: the pure decision function from proofs and coverage to a verdict.
  The lemmas characterise every verdict, show that the envelope is always built (no validator of
  the envelope or of the coverage can fail inside \<open>decide\<close>) and that the order in which the proofs
  arrive does not matter.
\<close>

section \<open>The decision function\<close>

definition REQUIRED_PROOFS :: "status \<Rightarrow> proof_kind list" where
  "REQUIRED_PROOFS s =
     (case s of
        St_PASS \<Rightarrow>
          [PK_BASELINE_CALIBRATION, PK_REPLAY, PK_REPLAY_WELLFORMED, PK_COVERAGE, PK_PROBE,
           PK_CANDIDATE_ABSOLUTE, PK_PACKAGE_CANONICAL, PK_SPEC_COMPILE, PK_DECISION]
      | St_WITHHELD \<Rightarrow>
          [PK_PACKAGE_CANONICAL, PK_SPEC_COMPILE, PK_REPLAY, PK_REPLAY_WELLFORMED, PK_COVERAGE,
           PK_PROBE, PK_DECISION]
      | St_REDUCE_SIZE \<Rightarrow>
          [PK_PACKAGE_CANONICAL, PK_SPEC_COMPILE, PK_REPLAY, PK_REPLAY_WELLFORMED, PK_COVERAGE,
           PK_PROBE, PK_DECISION]
      | St_REJECT \<Rightarrow> [PK_DECISION]
      | St_UNVERIFIED_NO_VERDICT \<Rightarrow> [])"

definition decision_payload ::
  "status \<Rightarrow> reason_code \<Rightarrow> string list \<Rightarrow> coverage_manifest \<Rightarrow> verdict_tier option \<Rightarrow> string option \<Rightarrow> pyval" where
  "decision_payload s r ids cov tier cap =
     PDict ([(''status'', PStr (status_value s)), (''reason_code'', PStr (reason_value r)),
             (''proof_ids'', strs (sort ids)), (''coverage'', coverage_value cov)]
            @ (case tier of None \<Rightarrow> [] | Some t \<Rightarrow> [(''verdict_tier'', PStr (tier_value t))])
            @ (case cap of None \<Rightarrow> [] | Some c \<Rightarrow> [(''adjusted_size_cap'', PStr c)]))"

definition decision_proof_id ::
  "(string \<Rightarrow> string) \<Rightarrow> status \<Rightarrow> reason_code \<Rightarrow> string list \<Rightarrow> coverage_manifest \<Rightarrow> verdict_tier option \<Rightarrow>
   string option \<Rightarrow> exn + string" where
  "decision_proof_id H s r ids cov tier cap =
     rbind (hash_obj H True (decision_payload s r ids cov tier cap))
       (\<lambda>h. Inr (''proof:decision:'' @ take 24 (removeprefix h ''sha256:'')))"

definition decision_envelope_from_receipt :: "receipt \<Rightarrow> exn + decision_envelope" where
  "decision_envelope_from_receipt r =
     validate_envelope
       \<lparr> de_status = re_status (rc_result r), de_verdict_tier = rd_verdict_tier (rc_decision r),
         de_adjusted_size_cap = rd_adjusted_size_cap (rc_decision r),
         de_reason_code = rd_reason_code (rc_decision r), de_chain_status = bi_chain_status (rc_baseline r),
         de_required_proof_ids = rd_required_proof_ids (rc_decision r),
         de_satisfied_proof_ids = rd_satisfied_proof_ids (rc_decision r),
         de_coverage = rc_coverage r, de_capabilities = rc_capabilities r \<rparr>"

definition bearing_probe :: "proof_rec \<Rightarrow> bool" where
  "bearing_probe p = (pf_kind p = PK_PROBE \<and> pf_verdict_bearing p)"

definition has_failing :: "proof_rec \<Rightarrow> bool" where
  "has_failing p = list_ex (\<lambda>a. \<not> as_holds a) (pf_assertions p)"

definition has_block_breach :: "proof_rec list \<Rightarrow> bool" where
  "has_block_breach ps = list_ex (\<lambda>p. bearing_probe p \<and> has_failing p) ps"

text \<open>The cap a failing probe proof asks for; \<open>None\<close> where \<open>_reduce_size_cap_for_breaches\<close> returns
  \<open>None\<close> at once.\<close>

definition proof_cap :: "proof_rec \<Rightarrow> pydec option" where
  "proof_cap p =
     (if map_of (pf_meta p) ''breach_action'' \<noteq> Some (PStr ''reduce_size'') then None
      else case map_of (pf_meta p) ''adjusted_size_cap'' of
             Some (PStr raw) \<Rightarrow>
               (case parse_decimal raw of
                  None \<Rightarrow> None
                | Some cap \<Rightarrow> if \<not> is_finite cap \<or> dval cap \<le> 0 \<or> 1 < dval cap then None else Some cap)
           | _ \<Rightarrow> None)"

fun collect_caps :: "proof_rec list \<Rightarrow> pydec list option" where
  "collect_caps [] = Some []"
| "collect_caps (p # ps) =
     (if \<not> bearing_probe p \<or> \<not> has_failing p then collect_caps ps
      else case proof_cap p of None \<Rightarrow> None | Some c \<Rightarrow> map_option (\<lambda>cs. c # cs) (collect_caps ps))"

definition zpad :: "nat \<Rightarrow> string \<Rightarrow> string" where
  "zpad k s = replicate (k - length s) (CHR ''0'') @ s"

text \<open>\<open>format(d, "f")\<close> of a non-negative finite decimal.\<close>

definition fixed_text :: "nat \<Rightarrow> nat \<Rightarrow> string" where
  "fixed_text c k =
     (if k = 0 then nat_str c
      else nat_str (c div 10 ^ k) @ ''.'' @ zpad k (nat_str (c mod 10 ^ k)))"

fun format_f :: "pydec \<Rightarrow> string" where
  "format_f (Finite c e) =
     (if c < 0 then ''-'' else '''') @
     (if 0 \<le> e then nat_str (nat \<bar>c\<bar> * 10 ^ nat e) else fixed_text (nat \<bar>c\<bar>) (nat (- e)))"
| "format_f (Infinity neg) = (if neg then ''-Infinity'' else ''Infinity'')"
| "format_f NaN = ''NaN''"

definition rstrip :: "char \<Rightarrow> string \<Rightarrow> string" where
  "rstrip c s = rev (dropWhile (\<lambda>x. x = c) (rev s))"

definition strip_fraction :: "string \<Rightarrow> string" where
  "strip_fraction t = (if CHR ''.'' \<in> set t then rstrip (CHR ''.'') (rstrip (CHR ''0'') t) else t)"

definition reduce_size_cap_for_breaches :: "proof_rec list \<Rightarrow> string option" where
  "reduce_size_cap_for_breaches ps =
     (case collect_caps ps of
        None \<Rightarrow> None
      | Some caps \<Rightarrow> map_option (\<lambda>c. strip_fraction (format_f c)) (max_by (\<lambda>d. - dval d) caps))"

text \<open>\<open>_missing_probe_coverage_cells\<close>: a cell counts as covered when a verdict-bearing probe proof
  names it and has an assertion on its scenario.\<close>

definition covered_cell :: "proof_rec \<Rightarrow> (string \<times> string) option" where
  "covered_cell p =
     (if \<not> bearing_probe p then None
      else case (map_of (pf_meta p) ''scenario_id'', map_of (pf_meta p) ''probe_id'') of
             (Some (PStr s), Some (PStr q)) \<Rightarrow>
               if list_ex (\<lambda>a. as_scenario_id a = s) (pf_assertions p) then Some (s, q) else None
           | _ \<Rightarrow> None)"

fun covered_from :: "(string \<times> string) list \<Rightarrow> proof_rec list \<Rightarrow> (string \<times> string) list" where
  "covered_from acc [] = acc"
| "covered_from acc (p # ps) =
     covered_from (case covered_cell p of None \<Rightarrow> acc
                   | Some c \<Rightarrow> if c \<in> set acc then acc else acc @ [c]) ps"

definition missing_probe_coverage_cells :: "proof_rec list \<Rightarrow> coverage_manifest \<Rightarrow> string list" where
  "missing_probe_coverage_cells ps cov =
     map (\<lambda>(s, q). s @ '':'' @ q @ '':missing_probe_proof'')
       (filter (\<lambda>c. c \<notin> set (covered_from [] ps)) (cm_cells cov))"

text \<open>The coverage that \<open>decide\<close> works with.\<close>

definition effective_coverage :: "proof_rec list \<Rightarrow> coverage_manifest \<Rightarrow> exn + coverage_manifest" where
  "effective_coverage ps cov =
     rbind
       (if cm_complete cov \<and> (cm_cells cov = [] \<or> has_duplicates (cm_cells cov))
        then make_coverage (unique_sorted (cm_cells cov)) False [reason_value RC_COVERAGE_INCOMPLETE]
        else Inr cov)
       (\<lambda>cov1.
          if cm_complete cov1
          then (let m = missing_probe_coverage_cells ps cov1
                in if m \<noteq> [] then make_coverage (cm_cells cov1) False m else Inr cov1)
          else Inr cov1)"

text \<open>Status, tier, reason and cap before the check of the required kinds.\<close>

definition base_verdict ::
  "proof_rec list \<Rightarrow> coverage_manifest \<Rightarrow> decision_context \<Rightarrow> status \<times> verdict_tier \<times> reason_code \<times> string option" where
  "base_verdict ps cov ctx =
     (case dc_reject_reason ctx of
        Some r \<Rightarrow> (St_REJECT, Tier_BLOCK, r, None)
      | None \<Rightarrow>
          if \<not> cm_complete cov \<or> cm_cells cov = []
          then (St_UNVERIFIED_NO_VERDICT, Tier_HUMAN_REVIEW,
                if list_ex (\<lambda>m. contains m ''errored'') (cm_missing cov) then RC_PROBE_ERROR
                else RC_COVERAGE_INCOMPLETE, None)
          else if has_block_breach ps
          then (case reduce_size_cap_for_breaches ps of
                  Some cap \<Rightarrow> (St_REDUCE_SIZE, Tier_REDUCE_SIZE, RC_NEW_BLOCK_BREACH, Some cap)
                | None \<Rightarrow> (St_WITHHELD, Tier_BLOCK, RC_NEW_BLOCK_BREACH, None))
          else (St_PASS, Tier_ALLOW,
                if dc_chain_status ctx = CS_GENESIS then RC_BASELINE_GENESIS else RC_PASS, None))"

definition ids_of_kind :: "proof_rec list \<Rightarrow> proof_kind \<Rightarrow> string list" where
  "ids_of_kind ps k = map pf_proof_id (filter (\<lambda>p. pf_verdict_bearing p \<and> pf_kind p = k) ps)"

definition missing_kinds :: "(status \<Rightarrow> proof_kind list) \<Rightarrow> proof_rec list \<Rightarrow> status \<Rightarrow> proof_kind list" where
  "missing_kinds required ps s = filter (\<lambda>k. k \<noteq> PK_DECISION \<and> ids_of_kind ps k = []) (required s)"

definition final_verdict ::
  "(status \<Rightarrow> proof_kind list) \<Rightarrow> proof_rec list \<Rightarrow> status \<times> verdict_tier \<times> reason_code \<times> string option \<Rightarrow>
   status \<times> verdict_tier \<times> reason_code \<times> string option" where
  "final_verdict required ps v =
     (case v of (s, t, r, cap) \<Rightarrow>
        if missing_kinds required ps s \<noteq> [] \<and> s \<in> {St_PASS, St_WITHHELD, St_REDUCE_SIZE}
        then (St_UNVERIFIED_NO_VERDICT, Tier_HUMAN_REVIEW, RC_UNVERIFIED_NO_VERDICT, None)
        else (s, t, r, cap))"

definition required_ids :: "(status \<Rightarrow> proof_kind list) \<Rightarrow> proof_rec list \<Rightarrow> status \<Rightarrow> string \<Rightarrow> string list" where
  "required_ids required ps s did =
     concat (map (\<lambda>k. if k = PK_DECISION then [did] else sort (ids_of_kind ps k))
                 (sort_key kind_value (required s)))"

definition decide ::
  "(string \<Rightarrow> string) \<Rightarrow> (status \<Rightarrow> proof_kind list) \<Rightarrow> proof_rec list \<Rightarrow> coverage_manifest \<Rightarrow>
   decision_context \<Rightarrow> exn + decision_envelope" where
  "decide H required ps cov ctx =
     rbind (effective_coverage ps cov) (\<lambda>cov.
       let caps = default_capabilities (int (length (unique_sorted (map fst (cm_cells cov)))));
           (s, t, r, cap) = final_verdict required ps (base_verdict ps cov ctx)
       in rbind (decision_proof_id H s r (map pf_proof_id ps) cov (Some t) cap) (\<lambda>did.
            let ids = required_ids required ps s did
            in validate_envelope
                 \<lparr> de_status = s, de_verdict_tier = Some t, de_adjusted_size_cap = cap, de_reason_code = r,
                   de_chain_status = dc_chain_status ctx, de_required_proof_ids = ids,
                   de_satisfied_proof_ids = ids, de_coverage = cov, de_capabilities = caps \<rparr>))"

section \<open>Canonical text of a cap\<close>

lemma digit_char_not [simp]:
  "d < 10 \<Longrightarrow> digit_char d \<noteq> CHR ''.''" "d < 10 \<Longrightarrow> digit_char d = CHR ''0'' \<longleftrightarrow> d = 0"
  by (simp_all add: char_eq_of_char of_char_digit)

lemma digit_char_0 [simp]: "digit_char 0 = CHR ''0''"
  using digit_char_not(2) [of 0] by simp

lemma nat_str_times_10: "0 < m \<Longrightarrow> nat_str (10 * m) = nat_str m @ ''0''"
  by (subst nat_str.simps) simp

lemma nat_str_0: "nat_str 0 = ''0''"
  by (simp add: nat_str.simps)

lemma last_nat_str: "last (nat_str m) = digit_char (m mod 10)"
  by (subst nat_str.simps) auto

lemma zpad_times_10: "0 < k \<Longrightarrow> zpad (Suc k) (nat_str (10 * m)) = zpad k (nat_str m) @ ''0''"
proof (cases "m = 0")
  case True
  assume "0 < k"
  then obtain j where "k = Suc j" by (cases k) auto
  with True show ?thesis by (simp add: nat_str_0 zpad_def replicate_append_same)
qed (simp add: nat_str_times_10 zpad_def)

lemma rstrip_snoc [simp]: "rstrip c (s @ [d]) = (if d = c then rstrip c s else s @ [d])"
  by (simp add: rstrip_def)

lemma rstrip_id: "s \<noteq> [] \<Longrightarrow> last s \<noteq> c \<Longrightarrow> rstrip c s = s"
  by (cases s rule: rev_cases) auto



lemma dot_not_in_nat_str [simp]: "CHR ''.'' \<notin> set (nat_str n)"
  using nat_str_digits [of "CHR ''.''" n] by (auto simp: is_digit_def)

lemma rstrip_dot_nat_str [simp]: "rstrip (CHR ''.'') (nat_str n) = nat_str n"
  by (rule rstrip_id) (auto simp: last_nat_str)

lemma strip_fraction_times_10:
  "strip_fraction (fixed_text (10 * c) (Suc k)) = strip_fraction (fixed_text c k)"
proof (cases k)
  case 0
  have "zpad (Suc 0) ''0'' = ''0''" by (simp add: zpad_def)
  then have "fixed_text (10 * c) 1 = (nat_str c @ ''.'') @ ''0''"
    by (simp add: fixed_text_def nat_str_0)
  then have "strip_fraction (fixed_text (10 * c) 1) = nat_str c"
    by (simp add: strip_fraction_def del: append_assoc)
  then show ?thesis using 0 by (simp add: fixed_text_def strip_fraction_def)
next
  case (Suc j)
  have "10 * c div (10 * 10 ^ k) = c div 10 ^ k" by simp
  moreover have "10 * c mod (10 * 10 ^ k) = 10 * (c mod 10 ^ k)" by (rule mult_mod_right [symmetric])
  ultimately have "fixed_text (10 * c) (Suc k) = fixed_text c k @ ''0''"
    using Suc by (simp add: fixed_text_def zpad_times_10)
  moreover have "CHR ''.'' \<in> set (fixed_text c k)" using Suc by (simp add: fixed_text_def)
  ultimately show ?thesis by (simp add: strip_fraction_def)
qed

lemma strip_fraction_shift:
  "strip_fraction (fixed_text (10 ^ j * c) (j + k)) = strip_fraction (fixed_text c k)"
  by (induction j) (use strip_fraction_times_10 in \<open>auto simp: mult.assoc\<close>)

text \<open>The text depends on the value only.\<close>

lemma strip_fraction_cong:
  assumes "c * 10 ^ k' = c' * 10 ^ k"
  shows "strip_fraction (fixed_text c k) = strip_fraction (fixed_text c' k')"
proof -
  have *: "strip_fraction (fixed_text a k) = strip_fraction (fixed_text b l)"
    if eq: "a * 10 ^ l = b * 10 ^ k" and le: "k \<le> l" for a b k l
  proof -
    obtain j where l: "l = j + k" using le by (metis add.commute le_Suc_ex)
    with eq have "b = 10 ^ j * a" by (simp add: power_add ac_simps)
    with l strip_fraction_shift [of j a k] show ?thesis by simp
  qed
  show ?thesis
  proof (cases "k \<le> k'")
    case True
    show ?thesis by (rule * [OF assms True])
  next
    case False
    then show ?thesis using * [of c' k c k'] assms by simp
  qed
qed

lemma strip_fraction_normal:
  "\<exists>c' k'. c * 10 ^ k' = c' * 10 ^ k \<and> (k' = 0 \<or> c' mod 10 \<noteq> 0)
     \<and> strip_fraction (fixed_text c k) = fixed_text c' k'"
proof (induction k arbitrary: c)
  case 0
  show ?case by (rule exI [of _ c], rule exI [of _ 0]) (simp add: fixed_text_def strip_fraction_def)
next
  case (Suc k)
  show ?case
  proof (cases "c mod 10 = 0")
    case True
    then obtain d where d: "c = 10 * d" by (auto elim: dvdE simp: mod_eq_0_iff_dvd)
    from Suc [of d] obtain c' k' where "d * 10 ^ k' = c' * 10 ^ k" "k' = 0 \<or> c' mod 10 \<noteq> 0"
      "strip_fraction (fixed_text d k) = fixed_text c' k'" by auto
    then show ?thesis using strip_fraction_times_10 [of d k] d
      by (intro exI [of _ c'] exI [of _ k']) simp
  next
    case False
    let ?m = "c mod 10 ^ Suc k"
    have "?m mod 10 = c mod 10" by (simp add: mod_mod_cancel)
    then have lst: "last (nat_str ?m) \<noteq> CHR ''0''" "last (nat_str ?m) \<noteq> CHR ''.''"
      using False by (simp_all add: last_nat_str)
    have "last (fixed_text c (Suc k)) = last (nat_str ?m)" "fixed_text c (Suc k) \<noteq> []"
      by (simp_all add: fixed_text_def zpad_def)
    with lst have "strip_fraction (fixed_text c (Suc k)) = fixed_text c (Suc k)"
      by (simp add: strip_fraction_def rstrip_id)
    with False show ?thesis by (intro exI [of _ c] exI [of _ "Suc k"]) simp
  qed
qed

lemma zpad_facts:
  assumes "n < 10 ^ k" "0 < k"
  shows "length (zpad k (nat_str n)) = k" "str_nat (zpad k (nat_str n)) = n"
    "list_all is_digit (zpad k (nat_str n))"
proof -
  from length_nat_str_bound [OF assms] have "length (nat_str n) \<le> k" .
  then show "length (zpad k (nat_str n)) = k" by (simp add: zpad_def)
  show "str_nat (zpad k (nat_str n)) = n" by (simp add: zpad_def str_nat_append)
  have "is_digit (CHR ''0'')" by (simp add: is_digit_def)
  then show "list_all is_digit (zpad k (nat_str n))"
    by (auto simp: zpad_def list_all_iff intro: nat_str_digits)
qed

lemma decimal_text_plain:
  assumes "list_all is_digit ip" "ip \<noteq> []" "list_all is_digit fp"
  shows "decimal_text (ip @ fraction fp) = Some (of_nat (str_nat (ip @ fp)) / 10 ^ length fp)"
proof -
  have "takeWhile is_digit (ip @ fraction fp) = ip" "dropWhile is_digit (ip @ fraction fp) = fraction fp"
    using assms by (auto simp: takeWhile_append2 dropWhile_append2 list_all_iff is_digit_def fraction_def)
  then have "is_decimal_text (ip @ fraction fp)"
    using assms by (auto simp: is_decimal_text_def Let_def fraction_def all_digits_def)
  then show ?thesis
    using parse_decimal_plain [OF assms, of False] pow10_neg [of "length fp"]
    by (simp add: decimal_text_def decimal_of_def signed_def)
qed

lemma decimal_text_fixed: "decimal_text (fixed_text c k) = Some (of_nat c / 10 ^ k)"
proof (cases "k = 0")
  case True
  have "list_all is_digit (nat_str c)" by (auto simp: list_all_iff intro: nat_str_digits)
  from decimal_text_plain [OF this, of "[]"] True show ?thesis
    by (simp add: fixed_text_def fraction_def)
next
  case False
  let ?ip = "nat_str (c div 10 ^ k)" and ?fp = "zpad k (nat_str (c mod 10 ^ k))"
  have ip: "list_all is_digit ?ip" by (auto simp: list_all_iff intro: nat_str_digits)
  have fp: "length ?fp = k" "str_nat ?fp = c mod 10 ^ k" "list_all is_digit ?fp"
    using False by (auto intro!: zpad_facts)
  have "str_nat (?ip @ ?fp) = c" by (simp only: str_nat_append fp str_nat_nat_str div_mult_mod_eq)
  moreover have "fixed_text c k = ?ip @ fraction ?fp" using False fp(1) by (auto simp: fixed_text_def fraction_def)
  ultimately show ?thesis using decimal_text_plain [OF ip _ fp(3)] fp(1) by simp
qed

text \<open>The text of a cap reads back to the cap.\<close>

definition cap_ok :: "pydec \<Rightarrow> bool" where
  "cap_ok d = (is_finite d \<and> 0 < dval d \<and> dval d \<le> 1)"

lemma positive_shape:
  assumes "is_finite d" "0 < dval d"
  obtains c k where "format_f d = fixed_text c k" "dval d = of_nat c / 10 ^ k"
proof (cases d)
  case (Finite a e)
  have pos: "0 < pow10 e" by (simp add: pow10_def)
  with assms Finite have a: "0 < a" by (simp add: zero_less_mult_iff)
  show thesis
  proof (cases "0 \<le> e")
    case True
    have "nat \<bar>a\<bar> * 10 ^ nat e = nat (a * 10 ^ nat e)" using a by (simp add: nat_mult_distrib nat_power_eq)
    then show thesis using Finite True a
      by (intro that [of "nat (a * 10 ^ nat e)" 0]) (simp_all add: fixed_text_def pow10_def)
  next
    case False
    then show thesis using Finite a
      by (intro that [of "nat a" "nat (- e)"]) (simp_all add: pow10_def)
  qed
qed (use assms in simp_all)

lemma cap_shape:
  assumes "cap_ok d"
  obtains c k where "format_f d = fixed_text c k" "dval d = of_nat c / 10 ^ k"
  using assms positive_shape [of d] by (auto simp: cap_ok_def)

lemma cap_text_reads_back:
  assumes "cap_ok d"
  shows "decimal_text (strip_fraction (format_f d)) = Some (dval d)"
proof -
  from cap_shape [OF assms] obtain c k where ck: "format_f d = fixed_text c k" "dval d = of_nat c / 10 ^ k" .
  from strip_fraction_normal [of c k] obtain c' k' where n: "c * 10 ^ k' = c' * 10 ^ k"
    "strip_fraction (fixed_text c k) = fixed_text c' k'" by auto
  from n(1) have "(of_nat c * 10 ^ k' :: rat) = of_nat c' * 10 ^ k"
    by (metis of_nat_mult of_nat_numeral of_nat_power)
  then have "of_nat c' / 10 ^ k' = (of_nat c / 10 ^ k :: rat)" by (simp add: field_simps)
  with ck n(2) decimal_text_fixed [of c' k'] show ?thesis by simp
qed

lemma cap_text_cong:
  assumes "cap_ok d" "cap_ok d'" "dval d = dval d'"
  shows "strip_fraction (format_f d) = strip_fraction (format_f d')"
proof -
  from cap_shape [OF assms(1)] obtain c k where ck: "format_f d = fixed_text c k" "dval d = of_nat c / 10 ^ k" .
  from cap_shape [OF assms(2)] obtain c' k' where ck': "format_f d' = fixed_text c' k'" "dval d' = of_nat c' / 10 ^ k'" .
  from assms(3) ck(2) ck'(2) have "(of_nat c * 10 ^ k' :: rat) = of_nat c' * 10 ^ k" by (simp add: field_simps)
  then have "c * 10 ^ k' = c' * 10 ^ k"
    by (metis (mono_tags) of_nat_eq_iff of_nat_mult of_nat_numeral of_nat_power)
  from strip_fraction_cong [OF this] ck(1) ck'(1) show ?thesis by simp
qed


section \<open>What the helpers compute\<close>

lemma proof_cap_ok: "proof_cap p = Some c \<Longrightarrow> cap_ok c"
  by (auto simp: proof_cap_def cap_ok_def not_le not_less split: if_splits option.splits pyval.splits)

definition breaching :: "proof_rec \<Rightarrow> bool" where
  "breaching p = (bearing_probe p \<and> has_failing p)"

lemma has_block_breach_iff: "has_block_breach ps \<longleftrightarrow> (\<exists>p \<in> set ps. breaching p)"
  by (simp add: has_block_breach_def breaching_def list_ex_iff)

lemma collect_caps_eq:
  "collect_caps ps = (if list_all (\<lambda>p. proof_cap p \<noteq> None) (filter breaching ps)
     then Some (map (the \<circ> proof_cap) (filter breaching ps)) else None)"
  by (induction ps) (auto simp: breaching_def [abs_def] comp_def split: option.splits)

lemma covered_from_set: "set (covered_from acc ps) = set acc \<union> {c. \<exists>p \<in> set ps. covered_cell p = Some c}"
  by (induction ps arbitrary: acc) (auto split: option.splits if_splits)

lemma missing_cells_cong:
  "set ps = set ps' \<Longrightarrow> missing_probe_coverage_cells ps cov = missing_probe_coverage_cells ps' cov"
  by (simp add: missing_probe_coverage_cells_def covered_from_set)

lemma missing_cells_Nil:
  "missing_probe_coverage_cells ps cov = [] \<longleftrightarrow>
   (\<forall>c \<in> set (cm_cells cov). \<exists>p \<in> set ps. covered_cell p = Some c)"
  by (auto simp: missing_probe_coverage_cells_def covered_from_set filter_empty_conv)

lemma covered_cell_Some:
  "covered_cell p = Some (s, q) \<longleftrightarrow>
   bearing_probe p \<and> map_of (pf_meta p) ''scenario_id'' = Some (PStr s) \<and>
   map_of (pf_meta p) ''probe_id'' = Some (PStr q) \<and> (\<exists>a \<in> set (pf_assertions p). as_scenario_id a = s)"
  by (auto simp: covered_cell_def list_ex_iff split: option.splits pyval.splits)

lemma effective_coverage_total: "\<exists>cov'. effective_coverage ps cov = Inr cov'"
  by (auto simp: effective_coverage_def make_coverage_def validated_def require_unique_cells_def Let_def)

text \<open>Complete coverage survives only when every cell has its proof.\<close>

lemma effective_complete:
  assumes "effective_coverage ps cov = Inr cov'"
  shows "cm_complete cov' \<longleftrightarrow>
    cm_complete cov \<and> cm_cells cov \<noteq> [] \<and> distinct (cm_cells cov) \<and>
    (\<forall>c \<in> set (cm_cells cov). \<exists>p \<in> set ps. covered_cell p = Some c)"
    and "cm_complete cov' \<Longrightarrow> cov' = cov"
    and "set (cm_cells cov') = set (cm_cells cov)"
  using assms missing_cells_Nil [of ps cov]
  by (auto simp: effective_coverage_def make_coverage_def Let_def rbind_Inr_iff split: if_splits)

lemma cap_valid:
  assumes "reduce_size_cap_for_breaches ps = Some tx"
  obtains p d where "p \<in> set ps" "breaching p" "proof_cap p = Some d"
    "tx = strip_fraction (format_f d)" "decimal_text tx = Some (dval d)" "0 < dval d" "dval d \<le> 1"
    "\<And>q. q \<in> set ps \<Longrightarrow> breaching q \<Longrightarrow> \<exists>d'. proof_cap q = Some d' \<and> dval d \<le> dval d'"
proof -
  from assms obtain caps d where caps: "collect_caps ps = Some caps" and d: "max_by (\<lambda>d. - dval d) caps = Some d"
    and tx: "tx = strip_fraction (format_f d)"
    by (auto simp: reduce_size_cap_for_breaches_def split: option.splits)
  from caps have all: "\<forall>p \<in> set (filter breaching ps). proof_cap p \<noteq> None"
    and caps_eq: "caps = map (the \<circ> proof_cap) (filter breaching ps)"
    by (auto simp: collect_caps_eq list_all_iff split: if_splits)
  from max_by_Some [OF d] have din: "d \<in> set caps" and least: "\<forall>x \<in> set caps. dval d \<le> dval x" by auto
  from din caps_eq all obtain p where p: "p \<in> set ps" "breaching p" "proof_cap p = Some d" by auto
  have ok: "cap_ok d" by (rule proof_cap_ok [OF p(3)])
  have below: "\<exists>d'. proof_cap q = Some d' \<and> dval d \<le> dval d'" if "q \<in> set ps" "breaching q" for q
    using that all least caps_eq by auto (metis option.sel)
  show thesis
    using that [OF p tx _ _ _ below] ok tx cap_text_reads_back [OF ok] by (simp add: cap_ok_def)
qed

lemma plain_decision_payload [simp]: "plain (decision_payload s r ids cov tier cap)"
  by (simp add: decision_payload_def split: option.splits)

lemma decision_proof_id_total: "\<exists>i. decision_proof_id H s r ids cov tier cap = Inr i"
  using plain_hashes [OF plain_decision_payload, of H True s r ids cov tier cap]
  by (auto simp: decision_proof_id_def)

text \<open>The verdict that \<open>decide\<close> puts into its envelope.\<close>

definition verdict_of ::
  "(status \<Rightarrow> proof_kind list) \<Rightarrow> proof_rec list \<Rightarrow> coverage_manifest \<Rightarrow> decision_context \<Rightarrow>
   status \<times> verdict_tier \<times> reason_code \<times> string option" where
  "verdict_of required ps cov ctx = final_verdict required ps (base_verdict ps cov ctx)"

lemma verdict_reduce:
  assumes "verdict_of required ps cov ctx = (s, t, r, cap)" "s = St_REDUCE_SIZE \<or> t = Tier_REDUCE_SIZE"
  shows "\<exists>tx. reduce_size_cap_for_breaches ps = Some tx \<and> cap = Some tx"
  using assms
  by (cases "reduce_size_cap_for_breaches ps")
     (auto simp: verdict_of_def final_verdict_def base_verdict_def split: if_splits option.splits)

lemma verdict_cap_None:
  assumes "verdict_of required ps cov ctx = (s, t, r, cap)" "t \<noteq> Tier_REDUCE_SIZE"
  shows "cap = None"
  using assms by (auto simp: verdict_of_def final_verdict_def base_verdict_def split: if_splits option.splits)

lemma verdict_cap_ok:
  assumes "verdict_of required ps cov ctx = (s, t, r, cap)"
  shows "require_reduce_size_cap (Some t) cap"
proof (cases "t = Tier_REDUCE_SIZE")
  case True
  with verdict_reduce [OF assms] obtain tx where
    t: "reduce_size_cap_for_breaches ps = Some tx" "cap = Some tx" by auto
  from cap_valid [OF t(1)] obtain d where "decimal_text tx = Some (dval d)" "0 < dval d" "dval d \<le> 1" .
  with t(2) True show ?thesis by (simp add: require_reduce_size_cap_def)
next
  case False
  with verdict_cap_None [OF assms] have "cap = None" by simp
  with False show ?thesis by (simp add: require_reduce_size_cap_def)
qed

lemma decide_cases:
  obtains cov' s t r cap did where "effective_coverage ps cov = Inr cov'"
    "verdict_of required ps cov' ctx = (s, t, r, cap)"
    "decision_proof_id H s r (map pf_proof_id ps) cov' (Some t) cap = Inr did"
    "decide H required ps cov ctx = Inr
       \<lparr> de_status = s, de_verdict_tier = Some t, de_adjusted_size_cap = cap, de_reason_code = r,
         de_chain_status = dc_chain_status ctx, de_required_proof_ids = required_ids required ps s did,
         de_satisfied_proof_ids = required_ids required ps s did, de_coverage = cov',
         de_capabilities = default_capabilities (int (length (unique_sorted (map fst (cm_cells cov'))))) \<rparr>"
proof -
  from effective_coverage_total obtain cov' where c: "effective_coverage ps cov = Inr cov'" by blast
  obtain s t r cap where v: "verdict_of required ps cov' ctx = (s, t, r, cap)" by (cases "verdict_of required ps cov' ctx")
  from decision_proof_id_total obtain did
    where d: "decision_proof_id H s r (map pf_proof_id ps) cov' (Some t) cap = Inr did" by blast
  show thesis
    using that [OF c v d] v d verdict_cap_ok [OF v]
    by (simp add: decide_def c verdict_of_def [symmetric] validate_envelope_def Let_def)
qed


section \<open>The verdicts\<close>

lemma verdict_status_pass:
  "fst (verdict_of required ps cov ctx) = St_PASS \<longleftrightarrow>
   dc_reject_reason ctx = None \<and> cm_complete cov \<and> cm_cells cov \<noteq> [] \<and> \<not> has_block_breach ps \<and>
   missing_kinds required ps St_PASS = []"
  by (auto simp: verdict_of_def final_verdict_def base_verdict_def split: option.splits)

lemma missing_kinds_Nil:
  "missing_kinds required ps s = [] \<longleftrightarrow>
   (\<forall>k \<in> set (required s). k \<noteq> PK_DECISION \<longrightarrow> (\<exists>p \<in> set ps. pf_verdict_bearing p \<and> pf_kind p = k))"
  by (auto simp: missing_kinds_def ids_of_kind_def filter_empty_conv)

text \<open>C10: \<open>decide\<close> answers \<open>pass\<close> exactly when nothing rejects the run, the coverage is complete,
  non-empty and without duplicates, every cell has a verdict-bearing probe proof with an assertion
  on the cell's scenario, every assertion of every such proof holds, and every required kind of
  proof is there.\<close>

theorem decide_pass_iff:
  assumes "decide H REQUIRED_PROOFS ps cov ctx = Inr e"
  shows "de_status e = St_PASS \<longleftrightarrow>
    dc_reject_reason ctx = None \<and> cm_complete cov \<and> cm_cells cov \<noteq> [] \<and> distinct (cm_cells cov) \<and>
    (\<forall>s q. (s, q) \<in> set (cm_cells cov) \<longrightarrow> (\<exists>p \<in> set ps. pf_kind p = PK_PROBE \<and> pf_verdict_bearing p \<and>
        map_of (pf_meta p) ''scenario_id'' = Some (PStr s) \<and> map_of (pf_meta p) ''probe_id'' = Some (PStr q) \<and>
        (\<exists>a \<in> set (pf_assertions p). as_scenario_id a = s))) \<and>
    (\<forall>p \<in> set ps. pf_kind p = PK_PROBE \<and> pf_verdict_bearing p \<longrightarrow> (\<forall>a \<in> set (pf_assertions p). as_holds a)) \<and>
    (\<forall>k \<in> set (REQUIRED_PROOFS St_PASS). k \<noteq> PK_DECISION \<longrightarrow>
        (\<exists>p \<in> set ps. pf_verdict_bearing p \<and> pf_kind p = k))"
proof -
  obtain cov' s t r cap did where c: "effective_coverage ps cov = Inr cov'"
    and v: "verdict_of REQUIRED_PROOFS ps cov' ctx = (s, t, r, cap)" and e: "de_status e = s"
    using decide_cases [of ps cov REQUIRED_PROOFS ctx H] assms by (metis Inr_inject decision_envelope.select_convs(1))
  have "de_status e = St_PASS \<longleftrightarrow> fst (verdict_of REQUIRED_PROOFS ps cov' ctx) = St_PASS"
    using v e by simp
  also have "\<dots> \<longleftrightarrow> dc_reject_reason ctx = None \<and> cm_complete cov' \<and> \<not> has_block_breach ps \<and>
      missing_kinds REQUIRED_PROOFS ps St_PASS = []"
    unfolding verdict_status_pass using effective_complete [OF c] by auto
  also have "\<dots> \<longleftrightarrow> dc_reject_reason ctx = None \<and> (cm_complete cov \<and> cm_cells cov \<noteq> [] \<and>
      distinct (cm_cells cov) \<and> (\<forall>c \<in> set (cm_cells cov). \<exists>p \<in> set ps. covered_cell p = Some c)) \<and>
      \<not> has_block_breach ps \<and> missing_kinds REQUIRED_PROOFS ps St_PASS = []"
    by (simp only: effective_complete(1) [OF c])
  also have "(\<forall>c \<in> set (cm_cells cov). \<exists>p \<in> set ps. covered_cell p = Some c) \<longleftrightarrow>
      (\<forall>s q. (s, q) \<in> set (cm_cells cov) \<longrightarrow> (\<exists>p \<in> set ps. pf_kind p = PK_PROBE \<and> pf_verdict_bearing p \<and>
        map_of (pf_meta p) ''scenario_id'' = Some (PStr s) \<and> map_of (pf_meta p) ''probe_id'' = Some (PStr q) \<and>
        (\<exists>a \<in> set (pf_assertions p). as_scenario_id a = s)))"
    by (simp only: Ball_def split_paired_All covered_cell_Some bearing_probe_def conj_assoc)
  also have "(\<not> has_block_breach ps) \<longleftrightarrow>
      (\<forall>p \<in> set ps. pf_kind p = PK_PROBE \<and> pf_verdict_bearing p \<longrightarrow> (\<forall>a \<in> set (pf_assertions p). as_holds a))"
    by (auto simp: has_block_breach_iff breaching_def has_failing_def bearing_probe_def list_ex_iff)
  finally show ?thesis by (simp only: missing_kinds_Nil conj_assoc)
qed

text \<open>C27: whatever the proofs and the coverage, \<open>decide\<close> builds a valid envelope: its size cap is
  the text of a number in (0, 1] exactly when the tier is \<open>REDUCE_SIZE\<close>, and the ids it requires are
  the ids it has.\<close>

theorem decide_total_valid:
  "\<exists>e. decide H required ps cov ctx = Inr e \<and> validate_envelope e = Inr e \<and>
     de_required_proof_ids e = de_satisfied_proof_ids e \<and>
     (de_adjusted_size_cap e = None \<longleftrightarrow> de_verdict_tier e \<noteq> Some Tier_REDUCE_SIZE)"
proof (rule decide_cases [of ps cov required ctx H])
  fix cov' s t r cap did
  assume v: "verdict_of required ps cov' ctx = (s, t, r, cap)"
  have "cap = None \<longleftrightarrow> t \<noteq> Tier_REDUCE_SIZE"
    using verdict_reduce [OF v] verdict_cap_None [OF v] by auto
  moreover assume "decide H required ps cov ctx = Inr
     \<lparr> de_status = s, de_verdict_tier = Some t, de_adjusted_size_cap = cap, de_reason_code = r,
       de_chain_status = dc_chain_status ctx, de_required_proof_ids = required_ids required ps s did,
       de_satisfied_proof_ids = required_ids required ps s did, de_coverage = cov',
       de_capabilities = default_capabilities (int (length (unique_sorted (map fst (cm_cells cov'))))) \<rparr>"
  ultimately show ?thesis using verdict_cap_ok [OF v] by (simp add: validate_envelope_def)
qed

text \<open>C28: a \<open>reduce_size\<close> verdict means that every verdict-bearing probe proof with a failing
  assertion asks for \<open>reduce_size\<close> with a valid cap, and the cap of the envelope is the least of
  them.\<close>

theorem decide_reduce_size:
  assumes "decide H required ps cov ctx = Inr e" "de_status e = St_REDUCE_SIZE"
  shows "\<exists>p d tx. p \<in> set ps \<and> breaching p \<and> proof_cap p = Some d \<and> de_adjusted_size_cap e = Some tx \<and>
     decimal_text tx = Some (dval d) \<and> 0 < dval d \<and> dval d \<le> 1 \<and>
     (\<forall>q \<in> set ps. breaching q \<longrightarrow> (\<exists>d'. proof_cap q = Some d' \<and> dval d \<le> dval d'))"
proof -
  obtain cov' s t r cap where v: "verdict_of required ps cov' ctx = (s, t, r, cap)"
    and e: "de_status e = s" "de_adjusted_size_cap e = cap"
    using decide_cases [of ps cov required ctx H] assms(1)
    by (metis Inr_inject decision_envelope.select_convs(1,3))
  with assms(2) verdict_reduce [OF v] obtain tx where t: "reduce_size_cap_for_breaches ps = Some tx" "cap = Some tx" by auto
  from cap_valid [OF t(1)] obtain p d where "p \<in> set ps" "breaching p" "proof_cap p = Some d"
    "decimal_text tx = Some (dval d)" "0 < dval d" "dval d \<le> 1"
    "\<And>q. q \<in> set ps \<Longrightarrow> breaching q \<Longrightarrow> \<exists>d'. proof_cap q = Some d' \<and> dval d \<le> dval d'" by metis
  with e t(2) show ?thesis by blast
qed

section \<open>The order of the proofs\<close>

lemma sort_mset_cong: "mset xs = mset ys \<Longrightarrow> sort xs = sort ys"
  by (metis sorted_list_of_multiset_mset)

lemma mset_filter_map_cong:
  "mset xs = mset ys \<Longrightarrow> mset (map f (filter P xs)) = mset (map f (filter P ys))"
  by simp

lemma max_by_mset_key:
  assumes "mset xs = mset ys" "max_by f xs = Some a" "max_by f ys = Some b"
  shows "f a = f b"
proof -
  have "set xs = set ys" using assms(1) by (rule mset_eq_setD)
  with max_by_Some [OF assms(2)] max_by_Some [OF assms(3)] show ?thesis by (metis order_antisym)
qed

lemma reduce_cap_mset_cong:
  assumes "mset ps = mset ps'"
  shows "reduce_size_cap_for_breaches ps = reduce_size_cap_for_breaches ps'"
proof -
  have sets: "set (filter breaching ps) = set (filter breaching ps')"
    using mset_eq_setD [OF assms] by auto
  show ?thesis
  proof (cases "collect_caps ps")
    case None
    with sets have "collect_caps ps' = None" by (auto simp: collect_caps_eq list_all_iff split: if_splits)
    with None show ?thesis by (simp add: reduce_size_cap_for_breaches_def)
  next
    case (Some caps)
    then have caps: "caps = map (the \<circ> proof_cap) (filter breaching ps)"
      and all: "\<forall>p \<in> set (filter breaching ps). proof_cap p \<noteq> None"
      by (auto simp: collect_caps_eq list_all_iff split: if_splits)
    define caps' where "caps' = map (the \<circ> proof_cap) (filter breaching ps')"
    have caps': "collect_caps ps' = Some caps'"
      using all sets by (auto simp: collect_caps_eq list_all_iff caps'_def)
    have ms: "mset caps = mset caps'"
      unfolding caps caps'_def by (rule mset_filter_map_cong [OF assms])
    have ok: "cap_ok d" if "d \<in> set caps" for d
      using that all proof_cap_ok by (auto simp: caps)
    show ?thesis
    proof (cases "caps = []")
      case True
      with ms have "caps' = []" by simp
      with True Some caps' show ?thesis by (simp add: reduce_size_cap_for_breaches_def)
    next
      case False
      with ms have ne: "caps' \<noteq> []" by auto
      obtain a b where a: "max_by (\<lambda>d. - dval d) caps = Some a" and b: "max_by (\<lambda>d. - dval d) caps' = Some b"
        using False ne max_by_None by (metis option.exhaust)
      have "dval a = dval b" using max_by_mset_key [OF ms a b] by simp
      moreover have "cap_ok a" "cap_ok b"
        using max_by_Some [OF a] max_by_Some [OF b] ok mset_eq_setD [OF ms] by auto
      ultimately have "strip_fraction (format_f a) = strip_fraction (format_f b)" by (intro cap_text_cong)
      with Some caps' a b show ?thesis by (simp add: reduce_size_cap_for_breaches_def)
    qed
  qed
qed

lemma effective_coverage_cong:
  "set ps = set ps' \<Longrightarrow> effective_coverage ps cov = effective_coverage ps' cov"
proof -
  assume "set ps = set ps'"
  then have "missing_probe_coverage_cells ps = missing_probe_coverage_cells ps'"
    using missing_cells_cong by blast
  then show ?thesis by (simp only: effective_coverage_def)
qed

lemma verdict_mset_cong:
  assumes "mset ps = mset ps'"
  shows "verdict_of required ps cov ctx = verdict_of required ps' cov ctx"
proof -
  have sets: "set ps = set ps'" by (rule mset_eq_setD [OF assms])
  then have "has_block_breach ps = has_block_breach ps'" by (simp add: has_block_breach_iff)
  moreover have "missing_kinds required ps s = missing_kinds required ps' s" for s
    unfolding missing_kinds_def ids_of_kind_def using sets by (auto simp: filter_empty_conv intro!: filter_cong)
  ultimately show ?thesis
    by (simp only: verdict_of_def base_verdict_def final_verdict_def reduce_cap_mset_cong [OF assms])
qed

text \<open>C29: the order in which the proofs arrive does not matter: the same proofs in another order give
  the same envelope, its decision id and its lists of ids included.\<close>

theorem decide_order_independent:
  assumes "mset ps = mset ps'"
  shows "decide H required ps cov ctx = decide H required ps' cov ctx"
proof -
  have ids: "sort (map pf_proof_id ps) = sort (map pf_proof_id ps')"
    by (rule sort_mset_cong) (metis assms mset_map)
  have kinds: "sort (ids_of_kind ps k) = sort (ids_of_kind ps' k)" for k
    unfolding ids_of_kind_def by (intro sort_mset_cong mset_filter_map_cong assms)
  have req: "required_ids required ps s did = required_ids required ps' s did" for s did
    by (simp only: required_ids_def kinds)
  have did: "decision_proof_id H s r (map pf_proof_id ps) c t cap = decision_proof_id H s r (map pf_proof_id ps') c t cap"
    for s r c t cap by (simp only: decision_proof_id_def decision_payload_def ids)
  show ?thesis
    unfolding decide_def verdict_of_def [symmetric]
    by (simp add: effective_coverage_cong [OF mset_eq_setD [OF assms]] verdict_mset_cong [OF assms] req did)
qed


section \<open>Witnesses\<close>

definition sample_assertion :: "bool \<Rightarrow> assertion" where
  "sample_assertion ok =
     \<lparr> as_metric = ''max_drawdown'', as_op = ''<='', as_threshold = ''0.5'', as_observed = ''0.1'',
       as_scenario_id = ''s'', as_bar = 3, as_holds = ok \<rparr>"

definition sample_proof :: "bool \<Rightarrow> proof_kind \<Rightarrow> proof_rec" where
  "sample_proof ok k =
     \<lparr> pf_proof_id = kind_value k, pf_phase = ''p'', pf_kind = k, pf_verdict_bearing = True,
       pf_inputs_hash = ''i'', pf_artifact_hash = ''a'',
       pf_assertions = (if k = PK_PROBE then [sample_assertion ok] else []), pf_reproduce = None,
       pf_fill_model = None, pf_lookahead_guard = None, pf_fees_modeled = None,
       pf_meta = (if k = PK_PROBE
                  then [(''scenario_id'', PStr ''s''), (''probe_id'', PStr ''q''),
                        (''breach_action'', PStr ''reduce_size''), (''adjusted_size_cap'', PStr ''0.50'')]
                  else []) \<rparr>"

definition sample_proofs :: "bool \<Rightarrow> proof_rec list" where
  "sample_proofs ok = map (sample_proof ok)
     [PK_BASELINE_CALIBRATION, PK_REPLAY, PK_REPLAY_WELLFORMED, PK_COVERAGE, PK_PROBE,
      PK_CANDIDATE_ABSOLUTE, PK_PACKAGE_CANONICAL, PK_SPEC_COMPILE]"

definition sample_coverage :: coverage_manifest where
  "sample_coverage =
     \<lparr> cm_manifest = ''m'', cm_cells = [(''s'', ''q'')], cm_complete = True, cm_missing = [] \<rparr>"

definition sample_context :: decision_context where
  "sample_context =
     \<lparr> dc_suite_id = ''suite'', dc_spec_hash = ''h'', dc_chain_status = CS_CHAINED, dc_reject_reason = None \<rparr>"

definition sample_envelope :: "bool \<Rightarrow> decision_envelope" where
  "sample_envelope ok = projr (decide id REQUIRED_PROOFS (sample_proofs ok) sample_coverage sample_context)"

lemma sample_pass:
  "decide id REQUIRED_PROOFS (sample_proofs True) sample_coverage sample_context = Inr (sample_envelope True)"
  "de_status (sample_envelope True) = St_PASS"
  by code_simp+

lemma sample_reduce:
  "decide id REQUIRED_PROOFS (sample_proofs False) sample_coverage sample_context = Inr (sample_envelope False)"
  "de_status (sample_envelope False) = St_REDUCE_SIZE"
  by code_simp+

theorem decide_pass_iff_witness:
  "de_status (sample_envelope True) = St_PASS \<and> cm_complete sample_coverage \<and> distinct (cm_cells sample_coverage)"
  using iffD1 [OF decide_pass_iff [OF sample_pass(1)] sample_pass(2)] sample_pass(2) by blast

theorem decide_reduce_size_witness:
  "\<exists>p d tx. p \<in> set (sample_proofs False) \<and> breaching p \<and> proof_cap p = Some d \<and>
     de_adjusted_size_cap (sample_envelope False) = Some tx \<and> decimal_text tx = Some (dval d)"
  using decide_reduce_size [OF sample_reduce] by blast

theorem decide_order_independent_witness:
  "decide id REQUIRED_PROOFS (sample_proofs True) sample_coverage sample_context =
   decide id REQUIRED_PROOFS (rev (sample_proofs True)) sample_coverage sample_context"
  by (rule decide_order_independent) simp

end
