(* ===== verification/Hash_Chain.thy ===== *)
theory Hash_Chain
  imports Canonical
begin

text \<open>
  The append-only hash chains of the program: the issuance ledger (\<open>receipt.py\<close>), the execution
  ledger (\<open>bitget_execution.py\<close>) and the audit ledger (\<open>release.py\<close>) link each entry to the hash of
  the one before. The locale states what an entry type has to promise (the hashed bytes determine
  the entry's content and its link) and proves once that the tail hash and the number of entries
  pin every entry of a chain.
\<close>

text \<open>The check every reader performs: each entry carries the hash of its own bytes and the hash of
  its predecessor.\<close>

fun chain_ok ::
  "(string \<Rightarrow> string) \<Rightarrow> ('e \<Rightarrow> exn + string) \<Rightarrow> ('e \<Rightarrow> string option) \<Rightarrow> ('e \<Rightarrow> string option) \<Rightarrow>
   string \<Rightarrow> 'e list \<Rightarrow> bool" where
  "chain_ok H msg prev hash p [] = True"
| "chain_ok H msg prev hash p (e # es) =
     (case msg e of
        Inl x \<Rightarrow> False
      | Inr b \<Rightarrow> hash e = Some (sha256_bytes H b) \<and> prev e = Some p \<and>
                 chain_ok H msg prev hash (sha256_bytes H b) es)"

fun chain_tail :: "('e \<Rightarrow> string option) \<Rightarrow> string \<Rightarrow> 'e list \<Rightarrow> string" where
  "chain_tail hash p [] = p"
| "chain_tail hash p (e # es) = chain_tail hash (case hash e of None \<Rightarrow> p | Some h \<Rightarrow> h) es"

definition chain_messages :: "('e \<Rightarrow> exn + string) \<Rightarrow> 'e list \<Rightarrow> string set" where
  "chain_messages msg es = {b. \<exists>e \<in> set es. msg e = Inr b}"

lemma chain_tail_append: "chain_tail hash p (xs @ ys) = chain_tail hash (chain_tail hash p xs) ys"
  by (induction xs arbitrary: p) auto

lemma chain_ok_append:
  "chain_ok H msg prev hash p (xs @ ys) \<longleftrightarrow>
   chain_ok H msg prev hash p xs \<and> chain_ok H msg prev hash (chain_tail hash p xs) ys"
proof (induction xs arbitrary: p)
  case (Cons e xs)
  show ?case
  proof (cases "msg e")
    case (Inr b)
    then show ?thesis using Cons.IH [of "sha256_bytes H b"] by auto
  qed simp
qed simp

lemma chain_messages_append [simp]:
  "chain_messages msg (xs @ ys) = chain_messages msg xs \<union> chain_messages msg ys"
  by (auto simp: chain_messages_def)

locale hash_chain =
  fixes H :: "string \<Rightarrow> string"
    and msg :: "'e \<Rightarrow> exn + string"
    and prev :: "'e \<Rightarrow> string option"
    and hash :: "'e \<Rightarrow> string option"
    and content :: "'e \<Rightarrow> 'c"
  assumes msg_content: "msg e = Inr b \<Longrightarrow> msg e' = Inr b \<Longrightarrow> content e = content e'"
    and msg_prev: "msg e = Inr b \<Longrightarrow> msg e' = Inr b \<Longrightarrow> prev e = prev e'"
begin

lemma last_entry:
  assumes "chain_ok H msg prev hash p (es @ [e])"
  obtains b where "msg e = Inr b" "chain_tail hash p (es @ [e]) = sha256_bytes H b"
    "prev e = Some (chain_tail hash p es)" "chain_ok H msg prev hash p es"
  using assms by (auto simp: chain_ok_append chain_tail_append split: sum.splits)

lemma chain_pinned:
  "chain_ok H msg prev hash p es \<Longrightarrow> chain_ok H msg prev hash q fs \<Longrightarrow> length es = length fs \<Longrightarrow>
   chain_tail hash p es = chain_tail hash q fs \<Longrightarrow>
   inj_on H (chain_messages msg es \<union> chain_messages msg fs) \<Longrightarrow>
   map content es = map content fs \<and> p = q"
proof (induction es arbitrary: fs rule: rev_induct)
  case (snoc e es)
  from snoc.prems(3) obtain fs' f where fs: "fs = fs' @ [f]" "length fs' = length es"
    by (cases fs rule: rev_cases) auto
  from last_entry [OF snoc.prems(1)] obtain b where b: "msg e = Inr b"
    "chain_tail hash p (es @ [e]) = sha256_bytes H b" "prev e = Some (chain_tail hash p es)"
    "chain_ok H msg prev hash p es" .
  from last_entry [of q fs' f] snoc.prems(2) fs(1) obtain c where c: "msg f = Inr c"
    "chain_tail hash q (fs' @ [f]) = sha256_bytes H c" "prev f = Some (chain_tail hash q fs')"
    "chain_ok H msg prev hash q fs'" by blast
  have "H b = H c" using snoc.prems(4) b(2) c(2) fs(1) by (simp add: hash_simps)
  moreover have "b \<in> chain_messages msg (es @ [e]) \<union> chain_messages msg fs"
    "c \<in> chain_messages msg (es @ [e]) \<union> chain_messages msg fs"
    using b(1) c(1) fs(1) by (auto simp: chain_messages_def)
  ultimately have bc: "b = c" using snoc.prems(5) by (meson inj_onD)
  have "chain_tail hash p es = chain_tail hash q fs'"
    using msg_prev [of e b f] b c bc by simp
  moreover have "inj_on H (chain_messages msg es \<union> chain_messages msg fs')"
    by (rule inj_on_subset [OF snoc.prems(5)]) (auto simp: fs(1))
  ultimately have "map content es = map content fs' \<and> p = q"
    using snoc.IH [OF b(4) c(4)] fs(2) by simp
  with msg_content [of e b f] b c bc fs(1) show ?case by simp
qed simp

text \<open>Appending an entry that carries its own hash and the hash of the tail keeps the chain.\<close>

lemma chain_append:
  assumes "chain_ok H msg prev hash p es" "msg e = Inr b" "hash e = Some (sha256_bytes H b)"
    "prev e = Some (chain_tail hash p es)"
  shows "chain_ok H msg prev hash p (es @ [e])" "chain_tail hash p (es @ [e]) = sha256_bytes H b"
  using assms by (simp_all add: chain_ok_append chain_tail_append)

end

section \<open>Looking a member up in a normalised object\<close>

lemma map_of_filter_key: "map_of kvs k = map_option snd (case filter (\<lambda>x. fst x = k) kvs of [] \<Rightarrow> None | x # r \<Rightarrow> Some x)"
  by (induction kvs) auto

lemma map_of_sort_key: "map_of (sort_key fst kvs) k = map_of kvs k"
  using sort_key_stable [of fst k kvs] by (simp add: map_of_filter_key)

lemma traverse_map_of:
  "traverse (\<lambda>(k, v). rbind (f v) (\<lambda>j. Inr (k, j))) kvs = Inr js \<Longrightarrow>
   case map_of kvs k of None \<Rightarrow> map_of js k = None | Some v \<Rightarrow> \<exists>j. f v = Inr j \<and> map_of js k = Some j"
  by (induction kvs arbitrary: js) (auto simp: rbind_Inr_iff split: option.splits)

lemma normalize_dict_member:
  assumes "normalize en (PDict kvs) = Inr (JObj js)"
  shows "case map_of kvs k of None \<Rightarrow> map_of js k = None
         | Some v \<Rightarrow> \<exists>j. normalize en v = Inr j \<and> map_of js k = Some j"
  using assms traverse_map_of [of "normalize en" "sort_key fst kvs" js k]
  by (auto simp: rbind_Inr_iff map_of_sort_key)


lemma normalize_model_member:
  assumes "normalize en (PModel kvs) = Inr (JObj js)" "map_of (filter (kept en) kvs) k = Some v"
  shows "\<exists>j. normalize en v = Inr j \<and> map_of js k = Some j"
  using assms traverse_map_of [of "normalize en" "sort_key fst (filter (kept en) kvs)" js k]
  by (auto simp: rbind_Inr_iff map_of_sort_key)

text \<open>Models with the same normal form agree on every member that both have.\<close>

lemma model_member_eq:
  assumes "normalize en (PModel kvs) = normalize en (PModel kvs')" "normalize en (PModel kvs) = Inr j"
    and "map_of (filter (kept en) kvs) k = Some v" "map_of (filter (kept en) kvs') k = Some v'"
  shows "normalize en v = normalize en v' \<and> (\<exists>j. normalize en v = Inr j)"
proof -
  from assms(2) obtain js where j: "j = JObj js" by (auto simp: rbind_Inr_iff)
  have "normalize en (PModel kvs) = Inr (JObj js)" "normalize en (PModel kvs') = Inr (JObj js)"
    using assms(1,2) j by auto
  from normalize_model_member [OF this(1) assms(3)] normalize_model_member [OF this(2) assms(4)]
  show ?thesis by auto
qed


lemma map_of_filter_kept:
  "distinct (map fst kvs) \<Longrightarrow> map_of (filter (kept en) kvs) k =
     (case map_of kvs k of None \<Rightarrow> None | Some v \<Rightarrow> if kept en (k, v) then Some v else None)"
proof (induction kvs)
  case (Cons x kvs)
  obtain a v where x: "x = (a, v)" by (cases x)
  have "a \<notin> fst ` set (filter (kept en) kvs)" using Cons.prems x by auto
  then have "map_of (filter (kept en) kvs) a = None" by (simp add: map_of_eq_None_iff)
  then show ?case using Cons x by auto
qed simp

lemma normalize_not_null: "normalize en v = Inr JNull \<longleftrightarrow> v = PNone"
  by (cases v) (auto simp: rbind_Inr_iff)

text \<open>Field by field: an absent field counts as \<open>None\<close>.\<close>

lemma model_field_eq:
  assumes eq: "normalize True (PModel kvs) = normalize True (PModel kvs')" "normalize True (PModel kvs) = Inr j"
    and d: "distinct (map fst kvs)" "distinct (map fst kvs')"
    and v: "map_of kvs k = Some v" "map_of kvs' k = Some v'"
  shows "normalize True v = normalize True v'"
proof -
  from eq(2) obtain js where j: "j = JObj js" by (auto simp: rbind_Inr_iff)
  have js: "normalize True (PModel kvs) = Inr (JObj js)" "normalize True (PModel kvs') = Inr (JObj js)"
    using eq j by auto
  have none: "map_of js k = None" if "normalize True (PModel ks) = Inr (JObj js)" "map_of (filter (kept True) ks) k = None" for ks
    using that traverse_map_of [of "normalize True" "sort_key fst (filter (kept True) ks)" js k]
    by (auto simp: rbind_Inr_iff map_of_sort_key)
  have l: "map_of (filter (kept True) kvs) k = (if v = PNone then None else Some v)"
    using map_of_filter_kept [OF d(1), of True k] v(1) by (simp add: kept_def)
  have r: "map_of (filter (kept True) kvs') k = (if v' = PNone then None else Some v')"
    using map_of_filter_kept [OF d(2), of True k] v(2) by (simp add: kept_def)
  show ?thesis
    using none [OF js(1)] none [OF js(2)] normalize_model_member [OF js(1), of k v]
      normalize_model_member [OF js(2), of k v'] l r
    by (cases "v = PNone"; cases "v' = PNone") auto
qed

end
