(* ===== verification/Receipt.thy ===== *)
theory Receipt
  imports Merkle Proof_Kernel Hash_Chain
begin

text \<open>
  \<open>src/redline/receipt.py\<close>: the decision proof, the receipt and its hash, the issuance ledger (an
  append-only hash chain, one entry per receipt and at most one per key) and its checkpoint.
\<close>

section \<open>The decision proof\<close>

definition make_verify_proof_reproduce :: "string \<Rightarrow> bool \<Rightarrow> bool \<Rightarrow> bool \<Rightarrow> string" where
  "make_verify_proof_reproduce proof_id with_baseline with_policy envelope_bundle =
     (if envelope_bundle
      then ''uv run redline verify-proof --envelope envelope.json --proof-id '' @ proof_id
             @ '' --proofs-dir proofs''
      else ''uv run redline verify-proof receipt.json --proof-id '' @ proof_id
             @ '' --package <package> --suite <suite> --spec <spec>''
             @ (if with_baseline then '' --baseline-receipt <baseline-receipt>'' else '''')
             @ (if with_policy then '' --trust-policy <trust-policy>'' else ''''))"

definition decision_inputs :: "string list \<Rightarrow> string list \<Rightarrow> coverage_manifest \<Rightarrow> pyval" where
  "decision_inputs fingerprints ids cov =
     PDict [(''proof_fingerprints'', strs fingerprints), (''proof_ids'', strs ids),
            (''coverage'', coverage_value cov)]"

definition make_decision_proof ::
  "(string \<Rightarrow> string) \<Rightarrow> decision_envelope \<Rightarrow> proof_rec list \<Rightarrow> bool \<Rightarrow> bool \<Rightarrow> bool \<Rightarrow> exn + proof_rec" where
  "make_decision_proof H env ps with_baseline with_policy envelope_bundle =
     (let ids = sort (map pf_proof_id ps)
      in rbind (traverse (\<lambda>p. hash_obj H True (proof_value p)) ps) (\<lambda>fps.
         rbind (decision_proof_id H (de_status env) (de_reason_code env) ids (de_coverage env)
                  (de_verdict_tier env) (de_adjusted_size_cap env)) (\<lambda>pid.
         rbind (hash_obj H True (decision_inputs (sort fps) ids (de_coverage env))) (\<lambda>ih.
         rbind (hash_obj H True (envelope_value env)) (\<lambda>ah.
           Inr \<lparr> pf_proof_id = pid, pf_phase = ''decide'', pf_kind = PK_DECISION, pf_verdict_bearing = True,
                 pf_inputs_hash = ih, pf_artifact_hash = ah, pf_assertions = [],
                 pf_reproduce = Some (make_verify_proof_reproduce pid with_baseline with_policy envelope_bundle),
                 pf_fill_model = None, pf_lookahead_guard = None, pf_fees_modeled = None, pf_meta = [] \<rparr>)))))"

section \<open>The receipt\<close>

definition compute_receipt_hash :: "(string \<Rightarrow> string) \<Rightarrow> receipt \<Rightarrow> exn + string" where
  "compute_receipt_hash H r = hash_obj H True (PModel (receipt_fields r ''''))"

definition checkpoint_fields :: "ledger_checkpoint \<Rightarrow> string \<Rightarrow> (string \<times> pyval) list" where
  "checkpoint_fields c h =
     [(''version'', PStr ''redline.ledger.checkpoint.v1''), (''ledger_path'', PStr (lc_ledger_path c)),
      (''ledger_hash'', PStr (lc_ledger_hash c)), (''ledger_tail_hash'', PStr (lc_ledger_tail_hash c)),
      (''ledger_entry_count'', PInt (lc_ledger_entry_count c)),
      (''subject_receipt_hashes'', strs (lc_subject_receipt_hashes c)),
      (''merkle_root'', opt_str (lc_merkle_root_set c)), (''anchor_kind'', PStr (lc_anchor_kind c)),
      (''checkpoint_hash'', PStr h)]"

definition compute_ledger_checkpoint_hash :: "(string \<Rightarrow> string) \<Rightarrow> ledger_checkpoint \<Rightarrow> exn + string" where
  "compute_ledger_checkpoint_hash H c = hash_obj H True (PModel (checkpoint_fields c ''''))"

definition DEFAULT_LEDGER_WRITTEN_AT :: string where
  "DEFAULT_LEDGER_WRITTEN_AT = ''1970-01-01T00:00:00Z''"

definition DEFAULT_EDIT_PROVENANCE_CAPTURED_AT :: string where
  "DEFAULT_EDIT_PROVENANCE_CAPTURED_AT = ''2026-06-10T00:00:00Z''"

definition strength_summary :: "proof_rec list \<Rightarrow> nat \<Rightarrow> string" where
  "strength_summary ps n =
     ''tested: '' @
     join ''; '' (unique_sorted (concat (map (\<lambda>p. map (\<lambda>a. as_metric a @ '' '' @ as_op a @ '' '' @
        as_threshold a @ '' observed '' @ as_observed a) (pf_assertions p)) ps)))
     @ ''; '' @ nat_str n @ '' anchored scenarios''"

text \<open>The keyword arguments of \<open>issue_receipt\<close> beside the envelope, the proofs and the coverage.\<close>

record issue_args =
  ia_package_hash :: string
  ia_prev_receipt_hash :: string
  ia_baseline_name :: string
  ia_baseline_hash :: string
  ia_baseline_receipt_hash :: "string option"
  ia_baseline_version_id :: string
  ia_candidate_name :: string
  ia_candidate_hash :: string
  ia_candidate_version_id :: string
  ia_spec :: spec_info
  ia_suite :: suite_info
  ia_engine_source_tree_hash :: string
  ia_runner_lock_hash :: string
  ia_package_adapter_id :: string
  ia_package_identity_lock_hash :: string
  ia_package_identity_lock_path :: string
  ia_report_hash :: string
  ia_edit_provenance :: "edit_provenance option"
  ia_include_baseline_receipt :: bool
  ia_include_trust_policy :: bool

definition fixture_provenance :: "(string \<Rightarrow> string) \<Rightarrow> string \<Rightarrow> string \<Rightarrow> edit_provenance" where
  "fixture_provenance H baseline candidate =
     \<lparr> ep_tool = ''fixture'',
       ep_prompt_digest = hash_json H (JObj [(''prompt'', JStr ''fixture make it more responsive'')]),
       ep_diff_hash = hash_json H (JObj [(''baseline'', JStr baseline), (''candidate'', JStr candidate)]),
       ep_locked_by = ''author'', ep_captured_at = DEFAULT_EDIT_PROVENANCE_CAPTURED_AT \<rparr>"

definition probe_breaches :: "proof_rec list \<Rightarrow> assertion list" where
  "probe_breaches ps =
     concat (map (\<lambda>p. filter (\<lambda>a. \<not> as_holds a) (pf_assertions p)) (filter (\<lambda>p. pf_kind p = PK_PROBE) ps))"

definition result_payload :: "status \<Rightarrow> assertion list \<Rightarrow> pyval" where
  "result_payload s breaches =
     PDict [(''status'', PEnum (status_value s)), (''breaches'', PList (map assertion_value breaches))]"

definition draft_receipt ::
  "(string \<Rightarrow> string) \<Rightarrow> decision_envelope \<Rightarrow> proof_rec list \<Rightarrow> string \<Rightarrow> coverage_manifest \<Rightarrow> issue_args \<Rightarrow> receipt" where
  "draft_receipt H env all_proofs rh cov a =
     \<lparr> rc_version = ''redline.receipt.v3.3'', rc_prev_receipt_hash_set = Some (ia_prev_receipt_hash a),
       rc_package =
         \<lparr> pi_identity_hash = ia_package_hash a, pi_manifest_hash = ia_package_hash a,
           pi_identity_lock_hash = ia_package_identity_lock_hash a,
           pi_identity_lock_path = ia_package_identity_lock_path a \<rparr>,
       rc_edit_provenance =
         (case ia_edit_provenance a of
            Some e \<Rightarrow> e | None \<Rightarrow> fixture_provenance H (ia_baseline_hash a) (ia_candidate_hash a)),
       rc_baseline =
         \<lparr> bi_package_hash = ia_baseline_hash a, bi_baseline_receipt_hash = ia_baseline_receipt_hash a,
           bi_baseline_version_id = ia_baseline_version_id a, bi_package_name = ia_baseline_name a,
           bi_chain_status = de_chain_status env \<rparr>,
       rc_candidate =
         \<lparr> ci_package_hash = ia_candidate_hash a, ci_candidate_version_id = ia_candidate_version_id a,
           ci_package_name = ia_candidate_name a \<rparr>,
       rc_spec = ia_spec a, rc_suite = ia_suite a,
       rc_runner =
         \<lparr> ri_engine = ''deterministic'', ri_engine_source_tree_hash = ia_engine_source_tree_hash a,
           ri_runner_lock_hash = ia_runner_lock_hash a, ri_env_lock = default_env_lock \<rparr>,
       rc_result = \<lparr> re_status = de_status env, re_new_breaches = probe_breaches all_proofs, re_result_hash = rh \<rparr>,
       rc_coverage = cov,
       rc_decision =
         \<lparr> rd_reason_code = de_reason_code env, rd_verdict_tier = de_verdict_tier env,
           rd_adjusted_size_cap = de_adjusted_size_cap env,
           rd_required_proof_ids_source = ''REQUIRED_PROOFS[status]'',
           rd_required_proof_ids = de_required_proof_ids env,
           rd_satisfied_proof_ids = de_satisfied_proof_ids env,
           rd_verdict_source = ''deterministic_probe'', rd_llm_used_for_verdict = False \<rparr>,
       rc_proofs = all_proofs, rc_capabilities = de_capabilities env,
       rc_strength_summary = strength_summary all_proofs (length (sui_scenarios (ia_suite a))),
       rc_report = \<lparr> rpi_report_hash = ia_report_hash a, rpi_attribution_report_hash = None \<rparr>,
       rc_publish = default_publish, rc_receipt_hash = '''' \<rparr>"

definition with_decision :: "proof_rec list \<Rightarrow> proof_rec \<Rightarrow> proof_rec list" where
  "with_decision ps dp = (if pf_proof_id dp \<in> set (map pf_proof_id ps) then ps else ps @ [dp])"

definition issue_receipt ::
  "(string \<Rightarrow> string) \<Rightarrow> decision_envelope \<Rightarrow> proof_rec list \<Rightarrow> coverage_manifest \<Rightarrow> issue_args \<Rightarrow>
   exn + receipt option" where
  "issue_receipt H env ps cov a =
     (if de_status env \<notin> {St_PASS, St_WITHHELD, St_REDUCE_SIZE} then Inr None
      else
        rbind (make_decision_proof H env ps (ia_include_baseline_receipt a) (ia_include_trust_policy a) False)
          (\<lambda>dp.
        let all_proofs = with_decision ps dp
        in rbind (hash_obj H True (result_payload (de_status env) (probe_breaches all_proofs))) (\<lambda>rh.
           if ia_package_adapter_id a \<noteq> PLAYBOOK_ADAPTER_ID then Inl ValidationError
           else rbind (compute_receipt_hash H (draft_receipt H env all_proofs rh cov a)) (\<lambda>h.
                  Inr (Some ((draft_receipt H env all_proofs rh cov a)\<lparr> rc_receipt_hash := h \<rparr>))))))"

section \<open>The issuance ledger\<close>

text \<open>A line of the ledger file: its text and what \<open>json.loads\<close> makes of it.\<close>

datatype ledger_line = Blank_Line string | Bad_Line string | Json_Line string pyval

fun line_text :: "ledger_line \<Rightarrow> string" where
  "line_text (Blank_Line t) = t"
| "line_text (Bad_Line t) = t"
| "line_text (Json_Line t v) = t"

definition ledger_bytes :: "ledger_line list \<Rightarrow> string" where
  "ledger_bytes ls = concat (map line_text ls)"

type_synonym entry = "(string \<times> pyval) list"



definition entry_hash :: "entry \<Rightarrow> string option" where
  "entry_hash e = (case map_of e ''entry_hash'' of Some (PStr s) \<Rightarrow> Some s | _ \<Rightarrow> None)"

text \<open>The text a member normalises to; for JSON values, the member itself when it is a string.\<close>

definition entry_text :: "entry \<Rightarrow> string \<Rightarrow> string option" where
  "entry_text e k =
     (case map_of e k of
        None \<Rightarrow> None
      | Some v \<Rightarrow> (case normalize True v of Inr (JStr s) \<Rightarrow> Some s | _ \<Rightarrow> None))"

definition entry_prev :: "entry \<Rightarrow> string option" where
  "entry_prev e = entry_text e ''previous_entry_hash''"

text \<open>\<open>{key: value for key, value in entry.items() if key != "entry_hash"}\<close>.\<close>

definition entry_body :: "entry \<Rightarrow> pyval" where
  "entry_body e = PDict (filter (\<lambda>(k, _). k \<noteq> ''entry_hash'') e)"

fun read_entries_from :: "(string \<Rightarrow> string) \<Rightarrow> string \<Rightarrow> ledger_line list \<Rightarrow> exn + entry list" where
  "read_entries_from H previous [] = Inr []"
| "read_entries_from H previous (Blank_Line _ # ls) = read_entries_from H previous ls"
| "read_entries_from H previous (Bad_Line _ # ls) = Inl JSONDecodeError"
| "read_entries_from H previous (Json_Line _ v # ls) =
     (case v of
        PDict e \<Rightarrow>
          (case entry_hash e of
             None \<Rightarrow> Inl IssuanceLedgerConflict
           | Some h \<Rightarrow>
               rbind (hash_obj H True (entry_body e)) (\<lambda>expected.
                 if h \<noteq> expected \<or> map_of e ''previous_entry_hash'' \<noteq> Some (PStr previous)
                 then Inl IssuanceLedgerConflict
                 else rbind (read_entries_from H h ls) (\<lambda>es. Inr (e # es))))
      | _ \<Rightarrow> Inl AttributeError)"

text \<open>A ledger that does not exist is \<open>None\<close>.\<close>

definition read_ledger_entries :: "(string \<Rightarrow> string) \<Rightarrow> ledger_line list option \<Rightarrow> exn + entry list" where
  "read_ledger_entries H f =
     (case f of None \<Rightarrow> Inl FileNotFoundError | Some ls \<Rightarrow> read_entries_from H genesis ls)"

definition last_ledger_entry_hash :: "(string \<Rightarrow> string) \<Rightarrow> ledger_line list option \<Rightarrow> exn + string" where
  "last_ledger_entry_hash H f =
     (case f of
        None \<Rightarrow> Inr genesis
      | Some ls \<Rightarrow> rbind (read_entries_from H genesis ls) (\<lambda>es. Inr (chain_tail entry_hash genesis es)))"

definition ledger_key_hash :: "(string \<Rightarrow> string) \<Rightarrow> receipt \<Rightarrow> string" where
  "ledger_key_hash H r =
     hash_json H (JObj [(''package_hash'', JStr (pi_identity_hash (rc_package r))),
                        (''candidate_hash'', JStr (ci_package_hash (rc_candidate r))),
                        (''suite_lock_hash'', JStr (sui_suite_lock_hash (rc_suite r))),
                        (''spec_hash'', JStr (si_spec_hash (rc_spec r)))])"

fun conflict_in :: "string \<Rightarrow> ledger_line list \<Rightarrow> exn + unit" where
  "conflict_in key [] = Inr ()"
| "conflict_in key (Blank_Line _ # ls) = conflict_in key ls"
| "conflict_in key (Bad_Line _ # ls) = Inl IssuanceLedgerConflict"
| "conflict_in key (Json_Line _ v # ls) =
     (case v of
        PDict e \<Rightarrow> if map_of e ''key_hash'' = Some (PStr key) then Inl IssuanceLedgerConflict else conflict_in key ls
      | _ \<Rightarrow> Inl AttributeError)"

definition assert_no_issuance_conflict ::
  "(string \<Rightarrow> string) \<Rightarrow> ledger_line list option \<Rightarrow> receipt \<Rightarrow> exn + unit" where
  "assert_no_issuance_conflict H f r =
     (case f of None \<Rightarrow> Inr () | Some ls \<Rightarrow> conflict_in (ledger_key_hash H r) ls)"

text \<open>\<open>json.dumps(entry, sort_keys=True)\<close> of an entry of texts (all ASCII), and the line it makes.\<close>

definition dumps_flat :: "(string \<times> string) list \<Rightarrow> string" where
  "dumps_flat kvs = ''{'' @ join '', '' (map (\<lambda>(k, v). dumps_str k @ '': '' @ dumps_str v) kvs) @ ''}''"

definition text_entry :: "(string \<times> string) list \<Rightarrow> entry" where
  "text_entry kvs = map (\<lambda>(k, v). (k, PStr v)) (sort_key fst kvs)"

definition entry_line :: "(string \<times> string) list \<Rightarrow> ledger_line" where
  "entry_line kvs = Json_Line (dumps_flat (sort_key fst kvs) @ [CHR 0x0A]) (PDict (text_entry kvs))"

definition new_entry :: "(string \<Rightarrow> string) \<Rightarrow> receipt \<Rightarrow> string \<Rightarrow> string option \<Rightarrow> (string \<times> string) list" where
  "new_entry H r previous written_at =
     (let body = [(''key_hash'', ledger_key_hash H r), (''status'', status_value (re_status (rc_result r))),
                  (''receipt_hash'', rc_receipt_hash r), (''previous_entry_hash'', previous),
                  (''written_at'', case written_at of None \<Rightarrow> DEFAULT_LEDGER_WRITTEN_AT
                                    | Some w \<Rightarrow> if w = '''' then DEFAULT_LEDGER_WRITTEN_AT else w)]
      in body @ [(''entry_hash'', hash_json H (JObj (map (\<lambda>(k, v). (k, JStr v)) body)))])"

definition append_ledger ::
  "(string \<Rightarrow> string) \<Rightarrow> ledger_line list option \<Rightarrow> receipt \<Rightarrow> string option \<Rightarrow> exn + ledger_line list" where
  "append_ledger H f r written_at =
     rbind (last_ledger_entry_hash H f) (\<lambda>previous.
       Inr ((case f of None \<Rightarrow> [] | Some ls \<Rightarrow> ls) @ [entry_line (new_entry H r previous written_at)]))"

section \<open>The checkpoint\<close>

definition entry_receipts :: "entry list \<Rightarrow> string list" where
  "entry_receipts es = concat (map (\<lambda>e. case map_of e ''receipt_hash'' of Some (PStr s) \<Rightarrow> [s] | _ \<Rightarrow> []) es)"

definition draft_checkpoint ::
  "(string \<Rightarrow> string) \<Rightarrow> ledger_line list \<Rightarrow> entry list \<Rightarrow> string list \<Rightarrow> string \<Rightarrow> string \<Rightarrow> string \<Rightarrow> ledger_checkpoint" where
  "draft_checkpoint H ls es subj rt anchor_kind label =
     \<lparr> lc_ledger_path = label, lc_ledger_hash = hash_file H (ledger_bytes ls),
       lc_ledger_tail_hash = chain_tail entry_hash genesis es,
       lc_ledger_entry_count = int (length es), lc_subject_receipt_hashes = subj,
       lc_merkle_root_set = Some rt, lc_anchor_kind = anchor_kind, lc_checkpoint_hash = '''' \<rparr>"

definition create_ledger_checkpoint ::
  "(string \<Rightarrow> string) \<Rightarrow> ledger_line list option \<Rightarrow> string list \<Rightarrow> string \<Rightarrow> string \<Rightarrow> exn + ledger_checkpoint" where
  "create_ledger_checkpoint H f subjects anchor_kind label =
     rbind (read_ledger_entries H f) (\<lambda>es.
     rbind (merkle_root H (map PStr (unique_sorted (subjects @ entry_receipts es)))) (\<lambda>rt.
     rbind (compute_ledger_checkpoint_hash H
              (draft_checkpoint H (case f of None \<Rightarrow> [] | Some ls \<Rightarrow> ls) es
                 (unique_sorted (subjects @ entry_receipts es)) rt anchor_kind label)) (\<lambda>h.
       Inr ((draft_checkpoint H (case f of None \<Rightarrow> [] | Some ls \<Rightarrow> ls) es
               (unique_sorted (subjects @ entry_receipts es)) rt anchor_kind label)\<lparr> lc_checkpoint_hash := h \<rparr>))))"

text \<open>The files that \<open>atomic_write_receipt\<close> writes. When appending or checkpointing fails, the receipt
  file is unlinked and the ledger keeps what was appended.\<close>

record issuance_files =
  if_receipt :: "receipt option"
  if_ledger :: "ledger_line list option"
  if_checkpoint :: "ledger_checkpoint option"

definition atomic_write_receipt ::
  "(string \<Rightarrow> string) \<Rightarrow> issuance_files \<Rightarrow> receipt \<Rightarrow> string option \<Rightarrow> string \<Rightarrow> exn option \<times> issuance_files" where
  "atomic_write_receipt H fs r written_at label =
     (case assert_no_issuance_conflict H (if_ledger fs) r of
        Inl e \<Rightarrow> (Some e, fs)
      | Inr _ \<Rightarrow>
          (let fs1 = fs\<lparr> if_receipt := Some r \<rparr>
           in case append_ledger H (if_ledger fs) r written_at of
                Inl e \<Rightarrow> (Some e, fs1\<lparr> if_receipt := None \<rparr>)
              | Inr ls \<Rightarrow>
                  (let fs2 = fs1\<lparr> if_ledger := Some ls \<rparr>
                   in case create_ledger_checkpoint H (Some ls) [rc_receipt_hash r] ''local-artifact'' label of
                        Inl e \<Rightarrow> (Some e, fs2\<lparr> if_receipt := None \<rparr>)
                      | Inr c \<Rightarrow> (None, fs2\<lparr> if_checkpoint := Some c \<rparr>))))"


section \<open>The ledger is a hash chain\<close>

definition entry_msg :: "entry \<Rightarrow> exn + string" where
  "entry_msg e = canonical_bytes True (entry_body e)"

definition entry_content :: "entry \<Rightarrow> exn + json" where
  "entry_content e = normalize True (entry_body e)"

lemma map_of_body: "k \<noteq> ''entry_hash'' \<Longrightarrow> map_of (filter (\<lambda>(k, _). k \<noteq> ''entry_hash'') e) k = map_of e k"
  by (induction e) auto

lemma normalize_dict_Inr: "normalize en (PDict kvs) = Inr j \<Longrightarrow> \<exists>js. j = JObj js"
  by (auto simp: rbind_Inr_iff)

lemma entry_text_content:
  assumes "entry_content e = entry_content e'" "entry_content e = Inr j" "k \<noteq> ''entry_hash''"
  shows "entry_text e k = entry_text e' k"
proof -
  let ?b = "\<lambda>e. filter (\<lambda>(k, _). k \<noteq> ''entry_hash'') e"
  from assms(2) have "normalize True (PDict (?b e)) = Inr j"
    by (simp add: entry_content_def entry_body_def del: normalize.simps)
  with normalize_dict_Inr [OF this] obtain js where js: "normalize True (PDict (?b e)) = Inr (JObj js)" by blast
  with assms(1) have js': "normalize True (PDict (?b e')) = Inr (JObj js)"
    by (simp add: entry_content_def entry_body_def del: normalize.simps)
  from normalize_dict_member [OF js, of k] normalize_dict_member [OF js', of k] show ?thesis
    by (auto simp: entry_text_def map_of_body [OF assms(3)] split: option.splits)
qed

interpretation issuance: hash_chain H entry_msg entry_prev entry_hash entry_content for H
proof
  fix e e' b
  assume "entry_msg e = Inr b" "entry_msg e' = Inr b"
  then have c: "entry_content e = entry_content e'" and "\<exists>j. entry_content e = Inr j"
    using canonical_bytes_inj [of True "entry_body e" b True "entry_body e'"]
    by (auto simp: entry_msg_def entry_content_def canonical_bytes_Inr)
  then show "entry_content e = entry_content e'" "entry_prev e = entry_prev e'"
    using entry_text_content [OF c] by (auto simp: entry_prev_def)
qed

lemma hash_obj_msg: "hash_obj H True (entry_body e) = Inr h \<longleftrightarrow> (\<exists>b. entry_msg e = Inr b \<and> h = sha256_bytes H b)"
  by (simp add: hash_obj_Inr entry_msg_def)

lemma read_entries_chain:
  "read_entries_from H p ls = Inr es \<Longrightarrow> chain_ok H entry_msg entry_prev entry_hash p es"
proof (induction H p ls arbitrary: es rule: read_entries_from.induct)
  case (4 H p t v ls)
  from "4.prems" obtain e h es' where e: "v = PDict e" "entry_hash e = Some h"
    "hash_obj H True (entry_body e) = Inr h" "map_of e ''previous_entry_hash'' = Some (PStr p)"
    "read_entries_from H h ls = Inr es'" "es = e # es'"
    by (cases v) (auto simp: rbind_Inr_iff split: option.splits if_splits)
  from e(3) obtain b where b: "entry_msg e = Inr b" "h = sha256_bytes H b" by (auto simp: hash_obj_msg)
  have "chain_ok H entry_msg entry_prev entry_hash h es'"
    using "4.IH" [OF e(1,2)] e by auto
  moreover have "entry_prev e = Some p" by (simp add: entry_prev_def entry_text_def e(4))
  ultimately show ?case using e b by simp
qed simp_all

lemma read_entries_append:
  "read_entries_from H p (ls @ ls') =
     rbind (read_entries_from H p ls) (\<lambda>es.
     rbind (read_entries_from H (chain_tail entry_hash p es) ls') (\<lambda>es'. Inr (es @ es')))"
proof (induction H p ls rule: read_entries_from.induct)
  case (1 H p)
  then show ?case by (cases "read_entries_from H p ls'") simp_all
next
  case (4 H p t v ls)
  show ?case
  proof (cases "\<exists>e h. v = PDict e \<and> entry_hash e = Some h \<and> hash_obj H True (entry_body e) = Inr h \<and>
      map_of e ''previous_entry_hash'' = Some (PStr p)")
    case True
    then obtain e h where e: "v = PDict e" "entry_hash e = Some h" "hash_obj H True (entry_body e) = Inr h"
      "map_of e ''previous_entry_hash'' = Some (PStr p)" by blast
    have "read_entries_from H h (ls @ ls') = rbind (read_entries_from H h ls) (\<lambda>es.
        rbind (read_entries_from H (chain_tail entry_hash h es) ls') (\<lambda>es'. Inr (es @ es')))"
      using "4.IH" [OF e(1,2)] e by auto
    then show ?thesis by (simp add: e rbind_assoc)
  next
    case False
    show ?thesis
    proof (cases v)
      case (PDict e)
      show ?thesis
      proof (cases "entry_hash e")
        case (Some h)
        with False PDict show ?thesis by (cases "hash_obj H True (entry_body e)") auto
      qed (simp add: PDict)
    qed simp_all
  qed
qed simp_all


section \<open>Appending\<close>

definition appended :: "(string \<Rightarrow> string) \<Rightarrow> receipt \<Rightarrow> string \<Rightarrow> string option \<Rightarrow> entry" where
  "appended H r previous w = text_entry (new_entry H r previous w)"

lemma new_entry_reads:
  "map_of (appended H r p w) ''previous_entry_hash'' = Some (PStr p)"
  "map_of (appended H r p w) ''receipt_hash'' = Some (PStr (rc_receipt_hash r))"
  "map_of (appended H r p w) ''key_hash'' = Some (PStr (ledger_key_hash H r))"
  "\<exists>h. entry_hash (appended H r p w) = Some h \<and> hash_obj H True (entry_body (appended H r p w)) = Inr h"
proof -
  let ?w = "case w of None \<Rightarrow> DEFAULT_LEDGER_WRITTEN_AT | Some w \<Rightarrow> if w = '''' then DEFAULT_LEDGER_WRITTEN_AT else w"
  let ?h = "hash_json H (JObj [(''key_hash'', JStr (ledger_key_hash H r)), (''status'', JStr (status_value (re_status (rc_result r)))),
                  (''receipt_hash'', JStr (rc_receipt_hash r)), (''previous_entry_hash'', JStr p), (''written_at'', JStr ?w)])"
  have e: "appended H r p w =
      [(''entry_hash'', PStr ?h), (''key_hash'', PStr (ledger_key_hash H r)), (''previous_entry_hash'', PStr p),
       (''receipt_hash'', PStr (rc_receipt_hash r)), (''status'', PStr (status_value (re_status (rc_result r)))),
       (''written_at'', PStr ?w)]"
    by (simp add: appended_def new_entry_def text_entry_def Let_def)
  show "map_of (appended H r p w) ''previous_entry_hash'' = Some (PStr p)"
    "map_of (appended H r p w) ''receipt_hash'' = Some (PStr (rc_receipt_hash r))"
    "map_of (appended H r p w) ''key_hash'' = Some (PStr (ledger_key_hash H r))"
    by (simp_all add: e)
  have "hash_obj H True (entry_body (appended H r p w)) = Inr ?h"
    by (simp add: e entry_body_def hash_obj_def canonical_bytes_def hash_json_def)
  then show "\<exists>h. entry_hash (appended H r p w) = Some h \<and> hash_obj H True (entry_body (appended H r p w)) = Inr h"
    by (simp add: e entry_hash_def)
qed

lemma read_appended:
  assumes "read_entries_from H genesis ls = Inr es"
  shows "read_entries_from H genesis
     (ls @ [entry_line (new_entry H r (chain_tail entry_hash genesis es) w)])
     = Inr (es @ [appended H r (chain_tail entry_hash genesis es) w])"
proof -
  let ?p = "chain_tail entry_hash genesis es"
  from new_entry_reads(4) obtain h where "entry_hash (appended H r ?p w) = Some h"
    "hash_obj H True (entry_body (appended H r ?p w)) = Inr h" by blast
  then have "read_entries_from H ?p [entry_line (new_entry H r ?p w)] = Inr [appended H r ?p w]"
    using new_entry_reads(1) [of H r ?p w] by (simp add: entry_line_def appended_def [symmetric])
  then show ?thesis using assms by (simp add: read_entries_append)
qed

lemma append_ledger_Inr:
  assumes "append_ledger H f r w = Inr ls'"
  obtains es where "read_entries_from H genesis (case f of None \<Rightarrow> [] | Some ls \<Rightarrow> ls) = Inr es"
    "ls' = (case f of None \<Rightarrow> [] | Some ls \<Rightarrow> ls) @ [entry_line (new_entry H r (chain_tail entry_hash genesis es) w)]"
    "read_entries_from H genesis ls' = Inr (es @ [appended H r (chain_tail entry_hash genesis es) w])"
proof (cases f)
  case None
  with assms show thesis using that [of "[]"] read_appended [of H "[]" "[]" r w]
    by (auto simp: append_ledger_def last_ledger_entry_hash_def)
next
  case (Some ls)
  with assms obtain es where "read_entries_from H genesis ls = Inr es"
    "ls' = ls @ [entry_line (new_entry H r (chain_tail entry_hash genesis es) w)]"
    by (auto simp: append_ledger_def last_ledger_entry_hash_def rbind_Inr_iff)
  with Some show thesis using that [of es] read_appended [of H ls es r w] by auto
qed

lemma create_checkpoint_Inr:
  assumes "create_ledger_checkpoint H f subjects kind label = Inr c"
  obtains es rt where "read_ledger_entries H f = Inr es"
    "lc_subject_receipt_hashes c = unique_sorted (subjects @ entry_receipts es)"
    "merkle_root H (map PStr (lc_subject_receipt_hashes c)) = Inr rt" "lc_merkle_root_set c = Some rt"
    "lc_ledger_entry_count c = int (length es)" "lc_ledger_tail_hash c = chain_tail entry_hash genesis es"
    "compute_ledger_checkpoint_hash H c = Inr (lc_checkpoint_hash c)"
proof -
  let ?d = "\<lambda>es rt. draft_checkpoint H (case f of None \<Rightarrow> [] | Some ls \<Rightarrow> ls) es
               (unique_sorted (subjects @ entry_receipts es)) rt kind label"
  from assms obtain es rt h where es: "read_ledger_entries H f = Inr es"
    and rt: "merkle_root H (map PStr (unique_sorted (subjects @ entry_receipts es))) = Inr rt"
    and h: "compute_ledger_checkpoint_hash H (?d es rt) = Inr h"
    and c: "(?d es rt)\<lparr> lc_checkpoint_hash := h \<rparr> = c"
    unfolding create_ledger_checkpoint_def rbind_Inr_iff by blast
  have "checkpoint_fields c '''' = checkpoint_fields (?d es rt) ''''" "lc_checkpoint_hash c = h"
    by (simp_all add: c [symmetric] checkpoint_fields_def)
  with h have hc: "compute_ledger_checkpoint_hash H c = Inr (lc_checkpoint_hash c)"
    by (simp only: compute_ledger_checkpoint_hash_def)
  show thesis
    by (rule that [OF es _ _ _ _ _ hc]) (use rt in \<open>simp_all add: c [symmetric] draft_checkpoint_def\<close>)
qed

text \<open>C12: writing a receipt appends exactly one entry, for that receipt, to a valid hash chain, and the
  checkpoint it writes pins the ledger: it has the number of entries, the tail hash, the new receipt
  among its subjects, the Merkle root of the subjects and its own hash.\<close>

theorem write_receipt_extends_ledger:
  assumes "atomic_write_receipt H fs r w label = (None, fs')"
  shows "\<exists>ls es e c rt. if_receipt fs' = Some r \<and> if_ledger fs' = Some ls \<and> if_checkpoint fs' = Some c \<and>
    read_entries_from H genesis (case if_ledger fs of None \<Rightarrow> [] | Some ls \<Rightarrow> ls) = Inr es \<and>
    read_ledger_entries H (Some ls) = Inr (es @ [e]) \<and>
    chain_ok H entry_msg entry_prev entry_hash genesis (es @ [e]) \<and>
    map_of e ''receipt_hash'' = Some (PStr (rc_receipt_hash r)) \<and>
    lc_ledger_entry_count c = int (length es) + 1 \<and>
    lc_ledger_tail_hash c = chain_tail entry_hash genesis (es @ [e]) \<and>
    rc_receipt_hash r \<in> set (lc_subject_receipt_hashes c) \<and>
    lc_merkle_root_set c = Some rt \<and> merkle_root H (map PStr (lc_subject_receipt_hashes c)) = Inr rt \<and>
    compute_ledger_checkpoint_hash H c = Inr (lc_checkpoint_hash c)"
proof -
  from assms obtain ls c where ls: "append_ledger H (if_ledger fs) r w = Inr ls"
    and c: "create_ledger_checkpoint H (Some ls) [rc_receipt_hash r] ''local-artifact'' label = Inr c"
    and fs': "if_receipt fs' = Some r" "if_ledger fs' = Some ls" "if_checkpoint fs' = Some c"
    by (auto simp: atomic_write_receipt_def Let_def split: sum.splits)
  from append_ledger_Inr [OF ls] obtain es where
    es: "read_entries_from H genesis (case if_ledger fs of None \<Rightarrow> [] | Some ls \<Rightarrow> ls) = Inr es"
    and all: "read_entries_from H genesis ls = Inr (es @ [appended H r (chain_tail entry_hash genesis es) w])" .
  let ?e = "appended H r (chain_tail entry_hash genesis es) w"
  from create_checkpoint_Inr [OF c] obtain es2 rt where es2: "read_ledger_entries H (Some ls) = Inr es2"
    and cp: "lc_subject_receipt_hashes c = unique_sorted ([rc_receipt_hash r] @ entry_receipts es2)"
    "merkle_root H (map PStr (lc_subject_receipt_hashes c)) = Inr rt" "lc_merkle_root_set c = Some rt"
    "lc_ledger_entry_count c = int (length es2)"
    "lc_ledger_tail_hash c = chain_tail entry_hash genesis es2"
    "compute_ledger_checkpoint_hash H c = Inr (lc_checkpoint_hash c)" .
  from es2 all have "es2 = es @ [?e]" by (simp add: read_ledger_entries_def)
  note cp = cp [unfolded this]
  have "rc_receipt_hash r \<in> set (lc_subject_receipt_hashes c)" by (simp add: cp(1))
  with fs' es all cp(2-6) read_entries_chain [OF all] new_entry_reads(2) show ?thesis
    by (intro exI [of _ ls] exI [of _ es] exI [of _ ?e] exI [of _ c] exI [of _ rt])
       (simp add: read_ledger_entries_def)
qed

text \<open>The number of entries and the tail hash of a ledger pin all of it: two ledgers that the
  reader accepts and that agree on both have the same entries (up to a collision of the digest among
  their own messages).\<close>

theorem ledger_pinned_by_tail:
  assumes "read_ledger_entries H f = Inr es" "read_ledger_entries H f' = Inr es'"
    and "length es = length es'" "chain_tail entry_hash genesis es = chain_tail entry_hash genesis es'"
    and "inj_on H (chain_messages entry_msg es \<union> chain_messages entry_msg es')"
  shows "map entry_content es = map entry_content es'"
proof -
  from assms(1,2) have "chain_ok H entry_msg entry_prev entry_hash genesis es"
    "chain_ok H entry_msg entry_prev entry_hash genesis es'"
    by (auto simp: read_ledger_entries_def intro: read_entries_chain split: option.splits)
  from issuance.chain_pinned [OF this assms(3-5)] show ?thesis by simp
qed

section \<open>At most one receipt per key\<close>

lemma conflict_append: "conflict_in k ls \<noteq> Inr () \<Longrightarrow> conflict_in k (ls @ ls') \<noteq> Inr ()"
  by (induction k ls rule: conflict_in.induct) (auto split: pyval.splits)

lemma conflict_new:
  "conflict_in (ledger_key_hash H r) (ls @ [entry_line (new_entry H r p w)]) \<noteq> Inr ()"
proof -
  have "conflict_in (ledger_key_hash H r) [entry_line (new_entry H r p w)] \<noteq> Inr ()"
    using new_entry_reads(3) [of H r p w] by (simp add: entry_line_def appended_def)
  then show ?thesis
    by (induction "ledger_key_hash H r" ls rule: conflict_in.induct) (auto split: pyval.splits)
qed

text \<open>A sequence of writes from the same directory; the receipts whose write succeeded.\<close>

fun run_writes ::
  "(string \<Rightarrow> string) \<Rightarrow> issuance_files \<Rightarrow> (receipt \<times> string option \<times> string) list \<Rightarrow> receipt list" where
  "run_writes H fs [] = []"
| "run_writes H fs ((r, w, label) # ws) =
     (case atomic_write_receipt H fs r w label of
        (None, fs') \<Rightarrow> r # run_writes H fs' ws
      | (Some e, fs') \<Rightarrow> run_writes H fs' ws)"

definition blocked_key :: "issuance_files \<Rightarrow> string \<Rightarrow> bool" where
  "blocked_key fs k = (\<exists>ls. if_ledger fs = Some ls \<and> conflict_in k ls \<noteq> Inr ())"

lemma write_keeps_blocked:
  assumes "atomic_write_receipt H fs r w label = (res, fs')" "blocked_key fs k"
  shows "blocked_key fs' k"
  using assms conflict_append [of k]
  by (fastforce simp: atomic_write_receipt_def blocked_key_def Let_def append_ledger_def rbind_Inr_iff
      split: sum.splits)

lemma write_blocks_key:
  assumes "atomic_write_receipt H fs r w label = (None, fs')"
  shows "blocked_key fs' (ledger_key_hash H r) \<and> \<not> blocked_key fs (ledger_key_hash H r)"
proof -
  from assms obtain ls where ls: "append_ledger H (if_ledger fs) r w = Inr ls" "if_ledger fs' = Some ls"
    and free: "assert_no_issuance_conflict H (if_ledger fs) r = Inr ()"
    by (auto simp: atomic_write_receipt_def Let_def split: sum.splits)
  from append_ledger_Inr [OF ls(1)] conflict_new ls(2) have "blocked_key fs' (ledger_key_hash H r)"
    by (metis blocked_key_def)
  with free show ?thesis by (auto simp: blocked_key_def assert_no_issuance_conflict_def)
qed

lemma run_writes_keys:
  "distinct (map (ledger_key_hash H) (run_writes H fs ws)) \<and>
   (\<forall>r \<in> set (run_writes H fs ws). \<not> blocked_key fs (ledger_key_hash H r))"
proof (induction H fs ws rule: run_writes.induct)
  case (2 H fs r w label ws)
  obtain res fs' where step: "atomic_write_receipt H fs r w label = (res, fs')" by (cases "atomic_write_receipt H fs r w label")
  show ?case
  proof (cases res)
    case None
    with step write_blocks_key have "blocked_key fs' (ledger_key_hash H r)" "\<not> blocked_key fs (ledger_key_hash H r)"
      by metis+
    with "2.IH"(1) [OF step [symmetric]] None step write_keeps_blocked [OF step] show ?thesis by auto
  next
    case (Some e)
    with "2.IH"(2) [OF step [symmetric] Some] step write_keeps_blocked [OF step] show ?thesis by auto
  qed
qed simp

text \<open>C11: no re-rolls: in any sequence of writes, whatever the ledger at the start, the receipts that
  are written have pairwise different keys, so no two of them are for the same package, candidate,
  suite and specification.\<close>

theorem no_receipt_rerolled: "distinct (map (ledger_key_hash H) (run_writes H fs ws))"
  using run_writes_keys by blast


section \<open>Issued receipts\<close>

lemma receipt_fields_hash [simp]: "receipt_fields (r\<lparr> rc_receipt_hash := h \<rparr>) x = receipt_fields r x"
  by (simp add: receipt_fields_def)

text \<open>An issued receipt is for a \<open>pass\<close>, \<open>withheld\<close> or \<open>reduce_size\<close> envelope; it carries its own
  hash and all the proofs, its result is the envelope's status and lists only failed assertions of
  probe proofs, and reading the envelope back from it gives the envelope that was issued.\<close>

theorem issue_receipt_roundtrip:
  assumes "issue_receipt H env ps cov a = Inr (Some r)"
    and "validate_envelope env = Inr env" "de_coverage env = cov"
  shows "de_status env \<in> {St_PASS, St_WITHHELD, St_REDUCE_SIZE} \<and>
    compute_receipt_hash H r = Inr (rc_receipt_hash r) \<and> re_status (rc_result r) = de_status env \<and>
    set ps \<subseteq> set (rc_proofs r) \<and> list_all (\<lambda>x. \<not> as_holds x) (re_new_breaches (rc_result r)) \<and>
    decision_envelope_from_receipt r = Inr env"
proof -
  from assms(1) have st: "de_status env \<in> {St_PASS, St_WITHHELD, St_REDUCE_SIZE}"
    by (auto simp: issue_receipt_def split: if_splits)
  let ?q = "with_decision ps"
  from assms(1) st obtain dp rh h where hash: "compute_receipt_hash H (draft_receipt H env (?q dp) rh cov a) = Inr h"
    and r: "r = (draft_receipt H env (?q dp) rh cov a)\<lparr> rc_receipt_hash := h \<rparr>"
    by (auto simp: issue_receipt_def rbind_Inr_iff Let_def split: if_splits)
  have "compute_receipt_hash H r = Inr (rc_receipt_hash r)" using hash r by (simp add: compute_receipt_hash_def)
  moreover have "list_all (\<lambda>x. \<not> as_holds x) (probe_breaches (?q dp))"
    by (auto simp: probe_breaches_def list_all_iff)
  moreover have "decision_envelope_from_receipt r = Inr env"
    using assms(2,3) by (cases env) (simp add: decision_envelope_from_receipt_def r draft_receipt_def)
  moreover have "set ps \<subseteq> set (?q dp)" by (auto simp: with_decision_def)
  ultimately show ?thesis using st by (simp add: r draft_receipt_def)
qed

lemma receipt_field_names: "distinct (map fst (receipt_fields r x))"
  by (simp add: receipt_fields_def)

lemma receipt_field:
  "map_of (receipt_fields r x) ''package'' = Some (package_info_value (rc_package r))"
  "map_of (receipt_fields r x) ''candidate'' = Some (candidate_info_value (rc_candidate r))"
  "map_of (receipt_fields r x) ''spec'' = Some (spec_info_value (rc_spec r))"
  "map_of (receipt_fields r x) ''suite'' = Some (suite_info_value (rc_suite r))"
  "map_of (receipt_fields r x) ''decision'' = Some (receipt_decision_value (rc_decision r))"
  "map_of (receipt_fields r x) ''proofs'' = Some (PList (map proof_value (rc_proofs r)))"
  by (simp_all add: receipt_fields_def)

lemma traverse_PStr [simp]: "traverse (normalize en) (map PStr xs) = Inr (map JStr xs)"
  by (induction xs) simp_all

lemma map_JStr_inj [simp]: "map JStr xs = map JStr ys \<longleftrightarrow> xs = ys"
  by (rule inj_map_eq_map) (simp add: inj_def)

lemma normalize_opt [simp]:
  "normalize True (opt_str a) = normalize True (opt_str b) \<longleftrightarrow> a = b"
  "normalize True (opt_tier c) = normalize True (opt_tier d) \<longleftrightarrow> c = d"
  "normalize True (strs xs) = normalize True (strs ys) \<longleftrightarrow> xs = ys"
  by (simp_all add: opt_str_def opt_tier_def strs_def split: option.splits)

lemma package_value_inj: "normalize True (package_info_value a) = normalize True (package_info_value b) \<Longrightarrow> a = b"
  by (cases a; cases b) (simp add: package_info_value_def kept_def)

lemma candidate_value_inj: "normalize True (candidate_info_value a) = normalize True (candidate_info_value b) \<Longrightarrow> a = b"
  by (cases a; cases b) (simp add: candidate_info_value_def kept_def)

lemma suite_value_inj: "normalize True (suite_info_value a) = normalize True (suite_info_value b) \<Longrightarrow> a = b"
  by (cases a; cases b) (simp add: suite_info_value_def kept_def strs_def)

lemma spec_value_inj:
  assumes "normalize True (spec_info_value a) = normalize True (spec_info_value b)"
  shows "a = b"
proof -
  obtain j where "normalize True (spec_info_value a) = Inr j" using plain_normalizes by fastforce
  note f = model_field_eq [OF assms [unfolded spec_info_value_def] this [unfolded spec_info_value_def]]
  have "normalize True (PStr (si_spec_hash a)) = normalize True (PStr (si_spec_hash b))" by (rule f [where k = "''spec_hash''"]) simp_all
  moreover have "normalize True (PStr (si_source_path a)) = normalize True (PStr (si_source_path b))" by (rule f [where k = "''source_path''"]) simp_all
  moreover have "normalize True (PStr (si_compiler a)) = normalize True (PStr (si_compiler b))" by (rule f [where k = "''compiler''"]) simp_all
  moreover have "normalize True (opt_str (si_model a)) = normalize True (opt_str (si_model b))" by (rule f [where k = "''model''"]) simp_all
  moreover have "normalize True (opt_str (si_tool_schema_hash a)) = normalize True (opt_str (si_tool_schema_hash b))"
    by (rule f [where k = "''tool_schema_hash''"]) simp_all
  moreover have "normalize True (opt_str (si_degraded_reason a)) = normalize True (opt_str (si_degraded_reason b))"
    by (rule f [where k = "''degraded_reason''"]) simp_all
  ultimately show ?thesis by simp
qed

text \<open>The fields of a decision that carry the verdict.\<close>

lemma decision_value_inj:
  assumes "normalize True (receipt_decision_value a) = normalize True (receipt_decision_value b)"
  shows "rd_reason_code a = rd_reason_code b \<and> rd_verdict_tier a = rd_verdict_tier b \<and>
    rd_adjusted_size_cap a = rd_adjusted_size_cap b \<and> rd_required_proof_ids a = rd_required_proof_ids b"
proof -
  obtain j where "normalize True (receipt_decision_value a) = Inr j" using plain_normalizes by fastforce
  note f = model_field_eq [OF assms [unfolded receipt_decision_value_def] this [unfolded receipt_decision_value_def]]
  have "normalize True (PEnum (reason_value (rd_reason_code a))) = normalize True (PEnum (reason_value (rd_reason_code b)))"
    by (rule f [where k = "''reason_code''"]) simp_all
  moreover have "normalize True (opt_tier (rd_verdict_tier a)) = normalize True (opt_tier (rd_verdict_tier b))"
    by (rule f [where k = "''verdict_tier''"]) simp_all
  moreover have "normalize True (opt_str (rd_adjusted_size_cap a)) = normalize True (opt_str (rd_adjusted_size_cap b))"
    by (rule f [where k = "''adjusted_size_cap''"]) simp_all
  moreover have "normalize True (strs (rd_required_proof_ids a)) = normalize True (strs (rd_required_proof_ids b))"
    by (rule f [where k = "''required_proof_ids''"]) simp_all
  ultimately show ?thesis by simp
qed

text \<open>The receipt hash binds the receipt: two receipts with the same hash (and no collision between
  their two messages) have the same package, candidate, specification, suite, verdict tier, size cap
  and proofs.\<close>

theorem receipt_hash_binds:
  assumes "compute_receipt_hash H r = Inr h" "compute_receipt_hash H r' = Inr h"
    and "\<And>a b. canonical_bytes True (PModel (receipt_fields r '''')) = Inr a \<Longrightarrow>
      canonical_bytes True (PModel (receipt_fields r' '''')) = Inr b \<Longrightarrow> H a = H b \<Longrightarrow> a = b"
  shows "rc_package r = rc_package r' \<and> rc_candidate r = rc_candidate r' \<and> rc_spec r = rc_spec r' \<and>
    rc_suite r = rc_suite r' \<and> rd_verdict_tier (rc_decision r) = rd_verdict_tier (rc_decision r') \<and>
    rd_adjusted_size_cap (rc_decision r) = rd_adjusted_size_cap (rc_decision r') \<and>
    traverse (\<lambda>p. normalize True (proof_value p)) (rc_proofs r) =
    traverse (\<lambda>p. normalize True (proof_value p)) (rc_proofs r')"
proof -
  have eq: "normalize True (PModel (receipt_fields r '''')) = normalize True (PModel (receipt_fields r' ''''))"
    using hash_obj_inj [OF assms(1) [unfolded compute_receipt_hash_def] assms(2) [unfolded compute_receipt_hash_def]]
      assms(3) by blast
  from assms(1) obtain j where j: "normalize True (PModel (receipt_fields r '''')) = Inr j"
    by (auto simp: compute_receipt_hash_def hash_obj_Inr canonical_bytes_Inr)
  note same = model_field_eq [OF eq j receipt_field_names receipt_field_names]
  have tr: "traverse (normalize True) (map f xs) = traverse (\<lambda>x. normalize True (f x)) xs" for f :: "proof_rec \<Rightarrow> pyval" and xs
    by (induction xs) simp_all
  have pk: "map_of (filter (kept True) (receipt_fields r '''')) ''proofs'' = Some (PList (map proof_value (rc_proofs r)))"
    using map_of_filter_kept [OF receipt_field_names, of True r "''''" "''proofs''"] receipt_field(6) [of r "''''"]
    by (simp add: kept_def)
  from j obtain js where "j = JObj js" by (auto simp: rbind_Inr_iff)
  with normalize_model_member [OF _ pk] j obtain jp where
    "normalize True (PList (map proof_value (rc_proofs r))) = Inr jp" by blast
  with same [OF receipt_field(6) receipt_field(6)]
  have "traverse (\<lambda>p. normalize True (proof_value p)) (rc_proofs r) =
    traverse (\<lambda>p. normalize True (proof_value p)) (rc_proofs r')"
    unfolding normalize.simps tr
    by (cases "traverse (\<lambda>p. normalize True (proof_value p)) (rc_proofs r)";
        cases "traverse (\<lambda>p. normalize True (proof_value p)) (rc_proofs r')") auto
  then show ?thesis
    using package_value_inj [OF same [OF receipt_field(1) receipt_field(1)]]
      candidate_value_inj [OF same [OF receipt_field(2) receipt_field(2)]]
      spec_value_inj [OF same [OF receipt_field(3) receipt_field(3)]]
      suite_value_inj [OF same [OF receipt_field(4) receipt_field(4)]]
      decision_value_inj [OF same [OF receipt_field(5) receipt_field(5)]] by blast
qed

section \<open>Witnesses\<close>

definition sample_args :: issue_args where
  "sample_args =
     \<lparr> ia_package_hash = ''pk'', ia_prev_receipt_hash = genesis, ia_baseline_name = ''b'', ia_baseline_hash = ''bh'',
       ia_baseline_receipt_hash = None, ia_baseline_version_id = ''v'', ia_candidate_name = ''c'',
       ia_candidate_hash = ''ch'', ia_candidate_version_id = ''w'',
       ia_spec = \<lparr> si_spec_hash = ''sh'', si_source_path = ''sp'', si_compiler = ''json'', si_model = None,
                   si_tool_schema_hash = None, si_degraded_reason = None \<rparr>,
       ia_suite = \<lparr> sui_suite_id = ''su'', sui_scenarios = [''s''], sui_suite_lock_hash = ''sl'', sui_source_path = ''sq'' \<rparr>,
       ia_engine_source_tree_hash = ''e'', ia_runner_lock_hash = ''rl'', ia_package_adapter_id = PLAYBOOK_ADAPTER_ID,
       ia_package_identity_lock_hash = ''il'', ia_package_identity_lock_path = ''ip'', ia_report_hash = ''rh'',
       ia_edit_provenance = None, ia_include_baseline_receipt = False, ia_include_trust_policy = False \<rparr>"

lemma sample_args_flags:
  "ia_include_baseline_receipt sample_args = False" "ia_include_trust_policy sample_args = False"
  "ia_package_adapter_id sample_args = PLAYBOOK_ADAPTER_ID"
  by (simp_all add: sample_args_def)

text \<open>A short digest for the samples: the length of the message.\<close>

definition short_digest :: "string \<Rightarrow> string" where
  "short_digest s = nat_str (length s)"

lemma make_decision_proof_total:
  assumes "list_all (\<lambda>p. plain (proof_value p)) ps"
  shows "\<exists>dp. make_decision_proof H env ps x y z = Inr dp \<and> pf_meta dp = []"
proof -
  have "\<exists>fps. traverse (\<lambda>p. hash_obj H True (proof_value p)) ps = Inr fps"
    using assms plain_hashes by (intro traverse_total) (auto simp: list_all_iff)
  then obtain fps where f: "traverse (\<lambda>p. hash_obj H True (proof_value p)) ps = Inr fps" by blast
  from decision_proof_id_total obtain pid where i: "decision_proof_id H (de_status env) (de_reason_code env)
      (sort (map pf_proof_id ps)) (de_coverage env) (de_verdict_tier env) (de_adjusted_size_cap env) = Inr pid" by blast
  have "plain (decision_inputs (sort fps) (sort (map pf_proof_id ps)) (de_coverage env))"
    by (simp add: decision_inputs_def)
  from plain_hashes [OF this] obtain ih where h: "hash_obj H True
    (decision_inputs (sort fps) (sort (map pf_proof_id ps)) (de_coverage env)) = Inr ih" by blast
  from plain_hashes [of "envelope_value env" H True] obtain ah where a: "hash_obj H True (envelope_value env) = Inr ah" by auto
  from f i h a show ?thesis by (simp add: make_decision_proof_def)
qed

lemma plain_sample_proof: "list_all (\<lambda>p. plain (proof_value p)) (sample_proofs ok)"
  by (simp add: sample_proofs_def sample_proof_def)

text \<open>Issuing never fails on plain proofs and the one adapter there is.\<close>

lemma issue_receipt_total:
  assumes "list_all (\<lambda>p. plain (proof_value p)) ps" "ia_package_adapter_id a = PLAYBOOK_ADAPTER_ID"
    and "de_status env \<in> {St_PASS, St_WITHHELD, St_REDUCE_SIZE}"
  shows "\<exists>r. issue_receipt H env ps cov a = Inr (Some r)"
proof -
  from make_decision_proof_total [OF assms(1)] obtain dp where
    dp: "make_decision_proof H env ps (ia_include_baseline_receipt a) (ia_include_trust_policy a) False = Inr dp"
    "pf_meta dp = []" by blast
  have "plain (result_payload (de_status env) (probe_breaches (with_decision ps dp)))"
    by (simp add: result_payload_def list_all_iff)
  from plain_hashes [OF this] obtain rh where
    rh: "hash_obj H True (result_payload (de_status env) (probe_breaches (with_decision ps dp))) = Inr rh" by blast
  have "list_all (\<lambda>p. plain (proof_value p)) (rc_proofs (draft_receipt H env (with_decision ps dp) rh cov a))"
    using assms(1) dp(2) by (simp add: draft_receipt_def with_decision_def)
  from plain_hashes [OF plain_receipt [OF this]] obtain h where
    "compute_receipt_hash H (draft_receipt H env (with_decision ps dp) rh cov a) = Inr h"
    unfolding compute_receipt_hash_def by blast
  with dp rh assms(2,3) show ?thesis by (auto simp: issue_receipt_def)
qed

definition sample_receipt :: receipt where
  "sample_receipt = the (projr (issue_receipt short_digest (sample_envelope True) (sample_proofs True)
     (de_coverage (sample_envelope True)) sample_args))"

lemma sample_envelope_valid: "validate_envelope (sample_envelope True) = Inr (sample_envelope True)"
  using decide_cases [of "sample_proofs True" sample_coverage REQUIRED_PROOFS sample_context id]
    sample_pass(1) verdict_cap_ok by (metis Inr_inject decision_envelope.select_convs(2,3) validate_envelope_def validated_def)

lemma sample_receipt_ok:
  "issue_receipt short_digest (sample_envelope True) (sample_proofs True) (de_coverage (sample_envelope True)) sample_args
     = Inr (Some sample_receipt)"
proof -
  have "\<exists>r. issue_receipt short_digest (sample_envelope True) (sample_proofs True)
      (de_coverage (sample_envelope True)) sample_args = Inr (Some r)"
    by (rule issue_receipt_total [OF plain_sample_proof]) (simp_all add: sample_args_def sample_pass(2))
  then show ?thesis by (auto simp: sample_receipt_def)
qed

theorem issue_receipt_roundtrip_witness:
  "re_status (rc_result sample_receipt) = St_PASS \<and>
   decision_envelope_from_receipt sample_receipt = Inr (sample_envelope True)"
  using issue_receipt_roundtrip [OF sample_receipt_ok sample_envelope_valid refl] sample_pass(2) by simp

lemma sample_receipt_hash: "\<exists>h. compute_receipt_hash id sample_receipt = Inr h"
proof -
  from sample_receipt_ok obtain dp rh h where
    dp: "make_decision_proof short_digest (sample_envelope True) (sample_proofs True) False False False = Inr dp"
    and r: "(draft_receipt short_digest (sample_envelope True) (with_decision (sample_proofs True) dp) rh
          (de_coverage (sample_envelope True)) sample_args)\<lparr> rc_receipt_hash := h \<rparr> = sample_receipt"
    by (auto simp: issue_receipt_def rbind_Inr_iff Let_def sample_args_flags split: if_splits)
  from make_decision_proof_total [OF plain_sample_proof] dp have "pf_meta dp = []" by (metis Inr_inject)
  then have "list_all (\<lambda>p. plain (proof_value p)) (rc_proofs sample_receipt)"
    using plain_sample_proof [of True] by (simp add: r [symmetric] draft_receipt_def with_decision_def)
  from plain_hashes [OF plain_receipt [OF this]] show ?thesis unfolding compute_receipt_hash_def by blast
qed

theorem receipt_hash_binds_witness:
  "\<exists>h. compute_receipt_hash id sample_receipt = Inr h \<and> rc_spec sample_receipt = rc_spec sample_receipt"
  using sample_receipt_hash receipt_hash_binds [of id sample_receipt _ sample_receipt] by auto


lemma merkle_root_total: "\<exists>rt. merkle_root H (map PStr xs) = Inr rt"
proof -
  have "\<exists>level. traverse (leaf_hash H) (map PStr xs) = Inr level"
    using plain_hashes by (intro traverse_total) (auto simp: leaf_hash_def leaf_value_def)
  then show ?thesis by (auto simp: merkle_root_def)
qed

lemma checkpoint_total:
  "read_ledger_entries H f = Inr es \<Longrightarrow> \<exists>c. create_ledger_checkpoint H f subjects kind label = Inr c"
proof -
  assume es: "read_ledger_entries H f = Inr es"
  from merkle_root_total obtain rt where
    rt: "merkle_root H (map PStr (unique_sorted (subjects @ entry_receipts es))) = Inr rt" by blast
  have "plain (PModel (checkpoint_fields c ''''))" for c by (simp add: checkpoint_fields_def)
  from plain_hashes [OF this, of H True] obtain h where
    "compute_ledger_checkpoint_hash H (draft_checkpoint H (case f of None \<Rightarrow> [] | Some ls \<Rightarrow> ls) es
       (unique_sorted (subjects @ entry_receipts es)) rt kind label) = Inr h"
    unfolding compute_ledger_checkpoint_hash_def by blast
  with es rt show ?thesis by (simp add: create_ledger_checkpoint_def)
qed

text \<open>The first write to a directory succeeds.\<close>

lemma first_write_total:
  assumes "if_ledger fs = None"
  shows "\<exists>fs'. atomic_write_receipt H fs r w label = (None, fs')"
proof -
  have a: "append_ledger H None r w = Inr [entry_line (new_entry H r genesis w)]"
    by (simp add: append_ledger_def last_ledger_entry_hash_def)
  from append_ledger_Inr [OF a] obtain es where
    "read_entries_from H genesis [entry_line (new_entry H r genesis w)]
       = Inr (es @ [appended H r (chain_tail entry_hash genesis es) w])" by blast
  then have "read_ledger_entries H (Some [entry_line (new_entry H r genesis w)])
       = Inr (es @ [appended H r (chain_tail entry_hash genesis es) w])" by (simp add: read_ledger_entries_def)
  from checkpoint_total [OF this] obtain c where
    "create_ledger_checkpoint H (Some [entry_line (new_entry H r genesis w)]) [rc_receipt_hash r] ''local-artifact'' label
      = Inr c" by blast
  with a assms show ?thesis by (simp add: atomic_write_receipt_def assert_no_issuance_conflict_def Let_def)
qed

definition empty_files :: issuance_files where
  "empty_files = \<lparr> if_receipt = None, if_ledger = None, if_checkpoint = None \<rparr>"

definition sample_files :: issuance_files where
  "sample_files = snd (atomic_write_receipt id empty_files sample_receipt None ''ledger'')"

lemma sample_write: "atomic_write_receipt id empty_files sample_receipt None ''ledger'' = (None, sample_files)"
  using first_write_total [of empty_files id sample_receipt None "''ledger''"]
  by (auto simp: sample_files_def empty_files_def)

theorem write_receipt_extends_ledger_witness:
  "\<exists>e c. read_ledger_entries id (if_ledger sample_files) = Inr [e] \<and> if_checkpoint sample_files = Some c \<and>
     lc_ledger_entry_count c = 1"
  using write_receipt_extends_ledger [OF sample_write] by (auto simp: empty_files_def)

lemma write_receipt_ledger:
  "atomic_write_receipt H fs r w label = (None, fs') \<Longrightarrow>
   \<exists>ls. append_ledger H (if_ledger fs) r w = Inr ls \<and> if_ledger fs' = Some ls"
  by (auto simp: atomic_write_receipt_def Let_def split: sum.splits)

lemma sample_ledger: "\<exists>es. read_ledger_entries id (if_ledger sample_files) = Inr es"
proof -
  from write_receipt_ledger [OF sample_write] obtain ls where
    ls: "append_ledger id (if_ledger empty_files) sample_receipt None = Inr ls" "if_ledger sample_files = Some ls" by blast
  from append_ledger_Inr [OF ls(1)] ls(2) show ?thesis by (auto simp: read_ledger_entries_def)
qed

theorem ledger_pinned_by_tail_witness:
  "\<exists>es. read_ledger_entries id (if_ledger sample_files) = Inr es \<and> map entry_content es = map entry_content es"
  using sample_ledger ledger_pinned_by_tail [of id "if_ledger sample_files" _ "if_ledger sample_files"] by auto

end
