(* ===== verification/Decimal28.thy ===== *)
theory Decimal28
  imports Models
begin

text \<open>
  Arithmetic in Python's default decimal context: 28 significant digits, \<open>ROUND_HALF_EVEN\<close>,
  \<open>Emax = 999999\<close>, \<open>Etiny = -1000026\<close>; overflow, division by zero and invalid operations are
  raised. Comparisons of decimals are exact and need no context.
\<close>

section \<open>Rounding\<close>

text \<open>\<open>decade x\<close>: the exponent \<open>k\<close> with \<open>10 ^ (k - 1) \<le> x < 10 ^ k\<close>.\<close>

definition decade :: "rat \<Rightarrow> int" where
  "decade x =
     (if 1 \<le> x then int (ndigits (nat \<lfloor>x\<rfloor>))
      else 1 - int (ndigits (nat (\<lceil>1 / x\<rceil> - 1))))"

text \<open>Integers of up to 28 digits are exact and keep the exponent 0.\<close>

definition rnd28 :: "rat \<Rightarrow> pydec" where
  "rnd28 x =
     (if of_int \<lfloor>x\<rfloor> = x \<and> \<bar>x\<bar> < 10 ^ 28 then Finite \<lfloor>x\<rfloor> 0
      else (let e = max (decade \<bar>x\<bar> - 28) (-1000026) in Finite (round_half_even (x / pow10 e)) e))"

text \<open>A rounded coefficient has at most 29 digits, so only a large exponent can overflow.\<close>

fun overflowed :: "pydec \<Rightarrow> bool" where
  "overflowed (Finite c e) = (0 < e \<and> 1000000 < int (ndigits (nat \<bar>c\<bar>)) + e)"
| "overflowed _ = False"

text \<open>The result of an operation whose exact value is \<open>x\<close>.\<close>

definition dop :: "rat \<Rightarrow> exn + pydec" where
  "dop x = (let r = rnd28 x in if overflowed r then Inl InvalidOperation else Inr r)"

definition dadd :: "pydec \<Rightarrow> pydec \<Rightarrow> exn + pydec" where
  "dadd a b = dop (dval a + dval b)"

definition dsub :: "pydec \<Rightarrow> pydec \<Rightarrow> exn + pydec" where
  "dsub a b = dop (dval a - dval b)"

definition dmul :: "pydec \<Rightarrow> pydec \<Rightarrow> exn + pydec" where
  "dmul a b = dop (dval a * dval b)"

definition ddiv :: "pydec \<Rightarrow> pydec \<Rightarrow> exn + pydec" where
  "ddiv a b = (if dval b = 0 then Inl DivisionByZero else dop (dval a / dval b))"

definition dabs :: "pydec \<Rightarrow> exn + pydec" where
  "dabs a = dop \<bar>dval a\<bar>"

abbreviation d_zero :: pydec where "d_zero \<equiv> Finite 0 0"
abbreviation d_one :: pydec where "d_one \<equiv> Finite 1 0"

lemma pow10_pos [simp]: "0 < pow10 e"
  by (simp add: pow10_def)

lemma dval_rnd28_nonneg: "0 \<le> x \<Longrightarrow> 0 \<le> dval (rnd28 x)"
proof (cases "of_int \<lfloor>x\<rfloor> = x \<and> \<bar>x\<bar> < 10 ^ 28")
  case False
  assume "0 \<le> x"
  let ?e = "max (decade \<bar>x\<bar> - 28) (- 1000026)"
  have "0 \<le> round_half_even (x / pow10 ?e)"
    using \<open>0 \<le> x\<close> less_imp_le [OF pow10_pos] by (intro round_half_even_nonneg divide_nonneg_nonneg)
  then have "0 \<le> of_int (round_half_even (x / pow10 ?e)) * pow10 ?e"
    using less_imp_le [OF pow10_pos, of ?e] by (intro mult_nonneg_nonneg) auto
  with False show ?thesis by (auto simp: rnd28_def Let_def)
next
  case True
  assume "0 \<le> x"
  with True show ?thesis by (simp add: rnd28_def pow10_def)
qed

lemma dop_Inr: "dop x = Inr r \<Longrightarrow> r = rnd28 x"
  by (auto simp: dop_def Let_def split: if_splits)

lemma dop_nonneg: "dop x = Inr r \<Longrightarrow> 0 \<le> x \<Longrightarrow> 0 \<le> dval r"
  by (auto dest: dop_Inr intro: dval_rnd28_nonneg)

lemma dop_error: "dop x = Inl e \<Longrightarrow> e = InvalidOperation"
  by (auto simp: dop_def Let_def split: if_splits)

lemma rnd28_finite [simp]: "is_finite (rnd28 x)"
  by (simp add: rnd28_def Let_def)

lemma dop_finite: "dop x = Inr r \<Longrightarrow> is_finite r"
  by (auto dest: dop_Inr)

lemma dop_zero: "dop 0 = Inr d_zero"
  by (simp add: dop_def rnd28_def ndigits.simps)

text \<open>Integers are not changed.\<close>

lemma dop_of_int: "\<bar>x\<bar> < 10 ^ 28 \<Longrightarrow> x = of_int i \<Longrightarrow> dop x = Inr (Finite i 0)"
  by (simp add: dop_def rnd28_def)

section \<open>The error of rounding\<close>

lemma ndigits_bounds: "0 < n \<Longrightarrow> 10 ^ (ndigits n - 1) \<le> n \<and> n < 10 ^ ndigits n \<and> 0 < ndigits n"
proof (induction n rule: ndigits.induct)
  case (1 n)
  show ?case
  proof (cases "n < 10")
    case False
    then have "0 < n div 10" by simp
    with "1.IH" [OF False] have ih: "10 ^ (ndigits (n div 10) - 1) \<le> n div 10" "n div 10 < 10 ^ ndigits (n div 10)"
      "0 < ndigits (n div 10)" by auto
    then obtain k where k: "ndigits (n div 10) = Suc k" by (cases "ndigits (n div 10)") auto
    from ih(1,2) k have "10 ^ Suc k \<le> n" "n < 10 ^ Suc (Suc k)"
      by (auto simp: less_mult_imp_div_less intro: dual_order.trans [of "10 * (n div 10)"])
    with False k show ?thesis by (simp add: ndigits.simps [of n])
  qed (use "1.prems" in \<open>simp add: ndigits.simps\<close>)
qed

lemma decade_le:
  assumes "0 < x"
  shows "pow10 (decade x - 1) \<le> x"
proof (cases "1 \<le> x")
  case True
  then have n: "0 < nat \<lfloor>x\<rfloor>" by simp
  let ?k = "ndigits (nat \<lfloor>x\<rfloor>)"
  from ndigits_bounds [OF n] have "10 ^ (?k - 1) \<le> nat \<lfloor>x\<rfloor>" "0 < ?k" by auto
  then have "(of_nat (10 ^ (?k - 1)) :: rat) \<le> of_nat (nat \<lfloor>x\<rfloor>)" by (simp only: of_nat_le_iff)
  also have "\<dots> \<le> x" using True by simp
  finally show ?thesis using True \<open>0 < ?k\<close> by (simp add: decade_def pow10_def nat_diff_distrib)
next
  case False
  let ?m = "nat (\<lceil>1 / x\<rceil> - 1)"
  from False assms have "1 < 1 / x" by simp
  then have m: "0 < ?m" by linarith
  from ndigits_bounds [OF m] have "?m < 10 ^ ndigits ?m" by blast
  then have "Suc ?m \<le> 10 ^ ndigits ?m" by (rule Suc_leI)
  then have "(of_nat (Suc ?m) :: rat) \<le> of_nat (10 ^ ndigits ?m)" by (simp only: of_nat_le_iff)
  moreover have "1 / x \<le> of_nat (Suc ?m)"
  proof -
    have "int (Suc ?m) = \<lceil>1 / x\<rceil>" using m by linarith
    then have "of_nat (Suc ?m) = (of_int \<lceil>1 / x\<rceil> :: rat)" by (metis of_int_of_nat_eq)
    then show ?thesis using le_of_int_ceiling [of "1 / x"] by simp
  qed
  ultimately have "1 / x \<le> 10 ^ ndigits ?m" by simp
  then have "1 / 10 ^ ndigits ?m \<le> x" using assms by (simp add: field_simps)
  with False ndigits_bounds [OF m] show ?thesis by (simp add: decade_def pow10_def)
qed

text \<open>Rounding to 28 digits changes a positive number by at most a part in \<open>2 * 10 ^ 27\<close>, unless it is
  below the smallest exponent.\<close>

lemma pow10_add: "pow10 (a + b) = pow10 a * pow10 b"
proof -
  have p: "pow10 e = 10 powi e" for e
    by (cases "0 \<le> e") (simp_all only: pow10_def power_int_def if_True if_False power_inverse divide_inverse mult_1_left)
  show ?thesis unfolding p by (rule power_int_add) simp
qed

lemma less_decade:
  assumes "0 < x"
  shows "x < pow10 (decade x)"
proof (cases "1 \<le> x")
  case True
  then have n: "0 < nat \<lfloor>x\<rfloor>" by simp
  let ?k = "ndigits (nat \<lfloor>x\<rfloor>)"
  from ndigits_bounds [OF n] have "Suc (nat \<lfloor>x\<rfloor>) \<le> 10 ^ ?k" by (simp add: Suc_leI)
  then have "(of_nat (Suc (nat \<lfloor>x\<rfloor>)) :: rat) \<le> of_nat (10 ^ ?k)" by (simp only: of_nat_le_iff)
  moreover have "x < of_nat (Suc (nat \<lfloor>x\<rfloor>))" using True floor_correct [of x] by simp
  ultimately show ?thesis using True by (simp add: decade_def pow10_def)
next
  case False
  let ?m = "nat (\<lceil>1 / x\<rceil> - 1)"
  from False assms have "1 < 1 / x" by simp
  then have m: "0 < ?m" by linarith
  from ndigits_bounds [OF m] have "10 ^ (ndigits ?m - 1) \<le> ?m" by blast
  then have "(of_nat (10 ^ (ndigits ?m - 1)) :: rat) \<le> of_nat ?m" by (simp only: of_nat_le_iff)
  moreover have "of_nat ?m < 1 / x"
  proof -
    have "int ?m = \<lceil>1 / x\<rceil> - 1" using m by linarith
    then have "of_nat ?m = (of_int \<lceil>1 / x\<rceil> - 1 :: rat)" by (metis of_int_of_nat_eq of_int_diff of_int_1)
    then show ?thesis using ceiling_correct [of "1 / x"] by simp
  qed
  ultimately have "of_nat (10 ^ (ndigits ?m - 1)) < 1 / x" by (rule le_less_trans)
  then have "10 ^ (ndigits ?m - 1) < 1 / x" by simp
  then have "x < 1 / 10 ^ (ndigits ?m - 1)" using assms by (simp add: field_simps)
  moreover have "pow10 (decade x) = 1 / 10 ^ (ndigits ?m - 1)"
  proof -
    have "decade x = - int (ndigits ?m - 1)" using False ndigits_bounds [OF m] by (simp add: decade_def)
    then show ?thesis by (simp add: pow10_neg)
  qed
  ultimately show ?thesis by simp
qed

lemma pow10_mono: "a \<le> b \<Longrightarrow> pow10 a \<le> pow10 b"
proof -
  assume "a \<le> b"
  then have "pow10 b = pow10 a * pow10 (b - a)" using pow10_add [of a "b - a"] by simp
  moreover have "1 \<le> pow10 (b - a)" using \<open>a \<le> b\<close> by (simp add: pow10_def)
  ultimately show ?thesis using pow10_pos [of a] by simp
qed

lemma decade_ge: "pow10 k \<le> x \<Longrightarrow> k < decade x"
proof (rule ccontr)
  assume "pow10 k \<le> x" "\<not> k < decade x"
  then have "pow10 (decade x) \<le> x" using pow10_mono [of "decade x" k] by simp
  moreover have "0 < x" using \<open>pow10 k \<le> x\<close> pow10_pos [of k] by linarith
  ultimately show False using less_decade [of x] by simp
qed

lemma rnd28_error:
  assumes "pow10 (-1000) \<le> x"
  shows "\<bar>dval (rnd28 x) - x\<bar> \<le> x / (2 * 10 ^ 27)"
proof -
  have pos: "0 < x" using assms pow10_pos [of "-1000"] by linarith
  show ?thesis
  proof (cases "of_int \<lfloor>x\<rfloor> = x \<and> \<bar>x\<bar> < 10 ^ 28")
  case True
  then have "dval (rnd28 x) = x" by (simp add: rnd28_def pow10_def)
  then show ?thesis using pos by simp
next
  case False
  let ?e = "decade x - 28"
  from pos decade_ge [OF assms] have e: "max (decade \<bar>x\<bar> - 28) (-1000026) = ?e" by simp
  have "\<bar>of_int (round_half_even (x / pow10 ?e)) - x / pow10 ?e\<bar> \<le> 1 / 2" by (rule round_half_even_error)
  then have "\<bar>of_int (round_half_even (x / pow10 ?e)) - x / pow10 ?e\<bar> * pow10 ?e \<le> 1 / 2 * pow10 ?e"
    by (rule mult_right_mono) (simp add: less_imp_le)
  moreover have "\<bar>of_int (round_half_even (x / pow10 ?e)) - x / pow10 ?e\<bar> * pow10 ?e
      = \<bar>of_int (round_half_even (x / pow10 ?e)) * pow10 ?e - x\<bar>"
  proof -
    have "(of_int (round_half_even (x / pow10 ?e)) - x / pow10 ?e) * pow10 ?e
        = of_int (round_half_even (x / pow10 ?e)) * pow10 ?e - x"
      using less_imp_neq [OF pow10_pos, of ?e] by (simp add: left_diff_distrib)
    then show ?thesis using pow10_pos [of ?e] by (metis abs_mult abs_of_pos)
  qed
  ultimately have "\<bar>dval (rnd28 x) - x\<bar> \<le> pow10 ?e / 2"
    using False e by (auto simp: rnd28_def Let_def)
  also have "pow10 ?e = pow10 (decade x - 1) / 10 ^ 27"
    using pow10_add [of "decade x - 1" "-27"] by (simp add: pow10_def)
  also have "\<dots> / 2 \<le> x / (2 * 10 ^ 27)" using decade_le [OF pos] by (simp add: field_simps)
  finally show ?thesis .
qed
qed

lemma rnd28_between:
  assumes "pow10 (-1000) \<le> x"
  shows "dval (rnd28 x) \<le> x * (1 + 1 / (2 * 10 ^ 27)) \<and> x * (1 - 1 / (2 * 10 ^ 27)) \<le> dval (rnd28 x)"
proof -
  define D where "D = (1 / (2 * 10 ^ 27) :: rat)"
  have "x / (2 * 10 ^ 27) = x * D" by (simp only: D_def times_divide_eq_right mult_1_right)
  with rnd28_error [OF assms] have "\<bar>dval (rnd28 x) - x\<bar> \<le> x * D" by (simp only:)
  then show ?thesis unfolding D_def [symmetric] by (simp add: abs_le_iff distrib_left right_diff_distrib)
qed

lemmas rnd28_upper = rnd28_between [THEN conjunct1] and rnd28_lower = rnd28_between [THEN conjunct2]

lemma two_roundings:
  assumes "pow10 (-499) \<le> x" "pow10 (-500) \<le> y"
  shows "dval (rnd28 (y * dval (rnd28 x))) \<le> y * x * (1 + 1 / 10 ^ 26)"
proof -
  let ?d = "1 / (2 * 10 ^ 27) :: rat"
  have x: "pow10 (-1000) \<le> x" using assms(1) pow10_mono [of "-1000" "-499"] by linarith
  have y0: "0 \<le> y" and x0: "0 \<le> x" using assms pow10_pos [of "-500"] pow10_pos [of "-499"] by linarith+
  have "pow10 (-500) * 10 = pow10 (-499)" using pow10_add [of "-500" 1] by (simp add: pow10_def [of 1])
  then have "pow10 (-500) \<le> x * (1 / 10)" using assms(1) by simp
  also have "\<dots> \<le> x * (1 - ?d)" using x0 by (intro mult_left_mono) simp_all
  also have "\<dots> \<le> dval (rnd28 x)" by (rule rnd28_lower [OF x])
  finally have r: "pow10 (-500) \<le> dval (rnd28 x)" .
  have "pow10 (-1000) = pow10 (-500) * pow10 (-500)" using pow10_add [of "-500" "-500"] by simp
  also have "\<dots> \<le> y * dval (rnd28 x)"
    using assms(2) r y0 by (intro mult_mono less_imp_le [OF pow10_pos])
  finally have "dval (rnd28 (y * dval (rnd28 x))) \<le> y * dval (rnd28 x) * (1 + ?d)" by (rule rnd28_upper)
  also have "\<dots> \<le> y * (x * (1 + ?d)) * (1 + ?d)"
    using rnd28_upper [OF x] y0 by (intro mult_right_mono mult_left_mono) simp_all
  also have "\<dots> = y * x * ((1 + ?d) * (1 + ?d))" by simp
  also have "\<dots> \<le> y * x * (1 + 1 / 10 ^ 26)"
    using x0 y0 by (intro mult_left_mono) simp_all
  finally show ?thesis .
qed

end
