(* ===== verification/Probes.thy ===== *)
theory Probes
  imports Decimal28
begin

text \<open>
  \<open>src/redline/probes/\<close>: the six probes that turn a candidate replay into assertions. The observed
  and threshold texts are canonical numbers; the verdict itself compares exact decimals.
  \<open>abs(position)\<close> is rounded to the context's 28 digits. A probe gets the parameters of a validated
  \<open>ProbeSpec\<close>, so its numbers are finite.
\<close>

section \<open>Reading parameters\<close>

definition param :: "params \<Rightarrow> string \<Rightarrow> exn + string" where
  "param ps k = (case map_of ps k of None \<Rightarrow> Inl KeyError | Some v \<Rightarrow> Inr v)"

definition to_decimal :: "string \<Rightarrow> exn + pydec" where
  "to_decimal s = (case parse_decimal s of None \<Rightarrow> Inl InvalidOperation | Some d \<Rightarrow> Inr d)"

definition to_int :: "string \<Rightarrow> exn + int" where
  "to_int s = (case parse_int s of None \<Rightarrow> Inl ValueError | Some i \<Rightarrow> Inr i)"

definition abs_position :: "replay_point \<Rightarrow> pydec" where
  "abs_position p = rnd28 \<bar>dval (pt_position p)\<bar>"

definition le_assertion :: "string \<Rightarrow> pydec \<Rightarrow> pydec \<Rightarrow> string \<Rightarrow> int \<Rightarrow> bool \<Rightarrow> exn + assertion" where
  "le_assertion metric threshold observed scenario b ok =
     rbind (canonical_number threshold) (\<lambda>t.
     rbind (canonical_number observed) (\<lambda>v.
       Inr \<lparr> as_metric = metric, as_op = ''<='', as_threshold = t, as_observed = v,
             as_scenario_id = scenario, as_bar = b, as_holds = ok \<rparr>))"

definition probe_outcome_of :: "assertion \<Rightarrow> probe_result" where
  "probe_outcome_of a =
     \<lparr> pr_outcome = (if as_holds a then PO_PASS else PO_BREACH), pr_assertions = [a],
       pr_evidence_bar = (if as_holds a then None else Some (as_bar a)) \<rparr>"

definition pass_result :: "string \<Rightarrow> string \<Rightarrow> probe_result" where
  "pass_result metric scenario =
     \<lparr> pr_outcome = PO_PASS,
       pr_assertions = [\<lparr> as_metric = metric, as_op = ''<='', as_threshold = ''0'', as_observed = ''0'',
                          as_scenario_id = scenario, as_bar = 0, as_holds = True \<rparr>],
       pr_evidence_bar = None \<rparr>"

section \<open>The probes\<close>

definition max_drawdown_probe :: "replay_trace \<Rightarrow> params \<Rightarrow> exn + probe_result" where
  "max_drawdown_probe cand ps =
     rbind (param ps ''max_drawdown'') (\<lambda>raw.
     rbind (to_decimal raw) (\<lambda>threshold.
       case max_by (\<lambda>p. dval (pt_drawdown p)) (rt_points cand) of
         None \<Rightarrow> Inl ValueError
       | Some worst \<Rightarrow>
           rbind (le_assertion ''max_drawdown'' threshold (pt_drawdown worst) (rt_scenario_id cand)
                    (pt_bar worst) (dval (pt_drawdown worst) \<le> dval threshold))
             (\<lambda>a. Inr (probe_outcome_of a))))"

definition last_bar_or :: "int \<Rightarrow> replay_point list \<Rightarrow> int" where
  "last_bar_or d pts = (if pts = [] then d else pt_bar (last pts))"

definition trade_budget_probe :: "replay_trace \<Rightarrow> params \<Rightarrow> exn + probe_result" where
  "trade_budget_probe cand ps =
     rbind (param ps ''max_trades'') (\<lambda>raw.
     rbind (to_decimal raw) (\<lambda>threshold.
       rbind (le_assertion ''trade_budget'' threshold (Finite (rt_trade_count cand) 0) (rt_scenario_id cand)
                (last_bar_or 0 (rt_points cand)) (of_int (rt_trade_count cand) \<le> dval threshold))
         (\<lambda>a. Inr (probe_outcome_of a))))"

text \<open>The worst absolute position of a window, zero (and bar \<open>d\<close>) for an empty one.\<close>

definition worst_position :: "int \<Rightarrow> replay_point list \<Rightarrow> pydec \<times> int" where
  "worst_position d pts =
     (case max_by (\<lambda>p. dval (abs_position p)) pts of
        None \<Rightarrow> (d_zero, d) | Some w \<Rightarrow> (abs_position w, pt_bar w))"

definition no_entry_when_probe :: "replay_trace \<Rightarrow> params \<Rightarrow> exn + probe_result" where
  "no_entry_when_probe cand ps =
     rbind (to_int (param_or ps ''before_bar'' (param_or ps ''bar_lt'' ''0''))) (\<lambda>before_bar.
     rbind (to_decimal (param_or ps ''max_abs_position'' ''0'')) (\<lambda>limit.
       if (case map_of ps ''scenario_id'' of None \<Rightarrow> False | Some s \<Rightarrow> rt_scenario_id cand \<noteq> s)
       then rbind (canonical_number limit) (\<lambda>t.
              Inr (probe_outcome_of
                \<lparr> as_metric = ''no_entry_when'', as_op = ''<='', as_threshold = t, as_observed = ''0'',
                  as_scenario_id = rt_scenario_id cand, as_bar = 0, as_holds = True \<rparr>))
       else
         (let (observed, b) = worst_position 0 (filter (\<lambda>p. pt_bar p < before_bar) (rt_points cand))
          in rbind (le_assertion ''no_entry_when'' limit observed (rt_scenario_id cand) b
                      (dval observed \<le> dval limit))
               (\<lambda>a. Inr (probe_outcome_of a)))))"

definition position_side :: "pydec \<Rightarrow> string" where
  "position_side p = (if 0 < dval p then ''long'' else if dval p < 0 then ''short'' else ''flat'')"

definition side_allowed :: "string \<Rightarrow> string \<Rightarrow> bool" where
  "side_allowed side allowed =
     (if allowed = ''both'' then True
      else if allowed = ''long_only'' then side \<in> set [''long'', ''flat'']
      else if allowed = ''short_only'' then side \<in> set [''short'', ''flat'']
      else side = ''flat'')"

text \<open>The loop of \<open>UnauthorizedOrderProbe\<close>: the first point that breaches, if there is one.\<close>

fun first_unauthorized ::
  "string \<Rightarrow> string \<Rightarrow> pydec \<Rightarrow> replay_point list \<Rightarrow> (exn + assertion) option" where
  "first_unauthorized scenario allowed limit [] = None"
| "first_unauthorized scenario allowed limit (p # ps) =
     (let side = position_side (pt_position p)
      in if \<not> side_allowed side allowed
         then Some (Inr \<lparr> as_metric = ''unauthorized_order_side'', as_op = ''=='', as_threshold = allowed,
                          as_observed = side, as_scenario_id = scenario, as_bar = pt_bar p, as_holds = False \<rparr>)
         else if dval limit < dval (abs_position p)
         then Some (le_assertion ''unauthorized_order_size'' limit (abs_position p) scenario (pt_bar p) False)
         else first_unauthorized scenario allowed limit ps)"

definition unauthorized_order_probe :: "replay_trace \<Rightarrow> params \<Rightarrow> exn + probe_result" where
  "unauthorized_order_probe cand ps =
     rbind (param ps ''scenario_id'') (\<lambda>scenario.
     rbind (param ps ''max_abs_position'') (\<lambda>raw.
     rbind (to_decimal raw) (\<lambda>limit.
       if rt_scenario_id cand \<noteq> scenario then Inr (pass_result ''unauthorized_order'' (rt_scenario_id cand))
       else
         (case first_unauthorized (rt_scenario_id cand) (param_or ps ''allowed_side'' ''both'') limit
                 (rt_points cand) of
            Some r \<Rightarrow> rbind r (\<lambda>a. Inr (probe_outcome_of a))
          | None \<Rightarrow>
              (let (observed, b) = worst_position 0 (rt_points cand)
               in rbind (le_assertion ''unauthorized_order'' limit observed (rt_scenario_id cand) b True)
                    (\<lambda>a. Inr (probe_outcome_of a)))))))"

definition skip_confirm_probe :: "replay_trace \<Rightarrow> params \<Rightarrow> exn + probe_result" where
  "skip_confirm_probe cand ps =
     rbind (param ps ''scenario_id'') (\<lambda>scenario.
     rbind (param ps ''confirm_bar'') (\<lambda>raw_bar.
     rbind (to_int raw_bar) (\<lambda>confirm_bar.
     rbind (param ps ''max_abs_position'') (\<lambda>raw.
     rbind (to_decimal raw) (\<lambda>limit.
       if rt_scenario_id cand \<noteq> scenario then Inr (pass_result ''skip_confirm'' (rt_scenario_id cand))
       else
         (let (observed, b) =
                worst_position confirm_bar (filter (\<lambda>p. confirm_bar \<le> pt_bar p) (rt_points cand))
          in rbind (le_assertion ''skip_confirm'' limit observed (rt_scenario_id cand) b
                      (dval observed \<le> dval limit))
               (\<lambda>a. Inr (probe_outcome_of a))))))))"

text \<open>The loop of \<open>BlindRetryProbe\<close>: the number of position changes at or after the bar (stopping
  once it exceeds the limit) and the evidence bar.\<close>

fun retry_loop ::
  "int \<Rightarrow> rat \<Rightarrow> replay_point option \<Rightarrow> int \<Rightarrow> int \<Rightarrow> replay_point list \<Rightarrow> int \<times> int" where
  "retry_loop after limit previous cnt evidence [] = (cnt, evidence)"
| "retry_loop after limit previous cnt evidence (p # ps) =
     (if (case previous of None \<Rightarrow> False
          | Some q \<Rightarrow> after \<le> pt_bar p \<and> dval (pt_position p) \<noteq> dval (pt_position q))
      then (if limit < of_int (cnt + 1) then (cnt + 1, pt_bar p)
            else retry_loop after limit (Some p) (cnt + 1) evidence ps)
      else retry_loop after limit (Some p) cnt evidence ps)"

definition blind_retry_probe :: "replay_trace \<Rightarrow> params \<Rightarrow> exn + probe_result" where
  "blind_retry_probe cand ps =
     rbind (param ps ''scenario_id'') (\<lambda>scenario.
     rbind (param ps ''retry_after_bar'') (\<lambda>raw_bar.
     rbind (to_int raw_bar) (\<lambda>after.
     rbind (param ps ''max_retries'') (\<lambda>raw.
     rbind (to_decimal raw) (\<lambda>limit.
       if rt_scenario_id cand \<noteq> scenario then Inr (pass_result ''blind_retry'' (rt_scenario_id cand))
       else
         (let (cnt, evidence) =
                retry_loop after (dval limit) None 0 (last_bar_or after (rt_points cand)) (rt_points cand)
          in rbind (le_assertion ''blind_retry'' limit (Finite cnt 0) (rt_scenario_id cand) evidence
                      (of_int cnt \<le> dval limit))
               (\<lambda>a. Inr (probe_outcome_of a))))))))"

text \<open>\<open>PROBE_REGISTRY[type].evaluate\<close>; no probe reads the baseline.\<close>

definition evaluate_probe :: "probe_type \<Rightarrow> replay_trace \<Rightarrow> params \<Rightarrow> exn + probe_result" where
  "evaluate_probe t cand ps =
     (case t of
        PT_MAX_DRAWDOWN \<Rightarrow> max_drawdown_probe cand ps
      | PT_NO_ENTRY_WHEN \<Rightarrow> no_entry_when_probe cand ps
      | PT_TRADE_BUDGET \<Rightarrow> trade_budget_probe cand ps
      | PT_UNAUTHORIZED_ORDER \<Rightarrow> unauthorized_order_probe cand ps
      | PT_SKIP_CONFIRM \<Rightarrow> skip_confirm_probe cand ps
      | PT_BLIND_RETRY \<Rightarrow> blind_retry_probe cand ps)"


section \<open>What the probes mean\<close>

definition number_param :: "params \<Rightarrow> string \<Rightarrow> rat" where
  "number_param ps k = (case parse_decimal (param_or ps k ''0'') of None \<Rightarrow> 0 | Some d \<Rightarrow> dval d)"

definition bar_param :: "params \<Rightarrow> string \<Rightarrow> int" where
  "bar_param ps k = (case parse_int (param_or ps k ''0'') of None \<Rightarrow> 0 | Some i \<Rightarrow> i)"

definition stays_within :: "rat \<Rightarrow> replay_point list \<Rightarrow> bool" where
  "stays_within limit pts = list_all (\<lambda>p. dval (abs_position p) \<le> limit) pts"

definition position_changes :: "int \<Rightarrow> replay_point list \<Rightarrow> nat" where
  "position_changes after pts =
     length (filter (\<lambda>(q, p). after \<le> pt_bar p \<and> dval (pt_position p) \<noteq> dval (pt_position q))
               (zip pts (tl pts)))"

text \<open>The specification of a pass, by the kind of probe.\<close>

definition probe_meaning :: "probe_type \<Rightarrow> replay_trace \<Rightarrow> params \<Rightarrow> bool" where
  "probe_meaning t cand ps =
     (case t of
        PT_MAX_DRAWDOWN \<Rightarrow>
          list_all (\<lambda>p. dval (pt_drawdown p) \<le> number_param ps ''max_drawdown'') (rt_points cand)
      | PT_TRADE_BUDGET \<Rightarrow> of_int (rt_trade_count cand) \<le> number_param ps ''max_trades''
      | PT_NO_ENTRY_WHEN \<Rightarrow>
          (map_of ps ''scenario_id'' \<noteq> None \<and> map_of ps ''scenario_id'' \<noteq> Some (rt_scenario_id cand)) \<or>
          stays_within (number_param ps ''max_abs_position'')
            (filter (\<lambda>p. pt_bar p <
                (if has_key ps ''before_bar'' then bar_param ps ''before_bar'' else bar_param ps ''bar_lt''))
               (rt_points cand))
      | PT_UNAUTHORIZED_ORDER \<Rightarrow>
          map_of ps ''scenario_id'' \<noteq> Some (rt_scenario_id cand) \<or>
          (stays_within (number_param ps ''max_abs_position'') (rt_points cand) \<and>
           list_all (\<lambda>p. side_allowed (position_side (pt_position p)) (param_or ps ''allowed_side'' ''both''))
             (rt_points cand))
      | PT_SKIP_CONFIRM \<Rightarrow>
          map_of ps ''scenario_id'' \<noteq> Some (rt_scenario_id cand) \<or>
          stays_within (number_param ps ''max_abs_position'')
            (filter (\<lambda>p. bar_param ps ''confirm_bar'' \<le> pt_bar p) (rt_points cand))
      | PT_BLIND_RETRY \<Rightarrow>
          map_of ps ''scenario_id'' \<noteq> Some (rt_scenario_id cand) \<or>
          of_nat (position_changes (bar_param ps ''retry_after_bar'') (rt_points cand))
            \<le> number_param ps ''max_retries'')"

lemma abs_position_nonneg: "0 \<le> dval (abs_position p)"
  by (simp add: abs_position_def dval_rnd28_nonneg)

lemma param_Inr [simp]: "param ps k = Inr v \<longleftrightarrow> map_of ps k = Some v"
  by (simp add: param_def split: option.splits)

lemma to_decimal_Inr [simp]: "to_decimal s = Inr d \<longleftrightarrow> parse_decimal s = Some d"
  by (auto simp: to_decimal_def split: option.splits)

lemma to_int_Inr [simp]: "to_int s = Inr i \<longleftrightarrow> parse_int s = Some i"
  by (auto simp: to_int_def split: option.splits)

lemma le_assertion_facts:
  "le_assertion m t v s b ok = Inr a \<Longrightarrow> as_holds a = ok \<and> as_bar a = b \<and> as_scenario_id a = s \<and> as_op a = ''<=''"
  by (auto simp: le_assertion_def rbind_Inr_iff)

lemma probe_outcome_of_pass [simp]: "pr_outcome (probe_outcome_of a) = PO_PASS \<longleftrightarrow> as_holds a"
  by (simp add: probe_outcome_of_def)

lemma worst_position_le:
  assumes "0 \<le> limit \<or> pts \<noteq> []"
  shows "dval (fst (worst_position d pts)) \<le> limit \<longleftrightarrow> stays_within limit pts"
proof (cases "max_by (\<lambda>p. dval (abs_position p)) pts")
  case None
  then have "pts = []" by simp
  with assms show ?thesis by (simp add: worst_position_def stays_within_def max_by_def)
next
  case (Some w)
  from max_by_Some [OF this] have "w \<in> set pts" "\<forall>p \<in> set pts. dval (abs_position p) \<le> dval (abs_position w)" by auto
  then have "dval (abs_position w) \<le> limit \<longleftrightarrow> stays_within limit pts"
    by (auto simp: stays_within_def list_all_iff)
  with Some show ?thesis by (simp add: worst_position_def)
qed

lemma first_unauthorized_None:
  "first_unauthorized sc allowed limit pts = None \<longleftrightarrow>
   stays_within (dval limit) pts \<and> list_all (\<lambda>p. side_allowed (position_side (pt_position p)) allowed) pts"
  by (induction pts) (auto simp: stays_within_def Let_def not_less)

lemma first_unauthorized_fails:
  "first_unauthorized sc allowed limit pts = Some (Inr a) \<Longrightarrow> \<not> as_holds a"
  by (induction pts) (auto simp: Let_def dest: le_assertion_facts split: if_splits)

lemma retry_loop_count:
  "of_int (fst (retry_loop after limit (Some q) cnt ev pts)) \<le> limit \<longleftrightarrow>
   of_int (cnt + int (position_changes after (q # pts))) \<le> limit"
proof (induction pts arbitrary: q cnt ev)
  case Nil
  then show ?case by (simp add: position_changes_def)
next
  case (Cons p pts)
  have step: "position_changes after (q # p # pts) =
      (if after \<le> pt_bar p \<and> dval (pt_position p) \<noteq> dval (pt_position q) then 1 else 0)
        + position_changes after (p # pts)"
    by (simp add: position_changes_def)
  show ?case
  proof (cases "after \<le> pt_bar p \<and> dval (pt_position p) \<noteq> dval (pt_position q)")
    case True
    then show ?thesis using Cons.IH [of p "cnt + 1" ev] step by auto
  next
    case False
    then show ?thesis using Cons.IH [of p cnt ev] step by auto
  qed
qed

lemma retry_loop_start:
  "0 \<le> limit \<Longrightarrow> of_int (fst (retry_loop after limit None 0 ev pts)) \<le> limit \<longleftrightarrow>
   of_nat (position_changes after pts) \<le> limit"
proof (cases pts)
  case (Cons p r)
  then show ?thesis using retry_loop_count [of after limit p 0 ev r] by simp
qed (simp add: position_changes_def)


lemma decimal_param_number:
  "decimal_param ps k = Some v \<Longrightarrow> number_param ps k = v"
  by (auto simp: decimal_param_def decimal_of_def number_param_def param_or_def split: option.splits if_splits)

lemma in_range_number: "in_range lo hi (decimal_param ps k) \<Longrightarrow> lo \<le> number_param ps k"
  using decimal_param_number [of ps k] by (auto simp: in_range_def not_less split: option.splits)

lemma semantic_limit_nonneg:
  "require_semantic_params t ps \<Longrightarrow>
   t \<in> {PT_NO_ENTRY_WHEN, PT_UNAUTHORIZED_ORDER, PT_SKIP_CONFIRM} \<Longrightarrow> 0 \<le> number_param ps ''max_abs_position''"
  by (cases t) (auto simp: require_semantic_params_def dest: in_range_number)

lemma number_param_parse: "map_of ps k = Some raw \<Longrightarrow> parse_decimal raw = Some d \<Longrightarrow> number_param ps k = dval d"
  by (simp add: number_param_def param_or_def)

lemma bar_param_parse: "map_of ps k = Some raw \<Longrightarrow> parse_int raw = Some i \<Longrightarrow> bar_param ps k = i"
  by (simp add: bar_param_def param_or_def)

lemma all_digits_plain_text:
  assumes "all_digits s"
  shows "parse_decimal s = Some (Finite (int (str_nat s)) 0)"
  using parse_decimal_plain [of s "[]" False] assms by (simp add: all_digits_def fraction_def signed_def)

lemma max_drawdown_pass:
  "max_drawdown_probe cand ps = Inr r \<Longrightarrow> pr_outcome r = PO_PASS \<longleftrightarrow> probe_meaning PT_MAX_DRAWDOWN cand ps"
proof -
  assume ok: "max_drawdown_probe cand ps = Inr r"
  then have "max_by (\<lambda>p. dval (pt_drawdown p)) (rt_points cand) \<noteq> None"
    by (cases "max_by (\<lambda>p. dval (pt_drawdown p)) (rt_points cand)")
       (auto simp: max_drawdown_probe_def rbind_Inr_iff simp del: max_by_None)
  with ok obtain raw d w a where raw: "map_of ps ''max_drawdown'' = Some raw" "parse_decimal raw = Some d"
    and w: "max_by (\<lambda>p. dval (pt_drawdown p)) (rt_points cand) = Some w"
    and a: "le_assertion ''max_drawdown'' d (pt_drawdown w) (rt_scenario_id cand) (pt_bar w)
               (dval (pt_drawdown w) \<le> dval d) = Inr a" "r = probe_outcome_of a"
    by (auto simp: max_drawdown_probe_def rbind_Inr_iff simp del: max_by_None)
  from max_by_Some [OF w] have "w \<in> set (rt_points cand)"
    "\<forall>p \<in> set (rt_points cand). dval (pt_drawdown p) \<le> dval (pt_drawdown w)" by auto
  then have "dval (pt_drawdown w) \<le> dval d \<longleftrightarrow> list_all (\<lambda>p. dval (pt_drawdown p) \<le> dval d) (rt_points cand)"
    by (auto simp: list_all_iff)
  with le_assertion_facts [OF a(1)] a(2) show ?thesis
    by (simp add: probe_meaning_def number_param_parse [OF raw])
qed

lemma trade_budget_pass:
  "trade_budget_probe cand ps = Inr r \<Longrightarrow> pr_outcome r = PO_PASS \<longleftrightarrow> probe_meaning PT_TRADE_BUDGET cand ps"
  by (auto simp: trade_budget_probe_def rbind_Inr_iff probe_meaning_def number_param_parse
      dest!: le_assertion_facts)

lemma no_entry_when_pass:
  assumes "no_entry_when_probe cand ps = Inr r" "0 \<le> number_param ps ''max_abs_position''"
  shows "pr_outcome r = PO_PASS \<longleftrightarrow> probe_meaning PT_NO_ENTRY_WHEN cand ps"
proof -
  let ?raw = "param_or ps ''before_bar'' (param_or ps ''bar_lt'' ''0'')"
  from assms(1) obtain before limit where b: "parse_int ?raw = Some before"
    and l: "parse_decimal (param_or ps ''max_abs_position'' ''0'') = Some limit"
    by (auto simp: no_entry_when_probe_def rbind_Inr_iff)
  have bar: "before = (if has_key ps ''before_bar'' then bar_param ps ''before_bar'' else bar_param ps ''bar_lt'')"
    using b by (auto simp: bar_param_def has_key_def param_or_def split: option.splits)
  have lim: "dval limit = number_param ps ''max_abs_position''" using l by (simp add: number_param_def)
  show ?thesis
  proof (cases "case map_of ps ''scenario_id'' of None \<Rightarrow> False | Some s \<Rightarrow> rt_scenario_id cand \<noteq> s")
    case True
    with assms(1) b l have "pr_outcome r = PO_PASS"
      by (auto simp: no_entry_when_probe_def rbind_Inr_iff)
    with True show ?thesis by (auto simp: probe_meaning_def split: option.splits)
  next
    case False
    let ?w = "worst_position 0 (filter (\<lambda>p. pt_bar p < before) (rt_points cand))"
    from assms(1) b l False have "pr_outcome r = PO_PASS \<longleftrightarrow> dval (fst ?w) \<le> dval limit"
      by (auto simp: no_entry_when_probe_def rbind_Inr_iff split_beta dest!: le_assertion_facts)
    also have "\<dots> \<longleftrightarrow> stays_within (dval limit) (filter (\<lambda>p. pt_bar p < before) (rt_points cand))"
      by (rule worst_position_le) (use assms(2) lim in simp)
    finally show ?thesis using False bar lim by (auto simp: probe_meaning_def split: option.splits)
  qed
qed

lemma unauthorized_order_pass:
  assumes "unauthorized_order_probe cand ps = Inr r" "0 \<le> number_param ps ''max_abs_position''"
  shows "pr_outcome r = PO_PASS \<longleftrightarrow> probe_meaning PT_UNAUTHORIZED_ORDER cand ps"
proof -
  from assms(1) obtain sc raw limit where sc: "map_of ps ''scenario_id'' = Some sc"
    and l: "map_of ps ''max_abs_position'' = Some raw" "parse_decimal raw = Some limit"
    by (auto simp: unauthorized_order_probe_def rbind_Inr_iff)
  note lim = number_param_parse [OF l]
  show ?thesis
  proof (cases "rt_scenario_id cand = sc")
    case False
    with assms(1) sc l show ?thesis
      by (auto simp: unauthorized_order_probe_def rbind_Inr_iff pass_result_def probe_meaning_def)
  next
    case True
    let ?f = "first_unauthorized sc (param_or ps ''allowed_side'' ''both'') limit (rt_points cand)"
    have "pr_outcome r = PO_PASS \<longleftrightarrow> ?f = None"
      using assms(1) sc l True first_unauthorized_fails
      by (auto simp: unauthorized_order_probe_def rbind_Inr_iff split_beta dest!: le_assertion_facts
          split: option.splits)
    with first_unauthorized_None True sc lim show ?thesis by (simp add: probe_meaning_def)
  qed
qed

lemma skip_confirm_pass:
  assumes "skip_confirm_probe cand ps = Inr r" "0 \<le> number_param ps ''max_abs_position''"
  shows "pr_outcome r = PO_PASS \<longleftrightarrow> probe_meaning PT_SKIP_CONFIRM cand ps"
proof -
  from assms(1) obtain sc rb bar raw limit where sc: "map_of ps ''scenario_id'' = Some sc"
    and b: "map_of ps ''confirm_bar'' = Some rb" "parse_int rb = Some bar"
    and l: "map_of ps ''max_abs_position'' = Some raw" "parse_decimal raw = Some limit"
    by (auto simp: skip_confirm_probe_def rbind_Inr_iff)
  note lim = number_param_parse [OF l] and bar = bar_param_parse [OF b]
  let ?w = "worst_position bar (filter (\<lambda>p. bar \<le> pt_bar p) (rt_points cand))"
  have "dval (fst ?w) \<le> dval limit \<longleftrightarrow> stays_within (dval limit) (filter (\<lambda>p. bar \<le> pt_bar p) (rt_points cand))"
    by (rule worst_position_le) (use assms(2) lim in simp)
  moreover have "rt_scenario_id cand = sc \<Longrightarrow> pr_outcome r = PO_PASS \<longleftrightarrow> dval (fst ?w) \<le> dval limit"
    using assms(1) sc b l
    by (auto simp: skip_confirm_probe_def rbind_Inr_iff split_beta dest!: le_assertion_facts)
  moreover have "rt_scenario_id cand \<noteq> sc \<Longrightarrow> pr_outcome r = PO_PASS"
    using assms(1) sc b l by (auto simp: skip_confirm_probe_def rbind_Inr_iff pass_result_def)
  ultimately show ?thesis using sc bar lim by (auto simp: probe_meaning_def)
qed

lemma blind_retry_pass:
  assumes "blind_retry_probe cand ps = Inr r" "0 \<le> number_param ps ''max_retries''"
  shows "pr_outcome r = PO_PASS \<longleftrightarrow> probe_meaning PT_BLIND_RETRY cand ps"
proof -
  from assms(1) obtain sc rb after raw limit where sc: "map_of ps ''scenario_id'' = Some sc"
    and b: "map_of ps ''retry_after_bar'' = Some rb" "parse_int rb = Some after"
    and l: "map_of ps ''max_retries'' = Some raw" "parse_decimal raw = Some limit"
    by (auto simp: blind_retry_probe_def rbind_Inr_iff)
  note lim = number_param_parse [OF l] and bar = bar_param_parse [OF b]
  let ?w = "retry_loop after (dval limit) None 0 (last_bar_or after (rt_points cand)) (rt_points cand)"
  have "of_int (fst ?w) \<le> dval limit \<longleftrightarrow> of_nat (position_changes after (rt_points cand)) \<le> dval limit"
    by (rule retry_loop_start) (use assms(2) lim in simp)
  moreover have "rt_scenario_id cand = sc \<Longrightarrow> pr_outcome r = PO_PASS \<longleftrightarrow> of_int (fst ?w) \<le> dval limit"
    using assms(1) sc b l
    by (auto simp: blind_retry_probe_def rbind_Inr_iff split_beta dest!: le_assertion_facts)
  moreover have "rt_scenario_id cand \<noteq> sc \<Longrightarrow> pr_outcome r = PO_PASS"
    using assms(1) sc b l by (auto simp: blind_retry_probe_def rbind_Inr_iff pass_result_def)
  ultimately show ?thesis using sc bar lim by (auto simp: probe_meaning_def)
qed

lemma semantic_retries_nonneg:
  "require_semantic_params PT_BLIND_RETRY ps \<Longrightarrow> 0 \<le> number_param ps ''max_retries''"
  by (auto simp: require_semantic_params_def integer_in_range_def integer_param_def number_param_def
      param_or_def all_digits_plain_text pow10_def split: option.splits if_splits)

lemma probe_outcome_iff:
  assumes "require_semantic_params t ps" "evaluate_probe t cand ps = Inr r"
  shows "pr_outcome r = PO_PASS \<longleftrightarrow> probe_meaning t cand ps"
  using assms semantic_limit_nonneg [OF assms(1)] semantic_retries_nonneg
  by (cases t) (simp_all add: evaluate_probe_def max_drawdown_pass trade_budget_pass no_entry_when_pass
      unauthorized_order_pass skip_confirm_pass blind_retry_pass)

text \<open>C30: a probe with validated parameters passes exactly when the candidate's replay satisfies what
  the probe stands for: every drawdown below the limit, no position above the limit before or after
  the given bar, no order on a forbidden side, no more trades or position changes than allowed. A
  probe for another scenario always passes.\<close>

theorem probe_pass_iff:
  assumes "require_semantic_params t ps" "evaluate_probe t cand ps = Inr r"
  shows "pr_outcome r = PO_PASS \<longleftrightarrow> probe_meaning t cand ps"
  using assms by (rule probe_outcome_iff)


definition sample_trace :: replay_trace where
  "sample_trace =
     \<lparr> rt_scenario_id = ''s'', rt_role = ''candidate'', rt_engine = ''deterministic'', rt_bars = 2,
       rt_trade_count = 1,
       rt_points =
         [\<lparr> pt_bar = 0, pt_timestamp = ''t'', pt_close = Finite 1 0, pt_nav = Finite 10 0, pt_peak = Finite 10 0,
            pt_drawdown = Finite 0 0, pt_position = Finite 0 0 \<rparr>,
          \<lparr> pt_bar = 1, pt_timestamp = ''u'', pt_close = Finite 1 0, pt_nav = Finite 8 0, pt_peak = Finite 10 0,
            pt_drawdown = Finite 2 (- 1), pt_position = Finite 1 0 \<rparr>],
       rt_input_hash = ''i'', rt_artifact_hash = ''a'' \<rparr>"

definition sample_breach :: probe_result where
  "sample_breach = projr (evaluate_probe PT_MAX_DRAWDOWN sample_trace [(''max_drawdown'', ''0.1'')])"

lemma sample_breach_facts:
  "require_semantic_params PT_MAX_DRAWDOWN [(''max_drawdown'', ''0.1'')]"
  "evaluate_probe PT_MAX_DRAWDOWN sample_trace [(''max_drawdown'', ''0.1'')] = Inr sample_breach"
  "pr_outcome sample_breach = PO_BREACH"
  by code_simp+

theorem probe_pass_iff_witness:
  "pr_outcome sample_breach = PO_BREACH \<and>
   \<not> probe_meaning PT_MAX_DRAWDOWN sample_trace [(''max_drawdown'', ''0.1'')]"
  using probe_pass_iff [OF sample_breach_facts(1,2)] sample_breach_facts(3) by simp

end
