(* ===== verification/Engine.thy ===== *)
theory Engine
  imports Decimal28
begin

text \<open>
  \<open>src/redline/engine_adapter/deterministic.py\<close>: reading the scenario bars, the fold that builds a
  replay trace from bars, signals and configuration, and the replay itself. The strategy runs in a
  worker process (\<open>sandbox_worker.py\<close>, whose output is the parameter of type \<open>worker_outcome\<close>); files arrive
  as their outcomes. Signals take effect at the open of the next bar.
\<close>

section \<open>Bounds and costs\<close>

abbreviation nonfinite :: exn where "nonfinite \<equiv> ReplayEngineError RC_NONFINITE_VALUE"

definition require_bounded_decimal :: "pydec \<Rightarrow> rat option \<Rightarrow> exn + unit" where
  "require_bounded_decimal v max_abs =
     (if \<not> is_finite v then Inl nonfinite
      else case max_abs of
             None \<Rightarrow> Inr ()
           | Some m \<Rightarrow> rbind (dabs v) (\<lambda>a. if m < dval a then Inl nonfinite else Inr ()))"

definition MAX_ABS_SIGNAL :: rat where "MAX_ABS_SIGNAL = 1000"
definition MAX_ABS_LEVERAGE :: rat where "MAX_ABS_LEVERAGE = 1000"
definition MAX_ABS_POSITION :: rat where "MAX_ABS_POSITION = 1000"
definition MAX_ABS_NAV :: rat where "MAX_ABS_NAV = 10 ^ 18"
definition MAX_BPS :: rat where "MAX_BPS = 10000"
definition BPS_DENOMINATOR :: pydec where "BPS_DENOMINATOR = Finite 10000 0"

text \<open>\<open>config.get(key, default)\<close> and \<open>str\<close> of it; \<open>None\<close> for a list or an object, whose text starts with
  a bracket and is no number and no fill model.\<close>

type_synonym config = "(string \<times> pyval) list"

fun py_str :: "pyval \<Rightarrow> string option" where
  "py_str (PStr s) = Some s"
| "py_str (PInt i) = Some (int_str i)"
| "py_str (PBool b) = Some (if b then ''True'' else ''False'')"
| "py_str PNone = Some ''None''"
| "py_str (PFloat t) = Some t"
| "py_str _ = None"

definition config_str :: "config \<Rightarrow> string \<Rightarrow> string \<Rightarrow> string option" where
  "config_str c k d = (case map_of c k of None \<Rightarrow> Some d | Some v \<Rightarrow> py_str v)"

definition config_decimal :: "config \<Rightarrow> string \<Rightarrow> string \<Rightarrow> exn + pydec" where
  "config_decimal c k d =
     (case config_str c k d of
        None \<Rightarrow> Inl nonfinite
      | Some s \<Rightarrow> (case parse_decimal s of None \<Rightarrow> Inl nonfinite | Some v \<Rightarrow> Inr v))"

definition read_nonnegative_bps :: "config \<Rightarrow> string \<Rightarrow> exn + pydec" where
  "read_nonnegative_bps c k =
     rbind (config_decimal c k ''0'') (\<lambda>v.
     rbind (require_bounded_decimal v (Some MAX_BPS)) (\<lambda>_.
       if dval v < 0 then Inl nonfinite else Inr v))"

definition require_fill_model :: "config \<Rightarrow> exn + unit" where
  "require_fill_model c =
     (if config_str c ''fill_model'' ''next_bar_open'' \<noteq> Some ''next_bar_open''
      then Inl (ReplayEngineError RC_SCHEMA_INVALID) else Inr ())"

record costs =
  co_leverage :: pydec
  co_fee :: pydec
  co_slippage :: pydec

definition read_costs :: "config \<Rightarrow> exn + costs" where
  "read_costs c =
     rbind (config_decimal c ''leverage'' ''1'') (\<lambda>lev.
     rbind (require_bounded_decimal lev (Some MAX_ABS_LEVERAGE)) (\<lambda>_.
     rbind (read_nonnegative_bps c ''fee_bps'') (\<lambda>fee.
     rbind (read_nonnegative_bps c ''slippage_bps'') (\<lambda>slip.
     rbind (require_fill_model c) (\<lambda>_.
       Inr \<lparr> co_leverage = lev, co_fee = fee, co_slippage = slip \<rparr>)))))"

definition apply_trade_costs :: "costs \<Rightarrow> pydec \<Rightarrow> pydec \<Rightarrow> pydec \<Rightarrow> exn + pydec" where
  "apply_trade_costs k nav from_position to_position =
     rbind (dsub to_position from_position) (\<lambda>diff.
     rbind (dabs diff) (\<lambda>trade_size.
       if dval trade_size = 0 \<or> (dval (co_fee k) = 0 \<and> dval (co_slippage k) = 0) then Inr nav
       else
         rbind (dabs nav) (\<lambda>anav.
         rbind (dmul anav trade_size) (\<lambda>notional.
         rbind (dmul notional (co_fee k)) (\<lambda>f1.
         rbind (ddiv f1 BPS_DENOMINATOR) (\<lambda>fee_cost.
         rbind (dmul notional (co_slippage k)) (\<lambda>s1.
         rbind (dmul s1 trade_size) (\<lambda>s2.
         rbind (ddiv s2 BPS_DENOMINATOR) (\<lambda>slippage_cost.
         rbind (dsub nav fee_cost) (\<lambda>n1. dsub n1 slippage_cost))))))))))"

section \<open>The replay loop\<close>

record engine_state =
  es_nav :: pydec
  es_peak :: pydec
  es_current :: pydec
  es_pending :: pydec
  es_trade_count :: int
  es_previous_close :: pydec

definition initial_state :: "bar \<Rightarrow> engine_state" where
  "initial_state b =
     \<lparr> es_nav = Finite 10000 0, es_peak = Finite 10000 0, es_current = d_zero, es_pending = d_zero,
       es_trade_count = 0, es_previous_close = bar_close b \<rparr>"

text \<open>\<open>nav * (1 + position * ret)\<close>, checked.\<close>

definition grow :: "pydec \<Rightarrow> pydec \<Rightarrow> pydec \<Rightarrow> exn + pydec" where
  "grow nav position ret =
     rbind (dmul position ret) (\<lambda>m.
     rbind (dadd d_one m) (\<lambda>f.
     rbind (dmul nav f) (\<lambda>n.
     rbind (require_bounded_decimal n (Some MAX_ABS_NAV)) (\<lambda>_. Inr n))))"

definition change :: "pydec \<Rightarrow> pydec \<Rightarrow> exn + pydec" where
  "change a b = rbind (dsub b a) (\<lambda>d. ddiv d a)"

text \<open>The part of the loop body for bars after the first: the gap from the previous close is earned by
  the old position, the pending position is filled at the open, and earns the bar's own move.\<close>

definition settle_bar :: "costs \<Rightarrow> bar \<Rightarrow> engine_state \<Rightarrow> exn + engine_state" where
  "settle_bar k b st =
     rbind (change (es_previous_close st) (bar_open b)) (\<lambda>gap_ret.
     rbind (grow (es_nav st) (es_current st) gap_ret) (\<lambda>nav1.
     rbind
       (if dval (es_pending st) \<noteq> dval (es_current st)
        then rbind (apply_trade_costs k nav1 (es_current st) (es_pending st)) (\<lambda>n.
             rbind (require_bounded_decimal n (Some MAX_ABS_NAV)) (\<lambda>_. Inr (n, es_trade_count st + 1)))
        else Inr (nav1, es_trade_count st)) (\<lambda>(nav2, trades).
     rbind (change (bar_open b) (bar_close b)) (\<lambda>intrabar_ret.
     rbind (grow nav2 (es_pending st) intrabar_ret) (\<lambda>nav3.
       Inr (st\<lparr> es_nav := nav3, es_current := es_pending st, es_trade_count := trades \<rparr>))))))"

definition step_bar :: "costs \<Rightarrow> nat \<Rightarrow> bar \<Rightarrow> pydec \<Rightarrow> engine_state \<Rightarrow> exn + (engine_state \<times> replay_point)" where
  "step_bar k index b signal st =
     rbind (require_bounded_decimal signal (Some MAX_ABS_SIGNAL)) (\<lambda>_.
     rbind (dmul signal (co_leverage k)) (\<lambda>desired.
     rbind (require_bounded_decimal desired (Some MAX_ABS_POSITION)) (\<lambda>_.
     rbind (if 0 < index then settle_bar k b st else Inr st) (\<lambda>st1.
       let peak = (if dval (es_peak st1) < dval (es_nav st1) then es_nav st1 else es_peak st1)
       in rbind
            (if dval peak = 0 then Inr d_zero
             else rbind (dsub peak (es_nav st1)) (\<lambda>d. ddiv d peak)) (\<lambda>drawdown.
          rbind (require_bounded_decimal peak (Some MAX_ABS_NAV)) (\<lambda>_.
          rbind (require_bounded_decimal drawdown None) (\<lambda>_.
            Inr (st1\<lparr> es_pending := desired, es_previous_close := bar_close b, es_peak := peak \<rparr>,
                 \<lparr> pt_bar = bar_i b, pt_timestamp = bar_timestamp b, pt_close = bar_close b,
                   pt_nav = es_nav st1, pt_peak = peak, pt_drawdown = drawdown,
                   pt_position = es_current st1 \<rparr>))))))))"

fun run_bars ::
  "costs \<Rightarrow> nat \<Rightarrow> bar list \<Rightarrow> pydec list \<Rightarrow> engine_state \<Rightarrow> exn + (engine_state \<times> replay_point list)" where
  "run_bars k index [] [] st = Inr (st, [])"
| "run_bars k index (b # bs) (s # ss) st =
     rbind (step_bar k index b s st) (\<lambda>(st1, p).
     rbind (run_bars k (Suc index) bs ss st1) (\<lambda>(st2, ps). Inr (st2, p # ps)))"
| "run_bars k index _ _ st = Inl ValueError"

definition trace_fields :: "string \<Rightarrow> string \<Rightarrow> int \<Rightarrow> int \<Rightarrow> replay_point list \<Rightarrow> string \<Rightarrow> pyval" where
  "trace_fields scenario rl n trades pts input_hash =
     PDict [(''scenario_id'', PStr scenario), (''role'', PStr rl), (''engine'', PStr ''deterministic''),
            (''bars'', PInt n), (''trade_count'', PInt trades),
            (''points'', PList (map replay_point_value pts)), (''input_hash'', PStr input_hash)]"

definition build_trace ::
  "(string \<Rightarrow> string) \<Rightarrow> string \<Rightarrow> string \<Rightarrow> bar list \<Rightarrow> config \<Rightarrow> string \<Rightarrow> pydec list \<Rightarrow> exn + replay_trace" where
  "build_trace H scenario rl bars config source signals =
     (case bars of
        [] \<Rightarrow> Inl IndexError
      | b0 # _ \<Rightarrow>
          rbind (read_costs config) (\<lambda>k.
          rbind (run_bars k 0 bars signals (initial_state b0)) (\<lambda>(st, pts).
          rbind (hash_obj H True
                   (PDict [(''bars'', PList (map bar_value bars)), (''config'', PDict config),
                           (''strategy'', PStr source)])) (\<lambda>input_hash.
          rbind (hash_obj H True
                   (trace_fields scenario rl (int (length bars)) (es_trade_count st) pts input_hash))
            (\<lambda>artifact_hash.
              if rl \<notin> {''baseline'', ''candidate''} then Inl ValidationError
              else Inr \<lparr> rt_scenario_id = scenario, rt_role = rl, rt_engine = ''deterministic'',
                         rt_bars = int (length bars), rt_trade_count = es_trade_count st, rt_points = pts,
                         rt_input_hash = input_hash, rt_artifact_hash = artifact_hash \<rparr>)))))"

section \<open>Reading the inputs\<close>

text \<open>A cell of a CSV row: the column is missing, the row is too short (\<open>None\<close>), or its text.\<close>

datatype cell = Col_Missing | Cell_None | Cell string

record csv_row =
  row_timestamp :: cell
  row_open :: cell
  row_high :: cell
  row_low :: cell
  row_close :: cell

fun decimal_cell :: "cell \<Rightarrow> exn + pydec" where
  "decimal_cell Col_Missing = Inl KeyError"
| "decimal_cell Cell_None = Inl TypeError"
| "decimal_cell (Cell s) = (case parse_decimal s of None \<Rightarrow> Inl InvalidOperation | Some d \<Rightarrow> Inr d)"

definition validate_bar :: "bar \<Rightarrow> exn + bar" where
  "validate_bar b =
     (if list_ex (\<lambda>v. \<not> is_finite v \<or> dval v \<le> 0) [bar_open b, bar_high b, bar_low b, bar_close b]
      then Inl ValueError else Inr b)"

definition read_bar :: "int \<Rightarrow> csv_row \<Rightarrow> exn + bar" where
  "read_bar i row =
     (case row_timestamp row of
        Col_Missing \<Rightarrow> Inl KeyError
      | ts \<Rightarrow>
          rbind (decimal_cell (row_open row)) (\<lambda>op.
          rbind (decimal_cell (row_high row)) (\<lambda>hi.
          rbind (decimal_cell (row_low row)) (\<lambda>lo.
          rbind (decimal_cell (row_close row)) (\<lambda>cl.
            case ts of
              Cell t \<Rightarrow> validate_bar \<lparr> bar_i = i, bar_timestamp = t, bar_open = op, bar_high = hi,
                                       bar_low = lo, bar_close = cl \<rparr>
            | _ \<Rightarrow> Inl ValidationError)))))"

fun read_rows :: "int \<Rightarrow> csv_row list \<Rightarrow> exn + bar list" where
  "read_rows i [] = Inr []"
| "read_rows i (r # rs) = rbind (read_bar i r) (\<lambda>b. rbind (read_rows (i + 1) rs) (\<lambda>bs. Inr (b # bs)))"

definition read_bars :: "(exn + csv_row list) \<Rightarrow> exn + bar list" where
  "read_bars file =
     rbind file (\<lambda>rows. rbind (read_rows 0 rows) (\<lambda>bs. if bs = [] then Inl ValueError else Inr bs))"

datatype config_file = Config_Missing | Config_Error exn | Config_Json pyval

text \<open>\<open>_read_config\<close>, and \<open>{**config, **replay_config}\<close>; a configuration that is not an object has no
  \<open>get\<close> and cannot be unpacked.\<close>

definition read_config :: "config_file \<Rightarrow> config option \<Rightarrow> exn + pyval" where
  "read_config f replay_config =
     rbind (case f of Config_Missing \<Rightarrow> Inr (PDict []) | Config_Error e \<Rightarrow> Inl e | Config_Json v \<Rightarrow> Inr v)
       (\<lambda>v. case replay_config of
              None \<Rightarrow> Inr v
            | Some rc \<Rightarrow>
                (case v of
                   PDict kvs \<Rightarrow> Inr (PDict (filter (\<lambda>(k, _). k \<notin> set (map fst rc)) kvs @ rc))
                 | _ \<Rightarrow> Inl TypeError))"

text \<open>The worker's answer. \<open>None\<close> for the signals is a missing key.\<close>

record worker_payload =
  wp_ok :: bool
  wp_reason :: "string option"
  wp_signals :: "pyval list option"

datatype worker_outcome =
    Worker_Timeout
  | Worker_Failed bool
  | Worker_Bad_Json
  | Worker_Payload worker_payload

definition read_signal :: "pyval \<Rightarrow> exn + pydec" where
  "read_signal v =
     (case py_str v of
        None \<Rightarrow> Inl InvalidOperation
      | Some s \<Rightarrow> (case parse_decimal s of None \<Rightarrow> Inl InvalidOperation | Some d \<Rightarrow> Inr d))"

text \<open>The error of \<open>replay\<close> for an exception of its first \<open>try\<close> block and of the last one.\<close>

definition missing_data :: "exn \<Rightarrow> exn" where
  "missing_data e =
     (if is_os_error e \<or> e = KeyError \<or> is_value_error e then ReplayEngineError RC_DATA_MISSING else e)"

definition numeric_error :: "exn \<Rightarrow> exn" where
  "numeric_error e =
     (case e of CanonicalizationError _ \<Rightarrow> nonfinite | InvalidOperation \<Rightarrow> nonfinite | DivisionByZero \<Rightarrow> nonfinite
      | _ \<Rightarrow> e)"

definition map_exn :: "(exn \<Rightarrow> exn) \<Rightarrow> exn + 'a \<Rightarrow> exn + 'a" where
  "map_exn f m = (case m of Inl e \<Rightarrow> Inl (f e) | Inr x \<Rightarrow> Inr x)"

text \<open>\<open>retry\<close> is the outcome of the second run, without the OS sandbox, that a denied
  \<open>sandbox_apply\<close> leads to.\<close>

definition worker_signals :: "worker_outcome \<Rightarrow> worker_outcome \<Rightarrow> exn + pydec list" where
  "worker_signals first retry =
     (let w = (if first = Worker_Failed True then retry else first)
      in case w of
           Worker_Timeout \<Rightarrow> Inl (ReplayEngineError RC_ENGINE_FAILURE)
         | Worker_Failed _ \<Rightarrow> Inl (ReplayEngineError RC_ENGINE_FAILURE)
         | Worker_Bad_Json \<Rightarrow> Inl (ReplayEngineError RC_PARSE_ERROR)
         | Worker_Payload p \<Rightarrow>
             (if \<not> wp_ok p
              then (case reason_of (case wp_reason p of None \<Rightarrow> reason_value RC_ENGINE_FAILURE | Some r \<Rightarrow> r) of
                      None \<Rightarrow> Inl ValueError
                    | Some r \<Rightarrow> Inl (ReplayEngineError r))
              else (case wp_signals p of
                      None \<Rightarrow> Inl (ReplayEngineError RC_SCHEMA_INVALID)
                    | Some vs \<Rightarrow> map_exn (\<lambda>_. ReplayEngineError RC_SCHEMA_INVALID) (traverse read_signal vs))))"

definition replay ::
  "(string \<Rightarrow> string) \<Rightarrow> string \<Rightarrow> string \<Rightarrow> (exn + csv_row list) \<Rightarrow> config_file \<Rightarrow> config option \<Rightarrow>
   (exn + string) \<Rightarrow> worker_outcome \<Rightarrow> worker_outcome \<Rightarrow> exn + replay_trace" where
  "replay H scenario rl rows config_json replay_config source first retry =
     rbind (map_exn missing_data (read_bars rows)) (\<lambda>bars.
     rbind (map_exn missing_data (read_config config_json replay_config)) (\<lambda>config.
     rbind (map_exn missing_data source) (\<lambda>src.
     rbind (worker_signals first retry) (\<lambda>signals.
       if length signals \<noteq> length bars then Inl (ReplayEngineError RC_SCHEMA_INVALID)
       else (case config of
               PDict kvs \<Rightarrow> map_exn numeric_error (build_trace H scenario rl bars kvs src signals)
             | _ \<Rightarrow> Inl (ReplayEngineError RC_NONFINITE_VALUE))))))"


section \<open>One step\<close>

lemma settle_bar_Inr:
  "settle_bar k b st = Inr st1 \<Longrightarrow>
   es_current st1 = es_pending st \<and> es_peak st1 = es_peak st \<and> es_pending st1 = es_pending st"
  by (auto simp: settle_bar_def rbind_Inr_iff)

lemma step_bar_Inr:
  assumes "step_bar k index b s st = Inr (st', p)"
  obtains st1 where "(if 0 < index then settle_bar k b st else Inr st) = Inr st1"
    "es_pending st' = rnd28 (dval s * dval (co_leverage k))"
    "es_current st' = es_current st1" "es_nav st' = es_nav st1" "es_trade_count st' = es_trade_count st1"
    "es_peak st' = (if dval (es_peak st1) < dval (es_nav st1) then es_nav st1 else es_peak st1)"
    "pt_position p = es_current st1" "pt_nav p = es_nav st1" "pt_peak p = es_peak st'"
    "(if dval (pt_peak p) = 0 then Inr d_zero else rbind (dsub (pt_peak p) (pt_nav p)) (\<lambda>d. ddiv d (pt_peak p)))
       = Inr (pt_drawdown p)"
proof -
  from assms obtain desired st1 where d: "dmul s (co_leverage k) = Inr desired"
    and s1: "(if 0 < index then settle_bar k b st else Inr st) = Inr st1"
    and rest: "step_bar k index b s st = Inr (st', p)"
    by (auto simp: step_bar_def rbind_Inr_iff)
  from d have "desired = rnd28 (dval s * dval (co_leverage k))" by (auto simp: dmul_def dest: dop_Inr)
  with rest d s1 show thesis
    by (intro that [of st1]) (auto simp: step_bar_def rbind_Inr_iff Let_def)
qed

text \<open>The point of a bar does not depend on the bar's own signal.\<close>

lemma step_bar_point:
  "step_bar k index b s st = Inr (st1, p) \<Longrightarrow> step_bar k index b s' st = Inr (st1', p') \<Longrightarrow> p = p'"
  by (auto simp: step_bar_def rbind_Inr_iff Let_def)

lemma run_bars_length:
  "run_bars k index bs ss st = Inr (st', pts) \<Longrightarrow> length pts = length bs \<and> length ss = length bs"
  by (induction k index bs ss st arbitrary: st' pts rule: run_bars.induct) (fastforce simp: rbind_Inr_iff)+

section \<open>Properties of a run\<close>

lemma run_positions:
  "run_bars k index bs ss st = Inr (st', pts) \<Longrightarrow> j < length bs \<Longrightarrow>
   pt_position (pts ! j) =
     (if j = 0 then (if 0 < index then es_pending st else es_current st)
      else rnd28 (dval (ss ! (j - 1)) * dval (co_leverage k)))"
proof (induction k index bs ss st arbitrary: st' pts j rule: run_bars.induct)
  case (2 k index b bs s ss st)
  from "2.prems"(1) obtain st1 p ps where step: "step_bar k index b s st = Inr (st1, p)"
    and run: "run_bars k (Suc index) bs ss st1 = Inr (st', ps)" and pts: "pts = p # ps"
    by (auto simp: rbind_Inr_iff)
  from step_bar_Inr [OF step] obtain st0 where st0: "(if 0 < index then settle_bar k b st else Inr st) = Inr st0"
    "es_pending st1 = rnd28 (dval s * dval (co_leverage k))" "pt_position p = es_current st0" .
  show ?case
  proof (cases j)
    case 0
    with st0 pts settle_bar_Inr show ?thesis by (auto split: if_splits)
  next
    case (Suc i)
    then have "i < length bs" using "2.prems"(2) by simp
    from "2.IH" [OF step refl run this] show ?thesis
      using Suc pts st0(2) by (cases i) simp_all
  qed
qed simp_all

lemma run_no_lookahead:
  "run_bars k index bs ss st = Inr (r, pts) \<Longrightarrow> run_bars k index bs' ss' st = Inr (r', pts') \<Longrightarrow>
   take (Suc n) bs = take (Suc n) bs' \<Longrightarrow> take n ss = take n ss' \<Longrightarrow>
   take (Suc n) pts = take (Suc n) pts'"
proof (induction k index bs ss st arbitrary: n bs' ss' r r' pts pts' rule: run_bars.induct)
  case (1 k index st)
  then show ?case by (cases bs'; cases ss') auto
next
  case (2 k index b bs s ss st)
  from "2.prems"(1) obtain st1 p ps where step: "step_bar k index b s st = Inr (st1, p)"
    and run: "run_bars k (Suc index) bs ss st1 = Inr (r, ps)" and pts: "pts = p # ps"
    by (auto simp: rbind_Inr_iff)
  from "2.prems"(3) obtain c where c: "bs' = b # c" "take n bs = take n c" by (cases bs') auto
  with "2.prems"(2) obtain s' t where ss': "ss' = s' # t" by (cases ss') auto
  from "2.prems"(2) c ss' obtain st1' p' ps' where step': "step_bar k index b s' st = Inr (st1', p')"
    and run': "run_bars k (Suc index) c t st1' = Inr (r', ps')" and pts': "pts' = p' # ps'"
    by (auto simp: rbind_Inr_iff)
  have p: "p = p'" by (rule step_bar_point [OF step step'])
  show ?case
  proof (cases n)
    case (Suc m)
    with "2.prems"(4) ss' have "s = s'" "take m ss = take m t" by auto
    with step step' have "st1 = st1'" by simp
    with "2.IH" [OF step refl run _ _ \<open>take m ss = take m t\<close>] run' c Suc show ?thesis
      using p pts pts' by simp
  qed (use p pts pts' in simp)
qed simp_all

definition point_ok :: "replay_point \<Rightarrow> bool" where
  "point_ok p = (dval (pt_nav p) \<le> dval (pt_peak p) \<and> 0 < dval (pt_peak p) \<and> 0 \<le> dval (pt_drawdown p))"

lemma step_point_ok:
  assumes "step_bar k index b s st = Inr (st', p)" "0 < dval (es_peak st)"
  shows "point_ok p \<and> 0 < dval (es_peak st') \<and>
    dval (es_peak st') = max (dval (es_peak st)) (dval (pt_nav p)) \<and> pt_peak p = es_peak st'"
proof -
  from step_bar_Inr [OF assms(1)] obtain st1 where st1: "(if 0 < index then settle_bar k b st else Inr st) = Inr st1"
    and peak: "es_peak st' = (if dval (es_peak st1) < dval (es_nav st1) then es_nav st1 else es_peak st1)"
    and p: "pt_nav p = es_nav st1" "pt_peak p = es_peak st'"
    and dd: "(if dval (pt_peak p) = 0 then Inr d_zero
       else rbind (dsub (pt_peak p) (pt_nav p)) (\<lambda>d. ddiv d (pt_peak p))) = Inr (pt_drawdown p)" .
  have same: "es_peak st1 = es_peak st" using st1 settle_bar_Inr by (auto split: if_splits)
  have mx: "dval (es_peak st') = max (dval (es_peak st)) (dval (pt_nav p))" using peak same p by auto
  then have pos: "0 < dval (es_peak st')" and le: "dval (pt_nav p) \<le> dval (pt_peak p)" using assms(2) p by auto
  from dd pos p(2) obtain d where d: "dop (dval (pt_peak p) - dval (pt_nav p)) = Inr d"
    "dop (dval d / dval (pt_peak p)) = Inr (pt_drawdown p)"
    by (auto simp: rbind_Inr_iff dsub_def ddiv_def split: if_splits)
  have "0 \<le> dval d" using dop_nonneg [OF d(1)] le by simp
  with dop_nonneg [OF d(2)] pos p(2) have "0 \<le> dval (pt_drawdown p)" by simp
  with pos le mx p(2) show ?thesis by (simp add: point_ok_def)
qed

lemma run_points_ok:
  "run_bars k index bs ss st = Inr (st', pts) \<Longrightarrow> 0 < dval (es_peak st) \<Longrightarrow> j < length pts \<Longrightarrow>
   point_ok (pts ! j) \<and>
   dval (pt_peak (pts ! j)) = fold max (map (\<lambda>p. dval (pt_nav p)) (take (Suc j) pts)) (dval (es_peak st))"
proof (induction k index bs ss st arbitrary: st' pts j rule: run_bars.induct)
  case (2 k index b bs s ss st)
  from "2.prems"(1) obtain st1 p ps where step: "step_bar k index b s st = Inr (st1, p)"
    and run: "run_bars k (Suc index) bs ss st1 = Inr (st', ps)" and pts: "pts = p # ps"
    by (auto simp: rbind_Inr_iff)
  note ok = step_point_ok [OF step "2.prems"(2)]
  show ?case
  proof (cases j)
    case 0
    with ok pts show ?thesis by (simp add: max.commute)
  next
    case (Suc i)
    with "2.prems"(3) pts have "i < length ps" by simp
    from "2.IH" [OF step refl run _ this] ok show ?thesis using Suc pts by (simp add: max.commute)
  qed
qed simp_all

text \<open>A strategy that never asks for a position.\<close>



lemma grow_flat:
  "grow nav position ret = Inr n \<Longrightarrow> dval nav = 10000 \<Longrightarrow> dval position = 0 \<Longrightarrow> dval n = 10000"
proof -
  assume g: "grow nav position ret = Inr n" and v: "dval nav = 10000" "dval position = 0"
  have "dmul position ret = Inr d_zero" using v by (simp add: dmul_def dop_zero)
  moreover have "dadd d_one d_zero = Inr d_one"
    by (simp add: dadd_def dop_of_int [of _ 1] pow10_def)
  moreover have "dmul nav d_one = Inr (Finite 10000 0)"
    by (simp add: dmul_def v dop_of_int [of _ 10000] pow10_def)
  ultimately have "n = Finite 10000 0" using g by (auto simp: grow_def rbind_Inr_iff)
  then show ?thesis by (simp add: pow10_def)
qed

definition flat :: "engine_state \<Rightarrow> bool" where
  "flat st = (dval (es_nav st) = 10000 \<and> dval (es_peak st) = 10000 \<and> dval (es_current st) = 0 \<and>
              dval (es_pending st) = 0 \<and> es_trade_count st = 0)"

lemma step_flat:
  assumes "step_bar k index b s st = Inr (st', p)" "flat st" "dval s = 0"
  shows "flat st' \<and> dval (pt_nav p) = 10000 \<and> dval (pt_drawdown p) = 0 \<and> dval (pt_position p) = 0"
proof -
  from step_bar_Inr [OF assms(1)] obtain st1 where st1: "(if 0 < index then settle_bar k b st else Inr st) = Inr st1"
    and pend: "es_pending st' = rnd28 (dval s * dval (co_leverage k))"
    and cur: "es_current st' = es_current st1" "es_nav st' = es_nav st1" "es_trade_count st' = es_trade_count st1"
    and peak: "es_peak st' = (if dval (es_peak st1) < dval (es_nav st1) then es_nav st1 else es_peak st1)"
    and p: "pt_position p = es_current st1" "pt_nav p = es_nav st1" "pt_peak p = es_peak st'"
    and dd: "(if dval (pt_peak p) = 0 then Inr d_zero
       else rbind (dsub (pt_peak p) (pt_nav p)) (\<lambda>d. ddiv d (pt_peak p))) = Inr (pt_drawdown p)" .
  have fl: "dval (es_nav st1) = 10000 \<and> dval (es_peak st1) = 10000 \<and> dval (es_current st1) = 0 \<and> es_trade_count st1 = 0"
  proof (cases "0 < index")
    case True
    with st1 assms(2) show ?thesis
      by (auto simp: settle_bar_def rbind_Inr_iff flat_def dest!: grow_flat)
  qed (use st1 assms(2) in \<open>simp add: flat_def\<close>)
  then have pk: "dval (es_peak st') = 10000" using peak by simp
  have "dval (es_pending st') = 0" using pend assms(3) by (simp add: rnd28_def)
  moreover have "pt_drawdown p = d_zero"
    using dd p fl pk by (auto simp: rbind_Inr_iff dsub_def ddiv_def dop_zero)
  ultimately show ?thesis using fl pk cur p by (simp add: flat_def)
qed

lemma run_flat:
  "run_bars k index bs ss st = Inr (st', pts) \<Longrightarrow> flat st \<Longrightarrow> (\<And>s. s \<in> set ss \<Longrightarrow> dval s = 0) \<Longrightarrow>
   flat st' \<and> (\<forall>p \<in> set pts. dval (pt_nav p) = 10000 \<and> dval (pt_drawdown p) = 0 \<and> dval (pt_position p) = 0)"
proof (induction k index bs ss st arbitrary: st' pts rule: run_bars.induct)
  case (2 k index b bs s ss st)
  from "2.prems"(1) obtain st1 p ps where step: "step_bar k index b s st = Inr (st1, p)"
    and run: "run_bars k (Suc index) bs ss st1 = Inr (st', ps)" and pts: "pts = p # ps"
    by (auto simp: rbind_Inr_iff)
  from step_flat [OF step "2.prems"(2)] "2.prems"(3) have "flat st1" "dval (pt_nav p) = 10000"
    "dval (pt_drawdown p) = 0" "dval (pt_position p) = 0" by auto
  with "2.IH" [OF step refl run] "2.prems"(3) pts show ?case by auto
qed auto


section \<open>Properties of a trace\<close>

lemma build_trace_Inr:
  assumes "build_trace H sc rl bars config src signals = Inr t"
  obtains k st where "read_costs config = Inr k" "bars \<noteq> []"
    "run_bars k 0 bars signals (initial_state (hd bars)) = Inr (st, rt_points t)"
    "rt_trade_count t = es_trade_count st"
  using assms by (cases bars) (auto simp: build_trace_def rbind_Inr_iff split: if_splits)

text \<open>In every trace the position held during a bar is the signal of the bar before times the
  leverage (rounded to 28 digits), and the first bar is flat: signals are filled at the next bar's
  open.\<close>

theorem next_bar_fill:
  assumes "build_trace H sc rl bars config src signals = Inr t" "read_costs config = Inr k" "j < length bars"
  shows "length (rt_points t) = length bars \<and>
    pt_position (rt_points t ! j) =
      (if j = 0 then d_zero else rnd28 (dval (signals ! (j - 1)) * dval (co_leverage k)))"
proof -
  from build_trace_Inr [OF assms(1)] assms(2) obtain st where
    run: "run_bars k 0 bars signals (initial_state (hd bars)) = Inr (st, rt_points t)" by auto
  from run_positions [OF run assms(3)] run_bars_length [OF run] show ?thesis
    by (simp add: initial_state_def)
qed

text \<open>C13: no lookahead: the points of a trace up to a bar depend on the bars up to that bar and on the
  signals of the earlier bars only. Two runs that agree on them have the same points there, whatever
  the later data and the strategy's signal at the bar itself.\<close>

theorem no_lookahead:
  assumes "build_trace H sc rl bars config src signals = Inr t"
    and "build_trace H sc' rl' bars' config src' signals' = Inr t'"
    and "take (Suc n) bars = take (Suc n) bars'" "take n signals = take n signals'"
  shows "take (Suc n) (rt_points t) = take (Suc n) (rt_points t')"
proof -
  from build_trace_Inr [OF assms(1)] obtain k st where k: "read_costs config = Inr k" "bars \<noteq> []"
    and run: "run_bars k 0 bars signals (initial_state (hd bars)) = Inr (st, rt_points t)" by blast
  from build_trace_Inr [OF assms(2)] k(1) obtain st' where ne: "bars' \<noteq> []"
    and run': "run_bars k 0 bars' signals' (initial_state (hd bars')) = Inr (st', rt_points t')" by auto
  have "hd bars = hd bars'" using assms(3) k(2) ne by (cases bars; cases bars') auto
  with run run' run_no_lookahead [OF _ _ assms(3,4)] show ?thesis by metis
qed


text \<open>A strategy whose signals are all zero trades never and keeps its 10000 at every bar, whatever
  the prices, fees and slippage.\<close>

theorem zero_signals_keep_nav:
  assumes "build_trace H sc rl bars config src signals = Inr t" "list_all (\<lambda>s. dval s = 0) signals"
  shows "rt_trade_count t = 0 \<and>
    list_all (\<lambda>p. dval (pt_nav p) = 10000 \<and> dval (pt_drawdown p) = 0 \<and> dval (pt_position p) = 0) (rt_points t)"
proof -
  from build_trace_Inr [OF assms(1)] obtain k st where
    run: "run_bars k 0 bars signals (initial_state (hd bars)) = Inr (st, rt_points t)"
    and tc: "rt_trade_count t = es_trade_count st" by blast
  have "flat (initial_state (hd bars))" by (simp add: flat_def initial_state_def pow10_def)
  from run_flat [OF run this] assms(2) tc show ?thesis by (auto simp: list_all_iff flat_def)
qed

section \<open>Witnesses\<close>

definition sample_bar :: "int \<Rightarrow> int \<Rightarrow> int \<Rightarrow> bar" where
  "sample_bar i op cl =
     \<lparr> bar_i = i, bar_timestamp = nat_str (nat i), bar_open = Finite op 0, bar_high = Finite 200 0,
       bar_low = Finite 1 0, bar_close = Finite cl 0 \<rparr>"

definition sample_bars :: "bar list" where
  "sample_bars = [sample_bar 0 1 1, sample_bar 1 1 2, sample_bar 2 2 1]"

definition sample_run :: "pydec list \<Rightarrow> replay_trace" where
  "sample_run signals = projr (build_trace id ''s'' ''candidate'' sample_bars [] ''src'' signals)"

lemma sample_costs: "read_costs [] = Inr \<lparr> co_leverage = d_one, co_fee = d_zero, co_slippage = d_zero \<rparr>"
  by code_simp

text \<open>A run over plain inputs and points yields a trace.\<close>

lemma build_trace_total:
  assumes "bars \<noteq> []" "read_costs config = Inr k" "rl \<in> {''baseline'', ''candidate''}"
    and run: "run_bars k 0 bars signals (initial_state (hd bars)) = Inr (st, pts)"
    and plain: "list_all (\<lambda>b. plain (bar_value b)) bars" "plain (PDict config)"
      "list_all (\<lambda>p. plain (replay_point_value p)) pts"
  shows "\<exists>t. build_trace H sc rl bars config src signals = Inr t"
proof -
  have "plain (PDict [(''bars'', PList (map bar_value bars)), (''config'', PDict config), (''strategy'', PStr src)])"
    using plain by (simp add: list_all_iff)
  from plain_hashes [OF this] obtain ih where ih: "hash_obj H True
      (PDict [(''bars'', PList (map bar_value bars)), (''config'', PDict config), (''strategy'', PStr src)]) = Inr ih"
    by blast
  have "plain (trace_fields sc rl (int (length bars)) (es_trade_count st) pts ih)"
    using plain by (simp add: trace_fields_def list_all_iff)
  from plain_hashes [OF this] obtain ah where
    "hash_obj H True (trace_fields sc rl (int (length bars)) (es_trade_count st) pts ih) = Inr ah" by blast
  with assms ih show ?thesis by (cases bars) (auto simp: build_trace_def)
qed

definition sample_run_plain :: "pydec list \<Rightarrow> bool" where
  "sample_run_plain signals =
     (case run_bars \<lparr> co_leverage = d_one, co_fee = d_zero, co_slippage = d_zero \<rparr> 0 sample_bars signals
              (initial_state (hd sample_bars)) of
        Inl e \<Rightarrow> False
      | Inr (st, pts) \<Rightarrow> list_all (\<lambda>p. plain (replay_point_value p)) pts)"

lemma sample_bars_plain: "list_all (\<lambda>b. plain (bar_value b)) sample_bars" "sample_bars \<noteq> []"
  by code_simp+

lemma sample_points_ok:
  assumes "sample_run_plain signals"
  shows "build_trace id ''s'' ''candidate'' sample_bars [] ''src'' signals = Inr (sample_run signals)"
proof -
  from assms obtain st pts where
    "run_bars \<lparr> co_leverage = d_one, co_fee = d_zero, co_slippage = d_zero \<rparr> 0 sample_bars signals
       (initial_state (hd sample_bars)) = Inr (st, pts)"
    "list_all (\<lambda>p. plain (replay_point_value p)) pts"
    by (auto simp: sample_run_plain_def split: sum.splits)
  from build_trace_total [OF sample_bars_plain(2) sample_costs _ this(1) sample_bars_plain(1) _ this(2)]
  have "\<exists>t. build_trace id ''s'' ''candidate'' sample_bars [] ''src'' signals = Inr t" by simp
  then show ?thesis by (auto simp: sample_run_def)
qed

lemma sample_run_plain_1: "sample_run_plain [d_one, d_zero, d_zero]"
  by code_simp

lemma sample_run_plain_2: "sample_run_plain [d_one, d_one, d_zero]"
  by code_simp

lemma sample_run_plain_3: "sample_run_plain [d_zero, d_zero, d_zero]"
  by code_simp

lemmas sample_run_ok = sample_points_ok [OF sample_run_plain_1] sample_points_ok [OF sample_run_plain_2]
  sample_points_ok [OF sample_run_plain_3]

lemma build_trace_length:
  "build_trace H sc rl bars config src signals = Inr t \<Longrightarrow> length (rt_points t) = length bars"
  using run_bars_length by (metis build_trace_Inr)

lemma sample_run_length: "length (rt_points (sample_run [d_one, d_zero, d_zero])) = 3"
  using build_trace_length [OF sample_run_ok(1)] by (simp add: sample_bars_def)

theorem next_bar_fill_witness:
  "pt_position (rt_points (sample_run [d_one, d_zero, d_zero]) ! 1) = rnd28 1"
proof -
  have "(1::nat) < length sample_bars" by (simp add: sample_bars_def)
  from next_bar_fill [OF sample_run_ok(1) sample_costs this] show ?thesis by (simp add: pow10_def)
qed

theorem no_lookahead_witness:
  "take 2 (rt_points (sample_run [d_one, d_zero, d_zero])) = take 2 (rt_points (sample_run [d_one, d_one, d_zero]))"
  using no_lookahead [OF sample_run_ok(1,2), of 1] by (simp add: numeral_2_eq_2)


theorem zero_signals_keep_nav_witness:
  "rt_trade_count (sample_run [d_zero, d_zero, d_zero]) = 0"
  using zero_signals_keep_nav [OF sample_run_ok(3)] by simp

end
