(* ===== verification/Service_Models.thy ===== *)
theory Service_Models
  imports Models
begin

text \<open>
  The data of the release service, \<open>src/redline/service/models.py\<close>: its string enumerations with
  their values, and the records of packages, strategy versions, runs, release candidates, jobs and
  job events. A \<open>dict[str, Any]\<close> is an association list of \<open>pyval\<close>s with distinct keys; the
  helpers below are Python's truth value, \<open>dict.get\<close>, \<open>isinstance(x, dict)\<close> and the update
  \<open>{**d, k: v}\<close> on such dictionaries.
\<close>

section \<open>Dictionaries and truth values\<close>

type_synonym dict = "(string \<times> pyval) list"

fun truthy :: "pyval \<Rightarrow> bool" where
  "truthy PNone = False"
| "truthy (PBool b) = b"
| "truthy (PInt i) = (i \<noteq> 0)"
| "truthy (PStr s) = (s \<noteq> [])"
| "truthy (PDec d) = (case d of Finite c e \<Rightarrow> c \<noteq> 0 | _ \<Rightarrow> True)"
| "truthy (PFloat s) = (s \<notin> {''0.0'', ''-0.0''})"
| "truthy (PEnum s) = (s \<noteq> [])"
| "truthy (PPath s) = True"
| "truthy (PList xs) = (xs \<noteq> [])"
| "truthy (PDict kvs) = (kvs \<noteq> [])"
| "truthy (PModel kvs) = True"
| "truthy POther = True"

definition get :: "dict \<Rightarrow> string \<Rightarrow> pyval" where
  "get d k = (case map_of d k of None \<Rightarrow> PNone | Some v \<Rightarrow> v)"

definition get_default :: "dict \<Rightarrow> string \<Rightarrow> pyval \<Rightarrow> pyval" where
  "get_default d k v = (case map_of d k of None \<Rightarrow> v | Some x \<Rightarrow> x)"

text \<open>\<open>{**d, k: v}\<close> keeps the position of a key that is there already.\<close>

fun put :: "dict \<Rightarrow> string \<Rightarrow> pyval \<Rightarrow> dict" where
  "put [] k v = [(k, v)]"
| "put ((k', w) # d) k v = (if k' = k then (k, v) # d else (k', w) # put d k v)"

lemma map_of_put [simp]: "map_of (put d k v) = (map_of d)(k \<mapsto> v)"
  by (induction d k v rule: put.induct) auto

lemma get_put [simp]: "get (put d k v) k' = (if k' = k then v else get d k')"
  by (simp add: get_def)

fun as_dict :: "pyval \<Rightarrow> dict option" where
  "as_dict (PDict kvs) = Some kvs"
| "as_dict _ = None"

fun as_text :: "pyval \<Rightarrow> string option" where
  "as_text (PStr s) = Some s"
| "as_text (PEnum s) = Some s"
| "as_text _ = None"

definition nonempty :: "string option \<Rightarrow> bool" where
  "nonempty x = (case x of None \<Rightarrow> False | Some s \<Rightarrow> s \<noteq> [])"

lemma nonempty_iff [simp]: "nonempty x \<longleftrightarrow> (\<exists>s. x = Some s \<and> s \<noteq> [])"
  by (auto simp: nonempty_def split: option.splits)

text \<open>\<open>_nonempty_text\<close>.\<close>

definition nonempty_text :: "pyval \<Rightarrow> string option" where
  "nonempty_text v =
     (case as_text v of None \<Rightarrow> None | Some s \<Rightarrow> if strip s = [] then None else Some (strip s))"

section \<open>Enumerations\<close>

datatype run_state = Run_QUEUED | Run_RUNNING | Run_PASS | Run_FAIL | Run_AMBER | Run_ERROR

fun run_state_value :: "run_state \<Rightarrow> string" where
  "run_state_value Run_QUEUED = ''queued''"
| "run_state_value Run_RUNNING = ''running''"
| "run_state_value Run_PASS = ''pass''"
| "run_state_value Run_FAIL = ''fail''"
| "run_state_value Run_AMBER = ''amber''"
| "run_state_value Run_ERROR = ''error''"

lemma run_state_value_inj [simp]: "run_state_value x = run_state_value y \<longleftrightarrow> x = y"
  by (cases x; cases y) simp_all

datatype source_kind = Src_UPLOAD | Src_LOCAL | Src_FIXTURE | Src_IMPORTED

fun source_kind_value :: "source_kind \<Rightarrow> string" where
  "source_kind_value Src_UPLOAD = ''upload''"
| "source_kind_value Src_LOCAL = ''local''"
| "source_kind_value Src_FIXTURE = ''fixture''"
| "source_kind_value Src_IMPORTED = ''imported''"

datatype release_state =
    Rel_DRAFT
  | Rel_REDLINE_RUNNING
  | Rel_REDLINE_PASSED
  | Rel_EVIDENCE_COLLECTING
  | Rel_REVIEW_REQUIRED
  | Rel_APPROVED
  | Rel_DEMO_EXECUTED
  | Rel_RELEASE_READY
  | Rel_RELEASED_DEMO
  | Rel_RELEASED_LIVE_GATED
  | Rel_REJECTED
  | Rel_KILLED
  | Rel_BLOCKED_WITHHELD
  | Rel_BLOCKED_UNVERIFIED
  | Rel_BLOCKED_MISSING_EVIDENCE
  | Rel_BLOCKED_RISK_POLICY
  | Rel_BLOCKED_APPROVAL
  | Rel_BLOCKED_EXCHANGE_ERROR

fun release_state_value :: "release_state \<Rightarrow> string" where
  "release_state_value Rel_DRAFT = ''draft''"
| "release_state_value Rel_REDLINE_RUNNING = ''redline_running''"
| "release_state_value Rel_REDLINE_PASSED = ''redline_passed''"
| "release_state_value Rel_EVIDENCE_COLLECTING = ''evidence_collecting''"
| "release_state_value Rel_REVIEW_REQUIRED = ''review_required''"
| "release_state_value Rel_APPROVED = ''approved''"
| "release_state_value Rel_DEMO_EXECUTED = ''demo_executed''"
| "release_state_value Rel_RELEASE_READY = ''release_ready''"
| "release_state_value Rel_RELEASED_DEMO = ''released_demo''"
| "release_state_value Rel_RELEASED_LIVE_GATED = ''released_live_gated''"
| "release_state_value Rel_REJECTED = ''rejected''"
| "release_state_value Rel_KILLED = ''killed''"
| "release_state_value Rel_BLOCKED_WITHHELD = ''blocked_withheld''"
| "release_state_value Rel_BLOCKED_UNVERIFIED = ''blocked_unverified''"
| "release_state_value Rel_BLOCKED_MISSING_EVIDENCE = ''blocked_missing_evidence''"
| "release_state_value Rel_BLOCKED_RISK_POLICY = ''blocked_risk_policy''"
| "release_state_value Rel_BLOCKED_APPROVAL = ''blocked_approval''"
| "release_state_value Rel_BLOCKED_EXCHANGE_ERROR = ''blocked_exchange_error''"

datatype release_tier = RTier_L0 | RTier_L1 | RTier_L2

fun release_tier_value :: "release_tier \<Rightarrow> string" where
  "release_tier_value RTier_L0 = ''L0''"
| "release_tier_value RTier_L1 = ''L1''"
| "release_tier_value RTier_L2 = ''L2''"

datatype simulation_source = Sim_GETAGENT_STUDIO | Sim_LOCAL_BACKTEST | Sim_MANUAL_IMPORT

fun simulation_source_value :: "simulation_source \<Rightarrow> string" where
  "simulation_source_value Sim_GETAGENT_STUDIO = ''getagent_studio''"
| "simulation_source_value Sim_LOCAL_BACKTEST = ''local_backtest''"
| "simulation_source_value Sim_MANUAL_IMPORT = ''manual_import''"

datatype job_status = Job_QUEUED | Job_RUNNING | Job_SUCCEEDED | Job_FAILED | Job_CANCELLED

fun job_status_value :: "job_status \<Rightarrow> string" where
  "job_status_value Job_QUEUED = ''queued''"
| "job_status_value Job_RUNNING = ''running''"
| "job_status_value Job_SUCCEEDED = ''succeeded''"
| "job_status_value Job_FAILED = ''failed''"
| "job_status_value Job_CANCELLED = ''cancelled''"

datatype job_type = Job_CANONICAL_EXECUTE_DEMO | Job_EXCHANGE_PREFLIGHT | Job_RECONCILIATION | Job_SHOWCASE_ORDER

fun job_type_value :: "job_type \<Rightarrow> string" where
  "job_type_value Job_CANONICAL_EXECUTE_DEMO = ''canonical_execute_demo''"
| "job_type_value Job_EXCHANGE_PREFLIGHT = ''exchange_preflight''"
| "job_type_value Job_RECONCILIATION = ''reconciliation''"
| "job_type_value Job_SHOWCASE_ORDER = ''showcase_order''"

section \<open>Packages, strategy versions and runs\<close>

record package_response =
  pk_package_id :: string
  pk_path :: string
  pk_identity_hash :: string
  pk_identity_lock_hash :: string
  pk_files :: "string list"
  pk_created_at :: string

record strategy_version_create_request =
  svc_version_id :: string
  svc_strategy_id :: string
  svc_package_id :: "string option"
  svc_package_path :: "string option"
  svc_package_hash :: "string option"
  svc_identity_lock_hash :: "string option"
  svc_source_kind :: source_kind
  svc_metadata :: dict
  svc_created_by :: string

record strategy_version =
  sv_version_id :: string
  sv_strategy_id :: string
  sv_package_id :: "string option"
  sv_package_path :: "string option"
  sv_package_hash :: string
  sv_identity_lock_hash :: "string option"
  sv_source_kind :: source_kind
  sv_metadata :: dict
  sv_created_by :: string
  sv_created_at :: string
  sv_updated_at :: string

record run_create_request =
  rq_package_id :: "string option"
  rq_package_path :: "string option"
  rq_baseline :: string
  rq_candidate :: string
  rq_suite_path :: string
  rq_spec_path :: string
  rq_baseline_receipt_path :: "string option"
  rq_baseline_trust_policy_path :: "string option"
  rq_baseline_version_id :: "string option"
  rq_candidate_version_id :: "string option"

definition require_package_source :: "run_create_request \<Rightarrow> exn + run_create_request" where
  "require_package_source r =
     (if (rq_package_id r = None) = (rq_package_path r = None) then Inl ValidationError else Inr r)"

record artifact_info =
  ai_artifact_id :: string
  ai_kind :: string
  ai_path :: string
  ai_sha256 :: string
  ai_bytes :: int
  ai_download_url :: string

record artifact_manifest =
  am_run_id :: string
  am_artifacts :: "artifact_info list"

record run_response =
  rn_run_id :: string
  rn_state :: run_state
  rn_request_id :: string
  rn_package_id :: "string option"
  rn_package_path :: string
  rn_baseline :: string
  rn_candidate :: string
  rn_suite_path :: string
  rn_spec_path :: string
  rn_baseline_receipt_path :: "string option"
  rn_baseline_trust_policy_path :: "string option"
  rn_baseline_version_id :: "string option"
  rn_candidate_version_id :: "string option"
  rn_out_dir :: string
  rn_reason_code :: "string option"
  rn_envelope_status :: "string option"
  rn_package_hash :: "string option"
  rn_receipt_hash :: "string option"
  rn_report_hash :: "string option"
  rn_artifact_manifest :: "artifact_manifest option"
  rn_error_code :: "string option"
  rn_error_message :: "string option"
  rn_created_at :: string
  rn_updated_at :: string
  rn_started_at :: "string option"
  rn_completed_at :: "string option"

record run_work_item =
  rw_run_id :: string
  rw_request_id :: string
  rw_request :: run_create_request
  rw_package_path :: string
  rw_out_dir :: string

section \<open>Release candidates\<close>

record release =
  rl_release_id :: string
  rl_strategy_id :: string
  rl_version_id :: string
  rl_state :: release_state
  rl_release_tier :: release_tier
  rl_created_by :: string
  rl_metadata :: dict
  rl_run_id :: "string option"
  rl_redline_reason_code :: "string option"
  rl_redline_receipt_hash :: "string option"
  rl_redline_report_hash :: "string option"
  rl_simulation_evidence :: "dict option"
  rl_simulation_evidence_hash :: "string option"
  rl_risk_policy :: "dict option"
  rl_risk_policy_hash :: "string option"
  rl_approval :: "dict option"
  rl_execution_run_id :: "string option"
  rl_execution_evidence :: "dict option"
  rl_evidence_manifest :: "dict option"
  rl_evidence_manifest_hash :: "string option"
  rl_reject_reason :: "string option"
  rl_killed_at :: "string option"
  rl_created_at :: string
  rl_updated_at :: string

record release_create_request =
  rcr_release_id :: "string option"
  rcr_version_id :: string
  rcr_strategy_id :: "string option"
  rcr_created_by :: string
  rcr_metadata :: dict

definition release_create_value :: "release_create_request \<Rightarrow> pyval" where
  "release_create_value p =
     PDict [(''release_id'', opt_str (rcr_release_id p)), (''version_id'', PStr (rcr_version_id p)),
            (''strategy_id'', opt_str (rcr_strategy_id p)), (''created_by'', PStr (rcr_created_by p)),
            (''metadata'', PDict (rcr_metadata p))]"

record simulation_evidence_request =
  se_source :: simulation_source
  se_period_start :: string
  se_period_end :: string
  se_market :: string
  se_symbol :: string
  se_trade_count :: int
  se_pnl :: string
  se_max_drawdown :: string
  se_win_rate :: string
  se_sharpe_or_sortino :: "string option"
  se_source_file_hash :: "string option"
  se_metadata :: dict

definition simulation_request_dict :: "simulation_evidence_request \<Rightarrow> dict" where
  "simulation_request_dict p =
     [(''source'', PStr (simulation_source_value (se_source p))), (''period_start'', PStr (se_period_start p)),
      (''period_end'', PStr (se_period_end p)), (''market'', PStr (se_market p)), (''symbol'', PStr (se_symbol p)),
      (''trade_count'', PInt (se_trade_count p)), (''pnl'', PStr (se_pnl p)),
      (''max_drawdown'', PStr (se_max_drawdown p)), (''win_rate'', PStr (se_win_rate p)),
      (''sharpe_or_sortino'', opt_str (se_sharpe_or_sortino p)),
      (''source_file_hash'', opt_str (se_source_file_hash p)), (''metadata'', PDict (se_metadata p))]"

record risk_policy_request =
  rp_max_order_notional_usdt :: string
  rp_allowed_product_types :: "string list"
  rp_allowed_symbols :: "string list"
  rp_require_simulation_evidence :: bool
  rp_require_demo_execution :: bool
  rp_require_human_approval :: bool
  rp_mainnet_enabled :: bool
  rp_expected_order_notional_usdt :: string

definition risk_policy_dict :: "risk_policy_request \<Rightarrow> dict" where
  "risk_policy_dict p =
     [(''max_order_notional_usdt'', PStr (rp_max_order_notional_usdt p)),
      (''allowed_product_types'', strs (rp_allowed_product_types p)),
      (''allowed_symbols'', strs (rp_allowed_symbols p)),
      (''require_simulation_evidence'', PBool (rp_require_simulation_evidence p)),
      (''require_demo_execution'', PBool (rp_require_demo_execution p)),
      (''require_human_approval'', PBool (rp_require_human_approval p)),
      (''mainnet_enabled'', PBool (rp_mainnet_enabled p)),
      (''expected_order_notional_usdt'', PStr (rp_expected_order_notional_usdt p))]"

record execution_request =
  ex_symbol :: "string option"
  ex_product_type :: "string option"
  ex_margin_coin :: "string option"
  ex_size :: string
  ex_side :: string
  ex_trade_side :: "string option"
  ex_order_type :: string
  ex_force :: "string option"
  ex_price :: "string option"
  ex_confirm_mainnet_order :: bool
  ex_trust_policy_path :: "string option"

definition default_execution_request :: execution_request where
  "default_execution_request =
     \<lparr> ex_symbol = None, ex_product_type = None, ex_margin_coin = None, ex_size = ''0.0001'', ex_side = ''buy'',
       ex_trade_side = Some ''open'', ex_order_type = ''market'', ex_force = None, ex_price = None,
       ex_confirm_mainnet_order = False, ex_trust_policy_path = None \<rparr>"

record action_response =
  ar_release_id :: string
  ar_ok :: bool
  ar_state :: release_state
  ar_reason_code :: "string option"
  ar_evidence :: dict

record execution_response =
  er_run_id :: string
  er_ok :: bool
  er_state :: string
  er_reason_code :: "string option"
  er_evidence :: dict

section \<open>Jobs\<close>

record release_job =
  jb_job_id :: string
  jb_release_id :: string
  jb_job_type :: job_type
  jb_status :: job_status
  jb_request_hash :: string
  jb_request :: dict
  jb_idempotency_key :: "string option"
  jb_requested_by :: string
  jb_created_at :: string
  jb_started_at :: "string option"
  jb_finished_at :: "string option"
  jb_result :: "dict option"
  jb_error_code :: "string option"
  jb_error_message :: "string option"

record job_event =
  ev_event_id :: string
  ev_job_id :: string
  ev_release_id :: string
  ev_sequence :: int
  ev_event_type :: string
  ev_payload :: dict
  ev_created_at :: string
  ev_previous_event_hash :: string
  ev_event_hash :: string

record job_work_item =
  wi_job_id :: string
  wi_release_id :: string
  wi_job_type :: job_type
  wi_request :: dict
  wi_requested_by :: string

end
