(* ===== verification/Transitions.thy ===== *)
theory Transitions
  imports Service_Models
begin

text \<open>
  The release state machine of \<open>src/redline/service/transitions.py\<close>: the terminal states, the table
  of allowed transitions, the evidence that a target state asks for, and \<open>transition_release\<close>. The
  relation \<open>release_step\<close> is one successful transition; the lemmas are about every release that such
  steps reach from a draft.
\<close>

section \<open>The table\<close>

definition TERMINAL_RELEASE_STATES :: "release_state list" where
  "TERMINAL_RELEASE_STATES =
     [Rel_RELEASED_DEMO, Rel_RELEASED_LIVE_GATED, Rel_REJECTED, Rel_KILLED, Rel_BLOCKED_WITHHELD,
      Rel_BLOCKED_UNVERIFIED, Rel_BLOCKED_MISSING_EVIDENCE, Rel_BLOCKED_RISK_POLICY, Rel_BLOCKED_APPROVAL,
      Rel_BLOCKED_EXCHANGE_ERROR]"

fun ALLOWED_RELEASE_TRANSITIONS :: "release_state \<Rightarrow> release_state list" where
  "ALLOWED_RELEASE_TRANSITIONS Rel_DRAFT =
     [Rel_REDLINE_RUNNING, Rel_REDLINE_PASSED, Rel_EVIDENCE_COLLECTING, Rel_BLOCKED_MISSING_EVIDENCE,
      Rel_BLOCKED_WITHHELD, Rel_BLOCKED_UNVERIFIED, Rel_KILLED]"
| "ALLOWED_RELEASE_TRANSITIONS Rel_REDLINE_RUNNING =
     [Rel_REDLINE_PASSED, Rel_BLOCKED_MISSING_EVIDENCE, Rel_BLOCKED_WITHHELD, Rel_BLOCKED_UNVERIFIED, Rel_KILLED]"
| "ALLOWED_RELEASE_TRANSITIONS Rel_REDLINE_PASSED =
     [Rel_EVIDENCE_COLLECTING, Rel_REVIEW_REQUIRED, Rel_BLOCKED_MISSING_EVIDENCE, Rel_BLOCKED_RISK_POLICY, Rel_KILLED]"
| "ALLOWED_RELEASE_TRANSITIONS Rel_EVIDENCE_COLLECTING =
     [Rel_EVIDENCE_COLLECTING, Rel_REVIEW_REQUIRED, Rel_BLOCKED_MISSING_EVIDENCE, Rel_BLOCKED_RISK_POLICY, Rel_KILLED]"
| "ALLOWED_RELEASE_TRANSITIONS Rel_REVIEW_REQUIRED =
     [Rel_APPROVED, Rel_REJECTED, Rel_BLOCKED_MISSING_EVIDENCE, Rel_KILLED]"
| "ALLOWED_RELEASE_TRANSITIONS Rel_APPROVED =
     [Rel_RELEASE_READY, Rel_EVIDENCE_COLLECTING, Rel_REVIEW_REQUIRED, Rel_BLOCKED_MISSING_EVIDENCE,
      Rel_BLOCKED_RISK_POLICY, Rel_BLOCKED_EXCHANGE_ERROR, Rel_KILLED]"
| "ALLOWED_RELEASE_TRANSITIONS Rel_DEMO_EXECUTED = [Rel_RELEASE_READY, Rel_KILLED]"
| "ALLOWED_RELEASE_TRANSITIONS Rel_RELEASE_READY = [Rel_RELEASED_DEMO, Rel_RELEASED_LIVE_GATED, Rel_KILLED]"
| "ALLOWED_RELEASE_TRANSITIONS _ = []"

definition is_terminal_release_state :: "release_state \<Rightarrow> bool" where
  "is_terminal_release_state s = (s \<in> set TERMINAL_RELEASE_STATES)"

lemma terminal_no_transitions [simp]: "is_terminal_release_state s \<Longrightarrow> ALLOWED_RELEASE_TRANSITIONS s = []"
  by (auto simp: is_terminal_release_state_def TERMINAL_RELEASE_STATES_def)

section \<open>Evidence\<close>

definition policy_of :: "release \<Rightarrow> dict" where
  "policy_of r = (case rl_risk_policy r of None \<Rightarrow> [] | Some d \<Rightarrow> d)"

definition requires :: "release \<Rightarrow> string \<Rightarrow> bool" where
  "requires r k = truthy (get_default (policy_of r) k (PBool True))"

definition missing_live_gate_controls :: "release \<Rightarrow> string list" where
  "missing_live_gate_controls r =
     (if rl_release_tier r \<notin> {RTier_L1, RTier_L2} then [''l1_release_tier''] else []) @
     (if \<not> truthy (get_default (policy_of r) ''mainnet_enabled'' (PBool False)) then [''mainnet_risk_policy''] else []) @
     (case as_dict (get (rl_metadata r) ''live_gate'') of
        None \<Rightarrow> [''live_gate_controls'']
      | Some controls \<Rightarrow>
          (let manager = nonempty_text (get controls ''release_manager_id'');
               second = nonempty_text (get controls ''second_reviewer_id'')
           in (if get controls ''confirm_mainnet_order'' \<noteq> PBool True then [''confirm_mainnet_order''] else []) @
              (if get controls ''allow_live_gated_release'' \<noteq> PBool True then [''allow_live_gated_release''] else []) @
              (if manager = None then [''release_manager''] else []) @
              (if second = None \<or> second = manager \<or> second = Some (rl_created_by r) then [''second_reviewer''] else [])))"

definition missing_evidence_for_target :: "release \<Rightarrow> release_state \<Rightarrow> string list" where
  "missing_evidence_for_target r to =
     (if to \<notin> {Rel_REVIEW_REQUIRED, Rel_APPROVED, Rel_RELEASE_READY, Rel_RELEASED_DEMO, Rel_RELEASED_LIVE_GATED}
      then []
      else
        (if rl_run_id r = None \<or> rl_redline_reason_code r \<noteq> Some ''PASS'' \<or>
            \<not> nonempty (rl_redline_receipt_hash r) \<or> \<not> nonempty (rl_redline_report_hash r)
         then [''redline_pass''] else []) @
        (if rl_risk_policy r = None \<or> rl_risk_policy_hash r = None then [''risk_policy''] else []) @
        (if requires r ''require_simulation_evidence'' \<and>
            (rl_simulation_evidence r = None \<or> rl_simulation_evidence_hash r = None)
         then [''simulation_evidence''] else []) @
        (if to \<in> {Rel_APPROVED, Rel_RELEASE_READY, Rel_RELEASED_DEMO, Rel_RELEASED_LIVE_GATED} \<and>
            requires r ''require_human_approval'' \<and> rl_approval r = None
         then [''human_approval''] else []) @
        (if to \<in> {Rel_RELEASE_READY, Rel_RELEASED_DEMO, Rel_RELEASED_LIVE_GATED} \<and>
            requires r ''require_demo_execution'' \<and> (rl_execution_evidence r = None \<or> rl_execution_run_id r = None)
         then [''demo_execution''] else []) @
        (if to = Rel_RELEASED_LIVE_GATED then missing_live_gate_controls r else []))"

section \<open>\<open>transition_release\<close>\<close>

text \<open>\<open>ReleaseTransitionError\<close> and its subclass for missing evidence.\<close>

datatype transition_error =
    ReleaseTransitionError release_state release_state
  | ReleaseTransitionMissingEvidenceError release_state release_state "string list"

text \<open>\<open>updates\<close> is the effect of the keyword argument's dictionary on the record's fields, applied
  after the new state as \<open>model_copy\<close> does.\<close>

definition transition_release ::
  "release \<Rightarrow> release_state \<Rightarrow> (release \<Rightarrow> release) \<Rightarrow> transition_error + release" where
  "transition_release r to updates =
     (let updated = updates (r\<lparr> rl_state := to \<rparr>);
          missing = missing_evidence_for_target updated to
      in if rl_state r = to then
           (if missing \<noteq> [] then Inl (ReleaseTransitionMissingEvidenceError (rl_state r) to missing) else Inr updated)
         else if is_terminal_release_state (rl_state r) then Inl (ReleaseTransitionError (rl_state r) to)
         else if to \<notin> set (ALLOWED_RELEASE_TRANSITIONS (rl_state r)) then Inl (ReleaseTransitionError (rl_state r) to)
         else if missing \<noteq> [] then Inl (ReleaseTransitionMissingEvidenceError (rl_state r) to missing)
         else Inr updated)"

lemma transition_Inr:
  "transition_release r to updates = Inr r' \<longleftrightarrow>
   r' = updates (r\<lparr> rl_state := to \<rparr>) \<and> missing_evidence_for_target r' to = [] \<and>
   (rl_state r = to \<or> to \<in> set (ALLOWED_RELEASE_TRANSITIONS (rl_state r)))"
  by (auto simp: transition_release_def Let_def)

lemma transition_missing:
  "transition_release r to updates = Inl (ReleaseTransitionMissingEvidenceError s t m) \<longleftrightarrow>
   s = rl_state r \<and> t = to \<and> m \<noteq> [] \<and> m = missing_evidence_for_target (updates (r\<lparr> rl_state := to \<rparr>)) to \<and>
   (rl_state r = to \<or> to \<in> set (ALLOWED_RELEASE_TRANSITIONS (rl_state r)))"
  by (auto simp: transition_release_def Let_def)

section \<open>Reachable releases\<close>

text \<open>One transition of a release. The callers' updates set fields other than the identity, the
  creator and the state; those of \<open>_with_computed_release_tier\<close> set the tier.\<close>

definition proper_updates :: "(release \<Rightarrow> release) \<Rightarrow> bool" where
  "proper_updates u \<longleftrightarrow>
     (\<forall>r. rl_state (u r) = rl_state r \<and> rl_release_id (u r) = rl_release_id r \<and>
          rl_created_by (u r) = rl_created_by r)"

inductive release_path :: "release \<Rightarrow> release_state list \<Rightarrow> bool" where
  draft: "rl_state r = Rel_DRAFT \<Longrightarrow> release_path r [Rel_DRAFT]"
| step: "release_path r h \<Longrightarrow> proper_updates u \<Longrightarrow> transition_release r to u = Inr r' \<Longrightarrow>
    release_path r' (h @ [to])"

lemma transition_state:
  assumes "transition_release r to u = Inr r'" "proper_updates u"
  shows "rl_state r' = to" "rl_release_id r' = rl_release_id r" "rl_created_by r' = rl_created_by r"
    "missing_evidence_for_target r' to = []"
  using assms by (auto simp: transition_Inr proper_updates_def)

lemma release_path_state: "release_path r h \<Longrightarrow> h \<noteq> [] \<and> last h = rl_state r \<and> hd h = Rel_DRAFT"
  by (induction rule: release_path.induct) (simp_all add: transition_state)

lemma release_path_evidence:
  "release_path r h \<Longrightarrow> missing_evidence_for_target r (rl_state r) = []"
proof (induction rule: release_path.induct)
  case (draft r)
  then show ?case by (simp add: missing_evidence_for_target_def)
next
  case (step r h u to r')
  then show ?case by (simp add: transition_state)
qed

lemma transitions_into:
  "Rel_APPROVED \<in> set (ALLOWED_RELEASE_TRANSITIONS s) \<longleftrightarrow> s = Rel_REVIEW_REQUIRED"
  "Rel_RELEASE_READY \<in> set (ALLOWED_RELEASE_TRANSITIONS s) \<longleftrightarrow> s \<in> {Rel_APPROVED, Rel_DEMO_EXECUTED}"
  "Rel_DEMO_EXECUTED \<in> set (ALLOWED_RELEASE_TRANSITIONS s) \<longleftrightarrow> False"
  "Rel_BLOCKED_APPROVAL \<in> set (ALLOWED_RELEASE_TRANSITIONS s) \<longleftrightarrow> False"
  "Rel_RELEASED_DEMO \<in> set (ALLOWED_RELEASE_TRANSITIONS s) \<longleftrightarrow> s = Rel_RELEASE_READY"
  "Rel_RELEASED_LIVE_GATED \<in> set (ALLOWED_RELEASE_TRANSITIONS s) \<longleftrightarrow> s = Rel_RELEASE_READY"
  "Rel_REJECTED \<in> set (ALLOWED_RELEASE_TRANSITIONS s) \<longleftrightarrow> s = Rel_REVIEW_REQUIRED"
  by (cases s; simp)+

text \<open>The states that a release in a given state went through, in order.\<close>

fun stages :: "release_state \<Rightarrow> release_state list" where
  "stages Rel_REVIEW_REQUIRED = [Rel_DRAFT, Rel_REVIEW_REQUIRED]"
| "stages Rel_APPROVED = [Rel_DRAFT, Rel_REVIEW_REQUIRED, Rel_APPROVED]"
| "stages Rel_RELEASE_READY = [Rel_DRAFT, Rel_REVIEW_REQUIRED, Rel_APPROVED, Rel_RELEASE_READY]"
| "stages Rel_RELEASED_DEMO =
     [Rel_DRAFT, Rel_REVIEW_REQUIRED, Rel_APPROVED, Rel_RELEASE_READY, Rel_RELEASED_DEMO]"
| "stages Rel_RELEASED_LIVE_GATED =
     [Rel_DRAFT, Rel_REVIEW_REQUIRED, Rel_APPROVED, Rel_RELEASE_READY, Rel_RELEASED_LIVE_GATED]"
| "stages _ = [Rel_DRAFT]"

lemma stages_step:
  assumes "to \<in> set (ALLOWED_RELEASE_TRANSITIONS s)" "s \<noteq> Rel_DEMO_EXECUTED"
  shows "subseq (stages to) (stages s @ [to])"
  using assms by (cases s) auto

lemma subseq_extend: "subseq xs ys \<Longrightarrow> subseq xs (ys @ [y]) \<and> subseq (xs @ [y]) (ys @ [y])"
  by (simp add: list_emb_prefix)

lemma path_stages:
  "release_path r h \<Longrightarrow> subseq (stages (rl_state r)) h \<and> rl_state r \<noteq> Rel_DEMO_EXECUTED \<and> rl_state r \<noteq> Rel_BLOCKED_APPROVAL"
proof (induction rule: release_path.induct)
  case (step r h u to r')
  have to: "rl_state r' = to" using step.hyps by (simp add: transition_state)
  have "rl_state r = to \<or> to \<in> set (ALLOWED_RELEASE_TRANSITIONS (rl_state r))"
    using step.hyps(3) by (simp add: transition_Inr)
  then show ?case
  proof
    assume "rl_state r = to"
    with step.IH to show ?case by (simp add: subseq_extend)
  next
    assume a: "to \<in> set (ALLOWED_RELEASE_TRANSITIONS (rl_state r))"
    have "subseq (stages (rl_state r) @ [to]) (h @ [to])" using step.IH by (simp add: subseq_extend)
    then have "subseq (stages to) (h @ [to])"
      using subseq_order.trans [OF stages_step [OF a]] step.IH by simp
    with to have "subseq (stages (rl_state r')) (h @ [to])" by simp
    moreover from a to have "rl_state r' \<noteq> Rel_DEMO_EXECUTED \<and> rl_state r' \<noteq> Rel_BLOCKED_APPROVAL"
      by (auto simp: transitions_into)
    ultimately show ?case by blast
  qed
qed simp

lemma if_singleton_Nil [simp]: "(if P then [x] else []) = [] \<longleftrightarrow> \<not> P"
  by simp

lemma missing_base:
  assumes "missing_evidence_for_target r to = []" "to \<in> {Rel_RELEASED_DEMO, Rel_RELEASED_LIVE_GATED}"
  shows "rl_run_id r \<noteq> None \<and> rl_redline_reason_code r = Some ''PASS'' \<and> nonempty (rl_redline_receipt_hash r) \<and>
    rl_risk_policy r \<noteq> None \<and> rl_risk_policy_hash r \<noteq> None \<and>
    (requires r ''require_simulation_evidence'' \<longrightarrow> rl_simulation_evidence r \<noteq> None) \<and>
    (requires r ''require_human_approval'' \<longrightarrow> rl_approval r \<noteq> None) \<and>
    (requires r ''require_demo_execution'' \<longrightarrow> rl_execution_evidence r \<noteq> None \<and> rl_execution_run_id r \<noteq> None)"
  using assms by (elim insertE) (simp_all add: missing_evidence_for_target_def del: nonempty_iff)

lemma missing_live:
  assumes "missing_evidence_for_target r Rel_RELEASED_LIVE_GATED = []"
  shows "missing_live_gate_controls r = []"
  using assms by (simp add: missing_evidence_for_target_def del: nonempty_iff)

definition second_reviewed :: "release \<Rightarrow> bool" where
  "second_reviewed r =
     (case as_dict (get (rl_metadata r) ''live_gate'') of
        None \<Rightarrow> False
      | Some controls \<Rightarrow>
          get controls ''confirm_mainnet_order'' = PBool True \<and>
          get controls ''allow_live_gated_release'' = PBool True \<and>
          (case (nonempty_text (get controls ''release_manager_id''), nonempty_text (get controls ''second_reviewer_id'')) of
             (Some m, Some s) \<Rightarrow> s \<noteq> m \<and> s \<noteq> rl_created_by r
           | _ \<Rightarrow> False))"

lemma live_gate_controls_iff:
  "missing_live_gate_controls r = [] \<longleftrightarrow>
     rl_release_tier r \<in> {RTier_L1, RTier_L2} \<and>
     truthy (get_default (policy_of r) ''mainnet_enabled'' (PBool False)) \<and> second_reviewed r"
  by (auto simp: missing_live_gate_controls_def second_reviewed_def Let_def split: option.splits)

text \<open>C15: a release that any sequence of transitions takes from a draft to \<open>released_demo\<close> or
  \<open>released_live_gated\<close> went through \<open>review_required\<close>, \<open>approved\<close> and \<open>release_ready\<close> in this order, has
  the receipt of a passing run, a hashed risk policy, and, unless that policy waives them, simulation
  evidence, a human approval and a demo execution. A live-gated one has in addition a policy that
  enables mainnet, both confirmations, and a second reviewer who is neither its manager nor its
  creator.\<close>

theorem released_only_with_evidence:
  assumes "release_path r h" "rl_state r \<in> {Rel_RELEASED_DEMO, Rel_RELEASED_LIVE_GATED}"
  shows "subseq [Rel_DRAFT, Rel_REVIEW_REQUIRED, Rel_APPROVED, Rel_RELEASE_READY, rl_state r] h \<and>
    rl_run_id r \<noteq> None \<and> rl_redline_reason_code r = Some ''PASS'' \<and> nonempty (rl_redline_receipt_hash r) \<and>
    rl_risk_policy r \<noteq> None \<and> rl_risk_policy_hash r \<noteq> None \<and>
    (requires r ''require_simulation_evidence'' \<longrightarrow> rl_simulation_evidence r \<noteq> None) \<and>
    (requires r ''require_human_approval'' \<longrightarrow> rl_approval r \<noteq> None) \<and>
    (requires r ''require_demo_execution'' \<longrightarrow> rl_execution_evidence r \<noteq> None \<and> rl_execution_run_id r \<noteq> None) \<and>
    (rl_state r = Rel_RELEASED_LIVE_GATED \<longrightarrow>
       truthy (get_default (policy_of r) ''mainnet_enabled'' (PBool False)) \<and> second_reviewed r)"
proof -
  note ev = release_path_evidence [OF assms(1)]
  have "stages (rl_state r) = [Rel_DRAFT, Rel_REVIEW_REQUIRED, Rel_APPROVED, Rel_RELEASE_READY, rl_state r]"
    using assms(2) by auto
  with path_stages [OF assms(1)] have "subseq [Rel_DRAFT, Rel_REVIEW_REQUIRED, Rel_APPROVED, Rel_RELEASE_READY, rl_state r] h"
    by simp
  moreover have "rl_state r = Rel_RELEASED_LIVE_GATED \<longrightarrow>
      truthy (get_default (policy_of r) ''mainnet_enabled'' (PBool False)) \<and> second_reviewed r"
    using ev missing_live live_gate_controls_iff by metis
  ultimately show ?thesis using missing_base [OF ev assms(2)] by blast
qed

lemma path_terminal:
  "release_path r h \<Longrightarrow> s \<in> set h \<Longrightarrow> is_terminal_release_state s \<Longrightarrow> rl_state r = s"
proof (induction rule: release_path.induct)
  case (step r h u to r')
  have to: "rl_state r' = to" using step.hyps by (simp add: transition_state)
  show ?case
  proof (cases "s = to")
    case False
    with step.prems step.IH have "rl_state r = s" by simp
    with step.hyps(3) step.prems(2) have "to = s" by (simp add: transition_Inr)
    with to show ?thesis by simp
  qed (simp add: to)
qed simp

text \<open>C31: the terminal states are final: a release that was once in one of them is in that state
  still, whatever transitions were tried since. No transition ever reaches \<open>demo_executed\<close> or
  \<open>blocked_approval\<close>.\<close>

theorem terminal_states_final:
  assumes "release_path r h"
  shows "(\<forall>s \<in> set h. is_terminal_release_state s \<longrightarrow> rl_state r = s) \<and>
    rl_state r \<notin> {Rel_DEMO_EXECUTED, Rel_BLOCKED_APPROVAL}"
  using path_terminal [OF assms] path_stages [OF assms] by blast

definition sample_release :: release where
  "sample_release =
     \<lparr> rl_release_id = ''rel_1'', rl_strategy_id = ''strat'', rl_version_id = ''v1'', rl_state = Rel_DRAFT,
       rl_release_tier = RTier_L0, rl_created_by = ''alice'', rl_metadata = [], rl_run_id = Some ''run_1'',
       rl_redline_reason_code = Some ''PASS'', rl_redline_receipt_hash = Some ''sha256:a'',
       rl_redline_report_hash = Some ''sha256:b'', rl_simulation_evidence = Some [], rl_simulation_evidence_hash = Some ''sha256:c'',
       rl_risk_policy = Some [], rl_risk_policy_hash = Some ''sha256:d'', rl_approval = Some [],
       rl_execution_run_id = Some ''run_1'', rl_execution_evidence = Some [], rl_evidence_manifest = None,
       rl_evidence_manifest_hash = None, rl_reject_reason = None, rl_killed_at = None,
       rl_created_at = ''t0'', rl_updated_at = ''t0'' \<rparr>"

lemma sample_steps:
  "transition_release sample_release Rel_REDLINE_PASSED id = Inr (sample_release\<lparr> rl_state := Rel_REDLINE_PASSED \<rparr>)"
  "transition_release (sample_release\<lparr> rl_state := Rel_REDLINE_PASSED \<rparr>) Rel_REVIEW_REQUIRED id
     = Inr (sample_release\<lparr> rl_state := Rel_REVIEW_REQUIRED \<rparr>)"
  "transition_release (sample_release\<lparr> rl_state := Rel_REVIEW_REQUIRED \<rparr>) Rel_APPROVED id
     = Inr (sample_release\<lparr> rl_state := Rel_APPROVED \<rparr>)"
  "transition_release (sample_release\<lparr> rl_state := Rel_APPROVED \<rparr>) Rel_RELEASE_READY id
     = Inr (sample_release\<lparr> rl_state := Rel_RELEASE_READY \<rparr>)"
  "transition_release (sample_release\<lparr> rl_state := Rel_RELEASE_READY \<rparr>) Rel_RELEASED_DEMO id
     = Inr (sample_release\<lparr> rl_state := Rel_RELEASED_DEMO \<rparr>)"
  by (simp_all add: transition_Inr sample_release_def missing_evidence_for_target_def)

lemma sample_path:
  "release_path (sample_release\<lparr> rl_state := Rel_RELEASED_DEMO \<rparr>)
     [Rel_DRAFT, Rel_REDLINE_PASSED, Rel_REVIEW_REQUIRED, Rel_APPROVED, Rel_RELEASE_READY, Rel_RELEASED_DEMO]"
proof -
  have u: "proper_updates id" by (simp add: proper_updates_def)
  have "release_path sample_release [Rel_DRAFT]" by (rule release_path.draft) (simp add: sample_release_def)
  from release_path.step [OF release_path.step [OF release_path.step [OF release_path.step [OF
      release_path.step [OF this u sample_steps(1)] u sample_steps(2)] u sample_steps(3)] u sample_steps(4)] u sample_steps(5)]
  show ?thesis by simp
qed

theorem released_only_with_evidence_witness:
  "rl_redline_reason_code (sample_release\<lparr> rl_state := Rel_RELEASED_DEMO \<rparr>) = Some ''PASS'' \<and>
   subseq [Rel_DRAFT, Rel_REVIEW_REQUIRED, Rel_APPROVED, Rel_RELEASE_READY, Rel_RELEASED_DEMO]
     [Rel_DRAFT, Rel_REDLINE_PASSED, Rel_REVIEW_REQUIRED, Rel_APPROVED, Rel_RELEASE_READY, Rel_RELEASED_DEMO]"
  using released_only_with_evidence [OF sample_path] by simp

theorem terminal_states_final_witness:
  "rl_state (sample_release\<lparr> rl_state := Rel_RELEASED_DEMO \<rparr>) \<notin> {Rel_DEMO_EXECUTED, Rel_BLOCKED_APPROVAL}"
  using terminal_states_final [OF sample_path] by blast

end
