(* ===== verification/Release_Policy.thy ===== *)
theory Release_Policy
  imports Transitions Receipt Decimal28
begin

text \<open>
  The decisions of \<open>src/redline/service/release.py\<close>: the risk policy's answer to an execution request,
  the release tier, the hashes that bind approvals to evidence, and the audit ledger of a release.
  \<open>str.upper\<close> is modelled on ASCII letters. A bound policy is a dumped \<open>RiskPolicyRequest\<close>, so its
  lists hold strings; any other list value counts as a \<open>TypeError\<close>.
\<close>

section \<open>Risk policy\<close>

definition ascii_upper :: "char \<Rightarrow> char" where
  "ascii_upper c = (let n = (of_char c :: nat) in if 97 \<le> n \<and> n \<le> 122 then char_of (n - 32) else c)"

definition upper :: "string \<Rightarrow> string" where
  "upper s = map ascii_upper s"

definition DEFAULT_DEMO_SYMBOL :: string where "DEFAULT_DEMO_SYMBOL = ''BTCUSDT''"
definition DEFAULT_PRODUCT_TYPE :: string where "DEFAULT_PRODUCT_TYPE = ''USDT-FUTURES''"

datatype risk_decision =
    Allow
  | Reduce string string
  | Block string

definition risk_blocked :: "risk_decision \<Rightarrow> bool" where
  "risk_blocked d = (case d of Block _ \<Rightarrow> True | _ \<Rightarrow> False)"

definition risk_reason :: "risk_decision \<Rightarrow> string option" where
  "risk_reason d = (case d of Allow \<Rightarrow> None | Reduce r _ \<Rightarrow> Some r | Block r \<Rightarrow> Some r)"

definition risk_decision_dump :: "risk_decision \<Rightarrow> dict" where
  "risk_decision_dump d =
     (case d of
        Allow \<Rightarrow> [(''decision'', PStr ''allow'')]
      | Reduce r s \<Rightarrow> [(''decision'', PStr ''reduce''), (''reason'', PStr r), (''adjusted_size'', PStr s)]
      | Block r \<Rightarrow> [(''decision'', PStr ''block''), (''reason'', PStr r)])"

fun text_items :: "pyval \<Rightarrow> exn + string list" where
  "text_items (PList xs) =
     traverse (\<lambda>v. case as_text v of None \<Rightarrow> Inl TypeError | Some s \<Rightarrow> Inr (upper s)) xs"
| "text_items _ = Inl TypeError"

text \<open>\<open>_decimal_field\<close>: \<open>str\<close> of a value that is neither text nor a number is never a decimal.\<close>

definition decimal_field :: "dict \<Rightarrow> string \<Rightarrow> exn + pydec" where
  "decimal_field p k =
     (let parsed =
        (case map_of p k of
           Some (PStr s) \<Rightarrow> parse_decimal s
         | Some (PEnum s) \<Rightarrow> parse_decimal s
         | Some (PFloat s) \<Rightarrow> parse_decimal s
         | Some (PPath s) \<Rightarrow> parse_decimal s
         | Some (PInt i) \<Rightarrow> Some (Finite i 0)
         | Some (PDec d) \<Rightarrow> Some d
         | _ \<Rightarrow> None)
      in case parsed of
           None \<Rightarrow> Inl (CanonicalizationError RC_SCHEMA_INVALID)
         | Some d \<Rightarrow> if \<not> is_finite d \<or> dval d < 0 then Inl (CanonicalizationError RC_SCHEMA_INVALID) else Inr d)"

definition decimal_to_text :: "pydec \<Rightarrow> string" where
  "decimal_to_text d = (let t = strip_fraction (format_f d) in if t = [] then ''0'' else t)"

text \<open>\<open>_adjusted_execution_size\<close>. Comparing a NaN raises \<open>InvalidOperation\<close>, outside the \<open>try\<close>. An
  infinite size stays infinite.\<close>

definition adjusted_execution_size :: "string \<Rightarrow> pydec \<Rightarrow> pydec \<Rightarrow> exn + string option" where
  "adjusted_execution_size sz max_notional expected_notional =
     (case parse_decimal sz of
        None \<Rightarrow> Inr None
      | Some NaN \<Rightarrow> Inl InvalidOperation
      | Some (Infinity neg) \<Rightarrow>
          if neg \<or> dval max_notional \<le> 0 \<or> dval expected_notional \<le> 0 then Inr None
          else rbind (ddiv max_notional expected_notional) (\<lambda>ratio.
                 if dval ratio = 0 then Inl InvalidOperation else Inr (Some ''Infinity''))
      | Some requested \<Rightarrow>
          if dval requested \<le> 0 \<or> dval max_notional \<le> 0 \<or> dval expected_notional \<le> 0 then Inr None
          else rbind (ddiv max_notional expected_notional) (\<lambda>ratio.
               rbind (dmul requested ratio) (\<lambda>adjusted.
                 if dval adjusted \<le> 0 then Inr None else Inr (Some (decimal_to_text adjusted)))))"

definition or_default :: "string option \<Rightarrow> string \<Rightarrow> string" where
  "or_default x d = (case x of None \<Rightarrow> d | Some s \<Rightarrow> if s = [] then d else s)"

definition risk_policy_breach :: "dict \<Rightarrow> execution_request \<Rightarrow> exn + risk_decision" where
  "risk_policy_breach p ex =
     (let symbol = upper (or_default (ex_symbol ex) DEFAULT_DEMO_SYMBOL);
          product_type = upper (or_default (ex_product_type ex) DEFAULT_PRODUCT_TYPE)
      in rbind (text_items (get_default p ''allowed_symbols'' (PList []))) (\<lambda>symbols.
         rbind (text_items (get_default p ''allowed_product_types'' (PList []))) (\<lambda>products.
           if symbols \<noteq> [] \<and> symbol \<notin> set symbols
           then Inr (Block ''symbol is not allowed by release risk policy'')
           else if products \<noteq> [] \<and> product_type \<notin> set products
           then Inr (Block ''product type is not allowed by release risk policy'')
           else if ex_confirm_mainnet_order ex \<and> \<not> truthy (get_default p ''mainnet_enabled'' (PBool False))
           then Inr (Block ''mainnet execution is disabled by release risk policy'')
           else
             rbind (decimal_field p ''max_order_notional_usdt'') (\<lambda>max_notional.
             rbind (decimal_field p ''expected_order_notional_usdt'') (\<lambda>expected_notional.
               if dval max_notional < dval expected_notional
               then rbind (adjusted_execution_size (ex_size ex) max_notional expected_notional) (\<lambda>adj.
                      case adj of
                        None \<Rightarrow> Inr (Block ''expected order notional exceeds release risk policy'')
                      | Some s \<Rightarrow> Inr (Reduce ''expected order notional exceeds release risk policy'' s))
               else Inr Allow)))))"

section \<open>Release tier\<close>

definition has_live_gate_controls :: "release \<Rightarrow> bool" where
  "has_live_gate_controls r =
     (if \<not> truthy (get_default (policy_of r) ''mainnet_enabled'' (PBool False)) then False
      else case as_dict (get (rl_metadata r) ''live_gate'') of
             None \<Rightarrow> False
           | Some controls \<Rightarrow>
               (let manager = nonempty_text (get controls ''release_manager_id'');
                    second = nonempty_text (get controls ''second_reviewer_id'')
                in get controls ''confirm_mainnet_order'' = PBool True \<and>
                   get controls ''allow_live_gated_release'' = PBool True \<and> manager \<noteq> None \<and> second \<noteq> None \<and>
                   second \<noteq> manager \<and> second \<noteq> Some (rl_created_by r)))"

definition tier_signals :: "release \<Rightarrow> (string \<times> bool) list" where
  "tier_signals r =
     [(''redline_passed'', nonempty (rl_run_id r) \<and> rl_redline_reason_code r = Some ''PASS'' \<and>
         nonempty (rl_redline_receipt_hash r)),
      (''simulation_evidence'', rl_simulation_evidence r \<noteq> None \<and> nonempty (rl_simulation_evidence_hash r)),
      (''risk_policy'', rl_risk_policy r \<noteq> None \<and> nonempty (rl_risk_policy_hash r)),
      (''demo_execution'', rl_execution_evidence r \<noteq> None \<and> nonempty (rl_execution_run_id r)),
      (''approval'', rl_approval r \<noteq> None),
      (''live_gate_controls'', has_live_gate_controls r)]"

definition compute_release_tier :: "release \<Rightarrow> release_tier" where
  "compute_release_tier r =
     (if rl_state r = Rel_RELEASED_LIVE_GATED \<and> has_live_gate_controls r then RTier_L2
      else if list_all (\<lambda>k. map_of (tier_signals r) k = Some True)
                [''redline_passed'', ''simulation_evidence'', ''risk_policy'', ''demo_execution'']
      then RTier_L1 else RTier_L0)"

text \<open>The tier's controls are the ones that the transition to \<open>released_live_gated\<close> asks for.\<close>

lemma has_live_gate_controls_iff:
  "has_live_gate_controls r \<longleftrightarrow>
     truthy (get_default (policy_of r) ''mainnet_enabled'' (PBool False)) \<and> second_reviewed r"
  by (auto simp: has_live_gate_controls_def second_reviewed_def Let_def split: option.splits)

section \<open>What the risk policy guarantees\<close>


section \<open>What the risk policy guarantees\<close>

text \<open>The mainnet veto: a request that confirms a mainnet order under a policy that does not enable
  mainnet is never allowed, not even with a reduced size.\<close>

theorem mainnet_veto:
  assumes "risk_policy_breach p ex = Inr d" "ex_confirm_mainnet_order ex"
    and "\<not> truthy (get_default p ''mainnet_enabled'' (PBool False))"
  shows "risk_blocked d"
  using assms by (auto simp: risk_policy_breach_def Let_def rbind_Inr_iff risk_blocked_def split: if_splits)

lemma breach_not_blocked:
  assumes "risk_policy_breach p ex = Inr d" "\<not> risk_blocked d"
  obtains symbols products mx e where
    "text_items (get_default p ''allowed_symbols'' (PList [])) = Inr symbols"
    "text_items (get_default p ''allowed_product_types'' (PList [])) = Inr products"
    "symbols = [] \<or> upper (or_default (ex_symbol ex) DEFAULT_DEMO_SYMBOL) \<in> set symbols"
    "products = [] \<or> upper (or_default (ex_product_type ex) DEFAULT_PRODUCT_TYPE) \<in> set products"
    "decimal_field p ''max_order_notional_usdt'' = Inr mx"
    "decimal_field p ''expected_order_notional_usdt'' = Inr e"
    "(d = Allow \<and> dval e \<le> dval mx) \<or>
     (\<exists>why s. d = Reduce why s \<and> dval mx < dval e \<and> adjusted_execution_size (ex_size ex) mx e = Inr (Some s))"
  using assms
  by (auto simp: risk_policy_breach_def Let_def rbind_Inr_iff risk_blocked_def not_less split: if_splits option.splits)

text \<open>The adjusted size of a finite request: two rounded operations.\<close>

lemma adjusted_size_text:
  assumes "adjusted_execution_size sz mx e = Inr (Some s)" "parse_decimal sz = Some q" "is_finite q"
  obtains ratio v where "ddiv mx e = Inr ratio" "dmul q ratio = Inr v" "0 < dval v" "s = decimal_to_text v"
    "0 < dval q" "0 < dval mx" "0 < dval e"
  using assms by (cases q) (auto simp: adjusted_execution_size_def rbind_Inr_iff not_le split: if_splits)

lemma decimal_to_text_reads_back:
  assumes "is_finite v" "0 < dval v"
  shows "decimal_text (decimal_to_text v) = Some (dval v)"
proof -
  from assms obtain c k where ck: "format_f v = fixed_text c k" "dval v = of_nat c / 10 ^ k"
    by (rule positive_shape)
  obtain c' k' where n: "c * 10 ^ k' = c' * 10 ^ k" "strip_fraction (fixed_text c k) = fixed_text c' k'"
    using strip_fraction_normal by blast
  from n(1) have "(of_nat c :: rat) * 10 ^ k' = of_nat c' * 10 ^ k"
    by (metis of_nat_mult of_nat_numeral of_nat_power)
  then have "(of_nat c' / 10 ^ k' :: rat) = dval v" by (simp add: ck(2) field_simps)
  moreover have "fixed_text c' k' \<noteq> []" by (simp add: fixed_text_def)
  ultimately show ?thesis using n(2) ck(1) by (simp add: decimal_to_text_def decimal_text_fixed)
qed


definition sample_policy :: dict where
  "sample_policy =
     [(''max_order_notional_usdt'', PStr ''10''), (''allowed_product_types'', PList [PStr ''USDT-FUTURES'']),
      (''allowed_symbols'', PList [PStr ''btcusdt'']), (''mainnet_enabled'', PBool False),
      (''expected_order_notional_usdt'', PStr ''20'')]"

definition sample_execution :: execution_request where
  "sample_execution = default_execution_request\<lparr> ex_size := ''10'' \<rparr>"

lemma sample_policy_parts:
  "text_items (get_default sample_policy ''allowed_symbols'' (PList [])) = Inr [''BTCUSDT'']"
  "text_items (get_default sample_policy ''allowed_product_types'' (PList [])) = Inr [''USDT-FUTURES'']"
  "upper (or_default (ex_symbol sample_execution) DEFAULT_DEMO_SYMBOL) = ''BTCUSDT''"
  "upper (or_default (ex_product_type sample_execution) DEFAULT_PRODUCT_TYPE) = ''USDT-FUTURES''"
  "adjusted_execution_size ''10'' (Finite 10 0) (Finite 20 0) = Inr (Some ''5'')"
  by code_simp+

lemma sample_policy_decimals:
  "parse_decimal (ex_size sample_execution) = Some (Finite 10 0)"
  "decimal_field sample_policy ''max_order_notional_usdt'' = Inr (Finite 10 0)"
  "decimal_field sample_policy ''expected_order_notional_usdt'' = Inr (Finite 20 0)"
  by code_simp+

lemma sample_policy_decisions:
  "risk_policy_breach sample_policy sample_execution
     = Inr (Reduce ''expected order notional exceeds release risk policy'' ''5'')"
  "risk_policy_breach sample_policy (sample_execution\<lparr> ex_confirm_mainnet_order := True \<rparr>)
     = Inr (Block ''mainnet execution is disabled by release risk policy'')"
proof -
  have "ex_size sample_execution = ''10''" "\<not> ex_confirm_mainnet_order sample_execution"
    "get_default sample_policy ''mainnet_enabled'' (PBool False) = PBool False"
    by (simp_all add: sample_execution_def default_execution_request_def sample_policy_def get_default_def)
  then show "risk_policy_breach sample_policy sample_execution
     = Inr (Reduce ''expected order notional exceeds release risk policy'' ''5'')"
    "risk_policy_breach sample_policy (sample_execution\<lparr> ex_confirm_mainnet_order := True \<rparr>)
     = Inr (Block ''mainnet execution is disabled by release risk policy'')"
    by (simp_all add: risk_policy_breach_def sample_policy_parts sample_policy_decimals pow10_def)
qed

theorem mainnet_veto_witness:
  "risk_blocked (Block ''mainnet execution is disabled by release risk policy'')"
  by (rule mainnet_veto [OF sample_policy_decisions(2)]) (simp_all add: sample_policy_def get_default_def)


end
