(* ===== verification/Release_Audit.thy ===== *)
theory Release_Audit
  imports Release_Policy
begin

text \<open>
  The hashes and the audit ledger of \<open>src/redline/service/release.py\<close>. An approval carries the
  fingerprint of the evidence it was given for; its own hash does not depend on whether it was
  consumed. Every action on a release appends one entry to the release's audit ledger, a hash chain
  in a file that is read and checked before each append and then rewritten.
\<close>

section \<open>Hashes of the evidence\<close>

definition opt_json :: "string option \<Rightarrow> json" where
  "opt_json x = (case x of None \<Rightarrow> JNull | Some s \<Rightarrow> JStr s)"

definition version_json :: "strategy_version \<Rightarrow> json" where
  "version_json v =
     JObj [(''version_id'', JStr (sv_version_id v)), (''strategy_id'', JStr (sv_strategy_id v)),
           (''package_hash'', JStr (sv_package_hash v)), (''identity_lock_hash'', opt_json (sv_identity_lock_hash v))]"

definition fingerprint_json :: "release \<Rightarrow> strategy_version option \<Rightarrow> json" where
  "fingerprint_json r v =
     JObj ([(''release_id'', JStr (rl_release_id r)), (''strategy_id'', JStr (rl_strategy_id r)),
            (''version_id'', JStr (rl_version_id r)), (''run_id'', opt_json (rl_run_id r)),
            (''redline_receipt_hash'', opt_json (rl_redline_receipt_hash r)),
            (''redline_report_hash'', opt_json (rl_redline_report_hash r)),
            (''simulation_evidence_hash'', opt_json (rl_simulation_evidence_hash r)),
            (''risk_policy_hash'', opt_json (rl_risk_policy_hash r))] @
           (case v of None \<Rightarrow> [] | Some sv \<Rightarrow> [(''strategy_version'', version_json sv)]))"

definition evidence_fingerprint :: "(string \<Rightarrow> string) \<Rightarrow> release \<Rightarrow> strategy_version option \<Rightarrow> string" where
  "evidence_fingerprint H r v = hash_json H (fingerprint_json r v)"

definition approval_record_hash :: "(string \<Rightarrow> string) \<Rightarrow> dict \<Rightarrow> exn + string" where
  "approval_record_hash H a =
     hash_obj H True (PDict (if map_of a ''consumed_at'' \<noteq> None then put a ''consumed_at'' PNone else a))"

definition policy_hash :: "(string \<Rightarrow> string) \<Rightarrow> dict \<Rightarrow> exn + string" where
  "policy_hash H p = hash_obj H True (PDict p)"

definition simulation_evidence_hash :: "(string \<Rightarrow> string) \<Rightarrow> dict \<Rightarrow> exn + string" where
  "simulation_evidence_hash H p = hash_obj H True (PDict p)"

lemma opt_json_inj [simp]: "opt_json x = opt_json y \<longleftrightarrow> x = y"
  by (auto simp: opt_json_def split: option.splits)

lemma put_put [simp]: "put (put d k v) k w = put d k w"
  by (induction d k v rule: put.induct) auto

text \<open>Objects that are equal after sorting have the same members.\<close>

lemma sort_keys_member:
  assumes "sort_keys (JObj a) = sort_keys (JObj b)"
  shows "map_option sort_keys (map_of a k) = map_option sort_keys (map_of b k)"
proof -
  have "map_of (map (\<lambda>(k, v). (k, sort_keys v)) (sort_key fst x)) k = map_option sort_keys (map_of x k)" for x
    by (simp add: map_of_map map_of_sort_key)
  moreover from assms have "map (\<lambda>(k, v). (k, sort_keys v)) (sort_key fst a) = map (\<lambda>(k, v). (k, sort_keys v)) (sort_key fst b)"
    by simp
  ultimately show ?thesis by metis
qed

text \<open>C36: an approval's fingerprint binds the evidence: with no digest collision between the two
  messages, two releases with the same fingerprint are the same release at the same strategy
  version, with the same run, receipt, report, simulation evidence, risk policy and package.\<close>

theorem evidence_fingerprint_binds:
  assumes "evidence_fingerprint H r (Some v) = evidence_fingerprint H r' (Some v')"
    and "inj_on H {dumps (sort_keys (fingerprint_json r (Some v))), dumps (sort_keys (fingerprint_json r' (Some v')))}"
  shows "rl_release_id r = rl_release_id r' \<and> rl_version_id r = rl_version_id r' \<and> rl_run_id r = rl_run_id r' \<and>
    rl_redline_receipt_hash r = rl_redline_receipt_hash r' \<and> rl_redline_report_hash r = rl_redline_report_hash r' \<and>
    rl_simulation_evidence_hash r = rl_simulation_evidence_hash r' \<and> rl_risk_policy_hash r = rl_risk_policy_hash r' \<and>
    sv_package_hash v = sv_package_hash v' \<and> sv_identity_lock_hash v = sv_identity_lock_hash v'"
proof -
  from assms(1) have "H (dumps (sort_keys (fingerprint_json r (Some v)))) = H (dumps (sort_keys (fingerprint_json r' (Some v'))))"
    by (simp add: evidence_fingerprint_def hash_json_def hash_simps)
  with assms(2) have "dumps (sort_keys (fingerprint_json r (Some v))) = dumps (sort_keys (fingerprint_json r' (Some v')))"
    by (auto dest: inj_onD)
  then have eq: "sort_keys (fingerprint_json r (Some v)) = sort_keys (fingerprint_json r' (Some v'))"
    by (rule dumps_inj [THEN iffD1])
  have o: "sort_keys (opt_json x) = opt_json x" for x by (simp add: opt_json_def split: option.split)
  note m = sort_keys_member [OF eq [unfolded fingerprint_json_def]]
  from m [of "''strategy_version''"] have "sort_keys (version_json v) = sort_keys (version_json v')"
    by (simp add: version_json_def del: sort_keys.simps)
  note n = sort_keys_member [OF this [unfolded version_json_def]]
  show ?thesis
    using m [of "''release_id''"] m [of "''version_id''"] m [of "''run_id''"] m [of "''redline_receipt_hash''"]
      m [of "''redline_report_hash''"] m [of "''simulation_evidence_hash''"] m [of "''risk_policy_hash''"]
      n [of "''package_hash''"] n [of "''identity_lock_hash''"]
    by (simp add: o)
qed

text \<open>Consuming an approval does not change its hash: the execution evidence that names the hash of
  the approval before its use still matches the stored, consumed approval.\<close>

lemma consumed_approval_same_hash:
  assumes "map_of a ''consumed_at'' \<noteq> None"
  shows "approval_record_hash H (put a ''consumed_at'' (PStr t)) = approval_record_hash H a"
  using assms by (simp add: approval_record_hash_def)

section \<open>The audit ledger\<close>

text \<open>A line of the file as \<open>json.loads\<close> sees it.\<close>

datatype json_line = Blank_Text | Invalid_Json | Json_Value pyval

definition unsafe_path_part :: "string \<Rightarrow> bool" where
  "unsafe_path_part s =
     (CHR ''/'' \<in> set s \<or> CHR 0x5C \<in> set s \<or> s \<in> {'''', ''.'', ''..''})"

definition release_dir :: "string \<Rightarrow> exn + string" where
  "release_dir rid =
     (if unsafe_path_part rid then Inl (CanonicalizationError RC_RECEIPT_BINDING_FAILED)
      else Inr (''releases/'' @ rid))"

definition release_audit_entry_hash :: "(string \<Rightarrow> string) \<Rightarrow> dict \<Rightarrow> exn + string" where
  "release_audit_entry_hash H e = hash_obj H True (entry_body e)"

fun load_audit_from :: "(string \<Rightarrow> string) \<Rightarrow> string \<Rightarrow> json_line list \<Rightarrow> exn + dict list" where
  "load_audit_from H previous [] = Inr []"
| "load_audit_from H previous (Blank_Text # ls) = load_audit_from H previous ls"
| "load_audit_from H previous (Invalid_Json # ls) = Inl (CanonicalizationError RC_PARSE_ERROR)"
| "load_audit_from H previous (Json_Value v # ls) =
     (case as_dict v of
        None \<Rightarrow> Inl AttributeError
      | Some e \<Rightarrow>
          if map_of e ''previous_entry_hash'' \<noteq> Some (PStr previous)
          then Inl (CanonicalizationError RC_RECEIPT_MISMATCH)
          else rbind (release_audit_entry_hash H e) (\<lambda>h.
                 if map_of e ''entry_hash'' \<noteq> Some (PStr h)
                 then Inl (CanonicalizationError RC_RECEIPT_MISMATCH)
                 else rbind (load_audit_from H h ls) (\<lambda>es. Inr (e # es))))"

text \<open>A ledger file that does not exist is \<open>None\<close>.\<close>

definition load_release_audit_ledger :: "(string \<Rightarrow> string) \<Rightarrow> json_line list option \<Rightarrow> exn + dict list" where
  "load_release_audit_ledger H f = (case f of None \<Rightarrow> Inr [] | Some ls \<Rightarrow> load_audit_from H genesis ls)"

definition audit_body :: "string \<Rightarrow> string \<Rightarrow> string \<Rightarrow> string \<Rightarrow> dict \<Rightarrow> string \<Rightarrow> dict" where
  "audit_body rid event_type actor now payload previous =
     [(''schema_version'', PStr ''redline.release.audit.v1''), (''release_id'', PStr rid),
      (''event_type'', PStr event_type), (''actor'', PStr actor), (''created_at'', PStr now),
      (''payload'', PDict payload), (''previous_entry_hash'', PStr previous)]"

text \<open>\<open>append_release_audit_event\<close> up to the copy that it hands to the store: the new file and the entry.\<close>

definition append_audit ::
  "(string \<Rightarrow> string) \<Rightarrow> json_line list option \<Rightarrow> string \<Rightarrow> string \<Rightarrow> string \<Rightarrow> string \<Rightarrow> dict \<Rightarrow>
   exn + (json_line list \<times> dict)" where
  "append_audit H f rid event_type actor now payload =
     rbind (release_dir rid) (\<lambda>_.
     rbind (load_release_audit_ledger H f) (\<lambda>entries.
       let body = audit_body rid event_type actor now payload (chain_tail entry_hash genesis entries)
       in rbind (release_audit_entry_hash H body) (\<lambda>h.
            let entry = body @ [(''entry_hash'', PStr h)]
            in Inr (map (\<lambda>e. Json_Value (PDict e)) (entries @ [entry]), entry))))"

lemma load_audit_chain:
  "load_audit_from H p ls = Inr es \<Longrightarrow> chain_ok H entry_msg entry_prev entry_hash p es"
proof (induction H p ls arbitrary: es rule: load_audit_from.induct)
  case (4 H p v ls)
  from "4.prems" obtain e h es' where e: "as_dict v = Some e" "map_of e ''previous_entry_hash'' = Some (PStr p)"
    "hash_obj H True (entry_body e) = Inr h" "map_of e ''entry_hash'' = Some (PStr h)"
    "load_audit_from H h ls = Inr es'" "es = e # es'"
    by (auto simp: rbind_Inr_iff release_audit_entry_hash_def split: option.splits if_splits)
  from e(3) obtain b where b: "entry_msg e = Inr b" "h = sha256_bytes H b" by (auto simp: hash_obj_msg)
  have "chain_ok H entry_msg entry_prev entry_hash h es'"
    using "4.IH" [OF e(1) _ _ _ e(5)] e(2-4) by (simp add: release_audit_entry_hash_def)
  moreover have "entry_prev e = Some p" "entry_hash e = Some h"
    using e by (simp_all add: entry_prev_def entry_text_def entry_hash_def)
  ultimately show ?case using e b by simp
qed simp_all

text \<open>What is read can be written and read again.\<close>

lemma load_audit_values:
  assumes "chain_ok H entry_msg entry_prev entry_hash p es"
    and "\<And>e. e \<in> set es \<Longrightarrow> \<exists>s. map_of e ''previous_entry_hash'' = Some (PStr s)"
  shows "load_audit_from H p (map (\<lambda>e. Json_Value (PDict e)) es) = Inr es"
  using assms
proof (induction es arbitrary: p)
  case (Cons e es)
  from Cons.prems(1) obtain b where b: "entry_msg e = Inr b" "entry_hash e = Some (sha256_bytes H b)"
    "entry_prev e = Some p" "chain_ok H entry_msg entry_prev entry_hash (sha256_bytes H b) es"
    by (auto split: sum.splits)
  from Cons.prems(2) [of e] obtain s where "map_of e ''previous_entry_hash'' = Some (PStr s)" by auto
  with b(3) have "map_of e ''previous_entry_hash'' = Some (PStr p)"
    by (simp add: entry_prev_def entry_text_def)
  moreover from b(2) have "map_of e ''entry_hash'' = Some (PStr (sha256_bytes H b))"
    by (auto simp: entry_hash_def split: option.splits pyval.splits)
  moreover from b(1) have "release_audit_entry_hash H e = Inr (sha256_bytes H b)"
    by (simp add: release_audit_entry_hash_def hash_obj_Inr entry_msg_def [symmetric])
  ultimately show ?case using Cons.IH [OF b(4)] Cons.prems(2) by simp
qed simp

lemma load_audit_prev:
  "load_audit_from H p ls = Inr es \<Longrightarrow> e \<in> set es \<Longrightarrow> \<exists>s. map_of e ''previous_entry_hash'' = Some (PStr s)"
  by (induction H p ls arbitrary: es rule: load_audit_from.induct)
    (auto simp: rbind_Inr_iff split: option.splits if_splits)

lemma append_audit_Inr:
  assumes "append_audit H f rid et actor now payload = Inr (ls, e)"
  obtains es where "load_release_audit_ledger H f = Inr es" "load_release_audit_ledger H (Some ls) = Inr (es @ [e])"
    "\<exists>h. e = audit_body rid et actor now payload (chain_tail entry_hash genesis es) @ [(''entry_hash'', PStr h)]"
proof -
  from assms obtain es h where es: "load_release_audit_ledger H f = Inr es"
    and h: "release_audit_entry_hash H (audit_body rid et actor now payload (chain_tail entry_hash genesis es)) = Inr h"
    and e: "e = audit_body rid et actor now payload (chain_tail entry_hash genesis es) @ [(''entry_hash'', PStr h)]"
    and ls: "ls = map (\<lambda>e. Json_Value (PDict e)) (es @ [e])"
    by (auto simp: append_audit_def Let_def rbind_Inr_iff)
  let ?p = "chain_tail entry_hash genesis es"
  have c: "chain_ok H entry_msg entry_prev entry_hash genesis es"
    and prev: "\<And>x. x \<in> set es \<Longrightarrow> \<exists>s. map_of x ''previous_entry_hash'' = Some (PStr s)"
    using es load_audit_chain load_audit_prev
    by (auto simp: load_release_audit_ledger_def split: option.splits)
  have body: "entry_body e = entry_body (audit_body rid et actor now payload ?p)"
    by (simp add: e entry_body_def audit_body_def)
  with h obtain b where b: "entry_msg e = Inr b" "h = sha256_bytes H b"
    by (auto simp: release_audit_entry_hash_def hash_obj_Inr entry_msg_def)
  have maps: "map_of e ''entry_hash'' = Some (PStr h)" "map_of e ''previous_entry_hash'' = Some (PStr ?p)"
    by (simp_all add: e audit_body_def)
  have "chain_ok H entry_msg entry_prev entry_hash genesis (es @ [e])"
    by (rule issuance.chain_append [OF c b(1)])
      (simp_all add: entry_hash_def entry_prev_def entry_text_def maps b(2) [symmetric])
  then have "load_audit_from H genesis (map (\<lambda>e. Json_Value (PDict e)) (es @ [e])) = Inr (es @ [e])"
    by (rule load_audit_values) (use prev maps(2) in \<open>unfold set_append list.set Un_iff, blast\<close>)
  then have "load_release_audit_ledger H (Some ls) = Inr (es @ [e])"
    by (simp add: load_release_audit_ledger_def ls del: map_append)
  with es show thesis by (rule that) (use e in blast)
qed

text \<open>A series of events appended one after the other to one ledger; the first failure ends it.\<close>

fun append_events ::
  "(string \<Rightarrow> string) \<Rightarrow> json_line list option \<Rightarrow> string \<Rightarrow> (string \<times> string \<times> string \<times> dict) list \<Rightarrow>
   exn + json_line list option" where
  "append_events H f rid [] = Inr f"
| "append_events H f rid ((et, actor, now, payload) # evs) =
     rbind (append_audit H f rid et actor now payload) (\<lambda>(ls, e). append_events H (Some ls) rid evs)"

definition event_of :: "dict \<Rightarrow> (pyval \<times> pyval \<times> pyval \<times> pyval)" where
  "event_of e = (get e ''event_type'', get e ''actor'', get e ''created_at'', get e ''payload'')"

text \<open>C24: the audit ledger is append-only and complete: after any series of appended events, from any
  readable ledger, reading the ledger gives the old entries unchanged, then exactly these events in
  this order, all of them linked into one valid hash chain.\<close>

theorem audit_append_only:
  assumes "append_events H f rid evs = Inr f'" "load_release_audit_ledger H f = Inr es"
  shows "\<exists>es'. load_release_audit_ledger H f' = Inr (es @ es') \<and>
    map event_of es' = map (\<lambda>(et, actor, now, payload). (PStr et, PStr actor, PStr now, PDict payload)) evs \<and>
    chain_ok H entry_msg entry_prev entry_hash genesis (es @ es')"
  using assms
proof (induction H f rid evs arbitrary: es rule: append_events.induct)
  case (1 H f rid)
  then have "chain_ok H entry_msg entry_prev entry_hash genesis es"
    using load_audit_chain by (auto simp: load_release_audit_ledger_def split: option.splits)
  with 1 show ?case by auto
next
  case (2 H f rid et actor now payload evs)
  from "2.prems"(1) obtain ls e where a: "append_audit H f rid et actor now payload = Inr (ls, e)"
    and r: "append_events H (Some ls) rid evs = Inr f'"
    by (auto simp: rbind_Inr_iff)
  from append_audit_Inr [OF a] obtain es0 where es0: "load_release_audit_ledger H f = Inr es0"
    "load_release_audit_ledger H (Some ls) = Inr (es0 @ [e])"
    "\<exists>h. e = audit_body rid et actor now payload (chain_tail entry_hash genesis es0) @ [(''entry_hash'', PStr h)]" .
  with "2.prems"(2) have es: "load_release_audit_ledger H (Some ls) = Inr (es @ [e])" by simp
  from es0(3) obtain h p where e: "e = audit_body rid et actor now payload p @ [(''entry_hash'', PStr h)]" by blast
  from "2.IH" [OF a refl r es] obtain es' where es': "load_release_audit_ledger H f' = Inr ((es @ [e]) @ es')"
    "map event_of es' = map (\<lambda>(et, actor, now, payload). (PStr et, PStr actor, PStr now, PDict payload)) evs"
    "chain_ok H entry_msg entry_prev entry_hash genesis ((es @ [e]) @ es')" by blast
  have "event_of e = (PStr et, PStr actor, PStr now, PDict payload)"
    by (simp add: e event_of_def audit_body_def get_def)
  with es' show ?case by (intro exI [of _ "e # es'"]) simp
qed

definition sample_version :: strategy_version where
  "sample_version =
     \<lparr> sv_version_id = ''v1'', sv_strategy_id = ''strat'', sv_package_id = None, sv_package_path = None,
       sv_package_hash = ''sha256:p'', sv_identity_lock_hash = None, sv_source_kind = Src_LOCAL, sv_metadata = [],
       sv_created_by = ''alice'', sv_created_at = ''t0'', sv_updated_at = ''t0'' \<rparr>"

theorem evidence_fingerprint_binds_witness:
  "rl_run_id (sample_release\<lparr> rl_state := Rel_APPROVED \<rparr>) = rl_run_id sample_release"
proof -
  have "evidence_fingerprint (\<lambda>m. m) (sample_release\<lparr> rl_state := Rel_APPROVED \<rparr>) (Some sample_version)
      = evidence_fingerprint (\<lambda>m. m) sample_release (Some sample_version)"
    by (simp add: evidence_fingerprint_def fingerprint_json_def)
  from evidence_fingerprint_binds [OF this] show ?thesis by simp
qed

lemma sample_append: "\<exists>ls e. append_audit H None ''rel_1'' ''approval_granted'' ''bob'' ''t1'' [] = Inr (ls, e)"
proof -
  have "plain (entry_body (audit_body ''rel_1'' ''approval_granted'' ''bob'' ''t1'' [] genesis))"
    by (simp add: entry_body_def audit_body_def)
  then obtain h where "release_audit_entry_hash H (audit_body ''rel_1'' ''approval_granted'' ''bob'' ''t1'' [] genesis) = Inr h"
    using plain_hashes unfolding release_audit_entry_hash_def by blast
  then show ?thesis
    by (simp add: append_audit_def release_dir_def unsafe_path_part_def load_release_audit_ledger_def Let_def)
qed

theorem audit_append_only_witness:
  "\<exists>f es. load_release_audit_ledger (\<lambda>m. m) f = Inr es \<and>
     map event_of es = [(PStr ''approval_granted'', PStr ''bob'', PStr ''t1'', PDict [])]"
proof -
  from sample_append obtain ls e where "append_audit (\<lambda>m. m) None ''rel_1'' ''approval_granted'' ''bob'' ''t1'' [] = Inr (ls, e)"
    by blast
  then have "append_events (\<lambda>m. m) None ''rel_1'' [(''approval_granted'', ''bob'', ''t1'', [])] = Inr (Some ls)"
    by simp
  moreover have "load_release_audit_ledger (\<lambda>m. m) None = Inr []" by (simp add: load_release_audit_ledger_def)
  ultimately obtain es' where "load_release_audit_ledger (\<lambda>m. m) (Some ls) = Inr ([] @ es')"
    "map event_of es' = map (\<lambda>(et, actor, now, payload). (PStr et, PStr actor, PStr now, PDict payload))
       [(''approval_granted'', ''bob'', ''t1'', [])]"
    using audit_append_only by blast
  then show ?thesis by (intro exI [of _ "Some ls"] exI [of _ es']) simp
qed

end
