(* ===== verification/Store.thy ===== *)
theory Store
  imports Release_Audit
begin

text \<open>
  The metadata store of the service, \<open>src/redline/service/store.py\<close>: one list of rows per table, in
  the order of insertion, and one operation per method of \<open>ServiceStore\<close>. A method is one transaction,
  so an exception leaves the store as it was. The two methods that consume an approval read before
  their guarded \<open>UPDATE\<close> opens the transaction; each is given as its two steps, which other
  connections may separate, and as their composition. \<open>ORDER BY created_at\<close> keeps the insertion
  order of rows with the same time. JSON columns hold the dictionaries that are written to them; the
  clock is the argument \<open>now\<close>. The life-cycle members of an approval are strings or \<open>None\<close>, as the
  service writes them.
\<close>

section \<open>Tables\<close>

definition first_row :: "('r \<Rightarrow> bool) \<Rightarrow> 'r list \<Rightarrow> 'r option" where
  "first_row P rows = List.find P rows"

definition update_rows :: "('r \<Rightarrow> bool) \<Rightarrow> ('r \<Rightarrow> 'r) \<Rightarrow> 'r list \<Rightarrow> 'r list" where
  "update_rows P f rows = map (\<lambda>r. if P r then f r else r) rows"

definition order_desc :: "('r \<Rightarrow> string) \<Rightarrow> 'r list \<Rightarrow> 'r list" where
  "order_desc key rows = rev (sort_key key (rev rows))"

definition or_now :: "string \<Rightarrow> string \<Rightarrow> string" where
  "or_now t now = (if t = [] then now else t)"

definition coalesce :: "'a option \<Rightarrow> 'a option \<Rightarrow> 'a option" where
  "coalesce x y = (case x of None \<Rightarrow> y | Some a \<Rightarrow> Some a)"

record release_row =
  rr_release :: release
  rr_approval_nonce :: "string option"
  rr_approval_expires_at :: "string option"
  rr_approval_consumed_at :: "string option"

record run_row =
  ru_run :: run_response
  ru_request :: run_create_request

record audit_row =
  au_release_id :: string
  au_sequence :: int
  au_event_type :: string
  au_entry :: dict
  au_previous_entry_hash :: string
  au_entry_hash :: string
  au_created_at :: string

record idempotency_row =
  id_scope :: string
  id_key :: string
  id_request_hash :: string
  id_response :: dict
  id_status_code :: int
  id_created_at :: string

record store =
  st_packages :: "package_response list"
  st_versions :: "strategy_version list"
  st_releases :: "release_row list"
  st_audit :: "audit_row list"
  st_idempotency :: "idempotency_row list"
  st_runs :: "run_row list"
  st_jobs :: "release_job list"
  st_events :: "job_event list"

section \<open>Idempotency keys, packages and strategy versions\<close>

definition get_idempotency_record :: "store \<Rightarrow> string \<Rightarrow> string \<Rightarrow> idempotency_row option" where
  "get_idempotency_record st scope key =
     first_row (\<lambda>r. id_scope r = scope \<and> id_key r = key) (st_idempotency st)"

definition put_idempotency_record ::
  "store \<Rightarrow> string \<Rightarrow> string \<Rightarrow> string \<Rightarrow> dict \<Rightarrow> int \<Rightarrow> string \<Rightarrow> store" where
  "put_idempotency_record st scope key request_hash response status_code now =
     (case get_idempotency_record st scope key of
        Some _ \<Rightarrow> st
      | None \<Rightarrow> st\<lparr> st_idempotency := st_idempotency st @
          [\<lparr> id_scope = scope, id_key = key, id_request_hash = request_hash, id_response = response,
             id_status_code = status_code, id_created_at = now \<rparr>] \<rparr>)"

definition upsert_package :: "store \<Rightarrow> package_response \<Rightarrow> store" where
  "upsert_package st p =
     st\<lparr> st_packages := filter (\<lambda>q. pk_package_id q \<noteq> pk_package_id p) (st_packages st) @ [p] \<rparr>"

definition get_package :: "store \<Rightarrow> string \<Rightarrow> package_response option" where
  "get_package st pid = first_row (\<lambda>p. pk_package_id p = pid) (st_packages st)"

definition get_strategy_version :: "store \<Rightarrow> string \<Rightarrow> strategy_version option" where
  "get_strategy_version st vid = first_row (\<lambda>v. sv_version_id v = vid) (st_versions st)"

definition create_strategy_version :: "store \<Rightarrow> strategy_version \<Rightarrow> string \<Rightarrow> exn + (strategy_version \<times> store)" where
  "create_strategy_version st v now =
     (case get_strategy_version st (sv_version_id v) of
        Some current \<Rightarrow>
          if sv_package_hash current \<noteq> sv_package_hash v then Inl ValueError else Inr (current, st)
      | None \<Rightarrow>
          (let row = v\<lparr> sv_created_at := or_now (sv_created_at v) now, sv_updated_at := or_now (sv_updated_at v) now \<rparr>;
               st' = st\<lparr> st_versions := st_versions st @ [row] \<rparr>
           in case get_strategy_version st' (sv_version_id v) of
                None \<Rightarrow> Inl RuntimeError
              | Some created \<Rightarrow> Inr (created, st')))"

definition list_strategy_versions :: "store \<Rightarrow> nat \<Rightarrow> strategy_version list" where
  "list_strategy_versions st limit = take limit (order_desc sv_created_at (st_versions st))"

section \<open>Release candidates\<close>

definition lifecycle :: "dict option \<Rightarrow> string \<Rightarrow> string option" where
  "lifecycle approval k = (case approval of None \<Rightarrow> None | Some a \<Rightarrow> as_text (get a k))"

definition release_row_of :: "release \<Rightarrow> release_row" where
  "release_row_of r =
     \<lparr> rr_release = r, rr_approval_nonce = lifecycle (rl_approval r) ''nonce'',
       rr_approval_expires_at = lifecycle (rl_approval r) ''expires_at'',
       rr_approval_consumed_at = lifecycle (rl_approval r) ''consumed_at'' \<rparr>"

definition row_id :: "release_row \<Rightarrow> string" where
  "row_id row = rl_release_id (rr_release row)"

definition release_row_at :: "store \<Rightarrow> string \<Rightarrow> release_row option" where
  "release_row_at st rid = first_row (\<lambda>row. row_id row = rid) (st_releases st)"

definition get_release_candidate :: "store \<Rightarrow> string \<Rightarrow> release option" where
  "get_release_candidate st rid = map_option rr_release (release_row_at st rid)"

definition create_release_candidate :: "store \<Rightarrow> release \<Rightarrow> string \<Rightarrow> exn + (release \<times> store)" where
  "create_release_candidate st r now =
     (case get_release_candidate st (rl_release_id r) of
        Some current \<Rightarrow>
          if rl_version_id current \<noteq> rl_version_id r \<or> rl_strategy_id current \<noteq> rl_strategy_id r
          then Inl ValueError else Inr (current, st)
      | None \<Rightarrow>
          (let row = release_row_of (r\<lparr> rl_created_at := or_now (rl_created_at r) now,
                                        rl_updated_at := or_now (rl_updated_at r) now \<rparr>);
               st' = st\<lparr> st_releases := st_releases st @ [row] \<rparr>
           in case get_release_candidate st' (rl_release_id r) of
                None \<Rightarrow> Inl RuntimeError
              | Some created \<Rightarrow> Inr (created, st')))"

definition update_release_candidate :: "store \<Rightarrow> release \<Rightarrow> string \<Rightarrow> exn + (release \<times> store)" where
  "update_release_candidate st r now =
     (let updated = r\<lparr> rl_updated_at := now \<rparr>;
          matches = (\<lambda>row. row_id row = rl_release_id r);
          st' = st\<lparr> st_releases := update_rows matches (\<lambda>_. release_row_of updated) (st_releases st) \<rparr>
      in if length (filter matches (st_releases st)) \<noteq> 1 then Inl KeyError
         else case get_release_candidate st' (rl_release_id r) of
                None \<Rightarrow> Inl RuntimeError
              | Some saved \<Rightarrow> Inr (saved, st'))"

text \<open>\<open>consume_release_approval\<close>: the read, which prepares the consumed approval, and the guarded update
  with the final read.\<close>

definition consume_read :: "store \<Rightarrow> string \<Rightarrow> string \<Rightarrow> string \<Rightarrow> dict option" where
  "consume_read st rid nonce t =
     (case get_release_candidate st rid of
        None \<Rightarrow> None
      | Some r \<Rightarrow>
          (case rl_approval r of
             None \<Rightarrow> None
           | Some a \<Rightarrow>
               if get a ''nonce'' \<noteq> PStr nonce \<or> get a ''consumed_at'' \<noteq> PNone then None
               else Some (put a ''consumed_at'' (PStr t))))"

definition consume_write :: "store \<Rightarrow> string \<Rightarrow> string \<Rightarrow> string \<Rightarrow> dict \<Rightarrow> release option \<times> store" where
  "consume_write st rid nonce t consumed =
     (let matches = (\<lambda>row. row_id row = rid \<and> rr_approval_nonce row = Some nonce \<and>
                           rr_approval_consumed_at row = None);
          st' = st\<lparr> st_releases := update_rows matches
                     (\<lambda>row. row\<lparr> rr_release := (rr_release row)\<lparr> rl_approval := Some consumed, rl_updated_at := t \<rparr>,
                                rr_approval_consumed_at := Some t \<rparr>) (st_releases st) \<rparr>
      in if length (filter matches (st_releases st)) \<noteq> 1 then (None, st')
         else (get_release_candidate st' rid, st'))"

definition consume_release_approval :: "store \<Rightarrow> string \<Rightarrow> string \<Rightarrow> string \<Rightarrow> release option \<times> store" where
  "consume_release_approval st rid nonce t =
     (case consume_read st rid nonce t of
        None \<Rightarrow> (None, st)
      | Some consumed \<Rightarrow> consume_write st rid nonce t consumed)"

text \<open>\<open>consume_release_showcase_approval\<close> guards its update with the metadata it read.\<close>

definition showcase_read :: "store \<Rightarrow> string \<Rightarrow> string \<Rightarrow> string \<Rightarrow> (dict \<times> dict) option" where
  "showcase_read st rid nonce t =
     (case get_release_candidate st rid of
        None \<Rightarrow> None
      | Some r \<Rightarrow>
          (case as_dict (get (rl_metadata r) ''showcase_approval'') of
             None \<Rightarrow> None
           | Some a \<Rightarrow>
               if get a ''nonce'' \<noteq> PStr nonce \<or> get a ''consumed_at'' \<noteq> PNone then None
               else Some (rl_metadata r,
                          put (rl_metadata r) ''showcase_approval'' (PDict (put a ''consumed_at'' (PStr t))))))"

definition showcase_write :: "store \<Rightarrow> string \<Rightarrow> string \<Rightarrow> dict \<times> dict \<Rightarrow> release option \<times> store" where
  "showcase_write st rid t seen =
     (let matches = (\<lambda>row. row_id row = rid \<and> rl_metadata (rr_release row) = fst seen);
          st' = st\<lparr> st_releases := update_rows matches
                     (\<lambda>row. row\<lparr> rr_release := (rr_release row)\<lparr> rl_metadata := snd seen, rl_updated_at := t \<rparr> \<rparr>)
                     (st_releases st) \<rparr>
      in if length (filter matches (st_releases st)) \<noteq> 1 then (None, st')
         else (get_release_candidate st' rid, st'))"

definition consume_release_showcase_approval :: "store \<Rightarrow> string \<Rightarrow> string \<Rightarrow> string \<Rightarrow> release option \<times> store" where
  "consume_release_showcase_approval st rid nonce t =
     (case showcase_read st rid nonce t of
        None \<Rightarrow> (None, st)
      | Some seen \<Rightarrow> showcase_write st rid t seen)"

definition list_release_candidates :: "store \<Rightarrow> nat \<Rightarrow> release list" where
  "list_release_candidates st limit =
     take limit (map rr_release (order_desc (\<lambda>row. rl_created_at (rr_release row)) (st_releases st)))"

definition next_sequence :: "int list \<Rightarrow> int" where
  "next_sequence xs = foldl max (-1) xs + 1"

definition append_release_audit_entry :: "store \<Rightarrow> string \<Rightarrow> dict \<Rightarrow> exn + store" where
  "append_release_audit_entry st rid entry =
     (case (map_of entry ''event_type'', map_of entry ''previous_entry_hash'', map_of entry ''entry_hash'',
            map_of entry ''created_at'') of
        (Some (PStr et), Some (PStr p), Some (PStr h), Some (PStr t)) \<Rightarrow>
          Inr (st\<lparr> st_audit := st_audit st @
            [\<lparr> au_release_id = rid,
               au_sequence = next_sequence (map au_sequence (filter (\<lambda>a. au_release_id a = rid) (st_audit st))),
               au_event_type = et, au_entry = entry, au_previous_entry_hash = p, au_entry_hash = h,
               au_created_at = t \<rparr>] \<rparr>)
      | _ \<Rightarrow> Inl KeyError)"

definition list_release_audit_entries :: "store \<Rightarrow> string \<Rightarrow> dict list" where
  "list_release_audit_entries st rid =
     map au_entry (sort_key au_sequence (filter (\<lambda>a. au_release_id a = rid) (st_audit st)))"

end
