(* ===== verification/Store_Jobs.thy ===== *)
theory Store_Jobs
  imports Store
begin

text \<open>
  The job queue, the job events and the runs of \<open>src/redline/service/store.py\<close>. Claiming and appending
  an event are one \<open>BEGIN IMMEDIATE\<close> transaction each. The events of a job form a hash chain that
  \<open>list_release_job_events\<close> checks.
\<close>

section \<open>Jobs\<close>

definition get_release_job :: "store \<Rightarrow> string \<Rightarrow> string \<Rightarrow> release_job option" where
  "get_release_job st rid jid =
     first_row (\<lambda>j. jb_release_id j = rid \<and> jb_job_id j = jid) (st_jobs st)"

definition new_job ::
  "string \<Rightarrow> string \<Rightarrow> job_type \<Rightarrow> string \<Rightarrow> dict \<Rightarrow> string option \<Rightarrow> string \<Rightarrow> string \<Rightarrow> release_job" where
  "new_job jid rid jt request_hash request idem requested_by now =
     \<lparr> jb_job_id = jid, jb_release_id = rid, jb_job_type = jt, jb_status = Job_QUEUED,
       jb_request_hash = request_hash, jb_request = request, jb_idempotency_key = idem,
       jb_requested_by = requested_by, jb_created_at = now, jb_started_at = None, jb_finished_at = None,
       jb_result = None, jb_error_code = None, jb_error_message = None \<rparr>"

definition create_release_job ::
  "store \<Rightarrow> string \<Rightarrow> string \<Rightarrow> job_type \<Rightarrow> string \<Rightarrow> dict \<Rightarrow> string option \<Rightarrow> string \<Rightarrow> string \<Rightarrow>
   exn + (release_job \<times> store)" where
  "create_release_job st jid rid jt request_hash request idem requested_by now =
     (if first_row (\<lambda>j. jb_job_id j = jid) (st_jobs st) \<noteq> None then Inl IntegrityError
      else
        let st' = st\<lparr> st_jobs := st_jobs st @ [new_job jid rid jt request_hash request idem requested_by now] \<rparr>
        in case get_release_job st' rid jid of
             None \<Rightarrow> Inl RuntimeError
           | Some j \<Rightarrow> Inr (j, st'))"

definition list_release_jobs :: "store \<Rightarrow> string \<Rightarrow> nat \<Rightarrow> release_job list" where
  "list_release_jobs st rid limit =
     take limit (order_desc jb_created_at (filter (\<lambda>j. jb_release_id j = rid) (st_jobs st)))"

definition work_item_of :: "release_job \<Rightarrow> job_work_item" where
  "work_item_of j =
     \<lparr> wi_job_id = jb_job_id j, wi_release_id = jb_release_id j, wi_job_type = jb_job_type j,
       wi_request = jb_request j, wi_requested_by = jb_requested_by j \<rparr>"

definition claim_next_release_job :: "store \<Rightarrow> string \<Rightarrow> job_work_item option \<times> store" where
  "claim_next_release_job st now =
     (case sort_key jb_created_at (filter (\<lambda>j. jb_status j = Job_QUEUED) (st_jobs st)) of
        [] \<Rightarrow> (None, st)
      | row # _ \<Rightarrow>
          (Some (work_item_of row),
           st\<lparr> st_jobs := update_rows (\<lambda>j. jb_job_id j = jb_job_id row \<and> jb_status j = Job_QUEUED)
                 (\<lambda>j. j\<lparr> jb_status := Job_RUNNING, jb_started_at := coalesce (jb_started_at j) (Some now) \<rparr>)
                 (st_jobs st) \<rparr>))"

text \<open>One \<open>UPDATE\<close> per interrupted job.\<close>

definition fail_interrupted :: "string \<Rightarrow> string \<Rightarrow> release_job list \<Rightarrow> release_job list" where
  "fail_interrupted now jid =
     update_rows (\<lambda>j. jb_job_id j = jid \<and> jb_status j = Job_RUNNING)
       (\<lambda>j. j\<lparr> jb_status := Job_FAILED, jb_finished_at := coalesce (jb_finished_at j) (Some now),
              jb_error_code := Some ''JOB_RECOVERY_REQUIRED'',
              jb_error_message := Some ''release job was interrupted before completion'' \<rparr>)"

definition recover_interrupted_release_jobs :: "store \<Rightarrow> string \<Rightarrow> release_job list \<times> store" where
  "recover_interrupted_release_jobs st now =
     (let ids = map jb_job_id (sort_key jb_created_at (filter (\<lambda>j. jb_status j = Job_RUNNING) (st_jobs st)));
          jobs' = fold (fail_interrupted now) ids (st_jobs st)
      in (concat (map (\<lambda>jid. case first_row (\<lambda>j. jb_job_id j = jid) jobs' of None \<Rightarrow> [] | Some j \<Rightarrow> [j]) ids),
          st\<lparr> st_jobs := jobs' \<rparr>))"

definition cancel_release_job :: "store \<Rightarrow> string \<Rightarrow> string \<Rightarrow> string \<Rightarrow> release_job option \<times> store" where
  "cancel_release_job st rid jid now =
     (let st' = st\<lparr> st_jobs :=
        update_rows (\<lambda>j. jb_release_id j = rid \<and> jb_job_id j = jid \<and> jb_status j = Job_QUEUED)
          (\<lambda>j. j\<lparr> jb_status := Job_CANCELLED, jb_finished_at := coalesce (jb_finished_at j) (Some now),
                 jb_error_code := Some ''JOB_CANCELLED'',
                 jb_error_message := Some ''release job cancelled before execution'' \<rparr>) (st_jobs st) \<rparr>
      in (get_release_job st' rid jid, st'))"

definition mark_release_job_status ::
  "store \<Rightarrow> string \<Rightarrow> job_status \<Rightarrow> dict option \<Rightarrow> string option \<Rightarrow> string option \<Rightarrow> string \<Rightarrow> store" where
  "mark_release_job_status st jid status result error_code error_message now =
     (let finished = (if status \<in> {Job_SUCCEEDED, Job_FAILED, Job_CANCELLED} then Some now else None)
      in st\<lparr> st_jobs := update_rows (\<lambda>j. jb_job_id j = jid)
             (\<lambda>j. j\<lparr> jb_status := status,
                    jb_started_at := (if status = Job_RUNNING then coalesce (jb_started_at j) (Some now) else jb_started_at j),
                    jb_finished_at := coalesce finished (jb_finished_at j),
                    jb_result := result, jb_error_code := error_code, jb_error_message := error_message \<rparr>)
             (st_jobs st) \<rparr>)"

section \<open>Job events\<close>

definition event_fields :: "job_event \<Rightarrow> dict" where
  "event_fields e =
     [(''event_id'', PStr (ev_event_id e)), (''job_id'', PStr (ev_job_id e)), (''release_id'', PStr (ev_release_id e)),
      (''sequence'', PInt (ev_sequence e)), (''event_type'', PStr (ev_event_type e)),
      (''payload'', PDict (ev_payload e)), (''created_at'', PStr (ev_created_at e)),
      (''previous_event_hash'', PStr (ev_previous_event_hash e))]"

text \<open>The row with the highest sequence of a job.\<close>

definition last_event :: "store \<Rightarrow> string \<Rightarrow> job_event option" where
  "last_event st jid =
     (case sort_key (\<lambda>e. - ev_sequence e) (filter (\<lambda>e. ev_job_id e = jid) (st_events st)) of [] \<Rightarrow> None | e # _ \<Rightarrow> Some e)"

definition event_id_for :: "(string \<Rightarrow> string) \<Rightarrow> string \<Rightarrow> int \<Rightarrow> string \<Rightarrow> string" where
  "event_id_for H jid sequence created_at =
     ''evt_'' @ take 24 (removeprefix (hash_json H (JObj [(''job_id'', JStr jid), (''sequence'', JInt sequence),
                                                          (''created_at'', JStr created_at)])) ''sha256:'')"

definition append_release_job_event ::
  "(string \<Rightarrow> string) \<Rightarrow> store \<Rightarrow> string \<Rightarrow> string \<Rightarrow> string \<Rightarrow> dict \<Rightarrow> string \<Rightarrow> exn + (job_event \<times> store)" where
  "append_release_job_event H st rid jid event_type payload now =
     (let sequence = (case last_event st jid of None \<Rightarrow> 0 | Some e \<Rightarrow> ev_sequence e + 1);
          previous = (case last_event st jid of None \<Rightarrow> genesis | Some e \<Rightarrow> ev_event_hash e);
          event = \<lparr> ev_event_id = event_id_for H jid sequence now, ev_job_id = jid, ev_release_id = rid,
                    ev_sequence = sequence, ev_event_type = event_type, ev_payload = payload,
                    ev_created_at = now, ev_previous_event_hash = previous, ev_event_hash = '''' \<rparr>
      in rbind (hash_obj H True (PDict (event_fields event))) (\<lambda>h.
           let row = event\<lparr> ev_event_hash := h \<rparr>
           in if first_row (\<lambda>e. ev_event_id e = ev_event_id row \<or>
                                (ev_job_id e = jid \<and> ev_sequence e = sequence)) (st_events st) \<noteq> None
              then Inl IntegrityError
              else Inr (row, st\<lparr> st_events := st_events st @ [row] \<rparr>)))"

fun validate_events_from :: "(string \<Rightarrow> string) \<Rightarrow> int \<Rightarrow> string \<Rightarrow> job_event list \<Rightarrow> exn + unit" where
  "validate_events_from H expected previous [] = Inr ()"
| "validate_events_from H expected previous (e # es) =
     (if ev_sequence e \<noteq> expected \<or> ev_previous_event_hash e \<noteq> previous
      then Inl (CanonicalizationError RC_RECEIPT_MISMATCH)
      else rbind (hash_obj H True (PDict (event_fields e))) (\<lambda>h.
             if ev_event_hash e \<noteq> h then Inl (CanonicalizationError RC_RECEIPT_MISMATCH)
             else validate_events_from H (expected + 1) (ev_event_hash e) es))"

definition validate_release_job_event_chain :: "(string \<Rightarrow> string) \<Rightarrow> job_event list \<Rightarrow> exn + unit" where
  "validate_release_job_event_chain H es = validate_events_from H 0 genesis es"

definition list_release_job_events :: "(string \<Rightarrow> string) \<Rightarrow> store \<Rightarrow> string \<Rightarrow> string \<Rightarrow> exn + job_event list" where
  "list_release_job_events H st rid jid =
     (let events = sort_key ev_sequence (filter (\<lambda>e. ev_release_id e = rid \<and> ev_job_id e = jid) (st_events st))
      in rbind (validate_release_job_event_chain H events) (\<lambda>_. Inr events))"

section \<open>Runs\<close>

definition get_run_row :: "store \<Rightarrow> string \<Rightarrow> run_row option" where
  "get_run_row st rid = first_row (\<lambda>r. rn_run_id (ru_run r) = rid) (st_runs st)"

definition get_run :: "store \<Rightarrow> string \<Rightarrow> run_response option" where
  "get_run st rid = map_option ru_run (get_run_row st rid)"

definition new_run :: "string \<Rightarrow> string \<Rightarrow> run_create_request \<Rightarrow> string \<Rightarrow> string \<Rightarrow> string \<Rightarrow> run_response" where
  "new_run rid request_id rq package_path out_dir now =
     \<lparr> rn_run_id = rid, rn_state = Run_QUEUED, rn_request_id = request_id, rn_package_id = rq_package_id rq,
       rn_package_path = package_path, rn_baseline = rq_baseline rq, rn_candidate = rq_candidate rq,
       rn_suite_path = rq_suite_path rq, rn_spec_path = rq_spec_path rq,
       rn_baseline_receipt_path = rq_baseline_receipt_path rq,
       rn_baseline_trust_policy_path = rq_baseline_trust_policy_path rq,
       rn_baseline_version_id = rq_baseline_version_id rq, rn_candidate_version_id = rq_candidate_version_id rq,
       rn_out_dir = out_dir, rn_reason_code = None, rn_envelope_status = None, rn_package_hash = None,
       rn_receipt_hash = None, rn_report_hash = None, rn_artifact_manifest = None, rn_error_code = None,
       rn_error_message = None, rn_created_at = now, rn_updated_at = now, rn_started_at = None,
       rn_completed_at = None \<rparr>"

definition create_run ::
  "store \<Rightarrow> string \<Rightarrow> string \<Rightarrow> run_create_request \<Rightarrow> string \<Rightarrow> string \<Rightarrow> string \<Rightarrow> exn + (run_response \<times> store)" where
  "create_run st rid request_id rq package_path out_dir now =
     (if get_run_row st rid \<noteq> None then Inl IntegrityError
      else
        let st' = st\<lparr> st_runs := st_runs st @
                    [\<lparr> ru_run = new_run rid request_id rq package_path out_dir now, ru_request = rq \<rparr>] \<rparr>
        in case get_run st' rid of None \<Rightarrow> Inl RuntimeError | Some r \<Rightarrow> Inr (r, st'))"

definition update_run :: "store \<Rightarrow> string \<Rightarrow> (run_response \<Rightarrow> run_response) \<Rightarrow> store" where
  "update_run st rid f =
     st\<lparr> st_runs := update_rows (\<lambda>r. rn_run_id (ru_run r) = rid) (\<lambda>r. r\<lparr> ru_run := f (ru_run r) \<rparr>) (st_runs st) \<rparr>"

definition mark_running :: "store \<Rightarrow> string \<Rightarrow> string \<Rightarrow> store" where
  "mark_running st rid now =
     update_run st rid (\<lambda>r. r\<lparr> rn_state := Run_RUNNING, rn_started_at := Some now, rn_updated_at := now \<rparr>)"

definition mark_completed ::
  "store \<Rightarrow> string \<Rightarrow> run_state \<Rightarrow> string \<Rightarrow> string \<Rightarrow> string option \<Rightarrow> string option \<Rightarrow> string option \<Rightarrow>
   artifact_manifest \<Rightarrow> string \<Rightarrow> store" where
  "mark_completed st rid state reason envelope package_hash receipt_hash report_hash manifest now =
     update_run st rid (\<lambda>r. r\<lparr> rn_state := state, rn_reason_code := Some reason, rn_envelope_status := Some envelope,
       rn_package_hash := package_hash, rn_receipt_hash := receipt_hash, rn_report_hash := report_hash,
       rn_artifact_manifest := Some manifest, rn_completed_at := Some now, rn_updated_at := now,
       rn_error_code := None, rn_error_message := None \<rparr>)"

definition update_artifact_manifest :: "store \<Rightarrow> string \<Rightarrow> artifact_manifest \<Rightarrow> string \<Rightarrow> store" where
  "update_artifact_manifest st rid manifest now =
     update_run st rid (\<lambda>r. r\<lparr> rn_artifact_manifest := Some manifest, rn_updated_at := now \<rparr>)"

definition mark_error :: "store \<Rightarrow> string \<Rightarrow> string \<Rightarrow> string \<Rightarrow> string \<Rightarrow> store" where
  "mark_error st rid error_code message now =
     update_run st rid (\<lambda>r. r\<lparr> rn_state := Run_ERROR, rn_error_code := Some error_code,
       rn_error_message := Some message, rn_completed_at := Some now, rn_updated_at := now \<rparr>)"

definition run_work_item_of :: "run_row \<Rightarrow> run_work_item" where
  "run_work_item_of row =
     \<lparr> rw_run_id = rn_run_id (ru_run row), rw_request_id = rn_request_id (ru_run row), rw_request = ru_request row,
       rw_package_path = rn_package_path (ru_run row), rw_out_dir = rn_out_dir (ru_run row) \<rparr>"

definition claim_next_run :: "store \<Rightarrow> string \<Rightarrow> run_work_item option \<times> store" where
  "claim_next_run st now =
     (case sort_key (\<lambda>r. rn_created_at (ru_run r)) (filter (\<lambda>r. rn_state (ru_run r) = Run_QUEUED) (st_runs st)) of
        [] \<Rightarrow> (None, st)
      | row # _ \<Rightarrow>
          (let st' = update_run st (rn_run_id (ru_run row))
                       (\<lambda>r. r\<lparr> rn_state := Run_RUNNING, rn_started_at := coalesce (rn_started_at r) (Some now),
                              rn_updated_at := now \<rparr>)
           in (map_option run_work_item_of (get_run_row st' (rn_run_id (ru_run row))), st')))"

definition requeue_interrupted_runs :: "store \<Rightarrow> string \<Rightarrow> nat \<times> store" where
  "requeue_interrupted_runs st now =
     (let running = (\<lambda>r. rn_state (ru_run r) = Run_RUNNING)
      in (length (filter running (st_runs st)),
          st\<lparr> st_runs := update_rows running
                (\<lambda>r. r\<lparr> ru_run := (ru_run r)\<lparr> rn_state := Run_QUEUED, rn_updated_at := now \<rparr> \<rparr>) (st_runs st) \<rparr>))"

definition list_runs :: "store \<Rightarrow> nat \<Rightarrow> run_response list" where
  "list_runs st limit = take limit (map ru_run (order_desc (\<lambda>r. rn_created_at (ru_run r)) (st_runs st)))"

definition count_packages :: "store \<Rightarrow> nat" where
  "count_packages st = length (st_packages st)"

definition count_runs :: "store \<Rightarrow> run_state list option \<Rightarrow> nat" where
  "count_runs st states =
     (case states of
        None \<Rightarrow> length (st_runs st)
      | Some ss \<Rightarrow> if ss = [] then 0 else length (filter (\<lambda>r. rn_state (ru_run r) \<in> set ss) (st_runs st)))"

definition prune_runs_before :: "store \<Rightarrow> string \<Rightarrow> string list \<times> store" where
  "prune_runs_before st cutoff =
     (let old = filter (\<lambda>r. rn_state (ru_run r) \<in> {Run_PASS, Run_FAIL, Run_AMBER, Run_ERROR} \<and>
                            rn_updated_at (ru_run r) < cutoff) (st_runs st);
          ids = map (\<lambda>r. rn_run_id (ru_run r)) old
      in (map (\<lambda>r. rn_out_dir (ru_run r)) old,
          st\<lparr> st_runs := filter (\<lambda>r. rn_run_id (ru_run r) \<notin> set ids) (st_runs st) \<rparr>))"

end
