(* ===== verification/Store_Facts.thy ===== *)
theory Store_Facts
  imports Store_Jobs
begin

text \<open>
  What the store promises. Primary keys stay unique under every operation; a release, a job or a run
  that is looked up after an update is the updated row. The locale \<open>work_queue\<close> is the interface that
  the workers use: claiming takes the oldest pending item and leaves the others, and draining such a
  queue returns every pending item once, in order. It is interpreted on the job queue and on the run
  queue of the store. The last part is about approvals: however consumers interleave, an approval is
  consumed at most once.
\<close>

section \<open>Rows\<close>

lemma first_row_Some: "first_row P rows = Some r \<Longrightarrow> r \<in> set rows \<and> P r"
  by (auto simp: first_row_def find_Some_iff)

lemma first_row_None: "first_row P rows = None \<longleftrightarrow> (\<forall>r \<in> set rows. \<not> P r)"
  by (auto simp: first_row_def find_None_iff)

lemma first_row_append [simp]:
  "first_row P (xs @ ys) = (case first_row P xs of None \<Rightarrow> first_row P ys | Some r \<Rightarrow> Some r)"
  by (induction xs) (auto simp: first_row_def)

lemma first_row_Nil [simp]: "first_row P [] = None"
  by (simp add: first_row_def)

lemma first_row_Cons [simp]: "first_row P (r # rows) = (if P r then Some r else first_row P rows)"
  by (simp add: first_row_def)

text \<open>An update that keeps the key.\<close>

lemma first_row_update:
  assumes "\<And>r. P r \<Longrightarrow> key (f r) = key r"
  shows "first_row (\<lambda>r. key r = k) (update_rows P f rows) =
    map_option (\<lambda>r. if P r then f r else r) (first_row (\<lambda>r. key r = k) rows)"
  by (induction rows) (auto simp: update_rows_def assms)

lemma map_key_update:
  assumes "\<And>r. P r \<Longrightarrow> key (f r) = key r"
  shows "map key (update_rows P f rows) = map key rows"
  by (induction rows) (auto simp: update_rows_def assms)

lemma set_update_rows: "set (update_rows P f rows) = (\<lambda>r. if P r then f r else r) ` set rows"
  by (simp add: update_rows_def)

lemma filter_key_unique:
  assumes "distinct (map key rows)"
  shows "filter (\<lambda>r. key r = k) rows = (case first_row (\<lambda>r. key r = k) rows of None \<Rightarrow> [] | Some r \<Rightarrow> [r])"
  using assms
proof (induction rows)
  case (Cons r rows)
  show ?case
  proof (cases "key r = k")
    case True
    with Cons.prems have "k \<notin> key ` set rows" by simp
    then have "filter (\<lambda>r. key r = k) rows = []" by (auto simp: filter_empty_conv)
    with True show ?thesis by simp
  qed (use Cons in simp)
qed simp

lemma unique_row:
  "distinct (map key rows) \<Longrightarrow> r \<in> set rows \<Longrightarrow> r' \<in> set rows \<Longrightarrow> key r = key r' \<Longrightarrow> r = r'"
  by (auto simp: distinct_map inj_on_def)

lemma first_row_key:
  "distinct (map key rows) \<Longrightarrow> r \<in> set rows \<Longrightarrow> first_row (\<lambda>x. key x = key r) rows = Some r"
  by (induction rows) auto

section \<open>Unique keys\<close>

definition store_ok :: "store \<Rightarrow> bool" where
  "store_ok st \<longleftrightarrow>
     distinct (map pk_package_id (st_packages st)) \<and> distinct (map sv_version_id (st_versions st)) \<and>
     distinct (map row_id (st_releases st)) \<and>
     distinct (map (\<lambda>a. (au_release_id a, au_sequence a)) (st_audit st)) \<and>
     distinct (map (\<lambda>r. (id_scope r, id_key r)) (st_idempotency st)) \<and>
     distinct (map (\<lambda>r. rn_run_id (ru_run r)) (st_runs st)) \<and> distinct (map jb_job_id (st_jobs st)) \<and>
     distinct (map ev_event_id (st_events st)) \<and>
     distinct (map (\<lambda>e. (ev_job_id e, ev_sequence e)) (st_events st))"

lemma empty_store_ok: "store_ok \<lparr> st_packages = [], st_versions = [], st_releases = [], st_audit = [],
    st_idempotency = [], st_runs = [], st_jobs = [], st_events = [] \<rparr>"
  by (simp add: store_ok_def)

lemma row_id_release_row_of [simp]: "row_id (release_row_of r) = rl_release_id r"
  by (simp add: row_id_def release_row_of_def)

lemma get_release_eq_row: "get_release_candidate st rid = map_option rr_release (first_row (\<lambda>row. row_id row = rid) (st_releases st))"
  by (simp add: get_release_candidate_def release_row_at_def)

lemma update_release_row_ids:
  "map row_id (update_rows (\<lambda>row. row_id row = rl_release_id r) (\<lambda>_. release_row_of r) rows) = map row_id rows"
  by (rule map_key_update) simp

lemma update_release_Inr:
  assumes "update_release_candidate st r now = Inr (saved, st')"
  shows "saved = r\<lparr> rl_updated_at := now \<rparr>" "get_release_candidate st' (rl_release_id r) = Some saved"
    "rid \<noteq> rl_release_id r \<Longrightarrow> get_release_candidate st' rid = get_release_candidate st rid"
    "get_release_candidate st (rl_release_id r) \<noteq> None"
    "st' = st\<lparr> st_releases := update_rows (\<lambda>row. row_id row = rl_release_id r)
              (\<lambda>_. release_row_of (r\<lparr> rl_updated_at := now \<rparr>)) (st_releases st) \<rparr>"
proof -
  let ?r = "r\<lparr> rl_updated_at := now \<rparr>"
  let ?rows = "update_rows (\<lambda>row. row_id row = rl_release_id r) (\<lambda>_. release_row_of ?r) (st_releases st)"
  from assms have st': "st' = st\<lparr> st_releases := ?rows \<rparr>"
    and one: "length (filter (\<lambda>row. row_id row = rl_release_id r) (st_releases st)) = 1"
    and g: "get_release_candidate st' (rl_release_id r) = Some saved"
    by (auto simp: update_release_candidate_def Let_def split: if_splits option.splits)
  show "st' = st\<lparr> st_releases := ?rows \<rparr>" by (rule st')
  show "get_release_candidate st' (rl_release_id r) = Some saved" by (rule g)
  have f: "first_row (\<lambda>row. row_id row = k) ?rows =
      map_option (\<lambda>row. if row_id row = rl_release_id r then release_row_of ?r else row)
        (first_row (\<lambda>row. row_id row = k) (st_releases st))" for k
    by (rule first_row_update) simp
  show "get_release_candidate st (rl_release_id r) \<noteq> None"
    using g by (auto simp: get_release_eq_row st' f)
  from g obtain row where row: "first_row (\<lambda>row. row_id row = rl_release_id r) (st_releases st) = Some row"
    "saved = rr_release (if row_id row = rl_release_id r then release_row_of ?r else row)"
    by (auto simp: get_release_eq_row st' f)
  from first_row_Some [OF row(1)] row(2) show "saved = ?r" by (simp add: release_row_of_def)
  show "rid \<noteq> rl_release_id r \<Longrightarrow> get_release_candidate st' rid = get_release_candidate st rid"
    by (cases "first_row (\<lambda>row. row_id row = rid) (st_releases st)")
      (use first_row_Some in \<open>fastforce simp: get_release_eq_row st' f\<close>)+
qed

section \<open>Work queues\<close>

text \<open>A worker claims until the queue is empty or its fuel is gone (\<open>_drain_queue\<close>,
  \<open>_drain_release_jobs\<close>); the work on an item does not add items here.\<close>

fun drain :: "('st \<Rightarrow> string \<Rightarrow> 'w option \<times> 'st) \<Rightarrow> nat \<Rightarrow> string \<Rightarrow> 'st \<Rightarrow> 'w list \<times> 'st" where
  "drain claim 0 now st = ([], st)"
| "drain claim (Suc n) now st =
     (case claim st now of
        (None, st') \<Rightarrow> ([], st')
      | (Some w, st') \<Rightarrow> (let (ws, st'') = drain claim n now st' in (w # ws, st'')))"

locale work_queue =
  fixes ok :: "'st \<Rightarrow> bool"
    and pending :: "'st \<Rightarrow> string list"
    and claim :: "'st \<Rightarrow> string \<Rightarrow> 'w option \<times> 'st"
    and ident :: "'w \<Rightarrow> string"
  assumes claim_next: "ok st \<Longrightarrow> pending st = i # is \<Longrightarrow>
      \<exists>w st'. claim st now = (Some w, st') \<and> ident w = i \<and> pending st' = is \<and> ok st'"
    and claim_empty: "ok st \<Longrightarrow> pending st = [] \<Longrightarrow> claim st now = (None, st)"
    and pending_distinct: "ok st \<Longrightarrow> distinct (pending st)"
begin

lemma drain_all:
  "ok st \<Longrightarrow> length (pending st) < n \<Longrightarrow>
   \<exists>ws st'. drain claim n now st = (ws, st') \<and> map ident ws = pending st \<and> pending st' = [] \<and> ok st'"
proof (induction n arbitrary: st)
  case (Suc n)
  show ?case
  proof (cases "pending st")
    case Nil
    then show ?thesis using claim_empty [OF Suc.prems(1) Nil, of now] Suc.prems(1) by simp
  next
    case (Cons i is')
    from claim_next [OF Suc.prems(1) Cons, of now] obtain w st1 where
      c: "claim st now = (Some w, st1)" "ident w = i" "pending st1 = is'" "ok st1" by blast
    with Suc.prems(2) Cons have "length (pending st1) < n" by simp
    from Suc.IH [OF c(4) this] obtain ws st2 where
      "drain claim n now st1 = (ws, st2)" "map ident ws = pending st1" "pending st2 = []" "ok st2" by blast
    with c Cons show ?thesis by simp
  qed
qed simp

lemma drain_once: "ok st \<Longrightarrow> length (pending st) < n \<Longrightarrow> distinct (map ident (fst (drain claim n now st)))"
  using drain_all [of st n now] pending_distinct [of st] by auto

end

definition pending_jobs :: "store \<Rightarrow> string list" where
  "pending_jobs st = map jb_job_id (sort_key jb_created_at (filter (\<lambda>j. jb_status j = Job_QUEUED) (st_jobs st)))"

definition pending_runs :: "store \<Rightarrow> string list" where
  "pending_runs st =
     map (\<lambda>r. rn_run_id (ru_run r))
       (sort_key (\<lambda>r. rn_created_at (ru_run r)) (filter (\<lambda>r. rn_state (ru_run r) = Run_QUEUED) (st_runs st)))"

text \<open>Taking the row with a key out of the rows that satisfy a predicate.\<close>

lemma sort_key_tail:
  assumes "sort_key g xs = y # ys" "distinct (map key xs)"
  shows "sort_key g (filter (\<lambda>x. key x \<noteq> key y) xs) = ys"
proof -
  have set: "set (y # ys) = set xs" by (metis assms(1) set_sort)
  have "distinct (map key (sort_key g xs))" using assms(2) by (simp add: distinct_map)
  then have "distinct (map key (y # ys))" by (simp only: assms(1))
  then have k: "key y \<notin> key ` set ys" by simp
  have "sort_key g (filter (\<lambda>x. key x \<noteq> key y) xs) = filter (\<lambda>x. key x \<noteq> key y) (sort_key g xs)"
    by (simp add: filter_sort)
  also have "\<dots> = ys" using k by (simp add: assms(1)) (metis (mono_tags, lifting) filter_True image_eqI)
  finally show ?thesis .
qed

lemma filter_update_out:
  assumes "\<And>r. P r \<Longrightarrow> key (f r) = key r" "\<And>r. Q r \<Longrightarrow> \<not> Q (f r)" "\<And>r. P r \<longleftrightarrow> key r = k \<and> Q r"
  shows "filter Q (update_rows P f rows) = filter (\<lambda>r. key r \<noteq> k) (filter Q rows)"
  using assms(2,3) by (induction rows) (auto simp: update_rows_def)

lemma distinct_map_filter: "distinct (map key rows) \<Longrightarrow> distinct (map key (filter P rows))"
  by (simp add: distinct_map inj_on_def)

interpretation job_queue: work_queue store_ok pending_jobs claim_next_release_job wi_job_id
proof
  fix st i is' now
  assume ok: "store_ok st" and p: "pending_jobs st = i # is'"
  let ?q = "filter (\<lambda>j. jb_status j = Job_QUEUED) (st_jobs st)"
  from p obtain row rest where s: "sort_key jb_created_at ?q = row # rest" "i = jb_job_id row" "is' = map jb_job_id rest"
    by (auto simp: pending_jobs_def)
  let ?P = "\<lambda>j. jb_job_id j = jb_job_id row \<and> jb_status j = Job_QUEUED"
  let ?f = "\<lambda>j. j\<lparr> jb_status := Job_RUNNING, jb_started_at := coalesce (jb_started_at j) (Some now) \<rparr>"
  let ?st = "st\<lparr> st_jobs := update_rows ?P ?f (st_jobs st) \<rparr>"
  have keys: "map jb_job_id (update_rows ?P ?f (st_jobs st)) = map jb_job_id (st_jobs st)"
    by (rule map_key_update) simp
  from ok have d: "distinct (map jb_job_id ?q)" by (simp add: store_ok_def distinct_map_filter)
  have "filter (\<lambda>j. jb_status j = Job_QUEUED) (update_rows ?P ?f (st_jobs st)) = filter (\<lambda>j. jb_job_id j \<noteq> jb_job_id row) ?q"
    by (rule filter_update_out) auto
  then have "pending_jobs ?st = is'" using sort_key_tail [OF s(1) d] by (simp add: pending_jobs_def s(3))
  moreover have "store_ok ?st" using ok keys by (simp add: store_ok_def)
  moreover have "claim_next_release_job st now = (Some (work_item_of row), ?st)"
    by (simp add: claim_next_release_job_def s(1))
  ultimately show "\<exists>w st'. claim_next_release_job st now = (Some w, st') \<and> wi_job_id w = i \<and> pending_jobs st' = is' \<and> store_ok st'"
    by (simp add: work_item_of_def s(2))
next
  fix st now
  assume "store_ok st" "pending_jobs st = []"
  then show "claim_next_release_job st now = (None, st)"
    by (simp add: claim_next_release_job_def pending_jobs_def)
next
  fix st
  assume "store_ok st"
  then have "distinct (map jb_job_id (filter (\<lambda>j. jb_status j = Job_QUEUED) (st_jobs st)))"
    by (simp add: store_ok_def distinct_map_filter)
  then show "distinct (pending_jobs st)"
    unfolding pending_jobs_def by (simp add: distinct_map)
qed

lemma update_run_keys [simp]:
  assumes "\<And>r. rn_run_id (f r) = rn_run_id r"
  shows "map (\<lambda>r. rn_run_id (ru_run r)) (st_runs (update_run st rid f)) = map (\<lambda>r. rn_run_id (ru_run r)) (st_runs st)"
  unfolding update_run_def by (simp, rule map_key_update) (simp add: assms)

lemma store_ok_update_run:
  assumes "store_ok st" "\<And>r. rn_run_id (f r) = rn_run_id r"
  shows "store_ok (update_run st rid f)"
  using assms(1) update_run_keys [of f st rid, OF assms(2)] by (simp add: store_ok_def) (simp add: update_run_def)

lemma get_run_row_update:
  assumes "\<And>r. rn_run_id (f r) = rn_run_id r"
  shows "get_run_row (update_run st rid f) k =
    map_option (\<lambda>r. if rn_run_id (ru_run r) = rid then r\<lparr> ru_run := f (ru_run r) \<rparr> else r) (get_run_row st k)"
  unfolding get_run_row_def update_run_def by (simp, rule first_row_update) (simp add: assms)

interpretation run_queue: work_queue store_ok pending_runs claim_next_run rw_run_id
proof
  fix st i is' now
  assume ok: "store_ok st" and p: "pending_runs st = i # is'"
  let ?k = "\<lambda>r. rn_run_id (ru_run r)"
  let ?Q = "\<lambda>r. rn_state (ru_run r) = Run_QUEUED"
  let ?q = "filter ?Q (st_runs st)"
  from p obtain row rest where s: "sort_key (\<lambda>r. rn_created_at (ru_run r)) ?q = row # rest" "i = ?k row" "is' = map ?k rest"
    by (auto simp: pending_runs_def)
  let ?f = "\<lambda>r. r\<lparr> rn_state := Run_RUNNING, rn_started_at := coalesce (rn_started_at r) (Some now), rn_updated_at := now \<rparr>"
  let ?st = "update_run st (?k row) ?f"
  have row: "row \<in> set ?q" by (metis list.set_intros(1) s(1) set_sort)
  from ok have d: "distinct (map ?k (st_runs st))" by (simp add: store_ok_def)
  have "update_rows (\<lambda>r. ?k r = ?k row) (\<lambda>r. r\<lparr> ru_run := ?f (ru_run r) \<rparr>) (st_runs st)
      = update_rows (\<lambda>r. ?k r = ?k row \<and> ?Q r) (\<lambda>r. r\<lparr> ru_run := ?f (ru_run r) \<rparr>) (st_runs st)"
  proof -
    have "?Q r" if "r \<in> set (st_runs st)" "?k r = ?k row" for r
      using unique_row [OF d that(1), of row] that row by simp
    then show ?thesis by (auto simp: update_rows_def)
  qed
  moreover have "filter ?Q (update_rows (\<lambda>r. ?k r = ?k row \<and> ?Q r) (\<lambda>r. r\<lparr> ru_run := ?f (ru_run r) \<rparr>) (st_runs st))
      = filter (\<lambda>r. ?k r \<noteq> ?k row) ?q"
    by (rule filter_update_out) auto
  ultimately have "filter ?Q (st_runs ?st) = filter (\<lambda>r. ?k r \<noteq> ?k row) ?q" by (simp add: update_run_def)
  then have "pending_runs ?st = is'"
    using sort_key_tail [OF s(1) distinct_map_filter [OF d]] by (simp add: pending_runs_def s(3))
  moreover have "store_ok ?st" by (rule store_ok_update_run [OF ok]) simp
  moreover have "get_run_row st (?k row) = Some row"
    unfolding get_run_row_def by (rule first_row_key [OF d]) (use row in simp)
  then have "get_run_row ?st (?k row) = Some (row\<lparr> ru_run := ?f (ru_run row) \<rparr>)"
    by (simp add: get_run_row_update)
  ultimately show "\<exists>w st'. claim_next_run st now = (Some w, st') \<and> rw_run_id w = i \<and> pending_runs st' = is' \<and> store_ok st'"
    by (simp add: claim_next_run_def s run_work_item_of_def Let_def)
next
  fix st now
  assume "store_ok st" "pending_runs st = []"
  then show "claim_next_run st now = (None, st)"
    by (simp add: claim_next_run_def pending_runs_def)
next
  fix st
  assume "store_ok st"
  then have "distinct (map (\<lambda>r. rn_run_id (ru_run r)) (filter (\<lambda>r. rn_state (ru_run r) = Run_QUEUED) (st_runs st)))"
    by (simp add: store_ok_def distinct_map_filter)
  then show "distinct (pending_runs st)"
    unfolding pending_runs_def by (simp add: distinct_map)
qed

text \<open>C25: the job queue hands out every queued job exactly once, oldest first: draining it with fuel above
  the number of queued jobs returns their ids in the order of creation, without repetition, and
  leaves no queued job. The run queue does the same.\<close>

theorem queues_drained:
  assumes "store_ok st" "length (pending_jobs st) < n" "length (pending_runs st) < m"
  shows "map wi_job_id (fst (drain claim_next_release_job n now st)) = pending_jobs st \<and>
    pending_jobs (snd (drain claim_next_release_job n now st)) = [] \<and>
    map rw_run_id (fst (drain claim_next_run m now st)) = pending_runs st \<and>
    pending_runs (snd (drain claim_next_run m now st)) = [] \<and>
    distinct (pending_jobs st) \<and> distinct (pending_runs st)"
  using job_queue.drain_all [OF assms(1,2), of now] run_queue.drain_all [OF assms(1,3), of now]
    job_queue.pending_distinct [OF assms(1)] run_queue.pending_distinct [OF assms(1)]
  by auto

section \<open>Approvals\<close>

text \<open>Consumers on connections of their own: a step is the read or the guarded write of one client.\<close>

datatype consumer_step = Read_Approval nat string string string | Write_Approval nat

type_synonym pending_writes = "nat \<Rightarrow> (string \<times> string \<times> string \<times> dict) option"

fun run_consumers :: "store \<Rightarrow> pending_writes \<Rightarrow> consumer_step list \<Rightarrow> string list" where
  "run_consumers st pend [] = []"
| "run_consumers st pend (Read_Approval c rid nonce t # steps) =
     run_consumers st (pend(c := map_option (\<lambda>d. (rid, nonce, t, d)) (consume_read st rid nonce t))) steps"
| "run_consumers st pend (Write_Approval c # steps) =
     (case pend c of
        None \<Rightarrow> run_consumers st pend steps
      | Some (rid, nonce, t, d) \<Rightarrow>
          (case consume_write st rid nonce t d of
             (None, st') \<Rightarrow> run_consumers st' (pend(c := None)) steps
           | (Some r, st') \<Rightarrow> rid # run_consumers st' (pend(c := None)) steps))"

definition approval_consumed :: "store \<Rightarrow> string \<Rightarrow> bool" where
  "approval_consumed st rid = (\<exists>row \<in> set (st_releases st). row_id row = rid \<and> rr_approval_consumed_at row \<noteq> None)"

lemma consume_write_cases:
  assumes "store_ok st" "consume_write st rid nonce t d = (res, st')"
  shows "store_ok st' \<and> (\<forall>x. approval_consumed st x \<longrightarrow> approval_consumed st' x) \<and>
    (res \<noteq> None \<longrightarrow> \<not> approval_consumed st rid \<and> approval_consumed st' rid)"
proof -
  let ?P = "\<lambda>row. row_id row = rid \<and> rr_approval_nonce row = Some nonce \<and> rr_approval_consumed_at row = None"
  let ?f = "\<lambda>row. row\<lparr> rr_release := (rr_release row)\<lparr> rl_approval := Some d, rl_updated_at := t \<rparr>,
                      rr_approval_consumed_at := Some t \<rparr>"
  have st': "st' = st\<lparr> st_releases := update_rows ?P ?f (st_releases st) \<rparr>"
    and res: "res \<noteq> None \<longrightarrow> length (filter ?P (st_releases st)) = 1"
    using assms(2) by (auto simp: consume_write_def Let_def split: if_splits)
  have keys: "map row_id (update_rows ?P ?f (st_releases st)) = map row_id (st_releases st)"
    by (rule map_key_update) (simp add: row_id_def)
  from assms(1) keys have "store_ok st'" by (simp add: store_ok_def st')
  moreover have "approval_consumed st' x" if x: "approval_consumed st x" for x
  proof -
    from x obtain row where row: "row \<in> set (st_releases st)" "row_id row = x" "rr_approval_consumed_at row \<noteq> None"
      by (auto simp: approval_consumed_def)
    then have "row \<in> set (st_releases st')"
      unfolding st' by (simp add: set_update_rows)
    with row show ?thesis by (auto simp: approval_consumed_def)
  qed
  moreover have "\<not> approval_consumed st rid \<and> approval_consumed st' rid" if "res \<noteq> None"
  proof -
    from that res have "filter ?P (st_releases st) \<noteq> []" by (metis length_0_conv zero_neq_one)
    then obtain row where row: "row \<in> set (st_releases st)" "?P row" unfolding filter_empty_conv by blast
    from assms(1) have d: "distinct (map row_id (st_releases st))" by (simp add: store_ok_def)
    have "\<not> approval_consumed st rid"
    proof
      assume "approval_consumed st rid"
      then obtain x where x: "x \<in> set (st_releases st)" "row_id x = rid" "rr_approval_consumed_at x \<noteq> None"
        by (auto simp: approval_consumed_def)
      from unique_row [OF d x(1) row(1)] x row(2) show False by simp
    qed
    moreover have "?f row \<in> set (st_releases st')"
    proof -
      have "(if ?P row then ?f row else row) \<in> set (update_rows ?P ?f (st_releases st))"
        unfolding set_update_rows by (rule imageI) (rule row(1))
      then show ?thesis using row(2) by (simp add: st')
    qed
    then have "approval_consumed st' rid"
      unfolding approval_consumed_def by (rule bexI [rotated]) (use row(2) in \<open>simp add: row_id_def\<close>)
    ultimately show ?thesis ..
  qed
  ultimately show ?thesis by blast
qed

lemma run_consumers_once:
  "store_ok st \<Longrightarrow> distinct (run_consumers st pend steps) \<and>
     (\<forall>rid \<in> set (run_consumers st pend steps). \<not> approval_consumed st rid)"
proof (induction steps arbitrary: st pend)
  case (Cons s steps)
  show ?case
  proof (cases s)
    case (Read_Approval c rid nonce t)
    with Cons show ?thesis by simp
  next
    case (Write_Approval c)
    show ?thesis
    proof (cases "pend c")
      case None
      with Write_Approval Cons show ?thesis by simp
    next
      case (Some p)
      obtain rid nonce t d where p: "p = (rid, nonce, t, d)" by (cases p)
      obtain res st' where w: "consume_write st rid nonce t d = (res, st')" by fastforce
      note facts = consume_write_cases [OF Cons.prems w]
      have ih: "distinct (run_consumers st' (pend(c := None)) steps)"
        "\<And>x. x \<in> set (run_consumers st' (pend(c := None)) steps) \<Longrightarrow> \<not> approval_consumed st' x"
        using Cons.IH [of st' "pend(c := None)"] facts by blast+
      show ?thesis
      proof (cases res)
        case None
        then have "run_consumers st pend (s # steps) = run_consumers st' (pend(c := None)) steps"
          by (simp add: Write_Approval Some p w)
        with ih facts show ?thesis by metis
      next
        case (Some r)
        then have "run_consumers st pend (s # steps) = rid # run_consumers st' (pend(c := None)) steps"
          by (simp add: Write_Approval \<open>pend c = Some p\<close> p w)
        moreover have "\<not> approval_consumed st rid" "approval_consumed st' rid" using facts Some by simp_all
        ultimately show ?thesis using ih facts by (metis distinct.simps(2) set_ConsD)
      qed
    qed
  qed
qed simp

text \<open>C16: approvals are single-use: whatever number of consumers read and write in whatever order, no
  release's approval is consumed twice, and none that was consumed before.\<close>

theorem approval_consumed_once:
  assumes "store_ok st"
  shows "distinct (run_consumers st pend steps) \<and>
    (\<forall>rid \<in> set (run_consumers st pend steps). \<not> approval_consumed st rid)"
  by (rule run_consumers_once [OF assms])

section \<open>Every operation keeps the keys unique\<close>

lemma first_row_fresh: "first_row (\<lambda>r. key r = k) rows = None \<longleftrightarrow> k \<notin> key ` set rows"
  by (auto simp: first_row_None)

lemma next_sequence_fresh: "next_sequence xs \<notin> set xs"
proof -
  have "x \<in> set xs \<or> x \<le> m \<Longrightarrow> x \<le> foldl max m xs" for x m :: int
  proof (induction xs arbitrary: m)
    case (Cons a xs)
    from Cons.IH [of "max m a"] Cons.prems show ?case by (simp add: le_max_iff_disj) blast
  qed simp
  then have "x < next_sequence xs" if "x \<in> set xs" for x
    using that by (simp add: next_sequence_def zless_add1_eq order_le_less [symmetric] disj_commute)
  then show ?thesis by blast
qed

lemma store_ok_jobs:
  assumes "store_ok st" "map jb_job_id jobs = map jb_job_id (st_jobs st)"
  shows "store_ok (st\<lparr> st_jobs := jobs \<rparr>)"
  using assms by (simp add: store_ok_def)

lemma store_ok_releases:
  assumes "store_ok st" "map row_id rows = map row_id (st_releases st)"
  shows "store_ok (st\<lparr> st_releases := rows \<rparr>)"
  using assms by (simp add: store_ok_def)

lemma fail_interrupted_keys: "map jb_job_id (fold (fail_interrupted now) ids jobs) = map jb_job_id jobs"
proof (induction ids arbitrary: jobs)
  case (Cons i ids)
  have "map jb_job_id (fail_interrupted now i jobs) = map jb_job_id jobs"
    unfolding fail_interrupted_def by (rule map_key_update) simp
  with Cons show ?case by simp
qed simp

lemma event_fields_hash [simp]: "event_fields (e\<lparr> ev_event_hash := h \<rparr>) = event_fields e"
  by (simp add: event_fields_def)

lemma append_event_Inr:
  assumes "append_release_job_event H st rid jid et payload now = Inr (ev, st')"
  shows "st' = st\<lparr> st_events := st_events st @ [ev] \<rparr>"
    "ev_job_id ev = jid \<and> ev_release_id ev = rid \<and> ev_event_type ev = et \<and> ev_payload ev = payload"
    "ev_sequence ev = (case last_event st jid of None \<Rightarrow> 0 | Some e \<Rightarrow> ev_sequence e + 1)"
    "ev_previous_event_hash ev = (case last_event st jid of None \<Rightarrow> genesis | Some e \<Rightarrow> ev_event_hash e)"
    "hash_obj H True (PDict (event_fields ev)) = Inr (ev_event_hash ev)"
    "\<forall>e \<in> set (st_events st). ev_event_id e \<noteq> ev_event_id ev \<and> \<not> (ev_job_id e = jid \<and> ev_sequence e = ev_sequence ev)"
proof -
  define sq where "sq = (case last_event st jid of None \<Rightarrow> 0 | Some e \<Rightarrow> ev_sequence e + 1)"
  define pr where "pr = (case last_event st jid of None \<Rightarrow> genesis | Some e \<Rightarrow> ev_event_hash e)"
  define e0 where "e0 = \<lparr> ev_event_id = event_id_for H jid sq now, ev_job_id = jid, ev_release_id = rid,
      ev_sequence = sq, ev_event_type = et, ev_payload = payload, ev_created_at = now,
      ev_previous_event_hash = pr, ev_event_hash = '''' \<rparr>"
  from assms obtain h where h: "hash_obj H True (PDict (event_fields e0)) = Inr h" "ev = e0\<lparr> ev_event_hash := h \<rparr>"
    and fresh: "first_row (\<lambda>e. ev_event_id e = ev_event_id ev \<or> (ev_job_id e = jid \<and> ev_sequence e = sq)) (st_events st) = None"
    and st': "st' = st\<lparr> st_events := st_events st @ [ev] \<rparr>"
    unfolding append_release_job_event_def sq_def [symmetric] pr_def [symmetric] Let_def e0_def [symmetric]
    by (auto simp: rbind_Inr_iff split: if_splits)
  show "st' = st\<lparr> st_events := st_events st @ [ev] \<rparr>" by (rule st')
  show "ev_job_id ev = jid \<and> ev_release_id ev = rid \<and> ev_event_type ev = et \<and> ev_payload ev = payload"
    by (simp add: h(2) e0_def)
  show sq: "ev_sequence ev = (case last_event st jid of None \<Rightarrow> 0 | Some e \<Rightarrow> ev_sequence e + 1)"
    by (simp add: h(2) e0_def sq_def)
  show "ev_previous_event_hash ev = (case last_event st jid of None \<Rightarrow> genesis | Some e \<Rightarrow> ev_event_hash e)"
    by (simp add: h(2) e0_def pr_def)
  show "hash_obj H True (PDict (event_fields ev)) = Inr (ev_event_hash ev)" using h by simp
  show "\<forall>e \<in> set (st_events st). ev_event_id e \<noteq> ev_event_id ev \<and> \<not> (ev_job_id e = jid \<and> ev_sequence e = ev_sequence ev)"
    using fresh by (auto simp: first_row_None sq sq_def)
qed

inductive store_step :: "(string \<Rightarrow> string) \<Rightarrow> store \<Rightarrow> store \<Rightarrow> bool" for H where
  "store_step H st (put_idempotency_record st scope key rh resp code now)"
| "store_step H st (upsert_package st p)"
| "create_strategy_version st v now = Inr (x, st') \<Longrightarrow> store_step H st st'"
| "create_release_candidate st r now = Inr (y, st') \<Longrightarrow> store_step H st st'"
| "update_release_candidate st r now = Inr (y, st') \<Longrightarrow> store_step H st st'"
| "store_step H st (snd (consume_write st rid nonce t d))"
| "store_step H st (snd (showcase_write st rid t seen))"
| "append_release_audit_entry st rid e = Inr st' \<Longrightarrow> store_step H st st'"
| "create_release_job st jid rid jt rh rq idem by_whom now = Inr (j, st') \<Longrightarrow> store_step H st st'"
| "store_step H st (snd (claim_next_release_job st now))"
| "store_step H st (snd (recover_interrupted_release_jobs st now))"
| "store_step H st (snd (cancel_release_job st rid jid now))"
| "store_step H st (mark_release_job_status st jid status result code msg now)"
| "append_release_job_event H st rid jid et payload now = Inr (ev, st') \<Longrightarrow> store_step H st st'"
| "create_run st rid qid rq path out now = Inr (run, st') \<Longrightarrow> store_step H st st'"
| "store_step H st (mark_running st rid now)"
| "store_step H st (mark_completed st rid state reason env ph rch rph m now)"
| "store_step H st (update_artifact_manifest st rid m now)"
| "store_step H st (mark_error st rid code msg now)"
| "store_step H st (snd (claim_next_run st now))"
| "store_step H st (snd (requeue_interrupted_runs st now))"
| "store_step H st (snd (prune_runs_before st cutoff))"

lemma store_step_ok: "store_step H st st' \<Longrightarrow> store_ok st \<Longrightarrow> store_ok st'"
proof (induction rule: store_step.induct)
  case (1 st scope key rh resp code now)
  then show ?case
    by (auto simp: store_ok_def put_idempotency_record_def get_idempotency_record_def first_row_None split: option.split)
next
  case (2 st p)
  then show ?case by (auto simp: store_ok_def upsert_package_def distinct_map_filter)
next
  case (3 st v now x st')
  then show ?case
    by (auto simp: store_ok_def create_strategy_version_def get_strategy_version_def first_row_fresh Let_def
        split: option.splits if_splits)
next
  case (4 st r now y st')
  then show ?case
    by (auto simp: store_ok_def create_release_candidate_def get_release_eq_row first_row_fresh Let_def
        split: option.splits if_splits)
next
  case (5 st r now y st')
  show ?case unfolding update_release_Inr(5) [OF 5(1)]
    by (rule store_ok_releases [OF 5(2)], rule map_key_update) simp
next
  case (6 st rid nonce t d)
  then show ?case using consume_write_cases by (metis prod.collapse)
next
  case (7 st rid t seen)
  have "snd (showcase_write st rid t seen) = st\<lparr> st_releases :=
      update_rows (\<lambda>row. row_id row = rid \<and> rl_metadata (rr_release row) = fst seen)
        (\<lambda>row. row\<lparr> rr_release := (rr_release row)\<lparr> rl_metadata := snd seen, rl_updated_at := t \<rparr> \<rparr>) (st_releases st) \<rparr>"
    by (simp add: showcase_write_def Let_def)
  then show ?case by (simp, intro store_ok_releases [OF 7] map_key_update) (simp add: row_id_def)
next
  case (8 st rid e st')
  have "next_sequence (map au_sequence (filter (\<lambda>a. au_release_id a = rid) (st_audit st)))
      \<notin> au_sequence ` {a \<in> set (st_audit st). au_release_id a = rid}"
    using next_sequence_fresh [of "map au_sequence (filter (\<lambda>a. au_release_id a = rid) (st_audit st))"] by simp
  with 8 show ?case
    by (auto simp: store_ok_def append_release_audit_entry_def split: option.splits pyval.splits)
next
  case (9 st jid rid jt rh rq idem by_whom now j st')
  then show ?case
    by (auto simp: store_ok_def create_release_job_def first_row_fresh Let_def new_job_def split: option.splits if_splits)
next
  case (10 st now)
  show ?case
    by (cases "sort_key jb_created_at (filter (\<lambda>j. jb_status j = Job_QUEUED) (st_jobs st))")
      (use 10 in \<open>auto simp: claim_next_release_job_def intro!: store_ok_jobs map_key_update\<close>)
next
  case (11 st now)
  then show ?case
    by (auto simp: recover_interrupted_release_jobs_def Let_def fail_interrupted_keys intro!: store_ok_jobs)
next
  case (12 st rid jid now)
  then show ?case by (auto simp: cancel_release_job_def Let_def intro!: store_ok_jobs map_key_update)
next
  case (13 st jid status result code msg now)
  then show ?case by (auto simp: mark_release_job_status_def Let_def intro!: store_ok_jobs map_key_update)
next
  case (14 st rid jid et payload now ev st')
  note ev = append_event_Inr [OF 14(1)]
  from 14(2) ev(2,6) show ?case unfolding ev(1) by (auto simp: store_ok_def)
next
  case (15 st rid qid rq path out now run st')
  then show ?case
    by (auto simp: store_ok_def create_run_def get_run_row_def first_row_fresh Let_def new_run_def split: option.splits if_splits)
next
  case (20 st now)
  show ?case
    by (cases "sort_key (\<lambda>r. rn_created_at (ru_run r)) (filter (\<lambda>r. rn_state (ru_run r) = Run_QUEUED) (st_runs st))")
      (use 20 in \<open>auto simp: claim_next_run_def Let_def intro!: store_ok_update_run\<close>)
next
  case (21 st now)
  have "map (\<lambda>r. rn_run_id (ru_run r)) (st_runs (snd (requeue_interrupted_runs st now))) = map (\<lambda>r. rn_run_id (ru_run r)) (st_runs st)"
    unfolding requeue_interrupted_runs_def Let_def snd_conv by (simp, rule map_key_update) simp
  with 21 show ?case by (simp add: store_ok_def) (simp add: requeue_interrupted_runs_def Let_def)
next
  case (22 st cutoff)
  then show ?case by (simp add: store_ok_def prune_runs_before_def Let_def distinct_map_filter)
qed (simp_all add: mark_running_def mark_completed_def update_artifact_manifest_def mark_error_def store_ok_update_run)

text \<open>C34: primary keys are unique in every store: from the empty store, no sequence of operations makes
  two packages, strategy versions, releases, runs or jobs with one id, two audit entries of a release
  or two events of a job with one sequence number, two events with one id or two records of one
  idempotency key.\<close>

theorem store_keys_unique:
  assumes "(store_step H)\<^sup>*\<^sup>* st st'" "store_ok st"
  shows "store_ok st'"
  using assms
proof (induction rule: rtranclp_induct)
  case (step st1 st2)
  then have ok: "store_ok st1" by simp
  from step.hyps(2) ok show ?case by (rule store_step_ok)
qed

text \<open>A stale copy that is written back reopens a consumed approval: the update rewrites the life-cycle
  columns from the copy. The consumption above is safe among consumers only.\<close>

definition sample_store :: store where
  "sample_store =
     \<lparr> st_packages = [], st_versions = [],
       st_releases = [release_row_of (sample_release\<lparr> rl_approval := Some [(''nonce'', PStr ''n''), (''consumed_at'', PNone)] \<rparr>)],
       st_audit = [], st_idempotency = [], st_runs = [],
       st_jobs = [new_job ''job_1'' ''rel_1'' Job_SHOWCASE_ORDER ''h'' [] None ''alice'' ''t0''], st_events = [] \<rparr>"

lemma sample_store_ok: "store_ok sample_store"
  by (simp add: store_ok_def sample_store_def)

definition stale_release :: release where
  "stale_release = sample_release\<lparr> rl_approval := Some [(''nonce'', PStr ''n''), (''consumed_at'', PNone)] \<rparr>"

lemma stale_update_reopens_approval:
  "\<exists>r st1 r' st2 r'' st3.
     consume_release_approval sample_store ''rel_1'' ''n'' ''t1'' = (Some r, st1) \<and>
     fst (consume_release_approval st1 ''rel_1'' ''n'' ''t2'') = None \<and>
     update_release_candidate st1 stale_release ''t2'' = Inr (r', st2) \<and>
     consume_release_approval st2 ''rel_1'' ''n'' ''t3'' = (Some r'', st3)"
  by (simp add: sample_store_def consume_release_approval_def consume_read_def consume_write_def Let_def
      get_release_eq_row update_release_candidate_def stale_release_def update_rows_def release_row_of_def
      lifecycle_def get_def row_id_def sample_release_def)

theorem queues_drained_witness:
  "map wi_job_id (fst (drain claim_next_release_job 2 ''now'' sample_store)) = [''job_1'']"
  using queues_drained [OF sample_store_ok, of 2 1 "''now''"]
  by (simp add: pending_jobs_def pending_runs_def sample_store_def new_job_def)

theorem approval_consumed_once_witness:
  "run_consumers sample_store (\<lambda>_. None)
     [Read_Approval 1 ''rel_1'' ''n'' ''t1'', Read_Approval 2 ''rel_1'' ''n'' ''t2'', Write_Approval 2, Write_Approval 1] = [''rel_1''] \<and>
   \<not> approval_consumed sample_store ''rel_1''"
proof -
  have "run_consumers sample_store (\<lambda>_. None)
     [Read_Approval 1 ''rel_1'' ''n'' ''t1'', Read_Approval 2 ''rel_1'' ''n'' ''t2'', Write_Approval 2, Write_Approval 1] = [''rel_1'']"
    by (simp add: sample_store_def consume_read_def consume_write_def Let_def get_release_eq_row update_rows_def
        release_row_of_def lifecycle_def get_def row_id_def sample_release_def)
  with approval_consumed_once [OF sample_store_ok] show ?thesis by (metis list.set_intros(1))
qed

theorem store_keys_unique_witness:
  "store_ok (mark_running sample_store ''run_1'' ''now'')"
  by (rule store_keys_unique [OF _ sample_store_ok], rule r_into_rtranclp, rule store_step.intros(16))

end
