(* ===== verification/Store_Events.thy ===== *)
theory Store_Events
  imports Store_Facts
begin

text \<open>
  The event log of a job is a hash chain: \<open>hash_chain\<close> is interpreted on the rows of the event table,
  so appending keeps the chain that \<open>list_release_job_events\<close> checks, and the number of events and the
  last hash pin the log.
\<close>

definition event_msg :: "job_event \<Rightarrow> exn + string" where
  "event_msg e = canonical_bytes True (PDict (event_fields e))"

definition event_prev :: "job_event \<Rightarrow> string option" where
  "event_prev e = Some (ev_previous_event_hash e)"

definition event_hash :: "job_event \<Rightarrow> string option" where
  "event_hash e = Some (ev_event_hash e)"

definition event_content :: "job_event \<Rightarrow> exn + json" where
  "event_content e = normalize True (PDict (event_fields e))"

interpretation job_events: hash_chain H event_msg event_prev event_hash event_content for H
proof
  fix e e' b
  assume m: "event_msg e = Inr b" "event_msg e' = Inr b"
  then have c: "normalize True (PDict (event_fields e)) = normalize True (PDict (event_fields e'))"
    unfolding event_msg_def by (rule canonical_bytes_inj)
  from m(1) obtain j where "normalize True (PDict (event_fields e)) = Inr j"
    by (auto simp: event_msg_def canonical_bytes_Inr)
  moreover from normalize_dict_Inr [OF this] obtain js where "j = JObj js" by blast
  ultimately have n: "normalize True (PDict (event_fields e)) = Inr (JObj js)" by simp
  from normalize_dict_member [OF n, of "''previous_event_hash''"]
    normalize_dict_member [OF n [unfolded c], of "''previous_event_hash''"]
  show "event_prev e = event_prev e'" by (simp add: event_prev_def event_fields_def)
  from c show "event_content e = event_content e'" by (simp add: event_content_def del: normalize.simps)
qed

lemma validate_events_iff:
  "validate_events_from H n p es = Inr () \<longleftrightarrow>
     chain_ok H event_msg event_prev event_hash p es \<and> map ev_sequence es = map (\<lambda>i. n + int i) [0..<length es]"
proof (induction H n p es rule: validate_events_from.induct)
  case (2 H n p e es)
  have shift: "map (\<lambda>i. n + int i) [0..<Suc k] = n # map (\<lambda>i. n + 1 + int i) [0..<k]" for k
    by (simp add: upt_conv_Cons map_Suc_upt [symmetric] add.assoc del: upt_Suc)
  show ?case
  proof (cases "hash_obj H True (PDict (event_fields e))")
    case (Inl x)
    then have "event_msg e = Inl x"
      by (cases "canonical_bytes True (PDict (event_fields e))") (auto simp: hash_obj_def event_msg_def)
    with Inl show ?thesis by simp
  next
    case (Inr h)
    then obtain b where b: "event_msg e = Inr b" "h = sha256_bytes H b" by (auto simp: hash_obj_Inr event_msg_def)
    show ?thesis
      using 2 [OF _ Inr] Inr b by (auto simp: event_prev_def event_hash_def shift simp del: upt_Suc)
  qed
qed simp

lemma list_events_chain:
  assumes "list_release_job_events H st rid jid = Inr es"
  shows "chain_ok H event_msg event_prev event_hash genesis es" "map ev_sequence es = map int [0..<length es]"
    "es = sort_key ev_sequence (filter (\<lambda>e. ev_release_id e = rid \<and> ev_job_id e = jid) (st_events st))"
  using assms validate_events_iff [of H 0 genesis es]
  by (auto simp: list_release_job_events_def validate_release_job_event_chain_def Let_def rbind_Inr_iff)

lemma insort_key_snoc: "key x < key y \<Longrightarrow> insort_key key x (zs @ [y]) = insort_key key x zs @ [y]"
  by (induction zs) auto

lemma sort_key_snoc_max:
  assumes "\<forall>x \<in> set xs. key x < key y"
  shows "sort_key key (xs @ [y]) = sort_key key xs @ [y]"
  using assms by (induction xs) (simp_all add: insort_key_snoc)

text \<open>The latest event of a job is the last one of its log.\<close>

lemma last_event_of_log:
  assumes ok: "store_ok st"
    and numbers: "map ev_sequence es = map int [0..<length es]"
    and log: "sort_key ev_sequence (filter (\<lambda>e. ev_job_id e = jid) (st_events st)) = es"
  shows "case last_event st jid of None \<Rightarrow> es = [] | Some x \<Rightarrow> es \<noteq> [] \<and> x = List.last es"
proof -
  let ?mine = "filter (\<lambda>e. ev_job_id e = jid) (st_events st)"
  have seqs: "ev_sequence ` set ?mine = int ` {0..<length es}"
    using numbers log by (metis (no_types, lifting) set_map set_sort set_upt)
  show ?thesis
  proof (cases "last_event st jid")
    case None
    then have "?mine = []" by (simp add: last_event_def split: list.splits) (metis set_empty set_sort)
    with log None show ?thesis by simp
  next
    case (Some x)
    then obtain rest where s: "sort_key (\<lambda>e. - ev_sequence e) ?mine = x # rest"
      by (auto simp: last_event_def split: list.splits)
    have x: "x \<in> set ?mine" by (metis list.set_intros(1) s set_sort)
    have max: "ev_sequence y \<le> ev_sequence x" if "y \<in> set ?mine" for y
    proof -
      have "y \<in> set (x # rest)" using that by (metis s set_sort)
      moreover have "sorted (map (\<lambda>e. - ev_sequence e) (x # rest))" by (metis s sorted_sort_key)
      ultimately show ?thesis by auto
    qed
    have es: "set es = set ?mine" using log by auto
    with x have ne: "es \<noteq> []" by auto
    then have "ev_sequence (List.last es) = int (length es - 1)"
      using arg_cong [OF numbers, of List.last] by (simp add: last_map last_upt)
    moreover have "List.last es \<in> set ?mine" using es ne last_in_set by blast
    moreover have "ev_sequence x \<le> int (length es - 1)"
    proof -
      from x have "ev_sequence x \<in> int ` {0..<length es}" unfolding seqs [symmetric] by (rule imageI)
      then obtain i where "ev_sequence x = int i" "i < length es" by auto
      then show ?thesis by simp
    qed
    ultimately have "ev_sequence x = ev_sequence (List.last es)" using max [of "List.last es"] by simp
    moreover have "inj_on (\<lambda>e. (ev_job_id e, ev_sequence e)) (set (st_events st))"
      using ok by (simp add: store_ok_def distinct_map)
    ultimately have "x = List.last es"
      using x \<open>List.last es \<in> set ?mine\<close> by (auto dest: inj_onD)
    with Some ne show ?thesis by simp
  qed
qed

text \<open>C35: the event log of a job is append-only: when all its events belong to the job's release and the
  log reads back, then after an append it reads back as the old events, unchanged, followed by the
  new one, with the sequence numbers 0, 1, 2 and so on and every event carrying the hash of the one
  before it.\<close>

theorem job_event_log:
  assumes ok: "store_ok st" and own: "\<forall>e \<in> set (st_events st). ev_job_id e = jid \<longrightarrow> ev_release_id e = rid"
    and read: "list_release_job_events H st rid jid = Inr es"
    and app: "append_release_job_event H st rid jid et payload now = Inr (e, st')"
  shows "list_release_job_events H st' rid jid = Inr (es @ [e]) \<and>
    ev_event_type e = et \<and> ev_payload e = payload \<and> map ev_sequence (es @ [e]) = map int [0..<Suc (length es)] \<and>
    chain_ok H event_msg event_prev event_hash genesis (es @ [e])"
proof -
  note ev = append_event_Inr [OF app] and l = list_events_chain [OF read]
  let ?mine = "filter (\<lambda>e. ev_job_id e = jid) (st_events st)"
  have mine: "filter (\<lambda>e. ev_release_id e = rid \<and> ev_job_id e = jid) (st_events st) = ?mine"
    using own by (intro filter_cong) auto
  have seqs: "ev_sequence ` set ?mine = int ` {0..<length es}"
    using l(2,3) mine by (metis (no_types, lifting) set_map set_sort set_upt)
  have last: "case last_event st jid of None \<Rightarrow> es = [] | Some x \<Rightarrow> es \<noteq> [] \<and> x = List.last es"
    by (rule last_event_of_log [OF ok l(2)]) (use l(3) mine in simp)
  have seq: "ev_sequence e = int (length es)"
  proof (cases "es = []")
    case True
    with last ev(3) show ?thesis by (auto split: option.splits)
  next
    case False
    then have "ev_sequence (List.last es) = int (length es - 1)"
      using arg_cong [OF l(2), of List.last] by (simp add: last_map last_upt)
    with last ev(3) False show ?thesis by (cases "last_event st jid") (auto simp: of_nat_diff Suc_leI)
  qed
  have tail: "event_prev e = Some (chain_tail event_hash genesis es)"
  proof (cases es rule: rev_cases)
    case Nil
    with last ev(4) show ?thesis by (auto simp: event_prev_def split: option.splits)
  next
    case (snoc ys y)
    with last ev(4) show ?thesis by (auto simp: event_prev_def chain_tail_append event_hash_def split: option.splits)
  qed
  from ev(5) obtain b where b: "event_msg e = Inr b" "ev_event_hash e = sha256_bytes H b"
    by (auto simp: hash_obj_Inr event_msg_def)
  have chain: "chain_ok H event_msg event_prev event_hash genesis (es @ [e])"
    by (rule job_events.chain_append(1) [OF l(1) b(1) _ tail]) (simp add: event_hash_def b(2))
  have numbers: "map ev_sequence (es @ [e]) = map int [0..<Suc (length es)]" using l(2) seq by simp
  have "sort_key ev_sequence (?mine @ [e]) = sort_key ev_sequence ?mine @ [e]"
  proof (rule sort_key_snoc_max, rule ballI)
    fix x assume "x \<in> set ?mine"
    then have "ev_sequence x \<in> int ` {0..<length es}" unfolding seqs [symmetric] by (rule imageI)
    then show "ev_sequence x < ev_sequence e" by (auto simp: seq)
  qed
  then have "sort_key ev_sequence (filter (\<lambda>e. ev_release_id e = rid \<and> ev_job_id e = jid) (st_events st')) = es @ [e]"
    using ev(1,2) mine l(3) by simp
  moreover have "validate_events_from H 0 genesis (es @ [e]) = Inr ()"
    using chain numbers by (simp add: validate_events_iff)
  ultimately show ?thesis
    using chain numbers ev(2)
    by (simp add: list_release_job_events_def validate_release_job_event_chain_def)
qed

lemma event_fields_plain: "list_all (\<lambda>(k, v). plain v) (ev_payload e) \<Longrightarrow> plain (PDict (event_fields e))"
  by (simp add: event_fields_def)

theorem job_event_log_witness:
  "\<exists>e st'. list_release_job_events (\<lambda>m. m) st' ''rel_1'' ''job_1'' = Inr [e] \<and> ev_event_type e = ''queued''"
proof -
  have no_events: "st_events sample_store = []" by (simp add: sample_store_def)
  have l: "last_event sample_store ''job_1'' = None" by (simp add: last_event_def sample_store_def)
  let ?e = "\<lparr> ev_event_id = event_id_for (\<lambda>m. m) ''job_1'' 0 ''t'', ev_job_id = ''job_1'', ev_release_id = ''rel_1'',
        ev_sequence = 0, ev_event_type = ''queued'', ev_payload = [], ev_created_at = ''t'',
        ev_previous_event_hash = genesis, ev_event_hash = '''' \<rparr>"
  have "plain (PDict (event_fields ?e))" by (rule event_fields_plain) simp
  then obtain h where h: "hash_obj (\<lambda>m. m) True (PDict (event_fields ?e)) = Inr h" using plain_hashes by blast
  then obtain e st' where a: "append_release_job_event (\<lambda>m. m) sample_store ''rel_1'' ''job_1'' ''queued'' [] ''t'' = Inr (e, st')"
    using no_events by (simp add: append_release_job_event_def l Let_def)
  have "list_release_job_events (\<lambda>m. m) sample_store ''rel_1'' ''job_1'' = Inr []"
    by (simp add: list_release_job_events_def validate_release_job_event_chain_def sample_store_def)
  from job_event_log [OF sample_store_ok _ this a] show ?thesis
    by (auto simp: no_events)
qed

end
