(* ===== verification/Auth.thy ===== *)
theory Auth
  imports Service_Models Proof_Kernel Hash_Chain
begin

text \<open>
  Authorisation, \<open>src/redline/service/auth.py\<close>, and the parts of \<open>src/redline/service/app.py\<close> that use
  it: service tokens with roles and scopes, session cookies signed with an HMAC, the GitHub and
  development logins, the request gate and the rate limiter. A frozen set of scopes is its sorted
  list. What the standard library computes here is in the record \<open>auth_env\<close>: \<open>json.loads\<close> (\<open>None\<close>
  for an error), the two ASCII layouts of \<open>json.dumps\<close>, the HMAC, \<open>urlsafe_b64decode\<close>, \<open>repr\<close> of containers.
  Times are whole seconds.
\<close>

section \<open>Principals\<close>

definition READ_ONLY :: string where "READ_ONLY = ''read-only''"
definition RELEASE_WRITE :: string where "RELEASE_WRITE = ''release-write''"
definition EXECUTE_DEMO :: string where "EXECUTE_DEMO = ''execute-demo''"
definition ADMIN :: string where "ADMIN = ''admin''"

lemmas scope_names = READ_ONLY_def RELEASE_WRITE_def EXECUTE_DEMO_def ADMIN_def

definition VALID_SCOPES :: "string list" where
  "VALID_SCOPES = [READ_ONLY, RELEASE_WRITE, EXECUTE_DEMO, ADMIN]"

definition VALID_ROLES :: "string list" where
  "VALID_ROLES = [''author'', ''reviewer'', ''release_manager'', ''admin'']"

definition VALID_AUTH_METHODS :: "string list" where
  "VALID_AUTH_METHODS = [''service_token'', ''github_oauth'', ''dev_session'']"

record principal =
  pr_principal_id :: string
  pr_role :: string
  pr_scopes :: "string list"
  pr_token_label :: string
  pr_auth_method :: string
  pr_subject :: "string option"
  pr_display_name :: "string option"
  pr_email :: "string option"

definition has_scope :: "principal \<Rightarrow> string \<Rightarrow> bool" where
  "has_scope p required = (ADMIN \<in> set (pr_scopes p) \<or> required \<in> set (pr_scopes p))"

definition public_dict :: "principal \<Rightarrow> dict" where
  "public_dict p =
     [(''principal_id'', PStr (pr_principal_id p)), (''role'', PStr (pr_role p)),
      (''scopes'', strs (pr_scopes p)), (''token_label'', PStr (pr_token_label p)),
      (''auth_method'', PStr (pr_auth_method p)), (''subject'', opt_str (pr_subject p)),
      (''display_name'', opt_str (pr_display_name p)), (''email'', opt_str (pr_email p))]"

record service_token =
  tk_token :: string
  tk_principal :: principal

definition default_service_token :: "string \<Rightarrow> service_token" where
  "default_service_token token =
     \<lparr> tk_token = token,
       tk_principal =
         \<lparr> pr_principal_id = ''service-token'', pr_role = ''admin'', pr_scopes = unique_sorted VALID_SCOPES,
           pr_token_label = ''primary'', pr_auth_method = ''service_token'', pr_subject = Some ''service-token'',
           pr_display_name = None, pr_email = None \<rparr> \<rparr>"

section \<open>Reading configured principals\<close>

record auth_env =
  ae_loads :: "string \<Rightarrow> pyval option"
  ae_dumps :: "pyval \<Rightarrow> string"
  ae_dumps_compact :: "pyval \<Rightarrow> string"
  ae_hmac :: "string \<Rightarrow> string \<Rightarrow> string"
  ae_b64decode :: "string \<Rightarrow> string option"
  ae_repr :: "pyval \<Rightarrow> string"

text \<open>\<open>str(v)\<close> and \<open>str(v or d)\<close>.\<close>

definition py_str :: "auth_env \<Rightarrow> pyval \<Rightarrow> string" where
  "py_str en v =
     (case v of PStr s \<Rightarrow> s | PNone \<Rightarrow> ''None'' | PBool b \<Rightarrow> (if b then ''True'' else ''False'')
      | PInt i \<Rightarrow> int_str i | PFloat s \<Rightarrow> s | PPath s \<Rightarrow> s | _ \<Rightarrow> ae_repr en v)"

definition str_or :: "auth_env \<Rightarrow> pyval \<Rightarrow> string \<Rightarrow> string" where
  "str_or en v d = (if truthy v then py_str en v else d)"

definition str_if :: "auth_env \<Rightarrow> pyval \<Rightarrow> string option" where
  "str_if en v = (if truthy v then Some (py_str en v) else None)"

definition parse_scopes :: "auth_env \<Rightarrow> pyval \<Rightarrow> exn + string list" where
  "parse_scopes en v =
     (case v of
        PList xs \<Rightarrow>
          if xs = [] then Inl ValueError
          else (let scopes = unique_sorted (map (py_str en) xs)
                in if list_all (\<lambda>s. s \<in> set VALID_SCOPES) scopes then Inr scopes else Inl ValueError)
      | _ \<Rightarrow> Inl ValueError)"

definition default_scopes_for_role :: "string \<Rightarrow> exn + string list" where
  "default_scopes_for_role role =
     (if role = ''admin'' then Inr (unique_sorted VALID_SCOPES)
      else if role = ''release_manager'' then Inr (unique_sorted [READ_ONLY, RELEASE_WRITE, EXECUTE_DEMO])
      else if role = ''author'' \<or> role = ''reviewer'' then Inr (unique_sorted [READ_ONLY, RELEASE_WRITE])
      else Inl ValueError)"

definition scopes_or_default :: "auth_env \<Rightarrow> dict \<Rightarrow> string \<Rightarrow> exn + string list" where
  "scopes_or_default en d role =
     (if get d ''scopes'' = PNone then default_scopes_for_role role else parse_scopes en (get d ''scopes''))"

definition service_token_from_json :: "auth_env \<Rightarrow> pyval \<Rightarrow> nat \<Rightarrow> exn + service_token" where
  "service_token_from_json en item index =
     (case as_dict item of
        None \<Rightarrow> Inl ValueError
      | Some d \<Rightarrow>
          (let token = str_or en (get d ''token'') [];
               pid = str_or en (if truthy (get d ''principal_id'') then get d ''principal_id'' else get d ''user_id'') [];
               role = str_or en (get d ''role'') [];
               label = str_or en (get d ''label'') (''token-'' @ nat_str index)
           in if token = [] \<or> pid = [] then Inl ValueError
              else if role \<notin> set VALID_ROLES then Inl ValueError
              else rbind (scopes_or_default en d role) (\<lambda>scopes.
                Inr \<lparr> tk_token = token,
                      tk_principal =
                        \<lparr> pr_principal_id = pid, pr_role = role, pr_scopes = scopes, pr_token_label = label,
                          pr_auth_method = ''service_token'', pr_subject = Some pid,
                          pr_display_name = Some (str_or en (get d ''display_name'') pid),
                          pr_email = str_if en (get d ''email'') \<rparr> \<rparr>)))"

definition parse_service_tokens :: "auth_env \<Rightarrow> string option \<Rightarrow> string \<Rightarrow> exn + service_token list" where
  "parse_service_tokens en raw fallback =
     (if (case raw of None \<Rightarrow> True | Some s \<Rightarrow> strip s = []) then Inr [default_service_token fallback]
      else case ae_loads en (the raw) of
             Some (PList xs) \<Rightarrow>
               if xs = [] then Inl ValueError
               else traverse (\<lambda>(index, item). service_token_from_json en item index) (enumerate 0 xs)
           | _ \<Rightarrow> Inl ValueError)"

text \<open>\<open>principal_from_auth_users\<close>: the first entry for the login.\<close>

definition login_of :: "auth_env \<Rightarrow> dict \<Rightarrow> string" where
  "login_of en d = str_or en (if truthy (get d ''github_login'') then get d ''github_login'' else get d ''login'') []"

definition session_user :: "auth_env \<Rightarrow> dict \<Rightarrow> string \<Rightarrow> string \<Rightarrow> exn + principal" where
  "session_user en d login auth_method =
     (let role = str_or en (get d ''role'') ''reviewer''
      in if role \<notin> set VALID_ROLES then Inl ValueError
         else rbind (scopes_or_default en d role) (\<lambda>scopes.
           Inr \<lparr> pr_principal_id = str_or en (get d ''principal_id'') (''github:'' @ login), pr_role = role,
                 pr_scopes = scopes, pr_token_label = ''session'', pr_auth_method = auth_method,
                 pr_subject = Some login, pr_display_name = Some (str_or en (get d ''display_name'') login),
                 pr_email = str_if en (get d ''email'') \<rparr>))"

fun find_auth_user :: "auth_env \<Rightarrow> pyval list \<Rightarrow> string \<Rightarrow> string \<Rightarrow> exn + principal option" where
  "find_auth_user en [] login auth_method = Inr None"
| "find_auth_user en (item # items) login auth_method =
     (case as_dict item of
        None \<Rightarrow> Inl ValueError
      | Some d \<Rightarrow>
          if login_of en d \<noteq> login then find_auth_user en items login auth_method
          else rbind (session_user en d login auth_method) (\<lambda>p. Inr (Some p)))"

definition principal_from_auth_users ::
  "auth_env \<Rightarrow> string option \<Rightarrow> string \<Rightarrow> string \<Rightarrow> exn + principal option" where
  "principal_from_auth_users en raw_users login auth_method =
     (if (case raw_users of None \<Rightarrow> True | Some s \<Rightarrow> strip s = []) then Inr None
      else case ae_loads en (the raw_users) of
             Some (PList xs) \<Rightarrow> find_auth_user en xs login auth_method
           | _ \<Rightarrow> Inl ValueError)"

text \<open>\<open>dev_principal\<close>: a configured JSON object is the only user; its entry is dumped and read again.\<close>

definition dev_release_manager :: "string \<Rightarrow> principal" where
  "dev_release_manager login =
     \<lparr> pr_principal_id = ''dev:'' @ login, pr_role = ''release_manager'',
       pr_scopes = unique_sorted [READ_ONLY, RELEASE_WRITE, EXECUTE_DEMO], pr_token_label = ''session'',
       pr_auth_method = ''dev_session'', pr_subject = Some login, pr_display_name = Some login, pr_email = None \<rparr>"

definition dev_principal ::
  "auth_env \<Rightarrow> string option \<Rightarrow> string option \<Rightarrow> string option \<Rightarrow> exn + principal" where
  "dev_principal en raw_users configured_user requested_login =
     (let or_else = (\<lambda>x y. if nonempty x then the x else y);
          mapped_login = (\<lambda>users login.
            rbind (principal_from_auth_users en users login ''dev_session'') (\<lambda>m.
              Inr (case m of Some p \<Rightarrow> p | None \<Rightarrow> dev_release_manager login)))
      in if nonempty configured_user \<and> startswith (strip (the configured_user)) ''{'' then
           (case ae_loads en (the configured_user) of
              Some (PDict d) \<Rightarrow>
                mapped_login (Some (ae_dumps en (PList [PDict d])))
                  (or_else requested_login
                     (str_or en (if truthy (get d ''github_login'') then get d ''github_login''
                                 else if truthy (get d ''login'') then get d ''login'' else get d ''subject'')
                        ''dev-reviewer''))
            | _ \<Rightarrow> Inl ValueError)
         else mapped_login raw_users (or_else requested_login (or_else configured_user ''dev-reviewer'')))"

section \<open>Session cookies\<close>

text \<open>\<open>base64.urlsafe_b64encode\<close>.\<close>

definition b64_char :: "nat \<Rightarrow> char" where
  "b64_char n =
     (if n < 26 then char_of (65 + n) else if n < 52 then char_of (71 + n)
      else if n < 62 then char_of (n - 4) else if n = 62 then CHR ''-'' else CHR ''_'')"

fun urlsafe_b64encode :: "string \<Rightarrow> string" where
  "urlsafe_b64encode [] = []"
| "urlsafe_b64encode [a] =
     (let x = of_char a * 16 in [b64_char (x div 64), b64_char (x mod 64), CHR ''='', CHR ''=''])"
| "urlsafe_b64encode [a, b] =
     (let x = (of_char a * 256 + of_char b) * 4
      in [b64_char (x div 4096), b64_char (x div 64 mod 64), b64_char (x mod 64), CHR ''=''])"
| "urlsafe_b64encode (a # b # c # r) =
     (let x = of_char a * 65536 + of_char b * 256 + of_char c
      in [b64_char (x div 262144), b64_char (x div 4096 mod 64), b64_char (x div 64 mod 64), b64_char (x mod 64)] @
         urlsafe_b64encode r)"

definition b64 :: "string \<Rightarrow> string" where
  "b64 s = rstrip (CHR ''='') (urlsafe_b64encode s)"

definition pad_b64 :: "string \<Rightarrow> string" where
  "pad_b64 v = v @ replicate (nat ((- int (length v)) mod 4)) (CHR ''='')"

definition session_payload :: "principal \<Rightarrow> int \<Rightarrow> int \<Rightarrow> pyval" where
  "session_payload p now ttl =
     PDict (sort_key fst (public_dict p @ [(''iat'', PInt now), (''exp'', PInt (now + ttl))]))"

definition make_session_cookie :: "auth_env \<Rightarrow> string \<Rightarrow> principal \<Rightarrow> int \<Rightarrow> int \<Rightarrow> string" where
  "make_session_cookie en secret p now ttl =
     (let body = b64 (ae_dumps_compact en (session_payload p now ttl))
      in body @ ''.'' @ ae_hmac en secret body)"

text \<open>\<open>cookie.split(".", 1)\<close> into two parts.\<close>

definition split_dot :: "string \<Rightarrow> (string \<times> string) option" where
  "split_dot s =
     (if CHR ''.'' \<in> set s
      then Some (takeWhile (\<lambda>c. c \<noteq> CHR ''.'') s, drop 1 (dropWhile (\<lambda>c. c \<noteq> CHR ''.'') s)) else None)"

text \<open>\<open>int(v or 0)\<close>, and the items that a \<open>for\<close> takes from \<open>v or []\<close>. The single characters of a text
  are never scope names.\<close>

definition int_or_zero :: "auth_env \<Rightarrow> pyval \<Rightarrow> exn + int" where
  "int_or_zero en v =
     (if \<not> truthy v then Inr 0
      else case v of
             PInt i \<Rightarrow> Inr i
           | PBool b \<Rightarrow> Inr (of_bool b)
           | PStr s \<Rightarrow> (case parse_int s of None \<Rightarrow> Inl ValueError | Some i \<Rightarrow> Inr i)
           | PFloat s \<Rightarrow>
               (case parse_decimal s of
                  Some (Finite c e) \<Rightarrow> Inr (let x = dval (Finite c e) in if 0 \<le> x then \<lfloor>x\<rfloor> else \<lceil>x\<rceil>)
                | _ \<Rightarrow> Inl ValueError)
           | _ \<Rightarrow> Inl TypeError)"

definition py_iter :: "pyval \<Rightarrow> exn + pyval list" where
  "py_iter v =
     (case v of
        PList xs \<Rightarrow> Inr xs
      | PDict d \<Rightarrow> Inr (map (PStr \<circ> fst) d)
      | PStr s \<Rightarrow> Inr (map (\<lambda>c. PStr [c]) s)
      | _ \<Rightarrow> Inl TypeError)"

definition items_or_empty :: "pyval \<Rightarrow> exn + pyval list" where
  "items_or_empty v = (if \<not> truthy v then Inr [] else py_iter v)"

definition principal_of_session :: "auth_env \<Rightarrow> dict \<Rightarrow> int \<Rightarrow> exn + principal option" where
  "principal_of_session en d now =
     rbind (int_or_zero en (get d ''exp'')) (\<lambda>exp.
       if exp < now then Inr None
       else rbind (items_or_empty (get d ''scopes'')) (\<lambda>items.
         let role = str_or en (get d ''role'') [];
             auth_method = str_or en (get d ''auth_method'') [];
             scopes = unique_sorted (map (py_str en) items)
         in if role \<notin> set VALID_ROLES \<or> auth_method \<notin> set VALID_AUTH_METHODS \<or> scopes = [] \<or>
               \<not> list_all (\<lambda>s. s \<in> set VALID_SCOPES) scopes then Inr None
            else Inr (Some
              \<lparr> pr_principal_id = str_or en (get d ''principal_id'') [], pr_role = role, pr_scopes = scopes,
                pr_token_label = str_or en (get d ''token_label'') ''session'', pr_auth_method = auth_method,
                pr_subject = str_if en (get d ''subject''), pr_display_name = str_if en (get d ''display_name''),
                pr_email = str_if en (get d ''email'') \<rparr>)))"

definition principal_from_session_cookie ::
  "auth_env \<Rightarrow> string \<Rightarrow> string \<Rightarrow> int \<Rightarrow> exn + principal option" where
  "principal_from_session_cookie en secret cookie now =
     (case split_dot cookie of
        None \<Rightarrow> Inr None
      | Some (body, sig) \<Rightarrow>
          if sig \<noteq> ae_hmac en secret body then Inr None
          else case (case ae_b64decode en (pad_b64 body) of None \<Rightarrow> None | Some t \<Rightarrow> ae_loads en t) of
                 None \<Rightarrow> Inr None
               | Some v \<Rightarrow> (case as_dict v of None \<Rightarrow> Inl AttributeError | Some d \<Rightarrow> principal_of_session en d now))"

section \<open>The request gate\<close>

text \<open>\<open>SlidingWindowRateLimiter\<close>: the accepted times of every key, oldest first.\<close>

record rate_limiter =
  lim_limit :: nat
  lim_window :: rat
  lim_events :: "string \<Rightarrow> rat list"

definition allow :: "rate_limiter \<Rightarrow> string \<Rightarrow> rat \<Rightarrow> bool \<times> rate_limiter" where
  "allow l key now =
     (if lim_limit l = 0 then (True, l)
      else (let kept = dropWhile (\<lambda>t. t < now - lim_window l) (lim_events l key)
            in if lim_limit l \<le> length kept then (False, l\<lparr> lim_events := (lim_events l)(key := kept) \<rparr>)
               else (True, l\<lparr> lim_events := (lim_events l)(key := kept @ [now]) \<rparr>)))"

definition principal_for_token :: "service_token list \<Rightarrow> string option \<Rightarrow> principal option" where
  "principal_for_token tokens supplied =
     (if \<not> nonempty supplied then None
      else map_option tk_principal (List.find (\<lambda>t. tk_token t = the supplied) tokens))"

definition principal_for_session_cookie ::
  "auth_env \<Rightarrow> string \<Rightarrow> string option \<Rightarrow> int \<Rightarrow> exn + principal option" where
  "principal_for_session_cookie en secret cookie now =
     (if \<not> nonempty cookie then Inr None else principal_from_session_cookie en secret (the cookie) now)"

text \<open>The headers and the cookie of a request.\<close>

record credentials =
  cr_authorization :: "string option"
  cr_redline_token :: "string option"
  cr_session_cookie :: "string option"

definition supplied_token :: "credentials \<Rightarrow> string option" where
  "supplied_token c =
     (case cr_redline_token c of
        Some t \<Rightarrow> Some t
      | None \<Rightarrow>
          (case cr_authorization c of
             None \<Rightarrow> None
           | Some a \<Rightarrow> if startswith a ''Bearer '' then Some (strip (removeprefix a ''Bearer '')) else None))"

definition require_token ::
  "auth_env \<Rightarrow> service_token list \<Rightarrow> string \<Rightarrow> rate_limiter \<Rightarrow> credentials \<Rightarrow> int \<Rightarrow> rat \<Rightarrow>
   (exn + principal) \<times> rate_limiter" where
  "require_token en tokens secret limiter c now ticks =
     (let supplied = supplied_token c;
          by_token = principal_for_token tokens supplied
      in case (if by_token = None \<and> supplied = None
               then principal_for_session_cookie en secret (cr_session_cookie c) now else Inr by_token) of
           Inl e \<Rightarrow> (Inl e, limiter)
         | Inr None \<Rightarrow> (Inl (HTTPException 401), limiter)
         | Inr (Some p) \<Rightarrow>
             if \<not> has_scope p READ_ONLY then (Inl (HTTPException 401), limiter)
             else (case allow limiter (if nonempty supplied then the supplied else ''session:'' @ pr_principal_id p) ticks of
                     (ok, limiter') \<Rightarrow> (if ok then Inr p else Inl (HTTPException 429), limiter')))"

definition require_scope :: "principal \<Rightarrow> string \<Rightarrow> exn + principal" where
  "require_scope p required = (if has_scope p required then Inr p else Inl (HTTPException 403))"

section \<open>Logins\<close>

record auth_config =
  ac_environment :: string
  ac_service_tokens :: "service_token list"
  ac_auth_session_secret :: "string option"
  ac_auth_users :: "string option"
  ac_dev_auth_user :: "string option"
  ac_dev_auth_enabled :: bool
  ac_github_client_id :: "string option"
  ac_github_client_secret :: "string option"
  ac_github_redirect_uri :: "string option"
  ac_github_allowed_logins :: "string list"

definition auth_session_secret :: "'a auth_config_scheme \<Rightarrow> string" where
  "auth_session_secret cfg =
     (if nonempty (ac_auth_session_secret cfg) then the (ac_auth_session_secret cfg) else ''redline-dev-session'')"

definition dev_login :: "auth_env \<Rightarrow> 'a auth_config_scheme \<Rightarrow> dict \<Rightarrow> int \<Rightarrow> exn + (principal \<times> string)" where
  "dev_login en cfg payload now =
     (if ac_environment cfg = ''production'' \<or> (\<not> ac_dev_auth_enabled cfg \<and> \<not> nonempty (ac_dev_auth_user cfg))
      then Inl (HTTPException 403)
      else (let requested = str_or en (get payload ''login'') []
            in rbind (dev_principal en (ac_auth_users cfg) (ac_dev_auth_user cfg)
                        (if requested = [] then None else Some requested)) (\<lambda>p.
                 Inr (p, make_session_cookie en (auth_session_secret cfg) p now (8 * 60 * 60)))))"

text \<open>GitHub answers with a JSON value, or not (\<open>None\<close>).\<close>

definition github_exchange_code :: "auth_env \<Rightarrow> 'a auth_config_scheme \<Rightarrow> (dict \<Rightarrow> pyval option) \<Rightarrow> string \<Rightarrow> exn + string" where
  "github_exchange_code en cfg post code =
     (if \<not> nonempty (ac_github_client_id cfg) \<or> \<not> nonempty (ac_github_client_secret cfg) then Inl (HTTPException 501)
      else (let payload =
              [(''client_id'', PStr (the (ac_github_client_id cfg))),
               (''client_secret'', PStr (the (ac_github_client_secret cfg))), (''code'', PStr code)] @
              (if nonempty (ac_github_redirect_uri cfg)
               then [(''redirect_uri'', PStr (the (ac_github_redirect_uri cfg)))] else [])
            in case post payload of
                 Some (PDict d) \<Rightarrow>
                   if truthy (get d ''access_token'') then Inr (py_str en (get d ''access_token''))
                   else Inl (HTTPException 502)
               | _ \<Rightarrow> Inl (HTTPException 502)))"

definition github_fetch_user :: "(string \<Rightarrow> pyval option) \<Rightarrow> string \<Rightarrow> exn + dict" where
  "github_fetch_user fetch token =
     (case fetch token of
        Some (PDict d) \<Rightarrow> if truthy (get d ''login'') then Inr d else Inl (HTTPException 502)
      | _ \<Rightarrow> Inl (HTTPException 502))"

definition github_principal_from_user :: "auth_env \<Rightarrow> 'a auth_config_scheme \<Rightarrow> dict \<Rightarrow> exn + principal" where
  "github_principal_from_user en cfg user =
     (let login = str_or en (get user ''login'') []
      in if login = [] then Inl (HTTPException 502)
         else rbind (principal_from_auth_users en (ac_auth_users cfg) login ''github_oauth'') (\<lambda>mapped.
           case mapped of
             Some p \<Rightarrow> Inr p
           | None \<Rightarrow>
               (let allowed = filter (\<lambda>s. s \<noteq> []) (map strip (ac_github_allowed_logins cfg))
                in if login \<notin> set allowed then Inl (HTTPException 403)
                   else Inr \<lparr> pr_principal_id = ''github:'' @ login, pr_role = ''reviewer'',
                              pr_scopes = unique_sorted [READ_ONLY, RELEASE_WRITE], pr_token_label = ''session'',
                              pr_auth_method = ''github_oauth'', pr_subject = Some login,
                              pr_display_name = Some (str_or en (get user ''name'') login),
                              pr_email = str_if en (get user ''email'') \<rparr>)))"

definition github_callback ::
  "auth_env \<Rightarrow> 'a auth_config_scheme \<Rightarrow> (dict \<Rightarrow> pyval option) \<Rightarrow> (string \<Rightarrow> pyval option) \<Rightarrow>
   string option \<Rightarrow> string option \<Rightarrow> string option \<Rightarrow> string option \<Rightarrow> int \<Rightarrow> exn + (principal \<times> string)" where
  "github_callback en cfg post fetch error code state expected_state now =
     (if nonempty error then Inl (HTTPException 400)
      else if \<not> nonempty code \<or> \<not> nonempty state then Inl (HTTPException 400)
      else if \<not> nonempty expected_state \<or> expected_state \<noteq> state then Inl (HTTPException 400)
      else rbind (github_exchange_code en cfg post (the code)) (\<lambda>token.
           rbind (github_fetch_user fetch token) (\<lambda>user.
           rbind (github_principal_from_user en cfg user) (\<lambda>p.
             Inr (p, make_session_cookie en (auth_session_secret cfg) p now (8 * 60 * 60))))))"


section \<open>The rate limiter bounds every window\<close>

text \<open>The times at which a series of requests was let through for one key.\<close>

fun accepted :: "rate_limiter \<Rightarrow> (string \<times> rat) list \<Rightarrow> string \<Rightarrow> rat list" where
  "accepted l [] k = []"
| "accepted l ((key, t) # reqs) k =
     (if fst (allow l key t) \<and> key = k then [t] else []) @ accepted (snd (allow l key t)) reqs k"

definition in_window :: "rat \<Rightarrow> rat \<Rightarrow> rat list \<Rightarrow> nat" where
  "in_window w t ts = length (filter (\<lambda>x. t - w \<le> x \<and> x \<le> t) ts)"

lemma allow_other [simp]: "key \<noteq> k \<Longrightarrow> lim_events (snd (allow l key t)) k = lim_events l k"
  by (simp add: allow_def Let_def)

lemma allow_limits [simp]:
  "lim_limit (snd (allow l key t)) = lim_limit l" "lim_window (snd (allow l key t)) = lim_window l"
  by (simp_all add: allow_def Let_def)

lemma dropped_before: "x \<in> set (takeWhile P xs) \<Longrightarrow> P x"
  by (rule set_takeWhileD [THEN conjunct2])

lemma accepted_window:
  assumes "0 < lim_limit l" "sorted (map snd reqs)"
    and "h = d @ lim_events l k" "\<forall>x \<in> set d. \<forall>t \<in> set (map snd reqs). x < t - lim_window l"
    and "\<forall>x \<in> set h. \<forall>t \<in> set (map snd reqs). x \<le> t"
    and "\<forall>t. in_window (lim_window l) t h \<le> lim_limit l"
  shows "in_window (lim_window l) t (h @ accepted l reqs k) \<le> lim_limit l"
  using assms
proof (induction reqs arbitrary: l h d)
  case Nil
  then show ?case by simp
next
  case (Cons q reqs)
  obtain key s where q: "q = (key, s)" by (cases q)
  let ?l = "snd (allow l key s)"
  have later: "\<forall>t \<in> set (map snd reqs). s \<le> t" using Cons.prems(2) q by simp
  show ?case
  proof (cases "key = k")
    case False
    have "in_window (lim_window ?l) t (h @ accepted ?l reqs k) \<le> lim_limit ?l"
      using Cons.prems q False by (intro Cons.IH [of _ _ d]) simp_all
    then show ?thesis using q False by simp
  next
    case key: True
    let ?drop = "takeWhile (\<lambda>t. t < s - lim_window l) (lim_events l k)"
    let ?keep = "dropWhile (\<lambda>t. t < s - lim_window l) (lim_events l k)"
    have h: "h = (d @ ?drop) @ ?keep" using Cons.prems(3) by simp
    have old: "\<forall>x \<in> set (d @ ?drop). x < s - lim_window l"
      using Cons.prems(4) q dropped_before by fastforce
    have old_later: "\<forall>x \<in> set (d @ ?drop). \<forall>t \<in> set (map snd reqs). x < t - lim_window l"
      using old later by fastforce
    show ?thesis
    proof (cases "lim_limit l \<le> length ?keep")
      case True
      have "in_window (lim_window ?l) t (h @ accepted ?l reqs k) \<le> lim_limit ?l"
        using Cons.prems q key True h old_later
        by (intro Cons.IH [of _ _ "d @ ?drop"]) (simp_all add: allow_def Let_def)
      then show ?thesis using q key True Cons.prems(1) by (simp add: allow_def Let_def)
    next
      case False
      have new: "in_window (lim_window l) t (h @ [s]) \<le> lim_limit l" for t
      proof (cases "s \<le> t")
        case True
        have "\<not> t - lim_window l \<le> x" if "x \<in> set (d @ ?drop)" for x
        proof -
          have "x < s - lim_window l" using old that by blast
          also have "\<dots> \<le> t - lim_window l" using True by simp
          finally show ?thesis by simp
        qed
        then have "filter (\<lambda>x. t - lim_window l \<le> x \<and> x \<le> t) (d @ ?drop) = []"
          unfolding filter_empty_conv by blast
        then have "in_window (lim_window l) t (h @ [s]) = in_window (lim_window l) t (?keep @ [s])"
          unfolding h in_window_def filter_append append_assoc by simp
        also have "\<dots> \<le> length (?keep @ [s])" unfolding in_window_def by (rule length_filter_le)
        finally show ?thesis using False by simp
      next
        case False
        then show ?thesis using Cons.prems(6) by (simp add: in_window_def)
      qed
      have "in_window (lim_window ?l) t ((h @ [s]) @ accepted ?l reqs k) \<le> lim_limit ?l"
        using Cons.prems q key False h old_later later new
        by (intro Cons.IH [of _ _ "d @ ?drop"]) (auto simp: allow_def Let_def)
      then show ?thesis using q key False Cons.prems(1) by (simp add: allow_def Let_def)
    qed
  qed
qed

text \<open>C26: the rate limiter never lets more than its limit through: for requests whose times do not go
  back, in every window of the configured length at most \<open>limit\<close> requests of one key are accepted,
  whatever the other keys do.\<close>

theorem rate_limit_bound:
  assumes "0 < lim_limit l" "lim_events l = (\<lambda>_. [])" "sorted (map snd reqs)"
  shows "in_window (lim_window l) t (accepted l reqs k) \<le> lim_limit l"
  using accepted_window [of l reqs "[]" "[]" k t] assms by (simp add: in_window_def)

theorem rate_limit_bound_witness:
  "in_window 60 70 (accepted \<lparr> lim_limit = 2, lim_window = 60, lim_events = \<lambda>_. [] \<rparr>
     [(''a'', 10), (''a'', 20), (''b'', 30), (''a'', 40), (''a'', 75)] ''a'') \<le> 2"
  using rate_limit_bound [of "\<lparr> lim_limit = 2, lim_window = 60, lim_events = \<lambda>_. [] \<rparr>"
      "[(''a'', 10), (''a'', 20), (''b'', 30), (''a'', 40), (''a'', 75)]" 70 "''a''"]
  by simp

section \<open>Session cookies are genuine and round-trip\<close>

lemma b64_char_alphabet [simp]: "b64_char n \<noteq> CHR ''=''" "b64_char n \<noteq> CHR ''.''"
proof -
  have "list_all (\<lambda>n. b64_char n \<noteq> CHR ''='' \<and> b64_char n \<noteq> CHR ''.'') [0..<64]" by code_simp
  moreover have "64 \<le> n \<Longrightarrow> b64_char n = CHR ''_''" by (simp add: b64_char_def)
  ultimately have "b64_char n \<noteq> CHR ''='' \<and> b64_char n \<noteq> CHR ''.''"
    by (cases "n < 64") (simp_all add: list_all_iff)
  then show "b64_char n \<noteq> CHR ''=''" "b64_char n \<noteq> CHR ''.''" by simp_all
qed

lemma four: "(4 :: nat) dvd Suc (Suc (Suc (Suc 0)))"
  by (simp add: numeral_eq_Suc)

text \<open>The encoding is a text without padding and dots, followed by the padding.\<close>

lemma b64_shape:
  "\<exists>core k. urlsafe_b64encode s = core @ replicate k (CHR ''='') \<and> k < 4 \<and> CHR ''='' \<notin> set core \<and>
     CHR ''.'' \<notin> set core \<and> 4 dvd length core + k"
proof (induction s rule: urlsafe_b64encode.induct)
  case 1
  show ?case by (rule exI [of _ "[]"], rule exI [of _ 0]) simp
next
  case (2 a)
  let ?x = "of_char a * 16 :: nat"
  have two: "replicate 2 c = [c, c]" for c :: char by (simp add: numeral_2_eq_2)

  show ?case
    by (rule exI [of _ "[b64_char (?x div 64), b64_char (?x mod 64)]"], rule exI [of _ 2])
       (simp add: Let_def two four b64_char_alphabet [symmetric])
next
  case (3 a b)
  let ?x = "(of_char a * 256 + of_char b) * 4 :: nat"
  show ?case
    by (rule exI [of _ "[b64_char (?x div 4096), b64_char (?x div 64 mod 64), b64_char (?x mod 64)]"], rule exI [of _ 1])
       (simp add: Let_def four b64_char_alphabet [symmetric])
next
  case (4 a b c r)
  then obtain core k where r: "urlsafe_b64encode r = core @ replicate k (CHR ''='')" "k < 4" "CHR ''='' \<notin> set core"
    "CHR ''.'' \<notin> set core" "4 dvd length core + k" by blast
  let ?x = "of_char a * 65536 + of_char b * 256 + of_char c :: nat"
  let ?four = "[b64_char (?x div 262144), b64_char (?x div 4096 mod 64), b64_char (?x div 64 mod 64), b64_char (?x mod 64)]"
  have "CHR ''='' \<notin> set (?four @ core) \<and> CHR ''.'' \<notin> set (?four @ core)"
    using r(3,4) by (simp add: b64_char_alphabet [symmetric])
  moreover have "4 dvd length (?four @ core) + k" using r(5) by (simp add: dvd_def) presburger
  ultimately show ?case using r(1,2)
    by (intro exI [of _ "?four @ core"] exI [of _ k]) (simp add: Let_def)
qed

lemma b64_no_dot: "CHR ''.'' \<notin> set (b64 s)"
proof -
  obtain core k where "urlsafe_b64encode s = core @ replicate k (CHR ''='')" "CHR ''.'' \<notin> set core"
    using b64_shape by blast
  then have "CHR ''.'' \<notin> set (urlsafe_b64encode s)" by auto
  then show ?thesis using set_dropWhileD by (fastforce simp: b64_def rstrip_def)
qed

lemma pad_b64_inverse: "pad_b64 (b64 s) = urlsafe_b64encode s"
proof -
  obtain core k where c: "urlsafe_b64encode s = core @ replicate k (CHR ''='')" "k < 4" "CHR ''='' \<notin> set core"
    "4 dvd length core + k" using b64_shape by blast
  have "dropWhile (\<lambda>x. x = CHR ''='') (rev core) = rev core"
    using c(3) by (cases "rev core") (auto simp: dropWhile_eq_self_iff)
  then have "b64 s = core" by (simp add: b64_def rstrip_def c(1) dropWhile_append)
  moreover have "nat ((- int (length core)) mod 4) = k"
  proof -
    obtain q where q: "length core + k = 4 * q" using c(4) by (auto simp: dvd_def)
    then have "- int (length core) = int k + 4 * (- int q)" by linarith
    then have "(- int (length core)) mod 4 = int k mod 4" by (metis mod_mult_self2)
    then show ?thesis using c(2) by simp
  qed
  ultimately show ?thesis by (simp add: pad_b64_def c(1))
qed

lemma split_dot_cookie: "split_dot (b64 s @ ''.'' @ sig) = Some (b64 s, sig)"
proof -
  have "\<And>c. c \<in> set (b64 s) \<Longrightarrow> c \<noteq> CHR ''.''" using b64_no_dot by blast
  then show ?thesis by (simp add: split_dot_def takeWhile_append2 dropWhile_append2)
qed

text \<open>A principal as the logins make them: what reading the cookie's empty texts would change is not empty.\<close>

definition session_ok :: "principal \<Rightarrow> bool" where
  "session_ok p =
     (pr_role p \<in> set VALID_ROLES \<and> pr_auth_method p \<in> set VALID_AUTH_METHODS \<and> pr_scopes p \<noteq> [] \<and>
      list_all (\<lambda>s. s \<in> set VALID_SCOPES) (pr_scopes p) \<and> unique_sorted (pr_scopes p) = pr_scopes p \<and>
      pr_token_label p \<noteq> [] \<and> pr_subject p \<noteq> Some [] \<and> pr_display_name p \<noteq> Some [] \<and> pr_email p \<noteq> Some [])"

lemma session_payload_get:
  "get (public_dict p @ [(''iat'', PInt now), (''exp'', PInt e)]) ''exp'' = PInt e"
  "get (public_dict p @ [(''iat'', PInt now), (''exp'', PInt e)]) ''scopes'' = strs (pr_scopes p)"
  "get (public_dict p @ [(''iat'', PInt now), (''exp'', PInt e)]) ''role'' = PStr (pr_role p)"
  "get (public_dict p @ [(''iat'', PInt now), (''exp'', PInt e)]) ''auth_method'' = PStr (pr_auth_method p)"
  "get (public_dict p @ [(''iat'', PInt now), (''exp'', PInt e)]) ''principal_id'' = PStr (pr_principal_id p)"
  "get (public_dict p @ [(''iat'', PInt now), (''exp'', PInt e)]) ''token_label'' = PStr (pr_token_label p)"
  "get (public_dict p @ [(''iat'', PInt now), (''exp'', PInt e)]) ''subject'' = opt_str (pr_subject p)"
  "get (public_dict p @ [(''iat'', PInt now), (''exp'', PInt e)]) ''display_name'' = opt_str (pr_display_name p)"
  "get (public_dict p @ [(''iat'', PInt now), (''exp'', PInt e)]) ''email'' = opt_str (pr_email p)"
  by (simp_all add: public_dict_def get_def)

lemma get_sorted [simp]: "get (sort_key fst d) k = get d k"
  by (simp add: get_def map_of_sort_key)

lemma str_if_opt: "x \<noteq> Some [] \<Longrightarrow> str_if en (opt_str x) = x"
  by (cases x) (auto simp: str_if_def opt_str_def py_str_def)

lemma str_or_text: "str_or en (PStr s) d = (if s = [] then d else s)"
  by (simp add: str_or_def py_str_def)

lemma principal_of_session_payload:
  assumes "session_ok p" "d = public_dict p @ [(''iat'', PInt now), (''exp'', PInt e)]"
  shows "principal_of_session en (sort_key fst d) t = Inr (if e < t then None else Some p)"
proof -
  have items: "items_or_empty (strs (pr_scopes p)) = Inr (map PStr (pr_scopes p))"
    using assms(1) by (simp add: items_or_empty_def py_iter_def strs_def session_ok_def)
  have scopes: "map (py_str en \<circ> PStr) (pr_scopes p) = pr_scopes p" by (simp add: map_idI py_str_def)
  have e: "int_or_zero en (PInt e) = Inr e" by (simp add: int_or_zero_def)
  have empty: "(if s = [] then [] else s) = s" for s :: string by simp
  note fields = session_payload_get [of p now e, folded assms(2)]
  show ?thesis
    using assms(1)
    by (simp add: principal_of_session_def fields e items scopes str_or_text str_if_opt
        session_ok_def empty Let_def)
qed

text \<open>C33: a session cookie gives back exactly the principal it was made for until it expires and nothing
  afterwards, and only the holder of the secret makes one: a cookie that is accepted consists of a
  body and the HMAC of this body under the secret, and carries a known role and known scopes.
  The hypotheses are that \<open>urlsafe_b64decode\<close> and \<open>json.loads\<close> undo what was encoded and dumped.\<close>

theorem session_cookie_roundtrip:
  assumes "session_ok p"
    and "ae_b64decode en (urlsafe_b64encode (ae_dumps_compact en (session_payload p now ttl)))
           = Some (ae_dumps_compact en (session_payload p now ttl))"
    and "ae_loads en (ae_dumps_compact en (session_payload p now ttl)) = Some (session_payload p now ttl)"
  shows "principal_from_session_cookie en secret (make_session_cookie en secret p now ttl) t
           = Inr (if now + ttl < t then None else Some p) \<and>
    (\<forall>c q. principal_from_session_cookie en secret c t = Inr (Some q) \<longrightarrow>
       (\<exists>body. split_dot c = Some (body, ae_hmac en secret body)) \<and>
       pr_role q \<in> set VALID_ROLES \<and> pr_scopes q \<noteq> [] \<and> set (pr_scopes q) \<subseteq> set VALID_SCOPES)"
proof -
  let ?body = "b64 (ae_dumps_compact en (session_payload p now ttl))"
  have "make_session_cookie en secret p now ttl = ?body @ ''.'' @ ae_hmac en secret ?body"
    by (simp add: make_session_cookie_def Let_def)
  then have "principal_from_session_cookie en secret (make_session_cookie en secret p now ttl) t
      = principal_of_session en (sort_key fst (public_dict p @ [(''iat'', PInt now), (''exp'', PInt (now + ttl))])) t"
    by (simp only: principal_from_session_cookie_def split_dot_cookie option.case prod.case pad_b64_inverse assms(2,3))
       (simp add: session_payload_def)
  also have "\<dots> = Inr (if now + ttl < t then None else Some p)"
    by (rule principal_of_session_payload [OF assms(1) refl])
  finally show ?thesis
    by (auto simp: principal_from_session_cookie_def principal_of_session_def rbind_Inr_iff Let_def list_all_iff
        split: option.splits if_splits)
qed

definition sample_principal :: principal where
  "sample_principal = \<lparr> pr_principal_id = ''github:ada'', pr_role = ''reviewer'', pr_scopes = [''read-only'', ''release-write''],
     pr_token_label = ''session'', pr_auth_method = ''github_oauth'', pr_subject = Some ''ada'',
     pr_display_name = Some ''ada'', pr_email = None \<rparr>"

definition sample_auth_env :: auth_env where
  "sample_auth_env = \<lparr> ae_loads = (\<lambda>s. if s = ''{p}'' then Some (session_payload sample_principal 100 50) else None),
     ae_dumps = (\<lambda>v. ''{}''), ae_dumps_compact = (\<lambda>v. ''{p}''), ae_hmac = (\<lambda>k m. k @ m),
     ae_b64decode = (\<lambda>s. if s = urlsafe_b64encode ''{p}'' then Some ''{p}'' else None), ae_repr = (\<lambda>v. ''?'') \<rparr>"

lemma sample_principal_ok: "session_ok sample_principal"
  by code_simp

theorem session_cookie_roundtrip_witness:
  "principal_from_session_cookie sample_auth_env ''key'' (make_session_cookie sample_auth_env ''key'' sample_principal 100 50) 150
     = Inr (Some sample_principal)"
proof -
  have "principal_from_session_cookie sample_auth_env ''key'' (make_session_cookie sample_auth_env ''key'' sample_principal 100 50) 150
      = Inr (if 100 + 50 < (150 :: int) then None else Some sample_principal)"
    by (rule session_cookie_roundtrip [OF sample_principal_ok, THEN conjunct1])
       (simp_all add: sample_auth_env_def)
  then show ?thesis by simp
qed

section \<open>The gate\<close>

lemma service_token_principal:
  assumes "service_token_from_json en item i = Inr tk"
  shows "pr_role (tk_principal tk) \<in> set VALID_ROLES \<and> pr_scopes (tk_principal tk) \<noteq> [] \<and>
    set (pr_scopes (tk_principal tk)) \<subseteq> set VALID_SCOPES"
proof -
  obtain d role scopes where d: "role \<in> set VALID_ROLES" "scopes_or_default en d role = Inr scopes"
      "pr_role (tk_principal tk) = role" "pr_scopes (tk_principal tk) = scopes"
    using assms by (auto simp: service_token_from_json_def Let_def rbind_Inr_iff split: option.splits if_splits)
  have ne: "unique_sorted xs \<noteq> []" if "xs \<noteq> []" for xs :: "string list"
    using that set_unique_sorted [of xs] by (metis set_empty)
  have "scopes \<noteq> [] \<and> set scopes \<subseteq> set VALID_SCOPES"
    using d(2) ne
    by (fastforce simp: scopes_or_default_def default_scopes_for_role_def parse_scopes_def VALID_SCOPES_def Let_def
        list_all_iff split: if_splits pyval.splits)
  with d show ?thesis by simp
qed

lemma parsed_tokens:
  assumes "parse_service_tokens en raw fallback = Inr tokens" "tk \<in> set tokens"
  shows "pr_role (tk_principal tk) \<in> set VALID_ROLES \<and> pr_scopes (tk_principal tk) \<noteq> [] \<and>
    set (pr_scopes (tk_principal tk)) \<subseteq> set VALID_SCOPES"
proof (cases "case raw of None \<Rightarrow> True | Some s \<Rightarrow> strip s = []")
  case True
  have "unique_sorted VALID_SCOPES \<noteq> []" by code_simp
  moreover from True assms have "tk = default_service_token fallback" by (auto simp: parse_service_tokens_def)
  ultimately show ?thesis by (simp add: default_service_token_def VALID_ROLES_def)
next
  case False
  with assms(1) obtain xs where "traverse (\<lambda>(index, item). service_token_from_json en item index) (enumerate 0 xs) = Inr tokens"
    by (auto simp: parse_service_tokens_def split: option.splits pyval.splits if_splits)
  from traverse_set [OF this assms(2)] show ?thesis using service_token_principal by fast
qed

text \<open>C14: only configured principals pass the gate: a request that \<open>_require_token\<close> and a scope check let
  through presented one of the configured tokens, and acts as the principal of this token, or
  presented no token and a session cookie that is signed under the session secret. In both cases the
  principal has a known role and only known scopes, and either is an administrator or holds the read
  scope and the scope that was asked for.\<close>

theorem request_gate:
  assumes "parse_service_tokens en raw fallback = Inr tokens"
    and "fst (require_token en tokens secret limiter c now ticks) = Inr p" "require_scope p required = Inr q"
  shows "q = p \<and> pr_role p \<in> set VALID_ROLES \<and> pr_scopes p \<noteq> [] \<and> set (pr_scopes p) \<subseteq> set VALID_SCOPES \<and>
    (ADMIN \<in> set (pr_scopes p) \<or> {READ_ONLY, required} \<subseteq> set (pr_scopes p)) \<and>
    ((\<exists>tk \<in> set tokens. supplied_token c = Some (tk_token tk) \<and> tk_token tk \<noteq> [] \<and> p = tk_principal tk) \<or>
     (supplied_token c = None \<and>
      (\<exists>cookie body. cr_session_cookie c = Some cookie \<and> split_dot cookie = Some (body, ae_hmac en secret body))))"
proof -
  let ?token = "principal_for_token tokens (supplied_token c)"
  have scope: "q = p" "has_scope p required"
    using assms(3) by (auto simp: require_scope_def split: if_splits)
  have read: "has_scope p READ_ONLY" and src: "?token = Some p \<or> (supplied_token c = None \<and>
      principal_for_session_cookie en secret (cr_session_cookie c) now = Inr (Some p))"
    using assms(2) by (auto simp: require_token_def Let_def split: sum.splits option.splits if_splits prod.splits)
  have "(pr_role p \<in> set VALID_ROLES \<and> pr_scopes p \<noteq> [] \<and> set (pr_scopes p) \<subseteq> set VALID_SCOPES) \<and>
    ((\<exists>tk \<in> set tokens. supplied_token c = Some (tk_token tk) \<and> tk_token tk \<noteq> [] \<and> p = tk_principal tk) \<or>
     (supplied_token c = None \<and>
      (\<exists>cookie body. cr_session_cookie c = Some cookie \<and> split_dot cookie = Some (body, ae_hmac en secret body))))"
    using src
  proof
    assume "?token = Some p"
    then obtain tk s where t: "supplied_token c = Some s" "s \<noteq> []" "List.find (\<lambda>t. tk_token t = s) tokens = Some tk"
      "p = tk_principal tk" by (auto simp: principal_for_token_def split: if_splits)
    have "tk \<in> set tokens \<and> tk_token tk = s" using t(3) by (auto simp: find_Some_iff)
    with t show ?thesis using parsed_tokens [OF assms(1)] by blast
  next
    assume "supplied_token c = None \<and> principal_for_session_cookie en secret (cr_session_cookie c) now = Inr (Some p)"
    then obtain cookie where "supplied_token c = None" "cr_session_cookie c = Some cookie"
      "principal_from_session_cookie en secret cookie now = Inr (Some p)"
      by (auto simp: principal_for_session_cookie_def split: if_splits)
    then show ?thesis
      by (auto simp: principal_from_session_cookie_def principal_of_session_def rbind_Inr_iff Let_def list_all_iff
          split: option.splits if_splits)
  qed
  with scope read show ?thesis by (auto simp: has_scope_def)
qed

definition sample_credentials :: credentials where
  "sample_credentials = \<lparr> cr_authorization = Some ''Bearer secret'', cr_redline_token = None, cr_session_cookie = None \<rparr>"

theorem request_gate_witness:
  "pr_role (tk_principal (default_service_token ''secret'')) \<in> set VALID_ROLES"
proof -
  let ?tokens = "[default_service_token ''secret'']"
  let ?p = "tk_principal (default_service_token ''secret'')"
  let ?l = "\<lparr> lim_limit = 1, lim_window = 60, lim_events = \<lambda>_. [] \<rparr>"
  have a: "has_scope ?p READ_ONLY" "has_scope ?p EXECUTE_DEMO" by (simp_all add: has_scope_def default_service_token_def VALID_SCOPES_def)
  have "startswith ''Bearer secret'' ''Bearer ''" "strip (removeprefix ''Bearer secret'' ''Bearer '') = ''secret''" by code_simp+
  then have s: "supplied_token sample_credentials = Some ''secret''"
    by (simp add: supplied_token_def sample_credentials_def)
  have t: "parse_service_tokens sample_auth_env None ''secret'' = Inr ?tokens" by (simp add: parse_service_tokens_def)
  have f: "principal_for_token ?tokens (Some ''secret'') = Some ?p"
    by (simp add: principal_for_token_def default_service_token_def)
  have "fst (require_token sample_auth_env ?tokens ''key'' ?l sample_credentials 0 0) = Inr ?p"
    by (simp add: require_token_def s f a Let_def allow_def)
  from request_gate [OF t this, of EXECUTE_DEMO] show ?thesis using a(2) by (simp add: require_scope_def)
qed

end
