(* ===== verification/Config.thy ===== *)
theory Config
  imports Auth Release_Policy
begin

text \<open>
  The configuration of the service, \<open>src/redline/service/config.py\<close>: the checks of
  \<open>ServiceConfig.__post_init__\<close> and \<open>from_env\<close> on a map of environment variables. \<open>len\<close> of a text
  counts its characters, that is the bytes that do not continue one in UTF-8.
\<close>

definition char_count :: "string \<Rightarrow> nat" where
  "char_count s = length (filter (\<lambda>c. (of_char c :: nat) div 64 \<noteq> 2) s)"

record service_config = auth_config +
  sc_root :: string
  sc_token :: string
  sc_max_upload_bytes :: int
  sc_workers :: int
  sc_host :: string
  sc_port :: int
  sc_cors_origins :: "string list"
  sc_log_level :: string
  sc_metadata_store :: string
  sc_artifact_store :: string
  sc_database_url :: "string option"
  sc_expose_error_details :: bool
  sc_rate_limit_per_minute :: int
  sc_max_packages :: int
  sc_max_active_runs :: int
  sc_max_runs_total :: int
  sc_run_retention_seconds :: int

definition bad_production_token :: "service_token \<Rightarrow> bool" where
  "bad_production_token t =
     (tk_token t \<in> {'''', ''redline-demo'', ''redline-smoke'', ''test-token''} \<or> char_count (tk_token t) < 32)"

definition production_ok :: "service_config \<Rightarrow> bool" where
  "production_ok c =
     (list_all (\<lambda>t. \<not> bad_production_token t) (ac_service_tokens c) \<and>
      ''*'' \<notin> set (sc_cors_origins c) \<and>
      nonempty (ac_auth_session_secret c) \<and>
      the (ac_auth_session_secret c) \<notin> {''redline-dev-session'', ''redline-demo''} \<and>
      32 \<le> char_count (the (ac_auth_session_secret c)) \<and>
      (nonempty (ac_github_client_id c) \<longrightarrow>
         nonempty (ac_github_client_secret c) \<and> nonempty (ac_github_redirect_uri c)) \<and>
      \<not> ac_dev_auth_enabled c \<and> \<not> nonempty (ac_dev_auth_user c))"

definition limits_ok :: "service_config \<Rightarrow> bool" where
  "limits_ok c =
     list_all (\<lambda>v. 0 \<le> v) [sc_rate_limit_per_minute c, sc_max_packages c, sc_max_active_runs c,
       sc_max_runs_total c, sc_run_retention_seconds c]"

definition post_init :: "service_config \<Rightarrow> exn + service_config" where
  "post_init c0 =
     (let c = (if ac_service_tokens c0 = [] then c0\<lparr> ac_service_tokens := [default_service_token (sc_token c0)] \<rparr> else c0)
      in if \<not> distinct (map tk_token (ac_service_tokens c)) then Inl ValueError
         else if ac_environment c \<notin> {''local'', ''ci'', ''production''} then Inl ValueError
         else if sc_max_upload_bytes c \<le> 0 then Inl ValueError
         else if sc_workers c \<le> 0 then Inl ValueError
         else if \<not> (1 \<le> sc_port c \<and> sc_port c \<le> 65535) then Inl ValueError
         else if sc_metadata_store c \<notin> {''sqlite'', ''postgres''} then Inl ValueError
         else if sc_metadata_store c = ''postgres'' \<and> \<not> nonempty (sc_database_url c) then Inl ValueError
         else if sc_artifact_store c \<noteq> ''local'' then Inl ValueError
         else if sc_log_level c \<notin> {''DEBUG'', ''INFO'', ''WARNING'', ''ERROR'', ''CRITICAL''} then Inl ValueError
         else if \<not> limits_ok c then Inl ValueError
         else if ac_environment c = ''production'' \<and> \<not> production_ok c then Inl ValueError
         else Inr c)"

section \<open>Environment variables\<close>

type_synonym environ = "string \<Rightarrow> string option"

definition environ_get :: "environ \<Rightarrow> string \<Rightarrow> string \<Rightarrow> string" where
  "environ_get env name d = (case env name of None \<Rightarrow> d | Some s \<Rightarrow> s)"

definition parse_positive_int :: "environ \<Rightarrow> string \<Rightarrow> int \<Rightarrow> exn + int" where
  "parse_positive_int env name d =
     (case env name of
        None \<Rightarrow> Inr d
      | Some raw \<Rightarrow>
          (case parse_int raw of None \<Rightarrow> Inl ValueError | Some v \<Rightarrow> if v \<le> 0 then Inl ValueError else Inr v))"

definition parse_nonnegative_int :: "environ \<Rightarrow> string \<Rightarrow> int \<Rightarrow> exn + int" where
  "parse_nonnegative_int env name d =
     (case env name of
        None \<Rightarrow> Inr d
      | Some raw \<Rightarrow>
          (case parse_int raw of None \<Rightarrow> Inl ValueError | Some v \<Rightarrow> if v < 0 then Inl ValueError else Inr v))"

definition parse_port :: "environ \<Rightarrow> string \<Rightarrow> int \<Rightarrow> exn + int" where
  "parse_port env name d =
     rbind (parse_positive_int env name d) (\<lambda>v. if \<not> (1 \<le> v \<and> v \<le> 65535) then Inl ValueError else Inr v)"

definition parse_bool :: "environ \<Rightarrow> string \<Rightarrow> string \<Rightarrow> exn + bool" where
  "parse_bool env name d =
     (let raw = lower (strip (environ_get env name d))
      in if raw \<in> {''1'', ''true'', ''yes'', ''on''} then Inr True
         else if raw \<in> {''0'', ''false'', ''no'', ''off''} then Inr False else Inl ValueError)"

fun split_on :: "char \<Rightarrow> string \<Rightarrow> string list" where
  "split_on c [] = [[]]"
| "split_on c (x # xs) =
     (if x = c then [] # split_on c xs else (case split_on c xs of [] \<Rightarrow> [[x]] | w # ws \<Rightarrow> (x # w) # ws))"

definition parse_csv :: "environ \<Rightarrow> string \<Rightarrow> string list" where
  "parse_csv env name = filter (\<lambda>s. s \<noteq> []) (map strip (split_on (CHR '','') (environ_get env name [])))"

definition from_env :: "auth_env \<Rightarrow> environ \<Rightarrow> exn + service_config" where
  "from_env en env =
     (let environment = lower (strip (environ_get env ''REDLINE_SERVICE_ENV'' ''local''));
          expose_default = (if environment = ''production'' then ''false'' else ''true'')
      in rbind (parse_positive_int env ''REDLINE_SERVICE_MAX_UPLOAD_BYTES'' (50 * 1024 * 1024)) (\<lambda>max_upload.
         rbind (parse_positive_int env ''REDLINE_SERVICE_WORKERS'' 2) (\<lambda>workers.
         rbind (parse_port env ''REDLINE_SERVICE_PORT'' 8080) (\<lambda>port.
         rbind (parse_bool env ''REDLINE_SERVICE_EXPOSE_ERROR_DETAILS'' expose_default) (\<lambda>expose.
         rbind (parse_nonnegative_int env ''REDLINE_SERVICE_RATE_LIMIT_PER_MINUTE'' 120) (\<lambda>rate.
         rbind (parse_nonnegative_int env ''REDLINE_SERVICE_MAX_PACKAGES'' 100) (\<lambda>max_packages.
         rbind (parse_nonnegative_int env ''REDLINE_SERVICE_MAX_ACTIVE_RUNS'' 8) (\<lambda>max_active.
         rbind (parse_nonnegative_int env ''REDLINE_SERVICE_MAX_RUNS_TOTAL'' 500) (\<lambda>max_total.
         rbind (parse_nonnegative_int env ''REDLINE_SERVICE_RUN_RETENTION_SECONDS'' (7 * 24 * 60 * 60)) (\<lambda>retention.
         rbind (parse_service_tokens en (env ''REDLINE_SERVICE_TOKENS'') (environ_get env ''REDLINE_SERVICE_TOKEN'' ''redline-demo''))
           (\<lambda>tokens.
         rbind (parse_bool env ''REDLINE_DEV_AUTH_ENABLED'' ''false'') (\<lambda>dev_enabled.
           post_init
             \<lparr> ac_environment = environment, ac_service_tokens = tokens,
               ac_auth_session_secret = env ''REDLINE_AUTH_SESSION_SECRET'', ac_auth_users = env ''REDLINE_AUTH_USERS'',
               ac_dev_auth_user = env ''REDLINE_DEV_AUTH_USER'', ac_dev_auth_enabled = dev_enabled,
               ac_github_client_id = env ''REDLINE_GITHUB_OAUTH_CLIENT_ID'',
               ac_github_client_secret = env ''REDLINE_GITHUB_OAUTH_CLIENT_SECRET'',
               ac_github_redirect_uri = env ''REDLINE_GITHUB_OAUTH_REDIRECT_URI'',
               ac_github_allowed_logins = parse_csv env ''REDLINE_AUTH_ALLOWED_GITHUB_LOGINS'',
               sc_root = environ_get env ''REDLINE_SERVICE_ROOT'' ''artifacts/service'',
               sc_token = environ_get env ''REDLINE_SERVICE_TOKEN'' ''redline-demo'',
               sc_max_upload_bytes = max_upload, sc_workers = workers,
               sc_host = environ_get env ''REDLINE_SERVICE_HOST'' ''127.0.0.1'', sc_port = port,
               sc_cors_origins = parse_csv env ''REDLINE_SERVICE_CORS_ORIGINS'',
               sc_log_level = upper (environ_get env ''REDLINE_SERVICE_LOG_LEVEL'' ''INFO''),
               sc_metadata_store = environ_get env ''REDLINE_SERVICE_METADATA_STORE'' ''sqlite'',
               sc_artifact_store = environ_get env ''REDLINE_SERVICE_ARTIFACT_STORE'' ''local'',
               sc_database_url = (if nonempty (env ''REDLINE_DATABASE_URL'') then env ''REDLINE_DATABASE_URL'' else env ''DATABASE_URL''),
               sc_expose_error_details = expose, sc_rate_limit_per_minute = rate, sc_max_packages = max_packages,
               sc_max_active_runs = max_active, sc_max_runs_total = max_total, sc_run_retention_seconds = retention \<rparr>))))))))))))"

section \<open>A production service is hardened\<close>

lemma post_init_Inr:
  assumes "post_init c0 = Inr c"
  shows "ac_service_tokens c \<noteq> [] \<and> distinct (map tk_token (ac_service_tokens c)) \<and> 0 < sc_workers c \<and>
    limits_ok c \<and> (ac_environment c = ''production'' \<longrightarrow> production_ok c)"
proof -
  let ?c = "if ac_service_tokens c0 = [] then c0\<lparr> ac_service_tokens := [default_service_token (sc_token c0)] \<rparr> else c0"
  have "ac_service_tokens ?c \<noteq> []" by simp
  moreover have "c = ?c" and "distinct (map tk_token (ac_service_tokens ?c)) \<and> 0 < sc_workers ?c \<and>
    limits_ok ?c \<and> (ac_environment ?c = ''production'' \<longrightarrow> production_ok ?c)"
    using assms unfolding post_init_def Let_def by (auto split: if_split_asm)
  ultimately show ?thesis by simp
qed

lemma from_env_post_init: "from_env en env = Inr cfg \<Longrightarrow> \<exists>c0. post_init c0 = Inr cfg"
  unfolding from_env_def Let_def rbind_Inr_iff by blast

text \<open>C18: no default credential opens a production service: whatever the environment variables, in a
  service that starts as production a request is let through only with a token of at least 32
  characters that is none of the known test tokens, or with a session cookie that is signed under a
  secret of at least 32 characters; the development login is refused.\<close>

theorem production_hardened:
  assumes "from_env en env = Inr cfg" "ac_environment cfg = ''production''"
    and "fst (require_token en (ac_service_tokens cfg) (auth_session_secret cfg) limiter c now ticks) = Inr p"
  shows "((\<exists>t. supplied_token c = Some t \<and> 32 \<le> char_count t \<and>
             t \<notin> {''redline-demo'', ''redline-smoke'', ''test-token''}) \<or>
          (supplied_token c = None \<and> 32 \<le> char_count (auth_session_secret cfg) \<and>
           auth_session_secret cfg \<noteq> ''redline-dev-session'' \<and>
           (\<exists>cookie body. cr_session_cookie c = Some cookie \<and>
              split_dot cookie = Some (body, ae_hmac en (auth_session_secret cfg) body)))) \<and>
    dev_login en cfg payload now' = Inl (HTTPException 403)"
proof -
  obtain c0 where "post_init c0 = Inr cfg" using from_env_post_init [OF assms(1)] by blast
  then have prod: "production_ok cfg" using post_init_Inr assms(2) by blast
  have secret: "32 \<le> char_count (auth_session_secret cfg)" "auth_session_secret cfg \<noteq> ''redline-dev-session''"
    using prod by (auto simp: production_ok_def auth_session_secret_def)
  let ?token = "principal_for_token (ac_service_tokens cfg) (supplied_token c)"
  have src: "?token = Some p \<or> (supplied_token c = None \<and>
      principal_for_session_cookie en (auth_session_secret cfg) (cr_session_cookie c) now = Inr (Some p))"
    using assms(3) by (auto simp: require_token_def Let_def split: sum.splits option.splits if_splits prod.splits)
  then show ?thesis
  proof
    assume "?token = Some p"
    then obtain tk s where t: "supplied_token c = Some s" "List.find (\<lambda>t. tk_token t = s) (ac_service_tokens cfg) = Some tk"
      by (auto simp: principal_for_token_def split: if_splits)
    have "tk \<in> set (ac_service_tokens cfg) \<and> tk_token tk = s" using t(2) by (auto simp: find_Some_iff)
    with prod have "\<not> bad_production_token tk \<and> tk_token tk = s" by (auto simp: production_ok_def list_all_iff)
    with t(1) show ?thesis using assms(2) by (auto simp: bad_production_token_def dev_login_def)
  next
    assume "supplied_token c = None \<and>
      principal_for_session_cookie en (auth_session_secret cfg) (cr_session_cookie c) now = Inr (Some p)"
    then show ?thesis using secret assms(2)
      by (auto simp: principal_for_session_cookie_def principal_from_session_cookie_def dev_login_def
          split: option.splits if_splits)
  qed
qed

definition sample_secret :: string where
  "sample_secret = replicate 40 (CHR ''k'')"

definition sample_environ :: environ where
  "sample_environ =
     [''REDLINE_SERVICE_ENV'' \<mapsto> ''production'', ''REDLINE_SERVICE_TOKEN'' \<mapsto> sample_secret,
      ''REDLINE_AUTH_SESSION_SECRET'' \<mapsto> sample_secret]"

definition sample_config :: service_config where
  "sample_config =
     \<lparr> ac_environment = ''production'', ac_service_tokens = [default_service_token sample_secret],
       ac_auth_session_secret = Some sample_secret, ac_auth_users = None, ac_dev_auth_user = None,
       ac_dev_auth_enabled = False, ac_github_client_id = None, ac_github_client_secret = None,
       ac_github_redirect_uri = None, ac_github_allowed_logins = [], sc_root = ''artifacts/service'',
       sc_token = sample_secret, sc_max_upload_bytes = 52428800, sc_workers = 2, sc_host = ''127.0.0.1'', sc_port = 8080,
       sc_cors_origins = [], sc_log_level = ''INFO'', sc_metadata_store = ''sqlite'', sc_artifact_store = ''local'',
       sc_database_url = None, sc_expose_error_details = False, sc_rate_limit_per_minute = 120, sc_max_packages = 100,
       sc_max_active_runs = 8, sc_max_runs_total = 500, sc_run_retention_seconds = 604800 \<rparr>"

lemma sample_texts:
  "lower (strip ''production'') = ''production''" "lower (strip ''false'') = ''false''" "upper ''INFO'' = ''INFO''"
  "split_on (CHR '','') [] = [[]]" "strip [] = []" "char_count sample_secret = 40"
  "sample_secret \<notin> {'''', ''redline-demo'', ''redline-smoke'', ''test-token'', ''redline-dev-session''}"
  by code_simp+

lemma sample_from_env: "from_env sample_auth_env sample_environ = Inr sample_config"
proof -
  have p: "post_init sample_config = Inr sample_config"
    using sample_texts(6,7)
    by (simp add: post_init_def sample_config_def limits_ok_def production_ok_def bad_production_token_def
        default_service_token_def)
  have "from_env sample_auth_env sample_environ = post_init sample_config"
    by (simp add: from_env_def sample_environ_def environ_get_def parse_positive_int_def parse_nonnegative_int_def
        parse_port_def parse_bool_def parse_csv_def parse_service_tokens_def sample_texts(1-5) sample_config_def)
  then show ?thesis using p by simp
qed

theorem production_hardened_witness:
  "dev_login sample_auth_env sample_config [] 0 = Inl (HTTPException 403)"
proof -
  let ?c = "\<lparr> cr_authorization = None, cr_redline_token = Some sample_secret, cr_session_cookie = None \<rparr>"
  let ?l = "\<lparr> lim_limit = 120, lim_window = 60, lim_events = \<lambda>_. [] \<rparr>"
  let ?p = "tk_principal (default_service_token sample_secret)"
  have "fst (require_token sample_auth_env (ac_service_tokens sample_config) (auth_session_secret sample_config) ?l ?c 0 0) = Inr ?p"
    using sample_texts(7)
    by (simp add: require_token_def supplied_token_def principal_for_token_def sample_config_def allow_def
        has_scope_def default_service_token_def VALID_SCOPES_def)
  from production_hardened [OF sample_from_env _ this] show ?thesis by (simp add: sample_config_def)
qed

end
