(* ===== verification/Exchange.thy ===== *)
theory Exchange
  imports Auth Release_Policy
begin

text \<open>
  The order adapter of \<open>src/redline/sponsor/bitget_execution.py\<close>: the execution intent and the client
  order id it determines, the requests to the exchange with their retries, the preflight, the order
  and its status query. The exchange is the parameter \<open>xe_transport\<close>: its answer to the n-th request of
  the process, or \<open>None\<close> when the transport raises. The state is the log of the requests that were sent.
  The signature headers are not modelled; a request says whether it is signed. A query is its sorted
  list of non-empty parameters, as \<open>urlencode\<close> gets it.
\<close>

section \<open>Intents\<close>

record execution_intent =
  xi_symbol :: string
  xi_product_type :: string
  xi_margin_mode :: string
  xi_margin_coin :: string
  xi_size :: string
  xi_side :: string
  xi_trade_side :: "string option"
  xi_order_type :: string
  xi_force :: "string option"
  xi_price :: "string option"
  xi_confirm_mainnet_order :: bool

definition upper_alnum :: "char \<Rightarrow> bool" where
  "upper_alnum c = (is_digit c \<or> (65 \<le> (of_char c :: nat) \<and> (of_char c :: nat) \<le> 90))"

definition positive_text :: "string \<Rightarrow> bool" where
  "positive_text s = (case decimal_text s of None \<Rightarrow> False | Some v \<Rightarrow> 0 < v)"

definition validate_intent :: "execution_intent \<Rightarrow> exn + execution_intent" where
  "validate_intent i =
     validated
       (xi_margin_mode i \<in> {''isolated'', ''crossed''} \<and> xi_side i \<in> {''buy'', ''sell''} \<and>
        xi_trade_side i \<in> {None, Some ''open'', Some ''close''} \<and> xi_order_type i \<in> {''market'', ''limit''} \<and>
        xi_force i \<in> {None, Some ''ioc'', Some ''fok'', Some ''gtc'', Some ''post_only''} \<and>
        xi_symbol i \<noteq> [] \<and> list_all upper_alnum (xi_symbol i) \<and>
        xi_product_type i \<noteq> [] \<and> list_all (\<lambda>c. upper_alnum c \<or> c = CHR ''-'') (xi_product_type i) \<and>
        xi_margin_coin i \<noteq> [] \<and> list_all upper_alnum (xi_margin_coin i) \<and>
        positive_text (xi_size i) \<and>
        (xi_order_type i = ''limit'' \<longrightarrow> nonempty (xi_price i)) \<and>
        (case xi_price i of None \<Rightarrow> True | Some p \<Rightarrow> positive_text p)) i"

definition intent_dict :: "execution_intent \<Rightarrow> dict" where
  "intent_dict i =
     [(''version'', PStr ''redline.execution.intent.v1''), (''symbol'', PStr (xi_symbol i)),
      (''product_type'', PStr (xi_product_type i)), (''margin_mode'', PStr (xi_margin_mode i)),
      (''margin_coin'', PStr (xi_margin_coin i)), (''size'', PStr (xi_size i)), (''side'', PStr (xi_side i)),
      (''trade_side'', opt_str (xi_trade_side i)), (''order_type'', PStr (xi_order_type i)),
      (''force'', opt_str (xi_force i)), (''price'', opt_str (xi_price i)),
      (''confirm_mainnet_order'', PBool (xi_confirm_mainnet_order i))]"

definition default_margin_coin :: "string \<Rightarrow> string" where
  "default_margin_coin symbol =
     (if endswith (upper symbol) ''USDC'' then ''USDC'' else if endswith (upper symbol) ''USDT'' then ''USDT'' else ''USDT'')"

definition default_execution_intent :: "string \<Rightarrow> string \<Rightarrow> execution_request \<Rightarrow> exn + execution_intent" where
  "default_execution_intent symbol product_type ex =
     validate_intent
       \<lparr> xi_symbol = symbol, xi_product_type = product_type, xi_margin_mode = ''isolated'',
         xi_margin_coin = (if nonempty (ex_margin_coin ex) then the (ex_margin_coin ex) else default_margin_coin symbol),
         xi_size = ex_size ex, xi_side = ex_side ex, xi_trade_side = ex_trade_side ex, xi_order_type = ex_order_type ex,
         xi_force = ex_force ex, xi_price = ex_price ex, xi_confirm_mainnet_order = ex_confirm_mainnet_order ex \<rparr>"

definition oid_of :: "string \<Rightarrow> string" where
  "oid_of h = ''rl-'' @ take 29 (removeprefix h ''sha256:'')"

definition make_client_oid :: "(string \<Rightarrow> string) \<Rightarrow> string \<Rightarrow> execution_intent \<Rightarrow> exn + string" where
  "make_client_oid H receipt_hash i =
     rbind (hash_obj H True (PDict [(''receipt_hash'', PStr receipt_hash), (''intent'', PDict (intent_dict i))]))
       (\<lambda>h. Inr (oid_of h))"

definition make_showcase_client_oid ::
  "(string \<Rightarrow> string) \<Rightarrow> string \<Rightarrow> execution_intent \<Rightarrow> string \<Rightarrow> exn + string" where
  "make_showcase_client_oid H receipt_hash i attempt_id =
     rbind (hash_obj H True
       (PDict [(''purpose'', PStr ''redline-demo-showcase-order''), (''receipt_hash'', PStr receipt_hash),
               (''intent'', PDict (intent_dict i)), (''attempt_id'', PStr attempt_id)]))
       (\<lambda>h. Inr (oid_of h))"

section \<open>The adapter and its transport\<close>

definition DEMO_SYMBOL_ALLOWLIST :: "string list" where
  "DEMO_SYMBOL_ALLOWLIST =
     [''ADAUSDT'', ''BCHUSDT'', ''BNBUSDT'', ''BTCUSDT'', ''DOGEUSDT'', ''DOTUSDT'', ''ETHUSDT'', ''LINKUSDT'',
      ''LTCUSDT'', ''NEARUSDT'', ''PEPEUSDT'', ''SHIBUSDT'', ''SOLUSDT'', ''UNIUSDT'', ''XRPUSDT'']"

definition is_demo_symbol :: "string \<Rightarrow> bool" where
  "is_demo_symbol s = (upper s \<in> set DEMO_SYMBOL_ALLOWLIST)"

record url_parts =
  up_scheme :: string
  up_hostname :: "string option"
  up_port :: "int option"
  up_path :: string
  up_query :: string
  up_fragment :: string

definition is_official_bitget_base_url :: "url_parts \<Rightarrow> bool" where
  "is_official_bitget_base_url u =
     (up_scheme u = ''https'' \<and> up_hostname u = Some ''api.bitget.com'' \<and> up_port u = None \<and> up_path u = [] \<and>
      up_query u = [] \<and> up_fragment u = [])"

record adapter =
  ad_paptrading :: string
  ad_max_retries :: nat
  ad_allow_mainnet_order :: bool

text \<open>The constructor: \<open>injected\<close> says that a transport was passed; then any base URL is taken.\<close>

definition make_adapter :: "string \<Rightarrow> url_parts \<Rightarrow> bool \<Rightarrow> rat \<Rightarrow> int \<Rightarrow> bool \<Rightarrow> exn + adapter" where
  "make_adapter paptrading base_url injected timeout_seconds max_retries allow_mainnet =
     (if paptrading \<notin> {''0'', ''1''} then Inl (ExecutionBlocked ''BITGET_PAPTRADING_INVALID'')
      else if timeout_seconds \<le> 0 then Inl ValueError
      else if \<not> injected \<and> \<not> is_official_bitget_base_url base_url then Inl (ExecutionBlocked ''BITGET_BASE_URL_UNTRUSTED'')
      else Inr \<lparr> ad_paptrading = paptrading, ad_max_retries = nat (max 0 max_retries), ad_allow_mainnet_order = allow_mainnet \<rparr>)"

definition assert_mode :: "adapter \<Rightarrow> execution_intent \<Rightarrow> exn + unit" where
  "assert_mode ad i =
     (if ad_paptrading ad = ''1''
      then (if \<not> is_demo_symbol (xi_symbol i) then Inl (ExecutionBlocked ''BITGET_DEMO_SYMBOL_REQUIRED'') else Inr ())
      else if ad_allow_mainnet_order ad \<and> xi_confirm_mainnet_order i then Inr ()
      else Inl (ExecutionBlocked ''BITGET_MAINNET_DISABLED''))"

record http_request =
  hr_method :: string
  hr_path :: string
  hr_query :: "(string \<times> string) list"
  hr_signed :: bool
  hr_paptrading :: bool
  hr_body :: dict

type_synonym http_log = "http_request list"

record exchange_env =
  xe_hash :: "string \<Rightarrow> string"
  xe_transport :: "nat \<Rightarrow> http_request \<Rightarrow> (int \<times> string) option"
  xe_loads :: "string \<Rightarrow> pyval option"
  xe_now :: "nat \<Rightarrow> string"
  xe_closing :: "nat \<Rightarrow> bool"
  xe_auth :: auth_env

definition path_with_query :: "(string \<times> string) list \<Rightarrow> (string \<times> string) list" where
  "path_with_query q = sort_key fst (filter (\<lambda>(k, v). v \<noteq> []) q)"

text \<open>\<open>_send\<close> with the number of retries that are left.\<close>

fun send_from ::
  "exchange_env \<Rightarrow> bool \<Rightarrow> bool \<Rightarrow> http_request \<Rightarrow> nat \<Rightarrow> http_log \<Rightarrow> (exn + (int \<times> string)) \<times> http_log" where
  "send_from en cancellable retry_errors req left sent =
     (if cancellable \<and> xe_closing en (length sent) then (Inl (ExecutionBlocked ''BITGET_ORDER_CANCELLED''), sent)
      else case xe_transport en (length sent) req of
             Some (code, body) \<Rightarrow>
               (case left of
                  Suc n \<Rightarrow> if 500 \<le> code then send_from en cancellable retry_errors req n (sent @ [req])
                           else (Inr (code, body), sent @ [req])
                | 0 \<Rightarrow> (Inr (code, body), sent @ [req]))
           | None \<Rightarrow>
               (case left of
                  Suc n \<Rightarrow> if retry_errors then send_from en cancellable retry_errors req n (sent @ [req])
                           else (Inl (ExecutionBlocked ''BITGET_TRANSPORT_ERROR''), sent @ [req])
                | 0 \<Rightarrow> (Inl (ExecutionBlocked ''BITGET_TRANSPORT_ERROR''), sent @ [req])))"

declare send_from.simps [simp del]

definition send ::
  "exchange_env \<Rightarrow> adapter \<Rightarrow> bool \<Rightarrow> bool \<Rightarrow> http_request \<Rightarrow> http_log \<Rightarrow> (exn + (int \<times> string)) \<times> http_log" where
  "send en ad cancellable retry_errors req sent = send_from en cancellable retry_errors req (ad_max_retries ad) sent"

definition request_json ::
  "exchange_env \<Rightarrow> adapter \<Rightarrow> string \<Rightarrow> (string \<times> string) list \<Rightarrow> bool \<Rightarrow> http_log \<Rightarrow> (exn + dict) \<times> http_log" where
  "request_json en ad path query auth sent =
     (case send en ad False True
             \<lparr> hr_method = ''GET'', hr_path = path, hr_query = path_with_query query, hr_signed = auth,
               hr_paptrading = (ad_paptrading ad = ''1''), hr_body = [] \<rparr> sent of
        (Inl e, sent') \<Rightarrow> (Inl e, sent')
      | (Inr (code, body), sent') \<Rightarrow>
          (case xe_loads en body of
             Some (PDict d) \<Rightarrow>
               (let response = put d ''_http_status'' (PInt code)
                in if 400 \<le> code \<or> py_str (xe_auth en) (get_default response ''code'' (PStr [])) \<notin> {'''', ''00000''}
                   then (Inl (ExecutionBlocked ''BITGET_READ_REJECTED''), sent') else (Inr response, sent'))
           | _ \<Rightarrow> (Inl (ExecutionBlocked ''BITGET_RESPONSE_INVALID''), sent')))"

definition SECRET_KEYS :: "string list" where
  "SECRET_KEYS = [''access-key'', ''access_key'', ''secret'', ''secret_key'', ''passphrase'', ''sign'', ''signature'', ''token'']"

fun redact_secrets :: "pyval \<Rightarrow> pyval" where
  "redact_secrets (PDict kvs) =
     PDict (map (\<lambda>(k, v). (k, if lower k \<in> set SECRET_KEYS then PStr ''***'' else redact_secrets v)) kvs)"
| "redact_secrets (PList xs) = PList (map redact_secrets xs)"
| "redact_secrets v = v"

definition zero_hash :: string where
  "zero_hash = ''sha256:'' @ replicate 64 (CHR ''0'')"

section \<open>The status of an order\<close>

definition normalize_order_status :: "string \<Rightarrow> string" where
  "normalize_order_status raw =
     (let v = lower raw
      in if v \<in> {''live'', ''new'', ''placed'', ''init'', ''open''} then ''placed''
         else if v \<in> {''partially_filled'', ''partial-fill'', ''partial_filled'', ''partfilled''} then ''partially_filled''
         else if v \<in> {''filled'', ''full-fill'', ''full_filled''} then ''filled''
         else if v \<in> {''cancelled'', ''canceled'', ''cancel''} then ''cancelled''
         else if v \<in> {''rejected'', ''fail'', ''failed''} then ''rejected''
         else ''unknown_reconciliation_required'')"

record order_status =
  os_run_id :: string
  os_receipt_hash :: string
  os_client_oid :: string
  os_bitget_order_id :: "string option"
  os_queried_at :: string
  os_symbol :: string
  os_product_type :: string
  os_order_mode :: string
  os_paptrading :: "string option"
  os_status :: string
  os_raw_status :: "string option"
  os_response_hash :: string
  os_status_code :: int
  os_evidence_hash :: string

definition order_status_dict :: "order_status \<Rightarrow> dict" where
  "order_status_dict e =
     [(''schema_version'', PStr ''redline.bitget.order_status.v1''), (''run_id'', PStr (os_run_id e)),
      (''receipt_hash'', PStr (os_receipt_hash e)), (''client_oid'', PStr (os_client_oid e)),
      (''bitget_order_id'', opt_str (os_bitget_order_id e)), (''queried_at'', PStr (os_queried_at e)),
      (''symbol'', PStr (os_symbol e)), (''product_type'', PStr (os_product_type e)),
      (''order_mode'', PStr (os_order_mode e)), (''paptrading'', opt_str (os_paptrading e)),
      (''status'', PStr (os_status e)), (''raw_status'', opt_str (os_raw_status e)),
      (''response_hash'', PStr (os_response_hash e)), (''status_code'', PInt (os_status_code e))]"

definition order_status_evidence_hash :: "(string \<Rightarrow> string) \<Rightarrow> order_status \<Rightarrow> exn + string" where
  "order_status_evidence_hash H e = hash_obj H True (PDict (order_status_dict e))"

definition order_mode_of :: "adapter \<Rightarrow> string" where
  "order_mode_of ad = (if ad_paptrading ad = ''1'' then ''demo'' else ''mainnet'')"

definition paptrading_of :: "adapter \<Rightarrow> string option" where
  "paptrading_of ad = (if ad_paptrading ad = ''1'' then Some ''1'' else None)"

definition first_truthy :: "pyval \<Rightarrow> pyval \<Rightarrow> pyval" where
  "first_truthy a b = (if truthy a then a else b)"

definition status_query :: "execution_intent \<Rightarrow> string \<Rightarrow> string option \<Rightarrow> (string \<times> string) list" where
  "status_query i client_oid order_id =
     [(''symbol'', xi_symbol i), (''productType'', xi_product_type i), (''clientOid'', client_oid)] @
     (if nonempty order_id then [(''orderId'', the order_id)] else [])"

text \<open>A failed request is recorded as such a response; an error outside \<open>ExecutionBlocked\<close> gets through.\<close>

definition status_response :: "(exn + dict) \<Rightarrow> exn + (dict \<times> int)" where
  "status_response r =
     (case r of
        Inr d \<Rightarrow> Inr (d, case get d ''_http_status'' of PInt i \<Rightarrow> i | _ \<Rightarrow> 0)
      | Inl (ExecutionBlocked _) \<Rightarrow>
          Inr ([(''code'', PStr ''RECONCILIATION_FAILED''), (''data'', PDict []), (''msg'', PStr ''order detail query failed'')], 0)
      | Inl e \<Rightarrow> Inl e)"

definition observed_status :: "exchange_env \<Rightarrow> dict \<Rightarrow> string option \<Rightarrow> string option \<times> string option \<times> string" where
  "observed_status en response order_id =
     (case as_dict (get response ''data'') of
        None \<Rightarrow> (order_id, None, ''unknown_reconciliation_required'')
      | Some d \<Rightarrow>
          (let raw = str_or (xe_auth en) (first_truthy (get d ''state'') (get d ''status'')) []
           in (Some (str_or (xe_auth en) (get d ''orderId'') (case order_id of None \<Rightarrow> [] | Some s \<Rightarrow> s)), Some raw,
               normalize_order_status raw)))"

definition query_order_status ::
  "exchange_env \<Rightarrow> adapter \<Rightarrow> string \<Rightarrow> string \<Rightarrow> execution_intent \<Rightarrow> string \<Rightarrow> string option \<Rightarrow> http_log \<Rightarrow>
   (exn + order_status) \<times> http_log" where
  "query_order_status en ad run_id receipt_hash i client_oid order_id sent =
     (case assert_mode ad i of
        Inl e \<Rightarrow> (Inl e, sent)
      | Inr _ \<Rightarrow>
          (case request_json en ad ''/api/v2/mix/order/detail'' (status_query i client_oid order_id) True sent of
             (reply, sent') \<Rightarrow>
               (rbind (status_response reply) (\<lambda>(response, code).
                rbind (hash_obj (xe_hash en) True (redact_secrets (PDict response))) (\<lambda>response_hash.
                  case observed_status en response order_id of
                    (oid, raw, st) \<Rightarrow>
                      (let e = \<lparr> os_run_id = run_id, os_receipt_hash = receipt_hash, os_client_oid = client_oid,
                                 os_bitget_order_id = (if nonempty oid then oid else None),
                                 os_queried_at = xe_now en (length sent'), os_symbol = xi_symbol i,
                                 os_product_type = xi_product_type i, os_order_mode = order_mode_of ad,
                                 os_paptrading = paptrading_of ad, os_status = st, os_raw_status = raw,
                                 os_response_hash = response_hash, os_status_code = code,
                                 os_evidence_hash = zero_hash \<rparr>
                       in rbind (order_status_evidence_hash (xe_hash en) e) (\<lambda>h. Inr (e\<lparr> os_evidence_hash := h \<rparr>))))),
                sent')))"

section \<open>Placing an order\<close>

record placement =
  pl_client_oid :: string
  pl_bitget_order_id :: string
  pl_response_hash :: string
  pl_placed_at :: string
  pl_status_code :: int

definition order_payload :: "execution_intent \<Rightarrow> string \<Rightarrow> dict" where
  "order_payload i client_oid =
     [(''symbol'', PStr (xi_symbol i)), (''productType'', PStr (xi_product_type i)),
      (''marginMode'', PStr (xi_margin_mode i)), (''marginCoin'', PStr (xi_margin_coin i)), (''size'', PStr (xi_size i)),
      (''side'', PStr (xi_side i)), (''orderType'', PStr (xi_order_type i)), (''clientOid'', PStr client_oid)] @
     (case xi_trade_side i of None \<Rightarrow> [] | Some s \<Rightarrow> [(''tradeSide'', PStr s)]) @
     (case xi_force i of None \<Rightarrow> [] | Some s \<Rightarrow> [(''force'', PStr s)]) @
     (case xi_price i of None \<Rightarrow> [] | Some s \<Rightarrow> [(''price'', PStr s)])"

definition order_request :: "adapter \<Rightarrow> execution_intent \<Rightarrow> string \<Rightarrow> http_request" where
  "order_request ad i client_oid =
     \<lparr> hr_method = ''POST'', hr_path = ''/api/v2/mix/order/place-order'', hr_query = [], hr_signed = True,
       hr_paptrading = (ad_paptrading ad = ''1''), hr_body = order_payload i client_oid \<rparr>"

text \<open>\<open>query_order_status\<close> with the placement it recovers, from a timeout or a duplicate client order id.\<close>

definition recover_order ::
  "exchange_env \<Rightarrow> adapter \<Rightarrow> string \<Rightarrow> execution_intent \<Rightarrow> string \<Rightarrow> http_log \<Rightarrow> (exn + placement) \<times> http_log" where
  "recover_order en ad receipt_hash i client_oid sent =
     (case query_order_status en ad ''recovered'' receipt_hash i client_oid None sent of
        (reply, sent') \<Rightarrow>
          (rbind reply (\<lambda>r.
             if os_status r = ''unknown_reconciliation_required'' \<or> os_bitget_order_id r = None
             then Inl (ExecutionBlocked ''EXCHANGE_RECONCILIATION_REQUIRED'')
             else Inr \<lparr> pl_client_oid = client_oid, pl_bitget_order_id = the (os_bitget_order_id r),
                        pl_response_hash = os_response_hash r, pl_placed_at = os_queried_at r,
                        pl_status_code = os_status_code r \<rparr>), sent'))"

definition is_duplicate_client_oid_response :: "exchange_env \<Rightarrow> pyval \<Rightarrow> bool" where
  "is_duplicate_client_oid_response en v =
     (case as_dict v of
        None \<Rightarrow> False
      | Some d \<Rightarrow>
          (let message = lower (str_or (xe_auth en) (first_truthy (get d ''msg'') (get d ''message'')) [])
           in str_or (xe_auth en) (get d ''code'') [] = ''40786'' \<or> contains ''duplicate clientoid'' message \<or>
              contains ''duplicate client oid'' message))"

definition rejected_or_recovered ::
  "exchange_env \<Rightarrow> adapter \<Rightarrow> pyval \<Rightarrow> string \<Rightarrow> execution_intent \<Rightarrow> string \<Rightarrow> http_log \<Rightarrow> (exn + placement) \<times> http_log" where
  "rejected_or_recovered en ad response receipt_hash i client_oid sent =
     (if is_duplicate_client_oid_response en response then recover_order en ad receipt_hash i client_oid sent
      else (Inl (ExecutionBlocked ''BITGET_ORDER_REJECTED''), sent))"

definition placed_order ::
  "exchange_env \<Rightarrow> dict \<Rightarrow> int \<Rightarrow> string \<Rightarrow> http_log \<Rightarrow> exn + placement" where
  "placed_order en response code client_oid sent =
     (case as_dict (get response ''data'') of
        None \<Rightarrow> Inl (ExecutionBlocked ''BITGET_RESPONSE_INVALID'')
      | Some d \<Rightarrow>
          (let oid = str_or (xe_auth en) (get d ''orderId'') []
           in if oid = [] then Inl (ExecutionBlocked ''BITGET_RESPONSE_INVALID'')
              else if str_or (xe_auth en) (get d ''clientOid'') client_oid \<noteq> client_oid
              then Inl (ExecutionBlocked ''BITGET_RESPONSE_INVALID'')
              else rbind (hash_obj (xe_hash en) True (redact_secrets (PDict response))) (\<lambda>h.
                Inr \<lparr> pl_client_oid = client_oid, pl_bitget_order_id = oid, pl_response_hash = h,
                      pl_placed_at = xe_now en (length sent), pl_status_code = code \<rparr>)))"

definition place_order ::
  "exchange_env \<Rightarrow> adapter \<Rightarrow> execution_intent \<Rightarrow> string \<Rightarrow> string \<Rightarrow> http_log \<Rightarrow> (exn + placement) \<times> http_log" where
  "place_order en ad i receipt_hash client_oid sent =
     (case assert_mode ad i of
        Inl e \<Rightarrow> (Inl e, sent)
      | Inr _ \<Rightarrow>
          (case send en ad True False (order_request ad i client_oid) sent of
             (Inl e, sent') \<Rightarrow>
               if e = ExecutionBlocked ''BITGET_TRANSPORT_ERROR'' then recover_order en ad receipt_hash i client_oid sent'
               else (Inl e, sent')
           | (Inr (code, body), sent') \<Rightarrow>
               (case xe_loads en body of
                  None \<Rightarrow> (Inl (ExecutionBlocked ''BITGET_RESPONSE_INVALID''), sent')
                | Some v \<Rightarrow>
                    if 400 \<le> code then rejected_or_recovered en ad v receipt_hash i client_oid sent'
                    else (case as_dict v of
                            None \<Rightarrow> (Inl AttributeError, sent')
                          | Some d \<Rightarrow>
                              if py_str (xe_auth en) (get_default d ''code'' (PStr [])) \<noteq> ''00000''
                              then rejected_or_recovered en ad v receipt_hash i client_oid sent'
                              else (placed_order en d code client_oid sent', sent')))))"


section \<open>The preflight\<close>

record preflight =
  pf_run_id :: string
  pf_receipt_hash :: string
  pf_client_oid :: string
  pf_checked_at :: string
  pf_symbol :: string
  pf_product_type :: string
  pf_margin_coin :: string
  pf_order_mode :: string
  pf_paptrading :: "string option"
  pf_ok :: bool
  pf_checks :: "dict list"
  pf_contract_response_hash :: string
  pf_account_response_hash :: string
  pf_symbol_status :: "string option"
  pf_min_trade_num :: "string option"
  pf_min_trade_usdt :: "string option"
  pf_price_place :: "string option"
  pf_volume_place :: "string option"
  pf_available :: "string option"
  pf_preflight_hash :: string

definition preflight_dict :: "preflight \<Rightarrow> dict" where
  "preflight_dict e =
     [(''schema_version'', PStr ''redline.bitget.exchange_preflight.v1''), (''run_id'', PStr (pf_run_id e)),
      (''receipt_hash'', PStr (pf_receipt_hash e)), (''client_oid'', PStr (pf_client_oid e)),
      (''checked_at'', PStr (pf_checked_at e)), (''symbol'', PStr (pf_symbol e)),
      (''product_type'', PStr (pf_product_type e)), (''margin_coin'', PStr (pf_margin_coin e)),
      (''order_mode'', PStr (pf_order_mode e)), (''paptrading'', opt_str (pf_paptrading e)), (''ok'', PBool (pf_ok e)),
      (''checks'', PList (map PDict (pf_checks e))),
      (''contract_response_hash'', PStr (pf_contract_response_hash e)),
      (''account_response_hash'', PStr (pf_account_response_hash e)), (''symbol_status'', opt_str (pf_symbol_status e)),
      (''min_trade_num'', opt_str (pf_min_trade_num e)), (''min_trade_usdt'', opt_str (pf_min_trade_usdt e)),
      (''price_place'', opt_str (pf_price_place e)), (''volume_place'', opt_str (pf_volume_place e)),
      (''available'', opt_str (pf_available e))]"

definition preflight_evidence_hash :: "(string \<Rightarrow> string) \<Rightarrow> preflight \<Rightarrow> exn + string" where
  "preflight_evidence_hash H e = hash_obj H True (PDict (preflight_dict e))"

text \<open>\<open>_find_contract\<close>: the first entry for the symbol.\<close>

definition find_contract :: "exchange_env \<Rightarrow> dict \<Rightarrow> string \<Rightarrow> dict option" where
  "find_contract en response symbol =
     (case get response ''data'' of
        PList xs \<Rightarrow>
          List.find (\<lambda>d. upper (str_or (xe_auth en) (get d ''symbol'') []) = upper symbol)
            (List.map_filter as_dict xs)
      | _ \<Rightarrow> None)"

definition preflight_decimal :: "string \<Rightarrow> exn + pydec" where
  "preflight_decimal s =
     (case parse_decimal s of
        None \<Rightarrow> Inl (ExecutionBlocked ''EXCHANGE_PREFLIGHT_INVALID_DECIMAL'')
      | Some d \<Rightarrow>
          if is_finite d then Inr d else Inl (ExecutionBlocked ''EXCHANGE_PREFLIGHT_INVALID_DECIMAL''))"

definition optional_decimal :: "exchange_env \<Rightarrow> pyval \<Rightarrow> exn + pydec option" where
  "optional_decimal en v =
     (if v = PNone \<or> py_str (xe_auth en) v = [] then Inr None
      else rbind (preflight_decimal (py_str (xe_auth en) v)) (\<lambda>d. Inr (Some d)))"

text \<open>\<open>normalize()\<close> rounds to the context and strips the zeros at the end of the coefficient.\<close>

function strip_zeros :: "int \<Rightarrow> int \<Rightarrow> int" where
  "strip_zeros c e = (if c \<noteq> 0 \<and> c mod 10 = 0 then strip_zeros (c div 10) (e + 1) else e)"
  by pat_completeness auto
termination
  by (relation "measure (\<lambda>(c, e). nat \<bar>c\<bar>)") auto

declare strip_zeros.simps [simp del]

definition decimal_places :: "string \<Rightarrow> exn + nat" where
  "decimal_places s =
     rbind (preflight_decimal s) (\<lambda>d.
     rbind (dop (dval d)) (\<lambda>n.
       case n of
         Finite c e \<Rightarrow> Inr (if c = 0 then 0 else nat (max 0 (- strip_zeros c e)))
       | _ \<Rightarrow> Inr 0))"

definition check :: "string \<Rightarrow> bool \<Rightarrow> string option \<Rightarrow> dict" where
  "check name ok v = [(''name'', PStr name), (''ok'', PBool ok)] @ (case v of None \<Rightarrow> [] | Some s \<Rightarrow> [(''value'', PStr s)])"

definition precision_check :: "exchange_env \<Rightarrow> string \<Rightarrow> string option \<Rightarrow> pyval \<Rightarrow> exn + dict list" where
  "precision_check en name text place =
     (case (place, text) of
        (PNone, _) \<Rightarrow> Inr []
      | (PStr [], _) \<Rightarrow> Inr []
      | (PList _, _) \<Rightarrow> Inl TypeError
      | (PDict _, _) \<Rightarrow> Inl TypeError
      | (_, None) \<Rightarrow> Inr []
      | (v, Some s) \<Rightarrow>
          rbind (decimal_places s) (\<lambda>n.
            case parse_int (py_str (xe_auth en) v) of
              None \<Rightarrow> Inl ValueError
            | Some k \<Rightarrow> Inr [check name (int n \<le> k) (Some (py_str (xe_auth en) v))]))"

definition symbol_status_checks :: "exchange_env \<Rightarrow> dict \<Rightarrow> dict list" where
  "symbol_status_checks en c =
     (let s = str_or (xe_auth en) (first_truthy (get c ''symbolStatus'') (get c ''symbol_status'')) []
      in if s = [] then []
         else [check ''symbol_status'' (lower s \<in> {''normal'', ''listed'', ''tradable''}) (Some s)])"

definition margin_checks :: "execution_intent \<Rightarrow> dict \<Rightarrow> exn + dict list" where
  "margin_checks i c =
     rbind (py_iter (get_default c ''supportMarginCoins'' (PList []))) (\<lambda>items.
       let supported = map upper (List.map_filter as_text items)
       in Inr (if supported = [] then []
               else [check ''margin_coin_supported'' (upper (xi_margin_coin i) \<in> set supported) None]))"

definition min_num_checks :: "exchange_env \<Rightarrow> execution_intent \<Rightarrow> dict \<Rightarrow> exn + dict list" where
  "min_num_checks en i c =
     rbind (optional_decimal en (get c ''minTradeNum'')) (\<lambda>m.
       case m of
         None \<Rightarrow> Inr []
       | Some least \<Rightarrow>
           rbind (preflight_decimal (xi_size i)) (\<lambda>s.
             Inr [check ''min_trade_num'' (dval least \<le> dval s) (Some (py_str (xe_auth en) (get c ''minTradeNum'')))]))"

definition min_usdt_checks :: "exchange_env \<Rightarrow> execution_intent \<Rightarrow> dict \<Rightarrow> exn + dict list" where
  "min_usdt_checks en i c =
     rbind (optional_decimal en (get c ''minTradeUSDT'')) (\<lambda>m.
       case (m, xi_price i) of
         (Some least, Some price) \<Rightarrow>
           rbind (preflight_decimal price) (\<lambda>p.
           rbind (preflight_decimal (xi_size i)) (\<lambda>s.
           rbind (dmul p s) (\<lambda>notional.
             Inr [check ''min_trade_usdt'' (dval least \<le> dval notional)
                    (Some (py_str (xe_auth en) (get c ''minTradeUSDT'')))])))
       | _ \<Rightarrow> Inr [])"

definition contract_checks :: "exchange_env \<Rightarrow> execution_intent \<Rightarrow> dict option \<Rightarrow> exn + dict list" where
  "contract_checks en i contract =
     (case contract of
        None \<Rightarrow> Inr []
      | Some c \<Rightarrow>
          rbind (margin_checks i c) (\<lambda>margin.
          rbind (min_num_checks en i c) (\<lambda>num.
          rbind (precision_check en ''size_precision'' (Some (xi_size i)) (get c ''volumePlace'')) (\<lambda>sp.
          rbind (precision_check en ''price_precision'' (xi_price i) (get c ''pricePlace'')) (\<lambda>pp.
          rbind (min_usdt_checks en i c) (\<lambda>usdt.
            Inr (symbol_status_checks en c @ margin @ num @ sp @ pp @ usdt)))))))"

definition preflight_evidence ::
  "exchange_env \<Rightarrow> adapter \<Rightarrow> string \<Rightarrow> string \<Rightarrow> execution_intent \<Rightarrow> string \<Rightarrow> string \<Rightarrow> dict \<Rightarrow> dict \<Rightarrow> exn + preflight" where
  "preflight_evidence en ad run_id receipt_hash i client_oid now contract_response account_response =
     (let contract = find_contract en contract_response (xi_symbol i);
          account = as_dict (get account_response ''data'');
          field = (\<lambda>k. map_option (\<lambda>c. str_or (xe_auth en) (get c k) []) contract)
      in rbind (contract_checks en i contract) (\<lambda>more.
           let checks = [check ''symbol_exists'' (contract \<noteq> None) None, check ''account_readable'' (account \<noteq> None) None] @ more
           in rbind (hash_obj (xe_hash en) True (redact_secrets (PDict contract_response))) (\<lambda>ch.
              rbind (hash_obj (xe_hash en) True (redact_secrets (PDict account_response))) (\<lambda>ah.
                let e = \<lparr> pf_run_id = run_id, pf_receipt_hash = receipt_hash, pf_client_oid = client_oid,
                          pf_checked_at = now, pf_symbol = xi_symbol i, pf_product_type = xi_product_type i,
                          pf_margin_coin = xi_margin_coin i, pf_order_mode = order_mode_of ad,
                          pf_paptrading = paptrading_of ad, pf_ok = list_all (\<lambda>c. truthy (get c ''ok'')) checks,
                          pf_checks = checks, pf_contract_response_hash = ch, pf_account_response_hash = ah,
                          pf_symbol_status = field ''symbolStatus'', pf_min_trade_num = field ''minTradeNum'',
                          pf_min_trade_usdt = field ''minTradeUSDT'', pf_price_place = field ''pricePlace'',
                          pf_volume_place = field ''volumePlace'',
                          pf_available = map_option (\<lambda>a. str_or (xe_auth en) (get a ''available'') []) account,
                          pf_preflight_hash = zero_hash \<rparr>
                in rbind (preflight_evidence_hash (xe_hash en) e) (\<lambda>h. Inr (e\<lparr> pf_preflight_hash := h \<rparr>))))))"

definition preflight_exchange ::
  "exchange_env \<Rightarrow> adapter \<Rightarrow> string \<Rightarrow> string \<Rightarrow> execution_intent \<Rightarrow> string \<Rightarrow> http_log \<Rightarrow> (exn + preflight) \<times> http_log" where
  "preflight_exchange en ad run_id receipt_hash i client_oid sent =
     (case assert_mode ad i of
        Inl e \<Rightarrow> (Inl e, sent)
      | Inr _ \<Rightarrow>
          (case request_json en ad ''/api/v2/mix/market/contracts'' [(''productType'', xi_product_type i)] False sent of
             (Inl e, sent1) \<Rightarrow> (Inl e, sent1)
           | (Inr contracts, sent1) \<Rightarrow>
               (case request_json en ad ''/api/v2/mix/account/account''
                       [(''symbol'', xi_symbol i), (''productType'', xi_product_type i), (''marginCoin'', xi_margin_coin i)]
                       True sent1 of
                  (Inl e, sent2) \<Rightarrow> (Inl e, sent2)
                | (Inr account, sent2) \<Rightarrow>
                    (preflight_evidence en ad run_id receipt_hash i client_oid (xe_now en (length sent2)) contracts account,
                     sent2))))"


section \<open>What is sent to the exchange\<close>

lemma send_from_log:
  "\<exists>k. snd (send_from en cb re req left sent) = sent @ replicate k req \<and> k \<le> Suc left"
proof (induction left arbitrary: sent)
  case 0
  show ?case
    by (subst send_from.simps) (auto split: option.split intro: exI [of _ 0] exI [of _ 1])
next
  case (Suc n)
  obtain k where k: "snd (send_from en cb re req n (sent @ [req])) = (sent @ [req]) @ replicate k req" "k \<le> Suc n"
    using Suc.IH by blast
  then have again: "snd (send_from en cb re req n (sent @ [req])) = sent @ replicate (Suc k) req \<and> Suc k \<le> Suc (Suc n)"
    by simp
  show ?case
    by (subst send_from.simps)
       (use again in \<open>auto split: option.split intro: exI [of _ 0] exI [of _ 1] exI [of _ "Suc k"]\<close>)
qed

lemma send_log: "\<exists>k. snd (send en ad cb re req sent) = sent @ replicate k req \<and> k \<le> Suc (ad_max_retries ad)"
  unfolding send_def by (rule send_from_log)

text \<open>The log of an operation grows by requests with the property \<open>P\<close>, at most \<open>n\<close> of them orders.\<close>

definition is_order :: "http_request \<Rightarrow> bool" where
  "is_order q = (hr_method q = ''POST'')"

definition sends :: "(http_request \<Rightarrow> bool) \<Rightarrow> nat \<Rightarrow> http_log \<Rightarrow> http_log \<Rightarrow> bool" where
  "sends P n sent sent' =
     (\<exists>more. sent' = sent @ more \<and> list_all P more \<and> length (filter is_order more) \<le> n)"

lemma sends_refl [simp]: "sends P n sent sent"
  by (simp add: sends_def)

lemma sends_trans: "sends P m a b \<Longrightarrow> sends P n b c \<Longrightarrow> sends P (m + n) a c"
  unfolding sends_def by (elim exE, rule exI [where x = "_ @ _"]) auto

lemma request_json_sends:
  assumes "P (\<lparr> hr_method = ''GET'', hr_path = path, hr_query = path_with_query q, hr_signed = auth,
               hr_paptrading = (ad_paptrading ad = ''1''), hr_body = [] \<rparr>)"
  shows "sends P 0 sent (snd (request_json en ad path q auth sent))"
proof -
  let ?req = "\<lparr> hr_method = ''GET'', hr_path = path, hr_query = path_with_query q, hr_signed = auth,
               hr_paptrading = (ad_paptrading ad = ''1''), hr_body = [] \<rparr>"
  obtain k where k: "snd (send en ad False True ?req sent) = sent @ replicate k ?req"
    using send_log by blast
  have "snd (request_json en ad path q auth sent) = snd (send en ad False True ?req sent)"
    unfolding request_json_def by (simp split: prod.split sum.split option.split pyval.split add: Let_def)
  with k show ?thesis using assms by (auto simp: sends_def list_all_iff is_order_def)
qed

text \<open>The requests an operation may make for an intent: paper trading for a demo symbol, or a mainnet that
  the adapter and the intent both allow; an order is the one for this client order id.\<close>

definition proper_request :: "adapter \<Rightarrow> execution_intent \<Rightarrow> string \<Rightarrow> http_request \<Rightarrow> bool" where
  "proper_request ad i client_oid q =
     ((if hr_paptrading q then is_demo_symbol (xi_symbol i)
       else ad_allow_mainnet_order ad \<and> xi_confirm_mainnet_order i) \<and>
      (is_order q \<longrightarrow> q = order_request ad i client_oid))"

lemma proper_GET:
  assumes "assert_mode ad i = Inr ()"
  shows "proper_request ad i oid \<lparr> hr_method = ''GET'', hr_path = p, hr_query = q, hr_signed = auth,
    hr_paptrading = (ad_paptrading ad = ''1''), hr_body = [] \<rparr>"
  using assms by (auto simp: proper_request_def is_order_def assert_mode_def split: if_splits)

lemma query_sends:
  "sends (proper_request ad i oid) 0 sent (snd (query_order_status en ad run rh i oid order_id sent))"
proof (cases "assert_mode ad i")
  case (Inr u)
  have "sends (proper_request ad i oid) 0 sent
      (snd (request_json en ad ''/api/v2/mix/order/detail'' (status_query i oid order_id) True sent))"
    using Inr by (intro request_json_sends proper_GET) simp
  moreover have "snd (query_order_status en ad run rh i oid order_id sent)
      = snd (request_json en ad ''/api/v2/mix/order/detail'' (status_query i oid order_id) True sent)"
    unfolding query_order_status_def Inr by (simp split: prod.split)
  ultimately show ?thesis by simp
qed (simp add: query_order_status_def)

lemma recover_sends: "sends (proper_request ad i oid) 0 sent (snd (recover_order en ad rh i oid sent))"
  using query_sends [of ad i oid sent en "''recovered''" rh None]
  by (auto simp: recover_order_def split: prod.split)

lemma rejected_sends: "sends (proper_request ad i oid) 0 sent (snd (rejected_or_recovered en ad v rh i oid sent))"
  by (simp add: rejected_or_recovered_def recover_sends)

lemma order_sends:
  assumes "assert_mode ad i = Inr ()"
  shows "sends (proper_request ad i oid) (Suc (ad_max_retries ad)) sent
    (snd (send en ad True False (order_request ad i oid) sent))"
proof -
  obtain k where k: "snd (send en ad True False (order_request ad i oid) sent) = sent @ replicate k (order_request ad i oid)"
    "k \<le> Suc (ad_max_retries ad)" using send_log by blast
  have "proper_request ad i oid (order_request ad i oid)"
    using assms by (auto simp: proper_request_def order_request_def assert_mode_def split: if_splits)
  with k show ?thesis
    by (auto simp: sends_def list_all_iff intro!: exI [of _ "replicate k (order_request ad i oid)"]
        order.trans [OF length_filter_le])
qed

lemma place_order_sends:
  "sends (proper_request ad i oid) (Suc (ad_max_retries ad)) sent (snd (place_order en ad i rh oid sent))"
proof (cases "assert_mode ad i")
  case (Inr u)
  obtain r sent' where s: "send en ad True False (order_request ad i oid) sent = (r, sent')" by fastforce
  have first: "sends (proper_request ad i oid) (Suc (ad_max_retries ad)) sent sent'"
    using order_sends [of ad i oid sent en] Inr s by simp
  have more: "sends (proper_request ad i oid) (Suc (ad_max_retries ad)) sent x"
    if "sends (proper_request ad i oid) 0 sent' x" for x
    using sends_trans [OF first that] by simp
  show ?thesis
    unfolding place_order_def Inr s
    by (cases r) (auto split: option.split prod.split simp: first intro!: more recover_sends rejected_sends)
qed (simp add: place_order_def)

lemma placed_client_oid: "placed_order en d code oid sent = Inr p \<Longrightarrow> pl_client_oid p = oid"
  by (auto simp: placed_order_def Let_def rbind_Inr_iff split: option.splits if_splits)

lemma recovered_client_oid: "fst (recover_order en ad rh i oid sent) = Inr p \<Longrightarrow> pl_client_oid p = oid"
  by (auto simp: recover_order_def rbind_Inr_iff split: prod.splits if_splits)

lemma rejected_client_oid: "fst (rejected_or_recovered en ad v rh i oid sent) = Inr p \<Longrightarrow> pl_client_oid p = oid"
  by (auto simp: rejected_or_recovered_def recovered_client_oid split: if_splits)

lemma place_order_client_oid:
  assumes "fst (place_order en ad i rh oid sent) = Inr p"
  shows "pl_client_oid p = oid"
proof (cases "assert_mode ad i")
  case (Inr u)
  obtain r sent' where s: "send en ad True False (order_request ad i oid) sent = (r, sent')" by fastforce
  show ?thesis using assms unfolding place_order_def Inr s
    by (cases r)
       (auto split: option.splits prod.splits if_splits
          dest: placed_client_oid recovered_client_oid rejected_client_oid)
qed (use assms in \<open>simp add: place_order_def\<close>)

text \<open>C23: what placing an order sends to the exchange: whatever the exchange answers, and whether or not
  the transport fails, every \<open>POST\<close> is the one order of the intent under the given client order id, there
  are at most \<open>max_retries + 1\<close> of them and the other requests are reads; each request is paper trading
  for a symbol on the demo list, or the adapter and the intent both allow mainnet. A placement that is
  returned, also one recovered by a query, is for this client order id.\<close>

theorem place_order_requests:
  "\<exists>more. snd (place_order en ad i receipt_hash oid sent) = sent @ more \<and>
     length (filter is_order more) \<le> Suc (ad_max_retries ad) \<and>
     (\<forall>q \<in> set more. (is_order q \<longrightarrow> q = order_request ad i oid) \<and>
        (if hr_paptrading q then is_demo_symbol (xi_symbol i)
         else ad_allow_mainnet_order ad \<and> xi_confirm_mainnet_order i)) \<and>
     (\<forall>p. fst (place_order en ad i receipt_hash oid sent) = Inr p \<longrightarrow> pl_client_oid p = oid)"
  using place_order_sends [of ad i oid sent en receipt_hash] place_order_client_oid [of en ad i receipt_hash oid sent]
  by (auto simp: sends_def list_all_iff proper_request_def)

definition sample_intent :: execution_intent where
  "sample_intent = \<lparr> xi_symbol = ''BTCUSDT'', xi_product_type = ''USDT-FUTURES'', xi_margin_mode = ''isolated'',
     xi_margin_coin = ''USDT'', xi_size = ''0.01'', xi_side = ''buy'', xi_trade_side = Some ''open'',
     xi_order_type = ''market'', xi_force = None, xi_price = None, xi_confirm_mainnet_order = False \<rparr>"

definition sample_adapter :: adapter where
  "sample_adapter = \<lparr> ad_paptrading = ''1'', ad_max_retries = 1, ad_allow_mainnet_order = False \<rparr>"

text \<open>An exchange that fails once with status 500 and then accepts the order.\<close>

definition sample_exchange :: exchange_env where
  "sample_exchange = \<lparr> xe_hash = (\<lambda>b. b), xe_transport = (\<lambda>n q. Some (if n = 0 then 500 else 200, ''{}'')),
     xe_loads = (\<lambda>s. Some (PDict [(''code'', PStr ''00000''), (''data'', PDict [(''orderId'', PStr ''7'')])])),
     xe_now = (\<lambda>n. ''now''), xe_closing = (\<lambda>n. False), xe_auth = sample_auth_env \<rparr>"

lemma sample_mode: "assert_mode sample_adapter sample_intent = Inr ()"
  by code_simp

text \<open>The retry after a server error repeats the order: the exchange sees it twice.\<close>

lemma order_posted_twice:
  "snd (place_order sample_exchange sample_adapter sample_intent ''sha256:r'' ''rl-1'' [])
     = replicate 2 (order_request sample_adapter sample_intent ''rl-1'')"
proof -
  have "send sample_exchange sample_adapter True False (order_request sample_adapter sample_intent ''rl-1'') []
      = (Inr (200, ''{}''), replicate 2 (order_request sample_adapter sample_intent ''rl-1''))"
    by (simp add: send_def send_from.simps sample_exchange_def sample_adapter_def numeral_2_eq_2)
  then show ?thesis
    by (simp add: place_order_def sample_mode sample_exchange_def py_str_def get_default_def)
qed

theorem place_order_requests_witness:
  "length (filter is_order (snd (place_order sample_exchange sample_adapter sample_intent ''sha256:r'' ''rl-1'' []))) \<le> 2"
proof -
  obtain more where "snd (place_order sample_exchange sample_adapter sample_intent ''sha256:r'' ''rl-1'' []) = [] @ more"
    "length (filter is_order more) \<le> Suc (ad_max_retries sample_adapter)"
    using place_order_requests [of sample_exchange sample_adapter sample_intent "''sha256:r''" "''rl-1''" "[]"] by blast
  then show ?thesis by (simp add: sample_adapter_def)
qed

end
