(* ===== verification/Execution.thy ===== *)
theory Execution
  imports Exchange
begin

text \<open>
  The execution evidence of \<open>src/redline/sponsor/bitget_execution.py\<close>: the artifacts with their own hash,
  the execution ledger (a hash chain, with the locale \<open>hash_chain\<close> interpreted on it), the link to the
  issuance ledger and its checkpoint, and the writers. An artifact file is a value: absent, not a
  regular file of its own (\<open>Linked\<close>), not a valid artifact (\<open>Broken\<close>), or the record it holds. The link
  fields of a record are \<open>None\<close> when the JSON did not set them.
\<close>

section \<open>Artifacts\<close>

datatype 'a artifact = Absent | Linked | Broken | Artifact 'a

text \<open>\<open>load_execution_evidence\<close>, \<open>load_exchange_preflight_evidence\<close> and \<open>load_order_status_evidence\<close> differ
  in their codes, and in the member that holds the hash of the others.\<close>

definition load_artifact ::
  "string \<Rightarrow> string \<Rightarrow> ('a \<Rightarrow> exn + string) \<Rightarrow> ('a \<Rightarrow> string) \<Rightarrow> 'a artifact \<Rightarrow> exn + 'a" where
  "load_artifact invalid mismatch compute stored f =
     (case f of
        Linked \<Rightarrow> Inl (CanonicalizationError RC_RECEIPT_BINDING_FAILED)
      | Artifact e \<Rightarrow>
          rbind (compute e) (\<lambda>h. if stored e \<noteq> h then Inl (ExecutionBlocked mismatch) else Inr e)
      | _ \<Rightarrow> Inl (ExecutionBlocked invalid))"

record execution_evidence =
  ee_run_id :: string
  ee_receipt_hash :: string
  ee_issuance_ledger_entry_hash :: "string option"
  ee_issuance_checkpoint_hash :: "string option"
  ee_approval_hash :: "string option"
  ee_verdict :: status
  ee_client_oid :: string
  ee_bitget_order_id :: string
  ee_response_hash :: string
  ee_placed_at :: string
  ee_symbol :: string
  ee_product_type :: string
  ee_order_mode :: string
  ee_paptrading :: "string option"
  ee_execution_ledger_entry_hash :: string
  ee_artifact_hash :: string

definition UNAPPROVED_APPROVAL_HASH :: string where
  "UNAPPROVED_APPROVAL_HASH = ''sha256:unapproved''"

definition ee_approval :: "execution_evidence \<Rightarrow> string" where
  "ee_approval e = (case ee_approval_hash e of None \<Rightarrow> UNAPPROVED_APPROVAL_HASH | Some h \<Rightarrow> h)"

definition set_link :: "string \<Rightarrow> string option \<Rightarrow> dict" where
  "set_link k x = (case x of None \<Rightarrow> [] | Some h \<Rightarrow> [(k, PStr h)])"

text \<open>The members that the artifact's hash covers: a link field only when it was set.\<close>

definition evidence_payload :: "execution_evidence \<Rightarrow> dict" where
  "evidence_payload e =
     [(''version'', PStr ''redline.execution.evidence.v1''), (''run_id'', PStr (ee_run_id e)),
      (''receipt_hash'', PStr (ee_receipt_hash e))] @
     set_link ''issuance_ledger_entry_hash'' (ee_issuance_ledger_entry_hash e) @
     set_link ''issuance_checkpoint_hash'' (ee_issuance_checkpoint_hash e) @
     set_link ''approval_hash'' (ee_approval_hash e) @
     [(''verdict'', PStr (status_value (ee_verdict e))), (''client_oid'', PStr (ee_client_oid e)),
      (''bitget_order_id'', PStr (ee_bitget_order_id e)), (''response_hash'', PStr (ee_response_hash e)),
      (''placed_at'', PStr (ee_placed_at e)), (''symbol'', PStr (ee_symbol e)),
      (''product_type'', PStr (ee_product_type e)), (''order_mode'', PStr (ee_order_mode e)),
      (''paptrading'', opt_str (ee_paptrading e)),
      (''execution_ledger_entry_hash'', PStr (ee_execution_ledger_entry_hash e))]"

definition execution_evidence_hash :: "(string \<Rightarrow> string) \<Rightarrow> execution_evidence \<Rightarrow> exn + string" where
  "execution_evidence_hash H e = hash_obj H True (PDict (evidence_payload e))"

text \<open>\<open>model_dump(mode="json")\<close> gives every member its value, set or not.\<close>

definition evidence_dump :: "execution_evidence \<Rightarrow> dict" where
  "evidence_dump e =
     [(''version'', PStr ''redline.execution.evidence.v1''), (''run_id'', PStr (ee_run_id e)),
      (''receipt_hash'', PStr (ee_receipt_hash e)),
      (''issuance_ledger_entry_hash'', PStr (case ee_issuance_ledger_entry_hash e of None \<Rightarrow> genesis | Some h \<Rightarrow> h)),
      (''issuance_checkpoint_hash'', PStr (case ee_issuance_checkpoint_hash e of None \<Rightarrow> genesis | Some h \<Rightarrow> h)),
      (''approval_hash'', PStr (ee_approval e)),
      (''verdict'', PStr (status_value (ee_verdict e))), (''client_oid'', PStr (ee_client_oid e)),
      (''bitget_order_id'', PStr (ee_bitget_order_id e)), (''response_hash'', PStr (ee_response_hash e)),
      (''placed_at'', PStr (ee_placed_at e)), (''symbol'', PStr (ee_symbol e)),
      (''product_type'', PStr (ee_product_type e)), (''order_mode'', PStr (ee_order_mode e)),
      (''paptrading'', opt_str (ee_paptrading e)),
      (''execution_ledger_entry_hash'', PStr (ee_execution_ledger_entry_hash e)),
      (''artifact_hash'', PStr (ee_artifact_hash e))]"

definition load_execution_evidence ::
  "(string \<Rightarrow> string) \<Rightarrow> execution_evidence artifact \<Rightarrow> exn + execution_evidence" where
  "load_execution_evidence H f =
     load_artifact ''EXECUTION_EVIDENCE_INVALID'' ''EXECUTION_EVIDENCE_MISMATCH'' (execution_evidence_hash H) ee_artifact_hash f"

definition load_exchange_preflight_evidence :: "(string \<Rightarrow> string) \<Rightarrow> preflight artifact \<Rightarrow> exn + preflight" where
  "load_exchange_preflight_evidence H f =
     load_artifact ''EXCHANGE_PREFLIGHT_EVIDENCE_INVALID'' ''EXCHANGE_PREFLIGHT_EVIDENCE_MISMATCH''
       (preflight_evidence_hash H) pf_preflight_hash f"

definition load_order_status_evidence :: "(string \<Rightarrow> string) \<Rightarrow> order_status artifact \<Rightarrow> exn + order_status" where
  "load_order_status_evidence H f =
     load_artifact ''ORDER_STATUS_EVIDENCE_INVALID'' ''ORDER_STATUS_EVIDENCE_MISMATCH''
       (order_status_evidence_hash H) os_evidence_hash f"

text \<open>The two writers keep what is there for the same order: the result is the artifact and the file after.\<close>

definition write_exchange_preflight_evidence ::
  "(string \<Rightarrow> string) \<Rightarrow> preflight artifact \<Rightarrow> preflight \<Rightarrow> (exn + preflight) \<times> preflight artifact" where
  "write_exchange_preflight_evidence H f e =
     (if f = Absent then (Inr e, Artifact e)
      else (rbind (load_exchange_preflight_evidence H f) (\<lambda>old.
              if pf_client_oid old = pf_client_oid e \<and> pf_receipt_hash old = pf_receipt_hash e then Inr old
              else Inl (ExecutionBlocked ''EXCHANGE_PREFLIGHT_EVIDENCE_MISMATCH'')), f))"

definition write_order_status_evidence ::
  "(string \<Rightarrow> string) \<Rightarrow> order_status artifact \<Rightarrow> order_status \<Rightarrow> (exn + order_status) \<times> order_status artifact" where
  "write_order_status_evidence H f e =
     (if f = Absent then (Inr e, Artifact e)
      else (rbind (load_order_status_evidence H f) (\<lambda>old.
              if os_client_oid old = os_client_oid e \<and> os_receipt_hash old = os_receipt_hash e then Inr old
              else Inl (ExecutionBlocked ''ORDER_STATUS_EVIDENCE_MISMATCH'')), f))"

section \<open>The execution ledger\<close>

record execution_ledger_entry =
  el_run_id :: string
  el_receipt_hash :: string
  el_issuance_ledger_entry_hash :: "string option"
  el_issuance_checkpoint_hash :: "string option"
  el_approval_hash :: "string option"
  el_verdict :: status
  el_client_oid :: string
  el_bitget_order_id :: string
  el_response_hash :: string
  el_placed_at :: string
  el_previous_entry_hash :: string
  el_entry_hash :: string

definition ledger_entry_payload :: "execution_ledger_entry \<Rightarrow> dict" where
  "ledger_entry_payload e =
     [(''version'', PStr ''redline.execution.ledger_entry.v1''), (''run_id'', PStr (el_run_id e)),
      (''receipt_hash'', PStr (el_receipt_hash e))] @
     set_link ''issuance_ledger_entry_hash'' (el_issuance_ledger_entry_hash e) @
     set_link ''issuance_checkpoint_hash'' (el_issuance_checkpoint_hash e) @
     set_link ''approval_hash'' (el_approval_hash e) @
     [(''verdict'', PStr (status_value (el_verdict e))), (''client_oid'', PStr (el_client_oid e)),
      (''bitget_order_id'', PStr (el_bitget_order_id e)), (''response_hash'', PStr (el_response_hash e)),
      (''placed_at'', PStr (el_placed_at e)), (''previous_entry_hash'', PStr (el_previous_entry_hash e))]"

definition execution_ledger_entry_hash :: "(string \<Rightarrow> string) \<Rightarrow> execution_ledger_entry \<Rightarrow> exn + string" where
  "execution_ledger_entry_hash H e = hash_obj H True (PDict (ledger_entry_payload e))"

datatype execution_line = Exec_Blank | Exec_Invalid | Exec_Entry execution_ledger_entry

fun load_entries_from :: "(string \<Rightarrow> string) \<Rightarrow> string \<Rightarrow> execution_line list \<Rightarrow> exn + execution_ledger_entry list" where
  "load_entries_from H previous [] = Inr []"
| "load_entries_from H previous (Exec_Blank # ls) = load_entries_from H previous ls"
| "load_entries_from H previous (Exec_Invalid # ls) = Inl (ExecutionBlocked ''EXECUTION_LEDGER_INVALID'')"
| "load_entries_from H previous (Exec_Entry e # ls) =
     (if el_previous_entry_hash e \<noteq> previous then Inl (ExecutionBlocked ''EXECUTION_LEDGER_MISMATCH'')
      else rbind (execution_ledger_entry_hash H e) (\<lambda>h.
             if el_entry_hash e \<noteq> h then Inl (ExecutionBlocked ''EXECUTION_LEDGER_MISMATCH'')
             else rbind (load_entries_from H (el_entry_hash e) ls) (\<lambda>es. Inr (e # es))))"

definition load_execution_ledger ::
  "(string \<Rightarrow> string) \<Rightarrow> execution_line list artifact \<Rightarrow> exn + execution_ledger_entry list" where
  "load_execution_ledger H f =
     (case f of
        Absent \<Rightarrow> Inr []
      | Linked \<Rightarrow> Inl (CanonicalizationError RC_RECEIPT_BINDING_FAILED)
      | Broken \<Rightarrow> Inl (ExecutionBlocked ''EXECUTION_LEDGER_INVALID'')
      | Artifact ls \<Rightarrow> load_entries_from H genesis ls)"

definition same_order :: "string \<Rightarrow> string \<Rightarrow> execution_ledger_entry \<Rightarrow> bool" where
  "same_order receipt_hash client_oid e = (el_receipt_hash e = receipt_hash \<and> el_client_oid e = client_oid)"

definition execution_ledger_has_order ::
  "(string \<Rightarrow> string) \<Rightarrow> execution_line list artifact \<Rightarrow> string \<Rightarrow> string \<Rightarrow> exn + bool" where
  "execution_ledger_has_order H f receipt_hash client_oid =
     rbind (load_execution_ledger H f) (\<lambda>es. Inr (list_ex (same_order receipt_hash client_oid) es))"

section \<open>The link to the issuance\<close>

fun issuance_entry_from ::
  "(string \<Rightarrow> string) \<Rightarrow> string \<Rightarrow> string \<Rightarrow> string option \<Rightarrow> ledger_line list \<Rightarrow> exn + string option" where
  "issuance_entry_from H receipt_hash previous found [] = Inr found"
| "issuance_entry_from H receipt_hash previous found (Blank_Line _ # ls) =
     issuance_entry_from H receipt_hash previous found ls"
| "issuance_entry_from H receipt_hash previous found (Bad_Line _ # ls) =
     Inl (ExecutionBlocked ''EXECUTION_ISSUANCE_LINK_INVALID'')"
| "issuance_entry_from H receipt_hash previous found (Json_Line _ v # ls) =
     (case v of
        PDict e \<Rightarrow>
          rbind (hash_obj H True (entry_body e)) (\<lambda>expected.
            case entry_hash e of
              None \<Rightarrow> Inl (ExecutionBlocked ''EXECUTION_ISSUANCE_LINK_MISMATCH'')
            | Some h \<Rightarrow>
                if h \<noteq> expected \<or> map_of e ''previous_entry_hash'' \<noteq> Some (PStr previous)
                then Inl (ExecutionBlocked ''EXECUTION_ISSUANCE_LINK_MISMATCH'')
                else issuance_entry_from H receipt_hash h
                       (if map_of e ''receipt_hash'' = Some (PStr receipt_hash) then Some h else found) ls)
      | _ \<Rightarrow> Inl AttributeError)"

definition issuance_ledger_entry_hash ::
  "(string \<Rightarrow> string) \<Rightarrow> ledger_line list artifact \<Rightarrow> string \<Rightarrow> exn + string" where
  "issuance_ledger_entry_hash H f receipt_hash =
     (case f of
        Absent \<Rightarrow> Inl (ExecutionBlocked ''EXECUTION_ISSUANCE_LINK_MISSING'')
      | Linked \<Rightarrow> Inl (CanonicalizationError RC_RECEIPT_BINDING_FAILED)
      | Broken \<Rightarrow> Inl (ExecutionBlocked ''EXECUTION_ISSUANCE_LINK_INVALID'')
      | Artifact ls \<Rightarrow>
          rbind (issuance_entry_from H receipt_hash genesis None ls) (\<lambda>found.
            case found of None \<Rightarrow> Inl (ExecutionBlocked ''EXECUTION_ISSUANCE_LINK_MISSING'') | Some h \<Rightarrow> Inr h))"

definition issuance_checkpoint_hash ::
  "(string \<Rightarrow> string) \<Rightarrow> ledger_checkpoint artifact \<Rightarrow> ledger_line list artifact \<Rightarrow> string \<Rightarrow> exn + string" where
  "issuance_checkpoint_hash H f ledger receipt_hash =
     (case f of
        Absent \<Rightarrow> Inl (ExecutionBlocked ''EXECUTION_ISSUANCE_LINK_MISSING'')
      | Linked \<Rightarrow> Inl (CanonicalizationError RC_RECEIPT_BINDING_FAILED)
      | Broken \<Rightarrow> Inl (ExecutionBlocked ''EXECUTION_ISSUANCE_LINK_INVALID'')
      | Artifact c \<Rightarrow>
          rbind (compute_ledger_checkpoint_hash H c) (\<lambda>expected.
            if lc_checkpoint_hash c \<noteq> expected then Inl (ExecutionBlocked ''EXECUTION_ISSUANCE_LINK_MISMATCH'')
            else rbind (case lc_merkle_root_set c of
                          None \<Rightarrow> Inr True
                        | Some m \<Rightarrow> rbind (merkle_root H (map PStr (lc_subject_receipt_hashes c))) (\<lambda>rt. Inr (m = rt)))
              (\<lambda>rooted.
                if \<not> rooted then Inl (ExecutionBlocked ''EXECUTION_ISSUANCE_LINK_MISMATCH'')
                else case ledger of
                       Artifact ls \<Rightarrow>
                         if lc_ledger_hash c \<noteq> hash_file H (ledger_bytes ls)
                         then Inl (ExecutionBlocked ''EXECUTION_ISSUANCE_LINK_MISMATCH'')
                         else if receipt_hash \<notin> set (lc_subject_receipt_hashes c)
                         then Inl (ExecutionBlocked ''EXECUTION_ISSUANCE_LINK_MISSING'')
                         else Inr (lc_checkpoint_hash c)
                     | _ \<Rightarrow> Inl OSError)))"

section \<open>Writing the evidence\<close>

text \<open>The files of one run: the artifacts of the execution and those of the issuance.\<close>

record run_files =
  xf_evidence :: "execution_evidence artifact"
  xf_ledger :: "execution_line list artifact"
  xf_preflight :: "preflight artifact"
  xf_status :: "order_status artifact"
  xf_issuance_ledger :: "ledger_line list artifact"
  xf_issuance_checkpoint :: "ledger_checkpoint artifact"

definition resolve_issuance_link ::
  "(string \<Rightarrow> string) \<Rightarrow> run_files \<Rightarrow> string \<Rightarrow> string option \<Rightarrow> string option \<Rightarrow> exn + (string \<times> string)" where
  "resolve_issuance_link H fs receipt_hash entry_arg checkpoint_arg =
     rbind (if nonempty entry_arg then Inr (the entry_arg)
            else issuance_ledger_entry_hash H (xf_issuance_ledger fs) receipt_hash) (\<lambda>eh.
     rbind (if nonempty checkpoint_arg then Inr (the checkpoint_arg)
            else issuance_checkpoint_hash H (xf_issuance_checkpoint fs) (xf_issuance_ledger fs) receipt_hash) (\<lambda>ch.
       Inr (eh, ch)))"

record evidence_args =
  ea_run_id :: string
  ea_receipt_hash :: string
  ea_verdict :: status
  ea_intent :: execution_intent
  ea_order :: placement
  ea_order_mode :: string
  ea_paptrading :: "string option"
  ea_approval_hash :: string
  ea_issuance_ledger_entry_hash :: "string option"
  ea_issuance_checkpoint_hash :: "string option"

definition new_ledger_entry ::
  "(string \<Rightarrow> string) \<Rightarrow> evidence_args \<Rightarrow> string \<times> string \<Rightarrow> string \<Rightarrow> exn + execution_ledger_entry" where
  "new_ledger_entry H a link previous =
     (let e = \<lparr> el_run_id = ea_run_id a, el_receipt_hash = ea_receipt_hash a,
                el_issuance_ledger_entry_hash = Some (fst link), el_issuance_checkpoint_hash = Some (snd link),
                el_approval_hash = Some (ea_approval_hash a), el_verdict = ea_verdict a,
                el_client_oid = pl_client_oid (ea_order a), el_bitget_order_id = pl_bitget_order_id (ea_order a),
                el_response_hash = pl_response_hash (ea_order a), el_placed_at = pl_placed_at (ea_order a),
                el_previous_entry_hash = previous, el_entry_hash = zero_hash \<rparr>
      in rbind (execution_ledger_entry_hash H e) (\<lambda>h. Inr (e\<lparr> el_entry_hash := h \<rparr>)))"

definition new_evidence ::
  "(string \<Rightarrow> string) \<Rightarrow> evidence_args \<Rightarrow> string \<times> string \<Rightarrow> string \<Rightarrow> exn + execution_evidence" where
  "new_evidence H a link linked_entry =
     (let e = \<lparr> ee_run_id = ea_run_id a, ee_receipt_hash = ea_receipt_hash a,
                ee_issuance_ledger_entry_hash = Some (fst link), ee_issuance_checkpoint_hash = Some (snd link),
                ee_approval_hash = Some (ea_approval_hash a), ee_verdict = ea_verdict a,
                ee_client_oid = pl_client_oid (ea_order a), ee_bitget_order_id = pl_bitget_order_id (ea_order a),
                ee_response_hash = pl_response_hash (ea_order a), ee_placed_at = pl_placed_at (ea_order a),
                ee_symbol = xi_symbol (ea_intent a), ee_product_type = xi_product_type (ea_intent a),
                ee_order_mode = ea_order_mode a, ee_paptrading = ea_paptrading a,
                ee_execution_ledger_entry_hash = linked_entry, ee_artifact_hash = zero_hash \<rparr>
      in rbind (execution_evidence_hash H e) (\<lambda>h. Inr (e\<lparr> ee_artifact_hash := h \<rparr>)))"

text \<open>\<open>write_execution_evidence_artifacts\<close>: the ledger is written before the evidence.\<close>

definition write_execution_evidence_artifacts ::
  "(string \<Rightarrow> string) \<Rightarrow> run_files \<Rightarrow> evidence_args \<Rightarrow> (exn + execution_evidence) \<times> run_files" where
  "write_execution_evidence_artifacts H fs a =
     (if xf_evidence fs \<noteq> Absent then
        (rbind (load_execution_evidence H (xf_evidence fs)) (\<lambda>old.
           if ee_receipt_hash old = ea_receipt_hash a \<and> ee_client_oid old = pl_client_oid (ea_order a) then Inr old
           else Inl (ExecutionBlocked ''EXECUTION_EVIDENCE_MISMATCH'')), fs)
      else case load_execution_ledger H (xf_ledger fs) of
             Inl e \<Rightarrow> (Inl e, fs)
           | Inr entries \<Rightarrow>
               if list_ex (same_order (ea_receipt_hash a) (pl_client_oid (ea_order a))) entries
               then (Inl (ExecutionBlocked ''EXECUTION_EVIDENCE_MISSING''), fs)
               else (case rbind (resolve_issuance_link H fs (ea_receipt_hash a) (ea_issuance_ledger_entry_hash a)
                                  (ea_issuance_checkpoint_hash a)) (\<lambda>link.
                          rbind (new_ledger_entry H a link (if entries = [] then genesis else el_entry_hash (last entries)))
                            (\<lambda>entry. Inr (link, entry))) of
                       Inl e \<Rightarrow> (Inl e, fs)
                     | Inr (link, entry) \<Rightarrow>
                         (let fs1 = fs\<lparr> xf_ledger := Artifact (map Exec_Entry (entries @ [entry])) \<rparr>
                          in case new_evidence H a link (el_entry_hash entry) of
                               Inl e \<Rightarrow> (Inl e, fs1)
                             | Inr evidence \<Rightarrow> (Inr evidence, fs1\<lparr> xf_evidence := Artifact evidence \<rparr>))))"

section \<open>The ledger as a hash chain\<close>

definition exec_msg :: "execution_ledger_entry \<Rightarrow> exn + string" where
  "exec_msg e = canonical_bytes True (PDict (ledger_entry_payload e))"

definition exec_prev :: "execution_ledger_entry \<Rightarrow> string option" where
  "exec_prev e = Some (el_previous_entry_hash e)"

definition exec_hash :: "execution_ledger_entry \<Rightarrow> string option" where
  "exec_hash e = Some (el_entry_hash e)"

definition exec_content :: "execution_ledger_entry \<Rightarrow> exn + json" where
  "exec_content e = normalize True (PDict (ledger_entry_payload e))"

lemma payload_previous: "map_of (ledger_entry_payload e) ''previous_entry_hash'' = Some (PStr (el_previous_entry_hash e))"
  by (simp add: ledger_entry_payload_def set_link_def map_add_def split: option.split)

interpretation execution_ledger: hash_chain H exec_msg exec_prev exec_hash exec_content for H
proof
  fix e e' b
  assume m: "exec_msg e = Inr b" "exec_msg e' = Inr b"
  then have c: "normalize True (PDict (ledger_entry_payload e)) = normalize True (PDict (ledger_entry_payload e'))"
    unfolding exec_msg_def by (rule canonical_bytes_inj)
  from m(1) obtain j where "normalize True (PDict (ledger_entry_payload e)) = Inr j"
    by (auto simp: exec_msg_def canonical_bytes_Inr)
  moreover from normalize_dict_Inr [OF this] obtain js where "j = JObj js" by blast
  ultimately have n: "normalize True (PDict (ledger_entry_payload e)) = Inr (JObj js)" by simp
  from normalize_dict_member [OF n, of "''previous_entry_hash''"]
    normalize_dict_member [OF n [unfolded c], of "''previous_entry_hash''"]
  show "exec_prev e = exec_prev e'" by (simp add: exec_prev_def payload_previous)
  from c show "exec_content e = exec_content e'" by (simp add: exec_content_def del: normalize.simps)
qed

lemma exec_links: "exec_prev e = Some p \<longleftrightarrow> el_previous_entry_hash e = p" "exec_hash e = Some h \<longleftrightarrow> el_entry_hash e = h"
  by (simp_all add: exec_prev_def exec_hash_def)

lemma load_entries_chain:
  "load_entries_from H p ls = Inr es \<Longrightarrow> chain_ok H exec_msg exec_prev exec_hash p es"
proof (induction H p ls arbitrary: es rule: load_entries_from.induct)
  case (4 H p e ls)
  from "4.prems" obtain h es' where e: "el_previous_entry_hash e = p" "execution_ledger_entry_hash H e = Inr h"
    "el_entry_hash e = h" "load_entries_from H h ls = Inr es'" "es = e # es'"
    by (auto simp: rbind_Inr_iff split: if_splits)
  from e(2) obtain b where b: "exec_msg e = Inr b" "h = sha256_bytes H b"
    by (auto simp: execution_ledger_entry_hash_def exec_msg_def hash_obj_Inr)
  have "chain_ok H exec_msg exec_prev exec_hash h es'" using 4 e by auto
  then show ?case using e b by (simp add: exec_links)
qed simp_all

lemma load_entries_of_chain:
  "chain_ok H exec_msg exec_prev exec_hash p es \<Longrightarrow> load_entries_from H p (map Exec_Entry es) = Inr es"
proof (induction es arbitrary: p)
  case (Cons e es)
  then obtain b where b: "exec_msg e = Inr b" "el_entry_hash e = sha256_bytes H b" "el_previous_entry_hash e = p"
    "chain_ok H exec_msg exec_prev exec_hash (sha256_bytes H b) es"
    by (auto simp: exec_links split: sum.splits)
  moreover have "execution_ledger_entry_hash H e = Inr (sha256_bytes H b)"
    using b(1) by (simp add: execution_ledger_entry_hash_def exec_msg_def hash_obj_Inr)
  ultimately show ?case using Cons.IH by simp
qed simp

lemma exec_tail:
  "chain_tail exec_hash genesis es = (if es = [] then genesis else el_entry_hash (last es))"
  by (induction es rule: rev_induct) (simp_all add: chain_tail_append exec_hash_def)

lemma load_ledger_values:
  "chain_ok H exec_msg exec_prev exec_hash genesis es \<Longrightarrow>
   load_execution_ledger H (Artifact (map Exec_Entry es)) = Inr es"
  by (simp add: load_execution_ledger_def load_entries_of_chain)

lemma load_ledger_chain:
  "load_execution_ledger H f = Inr es \<Longrightarrow> chain_ok H exec_msg exec_prev exec_hash genesis es"
  by (auto simp: load_execution_ledger_def intro: load_entries_chain split: artifact.splits)

section \<open>One entry per order\<close>

definition order_key :: "execution_ledger_entry \<Rightarrow> string \<times> string" where
  "order_key e = (el_receipt_hash e, el_client_oid e)"

lemma same_order_key: "list_ex (same_order r c) es \<longleftrightarrow> (r, c) \<in> set (map order_key es)"
  by (auto simp: list_ex_iff same_order_def order_key_def)

lemma new_ledger_entry_Inr:
  assumes "new_ledger_entry H a link p = Inr e"
  shows "el_previous_entry_hash e = p \<and> order_key e = (ea_receipt_hash a, pl_client_oid (ea_order a)) \<and>
    el_issuance_ledger_entry_hash e = Some (fst link) \<and> el_issuance_checkpoint_hash e = Some (snd link) \<and>
    el_approval_hash e = Some (ea_approval_hash a) \<and>
    (\<exists>b. exec_msg e = Inr b \<and> el_entry_hash e = sha256_bytes H b)"
proof -
  from assms obtain d h where d: "execution_ledger_entry_hash H d = Inr h" "e = d\<lparr> el_entry_hash := h \<rparr>"
    "el_previous_entry_hash d = p" "order_key d = (ea_receipt_hash a, pl_client_oid (ea_order a))"
    "el_issuance_ledger_entry_hash d = Some (fst link)" "el_issuance_checkpoint_hash d = Some (snd link)"
    "el_approval_hash d = Some (ea_approval_hash a)"
    by (auto simp: new_ledger_entry_def Let_def rbind_Inr_iff order_key_def)
  from d(1) obtain b where b: "exec_msg d = Inr b" "h = sha256_bytes H b"
    by (auto simp: execution_ledger_entry_hash_def exec_msg_def hash_obj_Inr)
  have "ledger_entry_payload e = ledger_entry_payload d" using d(2) by (simp add: ledger_entry_payload_def)
  then have "exec_msg e = Inr b" using b(1) by (simp add: exec_msg_def)
  with d b(2) show ?thesis by (simp add: order_key_def)
qed

text \<open>A write either leaves the ledger as it is or appends one linked entry for a new order.\<close>

lemma evidence_write_ledger:
  assumes "load_execution_ledger H (xf_ledger fs) = Inr es"
    and "write_execution_evidence_artifacts H fs a = (r, fs')"
  shows "xf_ledger fs' = xf_ledger fs \<or>
    (\<exists>e. load_execution_ledger H (xf_ledger fs') = Inr (es @ [e]) \<and> order_key e \<notin> set (map order_key es) \<and>
       order_key e = (ea_receipt_hash a, pl_client_oid (ea_order a)))"
proof (cases "xf_evidence fs = Absent \<and> \<not> list_ex (same_order (ea_receipt_hash a) (pl_client_oid (ea_order a))) es")
  case False
  then show ?thesis using assms by (auto simp: write_execution_evidence_artifacts_def split: if_splits)
next
  case True
  let ?p = "if es = [] then genesis else el_entry_hash (last es)"
  show ?thesis
  proof (cases "rbind (resolve_issuance_link H fs (ea_receipt_hash a) (ea_issuance_ledger_entry_hash a)
                  (ea_issuance_checkpoint_hash a)) (\<lambda>link. rbind (new_ledger_entry H a link ?p) (\<lambda>entry. Inr (link, entry)))")
    case (Inl e)
    then show ?thesis using assms True by (simp add: write_execution_evidence_artifacts_def)
  next
    case (Inr le)
    obtain link e where le: "le = (link, e)" by (cases le)
    have e: "new_ledger_entry H a link ?p = Inr e" using Inr le by (auto simp: rbind_Inr_iff)
    note n = new_ledger_entry_Inr [OF e]
    then obtain b where b: "exec_msg e = Inr b" "el_entry_hash e = sha256_bytes H b" by blast
    have "chain_ok H exec_msg exec_prev exec_hash genesis (es @ [e])"
      using execution_ledger.chain_append(1) [OF load_ledger_chain [OF assms(1)] b(1)] b(2) n
      by (simp add: exec_links exec_tail)
    then have "load_execution_ledger H (Artifact (map Exec_Entry (es @ [e]))) = Inr (es @ [e])"
      by (rule load_ledger_values)
    moreover have "xf_ledger fs' = Artifact (map Exec_Entry (es @ [e]))"
      using assms True Inr le by (auto simp: write_execution_evidence_artifacts_def Let_def split: sum.splits)
    moreover have "order_key e \<notin> set (map order_key es)" using True n by (simp add: same_order_key)
    ultimately show ?thesis using n by metis
  qed
qed

text \<open>A series of writes through one ledger, each with its own evidence file.\<close>

fun run_evidence_writes ::
  "(string \<Rightarrow> string) \<Rightarrow> run_files \<Rightarrow> (evidence_args \<times> execution_evidence artifact) list \<Rightarrow> run_files" where
  "run_evidence_writes H fs [] = fs"
| "run_evidence_writes H fs ((a, ev) # ws) =
     run_evidence_writes H (snd (write_execution_evidence_artifacts H (fs\<lparr> xf_evidence := ev \<rparr>) a)) ws"


definition empty_run_files :: run_files where
  "empty_run_files = \<lparr> xf_evidence = Absent, xf_ledger = Absent, xf_preflight = Absent, xf_status = Absent,
     xf_issuance_ledger = Absent, xf_issuance_checkpoint = Absent \<rparr>"

definition sample_evidence_args :: evidence_args where
  "sample_evidence_args = \<lparr> ea_run_id = ''run_1'', ea_receipt_hash = ''sha256:r'', ea_verdict = St_PASS,
     ea_intent = sample_intent, ea_order = \<lparr> pl_client_oid = ''rl-1'', pl_bitget_order_id = ''7'',
       pl_response_hash = ''sha256:x'', pl_placed_at = ''now'', pl_status_code = 200 \<rparr>,
     ea_order_mode = ''demo'', ea_paptrading = Some ''1'', ea_approval_hash = UNAPPROVED_APPROVAL_HASH,
     ea_issuance_ledger_entry_hash = Some ''sha256:e'', ea_issuance_checkpoint_hash = Some ''sha256:c'' \<rparr>"


end
