(* ===== verification/Trust.thy ===== *)
theory Trust
  imports Receipt
begin

text \<open>
  \<open>src/redline/trust.py\<close>: Ed25519 attestations of ledger checkpoints and the trust policy that says
  whose attestations count. The signature scheme (the \<open>cryptography\<close> package) and the parser of ISO
  timestamps are the fields of a record; keys, signatures and messages are byte strings.
\<close>

section \<open>Hexadecimal text\<close>

text \<open>\<open>bytes.hex()\<close> and \<open>bytes.fromhex\<close>, which skips ASCII white space between bytes.\<close>

definition hex_of :: "string \<Rightarrow> string" where
  "hex_of raw = concat (map (\<lambda>c. [hex_char (of_char c div 16), hex_char (of_char c mod 16)]) raw)"

definition hex_digit :: "char \<Rightarrow> nat option" where
  "hex_digit c =
     (let n = (of_char c :: nat)
      in if 48 \<le> n \<and> n \<le> 57 then Some (n - 48)
         else if 97 \<le> n \<and> n \<le> 102 then Some (n - 87)
         else if 65 \<le> n \<and> n \<le> 70 then Some (n - 55) else None)"

definition hex_space :: "char \<Rightarrow> bool" where
  "hex_space c = (let n = (of_char c :: nat) in n = 32 \<or> 9 \<le> n \<and> n \<le> 13)"

fun from_hex :: "string \<Rightarrow> string option" where
  "from_hex [] = Some []"
| "from_hex [c] = (if hex_space c then Some [] else None)"
| "from_hex (c # d # s) =
     (if hex_space c then from_hex (d # s)
      else case (hex_digit c, hex_digit d) of
             (Some a, Some b) \<Rightarrow> map_option (\<lambda>r. char_of (16 * a + b) # r) (from_hex s)
           | _ \<Rightarrow> None)"

lemma hex_digit_char: "n < 16 \<Longrightarrow> hex_digit (hex_char n) = Some n \<and> \<not> hex_space (hex_char n)"
  by (auto simp: hex_digit_def hex_space_def hex_char_def Let_def)

lemma of_char_256: "(of_char c :: nat) < 256"
  using range_nat_of_char by (metis UNIV_I atLeastLessThan_iff imageI)

lemma from_hex_of [simp]: "from_hex (hex_of raw) = Some raw"
proof (induction raw)
  case (Cons c raw)
  have lt: "(of_char c :: nat) < 256" by (rule of_char_256)
  then have "(of_char c :: nat) div 16 < 16" "(of_char c :: nat) mod 16 < 16"
    by (simp_all add: less_mult_imp_div_less)
  with hex_digit_char Cons show ?case by (simp add: hex_of_def mult.commute)
qed (simp add: hex_of_def)

lemma hex_chars: "x \<in> set (hex_of raw) \<Longrightarrow> \<not> is_space x"
proof -
  assume "x \<in> set (hex_of raw)"
  then obtain c where "x = hex_char (of_char c div 16) \<or> x = hex_char (of_char c mod 16)"
    by (auto simp: hex_of_def)
  moreover have "(of_char c :: nat) div 16 < 16" "(of_char c :: nat) mod 16 < 16"
    using of_char_256 [of c] by (simp_all add: less_mult_imp_div_less)
  moreover have "n < 16 \<Longrightarrow> \<not> is_space (hex_char n)" for n
    by (auto simp: is_space_def hex_char_def Let_def)
  ultimately show ?thesis by auto
qed

section \<open>Keys and signatures as text\<close>

record crypto =
  cy_public :: "string \<Rightarrow> string"
  cy_sign :: "string \<Rightarrow> string \<Rightarrow> string"
  cy_verify :: "string \<Rightarrow> string \<Rightarrow> string \<Rightarrow> bool"
  cy_fromiso :: "string \<Rightarrow> (int \<times> int option) option"

definition PRIVATE_PREFIX :: string where
  "PRIVATE_PREFIX = ''ed25519-private:''"

definition PUBLIC_PREFIX :: string where
  "PUBLIC_PREFIX = ''ed25519-public:''"

definition SIGNATURE_PREFIX :: string where
  "SIGNATURE_PREFIX = ''ed25519-signature:''"

definition parse_prefixed_hex :: "string \<Rightarrow> string \<Rightarrow> nat \<Rightarrow> exn + string" where
  "parse_prefixed_hex t pre expected_len =
     (if \<not> startswith t pre then Inl ValueError
      else case from_hex (removeprefix t pre) of
             None \<Rightarrow> Inl ValueError
           | Some raw \<Rightarrow> if length raw \<noteq> expected_len then Inl ValueError else Inr raw)"

definition parse_private_key :: "string \<Rightarrow> exn + string" where
  "parse_private_key t = parse_prefixed_hex (strip t) PRIVATE_PREFIX 32"

definition parse_public_key :: "string \<Rightarrow> exn + string" where
  "parse_public_key t = parse_prefixed_hex (strip t) PUBLIC_PREFIX 32"

definition parse_signature :: "string \<Rightarrow> exn + string" where
  "parse_signature t = parse_prefixed_hex (strip t) SIGNATURE_PREFIX 64"

definition public_key_text :: "string \<Rightarrow> string" where
  "public_key_text raw = PUBLIC_PREFIX @ hex_of raw"

definition public_key_from_private :: "crypto \<Rightarrow> string \<Rightarrow> exn + string" where
  "public_key_from_private cy t = rbind (parse_private_key t) (\<lambda>raw. Inr (public_key_text (cy_public cy raw)))"

text \<open>The 32 random bytes of \<open>Ed25519PrivateKey.generate()\<close> are an argument.\<close>

definition generate_trust_keypair :: "crypto \<Rightarrow> string \<Rightarrow> string \<times> string" where
  "generate_trust_keypair cy raw = (PRIVATE_PREFIX @ hex_of raw, PUBLIC_PREFIX @ hex_of (cy_public cy raw))"

text \<open>\<open>value.replace("Z", "+00:00")\<close>, then \<open>fromisoformat\<close>: microseconds and an offset, where the
  text has one; a naive time counts as UTC.\<close>

definition replace_Z :: "string \<Rightarrow> string" where
  "replace_Z s = concat (map (\<lambda>c. if c = CHR ''Z'' then ''+00:00'' else [c]) s)"

definition parse_time :: "crypto \<Rightarrow> string \<Rightarrow> exn + int" where
  "parse_time cy s =
     (case cy_fromiso cy (replace_Z s) of
        None \<Rightarrow> Inl ValueError
      | Some (t, None) \<Rightarrow> Inr t
      | Some (t, Some offset) \<Rightarrow> Inr (t - offset))"

lemma strip_prefixed: "p \<noteq> [] \<Longrightarrow> list_all (\<lambda>c. \<not> is_space c) p \<Longrightarrow> strip (p @ hex_of raw) = p @ hex_of raw"
proof (rule strip_id)
  assume p: "p \<noteq> []" "list_all (\<lambda>c. \<not> is_space c) p"
  then show "p @ hex_of raw \<noteq> []" by simp
  from p show "\<not> is_space (hd (p @ hex_of raw))" by (cases p) auto
  have "x \<in> set (p @ hex_of raw) \<Longrightarrow> \<not> is_space x" for x
    using p(2) hex_chars [of x raw] by (auto simp: list_all_iff)
  moreover have "last (p @ hex_of raw) \<in> set (p @ hex_of raw)" using p(1) by (intro last_in_set) simp
  ultimately show "\<not> is_space (last (p @ hex_of raw))" by blast
qed

lemma parse_prefixed_hex_of [simp]:
  "parse_prefixed_hex (pre @ hex_of raw) pre n = (if length raw = n then Inr raw else Inl ValueError)"
  by (simp add: parse_prefixed_hex_def)

lemma parse_key_text:
  "length raw = 32 \<Longrightarrow> parse_private_key (PRIVATE_PREFIX @ hex_of raw) = Inr raw"
  "length raw = 32 \<Longrightarrow> parse_public_key (public_key_text raw) = Inr raw"
  "length raw = 64 \<Longrightarrow> parse_signature (SIGNATURE_PREFIX @ hex_of raw) = Inr raw"
proof -
  have "list_all (\<lambda>c. \<not> is_space c) PRIVATE_PREFIX" "list_all (\<lambda>c. \<not> is_space c) PUBLIC_PREFIX"
    "list_all (\<lambda>c. \<not> is_space c) SIGNATURE_PREFIX" "PRIVATE_PREFIX \<noteq> []" "PUBLIC_PREFIX \<noteq> []" "SIGNATURE_PREFIX \<noteq> []"
    by code_simp+
  then show "length raw = 32 \<Longrightarrow> parse_private_key (PRIVATE_PREFIX @ hex_of raw) = Inr raw"
    "length raw = 32 \<Longrightarrow> parse_public_key (public_key_text raw) = Inr raw"
    "length raw = 64 \<Longrightarrow> parse_signature (SIGNATURE_PREFIX @ hex_of raw) = Inr raw"
    by (simp_all add: parse_private_key_def parse_public_key_def parse_signature_def public_key_text_def strip_prefixed)
qed

section \<open>Attestations and policies\<close>

record attestation =
  la_checkpoint_hash :: string
  la_ledger_hash :: string
  la_ledger_tail_hash :: string
  la_ledger_entry_count :: int
  la_subject_receipt_hashes :: "string list"
  la_trust_policy_id :: string
  la_key_id :: string
  la_issuer :: string
  la_audience :: string
  la_signer :: string
  la_public_key :: string
  la_signed_at :: string
  la_expires_at :: "string option"
  la_signature :: string
  la_attestation_hash :: string

definition attestation_value :: "attestation \<Rightarrow> pyval" where
  "attestation_value a =
     PModel [(''version'', PStr ''redline.ledger.attestation.v1''), (''checkpoint_hash'', PStr (la_checkpoint_hash a)),
             (''ledger_hash'', PStr (la_ledger_hash a)), (''ledger_tail_hash'', PStr (la_ledger_tail_hash a)),
             (''ledger_entry_count'', PInt (la_ledger_entry_count a)),
             (''subject_receipt_hashes'', strs (la_subject_receipt_hashes a)),
             (''trust_policy_id'', PStr (la_trust_policy_id a)), (''key_id'', PStr (la_key_id a)),
             (''issuer'', PStr (la_issuer a)), (''audience'', PStr (la_audience a)), (''signer'', PStr (la_signer a)),
             (''public_key'', PStr (la_public_key a)), (''signed_at'', PStr (la_signed_at a)),
             (''expires_at'', opt_str (la_expires_at a)), (''signature'', PStr (la_signature a)),
             (''attestation_hash'', PStr (la_attestation_hash a))]"

record trust_key =
  ky_key_id :: string
  ky_public_key :: string
  ky_issuer :: string
  ky_revoked :: bool
  ky_valid_from :: "string option"
  ky_valid_until :: "string option"

definition trust_key_value :: "trust_key \<Rightarrow> pyval" where
  "trust_key_value k =
     PModel [(''key_id'', PStr (ky_key_id k)), (''public_key'', PStr (ky_public_key k)),
             (''issuer'', PStr (ky_issuer k)), (''revoked'', PBool (ky_revoked k)),
             (''valid_from'', opt_str (ky_valid_from k)), (''valid_until'', opt_str (ky_valid_until k))]"

record trust_policy =
  tp_policy_id :: string
  tp_audience :: string
  tp_allow_demo :: bool
  tp_keys :: "trust_key list"
  tp_policy_hash :: string

definition trust_policy_value :: "trust_policy \<Rightarrow> pyval" where
  "trust_policy_value p =
     PModel [(''version'', PStr ''redline.trust_policy.v1''), (''policy_id'', PStr (tp_policy_id p)),
             (''audience'', PStr (tp_audience p)), (''allow_demo'', PBool (tp_allow_demo p)),
             (''keys'', PList (map trust_key_value (tp_keys p))), (''policy_hash'', PStr (tp_policy_hash p))]"

definition attestation_payload :: "attestation \<Rightarrow> exn + string" where
  "attestation_payload a =
     canonical_bytes True (attestation_value (a\<lparr> la_signature := '''', la_attestation_hash := '''' \<rparr>))"

text \<open>\<open>sign_checkpoint\<close>; \<open>clock\<close> is the text of the current time.\<close>

record sign_args =
  sg_private_key_text :: string
  sg_signer :: string
  sg_trust_policy_id :: string
  sg_key_id :: string
  sg_issuer :: "string option"
  sg_audience :: string
  sg_signed_at :: "string option"
  sg_expires_at :: "string option"

definition or_text :: "string option \<Rightarrow> string \<Rightarrow> string" where
  "or_text s d = (case s of None \<Rightarrow> d | Some t \<Rightarrow> if t = '''' then d else t)"

definition unsigned_attestation :: "string \<Rightarrow> ledger_checkpoint \<Rightarrow> sign_args \<Rightarrow> string \<Rightarrow> attestation" where
  "unsigned_attestation clock c s public =
     \<lparr> la_checkpoint_hash = lc_checkpoint_hash c, la_ledger_hash = lc_ledger_hash c,
       la_ledger_tail_hash = lc_ledger_tail_hash c, la_ledger_entry_count = lc_ledger_entry_count c,
       la_subject_receipt_hashes = lc_subject_receipt_hashes c, la_trust_policy_id = sg_trust_policy_id s,
       la_key_id = sg_key_id s, la_issuer = or_text (sg_issuer s) (sg_signer s), la_audience = sg_audience s,
       la_signer = sg_signer s, la_public_key = public, la_signed_at = or_text (sg_signed_at s) clock,
       la_expires_at = sg_expires_at s, la_signature = '''', la_attestation_hash = '''' \<rparr>"

definition sign_checkpoint ::
  "(string \<Rightarrow> string) \<Rightarrow> crypto \<Rightarrow> string \<Rightarrow> ledger_checkpoint \<Rightarrow> sign_args \<Rightarrow> exn + attestation" where
  "sign_checkpoint H cy clock c s =
     rbind (parse_private_key (sg_private_key_text s)) (\<lambda>raw.
       let a = unsigned_attestation clock c s (public_key_text (cy_public cy raw))
       in rbind (attestation_payload a) (\<lambda>m.
          let b = a\<lparr> la_signature := SIGNATURE_PREFIX @ hex_of (cy_sign cy raw m) \<rparr>
          in rbind (hash_obj H True (attestation_value b)) (\<lambda>h. Inr (b\<lparr> la_attestation_hash := h \<rparr>))))"

definition verify_trust_policy :: "(string \<Rightarrow> string) \<Rightarrow> trust_policy \<Rightarrow> exn + bool" where
  "verify_trust_policy H p =
     rbind (hash_obj H True (trust_policy_value (p\<lparr> tp_policy_hash := '''' \<rparr>))) (\<lambda>h. Inr (tp_policy_hash p = h))"

definition make_trust_policy ::
  "(string \<Rightarrow> string) \<Rightarrow> string \<Rightarrow> string \<Rightarrow> string \<Rightarrow> string \<Rightarrow> string option \<Rightarrow> string option \<Rightarrow> exn + trust_policy" where
  "make_trust_policy H policy_id key_id public issuer valid_from valid_until =
     rbind (parse_public_key public) (\<lambda>_.
       let p = \<lparr> tp_policy_id = policy_id, tp_audience = ''redline.publish'', tp_allow_demo = False,
                 tp_keys = [\<lparr> ky_key_id = key_id, ky_public_key = public, ky_issuer = issuer, ky_revoked = False,
                              ky_valid_from = valid_from, ky_valid_until = valid_until \<rparr>],
                 tp_policy_hash = '''' \<rparr>
       in rbind (hash_obj H True (trust_policy_value p)) (\<lambda>h. Inr (p\<lparr> tp_policy_hash := h \<rparr>)))"

text \<open>The loop over the keys: the first key of that id and issuer decides.\<close>

fun usable_key :: "crypto \<Rightarrow> attestation \<Rightarrow> int \<Rightarrow> trust_key list \<Rightarrow> exn + trust_key option" where
  "usable_key cy a now [] = Inr None"
| "usable_key cy a now (k # ks) =
     (if ky_key_id k \<noteq> la_key_id a \<or> ky_issuer k \<noteq> la_issuer a then usable_key cy a now ks
      else if ky_revoked k then Inr None
      else rbind (case ky_valid_from k of None \<Rightarrow> Inr False
                  | Some v \<Rightarrow> rbind (parse_time cy v) (\<lambda>t. Inr (now < t))) (\<lambda>early.
           if early then Inr None
           else rbind (case ky_valid_until k of None \<Rightarrow> Inr False
                       | Some v \<Rightarrow> rbind (parse_time cy v) (\<lambda>t. Inr (t \<le> now))) (\<lambda>late.
                if late then Inr None else Inr (Some k))))"

definition trusted_key ::
  "(string \<Rightarrow> string) \<Rightarrow> crypto \<Rightarrow> attestation \<Rightarrow> string option \<Rightarrow> trust_policy option \<Rightarrow> int \<Rightarrow>
   exn + trust_key option" where
  "trusted_key H cy a trusted_public_key_text policy now =
     (case policy of
        None \<Rightarrow>
          (case trusted_public_key_text of
             None \<Rightarrow> Inr None
           | Some t \<Rightarrow> Inr (Some \<lparr> ky_key_id = la_key_id a, ky_public_key = t, ky_issuer = la_issuer a,
                                  ky_revoked = False, ky_valid_from = None, ky_valid_until = None \<rparr>))
      | Some p \<Rightarrow>
          rbind (verify_trust_policy H p) (\<lambda>ok.
            if \<not> ok then Inr None
            else if tp_policy_id p \<noteq> la_trust_policy_id a \<or> tp_audience p \<noteq> la_audience a then Inr None
            else rbind (case la_expires_at a of None \<Rightarrow> Inr False
                        | Some v \<Rightarrow> rbind (parse_time cy v) (\<lambda>t. Inr (t \<le> now))) (\<lambda>expired.
                 if expired then Inr None else usable_key cy a now (tp_keys p))))"

definition attests :: "attestation \<Rightarrow> ledger_checkpoint \<Rightarrow> bool" where
  "attests a c =
     (la_checkpoint_hash a = lc_checkpoint_hash c \<and> la_ledger_hash a = lc_ledger_hash c \<and>
      la_ledger_tail_hash a = lc_ledger_tail_hash c \<and> la_ledger_entry_count a = lc_ledger_entry_count c \<and>
      la_subject_receipt_hashes a = lc_subject_receipt_hashes c)"

definition verify_checkpoint_attestation ::
  "(string \<Rightarrow> string) \<Rightarrow> crypto \<Rightarrow> ledger_checkpoint \<Rightarrow> attestation \<Rightarrow> string option \<Rightarrow> trust_policy option \<Rightarrow> int \<Rightarrow>
   exn + bool" where
  "verify_checkpoint_attestation H cy c a trusted_public_key_text policy now =
     rbind (trusted_key H cy a trusted_public_key_text policy now) (\<lambda>found.
       case found of
         None \<Rightarrow> Inr False
       | Some k \<Rightarrow>
           if la_public_key a \<noteq> ky_public_key k then Inr False
           else rbind (hash_obj H True (attestation_value (a\<lparr> la_attestation_hash := '''' \<rparr>))) (\<lambda>h.
                if la_attestation_hash a \<noteq> h then Inr False
                else if \<not> attests a c then Inr False
                else rbind (parse_public_key (ky_public_key k)) (\<lambda>public.
                     rbind (parse_signature (la_signature a)) (\<lambda>sig.
                     rbind (attestation_payload a) (\<lambda>m. Inr (cy_verify cy public sig m))))))"

section \<open>What is signed\<close>

text \<open>Attestations consist of text and numbers, so hashing them cannot fail, and the signed bytes
  determine every field but the signature and the attestation's own hash.\<close>

lemma attestation_plain [simp]: "plain (attestation_value a)"
  by (simp add: attestation_value_def strs_def opt_str_def list_all_iff split: option.split)

lemma trust_policy_plain [simp]: "plain (trust_policy_value p)"
  by (simp add: trust_policy_value_def trust_key_value_def opt_str_def list_all_iff split: option.split)

definition signed_fields ::
  "attestation \<Rightarrow> string list \<times> int \<times> string list \<times> string option" where
  "signed_fields a =
     ([la_checkpoint_hash a, la_ledger_hash a, la_ledger_tail_hash a, la_trust_policy_id a, la_key_id a, la_issuer a,
       la_audience a, la_public_key a],
      la_ledger_entry_count a, la_subject_receipt_hashes a, la_expires_at a)"

lemma payload_fields:
  assumes "attestation_payload a = Inr m" "attestation_payload b = Inr m"
  shows "signed_fields a = signed_fields b"
proof -
  let ?u = "\<lambda>a. attestation_value (a\<lparr> la_signature := '''', la_attestation_hash := '''' \<rparr>)"
  have n: "normalize True (?u a) = normalize True (?u b)"
    by (rule canonical_bytes_inj) (use assms in \<open>simp_all add: attestation_payload_def\<close>)
  obtain j where j: "normalize True (?u a) = Inr j" using plain_normalizes by fastforce
  note f = model_field_eq [OF n [unfolded attestation_value_def] j [unfolded attestation_value_def]]
  have "normalize True (PStr (la_checkpoint_hash a)) = normalize True (PStr (la_checkpoint_hash b))"
    by (rule f [where k = "''checkpoint_hash''"]) simp_all
  moreover have "normalize True (PStr (la_ledger_hash a)) = normalize True (PStr (la_ledger_hash b))"
    by (rule f [where k = "''ledger_hash''"]) simp_all
  moreover have "normalize True (PStr (la_ledger_tail_hash a)) = normalize True (PStr (la_ledger_tail_hash b))"
    by (rule f [where k = "''ledger_tail_hash''"]) simp_all
  moreover have "normalize True (PInt (la_ledger_entry_count a)) = normalize True (PInt (la_ledger_entry_count b))"
    by (rule f [where k = "''ledger_entry_count''"]) simp_all
  moreover have "normalize True (strs (la_subject_receipt_hashes a)) = normalize True (strs (la_subject_receipt_hashes b))"
    by (rule f [where k = "''subject_receipt_hashes''"]) simp_all
  moreover have "normalize True (PStr (la_trust_policy_id a)) = normalize True (PStr (la_trust_policy_id b))"
    by (rule f [where k = "''trust_policy_id''"]) simp_all
  moreover have "normalize True (PStr (la_key_id a)) = normalize True (PStr (la_key_id b))"
    by (rule f [where k = "''key_id''"]) simp_all
  moreover have "normalize True (PStr (la_issuer a)) = normalize True (PStr (la_issuer b))"
    by (rule f [where k = "''issuer''"]) simp_all
  moreover have "normalize True (PStr (la_audience a)) = normalize True (PStr (la_audience b))"
    by (rule f [where k = "''audience''"]) simp_all
  moreover have "normalize True (PStr (la_public_key a)) = normalize True (PStr (la_public_key b))"
    by (rule f [where k = "''public_key''"]) simp_all
  moreover have "normalize True (opt_str (la_expires_at a)) = normalize True (opt_str (la_expires_at b))"
    by (rule f [where k = "''expires_at''"]) simp_all
  ultimately show ?thesis by (simp add: signed_fields_def)
qed

lemma attests_signed: "signed_fields a = signed_fields b \<Longrightarrow> attests a c = attests b c"
  by (simp add: attests_def signed_fields_def)

lemma payload_total: "\<exists>m. attestation_payload a = Inr m"
  using plain_normalizes [OF attestation_plain] by (metis attestation_payload_def canonical_bytes_Inr)

lemma payload_irrelevant [simp]:
  "attestation_payload (a\<lparr> la_signature := s \<rparr>) = attestation_payload a"
  "attestation_payload (a\<lparr> la_attestation_hash := h \<rparr>) = attestation_payload a"
  by (simp_all add: attestation_payload_def)

section \<open>Properties\<close>

text \<open>The laws of a signature scheme: sizes, and what a key signs its public key accepts.\<close>

definition signature_laws :: "crypto \<Rightarrow> bool" where
  "signature_laws cy =
     (\<forall>k. length k = 32 \<longrightarrow> length (cy_public cy k) = 32 \<and>
        (\<forall>m. length (cy_sign cy k m) = 64 \<and> cy_verify cy (cy_public cy k) (cy_sign cy k m) m))"

lemma parse_private_length: "parse_private_key t = Inr raw \<Longrightarrow> length raw = 32"
  by (auto simp: parse_private_key_def parse_prefixed_hex_def split: if_splits option.splits)

lemma sign_checkpoint_Inr:
  assumes "sign_checkpoint H cy clock c s = Inr a"
  shows "\<exists>raw m. parse_private_key (sg_private_key_text s) = Inr raw \<and> attestation_payload a = Inr m
    \<and> la_signature a = SIGNATURE_PREFIX @ hex_of (cy_sign cy raw m)
    \<and> la_public_key a = public_key_text (cy_public cy raw) \<and> attests a c
    \<and> hash_obj H True (attestation_value (a\<lparr> la_attestation_hash := '''' \<rparr>)) = Inr (la_attestation_hash a)
    \<and> la_trust_policy_id a = sg_trust_policy_id s \<and> la_key_id a = sg_key_id s
    \<and> la_audience a = sg_audience s \<and> la_expires_at a = sg_expires_at s"
proof -
  from assms obtain raw m h where raw: "parse_private_key (sg_private_key_text s) = Inr raw"
    and m: "attestation_payload (unsigned_attestation clock c s (public_key_text (cy_public cy raw))) = Inr m"
    and h: "hash_obj H True (attestation_value ((unsigned_attestation clock c s (public_key_text (cy_public cy raw)))
      \<lparr> la_signature := SIGNATURE_PREFIX @ hex_of (cy_sign cy raw m) \<rparr>)) = Inr h"
    and a: "a = (unsigned_attestation clock c s (public_key_text (cy_public cy raw)))
      \<lparr> la_signature := SIGNATURE_PREFIX @ hex_of (cy_sign cy raw m) \<rparr> \<lparr> la_attestation_hash := h \<rparr>"
    by (auto simp: sign_checkpoint_def rbind_Inr_iff Let_def)
  from m a have "attestation_payload a = Inr m" by simp
  moreover have "a\<lparr> la_attestation_hash := [] \<rparr> = (unsigned_attestation clock c s (public_key_text (cy_public cy raw)))
      \<lparr> la_signature := SIGNATURE_PREFIX @ hex_of (cy_sign cy raw m) \<rparr>"
    by (simp add: a unsigned_attestation_def)
  with h have "hash_obj H True (attestation_value (a\<lparr> la_attestation_hash := [] \<rparr>)) = Inr (la_attestation_hash a)"
    by (simp add: a)
  ultimately show ?thesis using raw by (simp add: a unsigned_attestation_def attests_def)
qed

lemma trusted_key_plain:
  "trusted_key H cy a (Some t) None now = Inr (Some k) \<longleftrightarrow>
     k = \<lparr> ky_key_id = la_key_id a, ky_public_key = t, ky_issuer = la_issuer a, ky_revoked = False,
           ky_valid_from = None, ky_valid_until = None \<rparr>"
  by (auto simp: trusted_key_def)

lemma verify_attestation_iff:
  "verify_checkpoint_attestation H cy c a t p now = Inr True \<longleftrightarrow>
     (\<exists>k raw sig m. trusted_key H cy a t p now = Inr (Some k) \<and> la_public_key a = ky_public_key k
        \<and> hash_obj H True (attestation_value (a\<lparr> la_attestation_hash := '''' \<rparr>)) = Inr (la_attestation_hash a)
        \<and> attests a c \<and> parse_public_key (ky_public_key k) = Inr raw \<and> parse_signature (la_signature a) = Inr sig
        \<and> attestation_payload a = Inr m \<and> cy_verify cy raw sig m)"
  by (fastforce simp: verify_checkpoint_attestation_def rbind_Inr_iff split: option.splits if_splits)

text \<open>C32: what the key of a policy signs is accepted: the attestation that \<open>sign_checkpoint\<close> makes for a
  checkpoint verifies against the signer's public key, and against the policy that
  \<open>make_trust_policy\<close> builds from it, at any time.\<close>

theorem attestation_roundtrip:
  assumes "signature_laws cy" "sign_checkpoint H cy clock c s = Inr a"
    and "public_key_from_private cy (sg_private_key_text s) = Inr pub"
    and "make_trust_policy H (sg_trust_policy_id s) (sg_key_id s) pub (la_issuer a) None None = Inr p"
    and "sg_audience s = ''redline.publish''" "sg_expires_at s = None"
  shows "verify_checkpoint_attestation H cy c a (Some pub) None now = Inr True \<and>
    verify_checkpoint_attestation H cy c a None (Some p) now = Inr True"
proof -
  from sign_checkpoint_Inr [OF assms(2)] obtain raw m where a:
    "parse_private_key (sg_private_key_text s) = Inr raw" "attestation_payload a = Inr m"
    "la_signature a = SIGNATURE_PREFIX @ hex_of (cy_sign cy raw m)"
    "la_public_key a = public_key_text (cy_public cy raw)" "attests a c"
    "hash_obj H True (attestation_value (a\<lparr> la_attestation_hash := '''' \<rparr>)) = Inr (la_attestation_hash a)"
    "la_trust_policy_id a = sg_trust_policy_id s" "la_key_id a = sg_key_id s"
    "la_audience a = sg_audience s" "la_expires_at a = sg_expires_at s" by blast
  have len: "length raw = 32" by (rule parse_private_length [OF a(1)])
  with assms(1) have "length (cy_public cy raw) = 32" "length (cy_sign cy raw m) = 64"
    "cy_verify cy (cy_public cy raw) (cy_sign cy raw m) m" by (simp_all add: signature_laws_def)
  with a(3,4) have keys: "parse_public_key (la_public_key a) = Inr (cy_public cy raw)"
    "parse_signature (la_signature a) = Inr (cy_sign cy raw m)" by (simp_all add: parse_key_text)
  have pub: "pub = la_public_key a" using assms(3) a(1,4) by (simp add: public_key_from_private_def)
  let ?k = "\<lparr> ky_key_id = la_key_id a, ky_public_key = pub, ky_issuer = la_issuer a, ky_revoked = False,
              ky_valid_from = None, ky_valid_until = None \<rparr>"
  from assms(4) a pub have p: "tp_keys p = [?k]" "tp_audience p = ''redline.publish''" "tp_policy_id p = la_trust_policy_id a"
    "verify_trust_policy H p = Inr True"
    by (auto simp: make_trust_policy_def verify_trust_policy_def rbind_Inr_iff Let_def)
  then have "trusted_key H cy a None (Some p) now = Inr (Some ?k)"
    using a assms(5,6) by (simp add: trusted_key_def)
  moreover have "trusted_key H cy a (Some pub) None now = Inr (Some ?k)" by (simp add: trusted_key_plain)
  ultimately show ?thesis
    using a keys pub \<open>cy_verify cy (cy_public cy raw) (cy_sign cy raw m) m\<close>
    by (auto simp: verify_attestation_iff)
qed

definition key_current :: "crypto \<Rightarrow> int \<Rightarrow> trust_key \<Rightarrow> bool" where
  "key_current cy now k =
     (\<not> ky_revoked k \<and>
      (case ky_valid_from k of None \<Rightarrow> True | Some v \<Rightarrow> (case parse_time cy v of Inl e \<Rightarrow> False | Inr t \<Rightarrow> t \<le> now)) \<and>
      (case ky_valid_until k of None \<Rightarrow> True | Some v \<Rightarrow> (case parse_time cy v of Inl e \<Rightarrow> False | Inr t \<Rightarrow> now < t)))"

lemma usable_key_Some:
  "usable_key cy a now ks = Inr (Some k) \<Longrightarrow>
   k \<in> set ks \<and> ky_key_id k = la_key_id a \<and> ky_issuer k = la_issuer a \<and> key_current cy now k"
  by (induction ks) (auto simp: key_current_def rbind_Inr_iff split: if_splits option.splits)

text \<open>C19: an attestation that the policy accepts was signed: if signatures under the policy's keys verify only
  on the payloads of the attestations in \<open>issued\<close> (no forgery), then a checkpoint that verifies is one
  that such an attestation names, field by field, under a key of the policy that is neither revoked nor
  outside its validity, for this policy and audience, and the attestation has not expired.\<close>

theorem attested_checkpoint_was_signed:
  assumes "verify_checkpoint_attestation H cy c a None (Some p) now = Inr True"
    and "\<And>k raw sig m. k \<in> set (tp_keys p) \<Longrightarrow> parse_public_key (ky_public_key k) = Inr raw \<Longrightarrow>
      cy_verify cy raw sig m \<Longrightarrow> \<exists>b \<in> issued. attestation_payload b = Inr m"
  shows "\<exists>b \<in> issued. \<exists>k \<in> set (tp_keys p). attests b c \<and> key_current cy now k
    \<and> ky_key_id k = la_key_id b \<and> ky_issuer k = la_issuer b \<and> ky_public_key k = la_public_key b
    \<and> la_trust_policy_id b = tp_policy_id p \<and> la_audience b = tp_audience p
    \<and> (case la_expires_at b of None \<Rightarrow> True
        | Some v \<Rightarrow> (case parse_time cy v of Inl e \<Rightarrow> False | Inr t \<Rightarrow> now < t))
    \<and> hash_obj H True (trust_policy_value (p\<lparr> tp_policy_hash := '''' \<rparr>)) = Inr (tp_policy_hash p)"
proof -
  from assms(1) obtain k raw sig m where k: "trusted_key H cy a None (Some p) now = Inr (Some k)"
    "la_public_key a = ky_public_key k" "attests a c" "parse_public_key (ky_public_key k) = Inr raw"
    "attestation_payload a = Inr m" "cy_verify cy raw sig m"
    by (auto simp: verify_attestation_iff)
  from k(1) have u: "usable_key cy a now (tp_keys p) = Inr (Some k)" "tp_policy_id p = la_trust_policy_id a"
    "tp_audience p = la_audience a" "verify_trust_policy H p = Inr True"
    "case la_expires_at a of None \<Rightarrow> True | Some v \<Rightarrow> (case parse_time cy v of Inl e \<Rightarrow> False | Inr t \<Rightarrow> now < t)"
    by (auto simp: trusted_key_def rbind_Inr_iff split: if_splits option.splits)
  from usable_key_Some [OF u(1)] have key: "k \<in> set (tp_keys p)" "ky_key_id k = la_key_id a" "ky_issuer k = la_issuer a"
    "key_current cy now k" by blast+
  from assms(2) [OF key(1) k(4,6)] obtain b where b: "b \<in> issued" "attestation_payload b = Inr m" by blast
  from payload_fields [OF k(5) b(2)] have same: "signed_fields a = signed_fields b" .
  from u(4) have "hash_obj H True (trust_policy_value (p\<lparr> tp_policy_hash := '''' \<rparr>)) = Inr (tp_policy_hash p)"
    by (auto simp: verify_trust_policy_def rbind_Inr_iff)
  with same b(1) key k(2,3) u(2,3,5) show ?thesis
    unfolding attests_signed [OF same] by (intro bexI [of _ b] bexI [of _ k]) (simp_all add: signed_fields_def)
qed

section \<open>Witnesses\<close>

definition sample_crypto :: crypto where
  "sample_crypto = \<lparr> cy_public = id, cy_sign = (\<lambda>k m. k @ k), cy_verify = (\<lambda>p s m. s = p @ p), cy_fromiso = (\<lambda>t. None) \<rparr>"

definition sample_checkpoint :: ledger_checkpoint where
  "sample_checkpoint =
     \<lparr> lc_ledger_path = ''ledger'', lc_ledger_hash = ''h'', lc_ledger_tail_hash = ''t'', lc_ledger_entry_count = 1,
       lc_subject_receipt_hashes = [''r''], lc_merkle_root_set = None, lc_anchor_kind = ''local-artifact'',
       lc_checkpoint_hash = ''c'' \<rparr>"

definition sample_signer :: sign_args where
  "sample_signer =
     \<lparr> sg_private_key_text = PRIVATE_PREFIX @ hex_of (replicate 32 CHR ''k''), sg_signer = ''alice'',
       sg_trust_policy_id = ''p'', sg_key_id = ''k1'', sg_issuer = None, sg_audience = ''redline.publish'',
       sg_signed_at = None, sg_expires_at = None \<rparr>"

lemma sign_checkpoint_total:
  "parse_private_key (sg_private_key_text s) = Inr raw \<Longrightarrow> \<exists>a. sign_checkpoint H cy clock c s = Inr a"
proof -
  assume k: "parse_private_key (sg_private_key_text s) = Inr raw"
  obtain m where "attestation_payload (unsigned_attestation clock c s (public_key_text (cy_public cy raw))) = Inr m"
    using payload_total by blast
  moreover obtain h where "hash_obj H True (attestation_value ((unsigned_attestation clock c s (public_key_text (cy_public cy raw)))
      \<lparr> la_signature := SIGNATURE_PREFIX @ hex_of (cy_sign cy raw m) \<rparr>)) = Inr h"
    using plain_hashes [OF attestation_plain] by blast
  ultimately show ?thesis using k by (simp add: sign_checkpoint_def Let_def)
qed

lemma make_trust_policy_total:
  "parse_public_key pub = Inr raw \<Longrightarrow> \<exists>p. make_trust_policy H i k pub iss f u = Inr p"
proof -
  assume k: "parse_public_key pub = Inr raw"
  obtain h where "hash_obj H True (trust_policy_value \<lparr> tp_policy_id = i, tp_audience = ''redline.publish'', tp_allow_demo = False,
      tp_keys = [\<lparr> ky_key_id = k, ky_public_key = pub, ky_issuer = iss, ky_revoked = False,
                   ky_valid_from = f, ky_valid_until = u \<rparr>], tp_policy_hash = '''' \<rparr>) = Inr h"
    using plain_hashes [OF trust_policy_plain] by blast
  with k show ?thesis by (simp add: make_trust_policy_def Let_def)
qed

lemma sample_laws: "signature_laws sample_crypto"
  by (simp add: signature_laws_def sample_crypto_def)

lemma sample_key:
  "parse_private_key (sg_private_key_text sample_signer) = Inr (replicate 32 CHR ''k'')"
  "public_key_from_private sample_crypto (sg_private_key_text sample_signer) = Inr (public_key_text (replicate 32 CHR ''k''))"
proof -
  show p: "parse_private_key (sg_private_key_text sample_signer) = Inr (replicate 32 CHR ''k'')"
    unfolding sample_signer_def sign_args.simps by (rule parse_key_text) simp
  show "public_key_from_private sample_crypto (sg_private_key_text sample_signer) = Inr (public_key_text (replicate 32 CHR ''k''))"
    unfolding public_key_from_private_def p by (simp add: sample_crypto_def)
qed

lemma sample_policy:
  "\<exists>a p. sign_checkpoint H sample_crypto ''now'' sample_checkpoint sample_signer = Inr a
     \<and> make_trust_policy H (sg_trust_policy_id sample_signer) (sg_key_id sample_signer)
         (public_key_text (replicate 32 CHR ''k'')) (la_issuer a) None None = Inr p"
  using sign_checkpoint_total [OF sample_key(1)] make_trust_policy_total [OF parse_key_text(2)] by (meson length_replicate)

theorem attestation_roundtrip_witness:
  "\<exists>a p. verify_checkpoint_attestation id sample_crypto sample_checkpoint a None (Some p) 0 = Inr True"
proof -
  from sample_policy [of id] obtain a p where
    "sign_checkpoint id sample_crypto ''now'' sample_checkpoint sample_signer = Inr a"
    "make_trust_policy id (sg_trust_policy_id sample_signer) (sg_key_id sample_signer)
         (public_key_text (replicate 32 CHR ''k'')) (la_issuer a) None None = Inr p" by blast
  from attestation_roundtrip [OF sample_laws this(1) sample_key(2) this(2)] show ?thesis
    by (auto simp: sample_signer_def)
qed

text \<open>A scheme whose only valid signature is the one over the payload \<open>m\<close>.\<close>

definition strict_crypto :: "string \<Rightarrow> crypto" where
  "strict_crypto m = sample_crypto\<lparr> cy_verify := (\<lambda>p s m'. m' = m) \<rparr>"

lemma strict_verify: "cy_verify (strict_crypto m) p s m' \<longleftrightarrow> m' = m"
  by (simp add: strict_crypto_def)

definition sample_attestation :: attestation where
  "sample_attestation =
     \<lparr> la_checkpoint_hash = ''c'', la_ledger_hash = ''h'', la_ledger_tail_hash = ''t'', la_ledger_entry_count = 1,
       la_subject_receipt_hashes = [''r''], la_trust_policy_id = ''p'', la_key_id = ''k1'', la_issuer = ''alice'',
       la_audience = ''redline.publish'', la_signer = ''alice'', la_public_key = public_key_text (replicate 32 CHR ''k''),
       la_signed_at = ''now'', la_expires_at = None, la_signature = SIGNATURE_PREFIX @ hex_of (replicate 64 CHR ''s''),
       la_attestation_hash = '''' \<rparr>"

theorem attested_checkpoint_was_signed_witness:
  "\<exists>m a p. attestation_payload sample_attestation = Inr m
     \<and> verify_checkpoint_attestation id (strict_crypto m) sample_checkpoint a None (Some p) 0 = Inr True
     \<and> (\<exists>b \<in> {sample_attestation}. attests b sample_checkpoint)"
proof -
  obtain m where m: "attestation_payload sample_attestation = Inr m" using payload_total by blast
  obtain h where h: "hash_obj id True (attestation_value sample_attestation) = Inr h"
    using plain_hashes [OF attestation_plain] by blast
  let ?a = "sample_attestation\<lparr> la_attestation_hash := h \<rparr>" and ?pub = "public_key_text (replicate 32 CHR ''k'')"
  obtain p where p: "make_trust_policy id ''p'' ''k1'' ?pub ''alice'' None None = Inr p"
    using make_trust_policy_total [OF parse_key_text(2)] by (meson length_replicate)
  let ?k = "\<lparr> ky_key_id = ''k1'', ky_public_key = ?pub, ky_issuer = ''alice'', ky_revoked = False,
              ky_valid_from = None, ky_valid_until = None \<rparr>"
  from p have pp: "tp_keys p = [?k]" "tp_audience p = ''redline.publish''" "tp_policy_id p = ''p''"
    "verify_trust_policy id p = Inr True"
    by (auto simp: make_trust_policy_def verify_trust_policy_def rbind_Inr_iff Let_def)
  then have "trusted_key id (strict_crypto m) ?a None (Some p) 0 = Inr (Some ?k)"
    by (simp add: trusted_key_def sample_attestation_def)
  moreover have "?a\<lparr> la_attestation_hash := '''' \<rparr> = sample_attestation" by (simp add: sample_attestation_def)
  moreover have "attests ?a sample_checkpoint" by (simp add: attests_def sample_attestation_def sample_checkpoint_def)
  moreover have "parse_public_key ?pub = Inr (replicate 32 CHR ''k'')"
    "parse_signature (SIGNATURE_PREFIX @ hex_of (replicate 64 CHR ''s'')) = Inr (replicate 64 CHR ''s'')"
    by (rule parse_key_text; simp)+
  moreover have "la_public_key ?a = ?pub" "la_signature ?a = SIGNATURE_PREFIX @ hex_of (replicate 64 CHR ''s'')"
    by (simp_all add: sample_attestation_def)
  ultimately have v: "verify_checkpoint_attestation id (strict_crypto m) sample_checkpoint ?a None (Some p) 0 = Inr True"
    unfolding verify_attestation_iff using m h by (intro exI [of _ ?k]) (simp add: strict_verify)
  have "\<exists>b \<in> {sample_attestation}. attestation_payload b = Inr m'" if "cy_verify (strict_crypto m) raw sig m'" for raw sig m'
    using that m by (simp add: strict_verify)
  from attested_checkpoint_was_signed [OF v, of "{sample_attestation}"] this
  have "\<exists>b \<in> {sample_attestation}. attests b sample_checkpoint" by blast
  with v m show ?thesis by blast
qed

end
