(* ===== verification/Package_Identity.thy ===== *)
theory Package_Identity
  imports Receipt
begin

text \<open>
  \<open>src/redline/package_identity.py\<close>: the lock file of a package, which names its source files with their
  hashes. Reading a JSON file gives one of the outcomes of \<open>'a jfile\<close>: there is no file, opening, parsing
  or validating it raises, or it holds a value.
\<close>

datatype 'a jfile = No_File | Bad_File exn | File 'a

fun read_json :: "'a jfile \<Rightarrow> exn + 'a" where
  "read_json No_File = Inl FileNotFoundError"
| "read_json (Bad_File e) = Inl e"
| "read_json (File x) = Inr x"

fun file_exists :: "'a jfile \<Rightarrow> bool" where
  "file_exists No_File = False"
| "file_exists _ = True"

lemma read_json_Inr [simp]: "read_json f = Inr x \<longleftrightarrow> f = File x"
  by (cases f) auto

text \<open>\<open>except (OSError, json.JSONDecodeError, ValidationError)\<close>.\<close>

definition is_file_error :: "exn \<Rightarrow> bool" where
  "is_file_error e = (is_os_error e \<or> e \<in> {JSONDecodeError, ValidationError})"

section \<open>Building and loading the lock\<close>

definition split_slash :: "string \<Rightarrow> string list" where
  "split_slash s = foldr (\<lambda>c acc. if c = CHR ''/'' then [] # acc else (c # hd acc) # tl acc) s [[]]"

definition path_parts :: "string \<Rightarrow> string list" where
  "path_parts s = filter (\<lambda>p. p \<noteq> '''' \<and> p \<noteq> ''.'') (split_slash s)"

definition path_name :: "string \<Rightarrow> string" where
  "path_name s = (if path_parts s = [] then '''' else last (path_parts s))"

definition is_identity_source_file :: "string \<Rightarrow> bool" where
  "is_identity_source_file rel =
     (rel = ''manifest.yaml'' \<or> rel = ''manifest.yml'' \<or> rel = ''README.md'' \<or>
      startswith rel ''src/'' \<or> path_name rel = ''strategy.py'')"

definition source_files :: "tree_entry list \<Rightarrow> exn + (string \<times> tree_entry) list" where
  "source_files fs =
     rbind (iter_canonical_files fs) (\<lambda>files. Inr (filter (\<lambda>(rel, f). is_identity_source_file rel) files))"

definition identity_payload :: "package_identity_file list \<Rightarrow> pyval" where
  "identity_payload locked =
     PDict [(''adapter_id'', PStr PLAYBOOK_ADAPTER_ID), (''canonical_tar_rules'', PStr CANONICAL_TAR_RULES),
            (''locked_files'', PList (map identity_file_value locked))]"

definition lock_files :: "(string \<Rightarrow> string) \<Rightarrow> (string \<times> tree_entry) list \<Rightarrow> package_identity_file list" where
  "lock_files H files = map (\<lambda>(rel, f). \<lparr> pif_path = rel, pif_hash = hash_file H (te_bytes f) \<rparr>) files"

definition build_identity_lock ::
  "(string \<Rightarrow> string) \<Rightarrow> tree_entry list \<Rightarrow> string \<Rightarrow> exn + playbook_identity_lock" where
  "build_identity_lock H fs adapter_id =
     (if adapter_id \<noteq> PLAYBOOK_ADAPTER_ID then Inl (CanonicalizationError RC_RECEIPT_BINDING_FAILED)
      else rbind (source_files fs) (\<lambda>files.
        if files = [] then Inl (CanonicalizationError RC_DATA_MISSING)
        else rbind (hash_obj H True (identity_payload (lock_files H files))) (\<lambda>ih.
             let l = \<lparr> pil_locked_files = lock_files H files, pil_identity_hash = ih, pil_lock_hash = '''' \<rparr>
             in rbind (hash_obj H True (identity_lock_value l)) (\<lambda>lh. Inr (l\<lparr> pil_lock_hash := lh \<rparr>)))))"

text \<open>One round of the loop of \<open>_validate_locked_files\<close>. The path of an item that the walk over the package
  has just met exists and stays inside the package.\<close>

fun validate_items ::
  "(string \<Rightarrow> string) \<Rightarrow> tree_entry list \<Rightarrow> string list \<Rightarrow> package_identity_file list \<Rightarrow> exn + unit" where
  "validate_items H fs seen [] = Inr ()"
| "validate_items H fs seen (i # is) =
     (if pif_path i \<in> set seen \<or> startswith (pif_path i) ''/'' \<or> ''..'' \<in> set (path_parts (pif_path i))
      then Inl (CanonicalizationError RC_RECEIPT_BINDING_FAILED)
      else case find (\<lambda>f. join ''/'' (te_parts f) = pif_path i) fs of
             None \<Rightarrow> Inl (CanonicalizationError RC_RECEIPT_BINDING_FAILED)
           | Some f \<Rightarrow>
               if te_escapes f \<or> \<not> te_file f \<or> te_symlink f \<or> hash_file H (te_bytes f) \<noteq> pif_hash i
               then Inl (CanonicalizationError RC_RECEIPT_BINDING_FAILED)
               else validate_items H fs (seen @ [pif_path i]) is)"

definition validate_locked_files ::
  "(string \<Rightarrow> string) \<Rightarrow> tree_entry list \<Rightarrow> playbook_identity_lock \<Rightarrow> exn + unit" where
  "validate_locked_files H fs l =
     rbind (source_files fs) (\<lambda>files.
       if map pif_path (pil_locked_files l) \<noteq> map fst files
       then Inl (CanonicalizationError RC_RECEIPT_BINDING_FAILED)
       else rbind (validate_items H fs [] (pil_locked_files l)) (\<lambda>_.
            rbind (hash_obj H True (identity_payload (pil_locked_files l))) (\<lambda>h.
            if pil_identity_hash l \<noteq> h then Inl (CanonicalizationError RC_RECEIPT_BINDING_FAILED) else Inr ())))"

definition load_identity_lock ::
  "(string \<Rightarrow> string) \<Rightarrow> tree_entry list \<Rightarrow> playbook_identity_lock jfile \<Rightarrow> exn + playbook_identity_lock" where
  "load_identity_lock H fs f =
     (case f of
        No_File \<Rightarrow> Inl (CanonicalizationError RC_RECEIPT_BINDING_FAILED)
      | Bad_File e \<Rightarrow> Inl (if is_file_error e then CanonicalizationError RC_RECEIPT_BINDING_FAILED else e)
      | File l \<Rightarrow>
          rbind (hash_obj H True (identity_lock_value (l\<lparr> pil_lock_hash := '''' \<rparr>))) (\<lambda>h.
            if pil_lock_hash l \<noteq> h then Inl (CanonicalizationError RC_RECEIPT_BINDING_FAILED)
            else rbind (validate_locked_files H fs l) (\<lambda>_. Inr l)))"

definition write_identity_lock ::
  "(string \<Rightarrow> string) \<Rightarrow> tree_entry list \<Rightarrow> string \<Rightarrow> exn + playbook_identity_lock jfile" where
  "write_identity_lock H fs adapter_id = rbind (build_identity_lock H fs adapter_id) (\<lambda>l. Inr (File l))"

section \<open>A lock that was built loads, and what loads pins the files\<close>

lemma canonical_files_eq:
  "canonical_files_from fs = Inr files \<Longrightarrow>
   files = map (\<lambda>f. (join ''/'' (te_parts f), f)) (filter (\<lambda>f. te_file f \<and> \<not> excluded_rel (join ''/'' (te_parts f))) fs)
   \<and> list_all (\<lambda>(rel, f). \<not> te_symlink f \<and> \<not> te_escapes f) files"
  by (induction fs arbitrary: files) (auto simp: rbind_Inr_iff Let_def split: if_splits)

lemma canonical_files_facts:
  "canonical_files_from fs = Inr files \<Longrightarrow> (rel, f) \<in> set files \<Longrightarrow>
   f \<in> set fs \<and> rel = join ''/'' (te_parts f) \<and> te_file f \<and> \<not> te_symlink f \<and> \<not> te_escapes f"
  by (drule canonical_files_eq) (auto simp: list_all_iff)

lemma source_files_facts:
  assumes "source_files fs = Inr files" "(rel, f) \<in> set files"
  shows "f \<in> set fs \<and> rel = join ''/'' (te_parts f) \<and> te_file f \<and> \<not> te_symlink f \<and> \<not> te_escapes f"
proof -
  from assms obtain all where "canonical_files_from (sort_key te_parts fs) = Inr all" "(rel, f) \<in> set all"
    by (auto simp: source_files_def iter_canonical_files_def rbind_Inr_iff)
  from canonical_files_facts [OF this] show ?thesis by simp
qed

text \<open>Paths of a file system: no two entries at one path, no path is absolute or goes up.\<close>

definition sound_paths :: "tree_entry list \<Rightarrow> bool" where
  "sound_paths fs =
     (distinct (map (\<lambda>f. join ''/'' (te_parts f)) fs) \<and>
      list_all (\<lambda>f. \<not> startswith (join ''/'' (te_parts f)) ''/'' \<and>
                    ''..'' \<notin> set (path_parts (join ''/'' (te_parts f)))) fs)"

lemma find_path:
  "distinct (map (\<lambda>f. join ''/'' (te_parts f)) fs) \<Longrightarrow> f \<in> set fs \<Longrightarrow>
   find (\<lambda>g. join ''/'' (te_parts g) = join ''/'' (te_parts f)) fs = Some f"
  by (induction fs) force+

lemma validate_items_built:
  assumes "sound_paths fs"
    and "\<And>rel f. (rel, f) \<in> set files \<Longrightarrow>
      f \<in> set fs \<and> rel = join ''/'' (te_parts f) \<and> te_file f \<and> \<not> te_symlink f \<and> \<not> te_escapes f"
    and "distinct (map fst files)" "set seen \<inter> set (map fst files) = {}"
  shows "validate_items H fs seen (lock_files H files) = Inr ()"
  using assms(2-)
proof (induction files arbitrary: seen)
  case (Cons x files)
  obtain rel f where x: "x = (rel, f)" by (cases x)
  from Cons.prems(1) [of rel f] x have f: "f \<in> set fs" "rel = join ''/'' (te_parts f)" "te_file f" "\<not> te_symlink f"
    "\<not> te_escapes f" by simp_all
  with assms(1) have "find (\<lambda>g. join ''/'' (te_parts g) = rel) fs = Some f" "\<not> startswith rel ''/''"
    "''..'' \<notin> set (path_parts rel)"
    by (simp_all add: sound_paths_def find_path list_all_iff)
  moreover have "rel \<notin> set seen" using Cons.prems(3) x by auto
  moreover have "validate_items H fs (seen @ [rel]) (lock_files H files) = Inr ()"
    by (rule Cons.IH) (use Cons.prems x in auto)
  ultimately show ?case using f by (simp add: x lock_files_def)
qed (simp add: lock_files_def)

lemma validate_items_hashes:
  "validate_items H fs seen is = Inr () \<Longrightarrow> i \<in> set is \<Longrightarrow>
   \<exists>f \<in> set fs. join ''/'' (te_parts f) = pif_path i \<and> hash_file H (te_bytes f) = pif_hash i"
proof (induction "is" arbitrary: seen)
  case (Cons x "is")
  then obtain f where "find (\<lambda>f. join ''/'' (te_parts f) = pif_path x) fs = Some f"
    "hash_file H (te_bytes f) = pif_hash x" "validate_items H fs (seen @ [pif_path x]) is = Inr ()"
    by (auto split: if_splits option.splits)
  with Cons show ?case by (auto simp: find_Some_iff)
qed simp

lemma distinct_source_paths:
  assumes "sound_paths fs" "source_files fs = Inr files"
  shows "distinct (map fst files)"
proof -
  have d: "distinct (map fst all)" if c: "canonical_files_from gs = Inr all" "distinct (map (\<lambda>f. join ''/'' (te_parts f)) gs)"
    for gs all
  proof -
    let ?k = "\<lambda>f. te_file f \<and> \<not> excluded_rel (join ''/'' (te_parts f))"
    from canonical_files_eq [OF c(1)] have "map fst all = map (\<lambda>f. join ''/'' (te_parts f)) (filter ?k gs)" by simp
    with c(2) show ?thesis by (simp add: distinct_map_filter)
  qed
  have "distinct (map (\<lambda>f. join ''/'' (te_parts f)) (sort_key te_parts fs))"
    using assms(1) by (simp add: sound_paths_def distinct_map)
  with assms(2) d have "\<exists>all. distinct (map fst all) \<and> files = filter (\<lambda>(rel, f). is_identity_source_file rel) all"
    by (auto simp: source_files_def iter_canonical_files_def rbind_Inr_iff)
  then show ?thesis by (auto simp: distinct_map_filter)
qed

lemma built_lock_loads:
  assumes "sound_paths fs" "build_identity_lock H fs adapter = Inr l"
  shows "load_identity_lock H fs (File l) = Inr l"
proof -
  from assms(2) obtain files ih lh where b: "source_files fs = Inr files"
    "hash_obj H True (identity_payload (lock_files H files)) = Inr ih"
    "hash_obj H True (identity_lock_value \<lparr> pil_locked_files = lock_files H files, pil_identity_hash = ih, pil_lock_hash = '''' \<rparr>) = Inr lh"
    "l = \<lparr> pil_locked_files = lock_files H files, pil_identity_hash = ih, pil_lock_hash = lh \<rparr>"
    by (auto simp: build_identity_lock_def rbind_Inr_iff Let_def split: if_splits)
  have "map pif_path (lock_files H files) = map fst files" by (auto simp: lock_files_def)
  moreover have "validate_items H fs [] (lock_files H files) = Inr ()"
    by (rule validate_items_built) (use assms(1) b(1) source_files_facts distinct_source_paths in auto)
  ultimately have "validate_locked_files H fs l = Inr ()" using b by (simp add: validate_locked_files_def)
  with b show ?thesis by (simp add: load_identity_lock_def)
qed

lemma loaded_lock_files:
  assumes "load_identity_lock H fs (File l) = Inr l'" "distinct (map (\<lambda>f. join ''/'' (te_parts f)) fs)"
  shows "l' = l \<and> (\<exists>files. source_files fs = Inr files \<and> pil_locked_files l = lock_files H files)"
proof -
  from assms(1) have l': "l' = l" and "validate_locked_files H fs l = Inr ()"
    by (auto simp: load_identity_lock_def rbind_Inr_iff split: if_splits)
  then obtain files where files: "source_files fs = Inr files" "map pif_path (pil_locked_files l) = map fst files"
    and items: "validate_items H fs [] (pil_locked_files l) = Inr ()"
    by (auto simp: validate_locked_files_def rbind_Inr_iff split: if_splits)
  have len: "length (pil_locked_files l) = length files" using files(2) by (rule map_eq_imp_length_eq)
  have "pil_locked_files l = lock_files H files"
  proof (rule nth_equalityI)
    fix n assume n: "n < length (pil_locked_files l)"
    let ?i = "pil_locked_files l ! n"
    obtain rel f where f: "files ! n = (rel, f)" by (cases "files ! n")
    with n len have "(rel, f) \<in> set files" by (metis nth_mem)
    with source_files_facts [OF files(1)] have ff: "f \<in> set fs" "rel = join ''/'' (te_parts f)" by blast+
    have p: "pif_path ?i = rel" using files(2) n len f by (metis fst_conv nth_map)
    from validate_items_hashes [OF items, of ?i] n obtain g where g: "g \<in> set fs" "join ''/'' (te_parts g) = pif_path ?i"
      "hash_file H (te_bytes g) = pif_hash ?i" by auto
    with ff p assms(2) have "g = f" by (auto simp: distinct_map inj_on_def)
    with g p f n len show "?i = lock_files H files ! n" by (simp add: lock_files_def)
  qed (simp add: len lock_files_def)
  with l' files show ?thesis by blast
qed

end
