(* ===== verification/Ledger_Check.thy ===== *)
theory Ledger_Check
  imports Trust Package_Identity
begin

text \<open>
  What the verifier and the runner ask of the ledger beside a receipt: \<open>_ledger_error\<close> and
  \<open>_ledger_checkpoint_error\<close> of \<open>src/redline/verifier.py\<close>, \<open>_baseline_receipt_trusted\<close> of
  \<open>src/redline/runner.py\<close>. The lemmas say that a ledger that passes is an intact chain with exactly one
  entry for the receipt's key, and that entry is the receipt's own.
\<close>

section \<open>The scan\<close>

text \<open>The loop over the ledger's lines with its four variables; \<open>Inr None\<close> is a mismatch.\<close>

fun scan_ledger ::
  "(string \<Rightarrow> string) \<Rightarrow> receipt \<Rightarrow> string \<Rightarrow> int \<Rightarrow> bool \<Rightarrow> bool \<Rightarrow> ledger_line list \<Rightarrow>
   exn + (string \<times> int \<times> bool) option" where
  "scan_ledger H r prev n seen matched [] = Inr (Some (prev, n, matched))"
| "scan_ledger H r prev n seen matched (Blank_Line _ # ls) = scan_ledger H r prev n seen matched ls"
| "scan_ledger H r prev n seen matched (Bad_Line _ # ls) = Inr None"
| "scan_ledger H r prev n seen matched (Json_Line _ v # ls) =
     (case v of
        PDict e \<Rightarrow>
          (case entry_hash e of
             None \<Rightarrow> Inr None
           | Some h \<Rightarrow>
               rbind (hash_obj H True (entry_body e)) (\<lambda>expected.
                 if h \<noteq> expected \<or> map_of e ''previous_entry_hash'' \<noteq> Some (PStr prev) then Inr None
                 else if map_of e ''key_hash'' \<noteq> Some (PStr (ledger_key_hash H r))
                 then scan_ledger H r h (n + 1) seen matched ls
                 else if seen then Inr None
                 else if map_of e ''status'' \<noteq> Some (PStr (status_value (re_status (rc_result r)))) then Inr None
                 else if map_of e ''receipt_hash'' \<noteq> Some (PStr (rc_receipt_hash r)) then Inr None
                 else scan_ledger H r h (n + 1) True True ls))
      | _ \<Rightarrow> Inl AttributeError)"

section \<open>The checkpoint\<close>

definition checkpoint_matches ::
  "(string \<Rightarrow> string) \<Rightarrow> receipt \<Rightarrow> ledger_line list \<Rightarrow> string \<Rightarrow> int \<Rightarrow> ledger_checkpoint \<Rightarrow> exn + bool" where
  "checkpoint_matches H r ls tail_hash n c =
     rbind (compute_ledger_checkpoint_hash H c) (\<lambda>h.
       if lc_checkpoint_hash c \<noteq> h then Inr False
       else rbind (case lc_merkle_root_set c of
                     None \<Rightarrow> Inr True
                   | Some rt \<Rightarrow> rbind (merkle_root H (map PStr (lc_subject_receipt_hashes c))) (\<lambda>m. Inr (rt = m))) (\<lambda>ok.
            if \<not> ok then Inr False
            else Inr (lc_ledger_hash c = hash_file H (ledger_bytes ls) \<and> lc_ledger_tail_hash c = tail_hash \<and>
                      lc_ledger_entry_count c = n \<and> rc_receipt_hash r \<in> set (lc_subject_receipt_hashes c))))"

text \<open>The files beside a receipt, and what a caller trusts: a public key, a policy file, or neither.\<close>

record ledger_files =
  lf_ledger :: "ledger_line list jfile"
  lf_checkpoint :: "ledger_checkpoint jfile"
  lf_attestation :: "attestation jfile"

record trust_inputs =
  ti_public_key :: "string option"
  ti_policy :: "trust_policy jfile option"

definition mismatch :: "exn + reason_code option" where
  "mismatch = Inr (Some RC_RECEIPT_MISMATCH)"

definition attestation_error ::
  "(string \<Rightarrow> string) \<Rightarrow> crypto \<Rightarrow> int \<Rightarrow> ledger_checkpoint \<Rightarrow> attestation jfile option \<Rightarrow> string option \<Rightarrow>
   trust_policy option \<Rightarrow> exn + reason_code option" where
  "attestation_error H cy now c att key policy =
     (if key = None \<and> policy = None then Inr None
      else case att of
             None \<Rightarrow> mismatch
           | Some No_File \<Rightarrow> mismatch
           | Some (Bad_File e) \<Rightarrow> if is_file_error e then mismatch else Inl e
           | Some (File a) \<Rightarrow>
               (case verify_checkpoint_attestation H cy c a key policy now of
                  Inl e \<Rightarrow> if is_value_error e then mismatch else Inl e
                | Inr ok \<Rightarrow> if ok then Inr None else mismatch))"

definition ledger_checkpoint_error ::
  "(string \<Rightarrow> string) \<Rightarrow> crypto \<Rightarrow> int \<Rightarrow> receipt \<Rightarrow> ledger_line list \<Rightarrow> string \<Rightarrow> int \<Rightarrow> ledger_checkpoint jfile \<Rightarrow>
   attestation jfile option \<Rightarrow> trust_inputs \<Rightarrow> exn + reason_code option" where
  "ledger_checkpoint_error H cy now r ls tail_hash n cf att ti =
     (case cf of
        No_File \<Rightarrow> mismatch
      | Bad_File e \<Rightarrow> if is_file_error e then mismatch else Inl e
      | File c \<Rightarrow>
          rbind (checkpoint_matches H r ls tail_hash n c) (\<lambda>ok.
            if \<not> ok then mismatch
            else (case ti_policy ti of
                    None \<Rightarrow> attestation_error H cy now c att (ti_public_key ti) None
                  | Some pf \<Rightarrow>
                      (case read_json pf of
                         Inl e \<Rightarrow> if is_file_error e then mismatch else Inl e
                       | Inr p \<Rightarrow> attestation_error H cy now c att (ti_public_key ti) (Some p)))))"

text \<open>Passing \<open>None\<close> for the checkpoint or the attestation is the caller's path \<open>None\<close>.\<close>

definition ledger_error ::
  "(string \<Rightarrow> string) \<Rightarrow> crypto \<Rightarrow> int \<Rightarrow> receipt \<Rightarrow> ledger_line list jfile \<Rightarrow> ledger_checkpoint jfile option \<Rightarrow>
   attestation jfile option \<Rightarrow> trust_inputs \<Rightarrow> exn + reason_code option" where
  "ledger_error H cy now r ledger cf att ti =
     (case ledger of
        No_File \<Rightarrow> mismatch
      | Bad_File e \<Rightarrow> if is_os_error e then mismatch else Inl e
      | File ls \<Rightarrow>
          rbind (scan_ledger H r genesis 0 False False ls) (\<lambda>res.
            case res of
              None \<Rightarrow> mismatch
            | Some (tail_hash, n, matched) \<Rightarrow>
                if \<not> matched then mismatch
                else (case cf of
                        None \<Rightarrow> Inr None
                      | Some c \<Rightarrow> ledger_checkpoint_error H cy now r ls tail_hash n c att ti)))"

text \<open>\<open>except Exception\<close> around the three files; the ledger is scanned before the checkpoint is compared.\<close>

definition baseline_receipt_trusted ::
  "(string \<Rightarrow> string) \<Rightarrow> crypto \<Rightarrow> int \<Rightarrow> receipt \<Rightarrow> ledger_files \<Rightarrow> trust_policy jfile \<Rightarrow> exn + bool" where
  "baseline_receipt_trusted H cy now r fs policy =
     (if \<not> file_exists (lf_ledger fs) \<or> \<not> file_exists (lf_checkpoint fs) \<or> \<not> file_exists (lf_attestation fs)
      then Inr False
      else case (policy, lf_checkpoint fs, lf_attestation fs) of
             (File p, File c, File a) \<Rightarrow>
               (case lf_ledger fs of
                  No_File \<Rightarrow> Inr False
                | Bad_File e \<Rightarrow> if is_os_error e then Inr False else Inl e
                | File ls \<Rightarrow>
                    rbind (scan_ledger H r genesis 0 False False ls) (\<lambda>res.
                      case res of
                        None \<Rightarrow> Inr False
                      | Some (tail_hash, n, matched) \<Rightarrow>
                          if \<not> matched then Inr False
                          else rbind (checkpoint_matches H r ls tail_hash n c) (\<lambda>ok.
                               if \<not> ok then Inr False
                               else (case verify_checkpoint_attestation H cy c a None (Some p) now of
                                       Inl e \<Rightarrow> if is_value_error e then Inr False else Inl e
                                     | Inr b \<Rightarrow> Inr b))))
           | _ \<Rightarrow> Inr False)"

section \<open>What a scan that matches has seen\<close>

definition keyed :: "(string \<Rightarrow> string) \<Rightarrow> receipt \<Rightarrow> entry \<Rightarrow> bool" where
  "keyed H r e = (map_of e ''key_hash'' = Some (PStr (ledger_key_hash H r)))"

definition own_entry :: "(string \<Rightarrow> string) \<Rightarrow> receipt \<Rightarrow> entry \<Rightarrow> bool" where
  "own_entry H r e =
     (keyed H r e \<and> map_of e ''status'' = Some (PStr (status_value (re_status (rc_result r)))) \<and>
      map_of e ''receipt_hash'' = Some (PStr (rc_receipt_hash r)))"

lemma scan_ledger_Some:
  "scan_ledger H r prev n b b ls = Inr (Some (tl_hash, m, matched)) \<Longrightarrow>
   \<exists>es. read_entries_from H prev ls = Inr es \<and> tl_hash = chain_tail entry_hash prev es \<and> m = n + int (length es)
     \<and> (\<forall>e \<in> set es. keyed H r e \<longrightarrow> own_entry H r e)
     \<and> length (filter (keyed H r) es) = (if matched \<and> \<not> b then 1 else 0) \<and> (b \<longrightarrow> matched)"
proof (induction ls arbitrary: prev n b)
  case Nil
  then show ?case by simp
next
  case (Cons l ls)
  show ?case
  proof (cases l)
    case (Blank_Line t)
    with Cons show ?thesis by simp
  next
    case (Bad_Line t)
    with Cons.prems show ?thesis by simp
  next
    case (Json_Line t v)
    with Cons.prems obtain e h where v: "v = PDict e" "entry_hash e = Some h" "hash_obj H True (entry_body e) = Inr h"
      "map_of e ''previous_entry_hash'' = Some (PStr prev)"
      by (auto simp: rbind_Inr_iff split: pyval.splits option.splits if_splits)
    show ?thesis
    proof (cases "keyed H r e")
      case False
      with Cons.prems Json_Line v have "scan_ledger H r h (n + 1) b b ls = Inr (Some (tl_hash, m, matched))"
        by (simp add: keyed_def)
      from Cons.IH [OF this] obtain es where "read_entries_from H h ls = Inr es" "tl_hash = chain_tail entry_hash h es"
        "m = n + 1 + int (length es)" "\<forall>e \<in> set es. keyed H r e \<longrightarrow> own_entry H r e"
        "length (filter (keyed H r) es) = (if matched \<and> \<not> b then 1 else 0)" "b \<longrightarrow> matched" by blast
      with v False Json_Line show ?thesis by (intro exI [of _ "e # es"]) simp
    next
      case True
      with Cons.prems Json_Line v have own: "own_entry H r e" "\<not> b"
        and "scan_ledger H r h (n + 1) True True ls = Inr (Some (tl_hash, m, matched))"
        by (auto simp: keyed_def own_entry_def split: if_splits)
      from Cons.IH [OF this(3)] obtain es where "read_entries_from H h ls = Inr es" "tl_hash = chain_tail entry_hash h es"
        "m = n + 1 + int (length es)" "\<forall>e \<in> set es. keyed H r e \<longrightarrow> own_entry H r e"
        "length (filter (keyed H r) es) = 0" "matched" by auto
      with v True own Json_Line show ?thesis by (intro exI [of _ "e # es"]) simp
    qed
  qed
qed

text \<open>The ledger holds the receipt: it is an intact chain in which exactly one entry has the receipt's key,
  and that entry carries the receipt's hash and status.\<close>

definition ledger_holds :: "(string \<Rightarrow> string) \<Rightarrow> receipt \<Rightarrow> ledger_line list \<Rightarrow> bool" where
  "ledger_holds H r ls =
     (\<exists>es. read_ledger_entries H (Some ls) = Inr es \<and> (\<exists>e. filter (keyed H r) es = [e] \<and> own_entry H r e))"

lemma scan_holds:
  assumes "scan_ledger H r genesis 0 False False ls = Inr (Some (tl_hash, n, True))"
  shows "ledger_holds H r ls"
proof -
  from scan_ledger_Some [OF assms] obtain es where es: "read_entries_from H genesis ls = Inr es"
    "\<forall>e \<in> set es. keyed H r e \<longrightarrow> own_entry H r e" "length (filter (keyed H r) es) = 1" by auto
  then obtain e where e: "filter (keyed H r) es = [e]" by (auto simp: length_Suc_conv)
  then have "e \<in> set (filter (keyed H r) es)" by simp
  with es(2) have "own_entry H r e" by simp
  with e es(1) show ?thesis by (auto simp: ledger_holds_def read_ledger_entries_def)
qed

lemma ledger_error_None:
  assumes "ledger_error H cy now r ledger cf att ti = Inr None"
  shows "\<exists>ls tl_hash n. ledger = File ls \<and> ledger_holds H r ls
    \<and> scan_ledger H r genesis 0 False False ls = Inr (Some (tl_hash, n, True))
    \<and> (\<forall>c. cf = Some c \<longrightarrow> ledger_checkpoint_error H cy now r ls tl_hash n c att ti = Inr None)"
proof -
  from assms obtain ls where ls: "ledger = File ls"
    by (auto simp: ledger_error_def mismatch_def split: jfile.splits if_splits)
  with assms obtain tl_hash n where s: "scan_ledger H r genesis 0 False False ls = Inr (Some (tl_hash, n, True))"
    "(case cf of None \<Rightarrow> Inr None | Some c \<Rightarrow> ledger_checkpoint_error H cy now r ls tl_hash n c att ti) = Inr None"
    by (fastforce simp: ledger_error_def mismatch_def rbind_Inr_iff split: option.splits if_splits)
  from scan_holds [OF s(1)] s ls show ?thesis by (auto split: option.splits)
qed

lemma checkpoint_error_None:
  assumes "ledger_checkpoint_error H cy now r ls tl_hash n cf att ti = Inr None"
  shows "\<exists>c. cf = File c \<and> checkpoint_matches H r ls tl_hash n c = Inr True
    \<and> (ti_policy ti \<noteq> None \<longrightarrow> (\<exists>p a. ti_policy ti = Some (File p) \<and> att = Some (File a)
         \<and> verify_checkpoint_attestation H cy c a (ti_public_key ti) (Some p) now = Inr True))
    \<and> (ti_policy ti = None \<and> ti_public_key ti \<noteq> None \<longrightarrow> (\<exists>a. att = Some (File a)
         \<and> verify_checkpoint_attestation H cy c a (ti_public_key ti) None now = Inr True))"
  using assms
  by (auto simp: ledger_checkpoint_error_def attestation_error_def mismatch_def rbind_Inr_iff
      split: jfile.splits option.splits sum.splits if_splits)

lemma baseline_trusted_holds:
  assumes "baseline_receipt_trusted H cy now r fs policy = Inr True"
  shows "\<exists>ls c a p. lf_ledger fs = File ls \<and> ledger_holds H r ls \<and> policy = File p \<and> lf_checkpoint fs = File c
    \<and> lf_attestation fs = File a \<and> verify_checkpoint_attestation H cy c a None (Some p) now = Inr True"
proof -
  from assms obtain p c a where f: "policy = File p" "lf_checkpoint fs = File c" "lf_attestation fs = File a"
    by (auto simp: baseline_receipt_trusted_def split: jfile.splits if_splits)
  with assms obtain ls where ls: "lf_ledger fs = File ls"
    by (auto simp: baseline_receipt_trusted_def split: jfile.splits if_splits)
  from assms f ls obtain tl_hash n where s: "scan_ledger H r genesis 0 False False ls = Inr (Some (tl_hash, n, True))"
    and v: "verify_checkpoint_attestation H cy c a None (Some p) now = Inr True"
    by (fastforce simp: baseline_receipt_trusted_def rbind_Inr_iff split: option.splits if_splits sum.splits)
  from scan_holds [OF s] f ls v show ?thesis by blast
qed

end
