(* ===== verification/Report.thy ===== *)
theory Report
  imports Receipt
begin

text \<open>
  \<open>src/redline/report.py\<close>: the JSON report of a run, whose hash does not depend on the receipt's hash, and
  the summary of what was tested.
\<close>

definition opt_value :: "('a \<Rightarrow> pyval) \<Rightarrow> 'a option \<Rightarrow> pyval" where
  "opt_value f x = (case x of None \<Rightarrow> PNone | Some y \<Rightarrow> f y)"

text \<open>A JSON object; \<open>d[k] = v\<close> keeps the place of a key that is there.\<close>

type_synonym jobject = "(string \<times> json) list"

definition put_json :: "string \<Rightarrow> json \<Rightarrow> jobject \<Rightarrow> jobject" where
  "put_json k v js =
     (if k \<in> set (map fst js) then map (\<lambda>(k', v'). if k' = k then (k, v) else (k', v')) js else js @ [(k, v)])"

definition report_body ::
  "decision_envelope \<Rightarrow> receipt option \<Rightarrow> replay_trace list \<Rightarrow> proof_rec list \<Rightarrow> pyval" where
  "report_body env r traces ps =
     PDict
       [(''version'', PStr ''redline.report.v1''), (''envelope'', envelope_value env),
        (''receipt_hash'', opt_str (map_option rc_receipt_hash r)),
        (''strength_summary'', PStr (case r of None \<Rightarrow> '''' | Some x \<Rightarrow> rc_strength_summary x)),
        (''traces'', PList (map replay_trace_value traces)),
        (''proof_ids'', strs (map pf_proof_id ps)),
        (''proofs'', PList (map proof_value ps)),
        (''edit_provenance'', opt_value edit_provenance_value (map_option rc_edit_provenance r)),
        (''publish'', opt_value publish_info_value (map_option rc_publish r)),
        (''coverage_missing'', strs (cm_missing (case r of None \<Rightarrow> de_coverage env | Some x \<Rightarrow> rc_coverage x))),
        (''verification_level'', opt_str (map_option (\<lambda>x. ''replayed'') r))]"

definition to_report ::
  "(string \<Rightarrow> string) \<Rightarrow> decision_envelope \<Rightarrow> receipt option \<Rightarrow> replay_trace list \<Rightarrow> proof_rec list \<Rightarrow> exn + jobject" where
  "to_report H env r traces ps =
     rbind (normalize False (report_body env r traces (case r of None \<Rightarrow> ps | Some x \<Rightarrow> rc_proofs x))) (\<lambda>j.
       case j of
         JObj js \<Rightarrow> Inr (put_json ''report_hash'' (JStr (hash_json H (JObj (put_json ''receipt_hash'' JNull js)))) js)
       | _ \<Rightarrow> Inl TypeError)"

definition metrics :: "receipt \<Rightarrow> string list" where
  "metrics r =
     concat (map (\<lambda>p. map (\<lambda>a. as_metric a @ '' '' @ as_op a @ '' '' @ as_threshold a @ '' observed '' @ as_observed a)
       (pf_assertions p)) (rc_proofs r))"

definition render_strength_summary :: "receipt \<Rightarrow> string" where
  "render_strength_summary r =
     ''tested: '' @ join ''; '' (sorted_list_of_set (set (metrics r))) @ ''; ''
     @ nat_str (length (sui_scenarios (rc_suite r))) @ '' anchored scenarios''"

lemma unique_sorted_set: "unique_sorted xs = sorted_list_of_set (set xs)"
  by (rule sorted_distinct_set_unique) simp_all

lemma render_strength_summary_eq:
  "render_strength_summary r = strength_summary (rc_proofs r) (length (sui_scenarios (rc_suite r)))"
  by (simp add: render_strength_summary_def strength_summary_def metrics_def unique_sorted_set)

text \<open>The hash of a report, read from its member.\<close>

definition json_text :: "jobject \<Rightarrow> string \<Rightarrow> string option" where
  "json_text js k = (case map_of js k of Some (JStr s) \<Rightarrow> Some s | _ \<Rightarrow> None)"

lemma map_of_replace:
  "map_of (map (\<lambda>(k', v'). if k' = k then (k, v) else (k', v')) js) k' =
     (if k' = k then map_option (\<lambda>x. v) (map_of js k) else map_of js k')"
  by (induction js) auto

lemma map_of_put_json: "map_of (put_json k v js) k' = (if k' = k then Some v else map_of js k')"
proof (cases "k \<in> set (map fst js)")
  case True
  then obtain w where "map_of js k = Some w" by (metis list.set_map map_of_eq_None_iff not_None_eq)
  with True show ?thesis by (simp add: put_json_def map_of_replace)
next
  case False
  then have "map_of js k = None" by (simp add: map_of_eq_None_iff)
  with False show ?thesis by (auto simp: put_json_def map_add_def split: option.split)
qed

lemma to_report_Inr:
  assumes "to_report H env r traces ps = Inr js"
  shows "\<exists>j. normalize False (report_body env r traces (case r of None \<Rightarrow> ps | Some x \<Rightarrow> rc_proofs x)) = Inr (JObj j)
    \<and> js = put_json ''report_hash'' (JStr (hash_json H (JObj (put_json ''receipt_hash'' JNull j)))) j
    \<and> json_text js ''report_hash'' = Some (hash_json H (JObj (put_json ''receipt_hash'' JNull j)))"
proof -
  from assms obtain x where x: "normalize False (report_body env r traces (case r of None \<Rightarrow> ps | Some x \<Rightarrow> rc_proofs x)) = Inr x"
    "(case x of JObj js \<Rightarrow> Inr (put_json ''report_hash'' (JStr (hash_json H (JObj (put_json ''receipt_hash'' JNull js)))) js)
       | _ \<Rightarrow> Inl TypeError) = Inr js"
    by (auto simp: to_report_def rbind_Inr_iff simp del: normalize.simps)
  from x(2) obtain j where "x = JObj j" by (cases x) auto
  with x show ?thesis by (auto simp: json_text_def map_of_put_json)
qed

end
