(* ===== verification/Runner.thy ===== *)
theory Runner
  imports Ledger_Check Report Probes Engine
begin

text \<open>
  \<open>src/redline/runner.py\<close>: a run replays baseline and candidate over the suite, evaluates the probes, and
  turns the proofs into an envelope and a receipt. What a run reads from the outside is the record
  \<open>world\<close>: the files with the outcome of reading them, the directories of the package, the answers of
  the strategy worker, the registry of probes, and \<open>model_dump(mode="json")\<close> of a trace, which pydantic
  writes.
\<close>

section \<open>The outside\<close>

record role_dir =
  ro_tree :: "tree_entry list"
  ro_config :: config_file
  ro_source :: "exn + string"
  ro_worker :: "string \<Rightarrow> string \<Rightarrow> worker_outcome \<times> worker_outcome"

datatype probe_entry = Trusted | Untrusted | Unregistered

record world =
  wo_package :: tree
  wo_lock :: "playbook_identity_lock jfile"
  wo_role :: "string list \<Rightarrow> role_dir option"
  wo_spec :: "redline_spec jfile"
  wo_suite :: "suite jfile"
  wo_resolve :: "string \<Rightarrow> string"
  wo_rows :: "string \<Rightarrow> exn + csv_row list"
  wo_bytes :: "string \<Rightarrow> exn + string"
  wo_registry :: "probe_type \<Rightarrow> probe_entry"
  wo_trace_json :: "replay_trace \<Rightarrow> pyval"
  wo_engine_tree :: tree
  wo_uv_lock :: "string option"
  wo_runtime :: string
  wo_spec_path :: string
  wo_suite_path :: string
  wo_lock_path :: string
  wo_now :: int

text \<open>The arguments of \<open>run_redline\<close>; a baseline receipt comes with the files beside it.\<close>

record run_args =
  ra_baseline :: string
  ra_candidate :: string
  ra_edit_provenance :: "edit_provenance option"
  ra_baseline_receipt :: "(receipt jfile \<times> ledger_files) option"
  ra_trust_policy :: "trust_policy jfile option"
  ra_baseline_version_id :: "string option"
  ra_candidate_version_id :: "string option"

section \<open>Specification and suite\<close>

definition load_spec :: "redline_spec jfile \<Rightarrow> exn + redline_spec" where
  "load_spec f = rbind (read_json f) validate_redline_spec"

text \<open>\<open>row.get("timestamp", "")\<close> where it is a non-empty text.\<close>

definition row_stamps :: "csv_row list \<Rightarrow> string list" where
  "row_stamps rows =
     concat (map (\<lambda>r. case row_timestamp r of Cell s \<Rightarrow> if s = '''' then [] else [s] | _ \<Rightarrow> []) rows)"

record file_metadata =
  fm_hash :: string
  fm_bar_count :: int
  fm_period_start :: "string option"
  fm_period_end :: "string option"

definition scenario_file_metadata :: "(string \<Rightarrow> string) \<Rightarrow> world \<Rightarrow> string \<Rightarrow> exn + file_metadata" where
  "scenario_file_metadata H w path =
     rbind (wo_rows w path) (\<lambda>rows.
     rbind (wo_bytes w path) (\<lambda>bytes.
       let ts = row_stamps rows
       in Inr \<lparr> fm_hash = hash_file H bytes, fm_bar_count = int (length rows),
                fm_period_start = (if ts = [] then None else Some (hd ts)),
                fm_period_end = (if ts = [] then None else Some (last ts)) \<rparr>))"

definition with_metadata :: "file_metadata \<Rightarrow> scenario \<Rightarrow> scenario" where
  "with_metadata m s =
     s\<lparr> sc_data_hash := Some (fm_hash m), sc_source_file_hash := Some (fm_hash m), sc_bar_count := Some (fm_bar_count m),
        sc_period_start := fm_period_start m, sc_period_end := fm_period_end m \<rparr>"

definition is_absolute :: "string \<Rightarrow> bool" where
  "is_absolute p = startswith p ''/''"

text \<open>One scenario with its metadata, and its resolved path.\<close>

definition load_scenario :: "(string \<Rightarrow> string) \<Rightarrow> world \<Rightarrow> scenario \<Rightarrow> exn + (scenario \<times> string)" where
  "load_scenario H w s =
     (let path = (if is_absolute (sc_path s) then sc_path s else wo_resolve w (sc_path s))
      in rbind (scenario_file_metadata H w path) (\<lambda>m.
           if sc_source_file_hash s \<noteq> None \<and> sc_source_file_hash s \<noteq> Some (fm_hash m) then Inl ValueError
           else Inr (with_metadata m s, path)))"

text \<open>The members of a dict: \<open>model_dump(mode="json")\<close> keeps what is \<open>None\<close>.\<close>

definition scenario_dump :: "scenario \<Rightarrow> pyval" where
  "scenario_dump s = (case scenario_value s of PModel kvs \<Rightarrow> PDict kvs | v \<Rightarrow> v)"

definition lock_payload :: "string \<Rightarrow> scenario list \<Rightarrow> pyval" where
  "lock_payload suite_id scenarios =
     PDict [(''version'', PStr ''redline.suite.v2''), (''suite_id'', PStr suite_id),
            (''scenarios'', PList (map scenario_dump scenarios)), (''suite_lock_hash'', PNone)]"

definition load_suite :: "(string \<Rightarrow> string) \<Rightarrow> world \<Rightarrow> suite jfile \<Rightarrow> exn + suite" where
  "load_suite H w f =
     rbind (rbind (read_json f) validate_suite) (\<lambda>s.
     rbind (traverse (load_scenario H w) (su_scenarios s)) (\<lambda>loaded.
     rbind (hash_obj H True (lock_payload (su_suite_id s) (map fst loaded))) (\<lambda>h.
       if su_suite_lock_hash s \<noteq> None \<and> su_suite_lock_hash s \<noteq> Some h then Inl ValueError
       else Inr (s\<lparr> su_suite_lock_hash := Some h,
                    su_scenarios := map (\<lambda>(sc, path). sc\<lparr> sc_path := path \<rparr>) loaded \<rparr>))))"

definition scenario_probe :: "probe_type \<Rightarrow> bool" where
  "scenario_probe t = (t \<in> {PT_NO_ENTRY_WHEN, PT_UNAUTHORIZED_ORDER, PT_SKIP_CONFIRM, PT_BLIND_RETRY})"

definition validate_spec_suite_bindings :: "redline_spec \<Rightarrow> suite \<Rightarrow> exn + unit" where
  "validate_spec_suite_bindings spec s =
     (let ids = map sc_id (su_scenarios s);
          named = map (\<lambda>p. case map_of (ps_params p) ''scenario_id'' of None \<Rightarrow> ''None'' | Some i \<Rightarrow> i)
                    (filter (\<lambda>p. scenario_probe (ps_type p)) (rs_probes spec))
      in if unique_sorted (filter (\<lambda>i. i \<notin> set ids) named) \<noteq> [] then Inl ValueError else Inr ())"

definition resolve_package_role_dir :: "world \<Rightarrow> string \<Rightarrow> exn + role_dir" where
  "resolve_package_role_dir w rl =
     (if rl = '''' \<or> is_absolute rl \<or> ''..'' \<in> set (path_parts rl) then Inl ValueError
      else case wo_role w (path_parts rl) of None \<Rightarrow> Inl ValueError | Some d \<Rightarrow> Inr d)"

text \<open>\<open>parse_run_inputs\<close>: file errors become \<open>ValueError\<close>; the other errors are \<open>ValueError\<close> already or pass.\<close>

definition parse_run_inputs :: "(string \<Rightarrow> string) \<Rightarrow> world \<Rightarrow> exn + unit" where
  "parse_run_inputs H w =
     (case rbind (load_suite H w (wo_suite w)) (\<lambda>s. rbind (load_spec (wo_spec w)) (\<lambda>spec.
              validate_spec_suite_bindings spec s)) of
        Inl e \<Rightarrow> Inl (if is_file_error e then ValueError else e)
      | Inr _ \<Rightarrow> if wo_package w = Tree_Missing then Inl ValueError else Inr ())"

section \<open>The baseline's own receipt\<close>

definition unchained :: "string option \<Rightarrow> chain_status \<times> string option \<times> reason_code option" where
  "unchained h = (CS_UNCHAINED, h, Some RC_BASELINE_UNCHAINED)"

definition baseline_chain ::
  "(string \<Rightarrow> string) \<Rightarrow> crypto \<Rightarrow> int \<Rightarrow> string \<Rightarrow> (receipt jfile \<times> ledger_files) option \<Rightarrow> trust_policy jfile option \<Rightarrow>
   exn + chain_status \<times> string option \<times> reason_code option" where
  "baseline_chain H cy now baseline_hash br policy =
     (case br of
        None \<Rightarrow> Inr (CS_GENESIS, None, None)
      | Some (f, fs) \<Rightarrow>
          (case read_json f of
             Inl e \<Rightarrow> Inr (unchained None)
           | Inr r \<Rightarrow>
               rbind (compute_receipt_hash H r) (\<lambda>h.
                 if h \<noteq> rc_receipt_hash r then Inr (unchained None)
                 else if re_status (rc_result r) \<noteq> St_PASS then Inr (unchained (Some (rc_receipt_hash r)))
                 else if ci_package_hash (rc_candidate r) \<noteq> baseline_hash then Inr (unchained (Some (rc_receipt_hash r)))
                 else (case policy of
                         None \<Rightarrow> Inr (unchained (Some (rc_receipt_hash r)))
                       | Some p \<Rightarrow>
                           rbind (baseline_receipt_trusted H cy now r fs p) (\<lambda>ok.
                             if ok then Inr (CS_CHAINED, Some (rc_receipt_hash r), None)
                             else Inr (unchained (Some (rc_receipt_hash r))))))))"

section \<open>Proofs\<close>

record proof_args =
  pa_kind :: proof_kind
  pa_phase :: string
  pa_inputs :: pyval
  pa_artifact :: pyval
  pa_verdict_bearing :: bool
  pa_assertions :: "assertion list"
  pa_meta :: "(string \<times> pyval) list"
  pa_replay_flags :: bool

text \<open>Only the replay proof has the three flags of the fill model.\<close>

definition simple_proof ::
  "(string \<Rightarrow> string) \<Rightarrow> bool \<Rightarrow> bool \<Rightarrow> proof_args \<Rightarrow> exn + proof_rec" where
  "simple_proof H with_baseline with_policy a =
     rbind (hash_obj H True (pa_inputs a)) (\<lambda>ih.
     rbind (hash_obj H True (pa_artifact a)) (\<lambda>ah.
       let pid = ''proof:'' @ kind_value (pa_kind a) @ '':'' @ take 24 (removeprefix ah ''sha256:'')
       in Inr \<lparr> pf_proof_id = pid, pf_phase = pa_phase a, pf_kind = pa_kind a,
                pf_verdict_bearing = pa_verdict_bearing a, pf_inputs_hash = ih, pf_artifact_hash = ah,
                pf_assertions = pa_assertions a,
                pf_reproduce = Some (make_verify_proof_reproduce pid with_baseline with_policy False),
                pf_fill_model = (if pa_replay_flags a then Some ''next_bar_open'' else None),
                pf_lookahead_guard = (if pa_replay_flags a then Some ''structural_next_bar'' else None),
                pf_fees_modeled = (if pa_replay_flags a then Some True else None), pf_meta = pa_meta a \<rparr>))"

definition plain_args :: "proof_kind \<Rightarrow> string \<Rightarrow> pyval \<Rightarrow> pyval \<Rightarrow> proof_args" where
  "plain_args k phase inputs artifact =
     \<lparr> pa_kind = k, pa_phase = phase, pa_inputs = inputs, pa_artifact = artifact, pa_verdict_bearing = True,
       pa_assertions = [], pa_meta = [], pa_replay_flags = False \<rparr>"

definition wellformed_assertions :: "replay_trace list \<Rightarrow> assertion list" where
  "wellformed_assertions traces =
     map (\<lambda>t. \<lparr> as_metric = ''replay_wellformed'', as_op = ''=='', as_threshold = int_str (rt_bars t),
                as_observed = nat_str (length (rt_points t)), as_scenario_id = rt_scenario_id t,
                as_bar = (if rt_points t = [] then 0 else pt_bar (last (rt_points t))),
                as_holds = (rt_bars t = int (length (rt_points t)) \<and> 0 < rt_bars t) \<rparr>) traces"

definition candidate_absolute_assertions :: "assertion list \<Rightarrow> assertion list" where
  "candidate_absolute_assertions as = filter (\<lambda>a. as_metric a = ''max_drawdown'' \<or> as_metric a = ''trade_budget'') as"

definition assertions_payload :: "assertion list \<Rightarrow> pyval" where
  "assertions_payload as = PDict [(''assertions'', PList (map assertion_value as))]"

section \<open>Replay\<close>

definition spec_replay_config :: "redline_spec \<Rightarrow> config" where
  "spec_replay_config spec =
     [(''fill_model'', PStr ''next_bar_open''), (''fee_bps'', PStr (rs_fee_bps spec)),
      (''slippage_bps'', PStr (rs_slippage_bps spec))]"

definition replay_role :: "(string \<Rightarrow> string) \<Rightarrow> world \<Rightarrow> redline_spec \<Rightarrow> role_dir \<Rightarrow> string \<Rightarrow> scenario \<Rightarrow> exn + replay_trace" where
  "replay_role H w spec d rl s =
     replay H (sc_id s) rl (wo_rows w (sc_path s)) (ro_config d) (Some (spec_replay_config spec)) (ro_source d)
       (fst (ro_worker d (sc_id s) rl)) (snd (ro_worker d (sc_id s) rl))"

text \<open>The traces of all scenarios; a \<open>ReplayEngineError\<close> ends the loop, keeps what was replayed and gives the
  reason.\<close>

fun replay_all ::
  "(string \<Rightarrow> string) \<Rightarrow> world \<Rightarrow> redline_spec \<Rightarrow> role_dir \<Rightarrow> role_dir \<Rightarrow> scenario list \<Rightarrow>
   exn + (replay_trace list \<times> reason_code option)" where
  "replay_all H w spec b c [] = Inr ([], None)"
| "replay_all H w spec b c (s # ss) =
     (case replay_role H w spec b ''baseline'' s of
        Inl (ReplayEngineError r) \<Rightarrow> Inr ([], Some r)
      | Inl e \<Rightarrow> Inl e
      | Inr tb \<Rightarrow>
          (case replay_role H w spec c ''candidate'' s of
             Inl (ReplayEngineError r) \<Rightarrow> Inr ([tb], Some r)
           | Inl e \<Rightarrow> Inl e
           | Inr tc \<Rightarrow> rbind (replay_all H w spec b c ss) (\<lambda>(ts, r). Inr (tb # tc # ts, r))))"

text \<open>\<open>{(trace.scenario_id, trace.role): trace}\<close>; later traces win.\<close>

definition trace_of :: "replay_trace list \<Rightarrow> string \<Rightarrow> string \<Rightarrow> replay_trace option" where
  "trace_of traces i rl = map_of (rev (map (\<lambda>t. ((rt_scenario_id t, rt_role t), t)) traces)) (i, rl)"

section \<open>Probing\<close>

record probing =
  pb_proofs :: "proof_rec list"
  pb_cells :: "(string \<times> string) list"
  pb_missing :: "string list"
  pb_baseline :: "assertion list"
  pb_candidate :: "assertion list"
  pb_reject :: "reason_code option"

definition cell_text :: "string \<Rightarrow> string \<Rightarrow> string \<Rightarrow> string" where
  "cell_text s p what = s @ '':'' @ p @ '':'' @ what"

definition add_missing :: "string \<Rightarrow> string \<Rightarrow> string \<Rightarrow> probing \<Rightarrow> probing" where
  "add_missing s p what st = st\<lparr> pb_missing := pb_missing st @ [cell_text s p what] \<rparr>"

text \<open>The end of a round, when both evaluations returned.\<close>

definition record_results ::
  "(proof_args \<Rightarrow> exn + proof_rec) \<Rightarrow> string \<Rightarrow> probe_spec \<Rightarrow> probe_result \<Rightarrow> probe_result \<Rightarrow> probing \<Rightarrow> exn + probing" where
  "record_results mk s p rb rcand st =
     (let st1 = (if ps_block p \<and> (pr_outcome rb = PO_ERRORED \<or> pr_outcome rcand = PO_ERRORED)
                 then add_missing s (ps_id p) ''errored'' st else st)
      in if ps_block p \<and> list_ex (\<lambda>a. \<not> as_holds a) (pr_assertions rb)
         then Inr ((add_missing s (ps_id p) ''baseline_breach'' st1)\<lparr> pb_reject := Some RC_BASELINE_BREACHES \<rparr>)
         else
           (let st2 = (if ps_block p
                       then st1\<lparr> pb_baseline := pb_baseline st1 @ pr_assertions rb,
                                 pb_candidate := pb_candidate st1 @ pr_assertions rcand \<rparr>
                       else st1)
            in rbind (mk \<lparr> pa_kind = PK_PROBE, pa_phase = ''probe'',
                           pa_inputs = PDict [(''scenario'', PStr s), (''probe'', PStr (ps_id p))],
                           pa_artifact = PDict [(''baseline'', probe_result_value rb),
                                                (''candidate'', probe_result_value rcand)],
                           pa_verdict_bearing = ps_block p, pa_assertions = pr_assertions rcand,
                           pa_meta = [(''scenario_id'', PStr s), (''probe_id'', PStr (ps_id p))],
                           pa_replay_flags = False \<rparr>) (\<lambda>pf.
                 Inr (st2\<lparr> pb_proofs := pb_proofs st2 @ [pf] \<rparr>))))"

definition probe_round ::
  "(proof_args \<Rightarrow> exn + proof_rec) \<Rightarrow> (probe_type \<Rightarrow> probe_entry) \<Rightarrow> string \<Rightarrow> replay_trace \<Rightarrow> replay_trace \<Rightarrow>
   probe_spec \<Rightarrow> probing \<Rightarrow> exn + probing" where
  "probe_round mk registry s tb tc p st =
     (let st0 = (if ps_block p then st\<lparr> pb_cells := pb_cells st @ [(s, ps_id p)] \<rparr> else st)
      in case registry (ps_type p) of
           Unregistered \<Rightarrow> Inr (add_missing s (ps_id p) ''errored'' st0)
         | Untrusted \<Rightarrow>
             Inr ((add_missing s (ps_id p) ''untrusted_probe'' st0)\<lparr> pb_reject := Some RC_VERDICT_PATH_VIOLATION \<rparr>)
         | Trusted \<Rightarrow>
             (case (evaluate_probe (ps_type p) tb (ps_params p), evaluate_probe (ps_type p) tc (ps_params p)) of
                (Inr rb, Inr rcand) \<Rightarrow> record_results mk s p rb rcand st0
              | _ \<Rightarrow> Inr (add_missing s (ps_id p) ''errored'' st0)))"

fun run_probes ::
  "(proof_args \<Rightarrow> exn + proof_rec) \<Rightarrow> (probe_type \<Rightarrow> probe_entry) \<Rightarrow> string \<Rightarrow> replay_trace \<Rightarrow> replay_trace \<Rightarrow>
   probe_spec list \<Rightarrow> probing \<Rightarrow> exn + probing" where
  "run_probes mk registry s tb tc [] st = Inr st"
| "run_probes mk registry s tb tc (p # ps) st =
     rbind (probe_round mk registry s tb tc p st) (\<lambda>st1.
       if pb_reject st1 \<noteq> None then Inr st1 else run_probes mk registry s tb tc ps st1)"

fun probe_scenarios ::
  "(proof_args \<Rightarrow> exn + proof_rec) \<Rightarrow> (probe_type \<Rightarrow> probe_entry) \<Rightarrow> replay_trace list \<Rightarrow> probe_spec list \<Rightarrow>
   scenario list \<Rightarrow> probing \<Rightarrow> exn + probing" where
  "probe_scenarios mk registry traces ps [] st = Inr st"
| "probe_scenarios mk registry traces ps (s # ss) st =
     (if pb_reject st \<noteq> None then Inr st
      else case (trace_of traces (sc_id s) ''baseline'', trace_of traces (sc_id s) ''candidate'') of
             (Some tb, Some tc) \<Rightarrow>
               rbind (run_probes mk registry (sc_id s) tb tc ps st) (probe_scenarios mk registry traces ps ss)
           | _ \<Rightarrow> Inl KeyError)"

section \<open>The proofs of a replayed run\<close>

record run_facts =
  rf_package_hash :: string
  rf_baseline_hash :: string
  rf_candidate_hash :: string
  rf_lock :: "playbook_identity_lock option"
  rf_diff_hash :: string
  rf_provenance :: edit_provenance
  rf_spec_hash :: string

text \<open>The three proofs every run starts with.\<close>

definition first_proofs ::
  "(proof_args \<Rightarrow> exn + proof_rec) \<Rightarrow> run_args \<Rightarrow> redline_spec \<Rightarrow> run_facts \<Rightarrow> exn + proof_rec list" where
  "first_proofs mk a spec f =
     traverse mk
       [plain_args PK_PACKAGE_CANONICAL ''import''
          (PDict [(''package'', PStr ''playbook''), (''baseline_role'', PStr (ra_baseline a)),
                  (''candidate_role'', PStr (ra_candidate a))])
          (PDict [(''package_hash'', PStr (rf_package_hash f)), (''baseline_hash'', PStr (rf_baseline_hash f)),
                  (''candidate_hash'', PStr (rf_candidate_hash f)),
                  (''adapter_id'', PStr (if rf_lock f = None then ''missing'' else PLAYBOOK_ADAPTER_ID)),
                  (''identity_lock_hash'',
                   PStr (case rf_lock f of None \<Rightarrow> ''missing'' | Some l \<Rightarrow> pil_lock_hash l))]),
        (plain_args PK_EDIT_PROVENANCE ''capture-edit''
          (PDict [(''baseline_hash'', PStr (rf_baseline_hash f)), (''candidate_hash'', PStr (rf_candidate_hash f))])
          (edit_provenance_value (rf_provenance f)))
          \<lparr> pa_verdict_bearing := False,
            pa_meta := [(''expected_diff_hash'', PStr (rf_diff_hash f)), (''binding'', PStr ''package_pair'')] \<rparr>,
        (plain_args PK_SPEC_COMPILE ''compile''
          (PDict [(''spec_id'', PStr (rs_spec_id spec)), (''compiler'', PStr (rs_compiler spec))])
          (redline_spec_value spec))
          \<lparr> pa_meta :=
              [(''compiler'', PStr (rs_compiler spec)), (''model'', PStr (or_text (rs_model spec) '''')),
               (''tool_schema_hash'', PStr (or_text (rs_tool_schema_hash spec) '''')),
               (''degraded'', PStr (if rs_compiler spec \<noteq> ''qwen'' then ''true'' else ''false'')),
               (''degraded_reason'', PStr (or_text (rs_degraded_reason spec) ''''))] \<rparr>]"

definition replay_proofs ::
  "(proof_args \<Rightarrow> exn + proof_rec) \<Rightarrow> world \<Rightarrow> run_facts \<Rightarrow> suite \<Rightarrow> replay_trace list \<Rightarrow> exn + proof_rec list" where
  "replay_proofs mk w f s traces =
     traverse mk
       [(plain_args PK_REPLAY ''run''
          (PDict [(''suite'', PStr (su_suite_id s)), (''baseline'', PStr (rf_baseline_hash f)),
                  (''candidate'', PStr (rf_candidate_hash f))])
          (PList (map (wo_trace_json w) traces)))\<lparr> pa_replay_flags := True \<rparr>,
        (plain_args PK_REPLAY_WELLFORMED ''run''
          (PDict [(''trace_hashes'', strs (map rt_artifact_hash traces))])
          (assertions_payload (wellformed_assertions traces)))
          \<lparr> pa_assertions := wellformed_assertions traces \<rparr>]"

definition closing_proofs ::
  "(proof_args \<Rightarrow> exn + proof_rec) \<Rightarrow> run_facts \<Rightarrow> redline_spec \<Rightarrow> suite \<Rightarrow> coverage_manifest \<Rightarrow> probing \<Rightarrow>
   exn + proof_rec list" where
  "closing_proofs mk f spec s cov st =
     traverse mk
       [plain_args PK_COVERAGE ''decide''
          (PDict [(''suite'', PStr (su_suite_id s)), (''spec'', PStr (rs_spec_id spec))]) (coverage_value cov),
        (plain_args PK_BASELINE_CALIBRATION ''calibrate''
          (PDict [(''baseline_hash'', PStr (rf_baseline_hash f)), (''suite'', PStr (su_suite_id s))])
          (PDict [(''baseline'', PStr (rf_baseline_hash f)), (''suite'', PStr (su_suite_id s))]))
          \<lparr> pa_assertions := pb_baseline st \<rparr>,
        (plain_args PK_CANDIDATE_ABSOLUTE ''probe'' (PDict [(''candidate_hash'', PStr (rf_candidate_hash f))])
          (assertions_payload (candidate_absolute_assertions (pb_candidate st))))
          \<lparr> pa_assertions := candidate_absolute_assertions (pb_candidate st) \<rparr>]"

text \<open>Proofs, coverage and reject reason of a run whose replay gave \<open>traces\<close>.\<close>

definition examine ::
  "(proof_args \<Rightarrow> exn + proof_rec) \<Rightarrow> world \<Rightarrow> run_facts \<Rightarrow> redline_spec \<Rightarrow> suite \<Rightarrow> proof_rec list \<Rightarrow>
   replay_trace list \<Rightarrow> reason_code option \<Rightarrow>
   exn + proof_rec list \<times> coverage_manifest \<times> reason_code option" where
  "examine mk w f spec s ps traces reject =
     (case reject of
        Some r \<Rightarrow> rbind (make_coverage [] False [reason_value r]) (\<lambda>cov. Inr (ps, cov, Some r))
      | None \<Rightarrow>
          rbind (replay_proofs mk w f s traces) (\<lambda>rps.
          rbind (probe_scenarios mk (wo_registry w) traces (rs_probes spec) (su_scenarios s)
                   \<lparr> pb_proofs = ps @ rps, pb_cells = [], pb_missing = [], pb_baseline = [], pb_candidate = [],
                     pb_reject = None \<rparr>) (\<lambda>st.
            case pb_reject st of
              Some r \<Rightarrow>
                rbind (make_coverage (pb_cells st) False (unique_sorted (reason_value r # pb_missing st))) (\<lambda>cov.
                  Inr (pb_proofs st, cov, Some r))
            | None \<Rightarrow>
                rbind (make_coverage (pb_cells st) (pb_missing st = []) (pb_missing st)) (\<lambda>cov.
                rbind (closing_proofs mk f spec s cov st) (\<lambda>cps. Inr (pb_proofs st @ cps, cov, None))))))"

section \<open>The run\<close>

record run_artifacts =
  rx_envelope :: decision_envelope
  rx_receipt :: "receipt option"
  rx_proofs :: "proof_rec list"
  rx_traces :: "replay_trace list"
  rx_report :: jobject

definition runner_lock_hash :: "(string \<Rightarrow> string) \<Rightarrow> world \<Rightarrow> string \<Rightarrow> exn + string" where
  "runner_lock_hash H w engine_hash =
     hash_obj H True
       (PDict [(''engine'', PStr ''redline-deterministic-runner.v1''), (''engine_source_tree_hash'', PStr engine_hash),
               (''python_runtime'', PStr (wo_runtime w)),
               (''uv_lock_hash'', opt_str (map_option (hash_file H) (wo_uv_lock w)))])"

text \<open>What \<open>run_redline\<close> reads and hashes before it builds proofs.\<close>

record run_inputs =
  rn_baseline_dir :: role_dir
  rn_candidate_dir :: role_dir
  rn_spec :: redline_spec
  rn_suite :: suite
  rn_facts :: run_facts
  rn_lock_error :: "reason_code option"
  rn_chain :: "chain_status \<times> string option \<times> reason_code option"

definition package_lock ::
  "(string \<Rightarrow> string) \<Rightarrow> world \<Rightarrow> exn + (playbook_identity_lock option \<times> reason_code option)" where
  "package_lock H w =
     (case load_identity_lock H (case wo_package w of Tree fs \<Rightarrow> fs | _ \<Rightarrow> []) (wo_lock w) of
        Inl (CanonicalizationError _) \<Rightarrow> Inr (None, Some RC_RECEIPT_BINDING_FAILED)
      | Inl e \<Rightarrow> Inl e
      | Inr l \<Rightarrow> Inr (Some l, None))"

definition diff_payload :: "string \<Rightarrow> string \<Rightarrow> pyval" where
  "diff_payload b c = PDict [(''baseline'', PStr b), (''candidate'', PStr c)]"

definition effective_provenance :: "(string \<Rightarrow> string) \<Rightarrow> run_args \<Rightarrow> string \<Rightarrow> edit_provenance" where
  "effective_provenance H a diff =
     (case ra_edit_provenance a of
        Some e \<Rightarrow> e
      | None \<Rightarrow>
          \<lparr> ep_tool = ''fixture'',
            ep_prompt_digest = hash_json H (JObj [(''prompt'', JStr ''fixture make it more responsive'')]),
            ep_diff_hash = diff, ep_locked_by = ''author'', ep_captured_at = DEFAULT_EDIT_PROVENANCE_CAPTURED_AT \<rparr>)"

definition read_inputs :: "(string \<Rightarrow> string) \<Rightarrow> crypto \<Rightarrow> world \<Rightarrow> run_args \<Rightarrow> exn + run_inputs" where
  "read_inputs H cy w a =
     rbind (resolve_package_role_dir w (ra_baseline a)) (\<lambda>bd.
     rbind (resolve_package_role_dir w (ra_candidate a)) (\<lambda>cd.
     rbind (load_spec (wo_spec w)) (\<lambda>spec.
     rbind (load_suite H w (wo_suite w)) (\<lambda>s.
     rbind (validate_spec_suite_bindings spec s) (\<lambda>_.
     rbind (hash_obj H True (redline_spec_value spec)) (\<lambda>spec_hash.
     rbind (hash_tree H (wo_package w)) (\<lambda>package_hash.
     rbind (package_lock H w) (\<lambda>(lock, lock_error).
     rbind (hash_tree H (Tree (ro_tree bd))) (\<lambda>bh.
     rbind (hash_tree H (Tree (ro_tree cd))) (\<lambda>ch.
     rbind (hash_obj H True (diff_payload bh ch)) (\<lambda>diff.
     rbind (baseline_chain H cy (wo_now w) bh (ra_baseline_receipt a) (ra_trust_policy a)) (\<lambda>chain.
       Inr \<lparr> rn_baseline_dir = bd, rn_candidate_dir = cd, rn_spec = spec, rn_suite = s,
             rn_facts = \<lparr> rf_package_hash = package_hash, rf_baseline_hash = bh, rf_candidate_hash = ch,
                          rf_lock = lock, rf_diff_hash = diff, rf_provenance = effective_provenance H a diff,
                          rf_spec_hash = spec_hash \<rparr>,
             rn_lock_error = lock_error, rn_chain = chain \<rparr>))))))))))))"

definition first_reject :: "run_inputs \<Rightarrow> reason_code option" where
  "first_reject i =
     (if ep_diff_hash (rf_provenance (rn_facts i)) \<noteq> rf_diff_hash (rn_facts i) then Some RC_RECEIPT_BINDING_FAILED
      else case rn_lock_error i of Some r \<Rightarrow> Some r | None \<Rightarrow> snd (snd (rn_chain i)))"

definition chained :: "run_inputs \<Rightarrow> bool" where
  "chained i = (fst (rn_chain i) = CS_CHAINED)"

definition with_policy :: "run_args \<Rightarrow> run_inputs \<Rightarrow> bool" where
  "with_policy a i = (chained i \<and> ra_trust_policy a \<noteq> None)"

definition qwen_compile :: "redline_spec \<Rightarrow> capability" where
  "qwen_compile spec =
     \<lparr> cap_mode = rs_compiler spec, cap_degraded = (rs_compiler spec \<noteq> ''qwen''),
       cap_reason =
         (case rs_degraded_reason spec of
            Some r \<Rightarrow> if r \<noteq> '''' then Some r else if rs_compiler spec \<noteq> ''qwen'' then Some ''qwen_not_used'' else None
          | None \<Rightarrow> if rs_compiler spec \<noteq> ''qwen'' then Some ''qwen_not_used'' else None) \<rparr>"

definition issue_args_of :: "world \<Rightarrow> run_args \<Rightarrow> run_inputs \<Rightarrow> string \<Rightarrow> string \<Rightarrow> string \<Rightarrow> issue_args" where
  "issue_args_of w a i suite_lock engine_hash lock_hash =
     (let f = rn_facts i; spec = rn_spec i; s = rn_suite i
      in \<lparr> ia_package_hash = rf_package_hash f,
           ia_prev_receipt_hash =
             (if chained i then (case fst (snd (rn_chain i)) of Some h \<Rightarrow> h | None \<Rightarrow> genesis) else genesis),
           ia_baseline_name = ra_baseline a, ia_baseline_hash = rf_baseline_hash f,
           ia_baseline_receipt_hash = fst (snd (rn_chain i)),
           ia_baseline_version_id = or_text (ra_baseline_version_id a) (''fixture:'' @ ra_baseline a),
           ia_candidate_name = ra_candidate a, ia_candidate_hash = rf_candidate_hash f,
           ia_candidate_version_id = or_text (ra_candidate_version_id a) (''fixture:'' @ ra_candidate a),
           ia_spec = \<lparr> si_spec_hash = rf_spec_hash f, si_source_path = wo_spec_path w, si_compiler = rs_compiler spec,
                       si_model = rs_model spec, si_tool_schema_hash = rs_tool_schema_hash spec,
                       si_degraded_reason = rs_degraded_reason spec \<rparr>,
           ia_suite = \<lparr> sui_suite_id = su_suite_id s, sui_scenarios = map sc_id (su_scenarios s),
                        sui_suite_lock_hash = suite_lock, sui_source_path = wo_suite_path w \<rparr>,
           ia_engine_source_tree_hash = engine_hash, ia_runner_lock_hash = lock_hash,
           ia_package_adapter_id = (if rf_lock f = None then ''missing'' else PLAYBOOK_ADAPTER_ID),
           ia_package_identity_lock_hash = (case rf_lock f of None \<Rightarrow> ''missing'' | Some l \<Rightarrow> pil_lock_hash l),
           ia_package_identity_lock_path = wo_lock_path w, ia_report_hash = ''sha256:pending'',
           ia_edit_provenance = Some (rf_provenance f), ia_include_baseline_receipt = chained i,
           ia_include_trust_policy = with_policy a i \<rparr>)"

text \<open>The receipt with the report's hash in it and its own hash computed anew, and the final report.\<close>

definition seal_receipt ::
  "(string \<Rightarrow> string) \<Rightarrow> decision_envelope \<Rightarrow> receipt \<Rightarrow> replay_trace list \<Rightarrow> proof_rec list \<Rightarrow> exn + (receipt \<times> jobject)" where
  "seal_receipt H env r traces ps =
     rbind (to_report H env (Some r) traces ps) (\<lambda>js.
       let r1 = r\<lparr> rc_report := (rc_report r)\<lparr> rpi_report_hash := (case json_text js ''report_hash'' of Some h \<Rightarrow> h | None \<Rightarrow> '''') \<rparr> \<rparr>
       in rbind (compute_receipt_hash H r1) (\<lambda>h.
          rbind (to_report H env (Some (r1\<lparr> rc_receipt_hash := h \<rparr>)) traces ps) (\<lambda>js'.
            Inr (r1\<lparr> rc_receipt_hash := h \<rparr>, js'))))"

definition finish_run ::
  "(string \<Rightarrow> string) \<Rightarrow> world \<Rightarrow> run_args \<Rightarrow> run_inputs \<Rightarrow> replay_trace list \<Rightarrow>
   proof_rec list \<times> coverage_manifest \<times> reason_code option \<Rightarrow> exn + run_artifacts" where
  "finish_run H w a i traces found =
     (case found of (ps, cov, reject) \<Rightarrow>
        rbind (decide H REQUIRED_PROOFS ps cov
                 \<lparr> dc_suite_id = su_suite_id (rn_suite i), dc_spec_hash = rf_spec_hash (rn_facts i),
                   dc_chain_status = fst (rn_chain i), dc_reject_reason = reject \<rparr>) (\<lambda>env0.
        let env = env0\<lparr> de_capabilities := (de_capabilities env0)\<lparr> cps_qwen_compile := qwen_compile (rn_spec i) \<rparr> \<rparr>
        in rbind (hash_tree H (wo_engine_tree w)) (\<lambda>engine_hash.
           rbind (runner_lock_hash H w engine_hash) (\<lambda>lock_hash.
           rbind (case su_suite_lock_hash (rn_suite i) of
                    Some h \<Rightarrow> if h = '''' then hash_obj H True (suite_value (rn_suite i)) else Inr h
                  | None \<Rightarrow> hash_obj H True (suite_value (rn_suite i))) (\<lambda>suite_lock.
           rbind (issue_receipt H env ps cov (issue_args_of w a i suite_lock engine_hash lock_hash)) (\<lambda>issued.
             case issued of
               None \<Rightarrow>
                 rbind (make_decision_proof H env ps (chained i) (with_policy a i) True) (\<lambda>dp.
                 rbind (to_report H env None traces (with_decision ps dp)) (\<lambda>js.
                   Inr \<lparr> rx_envelope = env, rx_receipt = None, rx_proofs = with_decision ps dp, rx_traces = traces,
                         rx_report = js \<rparr>))
             | Some r \<Rightarrow>
                 rbind (seal_receipt H env r traces ps) (\<lambda>(r', js).
                   Inr \<lparr> rx_envelope = env, rx_receipt = Some r', rx_proofs = ps, rx_traces = traces,
                         rx_report = js \<rparr>)))))))"

definition run_redline :: "(string \<Rightarrow> string) \<Rightarrow> crypto \<Rightarrow> world \<Rightarrow> run_args \<Rightarrow> exn + run_artifacts" where
  "run_redline H cy w a =
     rbind (read_inputs H cy w a) (\<lambda>i.
       let mk = simple_proof H (chained i) (with_policy a i)
       in rbind (first_proofs mk a (rn_spec i) (rn_facts i)) (\<lambda>ps.
          rbind (if first_reject i = None
                 then replay_all H w (rn_spec i) (rn_baseline_dir i) (rn_candidate_dir i) (su_scenarios (rn_suite i))
                 else Inr ([], first_reject i)) (\<lambda>(traces, reject).
          rbind (examine mk w (rn_facts i) (rn_spec i) (rn_suite i) ps traces reject)
            (finish_run H w a i traces))))"

section \<open>What a pass means\<close>

lemma evaluate_probe_shape:
  "evaluate_probe t tr ps = Inr r \<Longrightarrow> (\<exists>a. r = probe_outcome_of a) \<or> (\<exists>m s. r = pass_result m s)"
  by (cases t)
     (fastforce simp: evaluate_probe_def max_drawdown_probe_def trade_budget_probe_def no_entry_when_probe_def
       unauthorized_order_probe_def skip_confirm_probe_def blind_retry_probe_def rbind_Inr_iff Let_def split_beta
       simp del: max_by_None split: option.splits if_splits)+

lemma evaluate_probe_pass:
  "evaluate_probe t tr ps = Inr r \<Longrightarrow> pr_outcome r = PO_PASS \<longleftrightarrow> list_all as_holds (pr_assertions r)"
  by (drule evaluate_probe_shape) (auto simp: probe_outcome_of_def pass_result_def split: if_splits)

definition probed :: "replay_trace \<Rightarrow> replay_trace \<Rightarrow> proof_rec set \<Rightarrow> probe_spec \<Rightarrow> bool" where
  "probed tb tc pfs p =
     (ps_block p \<longrightarrow>
      (\<exists>rb rcand pf. evaluate_probe (ps_type p) tb (ps_params p) = Inr rb \<and>
         evaluate_probe (ps_type p) tc (ps_params p) = Inr rcand \<and> list_all as_holds (pr_assertions rb) \<and>
         pf \<in> pfs \<and> pf_kind pf = PK_PROBE \<and> pf_verdict_bearing pf \<and> pf_assertions pf = pr_assertions rcand))"

lemma probed_mono: "pfs \<subseteq> pfs' \<Longrightarrow> probed tb tc pfs p \<Longrightarrow> probed tb tc pfs' p"
  by (auto simp: probed_def)

lemma simple_proof_Inr:
  "simple_proof H b t a = Inr pf \<Longrightarrow>
   pf_kind pf = pa_kind a \<and> pf_verdict_bearing pf = pa_verdict_bearing a \<and> pf_assertions pf = pa_assertions a
   \<and> pf_meta pf = pa_meta a"
  by (auto simp: simple_proof_def rbind_Inr_iff Let_def)

lemma missing_after [simp]:
  "pb_missing (add_missing s p what st) \<noteq> []" "pb_reject (add_missing s p what st) = pb_reject st"
  "pb_proofs (add_missing s p what st) = pb_proofs st"
  by (simp_all add: add_missing_def)

lemma record_results_clean:
  assumes "record_results (simple_proof H b t) s p rb rcand st = Inr st'" "pb_reject st' = None" "pb_missing st' = []"
  shows "pb_missing st = [] \<and> set (pb_proofs st) \<subseteq> set (pb_proofs st') \<and>
    (ps_block p \<longrightarrow> list_all as_holds (pr_assertions rb) \<and> (\<exists>pf \<in> set (pb_proofs st'). pf_kind pf = PK_PROBE \<and>
       pf_verdict_bearing pf \<and> pf_assertions pf = pr_assertions rcand))"
  using assms
  by (auto simp: record_results_def Let_def rbind_Inr_iff list_ex_iff list_all_iff dest!: simple_proof_Inr split: if_splits)

lemma probe_round_clean:
  assumes "probe_round (simple_proof H b t) reg s tb tc p st = Inr st'" "pb_reject st' = None" "pb_missing st' = []"
  shows "pb_missing st = [] \<and> set (pb_proofs st) \<subseteq> set (pb_proofs st') \<and> probed tb tc (set (pb_proofs st')) p"
proof -
  let ?st0 = "if ps_block p then st\<lparr> pb_cells := pb_cells st @ [(s, ps_id p)] \<rparr> else st"
  have same: "pb_missing ?st0 = pb_missing st" "pb_proofs ?st0 = pb_proofs st" by simp_all
  from assms obtain rb rcand where ev: "evaluate_probe (ps_type p) tb (ps_params p) = Inr rb"
    "evaluate_probe (ps_type p) tc (ps_params p) = Inr rcand"
    and rr: "record_results (simple_proof H b t) s p rb rcand ?st0 = Inr st'"
    by (auto simp: probe_round_def Let_def split: probe_entry.splits sum.splits if_splits)
  from record_results_clean [OF rr assms(2,3)] ev show ?thesis by (auto simp: probed_def same)
qed

lemma run_probes_clean:
  "run_probes (simple_proof H b t) reg s tb tc ps st = Inr st' \<Longrightarrow> pb_reject st' = None \<Longrightarrow> pb_missing st' = [] \<Longrightarrow>
   pb_missing st = [] \<and> set (pb_proofs st) \<subseteq> set (pb_proofs st') \<and> (\<forall>p \<in> set ps. probed tb tc (set (pb_proofs st')) p)"
proof (induction ps arbitrary: st)
  case (Cons p ps)
  then obtain st1 where st1: "probe_round (simple_proof H b t) reg s tb tc p st = Inr st1" "pb_reject st1 = None"
    "run_probes (simple_proof H b t) reg s tb tc ps st1 = Inr st'"
    by (auto simp: rbind_Inr_iff split: if_splits)
  from Cons.IH [OF st1(3) Cons.prems(2,3)] have ih: "pb_missing st1 = []" "set (pb_proofs st1) \<subseteq> set (pb_proofs st')"
    "\<forall>p \<in> set ps. probed tb tc (set (pb_proofs st')) p" by blast+
  from probe_round_clean [OF st1(1,2) ih(1)] have "pb_missing st = []" "set (pb_proofs st) \<subseteq> set (pb_proofs st1)"
    "probed tb tc (set (pb_proofs st1)) p" by blast+
  with ih probed_mono [OF ih(2)] show ?case by auto
qed simp

lemma probe_scenarios_clean:
  "probe_scenarios (simple_proof H b t) reg traces ps ss st = Inr st' \<Longrightarrow> pb_reject st' = None \<Longrightarrow> pb_missing st' = [] \<Longrightarrow>
   pb_missing st = [] \<and> set (pb_proofs st) \<subseteq> set (pb_proofs st') \<and>
   (\<forall>s \<in> set ss. \<exists>tb tc. trace_of traces (sc_id s) ''baseline'' = Some tb \<and>
      trace_of traces (sc_id s) ''candidate'' = Some tc \<and> (\<forall>p \<in> set ps. probed tb tc (set (pb_proofs st')) p))"
proof (induction ss arbitrary: st)
  case (Cons s ss)
  have "pb_reject st = None" using Cons.prems(1,2) by (auto split: if_splits)
  with Cons.prems(1) obtain tb tc st1 where t: "trace_of traces (sc_id s) ''baseline'' = Some tb"
    "trace_of traces (sc_id s) ''candidate'' = Some tc"
    and st1: "run_probes (simple_proof H b t) reg (sc_id s) tb tc ps st = Inr st1"
    and rest: "probe_scenarios (simple_proof H b t) reg traces ps ss st1 = Inr st'"
    by (auto simp: rbind_Inr_iff split: option.splits)
  from Cons.IH [OF rest Cons.prems(2,3)] have ih: "pb_missing st1 = []" "set (pb_proofs st1) \<subseteq> set (pb_proofs st')"
    "\<forall>s \<in> set ss. \<exists>tb tc. trace_of traces (sc_id s) ''baseline'' = Some tb \<and>
      trace_of traces (sc_id s) ''candidate'' = Some tc \<and> (\<forall>p \<in> set ps. probed tb tc (set (pb_proofs st')) p)" by blast+
  have "pb_reject st1 = None"
    using rest Cons.prems(2) by (cases ss) (auto split: if_splits)
  from run_probes_clean [OF st1 this ih(1)] have "pb_missing st = []" "set (pb_proofs st) \<subseteq> set (pb_proofs st1)"
    "\<forall>p \<in> set ps. probed tb tc (set (pb_proofs st1)) p" by blast+
  with ih t probed_mono [OF ih(2)] show ?case by auto
qed simp

lemma replay_labels:
  "replay H i rl rows cj rc src f r = Inr t \<Longrightarrow> rt_scenario_id t = i \<and> rt_role t = rl"
  by (auto simp: replay_def map_exn_def rbind_Inr_iff build_trace_def Let_def
      split: sum.splits if_splits pyval.splits list.splits prod.splits)

lemma replay_all_traces:
  "replay_all H w spec b c ss = Inr (ts, None) \<Longrightarrow> t \<in> set ts \<Longrightarrow>
   \<exists>s \<in> set ss. rt_scenario_id t = sc_id s \<and>
     (rt_role t = ''baseline'' \<and> replay_role H w spec b ''baseline'' s = Inr t \<or>
      rt_role t = ''candidate'' \<and> replay_role H w spec c ''candidate'' s = Inr t)"
proof (induction ss arbitrary: ts)
  case (Cons s ss)
  then obtain tb tc ts' where r: "replay_role H w spec b ''baseline'' s = Inr tb"
    "replay_role H w spec c ''candidate'' s = Inr tc" "replay_all H w spec b c ss = Inr (ts', None)" "ts = tb # tc # ts'"
    by (auto simp: rbind_Inr_iff split: sum.splits exn.splits)
  have "rt_scenario_id tb = sc_id s" "rt_role tb = ''baseline''" "rt_scenario_id tc = sc_id s" "rt_role tc = ''candidate''"
    using r(1,2) replay_labels by (simp_all add: replay_role_def)
  with Cons.IH [OF r(3)] Cons.prems(2) r show ?case by auto
qed simp

lemma trace_of_Some:
  "trace_of ts i rl = Some t \<Longrightarrow> t \<in> set ts \<and> rt_scenario_id t = i \<and> rt_role t = rl"
  by (auto simp: trace_of_def dest!: map_of_SomeD)

lemma trace_of_replayed:
  assumes "replay_all H w spec b c ss = Inr (ts, None)" "distinct (map sc_id ss)" "s \<in> set ss"
  shows "trace_of ts (sc_id s) ''baseline'' = Some t \<Longrightarrow> replay_role H w spec b ''baseline'' s = Inr t"
    and "trace_of ts (sc_id s) ''candidate'' = Some t \<Longrightarrow> replay_role H w spec c ''candidate'' s = Inr t"
proof -
  have same: "s' = s" if "s' \<in> set ss" "sc_id s' = sc_id s" for s'
    using that assms(2,3) by (auto simp: distinct_map inj_on_def)
  show "trace_of ts (sc_id s) ''baseline'' = Some t \<Longrightarrow> replay_role H w spec b ''baseline'' s = Inr t"
    using replay_all_traces [OF assms(1)] same by (fastforce dest!: trace_of_Some)
  show "trace_of ts (sc_id s) ''candidate'' = Some t \<Longrightarrow> replay_role H w spec c ''candidate'' s = Inr t"
    using replay_all_traces [OF assms(1)] same by (fastforce dest!: trace_of_Some)
qed

lemma load_scenario_id: "load_scenario H w s = Inr (s', p) \<Longrightarrow> sc_id s' = sc_id s"
  by (auto simp: load_scenario_def rbind_Inr_iff with_metadata_def Let_def split: if_splits)

lemma load_suite_distinct: "load_suite H w f = Inr s \<Longrightarrow> distinct (map sc_id (su_scenarios s))"
proof -
  assume "load_suite H w f = Inr s"
  then obtain s0 loaded where s0: "validate_suite s0 = Inr s0" "traverse (load_scenario H w) (su_scenarios s0) = Inr loaded"
    "su_scenarios s = map (\<lambda>(sc, path). sc\<lparr> sc_path := path \<rparr>) loaded"
    by (auto simp: load_suite_def rbind_Inr_iff validate_suite_def validated_def split: if_splits)
  have "map sc_id (su_scenarios s) = map sc_id (su_scenarios s0)"
  proof (rule nth_equalityI)
    show "length (map sc_id (su_scenarios s)) = length (map sc_id (su_scenarios s0))"
      using traverse_length [OF s0(2)] s0(3) by simp
    fix n assume "n < length (map sc_id (su_scenarios s))"
    then have n: "n < length (su_scenarios s0)" "n < length loaded" using traverse_length [OF s0(2)] s0(3) by simp_all
    obtain sc path where l: "loaded ! n = (sc, path)" by (cases "loaded ! n")
    from traverse_nth [OF s0(2) n(1)] l have "sc_id sc = sc_id (su_scenarios s0 ! n)" by (simp add: load_scenario_id)
    with l n s0(3) show "map sc_id (su_scenarios s) ! n = map sc_id (su_scenarios s0) ! n" by simp
  qed
  with s0(1) show ?thesis by (auto simp: validate_suite_def validated_def split: if_splits)
qed

lemma load_spec_semantic:
  "load_spec f = Inr spec \<Longrightarrow> p \<in> set (rs_probes spec) \<Longrightarrow> require_semantic_params (ps_type p) (ps_params p)"
  by (auto simp: load_spec_def rbind_Inr_iff validate_redline_spec_def validated_def list_all_iff split: if_splits)

lemma read_inputs_Inr:
  "read_inputs H cy w a = Inr i \<Longrightarrow>
   load_spec (wo_spec w) = Inr (rn_spec i) \<and> load_suite H w (wo_suite w) = Inr (rn_suite i)
   \<and> resolve_package_role_dir w (ra_baseline a) = Inr (rn_baseline_dir i)
   \<and> resolve_package_role_dir w (ra_candidate a) = Inr (rn_candidate_dir i)"
  by (auto simp: read_inputs_def rbind_Inr_iff)

lemma finish_run_Inr:
  assumes "finish_run H w a i traces (ps, cov, reject) = Inr x"
  shows "rx_traces x = traces \<and> (\<exists>e. decide H REQUIRED_PROOFS ps cov
      \<lparr> dc_suite_id = su_suite_id (rn_suite i), dc_spec_hash = rf_spec_hash (rn_facts i),
        dc_chain_status = fst (rn_chain i), dc_reject_reason = reject \<rparr> = Inr e \<and> de_status (rx_envelope x) = de_status e)"
  using assms
  by (auto simp: finish_run_def rbind_Inr_iff Let_def split: option.splits)

lemma examine_complete:
  assumes "examine (simple_proof H b t) w f spec s ps traces reject = Inr (ps', cov, None)" "cm_complete cov"
  shows "reject = None \<and> (\<exists>pfs. pfs \<subseteq> set ps' \<and> (\<forall>s \<in> set (su_scenarios s). \<exists>tb tc.
      trace_of traces (sc_id s) ''baseline'' = Some tb \<and> trace_of traces (sc_id s) ''candidate'' = Some tc \<and>
      (\<forall>p \<in> set (rs_probes spec). probed tb tc pfs p)))"
proof -
  from assms(1) have reject: "reject = None" by (auto simp: examine_def rbind_Inr_iff split: option.splits)
  with assms(1) obtain rps st cps where
    st: "probe_scenarios (simple_proof H b t) (wo_registry w) traces (rs_probes spec) (su_scenarios s)
       \<lparr> pb_proofs = ps @ rps, pb_cells = [], pb_missing = [], pb_baseline = [], pb_candidate = [], pb_reject = None \<rparr> = Inr st"
    and rej: "pb_reject st = None" and cov: "make_coverage (pb_cells st) (pb_missing st = []) (pb_missing st) = Inr cov"
    and ps': "ps' = pb_proofs st @ cps"
    by (auto simp: examine_def rbind_Inr_iff split: option.splits)
  from cov assms(2) have "pb_missing st = []" by (auto simp: make_coverage_def validated_def Let_def split: if_splits)
  from probe_scenarios_clean [OF st rej this] reject ps' show ?thesis
    by (intro conjI exI [of _ "set (pb_proofs st)"]) auto
qed

lemma decide_pass_facts:
  assumes "decide H REQUIRED_PROOFS ps cov ctx = Inr e" "de_status e = St_PASS"
  shows "dc_reject_reason ctx = None \<and> cm_complete cov \<and> \<not> has_block_breach ps"
proof -
  obtain cov' s t r cap where c: "effective_coverage ps cov = Inr cov'"
    and v: "verdict_of REQUIRED_PROOFS ps cov' ctx = (s, t, r, cap)" and e: "de_status e = s"
    using decide_cases [of ps cov REQUIRED_PROOFS ctx H] assms(1) by (metis Inr_inject decision_envelope.select_convs(1))
  have "fst (verdict_of REQUIRED_PROOFS ps cov' ctx) = St_PASS" using v e assms(2) by simp
  then show ?thesis unfolding verdict_status_pass using effective_complete(1) [OF c] by simp
qed

lemma no_breach_holds:
  "\<not> has_block_breach ps \<Longrightarrow> p \<in> set ps \<Longrightarrow> pf_kind p = PK_PROBE \<Longrightarrow> pf_verdict_bearing p \<Longrightarrow> list_all as_holds (pf_assertions p)"
  by (auto simp: has_block_breach_iff breaching_def has_failing_def bearing_probe_def list_ex_iff list_all_iff)

text \<open>Every blocking probe holds, for baseline and candidate, on the traces of every scenario.\<close>

definition probes_hold ::
  "(string \<Rightarrow> string) \<Rightarrow> crypto \<Rightarrow> world \<Rightarrow> run_args \<Rightarrow> replay_trace list \<Rightarrow> bool" where
  "probes_hold H cy w a traces =
     (\<exists>i. read_inputs H cy w a = Inr i \<and> (\<forall>s \<in> set (su_scenarios (rn_suite i)). \<exists>tb tc.
        replay_role H w (rn_spec i) (rn_baseline_dir i) ''baseline'' s = Inr tb \<and>
        replay_role H w (rn_spec i) (rn_candidate_dir i) ''candidate'' s = Inr tc \<and>
        tb \<in> set traces \<and> tc \<in> set traces \<and>
        (\<forall>p \<in> set (rs_probes (rn_spec i)). ps_block p \<longrightarrow>
           probe_meaning (ps_type p) tb (ps_params p) \<and> probe_meaning (ps_type p) tc (ps_params p))))"

lemma run_pass_probes:
  assumes "run_redline H cy w a = Inr x" "de_status (rx_envelope x) = St_PASS"
  shows "probes_hold H cy w a (rx_traces x)"
proof -
  from assms(1) obtain i ps traces reject ps' cov reject' where i: "read_inputs H cy w a = Inr i"
    and rp: "(if first_reject i = None
        then replay_all H w (rn_spec i) (rn_baseline_dir i) (rn_candidate_dir i) (su_scenarios (rn_suite i))
        else Inr ([], first_reject i)) = Inr (traces, reject)"
    and ex: "examine (simple_proof H (chained i) (with_policy a i)) w (rn_facts i) (rn_spec i) (rn_suite i) ps traces reject
        = Inr (ps', cov, reject')"
    and fin: "finish_run H w a i traces (ps', cov, reject') = Inr x"
    by (auto simp: run_redline_def rbind_Inr_iff Let_def)
  from finish_run_Inr [OF fin] assms(2) obtain e where tr: "rx_traces x = traces" and
    e: "decide H REQUIRED_PROOFS ps' cov \<lparr> dc_suite_id = su_suite_id (rn_suite i), dc_spec_hash = rf_spec_hash (rn_facts i),
        dc_chain_status = fst (rn_chain i), dc_reject_reason = reject' \<rparr> = Inr e" "de_status e = St_PASS" by auto
  from decide_pass_facts [OF e] have pass: "reject' = None" "cm_complete cov"
    and breach: "\<not> has_block_breach ps'" by simp_all
  note holds = no_breach_holds [OF breach]
  from examine_complete [OF ex [unfolded pass(1)] pass(2)] obtain pfs where reject: "reject = None" and pfs: "pfs \<subseteq> set ps'"
    and probes: "\<And>s. s \<in> set (su_scenarios (rn_suite i)) \<Longrightarrow> \<exists>tb tc. trace_of traces (sc_id s) ''baseline'' = Some tb \<and>
      trace_of traces (sc_id s) ''candidate'' = Some tc \<and> (\<forall>p \<in> set (rs_probes (rn_spec i)). probed tb tc pfs p)" by blast
  from rp reject have replayed: "replay_all H w (rn_spec i) (rn_baseline_dir i) (rn_candidate_dir i) (su_scenarios (rn_suite i)) = Inr (traces, None)"
    by (auto split: if_splits)
  note r = read_inputs_Inr [OF i]
  have ids: "distinct (map sc_id (su_scenarios (rn_suite i)))" using r load_suite_distinct by blast
  have meaning: "probe_meaning (ps_type p) tb (ps_params p) \<and> probe_meaning (ps_type p) tc (ps_params p)"
    if p: "p \<in> set (rs_probes (rn_spec i))" "ps_block p" "probed tb tc pfs p" for p tb tc
  proof -
    from p(2,3) obtain rb rcand pf where ev: "evaluate_probe (ps_type p) tb (ps_params p) = Inr rb"
      "evaluate_probe (ps_type p) tc (ps_params p) = Inr rcand" "list_all as_holds (pr_assertions rb)"
      and pf: "pf \<in> pfs" "pf_kind pf = PK_PROBE" "pf_verdict_bearing pf" "pf_assertions pf = pr_assertions rcand"
      by (auto simp: probed_def)
    have sem: "require_semantic_params (ps_type p) (ps_params p)" using load_spec_semantic r p(1) by blast
    have "list_all as_holds (pr_assertions rcand)" using holds [of pf] pf pfs by auto
    with ev have "pr_outcome rb = PO_PASS" "pr_outcome rcand = PO_PASS" by (simp_all add: evaluate_probe_pass)
    with probe_outcome_iff [OF sem ev(1)] probe_outcome_iff [OF sem ev(2)] show ?thesis by simp
  qed
  show ?thesis
    unfolding probes_hold_def
  proof (intro exI [of _ i] conjI ballI)
    fix s assume s: "s \<in> set (su_scenarios (rn_suite i))"
    from probes [OF s] obtain tb tc where t: "trace_of traces (sc_id s) ''baseline'' = Some tb"
      "trace_of traces (sc_id s) ''candidate'' = Some tc" "\<forall>p \<in> set (rs_probes (rn_spec i)). probed tb tc pfs p" by blast
    with trace_of_replayed [OF replayed ids s] trace_of_Some [OF t(1)] trace_of_Some [OF t(2)] meaning tr
    show "\<exists>tb tc. replay_role H w (rn_spec i) (rn_baseline_dir i) ''baseline'' s = Inr tb \<and>
      replay_role H w (rn_spec i) (rn_candidate_dir i) ''candidate'' s = Inr tc \<and>
      tb \<in> set (rx_traces x) \<and> tc \<in> set (rx_traces x) \<and>
      (\<forall>p \<in> set (rs_probes (rn_spec i)). ps_block p \<longrightarrow>
         probe_meaning (ps_type p) tb (ps_params p) \<and> probe_meaning (ps_type p) tc (ps_params p))"
      by (intro exI [of _ tb] exI [of _ tc]) blast
  qed (rule i)
qed

text \<open>C2: a run passes only where the strategy behaves: when \<open>run_redline\<close> answers \<open>pass\<close>, every scenario of the
  suite was replayed for the baseline and for the candidate, and on both traces every blocking probe of the
  specification holds, in the sense of \<open>probe_meaning\<close>, whatever the registry, the worker and the rest of the outside.\<close>

theorem run_pass_means:
  assumes "run_redline H cy w a = Inr x" "de_status (rx_envelope x) = St_PASS"
  shows "\<exists>i. read_inputs H cy w a = Inr i \<and> (\<forall>s \<in> set (su_scenarios (rn_suite i)). \<exists>tb tc.
      replay_role H w (rn_spec i) (rn_baseline_dir i) ''baseline'' s = Inr tb \<and>
      replay_role H w (rn_spec i) (rn_candidate_dir i) ''candidate'' s = Inr tc \<and>
      tb \<in> set (rx_traces x) \<and> tc \<in> set (rx_traces x) \<and>
      (\<forall>p \<in> set (rs_probes (rn_spec i)). ps_block p \<longrightarrow>
         probe_meaning (ps_type p) tb (ps_params p) \<and> probe_meaning (ps_type p) tc (ps_params p)))"
  using run_pass_probes [OF assms] by (simp only: probes_hold_def)

end
