(* ===== verification/Runner_Sample.thy ===== *)
theory Runner_Sample
  imports Runner
begin

text \<open>
  Two concrete runs: one scenario of two bars in which the price halves, one drawdown probe, a baseline that never
  trades, and a digest that is constant, so that every hash of a plain value is known. The candidate of the run \<open>ok\<close>
  does not trade either, and the run passes; the other candidate buys before the fall, and the run is withheld. Both
  give a receipt; the witnesses of the properties of runs and of verification rest on them.
\<close>

section \<open>The outside of the sample run\<close>

definition const_digest :: "string \<Rightarrow> string" where
  "const_digest m = ''h''"

definition sample_source :: tree_entry where
  "sample_source =
     \<lparr> te_parts = [''strategy.py''], te_symlink = False, te_file = True, te_escapes = False, te_bytes = ''x'' \<rparr>"

definition sample_signals :: "bool \<Rightarrow> string \<Rightarrow> pyval list" where
  "sample_signals ok rl = [PStr (if rl = ''candidate'' \<and> \<not> ok then ''1'' else ''0''), PStr ''0'']"

definition sample_role :: "bool \<Rightarrow> role_dir" where
  "sample_role ok =
     \<lparr> ro_tree = [sample_source], ro_config = Config_Missing, ro_source = Inr ''x'',
       ro_worker = (\<lambda>i rl. (Worker_Payload \<lparr> wp_ok = True, wp_reason = None, wp_signals = Some (sample_signals ok rl) \<rparr>, Worker_Timeout)) \<rparr>"

definition sample_rows :: "csv_row list" where
  "sample_rows =
     [\<lparr> row_timestamp = Cell ''t'', row_open = Cell ''1'', row_high = Cell ''1'', row_low = Cell ''1'', row_close = Cell ''1'' \<rparr>,
      \<lparr> row_timestamp = Cell ''u'', row_open = Cell ''1'', row_high = Cell ''1'', row_low = Cell ''0.5'', row_close = Cell ''0.5'' \<rparr>]"

definition sample_spec :: redline_spec where
  "sample_spec =
     \<lparr> rs_version = ''redline.spec.v2.2'', rs_spec_id = ''s'',
       rs_probes = [\<lparr> ps_id = ''p'', ps_type = PT_MAX_DRAWDOWN, ps_params = [(''max_drawdown'', ''0.1'')], ps_block = True \<rparr>],
       rs_compiler = ''json'', rs_declared_intent = None, rs_model = None, rs_tool_schema_hash = None,
       rs_degraded_reason = None, rs_fee_bps = ''0'', rs_slippage_bps = ''0'' \<rparr>"

definition sample_world :: "bool \<Rightarrow> world" where
  "sample_world ok =
     \<lparr> wo_package = Tree [sample_source],
       wo_lock = File \<lparr> pil_locked_files = [\<lparr> pif_path = ''strategy.py'', pif_hash = ''sha256:h'' \<rparr>],
                        pil_identity_hash = ''sha256:h'', pil_lock_hash = ''sha256:h'' \<rparr>,
       wo_role = (\<lambda>p. Some (sample_role ok)),
       wo_spec = File sample_spec,
       wo_suite = File \<lparr> su_suite_id = ''u'',
                         su_scenarios = [\<lparr> sc_id = ''c'', sc_path = ''f'', sc_timeframe = ''1h'', sc_data_hash = None,
                           sc_source_file_hash = None, sc_bar_count = None, sc_period_start = None, sc_period_end = None \<rparr>],
                         su_suite_lock_hash = None \<rparr>,
       wo_resolve = id, wo_rows = (\<lambda>p. Inr sample_rows), wo_bytes = (\<lambda>p. Inr ''x''),
       wo_registry = (\<lambda>t. Trusted), wo_trace_json = (\<lambda>t. PNone), wo_engine_tree = Tree [],
       wo_uv_lock = None, wo_runtime = ''cpython-3.12'', wo_spec_path = ''s'', wo_suite_path = ''u'', wo_lock_path = ''l'',
       wo_now = 0 \<rparr>"

definition sample_provenance :: edit_provenance where
  "sample_provenance =
     \<lparr> ep_tool = ''editor'', ep_prompt_digest = ''sha256:h'', ep_diff_hash = ''sha256:h'', ep_locked_by = ''author'',
       ep_captured_at = ''2026-06-10T00:00:00Z'' \<rparr>"

definition sample_run_args :: run_args where
  "sample_run_args =
     \<lparr> ra_baseline = ''b'', ra_candidate = ''c'', ra_edit_provenance = Some sample_provenance, ra_baseline_receipt = None,
       ra_trust_policy = None, ra_baseline_version_id = None, ra_candidate_version_id = None \<rparr>"

section \<open>Its steps\<close>

lemma const_hash: "plain v \<Longrightarrow> hash_obj const_digest en v = Inr ''sha256:h''"
proof -
  assume "plain v"
  then obtain b where "canonical_bytes en v = Inr b" using plain_hashes [of v const_digest en] by (auto simp: hash_obj_Inr)
  then show ?thesis by (simp add: hash_obj_def sha256_bytes_def const_digest_def)
qed

lemma const_file [simp]: "hash_file const_digest b = ''sha256:h''"
  by (simp add: hash_file_def sha256_bytes_def const_digest_def)

definition sample_suite :: suite where
  "sample_suite = \<lparr> su_suite_id = ''u'',
     su_scenarios = [\<lparr> sc_id = ''c'', sc_path = ''f'', sc_timeframe = ''1h'', sc_data_hash = Some ''sha256:h'',
       sc_source_file_hash = Some ''sha256:h'', sc_bar_count = Some 2, sc_period_start = Some ''t'', sc_period_end = Some ''u'' \<rparr>],
     su_suite_lock_hash = Some ''sha256:h'' \<rparr>"

lemma sample_suite_loaded: "load_suite const_digest (sample_world ok) (wo_suite (sample_world ok)) = Inr sample_suite"
proof -
  have p: "plain (lock_payload i ss)" for i ss
    by (simp add: lock_payload_def scenario_dump_def scenario_value_def list_all_iff)
  show ?thesis
    by (simp add: load_suite_def sample_world_def validate_suite_def validated_def load_scenario_def is_absolute_def startswith_def
      scenario_file_metadata_def row_stamps_def sample_rows_def Let_def const_hash [OF p] with_metadata_def sample_suite_def)
qed

lemma sample_spec_loaded: "load_spec (wo_spec (sample_world ok)) = Inr sample_spec"
proof -
  have "load_spec (File sample_spec) = Inr sample_spec" by code_simp
  then show ?thesis by (simp add: sample_world_def)
qed

lemma sample_bindings: "validate_spec_suite_bindings sample_spec sample_suite = Inr ()"
  by code_simp

lemma sample_roles: "resolve_package_role_dir (sample_world ok) ''b'' = Inr (sample_role ok)" "resolve_package_role_dir (sample_world ok) ''c'' = Inr (sample_role ok)"
proof -
  have "\<not> is_absolute ''b''" "''..'' \<notin> set (path_parts ''b'')" "\<not> is_absolute ''c''" "''..'' \<notin> set (path_parts ''c'')"
    by code_simp+
  then show "resolve_package_role_dir (sample_world ok) ''b'' = Inr (sample_role ok)" "resolve_package_role_dir (sample_world ok) ''c'' = Inr (sample_role ok)"
    by (simp_all add: resolve_package_role_dir_def sample_world_def)
qed

lemma sample_tree: "hash_tree const_digest (Tree [sample_source]) = Inr ''sha256:h''"
proof -
  have "iter_canonical_files [sample_source] = Inr [(''strategy.py'', sample_source)]" by code_simp
  moreover have "plain (tree_value H fs)" for H fs by (simp add: tree_value_def list_all_iff split: prod.split)
  ultimately show ?thesis by (simp add: hash_tree_def const_hash)
qed

lemma sample_lock: "package_lock const_digest (sample_world ok) =
   Inr (Some \<lparr> pil_locked_files = [\<lparr> pif_path = ''strategy.py'', pif_hash = ''sha256:h'' \<rparr>],
     pil_identity_hash = ''sha256:h'', pil_lock_hash = ''sha256:h'' \<rparr>, None)"
proof -
  have s: "source_files [sample_source] = Inr [(''strategy.py'', sample_source)]" by code_simp
  have v: "validate_items const_digest [sample_source] [] [\<lparr> pif_path = ''strategy.py'', pif_hash = ''sha256:h'' \<rparr>] = Inr ()"
    by code_simp
  have p: "plain (identity_payload l)" for l by (simp add: identity_payload_def list_all_iff)
  show ?thesis
    by (simp add: package_lock_def sample_world_def load_identity_lock_def validate_locked_files_def s v const_hash p const_hash [OF plain_receipt_parts(3)]
        del: validate_items.simps)
qed
definition sample_feed :: "bar list" where
  "sample_feed =
     [\<lparr> bar_i = 0, bar_timestamp = [CHR ''t''], bar_open = Finite 1 0, bar_high = Finite 1 0, bar_low = Finite 1 0,
        bar_close = Finite 1 0 \<rparr>,
      \<lparr> bar_i = 1, bar_timestamp = [CHR ''u''], bar_open = Finite 1 0, bar_high = Finite 1 0, bar_low = Finite 5 (-1),
        bar_close = Finite 5 (-1) \<rparr>]"

definition sample_config :: config where
  "sample_config = spec_replay_config sample_spec"

definition sample_positions :: "bool \<Rightarrow> string \<Rightarrow> pydec list" where
  "sample_positions ok rl = [Finite (if rl = ''candidate'' \<and> \<not> ok then 1 else 0) 0, Finite 0 0]"

text \<open>The end of a replay of the feed, whether the strategy bought at the first bar or not.\<close>

definition sample_points :: "bool \<Rightarrow> replay_point list" where
  "sample_points bought =
     [\<lparr> pt_bar = 0, pt_timestamp = [CHR ''t''], pt_close = d_one, pt_nav = Finite 10000 0, pt_peak = Finite 10000 0,
        pt_drawdown = d_zero, pt_position = d_zero \<rparr>,
      \<lparr> pt_bar = 1, pt_timestamp = [CHR ''u''], pt_close = Finite 5 (-1), pt_nav = Finite (if bought then 5000 else 10000) 0,
        pt_peak = Finite 10000 0, pt_drawdown = (if bought then Finite 5000000000000000000000000000 (-28) else d_zero),
        pt_position = (if bought then d_one else d_zero) \<rparr>]"

definition sample_end :: "bool \<Rightarrow> engine_state" where
  "sample_end bought =
     \<lparr> es_nav = Finite (if bought then 5000 else 10000) 0, es_peak = Finite 10000 0,
       es_current = (if bought then d_one else d_zero), es_pending = d_zero, es_trade_count = (if bought then 1 else 0),
       es_previous_close = Finite 5 (-1) \<rparr>"

lemma sample_reads:
  "read_bars (Inr sample_rows) = Inr sample_feed"
  "read_config Config_Missing (Some sample_config) = Inr (PDict sample_config)"
  "read_costs sample_config = Inr (projr (read_costs sample_config))"
  "list_all (\<lambda>b. plain (bar_value b)) sample_feed" "plain (PDict sample_config)"
  by code_simp+

lemma sample_signals_read:
  "worker_signals (Worker_Payload \<lparr> wp_ok = True, wp_reason = None, wp_signals = Some (sample_signals ok rl) \<rparr>) Worker_Timeout
     = Inr (sample_positions ok rl)"
proof -
  have "worker_signals (Worker_Payload \<lparr> wp_ok = True, wp_reason = None, wp_signals = Some [PStr ''1'', PStr ''0''] \<rparr>) Worker_Timeout
      = Inr [Finite 1 0, Finite 0 0]"
    "worker_signals (Worker_Payload \<lparr> wp_ok = True, wp_reason = None, wp_signals = Some [PStr ''0'', PStr ''0''] \<rparr>) Worker_Timeout
      = Inr [Finite 0 0, Finite 0 0]" by code_simp+
  then show ?thesis by (simp add: sample_signals_def sample_positions_def)
qed

lemma sample_outcomes:
  "run_bars (projr (read_costs sample_config)) 0 sample_feed [Finite (if bought then 1 else 0) 0, Finite 0 0]
     (initial_state (hd sample_feed)) = Inr (sample_end bought, sample_points bought)"
proof -
  have "run_bars (projr (read_costs sample_config)) 0 sample_feed [Finite 1 0, Finite 0 0] (initial_state (hd sample_feed))
      = Inr (sample_end True, sample_points True)"
    "run_bars (projr (read_costs sample_config)) 0 sample_feed [Finite 0 0, Finite 0 0] (initial_state (hd sample_feed))
      = Inr (sample_end False, sample_points False)" by code_simp+
  then show ?thesis by simp
qed

lemma sample_points_plain: "list_all (\<lambda>p. plain (replay_point_value p)) (sample_points bought)"
proof -
  have "list_all (\<lambda>p. plain (replay_point_value p)) (sample_points True)"
    "list_all (\<lambda>p. plain (replay_point_value p)) (sample_points False)" by code_simp+
  then show ?thesis by (cases bought) simp_all
qed

text \<open>Whether the role buys before the fall.\<close>

abbreviation buys :: "bool \<Rightarrow> string \<Rightarrow> bool" where
  "buys ok rl \<equiv> rl = ''candidate'' \<and> \<not> ok"

lemma sample_replay:
  assumes "rl \<in> {''baseline'', ''candidate''}"
  shows "\<exists>t. replay_role const_digest (sample_world ok) sample_spec (sample_role ok) rl (hd (su_scenarios sample_suite)) = Inr t
    \<and> rt_points t = sample_points (buys ok rl) \<and> rt_scenario_id t = ''c'' \<and> rt_role t = rl"
proof -
  have run: "run_bars (projr (read_costs sample_config)) 0 sample_feed (sample_positions ok rl) (initial_state (hd sample_feed))
      = Inr (sample_end (buys ok rl), sample_points (buys ok rl))"
    using sample_outcomes [of "buys ok rl"] by (simp add: sample_positions_def)
  have ne: "sample_feed \<noteq> []" by (simp add: sample_feed_def)
  note total = build_trace_total [where H = const_digest and sc = "''c''" and src = "''x''",
      OF ne sample_reads(3) assms run sample_reads(4,5) sample_points_plain]
  then obtain t where t: "build_trace const_digest ''c'' rl sample_feed sample_config ''x'' (sample_positions ok rl) = Inr t" ..
  have "rt_points t = sample_points (buys ok rl)"
  proof (rule build_trace_Inr [OF t])
    fix k st
    assume "read_costs sample_config = Inr k"
      "run_bars k 0 sample_feed (sample_positions ok rl) (initial_state (hd sample_feed)) = Inr (st, rt_points t)"
    with run show ?thesis by (simp only: sum.sel prod.inject sum.inject)
  qed
  moreover have r: "replay const_digest ''c'' rl (Inr sample_rows) Config_Missing (Some sample_config) (Inr ''x'')
      (Worker_Payload \<lparr> wp_ok = True, wp_reason = None, wp_signals = Some (sample_signals ok rl) \<rparr>) Worker_Timeout = Inr t"
    using t by (simp add: replay_def sample_reads(1,2) sample_signals_read map_exn_def sample_feed_def sample_positions_def)
  moreover have "replay_role const_digest (sample_world ok) sample_spec (sample_role ok) rl (hd (su_scenarios sample_suite)) = Inr t"
    using r by (simp add: replay_role_def sample_suite_def sample_world_def sample_role_def sample_config_def)
  ultimately show ?thesis using replay_labels [OF r] by auto
qed

definition sample_trace_of :: "bool \<Rightarrow> string \<Rightarrow> replay_trace" where
  "sample_trace_of ok rl =
     projr (replay_role const_digest (sample_world ok) sample_spec (sample_role ok) rl (hd (su_scenarios sample_suite)))"

lemma sample_traces:
  assumes "rl \<in> {''baseline'', ''candidate''}"
  shows "replay_role const_digest (sample_world ok) sample_spec (sample_role ok) rl (hd (su_scenarios sample_suite)) = Inr (sample_trace_of ok rl)"
    "rt_points (sample_trace_of ok rl) = sample_points (buys ok rl)" "rt_scenario_id (sample_trace_of ok rl) = ''c''"
    "rt_role (sample_trace_of ok rl) = rl"
  using sample_replay [OF assms, of ok] by (auto simp: sample_trace_of_def)

lemma sample_replay_all:
  "replay_all const_digest (sample_world ok) sample_spec (sample_role ok) (sample_role ok) (su_scenarios sample_suite)
    = Inr ([sample_trace_of ok ''baseline'', sample_trace_of ok ''candidate''], None)"
proof -
  have "su_scenarios sample_suite = [hd (su_scenarios sample_suite)]" by (simp add: sample_suite_def)
  then obtain s where s: "su_scenarios sample_suite = [s]" by blast
  with sample_traces(1) [of "''baseline''" ok] sample_traces(1) [of "''candidate''" ok] show ?thesis by simp
qed

definition const_proof :: "proof_args \<Rightarrow> proof_rec" where
  "const_proof a =
     (let pid = ''proof:'' @ kind_value (pa_kind a) @ '':h''
      in \<lparr> pf_proof_id = pid, pf_phase = pa_phase a, pf_kind = pa_kind a, pf_verdict_bearing = pa_verdict_bearing a,
           pf_inputs_hash = ''sha256:h'', pf_artifact_hash = ''sha256:h'', pf_assertions = pa_assertions a,
           pf_reproduce = Some (make_verify_proof_reproduce pid False False False),
           pf_fill_model = (if pa_replay_flags a then Some ''next_bar_open'' else None),
           pf_lookahead_guard = (if pa_replay_flags a then Some ''structural_next_bar'' else None),
           pf_fees_modeled = (if pa_replay_flags a then Some True else None), pf_meta = pa_meta a \<rparr>)"

lemma mk_const:
  "plain (pa_inputs a) \<Longrightarrow> plain (pa_artifact a) \<Longrightarrow> simple_proof const_digest False False a = Inr (const_proof a)"
  by (simp add: simple_proof_def const_hash const_proof_def Let_def removeprefix_def startswith_def)

definition sample_assertion :: "bool \<Rightarrow> assertion" where
  "sample_assertion bought =
     \<lparr> as_metric = ''max_drawdown'', as_op = ''<='', as_threshold = ''0.10000000'',
       as_observed = (if bought then ''0.50000000'' else ''0''), as_scenario_id = [CHR ''c''], as_bar = (if bought then 1 else 0),
       as_holds = (\<not> bought) \<rparr>"

lemma sample_worst:
  "max_by (\<lambda>p. dval (pt_drawdown p)) (sample_points bought) = Some (sample_points bought ! (if bought then 1 else 0))"
  by (simp add: sample_points_def max_by_def)

lemma sample_worst_assertion:
  "le_assertion ''max_drawdown'' (Finite 1 (-1)) (pt_drawdown (sample_points bought ! (if bought then 1 else 0))) ''c''
     (pt_bar (sample_points bought ! (if bought then 1 else 0)))
     (dval (pt_drawdown (sample_points bought ! (if bought then 1 else 0))) \<le> dval (Finite 1 (-1)))
   = Inr (sample_assertion bought)"
proof -
  have c: "canonical_number (Finite 1 (-1)) = Inr ''0.10000000''" "canonical_number d_zero = Inr ''0''"
    "canonical_number (Finite 5000000000000000000000000000 (-28)) = Inr ''0.50000000''" by code_simp+
  show ?thesis
    by (simp add: le_assertion_def sample_points_def c sample_assertion_def pow10_def)
qed

lemma sample_evaluation:
  assumes "rl \<in> {''baseline'', ''candidate''}"
  shows "evaluate_probe PT_MAX_DRAWDOWN (sample_trace_of ok rl) [(''max_drawdown'', ''0.1'')]
    = Inr (probe_outcome_of (sample_assertion (buys ok rl)))"
proof -
  have d: "to_decimal ''0.1'' = Inr (Finite 1 (-1))" by code_simp
  have p: "param [(''max_drawdown'', ''0.1'')] ''max_drawdown'' = Inr ''0.1''" by (simp add: param_def)
  show ?thesis
    unfolding evaluate_probe_def probe_type.case max_drawdown_probe_def
    by (simp only: sample_traces [OF assms] p option.case rbind.simps d sample_worst sample_worst_assertion)
qed

lemma traverse_mk:
  "list_all (\<lambda>a. plain (pa_inputs a) \<and> plain (pa_artifact a)) as \<Longrightarrow>
   traverse (simple_proof const_digest False False) as = Inr (map const_proof as)"
  by (rule traverse_Inr_map) (auto simp: list_all_iff mk_const)

definition sample_inputs :: "bool \<Rightarrow> run_inputs" where
  "sample_inputs ok =
     \<lparr> rn_baseline_dir = sample_role ok, rn_candidate_dir = sample_role ok, rn_spec = sample_spec, rn_suite = sample_suite,
       rn_facts = \<lparr> rf_package_hash = ''sha256:h'', rf_baseline_hash = ''sha256:h'', rf_candidate_hash = ''sha256:h'',
         rf_lock = Some \<lparr> pil_locked_files = [\<lparr> pif_path = ''strategy.py'', pif_hash = ''sha256:h'' \<rparr>],
           pil_identity_hash = ''sha256:h'', pil_lock_hash = ''sha256:h'' \<rparr>,
         rf_diff_hash = ''sha256:h'', rf_provenance = sample_provenance,
         rf_spec_hash = ''sha256:h'' \<rparr>,
       rn_lock_error = None, rn_chain = (CS_GENESIS, None, None) \<rparr>"

lemma sample_inputs_read: "read_inputs const_digest sample_crypto (sample_world ok) sample_run_args = Inr (sample_inputs ok)"
proof -
  have "hash_tree const_digest (wo_package (sample_world ok)) = Inr ''sha256:h''" using sample_tree by (simp add: sample_world_def)
  moreover have "hash_tree const_digest (Tree (ro_tree (sample_role ok))) = Inr ''sha256:h''"
    using sample_tree by (simp add: sample_role_def)
  moreover have "plain (diff_payload b c)" for b c by (simp add: diff_payload_def)
  moreover have "ra_baseline sample_run_args = ''b''" "ra_candidate sample_run_args = ''c''"
    "ra_baseline_receipt sample_run_args = None" "effective_provenance const_digest sample_run_args d = sample_provenance" for d
    by (simp_all add: sample_run_args_def effective_provenance_def)
  ultimately show ?thesis
    by (simp add: read_inputs_def sample_roles sample_spec_loaded sample_suite_loaded sample_bindings const_hash
        sample_lock baseline_chain_def sample_inputs_def)
qed

lemma sample_flags: "chained (sample_inputs ok) = False" "with_policy sample_run_args (sample_inputs ok) = False"
  "first_reject (sample_inputs ok) = None"
  by (simp_all add: chained_def with_policy_def first_reject_def sample_inputs_def sample_provenance_def sample_run_args_def)

definition sample_probe_args :: "bool \<Rightarrow> proof_args" where
  "sample_probe_args ok =
     \<lparr> pa_kind = PK_PROBE, pa_phase = ''probe'', pa_inputs = PDict [(''scenario'', PStr ''c''), (''probe'', PStr ''p'')],
       pa_artifact = PDict [(''baseline'', probe_result_value (probe_outcome_of (sample_assertion False))),
                            (''candidate'', probe_result_value (probe_outcome_of (sample_assertion (\<not> ok))))],
       pa_verdict_bearing = True, pa_assertions = [sample_assertion (\<not> ok)],
       pa_meta = [(''scenario_id'', PStr ''c''), (''probe_id'', PStr ''p'')], pa_replay_flags = False \<rparr>"

definition sample_cov :: coverage_manifest where
  "sample_cov = \<lparr> cm_manifest = default_manifest, cm_cells = [(''c'', ''p'')], cm_complete = True, cm_missing = [] \<rparr>"

definition kinds_of :: "proof_args list \<Rightarrow> (proof_kind \<times> bool) list" where
  "kinds_of as = map (\<lambda>a. (pa_kind a, pa_verdict_bearing a)) as"

definition plain_metas :: "proof_args list \<Rightarrow> bool" where
  "plain_metas as = list_all (\<lambda>a. list_all (\<lambda>(k, v). plain v) (pa_meta a)) as"

definition sample_kinds :: "(proof_kind \<times> bool) list" where
  "sample_kinds =
     [(PK_PACKAGE_CANONICAL, True), (PK_EDIT_PROVENANCE, False), (PK_SPEC_COMPILE, True), (PK_REPLAY, True),
          (PK_REPLAY_WELLFORMED, True), (PK_PROBE, True), (PK_COVERAGE, True), (PK_BASELINE_CALIBRATION, True),
          (PK_CANDIDATE_ABSOLUTE, True)]"

lemma sample_first:
  "\<exists>as. first_proofs (simple_proof const_digest False False) a spec f = Inr (map const_proof as)
     \<and> kinds_of as =
         [(PK_PACKAGE_CANONICAL, True), (PK_EDIT_PROVENANCE, False), (PK_SPEC_COMPILE, True)]
     \<and> plain_metas as"
  unfolding first_proofs_def
  by (intro exI conjI, rule traverse_mk) (simp_all add: kinds_of_def plain_metas_def plain_args_def)

lemma sample_second:
  "\<exists>as. replay_proofs (simple_proof const_digest False False) (sample_world ok) f s ts = Inr (map const_proof as)
     \<and> kinds_of as = [(PK_REPLAY, True), (PK_REPLAY_WELLFORMED, True)]
     \<and> plain_metas as"
  unfolding replay_proofs_def
  by (intro exI conjI, rule traverse_mk)
     (simp_all add: kinds_of_def plain_metas_def plain_args_def sample_world_def assertions_payload_def list_all_iff)

lemma sample_closing:
  "\<exists>as. closing_proofs (simple_proof const_digest False False) f spec s cov st = Inr (map const_proof as)
     \<and> kinds_of as =
         [(PK_COVERAGE, True), (PK_BASELINE_CALIBRATION, True), (PK_CANDIDATE_ABSOLUTE, True)]
     \<and> plain_metas as"
  unfolding closing_proofs_def
  by (intro exI conjI, rule traverse_mk) (simp_all add: kinds_of_def plain_metas_def plain_args_def assertions_payload_def list_all_iff)

lemma sample_probing:
  "probe_scenarios (simple_proof const_digest False False) (wo_registry (sample_world ok))
     [sample_trace_of ok ''baseline'', sample_trace_of ok ''candidate''] (rs_probes sample_spec) (su_scenarios sample_suite)
     \<lparr> pb_proofs = ps, pb_cells = [], pb_missing = [], pb_baseline = [], pb_candidate = [], pb_reject = None \<rparr>
   = Inr \<lparr> pb_proofs = ps @ [const_proof (sample_probe_args ok)], pb_cells = [(''c'', ''p'')], pb_missing = [],
           pb_baseline = [sample_assertion False], pb_candidate = [sample_assertion (\<not> ok)], pb_reject = None \<rparr>"
proof -
  have sp: "rs_probes sample_spec = [\<lparr> ps_id = ''p'', ps_type = PT_MAX_DRAWDOWN, ps_params = [(''max_drawdown'', ''0.1'')], ps_block = True \<rparr>]"
    by (simp add: sample_spec_def)
  obtain s where s: "su_scenarios sample_suite = [s]" "sc_id s = ''c''" by (simp add: sample_suite_def)
  have reg: "wo_registry (sample_world ok) t = Trusted" for t by (simp add: sample_world_def)
  have tb: "trace_of [sample_trace_of ok ''baseline'', sample_trace_of ok ''candidate''] ''c'' ''baseline'' = Some (sample_trace_of ok ''baseline'')"
    "trace_of [sample_trace_of ok ''baseline'', sample_trace_of ok ''candidate''] ''c'' ''candidate'' = Some (sample_trace_of ok ''candidate'')"
    by (simp_all add: trace_of_def sample_traces)
  have mk: "simple_proof const_digest False False (sample_probe_args ok) = Inr (const_proof (sample_probe_args ok))"
    by (rule mk_const) (simp_all add: sample_probe_args_def probe_result_value_def list_all_iff probe_outcome_of_def)
  have ev: "evaluate_probe PT_MAX_DRAWDOWN (sample_trace_of ok ''baseline'') [(''max_drawdown'', ''0.1'')] = Inr (probe_outcome_of (sample_assertion False))"
    "evaluate_probe PT_MAX_DRAWDOWN (sample_trace_of ok ''candidate'') [(''max_drawdown'', ''0.1'')] = Inr (probe_outcome_of (sample_assertion (\<not> ok)))"
    using sample_evaluation [of "''baseline''" ok] sample_evaluation [of "''candidate''" ok] by simp_all
  have po: "pr_outcome (probe_outcome_of a) \<noteq> PO_ERRORED" "pr_assertions (probe_outcome_of a) = [a]"
    "as_holds (sample_assertion False)" for a
    by (simp_all add: probe_outcome_of_def sample_assertion_def)
  show ?thesis
    by (simp add: s sp tb probe_round_def reg ev record_results_def po mk [unfolded sample_probe_args_def] sample_probe_args_def)
qed

lemma sample_examined:
  assumes "first = map const_proof as" "plain_metas as"
    "kinds_of as =
         [(PK_PACKAGE_CANONICAL, True), (PK_EDIT_PROVENANCE, False), (PK_SPEC_COMPILE, True)]"
  shows "\<exists>qs. examine (simple_proof const_digest False False) (sample_world ok) f sample_spec sample_suite first
      [sample_trace_of ok ''baseline'', sample_trace_of ok ''candidate''] None = Inr (map const_proof qs, sample_cov, None)
    \<and> plain_metas qs \<and> sample_probe_args ok \<in> set qs
    \<and> kinds_of qs =
         sample_kinds"
proof -
  let ?ts = "[sample_trace_of ok ''baseline'', sample_trace_of ok ''candidate'']"
  obtain bs where bs: "replay_proofs (simple_proof const_digest False False) (sample_world ok) f sample_suite ?ts = Inr (map const_proof bs)"
     "kinds_of bs = [(PK_REPLAY, True), (PK_REPLAY_WELLFORMED, True)]"
     "plain_metas bs"
    using sample_second [of ok f sample_suite ?ts] by blast
  let ?st = "\<lparr> pb_proofs = (first @ map const_proof bs) @ [const_proof (sample_probe_args ok)], pb_cells = [(''c'', ''p'')], pb_missing = [],
           pb_baseline = [sample_assertion False], pb_candidate = [sample_assertion (\<not> ok)], pb_reject = None \<rparr>"
  obtain cs where cs: "closing_proofs (simple_proof const_digest False False) f sample_spec sample_suite sample_cov ?st = Inr (map const_proof cs)"
     "kinds_of cs =
         [(PK_COVERAGE, True), (PK_BASELINE_CALIBRATION, True), (PK_CANDIDATE_ABSOLUTE, True)]"
     "plain_metas cs"
    using sample_closing [of f sample_spec sample_suite sample_cov ?st] by blast
  have cov: "make_coverage [(''c'', ''p'')] True [] = Inr sample_cov"
    by (simp add: make_coverage_def sample_cov_def validated_def require_unique_cells_def)
  have "examine (simple_proof const_digest False False) (sample_world ok) f sample_spec sample_suite first ?ts None
      = Inr (map const_proof (as @ bs @ sample_probe_args ok # cs), sample_cov, None)"
    using bs(1) cs(1) cov by (simp add: examine_def sample_probing assms(1))
  moreover have "plain_metas (as @ bs @ sample_probe_args ok # cs)"
    using bs(3) cs(3) assms(2) by (simp add: plain_metas_def sample_probe_args_def)
  moreover have "kinds_of (as @ bs @ sample_probe_args ok # cs) =
         sample_kinds"
    using bs(2) cs(2) assms(3) unfolding kinds_of_def map_append list.map by (simp only: sample_probe_args_def proof_args.simps sample_kinds_def append.simps)
  moreover have "sample_probe_args ok \<in> set (as @ bs @ sample_probe_args ok # cs)" by simp
  ultimately show ?thesis by (intro exI conjI)
qed
lemma kinds_hold:
  assumes "kinds_of qs = ks" "(k, b) \<in> set ks"
  shows "\<exists>p \<in> set (map const_proof qs). pf_verdict_bearing p = b \<and> pf_kind p = k"
proof -
  from assms obtain a where "a \<in> set qs" "pa_kind a = k" "pa_verdict_bearing a = b" by (auto simp: kinds_of_def)
  then show ?thesis by (auto simp: const_proof_def Let_def intro!: bexI [of _ a])
qed

lemma sample_probe_only:
  assumes "kinds_of qs = sample_kinds" "sample_probe_args ok \<in> set qs" "a \<in> set qs" "pa_kind a = PK_PROBE"
  shows "a = sample_probe_args ok"
proof -
  have "length (filter (\<lambda>x. fst x = PK_PROBE) (kinds_of qs)) = 1"
    unfolding assms(1) by (simp add: sample_kinds_def)
  then have "length (filter (\<lambda>a. pa_kind a = PK_PROBE) qs) = 1" by (simp add: kinds_of_def filter_map o_def)
  then obtain b where b: "filter (\<lambda>a. pa_kind a = PK_PROBE) qs = [b]" by (auto simp: length_Suc_conv)
  have "a \<in> set (filter (\<lambda>a. pa_kind a = PK_PROBE) qs)" "sample_probe_args ok \<in> set (filter (\<lambda>a. pa_kind a = PK_PROBE) qs)"
    using assms(2-4) by (simp_all add: sample_probe_args_def)
  then show ?thesis unfolding b by simp
qed

lemma sample_breach:
  assumes "kinds_of qs = sample_kinds" "sample_probe_args ok \<in> set qs"
  shows "has_block_breach (map const_proof qs) \<longleftrightarrow> \<not> ok"
proof
  assume "has_block_breach (map const_proof qs)"
  then obtain a where a: "a \<in> set qs" "pa_kind a = PK_PROBE" "list_ex (\<lambda>x. \<not> as_holds x) (pa_assertions a)"
    by (auto simp: has_block_breach_def list_ex_iff bearing_probe_def has_failing_def const_proof_def Let_def)
  with sample_probe_only [OF assms] have "a = sample_probe_args ok" by blast
  with a(3) show "\<not> ok" by (simp add: sample_probe_args_def sample_assertion_def)
next
  assume "\<not> ok"
  then have "bearing_probe (const_proof (sample_probe_args ok)) \<and> has_failing (const_proof (sample_probe_args ok))"
    by (simp add: bearing_probe_def has_failing_def const_proof_def Let_def sample_probe_args_def sample_assertion_def)
  with assms(2) show "has_block_breach (map const_proof qs)"
    unfolding has_block_breach_def list_ex_iff set_map by blast
qed

text \<open>No proof of a run asks for a smaller size, so a breach withholds.\<close>

lemma sample_no_cap:
  assumes "sample_probe_args ok \<in> set qs" "\<not> ok"
  shows "reduce_size_cap_for_breaches (map const_proof qs) = None"
proof -
  have no: "proof_cap (const_proof (sample_probe_args ok)) = None"
    by (simp add: proof_cap_def const_proof_def sample_probe_args_def Let_def)
  have "breaching (const_proof (sample_probe_args ok))"
    using assms(2) by (simp add: breaching_def bearing_probe_def has_failing_def const_proof_def Let_def
        sample_probe_args_def sample_assertion_def)
  with no assms(1) have "collect_caps (map const_proof qs) = None"
    by (auto simp: collect_caps_eq list_all_iff)
  then show ?thesis by (simp add: reduce_size_cap_for_breaches_def)
qed

lemma sample_verdict:
  assumes qs: "kinds_of qs = sample_kinds" "sample_probe_args ok \<in> set qs"
    and "dc_reject_reason ctx = None"
  shows "\<exists>e. decide const_digest REQUIRED_PROOFS (map const_proof qs) sample_cov ctx = Inr e \<and>
    de_status e = (if ok then St_PASS else St_WITHHELD) \<and> (\<not> ok \<longrightarrow> de_reason_code e = RC_NEW_BLOCK_BREACH)"
proof -
  obtain cov' s t r cap did where c: "effective_coverage (map const_proof qs) sample_cov = Inr cov'"
    and v: "verdict_of REQUIRED_PROOFS (map const_proof qs) cov' ctx = (s, t, r, cap)"
    and d: "decide const_digest REQUIRED_PROOFS (map const_proof qs) sample_cov ctx = Inr
       \<lparr> de_status = s, de_verdict_tier = Some t, de_adjusted_size_cap = cap, de_reason_code = r,
         de_chain_status = dc_chain_status ctx, de_required_proof_ids = required_ids REQUIRED_PROOFS (map const_proof qs) s did,
         de_satisfied_proof_ids = required_ids REQUIRED_PROOFS (map const_proof qs) s did, de_coverage = cov',
         de_capabilities = default_capabilities (int (length (unique_sorted (map fst (cm_cells cov'))))) \<rparr>"
    by (rule decide_cases)
  have cell: "covered_cell (const_proof (sample_probe_args ok)) = Some (''c'', ''p'')"
    by (simp add: covered_cell_def bearing_probe_def const_proof_def sample_probe_args_def sample_assertion_def Let_def)
  have cc: "cm_complete cov'"
    unfolding effective_complete(1) [OF c] using qs(2) cell by (auto simp: sample_cov_def)
  have ne: "cm_cells cov' \<noteq> []" unfolding effective_complete(2) [OF c cc] by (simp add: sample_cov_def)
  have "\<forall>k \<in> set (REQUIRED_PROOFS z). k \<noteq> PK_DECISION \<longrightarrow> (k, True) \<in> set sample_kinds" if "z \<in> {St_PASS, St_WITHHELD}" for z
    using that by (auto simp: REQUIRED_PROOFS_def sample_kinds_def)
  then have kinds: "missing_kinds REQUIRED_PROOFS (map const_proof qs) z = []" if "z \<in> {St_PASS, St_WITHHELD}" for z
    unfolding missing_kinds_Nil using kinds_hold [OF qs(1), of _ True] that by blast
  have "s = (if ok then St_PASS else St_WITHHELD) \<and> (\<not> ok \<longrightarrow> r = RC_NEW_BLOCK_BREACH)"
    using v cc ne assms(3) sample_breach [OF qs] sample_no_cap [OF qs(2)] kinds
    by (cases ok) (simp_all add: verdict_of_def final_verdict_def base_verdict_def)
  with d show ?thesis by simp
qed

lemma const_proofs_plain:
  "plain_metas qs \<Longrightarrow> list_all (\<lambda>p. plain (proof_value p)) (map const_proof qs)"
  by (auto simp: plain_metas_def list_all_iff const_proof_def Let_def)

lemma issued_proofs_plain:
  assumes "issue_receipt H env ps cov a = Inr (Some r)" "list_all (\<lambda>p. plain (proof_value p)) ps"
  shows "list_all (\<lambda>p. plain (proof_value p)) (rc_proofs r)"
proof -
  from assms(1) obtain dp where dp: "make_decision_proof H env ps (ia_include_baseline_receipt a) (ia_include_trust_policy a) False = Inr dp"
    "rc_proofs r = with_decision ps dp"
    by (auto simp: issue_receipt_def rbind_Inr_iff Let_def draft_receipt_def split: if_splits)
  from dp(1) have "pf_meta dp = []" by (auto simp: make_decision_proof_def rbind_Inr_iff Let_def)
  with dp(2) assms(2) show ?thesis by (simp add: with_decision_def)
qed

lemma to_report_total:
  assumes "list_all (\<lambda>p. plain (proof_value p)) (rc_proofs r)" "list_all (\<lambda>t. plain (replay_trace_value t)) traces"
  shows "\<exists>js. to_report H env (Some r) traces ps = Inr js"
proof -
  have "plain (report_body env (Some r) traces (rc_proofs r))"
    using assms by (simp add: report_body_def opt_value_def list_all_iff)
  then obtain j where j: "normalize False (report_body env (Some r) traces (rc_proofs r)) = Inr j"
    using plain_normalizes by blast
  then obtain js where "j = JObj js" unfolding report_body_def using normalize_dict_Inr by blast
  with j show ?thesis by (simp add: to_report_def)
qed

lemma seal_receipt_total:
  assumes "list_all (\<lambda>p. plain (proof_value p)) (rc_proofs r)" "list_all (\<lambda>t. plain (replay_trace_value t)) traces"
  shows "\<exists>x. seal_receipt H env r traces ps = Inr x"
proof -
  obtain js where js: "to_report H env (Some r) traces ps = Inr js" using to_report_total [OF assms] by blast
  define r1 where "r1 = r\<lparr> rc_report := (rc_report r)\<lparr> rpi_report_hash := (case json_text js ''report_hash'' of Some h \<Rightarrow> h | None \<Rightarrow> []) \<rparr> \<rparr>"
  have p: "list_all (\<lambda>p. plain (proof_value p)) (rc_proofs r1)" using assms(1) by (simp add: r1_def)
  from plain_hashes [OF plain_receipt [OF p]] obtain h where h: "compute_receipt_hash H r1 = Inr h"
    unfolding compute_receipt_hash_def by blast
  have "list_all (\<lambda>p. plain (proof_value p)) (rc_proofs (r1\<lparr> rc_receipt_hash := h \<rparr>))" using p by simp
  from to_report_total [OF this assms(2)] obtain js' where "to_report H env (Some (r1\<lparr> rc_receipt_hash := h \<rparr>)) traces ps = Inr js'" by blast
  with js h show ?thesis by (simp add: seal_receipt_def r1_def [symmetric] Let_def)
qed

lemma sample_finish:
  assumes qs: "kinds_of qs =
         sample_kinds" "sample_probe_args ok \<in> set qs"
    and plain: "plain_metas qs"
      "list_all (\<lambda>t. plain (replay_trace_value t)) traces"
  shows "\<exists>x r. finish_run const_digest (sample_world ok) sample_run_args (sample_inputs ok) traces (map const_proof qs, sample_cov, None) = Inr x
    \<and> de_status (rx_envelope x) = (if ok then St_PASS else St_WITHHELD)
    \<and> (\<not> ok \<longrightarrow> de_reason_code (rx_envelope x) = RC_NEW_BLOCK_BREACH) \<and> rx_receipt x = Some r
    \<and> (\<exists>dp. make_decision_proof const_digest (rx_envelope x) (map const_proof qs) False False False = Inr dp
        \<and> rc_proofs r = with_decision (map const_proof qs) dp)"
proof -
  let ?ctx = "\<lparr> dc_suite_id = su_suite_id (rn_suite (sample_inputs ok)), dc_spec_hash = rf_spec_hash (rn_facts (sample_inputs ok)),
    dc_chain_status = fst (rn_chain (sample_inputs ok)), dc_reject_reason = None \<rparr>"
  obtain e where e: "decide const_digest REQUIRED_PROOFS (map const_proof qs) sample_cov ?ctx = Inr e" "de_status e = (if ok then St_PASS else St_WITHHELD)" "\<not> ok \<longrightarrow> de_reason_code e = RC_NEW_BLOCK_BREACH"
    using sample_verdict [OF qs, of ?ctx] by auto
  define env where "env = e\<lparr> de_capabilities := (de_capabilities e)\<lparr> cps_qwen_compile := qwen_compile (rn_spec (sample_inputs ok)) \<rparr> \<rparr>"
  have st: "de_status env = (if ok then St_PASS else St_WITHHELD)" "\<not> ok \<longrightarrow> de_reason_code env = RC_NEW_BLOCK_BREACH"
    using e(2,3) by (simp_all add: env_def)
  then have "de_status env \<in> {St_PASS, St_WITHHELD, St_REDUCE_SIZE}" by simp
  note total = issue_receipt_total [OF const_proofs_plain [OF plain(1)] _ this]
  have "hash_tree const_digest (wo_engine_tree (sample_world ok)) = Inr ''sha256:h''"
    by (simp add: sample_world_def hash_tree_def iter_canonical_files_def const_hash tree_value_def)
  moreover have "runner_lock_hash const_digest (sample_world ok) h = Inr ''sha256:h''" for h
    by (simp add: runner_lock_hash_def const_hash)
  moreover have "su_suite_lock_hash (rn_suite (sample_inputs ok)) = Some ''sha256:h''" by (simp add: sample_inputs_def sample_suite_def)
  moreover have ad: "ia_package_adapter_id (issue_args_of (sample_world ok) sample_run_args (sample_inputs ok) s eh lh) = PLAYBOOK_ADAPTER_ID" for s eh lh
    by (simp add: issue_args_of_def sample_inputs_def Let_def)
  moreover obtain r where r: "issue_receipt const_digest env (map const_proof qs) sample_cov
      (issue_args_of (sample_world ok) sample_run_args (sample_inputs ok) ''sha256:h'' ''sha256:h'' ''sha256:h'') = Inr (Some r)"
    using total [OF ad] by blast
  moreover obtain r' js where sealed: "seal_receipt const_digest env r traces (map const_proof qs) = Inr (r', js)"
    using seal_receipt_total [OF issued_proofs_plain [OF r const_proofs_plain [OF plain(1)]] plain(2)] by (metis surj_pair)
  moreover have "\<exists>dp. make_decision_proof const_digest env (map const_proof qs) False False False = Inr dp
      \<and> rc_proofs r' = with_decision (map const_proof qs) dp"
  proof -
    have "rc_proofs r' = rc_proofs r" using sealed by (auto simp: seal_receipt_def rbind_Inr_iff Let_def)
    with r show ?thesis
      by (auto simp: issue_receipt_def rbind_Inr_iff Let_def draft_receipt_def issue_args_of_def sample_flags split: if_splits)
  qed
  ultimately show ?thesis
    using e st by (auto simp: finish_run_def env_def [symmetric] Let_def)
qed

lemma sample_run:
  "\<exists>x r qs. run_redline const_digest sample_crypto (sample_world ok) sample_run_args = Inr x
    \<and> de_status (rx_envelope x) = (if ok then St_PASS else St_WITHHELD)
    \<and> (\<not> ok \<longrightarrow> de_reason_code (rx_envelope x) = RC_NEW_BLOCK_BREACH) \<and> rx_receipt x = Some r
    \<and> kinds_of qs = sample_kinds
    \<and> (\<exists>dp. make_decision_proof const_digest (rx_envelope x) (map const_proof qs) False False False = Inr dp
        \<and> rc_proofs r = with_decision (map const_proof qs) dp)"
proof -
  obtain as where as: "first_proofs (simple_proof const_digest False False) sample_run_args sample_spec (rn_facts (sample_inputs ok)) = Inr (map const_proof as)"
     "kinds_of as = [(PK_PACKAGE_CANONICAL, True), (PK_EDIT_PROVENANCE, False), (PK_SPEC_COMPILE, True)]"
     "plain_metas as"
    using sample_first [of sample_run_args sample_spec "rn_facts (sample_inputs ok)"] by blast
  let ?ts = "[sample_trace_of ok ''baseline'', sample_trace_of ok ''candidate'']"
  obtain qs where qs: "examine (simple_proof const_digest False False) (sample_world ok) (rn_facts (sample_inputs ok)) sample_spec sample_suite
      (map const_proof as) ?ts None = Inr (map const_proof qs, sample_cov, None)"
    "plain_metas qs" "sample_probe_args ok \<in> set qs" "kinds_of qs = sample_kinds"
    using sample_examined [OF refl as(3,2)] by blast
  have "list_all (\<lambda>t. plain (replay_trace_value t)) ?ts"
    using sample_points_plain by (simp add: replay_trace_value_def sample_traces list_all_iff)
  from sample_finish [OF qs(4,3,2) this] obtain x r dp where
    "finish_run const_digest (sample_world ok) sample_run_args (sample_inputs ok) ?ts (map const_proof qs, sample_cov, None) = Inr x"
    "de_status (rx_envelope x) = (if ok then St_PASS else St_WITHHELD)"
    "\<not> ok \<longrightarrow> de_reason_code (rx_envelope x) = RC_NEW_BLOCK_BREACH" "rx_receipt x = Some r"
    "make_decision_proof const_digest (rx_envelope x) (map const_proof qs) False False False = Inr dp"
    "rc_proofs r = with_decision (map const_proof qs) dp" by blast
  moreover have "rn_spec (sample_inputs ok) = sample_spec" "rn_suite (sample_inputs ok) = sample_suite"
    "rn_baseline_dir (sample_inputs ok) = sample_role ok" "rn_candidate_dir (sample_inputs ok) = sample_role ok"
    by (simp_all add: sample_inputs_def)
  then have "run_redline const_digest sample_crypto (sample_world ok) sample_run_args
      = finish_run const_digest (sample_world ok) sample_run_args (sample_inputs ok) ?ts (map const_proof qs, sample_cov, None)"
    using as(1) qs(1) by (simp add: run_redline_def sample_inputs_read sample_flags sample_replay_all)
  ultimately show ?thesis using qs(4) by auto
qed

theorem run_pass_means_witness:
  "\<exists>x tc. run_redline const_digest sample_crypto (sample_world True) sample_run_args = Inr x \<and> tc \<in> set (rx_traces x)
    \<and> probe_meaning PT_MAX_DRAWDOWN tc [(''max_drawdown'', ''0.1'')]"
proof -
  obtain x where x: "run_redline const_digest sample_crypto (sample_world True) sample_run_args = Inr x" "de_status (rx_envelope x) = St_PASS"
    using sample_run [of True] by auto
  have "rs_probes sample_spec = [\<lparr> ps_id = ''p'', ps_type = PT_MAX_DRAWDOWN, ps_params = [(''max_drawdown'', ''0.1'')], ps_block = True \<rparr>]"
    by (simp add: sample_spec_def)
  with run_pass_means [OF x] sample_inputs_read x(1) show ?thesis
    by (auto simp: sample_inputs_def sample_suite_def)
qed

end
