(* ===== verification/Verifier.thy ===== *)
theory Verifier
  imports Runner
begin

text \<open>
  \<open>src/redline/verifier.py\<close>: the checks of a receipt against the files beside it and against a new run of the
  package, and what a positive answer is worth.
\<close>

section \<open>Results\<close>

record verification_result =
  vr_status :: verification_status
  vr_reason :: reason_code
  vr_level :: verification_level
  vr_receipt_hash :: "string option"
  vr_strength_summary :: string
  vr_chain_status :: chain_status
  vr_edit_provenance_present :: bool
  vr_complete :: bool
  vr_missing :: "string list"

definition bad_result :: "reason_code \<Rightarrow> verification_level \<Rightarrow> verification_result" where
  "bad_result reason level =
     \<lparr> vr_status = VS_BAD_INPUT, vr_reason = reason, vr_level = level, vr_receipt_hash = None, vr_strength_summary = '''',
       vr_chain_status = CS_GENESIS, vr_edit_provenance_present = False, vr_complete = False, vr_missing = [] \<rparr>"

definition result_of :: "verification_status \<Rightarrow> receipt \<Rightarrow> reason_code \<Rightarrow> verification_level \<Rightarrow> bool \<Rightarrow> string list \<Rightarrow> verification_result" where
  "result_of s r reason level compl miss =
     \<lparr> vr_status = s, vr_reason = reason, vr_level = level, vr_receipt_hash = Some (rc_receipt_hash r),
       vr_strength_summary = rc_strength_summary r, vr_chain_status = bi_chain_status (rc_baseline r),
       vr_edit_provenance_present = True, vr_complete = compl, vr_missing = miss \<rparr>"

definition unverified_result :: "receipt \<Rightarrow> reason_code \<Rightarrow> verification_level \<Rightarrow> verification_result" where
  "unverified_result r reason level =
     result_of VS_UNVERIFIED_NO_VERDICT r reason level (cm_complete (rc_coverage r)) (cm_missing (rc_coverage r))"

definition reject_result :: "receipt \<Rightarrow> reason_code \<Rightarrow> verification_level \<Rightarrow> verification_result" where
  "reject_result r reason level =
     result_of VS_REJECTED r reason level (cm_complete (rc_coverage r)) (cm_missing (rc_coverage r))"

section \<open>The receipt alone\<close>

definition SINGLETON_PROOF_KINDS :: "proof_kind list" where
  "SINGLETON_PROOF_KINDS =
     [PK_PACKAGE_CANONICAL, PK_SPEC_COMPILE, PK_REPLAY, PK_REPLAY_WELLFORMED, PK_COVERAGE, PK_BASELINE_CALIBRATION,
      PK_CANDIDATE_ABSOLUTE, PK_DECISION]"

definition NON_VERDICT_PROOF_KINDS :: "proof_kind list" where
  "NON_VERDICT_PROOF_KINDS = [PK_EDIT_PROVENANCE, PK_SPONSOR_READBACK]"

definition missing_required_proof_ids :: "receipt \<Rightarrow> status \<Rightarrow> string list" where
  "missing_required_proof_ids r s =
     (let expected = concat (map (ids_of_kind (rc_proofs r)) (REQUIRED_PROOFS s));
          missing = map kind_value (filter (\<lambda>k. ids_of_kind (rc_proofs r) k = []) (REQUIRED_PROOFS s));
          required = rd_required_proof_ids (rc_decision r)
      in unique_sorted
           (missing @ (if same_members expected required then [] else symmetric_difference_sorted required expected)))"

definition single_proof :: "receipt \<Rightarrow> proof_kind \<Rightarrow> proof_rec option" where
  "single_proof r k = (case filter (\<lambda>p. pf_kind p = k) (rc_proofs r) of [p] \<Rightarrow> Some p | _ \<Rightarrow> None)"

definition package_artifact :: "receipt \<Rightarrow> pyval" where
  "package_artifact r =
     PDict [(''package_hash'', PStr (pi_identity_hash (rc_package r))),
            (''baseline_hash'', PStr (bi_package_hash (rc_baseline r))),
            (''candidate_hash'', PStr (ci_package_hash (rc_candidate r))),
            (''adapter_id'', PStr PLAYBOOK_ADAPTER_ID),
            (''identity_lock_hash'', PStr (pi_identity_lock_hash (rc_package r)))]"

text \<open>\<open>if found is not None and ...\<close> on the one proof of a kind.\<close>

definition on_single :: "receipt \<Rightarrow> proof_kind \<Rightarrow> (proof_rec \<Rightarrow> exn + bool) \<Rightarrow> exn + bool" where
  "on_single r k f = (case single_proof r k of None \<Rightarrow> Inr True | Some p \<Rightarrow> f p)"

definition decision_proof_ok :: "(string \<Rightarrow> string) \<Rightarrow> receipt \<Rightarrow> proof_rec \<Rightarrow> exn + bool" where
  "decision_proof_ok H r dp =
     (let others = filter (\<lambda>p. pf_kind p \<noteq> PK_DECISION) (rc_proofs r)
      in rbind (decision_proof_id H (re_status (rc_result r)) (rd_reason_code (rc_decision r)) (map pf_proof_id others)
                  (rc_coverage r) (rd_verdict_tier (rc_decision r)) (rd_adjusted_size_cap (rc_decision r))) (\<lambda>pid.
         if pf_proof_id dp \<noteq> pid then Inr False
         else rbind (traverse (\<lambda>p. hash_obj H True (proof_value p)) others) (\<lambda>fps.
              rbind (hash_obj H True (decision_inputs (sort fps) (sort (map pf_proof_id others)) (rc_coverage r))) (\<lambda>ih.
              if pf_inputs_hash dp \<noteq> ih then Inr False
              else rbind (decision_envelope_from_receipt r) (\<lambda>env.
                   rbind (hash_obj H True (envelope_value env)) (\<lambda>ah. Inr (pf_artifact_hash dp = ah)))))))"

text \<open>\<open>_receipt_binding_error\<close>; every mismatch it finds is \<open>RECEIPT_MISMATCH\<close>.\<close>

definition receipt_binding_error :: "(string \<Rightarrow> string) \<Rightarrow> receipt \<Rightarrow> exn + reason_code option" where
  "receipt_binding_error H r =
     (if pi_manifest_hash (rc_package r) \<noteq> pi_identity_hash (rc_package r) then mismatch
      else if has_duplicates (map pf_proof_id (rc_proofs r)) then mismatch
      else if list_ex (\<lambda>p. pf_kind p \<in> set NON_VERDICT_PROOF_KINDS \<and> pf_verdict_bearing p) (rc_proofs r) then mismatch
      else if list_ex (\<lambda>k. 1 < length (filter (\<lambda>p. pf_kind p = k) (rc_proofs r))) SINGLETON_PROOF_KINDS then mismatch
      else rbind (hash_obj H True (result_payload (re_status (rc_result r)) (re_new_breaches (rc_result r)))) (\<lambda>rh.
        if re_result_hash (rc_result r) \<noteq> rh then mismatch
        else rbind (on_single r PK_PACKAGE_CANONICAL (\<lambda>p.
                      rbind (hash_obj H True (package_artifact r)) (\<lambda>h. Inr (pf_artifact_hash p = h)))) (\<lambda>ok.
        if \<not> ok then mismatch
        else rbind (on_single r PK_COVERAGE (\<lambda>p.
                      rbind (hash_obj H True (coverage_value (rc_coverage r))) (\<lambda>h. Inr (pf_artifact_hash p = h)))) (\<lambda>ok.
        if \<not> ok then mismatch
        else rbind (on_single r PK_DECISION (decision_proof_ok H r)) (\<lambda>ok. if ok then Inr None else mismatch)))))"

section \<open>The files beside it\<close>

text \<open>The directory \<open>proofs\<close>: \<open>None\<close> when there is none, else its \<open>*.json\<close> files by name.\<close>

type_synonym proofs_dir = "(string \<times> proof_rec jfile) list option"

definition proof_file_name :: "string \<Rightarrow> string" where
  "proof_file_name i = map (\<lambda>c. if c = CHR '':'' then CHR ''_'' else c) i @ ''.json''"

text \<open>Equality of two proofs; the order of the members of \<open>meta\<close> does not matter.\<close>

definition same_dict :: "(string \<times> pyval) list \<Rightarrow> (string \<times> pyval) list \<Rightarrow> bool" where
  "same_dict a b = list_all (\<lambda>k. map_of a k = map_of b k) (map fst a @ map fst b)"

definition same_proof :: "proof_rec \<Rightarrow> proof_rec \<Rightarrow> bool" where
  "same_proof p q = (p\<lparr> pf_meta := [] \<rparr> = q\<lparr> pf_meta := [] \<rparr> \<and> same_dict (pf_meta p) (pf_meta q))"

definition proof_file_ok :: "(string \<times> proof_rec jfile) list \<Rightarrow> proof_rec \<Rightarrow> bool" where
  "proof_file_ok files p =
     (case map_of files (proof_file_name (pf_proof_id p)) of
        Some (File q) \<Rightarrow> proof_file_name (pf_proof_id p) = proof_file_name (pf_proof_id q) \<and> same_proof q p
      | _ \<Rightarrow> False)"

definition external_proofs_error :: "receipt \<Rightarrow> proofs_dir \<Rightarrow> reason_code option" where
  "external_proofs_error r dir =
     (case dir of
        None \<Rightarrow> Some RC_RECEIPT_MISMATCH
      | Some files \<Rightarrow>
          if sort (map fst files) \<noteq> sort (map (\<lambda>p. proof_file_name (pf_proof_id p)) (rc_proofs r))
          then Some RC_RECEIPT_MISMATCH
          else if \<not> list_all (proof_file_ok files) (rc_proofs r) then Some RC_RECEIPT_MISMATCH
          else if has_duplicates (map pf_proof_id (rc_proofs r)) then Some RC_RECEIPT_MISMATCH else None)"

text \<open>A report file is its validated content as \<open>model_dump(mode="json")\<close> gives it back. Python compares two dicts
  by members, the model by their text with sorted keys.\<close>

definition external_report_error ::
  "(string \<Rightarrow> string) \<Rightarrow> jobject jfile \<Rightarrow> jobject \<Rightarrow> receipt \<Rightarrow> exn + reason_code option" where
  "external_report_error H f expected r =
     (case f of
        No_File \<Rightarrow> mismatch
      | Bad_File e \<Rightarrow> if is_file_error e then mismatch else Inl e
      | File js \<Rightarrow>
          (let recomputed =
             hash_json H (JObj (filter (\<lambda>(k, v). k \<noteq> ''report_hash'') (put_json ''receipt_hash'' JNull js)))
           in if json_text js ''report_hash'' \<noteq> Some recomputed then mismatch
              else if recomputed \<noteq> rpi_report_hash (rc_report r) then mismatch
              else if sort_keys (JObj js) \<noteq> sort_keys (JObj expected) then mismatch else Inr None))"

section \<open>A new run\<close>

definition proof_fingerprint :: "(string \<Rightarrow> string) \<Rightarrow> proof_rec list \<Rightarrow> exn + string list" where
  "proof_fingerprint H ps = rbind (traverse (\<lambda>p. hash_obj H True (proof_value p)) ps) (\<lambda>hs. Inr (sort hs))"

definition rerun_args ::
  "receipt \<Rightarrow> (receipt jfile \<times> ledger_files) option \<Rightarrow> trust_policy jfile option \<Rightarrow> run_args" where
  "rerun_args r br policy =
     \<lparr> ra_baseline = bi_package_name (rc_baseline r), ra_candidate = ci_package_name (rc_candidate r),
       ra_edit_provenance = Some (rc_edit_provenance r), ra_baseline_receipt = br, ra_trust_policy = policy,
       ra_baseline_version_id = None, ra_candidate_version_id = None \<rparr>"

text \<open>The guarded part of \<open>_replay_error\<close>: \<open>Inl\<close> is any exception, \<open>Inr (Inl reason)\<close> an early answer.\<close>

definition guarded_rerun ::
  "(string \<Rightarrow> string) \<Rightarrow> crypto \<Rightarrow> world \<Rightarrow> receipt \<Rightarrow> receipt jfile \<times> ledger_files \<Rightarrow> trust_policy jfile option \<Rightarrow>
   exn + (reason_code + run_artifacts)" where
  "guarded_rerun H cy w r br policy =
     rbind (load_spec (wo_spec w)) (\<lambda>spec.
     rbind (load_suite H w (wo_suite w)) (\<lambda>s.
     rbind (case su_suite_lock_hash s of
              Some h \<Rightarrow> if h = '''' then hash_obj H True (suite_value s) else Inr h
            | None \<Rightarrow> hash_obj H True (suite_value s)) (\<lambda>lock_hash.
     rbind (hash_obj H True (redline_spec_value spec)) (\<lambda>spec_hash.
       let was_chained = (bi_chain_status (rc_baseline r) = CS_CHAINED)
       in if spec_hash \<noteq> si_spec_hash (rc_spec r) \<or> lock_hash \<noteq> sui_suite_lock_hash (rc_suite r)
          then Inr (Inl RC_RECEIPT_BINDING_FAILED)
          else if was_chained \<and> \<not> file_exists (fst br) then Inr (Inl RC_DATA_MISSING)
          else rbind (run_redline H cy w
                        (rerun_args r (if was_chained then Some br else None) (if was_chained then policy else None)))
                 (\<lambda>x. Inr (Inr x))))))"

definition rerun_agrees :: "(string \<Rightarrow> string) \<Rightarrow> receipt \<Rightarrow> run_artifacts \<Rightarrow> receipt \<Rightarrow> exn + bool" where
  "rerun_agrees H r x rr =
     (if ri_engine_source_tree_hash (rc_runner rr) \<noteq> ri_engine_source_tree_hash (rc_runner r) then Inr False
      else if ri_runner_lock_hash (rc_runner rr) \<noteq> ri_runner_lock_hash (rc_runner r) then Inr False
      else if de_status (rx_envelope x) \<noteq> re_status (rc_result r) then Inr False
      else if de_reason_code (rx_envelope x) \<noteq> rd_reason_code (rc_decision r) then Inr False
      else if de_coverage (rx_envelope x) \<noteq> rc_coverage r then Inr False
      else if \<not> same_members (de_required_proof_ids (rx_envelope x)) (rd_required_proof_ids (rc_decision r)) then Inr False
      else rbind (proof_fingerprint H (rc_proofs rr)) (\<lambda>a.
           rbind (proof_fingerprint H (rc_proofs r)) (\<lambda>b.
             if a \<noteq> b then Inr False
             else if render_strength_summary rr \<noteq> rc_strength_summary r then Inr False
             else Inr (rpi_report_hash (rc_report rr) = rpi_report_hash (rc_report r)))))"

definition replay_error ::
  "(string \<Rightarrow> string) \<Rightarrow> crypto \<Rightarrow> world \<Rightarrow> receipt \<Rightarrow> jobject jfile \<Rightarrow> receipt jfile \<times> ledger_files \<Rightarrow>
   trust_policy jfile option \<Rightarrow> exn + reason_code option" where
  "replay_error H cy w r report br policy =
     (case guarded_rerun H cy w r br policy of
        Inl e \<Rightarrow> Inr (Some RC_ENGINE_FAILURE)
      | Inr (Inl reason) \<Rightarrow> Inr (Some reason)
      | Inr (Inr x) \<Rightarrow>
          (case rx_receipt x of
             None \<Rightarrow> Inr (Some (de_reason_code (rx_envelope x)))
           | Some rr \<Rightarrow>
               rbind (rerun_agrees H r x rr) (\<lambda>ok.
                 if \<not> ok then Inr (Some RC_ENGINE_IDENTITY_MISMATCH)
                 else rbind (to_report H (rx_envelope x) (Some r) (rx_traces x) []) (\<lambda>expected.
                      external_report_error H report expected r))))"

section \<open>verify\<close>

text \<open>The receipt file: missing, not readable as JSON, JSON that is no object, or an object with the value of its
  \<open>version\<close> and the outcome of validating it.\<close>

datatype receipt_file =
    Receipt_Missing
  | Receipt_Unreadable exn
  | Receipt_Not_Object
  | Receipt_Object "pyval option" "exn + receipt"

text \<open>The arguments. \<open>va_world\<close> holds package, suite and specification for a new run, the three flags say which
  of the paths were given. Explicit files are options; \<open>va_default_ledger\<close> are the files beside the receipt.
  An explicit ledger path says whether it is the default one.\<close>

record verify_args =
  va_receipt :: receipt_file
  va_level :: "verification_level option"
  va_package_given :: bool
  va_suite_given :: bool
  va_spec_given :: bool
  va_world :: world
  va_ledger :: "(bool \<times> ledger_line list jfile) option"
  va_checkpoint :: "ledger_checkpoint jfile option"
  va_attestation :: "attestation jfile option"
  va_default_files :: ledger_files
  va_trust :: trust_inputs
  va_baseline_receipt :: "(receipt jfile \<times> ledger_files) option"
  va_default_baseline :: "receipt jfile \<times> ledger_files"
  va_report :: "jobject jfile option"
  va_default_report :: "jobject jfile"
  va_proofs :: proofs_dir

definition given_or :: "'a option \<Rightarrow> 'a \<Rightarrow> 'a" where
  "given_or x d = (case x of Some y \<Rightarrow> y | None \<Rightarrow> d)"

definition trust_given :: "verify_args \<Rightarrow> bool" where
  "trust_given v = (ti_public_key (va_trust v) \<noteq> None \<or> ti_policy (va_trust v) \<noteq> None)"

definition verify_ledger :: "(string \<Rightarrow> string) \<Rightarrow> crypto \<Rightarrow> verify_args \<Rightarrow> receipt \<Rightarrow> verification_level \<Rightarrow> exn + reason_code option" where
  "verify_ledger H cy v r level =
     ledger_error H cy (wo_now (va_world v)) r
       (case va_ledger v of Some (_, f) \<Rightarrow> f | None \<Rightarrow> lf_ledger (va_default_files v))
       (if level = VL_REPLAYED then Some (given_or (va_checkpoint v) (lf_checkpoint (va_default_files v)))
        else va_checkpoint v)
       (if trust_given v then Some (given_or (va_attestation v) (lf_attestation (va_default_files v)))
        else va_attestation v)
       (va_trust v)"

text \<open>The branch \<open>level == REPLAYED and package is not None\<close>: \<open>Inr None\<close> goes on.\<close>

definition verify_package ::
  "(string \<Rightarrow> string) \<Rightarrow> crypto \<Rightarrow> verify_args \<Rightarrow> receipt \<Rightarrow> verification_level \<Rightarrow> exn + verification_result option" where
  "verify_package H cy v r level =
     (if \<not> va_suite_given v \<or> \<not> va_spec_given v
      then Inr (Some (result_of VS_UNVERIFIED_NO_VERDICT r RC_DATA_MISSING level True []))
      else case hash_tree H (wo_package (va_world v)) of
             Inl (CanonicalizationError reason) \<Rightarrow> Inr (Some (reject_result r reason level))
           | Inl e \<Rightarrow> if is_os_error e \<or> is_value_error e then Inr (Some (bad_result RC_FILE_NOT_FOUND level)) else Inl e
           | Inr package_hash \<Rightarrow>
               if package_hash \<noteq> pi_identity_hash (rc_package r)
               then Inr (Some (reject_result r RC_RECEIPT_BINDING_FAILED level))
               else (case load_identity_lock H (case wo_package (va_world v) of Tree fs \<Rightarrow> fs | _ \<Rightarrow> []) (wo_lock (va_world v)) of
                       Inl (CanonicalizationError _) \<Rightarrow> Inr (Some (reject_result r RC_RECEIPT_BINDING_FAILED level))
                     | Inl e \<Rightarrow> Inl e
                     | Inr l \<Rightarrow>
                         if pil_lock_hash l \<noteq> pi_identity_lock_hash (rc_package r)
                         then Inr (Some (reject_result r RC_RECEIPT_BINDING_FAILED level))
                         else (case external_proofs_error r (va_proofs v) of
                                 Some reason \<Rightarrow> Inr (Some (reject_result r reason level))
                               | None \<Rightarrow>
                                   rbind (replay_error H cy (va_world v) r
                                            (given_or (va_report v) (va_default_report v))
                                            (given_or (va_baseline_receipt v) (va_default_baseline v))
                                            (ti_policy (va_trust v))) (\<lambda>err.
                                     Inr (map_option (\<lambda>reason. reject_result r reason level) err)))))"

definition verify_receipt ::
  "(string \<Rightarrow> string) \<Rightarrow> crypto \<Rightarrow> verify_args \<Rightarrow> verification_level \<Rightarrow> receipt \<Rightarrow> exn + verification_result" where
  "verify_receipt H cy v level r =
     rbind (compute_receipt_hash H r) (\<lambda>recomputed.
     if recomputed \<noteq> rc_receipt_hash r then Inr (reject_result r RC_RECEIPT_MISMATCH level)
     else if missing_required_proof_ids r (re_status (rc_result r)) \<noteq> []
     then Inr (result_of VS_UNVERIFIED_NO_VERDICT r RC_UNVERIFIED_NO_VERDICT level False
                 (missing_required_proof_ids r (re_status (rc_result r))))
     else rbind (receipt_binding_error H r) (\<lambda>binding.
     case binding of Some reason \<Rightarrow> Inr (reject_result r reason level) | None \<Rightarrow>
     if level = VL_REPLAYED \<and> (case va_ledger v of Some (is_default, _) \<Rightarrow> \<not> is_default | None \<Rightarrow> False)
     then Inr (reject_result r RC_RECEIPT_MISMATCH level)
     else rbind (verify_ledger H cy v r level) (\<lambda>ledger.
     case ledger of Some reason \<Rightarrow> Inr (reject_result r reason level) | None \<Rightarrow>
     if \<not> cm_complete (rc_coverage r)
     then Inr (result_of VS_UNVERIFIED_NO_VERDICT r RC_COVERAGE_INCOMPLETE level False (cm_missing (rc_coverage r)))
     else if render_strength_summary r \<noteq> rc_strength_summary r then Inr (reject_result r RC_RECEIPT_MISMATCH level)
     else if level = VL_HASH_ONLY \<or> \<not> va_package_given v
     then Inr (result_of VS_UNVERIFIED_NO_VERDICT r RC_UNVERIFIED_NO_VERDICT level True [])
     else rbind (verify_package H cy v r level) (\<lambda>answer.
     case answer of Some result \<Rightarrow> Inr result | None \<Rightarrow>
     if rd_reason_code (rc_decision r) = RC_BASELINE_GENESIS
     then Inr (unverified_result r RC_BASELINE_GENESIS level)
     else if re_status (rc_result r) = St_PASS \<and> \<not> trust_given v
     then Inr (unverified_result r RC_BASELINE_UNCHAINED level)
     else Inr (result_of VS_VERIFIED r (rd_reason_code (rc_decision r)) level True [])))))"

definition verify :: "(string \<Rightarrow> string) \<Rightarrow> crypto \<Rightarrow> verify_args \<Rightarrow> exn + verification_result" where
  "verify H cy v =
     (let level = given_or (va_level v) VL_HASH_ONLY
      in case va_receipt v of
           Receipt_Missing \<Rightarrow> Inr (bad_result RC_FILE_NOT_FOUND level)
         | Receipt_Unreadable e \<Rightarrow>
             if is_os_error e \<or> e = JSONDecodeError then Inr (bad_result RC_PARSE_ERROR level) else Inl e
         | Receipt_Not_Object \<Rightarrow> Inl AttributeError
         | Receipt_Object version outcome \<Rightarrow>
             if version \<noteq> Some (PStr ''redline.receipt.v3.2'') \<and> version \<noteq> Some (PStr ''redline.receipt.v3.3'')
             then Inr (bad_result RC_VERSION_UNSUPPORTED level)
             else (case outcome of
                     Inl e \<Rightarrow> if e = ValidationError then Inr (bad_result RC_SCHEMA_INVALID level) else Inl e
                   | Inr r \<Rightarrow> verify_receipt H cy v level r))"

section \<open>One proof, and the bundle of a rejected run\<close>

record proof_verification =
  pv_status :: string
  pv_proof_id :: string
  pv_artifact_hash :: "string option"
  pv_reason :: reason_code

definition proof_answer :: "string \<Rightarrow> string \<Rightarrow> string option \<Rightarrow> reason_code \<Rightarrow> proof_verification" where
  "proof_answer s i ah reason = \<lparr> pv_status = s, pv_proof_id = i, pv_artifact_hash = ah, pv_reason = reason \<rparr>"

definition leak_free_proof_error :: "proof_rec \<Rightarrow> reason_code option" where
  "leak_free_proof_error p =
     (if pf_kind p \<noteq> PK_REPLAY then None
      else if pf_fill_model p \<noteq> Some ''next_bar_open'' then Some RC_PROOF_HASH_MISMATCH
      else if pf_lookahead_guard p \<noteq> Some ''structural_next_bar'' then Some RC_PROOF_HASH_MISMATCH
      else if pf_fees_modeled p \<noteq> Some True then Some RC_PROOF_HASH_MISMATCH else None)"

definition find_proof :: "string \<Rightarrow> proof_rec list \<Rightarrow> proof_rec option" where
  "find_proof i ps = find (\<lambda>p. pf_proof_id p = i) ps"

definition verify_proof ::
  "(string \<Rightarrow> string) \<Rightarrow> crypto \<Rightarrow> verify_args \<Rightarrow> receipt jfile \<Rightarrow> string \<Rightarrow> exn + proof_verification" where
  "verify_proof H cy v f i =
     (case read_json f of
        Inl e \<Rightarrow> Inr (proof_answer ''proof_unreplayable'' i None RC_PARSE_ERROR)
      | Inr r \<Rightarrow>
          rbind (compute_receipt_hash H r) (\<lambda>h.
          if h \<noteq> rc_receipt_hash r then Inr (proof_answer ''proof_mismatch'' i None RC_RECEIPT_MISMATCH)
          else rbind (receipt_binding_error H r) (\<lambda>binding.
          if binding \<noteq> None then Inr (proof_answer ''proof_mismatch'' i None RC_RECEIPT_MISMATCH)
          else case find_proof i (rc_proofs r) of
                 None \<Rightarrow> Inr (proof_answer ''proof_mismatch'' i None RC_RECEIPT_MISMATCH)
               | Some p \<Rightarrow>
                   (case map_of (case va_proofs v of None \<Rightarrow> [] | Some fs \<Rightarrow> fs) (proof_file_name i) of
                      Some (File q) \<Rightarrow>
                        if \<not> same_proof q p then Inr (proof_answer ''proof_mismatch'' i None RC_PROOF_HASH_MISMATCH)
                        else (case leak_free_proof_error p of
                                Some reason \<Rightarrow> Inr (proof_answer ''proof_mismatch'' i None reason)
                              | None \<Rightarrow>
                                  if \<not> va_package_given v
                                  then Inr (proof_answer ''proof_unreplayable'' i (Some (pf_artifact_hash p)) RC_DATA_MISSING)
                                  else if \<not> va_suite_given v \<or> \<not> va_spec_given v
                                  then Inr (proof_answer ''proof_unreplayable'' i None RC_DATA_MISSING)
                                  else if external_proofs_error r (va_proofs v) \<noteq> None
                                  then Inr (proof_answer ''proof_mismatch'' i None RC_RECEIPT_MISMATCH)
                                  else (case run_redline H cy (va_world v)
                                                (rerun_args r (va_baseline_receipt v) (ti_policy (va_trust v))) of
                                          Inl e \<Rightarrow> Inr (proof_answer ''proof_unreplayable'' i None RC_ENGINE_FAILURE)
                                        | Inr x \<Rightarrow>
                                            (case find_proof i (case rx_receipt x of Some rr \<Rightarrow> rc_proofs rr | None \<Rightarrow> rx_proofs x) of
                                               None \<Rightarrow> Inr (proof_answer ''proof_mismatch'' i None RC_PROOF_HASH_MISMATCH)
                                             | Some q' \<Rightarrow>
                                                 if \<not> same_proof q' p
                                                 then Inr (proof_answer ''proof_mismatch'' i None RC_PROOF_HASH_MISMATCH)
                                                 else Inr (proof_answer ''proof_verified'' i (Some (pf_artifact_hash p)) RC_PASS))))
                    | _ \<Rightarrow> Inr (proof_answer ''proof_mismatch'' i None RC_PROOF_HASH_MISMATCH)))))"

text \<open>The proof files in the order of their names; any that cannot be read is a mismatch.\<close>

definition read_all :: "(string \<times> proof_rec jfile) list \<Rightarrow> proof_rec list option" where
  "read_all files =
     (let fs = sort_key fst files
      in if list_all (\<lambda>(_, f). case f of File p \<Rightarrow> True | _ \<Rightarrow> False) fs
         then Some (concat (map (\<lambda>(_, f). case f of File p \<Rightarrow> [p] | _ \<Rightarrow> []) fs)) else None)"

definition bundle_ok :: "(string \<Rightarrow> string) \<Rightarrow> decision_envelope \<Rightarrow> proof_rec list \<Rightarrow> proof_rec \<Rightarrow> exn + bool" where
  "bundle_ok H env ps dp =
     (let others = filter (\<lambda>p. pf_kind p \<noteq> PK_DECISION) ps; ids = sort (map pf_proof_id others)
      in rbind (decision_proof_id H (de_status env) (de_reason_code env) ids (de_coverage env) (de_verdict_tier env)
                  (de_adjusted_size_cap env)) (\<lambda>pid.
         if sort (de_required_proof_ids env) \<noteq> [pid] \<or> sort (de_satisfied_proof_ids env) \<noteq> [pid] then Inr False
         else if pf_proof_id dp \<noteq> pid then Inr False
         else rbind (traverse (\<lambda>p. hash_obj H True (proof_value p)) others) (\<lambda>fps.
              rbind (hash_obj H True (decision_inputs (sort fps) ids (de_coverage env))) (\<lambda>ih.
              if pf_inputs_hash dp \<noteq> ih then Inr False
              else rbind (hash_obj H True (envelope_value env)) (\<lambda>ah. Inr (pf_artifact_hash dp = ah))))))"

definition verify_decision_proof_bundle ::
  "(string \<Rightarrow> string) \<Rightarrow> decision_envelope jfile \<Rightarrow> proofs_dir \<Rightarrow> string \<Rightarrow> exn + proof_verification" where
  "verify_decision_proof_bundle H f dir i =
     (let bad = Inr (proof_answer ''proof_mismatch'' i None RC_RECEIPT_MISMATCH)
      in case read_json f of
           Inl e \<Rightarrow>
             if is_os_error e \<or> e = JSONDecodeError then Inr (proof_answer ''proof_unreplayable'' i None RC_PARSE_ERROR)
             else if e = ValidationError then Inr (proof_answer ''proof_unreplayable'' i None RC_SCHEMA_INVALID) else Inl e
         | Inr env \<Rightarrow>
             if de_status env \<noteq> St_REJECT then bad
             else (case dir of
                     None \<Rightarrow> bad
                   | Some files \<Rightarrow>
                       (case read_all files of
                          None \<Rightarrow> bad
                        | Some ps \<Rightarrow>
                            (case filter (\<lambda>p. pf_kind p = PK_DECISION) ps of
                               [dp] \<Rightarrow>
                                 if pf_proof_id dp \<noteq> i \<or> \<not> pf_verdict_bearing dp then bad
                                 else rbind (bundle_ok H env ps dp) (\<lambda>ok.
                                      if ok then Inr (proof_answer ''proof_verified'' i (Some (pf_artifact_hash dp)) RC_PASS)
                                      else bad)
                             | _ \<Rightarrow> bad))))"

section \<open>What a verified receipt is worth\<close>

definition ledger_file :: "verify_args \<Rightarrow> ledger_line list jfile" where
  "ledger_file v = (case va_ledger v of Some (_, f) \<Rightarrow> f | None \<Rightarrow> lf_ledger (va_default_files v))"

definition checkpoint_file :: "verify_args \<Rightarrow> ledger_checkpoint jfile" where
  "checkpoint_file v = given_or (va_checkpoint v) (lf_checkpoint (va_default_files v))"

text \<open>The caller's trust was honoured: an attestation of the checkpoint verifies under the given policy or key.\<close>

definition attested :: "(string \<Rightarrow> string) \<Rightarrow> crypto \<Rightarrow> verify_args \<Rightarrow> bool" where
  "attested H cy v =
     (\<exists>c a policy. checkpoint_file v = File c \<and> (ti_public_key (va_trust v) \<noteq> None \<or> policy \<noteq> None) \<and>
        (case ti_policy (va_trust v) of None \<Rightarrow> policy = None | Some f \<Rightarrow> \<exists>p. f = File p \<and> policy = Some p) \<and>
        verify_checkpoint_attestation H cy c a (ti_public_key (va_trust v)) policy (wo_now (va_world v)) = Inr True)"

lemma verify_ledger_None:
  assumes "verify_ledger H cy v r VL_REPLAYED = Inr None"
  shows "(\<exists>ls. ledger_file v = File ls \<and> ledger_holds H r ls) \<and> (trust_given v \<longrightarrow> attested H cy v)"
proof -
  let ?att = "if trust_given v then Some (given_or (va_attestation v) (lf_attestation (va_default_files v))) else va_attestation v"
  from assms have "ledger_error H cy (wo_now (va_world v)) r (ledger_file v) (Some (checkpoint_file v)) ?att (va_trust v) = Inr None"
    by (simp add: verify_ledger_def ledger_file_def checkpoint_file_def)
  from ledger_error_None [OF this] obtain ls tl_hash n where ls: "ledger_file v = File ls" "ledger_holds H r ls"
    and c: "ledger_checkpoint_error H cy (wo_now (va_world v)) r ls tl_hash n (checkpoint_file v) ?att (va_trust v) = Inr None"
    by blast
  have "attested H cy v" if "trust_given v"
  proof (cases "ti_policy (va_trust v)")
    case None
    with that checkpoint_error_None [OF c] show ?thesis
      by (auto simp: trust_given_def attested_def)
  next
    case (Some f)
    with checkpoint_error_None [OF c] obtain c' a p where "checkpoint_file v = File c'" "f = File p"
      "verify_checkpoint_attestation H cy c' a (ti_public_key (va_trust v)) (Some p) (wo_now (va_world v)) = Inr True"
      by auto
    with Some show ?thesis by (auto simp: attested_def)
  qed
  with ls show ?thesis by blast
qed

text \<open>The arguments of the new run, and what it has to agree with.\<close>

definition rerun_of :: "verify_args \<Rightarrow> receipt \<Rightarrow> run_args" where
  "rerun_of v r =
     (let was_chained = (bi_chain_status (rc_baseline r) = CS_CHAINED)
      in rerun_args r
           (if was_chained then Some (given_or (va_baseline_receipt v) (va_default_baseline v)) else None)
           (if was_chained then ti_policy (va_trust v) else None))"

definition reproduced :: "(string \<Rightarrow> string) \<Rightarrow> crypto \<Rightarrow> verify_args \<Rightarrow> receipt \<Rightarrow> run_artifacts \<Rightarrow> bool" where
  "reproduced H cy v r x =
     (run_redline H cy (va_world v) (rerun_of v r) = Inr x \<and> rx_receipt x \<noteq> None \<and>
      de_status (rx_envelope x) = re_status (rc_result r) \<and> de_reason_code (rx_envelope x) = rd_reason_code (rc_decision r) \<and>
      de_coverage (rx_envelope x) = rc_coverage r \<and>
      set (de_required_proof_ids (rx_envelope x)) = set (rd_required_proof_ids (rc_decision r)) \<and>
      proof_fingerprint H (rc_proofs (the (rx_receipt x))) = proof_fingerprint H (rc_proofs r))"

lemma replay_error_None:
  assumes "replay_error H cy w r report (given_or (va_baseline_receipt v) (va_default_baseline v)) (ti_policy (va_trust v)) = Inr None"
    and "w = va_world v"
  shows "\<exists>x. reproduced H cy v r x"
proof -
  let ?br = "given_or (va_baseline_receipt v) (va_default_baseline v)"
  from assms(1) obtain x where g: "guarded_rerun H cy w r ?br (ti_policy (va_trust v)) = Inr (Inr x)"
    by (auto simp: replay_error_def split: sum.splits)
  with assms(1) obtain rr where rr: "rx_receipt x = Some rr" by (auto simp: replay_error_def split: option.splits)
  with assms(1) g have ag: "rerun_agrees H r x rr = Inr True"
    by (auto simp: replay_error_def rbind_Inr_iff split: if_splits)
  from g have "run_redline H cy w (rerun_of v r) = Inr x"
    by (auto simp: guarded_rerun_def rbind_Inr_iff rerun_of_def Let_def split: if_splits)
  with ag rr assms(2) show ?thesis
    by (intro exI [of _ x]) (auto simp: reproduced_def rerun_agrees_def rbind_Inr_iff split: if_splits)
qed

lemma verify_package_None:
  assumes "verify_package H cy v r level = Inr None"
  shows "hash_tree H (wo_package (va_world v)) = Inr (pi_identity_hash (rc_package r)) \<and>
    external_proofs_error r (va_proofs v) = None \<and> (\<exists>x. reproduced H cy v r x)"
  using assms
  by (auto simp: verify_package_def rbind_Inr_iff dest!: replay_error_None
      split: if_splits sum.splits exn.splits option.splits)

lemma verify_receipt_verified:
  assumes "verify_receipt H cy v level r = Inr x" "vr_status x = VS_VERIFIED"
  shows "level = VL_REPLAYED \<and> compute_receipt_hash H r = Inr (rc_receipt_hash r) \<and> receipt_binding_error H r = Inr None \<and>
    verify_ledger H cy v r level = Inr None \<and> verify_package H cy v r level = Inr None \<and>
    cm_complete (rc_coverage r) \<and> rd_reason_code (rc_decision r) \<noteq> RC_BASELINE_GENESIS \<and>
    (re_status (rc_result r) = St_PASS \<longrightarrow> trust_given v) \<and> vr_receipt_hash x = Some (rc_receipt_hash r)"
proof -
  have st: "vr_status (result_of s r' reason l c m) = s" "vr_status (reject_result r' reason l) = VS_REJECTED"
    "vr_status (unverified_result r' reason l) = VS_UNVERIFIED_NO_VERDICT" for s r' reason l c m
    by (simp_all add: result_of_def reject_result_def unverified_result_def)
  from assms have h: "compute_receipt_hash H r = Inr (rc_receipt_hash r)"
    by (auto simp: verify_receipt_def rbind_Inr_iff st split: if_splits)
  with assms have m: "missing_required_proof_ids r (re_status (rc_result r)) = []"
    by (auto simp: verify_receipt_def st split: if_splits)
  have b: "receipt_binding_error H r = Inr None"
  proof (cases "receipt_binding_error H r")
    case (Inr e)
    with assms h m st(2) show ?thesis by (cases e) (auto simp: verify_receipt_def)
  qed (use assms h m in \<open>auto simp: verify_receipt_def\<close>)
  have own: "\<not> (level = VL_REPLAYED \<and> (case va_ledger v of Some (is_default, _) \<Rightarrow> \<not> is_default | None \<Rightarrow> False))"
    using assms h m b st(2) by (auto simp: verify_receipt_def)
  have l: "verify_ledger H cy v r level = Inr None"
  proof (cases "verify_ledger H cy v r level")
    case (Inr e)
    with assms h m b own st(2) show ?thesis by (cases e) (auto simp: verify_receipt_def)
  qed (use assms h m b own in \<open>auto simp: verify_receipt_def\<close>)
  have c: "cm_complete (rc_coverage r)" "level \<noteq> VL_HASH_ONLY" "va_package_given v"
    "render_strength_summary r = rc_strength_summary r"
    using assms h m b own l st by (auto simp: verify_receipt_def split: if_splits)
  have bad: "vr_status y \<noteq> VS_VERIFIED" if "verify_package H cy v r level = Inr (Some y)" for y
    using that
    by (auto simp: verify_package_def rbind_Inr_iff st bad_result_def split: if_splits sum.splits exn.splits option.splits)
  have p: "verify_package H cy v r level = Inr None"
  proof (cases "verify_package H cy v r level")
    case (Inr e)
    with assms h m b own l c bad show ?thesis by (cases e) (auto simp: verify_receipt_def)
  qed (use assms h m b own l c in \<open>auto simp: verify_receipt_def\<close>)
  from c(2) have lv: "level = VL_REPLAYED" by (cases level) auto
  have "rd_reason_code (rc_decision r) \<noteq> RC_BASELINE_GENESIS" "re_status (rc_result r) = St_PASS \<longrightarrow> trust_given v"
    "vr_receipt_hash x = Some (rc_receipt_hash r)"
    using assms h m b own l c p st by (auto simp: verify_receipt_def result_of_def split: if_splits)
  with h b l p c lv show ?thesis by blast
qed

text \<open>C1: what a verified receipt is worth: \<open>verify\<close> answers \<open>verified\<close> only at the level of a new run, for a
  receipt whose hash is its own, that the ledger beside it holds in an intact chain as the only entry of its key, for
  the very package it names, when a new run of that package reproduces status, reason, coverage and proofs. A verified
  \<open>pass\<close> is attested under the caller's trust, and all blocking probes hold on the traces of the new run.\<close>

theorem verified_sound:
  assumes "verify H cy v = Inr x" "vr_status x = VS_VERIFIED"
  shows "\<exists>version r y. va_receipt v = Receipt_Object version (Inr r) \<and> va_level v = Some VL_REPLAYED \<and>
    compute_receipt_hash H r = Inr (rc_receipt_hash r) \<and> vr_receipt_hash x = Some (rc_receipt_hash r) \<and>
    (\<exists>ls. ledger_file v = File ls \<and> ledger_holds H r ls) \<and>
    hash_tree H (wo_package (va_world v)) = Inr (pi_identity_hash (rc_package r)) \<and>
    reproduced H cy v r y \<and>
    (re_status (rc_result r) = St_PASS \<longrightarrow>
       attested H cy v \<and> probes_hold H cy (va_world v) (rerun_of v r) (rx_traces y))"
proof -
  let ?level = "given_or (va_level v) VL_HASH_ONLY"
  from assms obtain version r where r: "va_receipt v = Receipt_Object version (Inr r)"
    and vr: "verify_receipt H cy v ?level r = Inr x"
    by (auto simp: verify_def bad_result_def Let_def split: receipt_file.splits sum.splits if_splits)
  note f = verify_receipt_verified [OF vr assms(2)]
  then have level: "va_level v = Some VL_REPLAYED" by (auto simp: given_or_def split: option.splits)
  from f verify_package_None obtain y where y: "hash_tree H (wo_package (va_world v)) = Inr (pi_identity_hash (rc_package r))"
    "reproduced H cy v r y" by blast
  have lv: "?level = VL_REPLAYED" using f by blast
  have "verify_ledger H cy v r VL_REPLAYED = Inr None" using f unfolding lv by blast
  note ledger = verify_ledger_None [OF this]
  have "probes_hold H cy (va_world v) (rerun_of v r) (rx_traces y)" if "re_status (rc_result r) = St_PASS"
    by (rule run_pass_probes) (use y(2) that in \<open>simp_all add: reproduced_def\<close>)
  with r level f y ledger show ?thesis by blast
qed

end
