(* ===== verification/Verifier_Complete.thy ===== *)
theory Verifier_Complete
  imports Verifier
begin

text \<open>
  The other direction of verification: the receipt and the files that a run writes pass every check of
  \<open>verify\<close>. The lemmas follow a run and note which proofs it makes, what the receipt takes from them, and why its
  report has the hash that the receipt carries.
\<close>

section \<open>The proofs of a run\<close>

text \<open>The id of a proof names its kind, and no proof of a run is a decision.\<close>

definition run_proof :: "proof_rec \<Rightarrow> bool" where
  "run_proof p =
     ((\<exists>s. pf_proof_id p = ''proof:'' @ kind_value (pf_kind p) @ '':'' @ s) \<and> pf_kind p \<noteq> PK_DECISION)"

definition labels :: "proof_rec list \<Rightarrow> (proof_kind \<times> bool) list" where
  "labels ps = map (\<lambda>p. (pf_kind p, pf_verdict_bearing p)) ps"

lemma labels_append [simp]: "labels (ps @ qs) = labels ps @ labels qs"
  by (simp add: labels_def)

lemma simple_proof_made:
  "simple_proof H b t a = Inr pf \<Longrightarrow> pa_kind a \<noteq> PK_DECISION \<Longrightarrow>
   run_proof pf \<and> pf_kind pf = pa_kind a \<and> pf_verdict_bearing pf = pa_verdict_bearing a
   \<and> hash_obj H True (pa_artifact a) = Inr (pf_artifact_hash pf)"
  by (auto simp: simple_proof_def rbind_Inr_iff Let_def run_proof_def)

lemma traverse_made:
  "traverse (simple_proof H b t) as = Inr ps \<Longrightarrow> list_all (\<lambda>a. pa_kind a \<noteq> PK_DECISION) as \<Longrightarrow>
   list_all run_proof ps \<and> labels ps = map (\<lambda>a. (pa_kind a, pa_verdict_bearing a)) as"
  by (induction as arbitrary: ps) (auto simp: rbind_Inr_iff labels_def dest: simple_proof_made)

lemma record_results_made:
  "record_results (simple_proof H b t) s p rb rcand st = Inr st' \<Longrightarrow>
   \<exists>qs. pb_proofs st' = pb_proofs st @ qs \<and> list_all run_proof qs \<and> list_all (\<lambda>q. pf_kind q = PK_PROBE) qs"
  by (auto simp: record_results_def Let_def rbind_Inr_iff dest!: simple_proof_made split: if_splits)

lemma probe_round_made:
  "probe_round (simple_proof H b t) reg s tb tc p st = Inr st' \<Longrightarrow>
   \<exists>qs. pb_proofs st' = pb_proofs st @ qs \<and> list_all run_proof qs \<and> list_all (\<lambda>q. pf_kind q = PK_PROBE) qs"
  by (auto simp: probe_round_def Let_def dest!: record_results_made split: probe_entry.splits sum.splits if_splits)

lemma run_probes_made:
  "run_probes (simple_proof H b t) reg s tb tc ps st = Inr st' \<Longrightarrow>
   \<exists>qs. pb_proofs st' = pb_proofs st @ qs \<and> list_all run_proof qs \<and> list_all (\<lambda>q. pf_kind q = PK_PROBE) qs"
proof (induction ps arbitrary: st)
  case (Cons p ps)
  then obtain st1 where st1: "probe_round (simple_proof H b t) reg s tb tc p st = Inr st1"
    and rest: "(if pb_reject st1 \<noteq> None then Inr st1 else run_probes (simple_proof H b t) reg s tb tc ps st1) = Inr st'"
    by (auto simp: rbind_Inr_iff)
  from probe_round_made [OF st1] obtain qs where qs: "pb_proofs st1 = pb_proofs st @ qs" "list_all run_proof qs"
    "list_all (\<lambda>q. pf_kind q = PK_PROBE) qs" by blast
  from rest Cons.IH [of st1] obtain qs' where "pb_proofs st' = pb_proofs st1 @ qs'" "list_all run_proof qs'"
    "list_all (\<lambda>q. pf_kind q = PK_PROBE) qs'" by (auto split: if_splits)
  with qs show ?case by (intro exI [of _ "qs @ qs'"]) simp
qed simp

lemma probe_scenarios_made:
  "probe_scenarios (simple_proof H b t) reg traces ps ss st = Inr st' \<Longrightarrow>
   \<exists>qs. pb_proofs st' = pb_proofs st @ qs \<and> list_all run_proof qs \<and> list_all (\<lambda>q. pf_kind q = PK_PROBE) qs"
proof (induction ss arbitrary: st)
  case (Cons s ss)
  show ?case
  proof (cases "pb_reject st")
    case None
    with Cons.prems obtain tb tc st1 where st1: "run_probes (simple_proof H b t) reg (sc_id s) tb tc ps st = Inr st1"
      and rest: "probe_scenarios (simple_proof H b t) reg traces ps ss st1 = Inr st'"
      by (auto simp: rbind_Inr_iff split: option.splits)
    from run_probes_made [OF st1] Cons.IH [OF rest] obtain qs qs' where
      "pb_proofs st1 = pb_proofs st @ qs" "list_all run_proof qs" "list_all (\<lambda>q. pf_kind q = PK_PROBE) qs"
      "pb_proofs st' = pb_proofs st1 @ qs'" "list_all run_proof qs'" "list_all (\<lambda>q. pf_kind q = PK_PROBE) qs'" by blast
    then show ?thesis by (intro exI [of _ "qs @ qs'"]) simp
  qed (use Cons.prems in simp)
qed simp

text \<open>The proofs of a run that no reason rejects: five, the probes', and three more.\<close>

definition run_proofs :: "(string \<Rightarrow> string) \<Rightarrow> proof_rec list \<Rightarrow> proof_rec list \<Rightarrow> coverage_manifest \<Rightarrow> bool" where
  "run_proofs H first ps cov =
     (\<exists>rps qs cps. ps = first @ rps @ qs @ cps \<and> list_all run_proof (rps @ qs @ cps) \<and>
        labels rps = [(PK_REPLAY, True), (PK_REPLAY_WELLFORMED, True)] \<and> list_all (\<lambda>q. pf_kind q = PK_PROBE) qs \<and>
        labels cps = [(PK_COVERAGE, True), (PK_BASELINE_CALIBRATION, True), (PK_CANDIDATE_ABSOLUTE, True)] \<and>
        hash_obj H True (coverage_value cov) = Inr (pf_artifact_hash (hd cps)))"

lemma examine_made:
  assumes "examine (simple_proof H b t) w f spec s first traces reject = Inr (ps, cov, None)"
  shows "run_proofs H first ps cov"
proof -
  from assms obtain rps st cps where rps: "replay_proofs (simple_proof H b t) w f s traces = Inr rps"
    and st: "probe_scenarios (simple_proof H b t) (wo_registry w) traces (rs_probes spec) (su_scenarios s)
       \<lparr> pb_proofs = first @ rps, pb_cells = [], pb_missing = [], pb_baseline = [], pb_candidate = [], pb_reject = None \<rparr> = Inr st"
    and cps: "closing_proofs (simple_proof H b t) f spec s cov st = Inr cps"
    and ps: "ps = pb_proofs st @ cps"
    by (auto simp: examine_def rbind_Inr_iff split: option.splits)
  from probe_scenarios_made [OF st] obtain qs where qs: "pb_proofs st = first @ rps @ qs" "list_all run_proof qs"
    "list_all (\<lambda>q. pf_kind q = PK_PROBE) qs" by auto
  have r: "list_all run_proof rps \<and> labels rps = [(PK_REPLAY, True), (PK_REPLAY_WELLFORMED, True)]"
    using traverse_made [OF rps [unfolded replay_proofs_def]] by (simp add: plain_args_def)
  have c: "list_all run_proof cps \<and> labels cps = [(PK_COVERAGE, True), (PK_BASELINE_CALIBRATION, True), (PK_CANDIDATE_ABSOLUTE, True)]"
    using traverse_made [OF cps [unfolded closing_proofs_def]] by (simp add: plain_args_def)
  have "hash_obj H True (coverage_value cov) = Inr (pf_artifact_hash (hd cps))"
    using cps by (auto simp: closing_proofs_def rbind_Inr_iff plain_args_def dest!: simple_proof_made)
  with qs r c ps show ?thesis
    unfolding run_proofs_def by (intro exI [of _ rps] exI [of _ qs] exI [of _ cps]) simp
qed

lemma first_proofs_made:
  assumes "first_proofs (simple_proof H b t) a spec f = Inr ps"
  shows "list_all run_proof ps \<and> labels ps = [(PK_PACKAGE_CANONICAL, True), (PK_EDIT_PROVENANCE, False), (PK_SPEC_COMPILE, True)]
    \<and> hash_obj H True
        (PDict [(''package_hash'', PStr (rf_package_hash f)), (''baseline_hash'', PStr (rf_baseline_hash f)),
                (''candidate_hash'', PStr (rf_candidate_hash f)),
                (''adapter_id'', PStr (if rf_lock f = None then ''missing'' else PLAYBOOK_ADAPTER_ID)),
                (''identity_lock_hash'',
                 PStr (case rf_lock f of None \<Rightarrow> ''missing'' | Some l \<Rightarrow> pil_lock_hash l))])
      = Inr (pf_artifact_hash (hd ps))"
proof -
  have "list_all run_proof ps \<and> labels ps = [(PK_PACKAGE_CANONICAL, True), (PK_EDIT_PROVENANCE, False), (PK_SPEC_COMPILE, True)]"
    using traverse_made [OF assms [unfolded first_proofs_def]] by (simp add: plain_args_def)
  moreover from assms obtain p qs where ps: "ps = p # qs" and p: "simple_proof H b t
      (plain_args PK_PACKAGE_CANONICAL ''import''
          (PDict [(''package'', PStr ''playbook''), (''baseline_role'', PStr (ra_baseline a)),
                  (''candidate_role'', PStr (ra_candidate a))])
          (PDict [(''package_hash'', PStr (rf_package_hash f)), (''baseline_hash'', PStr (rf_baseline_hash f)),
                  (''candidate_hash'', PStr (rf_candidate_hash f)),
                  (''adapter_id'', PStr (if rf_lock f = None then ''missing'' else PLAYBOOK_ADAPTER_ID)),
                  (''identity_lock_hash'',
                   PStr (case rf_lock f of None \<Rightarrow> ''missing'' | Some l \<Rightarrow> pil_lock_hash l))])) = Inr p"
    unfolding first_proofs_def traverse.simps rbind_Inr_iff by blast
  from simple_proof_made [OF p] ps have "hash_obj H True
        (PDict [(''package_hash'', PStr (rf_package_hash f)), (''baseline_hash'', PStr (rf_baseline_hash f)),
                (''candidate_hash'', PStr (rf_candidate_hash f)),
                (''adapter_id'', PStr (if rf_lock f = None then ''missing'' else PLAYBOOK_ADAPTER_ID)),
                (''identity_lock_hash'',
                 PStr (case rf_lock f of None \<Rightarrow> ''missing'' | Some l \<Rightarrow> pil_lock_hash l))])
      = Inr (pf_artifact_hash (hd ps))" by (simp add: plain_args_def)
  ultimately show ?thesis by blast
qed

section \<open>The report of a sealed receipt\<close>

lemma insort_key_map: "(\<And>x. f (g x) = f x) \<Longrightarrow> insort_key f (g x) (map g ys) = map g (insort_key f x ys)"
  by (induction ys) simp_all

lemma sort_key_map: "(\<And>x. f (g x) = f x) \<Longrightarrow> sort_key f (map g xs) = map g (sort_key f xs)"
  by (induction xs) (simp_all add: insort_key_map)

lemma replace_keys [simp]: "map fst (map (\<lambda>(k', v'). if k' = k then (k, v) else (k', v')) js) = map fst js"
  by (induction js) auto

lemma put_json_keys: "k \<in> set (map fst js) \<Longrightarrow> map fst (put_json k v js) = map fst js"
  by (simp only: put_json_def if_True replace_keys)

lemma put_put_json: "k \<in> set (map fst js) \<Longrightarrow> put_json k v (put_json k w js) = put_json k v js"
proof -
  assume k: "k \<in> set (map fst js)"
  have "map (\<lambda>(k', v'). if k' = k then (k, v) else (k', v')) (map (\<lambda>(k', v'). if k' = k then (k, w) else (k', v')) js)
      = map (\<lambda>(k', v'). if k' = k then (k, v) else (k', v')) js" by (induction js) auto
  with k put_json_keys [OF k, of w] show ?thesis by (simp only: put_json_def if_True)
qed

definition put_value :: "string \<Rightarrow> pyval \<Rightarrow> string \<times> pyval \<Rightarrow> string \<times> pyval" where
  "put_value k v kv = (if fst kv = k then (k, v) else kv)"

lemma fst_put_value [simp]: "fst (put_value k v kv) = fst kv"
  by (simp add: put_value_def)

lemma traverse_put_value:
  "traverse (\<lambda>(k, v). rbind (normalize en v) (\<lambda>j. Inr (k, j))) kvs = Inr js \<Longrightarrow> normalize en v = Inr j \<Longrightarrow>
   traverse (\<lambda>(k, v). rbind (normalize en v) (\<lambda>j. Inr (k, j))) (map (put_value k v) kvs)
     = Inr (map (\<lambda>(k', v'). if k' = k then (k, j) else (k', v')) js)"
  by (induction kvs arbitrary: js) (auto simp: rbind_Inr_iff put_value_def)

lemma normalize_put_value:
  assumes "normalize en (PDict kvs) = Inr (JObj js)" "normalize en v = Inr j" "k \<in> set (map fst kvs)"
  shows "normalize en (PDict (map (put_value k v) kvs)) = Inr (JObj (put_json k j js))"
proof -
  from assms(1) have t: "traverse (\<lambda>(k, v). rbind (normalize en v) (\<lambda>j. Inr (k, j))) (sort_key fst kvs) = Inr js"
    by (auto simp: rbind_Inr_iff)
  from traverse_pairs_keys [OF t] have "map fst js = map fst (sort_key fst kvs)" by blast
  then have "set (map fst js) = set (map fst kvs)" by (simp only: list.set_map set_sort)
  with assms(3) have k: "k \<in> set (map fst js)" by simp
  have "sort_key fst (map (put_value k v) kvs) = map (put_value k v) (sort_key fst kvs)"
    by (rule sort_key_map) simp
  with traverse_put_value [OF t assms(2)] k show ?thesis by (simp add: put_json_def)
qed

lemma report_body_put:
  assumes "rc_strength_summary r' = rc_strength_summary r" "rc_edit_provenance r' = rc_edit_provenance r"
    "rc_publish r' = rc_publish r" "rc_coverage r' = rc_coverage r"
  shows "\<exists>kvs. report_body env (Some r) traces ps = PDict kvs \<and> ''receipt_hash'' \<in> set (map fst kvs) \<and>
    ''report_hash'' \<notin> set (map fst kvs) \<and>
    report_body env (Some r') traces ps = PDict (map (put_value ''receipt_hash'' (PStr (rc_receipt_hash r'))) kvs)"
proof -
  have two: "\<exists>kvs. PDict [(''version'', a), (''envelope'', b), (''receipt_hash'', PStr g), (''strength_summary'', c), (''traces'', d),
      (''proof_ids'', e), (''proofs'', f), (''edit_provenance'', k), (''publish'', l), (''coverage_missing'', m),
      (''verification_level'', n)] = PDict kvs \<and> ''receipt_hash'' \<in> set (map fst kvs) \<and>
      ''report_hash'' \<notin> set (map fst kvs) \<and>
      PDict [(''version'', a), (''envelope'', b), (''receipt_hash'', PStr h), (''strength_summary'', c), (''traces'', d),
      (''proof_ids'', e), (''proofs'', f), (''edit_provenance'', k), (''publish'', l), (''coverage_missing'', m),
      (''verification_level'', n)] = PDict (map (put_value ''receipt_hash'' (PStr h)) kvs)"
    for a b c d e f g h k l m n by (intro exI conjI, rule refl) (simp_all add: put_value_def)
  show ?thesis unfolding report_body_def option.map option.case opt_str_def assms by (rule two)
qed

text \<open>Writing the receipt's hash into a report does not change the report's own hash.\<close>

lemma to_report_same_hash:
  assumes "to_report H env (Some r) traces ps = Inr js" "to_report H env (Some r') traces ps = Inr js'"
    and "rc_strength_summary r' = rc_strength_summary r" "rc_edit_provenance r' = rc_edit_provenance r"
    "rc_publish r' = rc_publish r" "rc_coverage r' = rc_coverage r" "rc_proofs r' = rc_proofs r"
  shows "json_text js' ''report_hash'' = json_text js ''report_hash''"
proof -
  from to_report_Inr [OF assms(1)] obtain j where j: "normalize False (report_body env (Some r) traces (rc_proofs r)) = Inr (JObj j)"
    "json_text js ''report_hash'' = Some (hash_json H (JObj (put_json ''receipt_hash'' JNull j)))" by auto
  from to_report_Inr [OF assms(2)] obtain j' where j': "normalize False (report_body env (Some r') traces (rc_proofs r)) = Inr (JObj j')"
    "json_text js' ''report_hash'' = Some (hash_json H (JObj (put_json ''receipt_hash'' JNull j')))" by (auto simp: assms(7))
  from report_body_put [OF assms(3-6)] obtain kvs where kvs: "report_body env (Some r) traces (rc_proofs r) = PDict kvs"
    "''receipt_hash'' \<in> set (map fst kvs)"
    "report_body env (Some r') traces (rc_proofs r) = PDict (map (put_value ''receipt_hash'' (PStr (rc_receipt_hash r'))) kvs)" by blast
  from j(1) have jd: "normalize False (PDict kvs) = Inr (JObj j)" unfolding kvs(1) .
  have "normalize False (PStr (rc_receipt_hash r')) = Inr (JStr (rc_receipt_hash r'))" by simp
  from normalize_put_value [OF jd this kvs(2)] j'(1) have "j' = put_json ''receipt_hash'' (JStr (rc_receipt_hash r')) j"
    unfolding kvs(3) by simp
  moreover have "''receipt_hash'' \<in> set (map fst j)"
  proof -
    from jd have t: "traverse (\<lambda>(k, v). rbind (normalize False v) (\<lambda>j. Inr (k, j))) (sort_key fst kvs) = Inr j"
      by (auto simp: rbind_Inr_iff)
    from traverse_pairs_keys [OF t] have "map fst j = map fst (sort_key fst kvs)" by blast
    then have "set (map fst j) = set (map fst kvs)" by (simp only: list.set_map set_sort)
    with kvs(2) show ?thesis by (simp only:)
  qed
  ultimately have "put_json ''receipt_hash'' JNull j' = put_json ''receipt_hash'' JNull j"
    by (simp only: put_put_json)
  with j(2) j'(2) show ?thesis by simp
qed

text \<open>A report as the verifier recomputes it.\<close>

lemma report_recomputed:
  assumes "to_report H env (Some r) traces ps = Inr js" "json_text js ''report_hash'' = Some (rpi_report_hash (rc_report r))"
  shows "external_report_error H (File js) js r = Inr None"
proof -
  from to_report_Inr [OF assms(1)] obtain j where j: "normalize False (report_body env (Some r) traces (rc_proofs r)) = Inr (JObj j)"
    "js = put_json ''report_hash'' (JStr (hash_json H (JObj (put_json ''receipt_hash'' JNull j)))) j"
    "json_text js ''report_hash'' = Some (hash_json H (JObj (put_json ''receipt_hash'' JNull j)))" by auto
  from report_body_put [of r r] obtain kvs where kvs: "report_body env (Some r) traces (rc_proofs r) = PDict kvs"
    "''receipt_hash'' \<in> set (map fst kvs)" "''report_hash'' \<notin> set (map fst kvs)" by blast
  from j(1) have "traverse (\<lambda>(k, v). rbind (normalize False v) (\<lambda>j. Inr (k, j))) (sort_key fst kvs) = Inr j"
    unfolding kvs(1) by (auto simp: rbind_Inr_iff)
  from traverse_pairs_keys [OF this] have "map fst j = map fst (sort_key fst kvs)" by blast
  then have "set (map fst j) = set (map fst kvs)" by (simp only: list.set_map set_sort)
  with kvs have k: "''receipt_hash'' \<in> set (map fst j)" "''report_hash'' \<notin> set (map fst j)" by simp_all
  have "filter (\<lambda>(k, v). k \<noteq> ''report_hash'') (put_json ''receipt_hash'' JNull js) = put_json ''receipt_hash'' JNull j"
  proof -
    have js: "js = j @ [(''report_hash'', JStr (hash_json H (JObj (put_json ''receipt_hash'' JNull j))))]"
      using k(2) by (simp add: j(2) put_json_def)
    have "put_json ''receipt_hash'' JNull js =
        put_json ''receipt_hash'' JNull j @ [(''report_hash'', JStr (hash_json H (JObj (put_json ''receipt_hash'' JNull j))))]"
      using k(1) unfolding js by (simp add: put_json_def)
    moreover have "filter (\<lambda>(k, v). k \<noteq> ''report_hash'') (put_json ''receipt_hash'' JNull j) = put_json ''receipt_hash'' JNull j"
    proof -
      have "k \<noteq> ''report_hash''" if "(k, v) \<in> set (put_json ''receipt_hash'' JNull j)" for k v
        using that k(2) put_json_keys [OF k(1), of JNull] by (metis fst_conv image_eqI list.set_map)
      then show ?thesis unfolding filter_id_conv by auto
    qed
    ultimately show ?thesis by simp
  qed
  with j(3) assms(2) show ?thesis by (simp add: external_report_error_def)
qed

section \<open>The receipt of a run\<close>

lemma issued_receipt:
  assumes "issue_receipt H env ps cov a = Inr (Some r)"
  obtains dp rh h where "make_decision_proof H env ps (ia_include_baseline_receipt a) (ia_include_trust_policy a) False = Inr dp"
    "hash_obj H True (result_payload (de_status env) (probe_breaches (with_decision ps dp))) = Inr rh"
    "r = (draft_receipt H env (with_decision ps dp) rh cov a)\<lparr> rc_receipt_hash := h \<rparr>"
    "de_status env \<in> {St_PASS, St_WITHHELD, St_REDUCE_SIZE}" "ia_package_adapter_id a = PLAYBOOK_ADAPTER_ID"
  using assms by (auto simp: issue_receipt_def rbind_Inr_iff Let_def split: if_splits)

lemma sealed_receipt:
  assumes "seal_receipt H env r0 traces ps = Inr (r, js)"
  obtains h h' where "r = r0\<lparr> rc_report := (rc_report r0)\<lparr> rpi_report_hash := h \<rparr>, rc_receipt_hash := h' \<rparr>"
    "compute_receipt_hash H r = Inr h'" "to_report H env (Some r) traces ps = Inr js" "json_text js ''report_hash'' = Some h"
proof -
  from assms obtain js0 h' where js0: "to_report H env (Some r0) traces ps = Inr js0"
    and h': "compute_receipt_hash H (r0\<lparr> rc_report := (rc_report r0)\<lparr> rpi_report_hash := (case json_text js0 ''report_hash'' of Some h \<Rightarrow> h | None \<Rightarrow> []) \<rparr> \<rparr>) = Inr h'"
    and r: "r = r0\<lparr> rc_report := (rc_report r0)\<lparr> rpi_report_hash := (case json_text js0 ''report_hash'' of Some h \<Rightarrow> h | None \<Rightarrow> []) \<rparr>,
                    rc_receipt_hash := h' \<rparr>"
    and js: "to_report H env (Some r) traces ps = Inr js"
    unfolding seal_receipt_def Let_def rbind_Inr_iff by auto
  from to_report_Inr [OF js0] obtain h where h: "json_text js0 ''report_hash'' = Some h" by blast
  have "json_text js ''report_hash'' = json_text js0 ''report_hash''"
    by (rule to_report_same_hash [OF js0 js]) (simp_all add: r)
  moreover have "compute_receipt_hash H r = Inr h'" using h' by (simp add: compute_receipt_hash_def r)
  ultimately show thesis using that [of h' h] js r h by simp
qed

lemma decide_issued:
  assumes "decide H REQUIRED_PROOFS ps cov ctx = Inr e" "de_status e \<in> {St_PASS, St_WITHHELD, St_REDUCE_SIZE}"
  obtains did where "dc_reject_reason ctx = None" "cm_complete cov" "de_coverage e = cov"
    "missing_kinds REQUIRED_PROOFS ps (de_status e) = []" "de_chain_status e = dc_chain_status ctx"
    "de_required_proof_ids e = required_ids REQUIRED_PROOFS ps (de_status e) did"
    "decision_proof_id H (de_status e) (de_reason_code e) (map pf_proof_id ps) cov (de_verdict_tier e) (de_adjusted_size_cap e) = Inr did"
    "validate_envelope e = Inr e" "de_reason_code e = RC_BASELINE_GENESIS \<Longrightarrow> de_status e = St_PASS"
proof -
  obtain cov' s t r cap did where c: "effective_coverage ps cov = Inr cov'"
    and v: "verdict_of REQUIRED_PROOFS ps cov' ctx = (s, t, r, cap)"
    and d: "decision_proof_id H s r (map pf_proof_id ps) cov' (Some t) cap = Inr did"
    and e': "decide H REQUIRED_PROOFS ps cov ctx = Inr
       \<lparr> de_status = s, de_verdict_tier = Some t, de_adjusted_size_cap = cap, de_reason_code = r,
         de_chain_status = dc_chain_status ctx, de_required_proof_ids = required_ids REQUIRED_PROOFS ps s did,
         de_satisfied_proof_ids = required_ids REQUIRED_PROOFS ps s did, de_coverage = cov',
         de_capabilities = default_capabilities (int (length (unique_sorted (map fst (cm_cells cov'))))) \<rparr>"
    by (rule decide_cases)
  with assms(1) have e: "e = \<lparr> de_status = s, de_verdict_tier = Some t, de_adjusted_size_cap = cap, de_reason_code = r,
         de_chain_status = dc_chain_status ctx, de_required_proof_ids = required_ids REQUIRED_PROOFS ps s did,
         de_satisfied_proof_ids = required_ids REQUIRED_PROOFS ps s did, de_coverage = cov',
         de_capabilities = default_capabilities (int (length (unique_sorted (map fst (cm_cells cov'))))) \<rparr>" by simp
  with assms(2) have s: "s \<in> {St_PASS, St_WITHHELD, St_REDUCE_SIZE}" by simp
  from v s have f: "dc_reject_reason ctx = None" "cm_complete cov'" "missing_kinds REQUIRED_PROOFS ps s = []"
    "r = RC_BASELINE_GENESIS \<Longrightarrow> s = St_PASS"
    by (auto simp: verdict_of_def final_verdict_def base_verdict_def split: option.splits if_splits)
  have "cov' = cov" by (rule effective_complete(2) [OF c f(2)])
  moreover have "validate_envelope e = Inr e"
    using verdict_cap_ok [OF v] by (simp add: e validate_envelope_def validated_def)
  ultimately show thesis using that [of did] f d by (simp add: e)
qed

lemma decision_proof_made:
  "make_decision_proof H env ps x y b = Inr dp \<Longrightarrow>
   (\<exists>s. pf_proof_id dp = ''proof:decision:'' @ s) \<and> pf_kind dp = PK_DECISION \<and> pf_verdict_bearing dp \<and> pf_meta dp = [] \<and>
   decision_proof_id H (de_status env) (de_reason_code env) (map pf_proof_id ps) (de_coverage env) (de_verdict_tier env)
     (de_adjusted_size_cap env) = Inr (pf_proof_id dp) \<and>
   (\<exists>fps. traverse (\<lambda>p. hash_obj H True (proof_value p)) ps = Inr fps \<and>
      hash_obj H True (decision_inputs (sort fps) (sort (map pf_proof_id ps)) (de_coverage env)) = Inr (pf_inputs_hash dp)) \<and>
   hash_obj H True (envelope_value env) = Inr (pf_artifact_hash dp)"
  by (auto simp: make_decision_proof_def rbind_Inr_iff Let_def decision_proof_id_def decision_payload_def sorted_sort_id)

lemma not_decision_prefix:
  assumes "run_proof p"
  shows "pf_proof_id p \<noteq> ''proof:decision:'' @ s" "pf_kind p \<noteq> PK_DECISION"
proof -
  from assms obtain t where t: "pf_proof_id p = ''proof:'' @ kind_value (pf_kind p) @ '':'' @ t" "pf_kind p \<noteq> PK_DECISION"
    by (auto simp: run_proof_def)
  show "pf_kind p \<noteq> PK_DECISION" by (rule t(2))
  show "pf_proof_id p \<noteq> ''proof:decision:'' @ s"
    using t by (cases "pf_kind p") simp_all
qed

lemma with_decision_run:
  assumes "list_all run_proof ps" "make_decision_proof H env ps x y b = Inr dp"
  shows "with_decision ps dp = ps @ [dp]"
proof -
  from decision_proof_made [OF assms(2)] obtain s where id: "pf_proof_id dp = ''proof:decision:'' @ s" by blast
  have "pf_proof_id dp \<notin> set (map pf_proof_id ps)"
  proof
    assume "pf_proof_id dp \<in> set (map pf_proof_id ps)"
    then obtain p where p: "p \<in> set ps" "pf_proof_id p = pf_proof_id dp" by auto
    with assms(1) have "run_proof p" by (simp add: list_all_iff)
    from not_decision_prefix(1) [OF this, of s] p(2) id show False by (simp only:)
  qed
  then show ?thesis by (simp add: with_decision_def)
qed

lemma run_proofs_parts:
  assumes "run_proofs H first ps cov" "list_all run_proof first"
    "labels first = [(PK_PACKAGE_CANONICAL, True), (PK_EDIT_PROVENANCE, False), (PK_SPEC_COMPILE, True)]"
  shows "list_all run_proof ps" "filter (\<lambda>p. pf_kind p = PK_PACKAGE_CANONICAL) ps = [hd first]"
    "\<exists>p. filter (\<lambda>p. pf_kind p = PK_COVERAGE) ps = [p] \<and> hash_obj H True (coverage_value cov) = Inr (pf_artifact_hash p)"
    "k \<in> set SINGLETON_PROOF_KINDS \<Longrightarrow> length (filter (\<lambda>p. pf_kind p = k) ps) \<le> 1"
    "p \<in> set ps \<Longrightarrow> pf_kind p \<in> set NON_VERDICT_PROOF_KINDS \<Longrightarrow> \<not> pf_verdict_bearing p"
proof -
  from assms(1) obtain rps qs cps where ps: "ps = first @ rps @ qs @ cps" "list_all run_proof (rps @ qs @ cps)"
    "labels rps = [(PK_REPLAY, True), (PK_REPLAY_WELLFORMED, True)]" "list_all (\<lambda>q. pf_kind q = PK_PROBE) qs"
    "labels cps = [(PK_COVERAGE, True), (PK_BASELINE_CALIBRATION, True), (PK_CANDIDATE_ABSOLUTE, True)]"
    "hash_obj H True (coverage_value cov) = Inr (pf_artifact_hash (hd cps))"
    by (auto simp: run_proofs_def)
  from assms(3) obtain a b c where f: "first = [a, b, c]" "pf_kind a = PK_PACKAGE_CANONICAL" "pf_kind b = PK_EDIT_PROVENANCE"
    "\<not> pf_verdict_bearing b" "pf_kind c = PK_SPEC_COMPILE" by (auto simp: labels_def)
  from ps(3) obtain d e where r: "rps = [d, e]" "pf_kind d = PK_REPLAY" "pf_kind e = PK_REPLAY_WELLFORMED"
    by (auto simp: labels_def)
  from ps(5) obtain u v w where c: "cps = [u, v, w]" "pf_kind u = PK_COVERAGE" "pf_kind v = PK_BASELINE_CALIBRATION"
    "pf_kind w = PK_CANDIDATE_ABSOLUTE" by (auto simp: labels_def)
  have q: "filter (\<lambda>p. pf_kind p = k) qs = []" if "k \<noteq> PK_PROBE" for k
    using ps(4) that by (auto simp: filter_empty_conv list_all_iff)
  show "list_all run_proof ps" using assms(2) ps(1,2) by simp
  show "filter (\<lambda>p. pf_kind p = PK_PACKAGE_CANONICAL) ps = [hd first]"
    unfolding ps(1) f(1) r(1) c(1) using f(2-) r(2-) c(2-) q by simp
  show "\<exists>p. filter (\<lambda>p. pf_kind p = PK_COVERAGE) ps = [p] \<and> hash_obj H True (coverage_value cov) = Inr (pf_artifact_hash p)"
    unfolding ps(1) f(1) r(1) c(1) using f(2-) r(2-) c(2-) q ps(6) by (simp add: c(1))
  show "k \<in> set SINGLETON_PROOF_KINDS \<Longrightarrow> length (filter (\<lambda>p. pf_kind p = k) ps) \<le> 1"
    unfolding ps(1) f(1) r(1) c(1) using f(2-) r(2-) c(2-) q by (auto simp: SINGLETON_PROOF_KINDS_def)
  show "p \<in> set ps \<Longrightarrow> pf_kind p \<in> set NON_VERDICT_PROOF_KINDS \<Longrightarrow> \<not> pf_verdict_bearing p"
    unfolding ps(1) f(1) r(1) c(1) using f(2-) r(2-) c(2-) ps(4) by (auto simp: NON_VERDICT_PROOF_KINDS_def list_all_iff)
qed

lemma run_receipt:
  assumes run: "run_redline H cy w a = Inr x" and r: "rx_receipt x = Some r"
  obtains i ps first dp rh slock eh lh h h' r0 where
    "read_inputs H cy w a = Inr i"
    "(case su_suite_lock_hash (rn_suite i) of
        Some h \<Rightarrow> if h = '''' then hash_obj H True (suite_value (rn_suite i)) else Inr h
      | None \<Rightarrow> hash_obj H True (suite_value (rn_suite i))) = Inr slock"
    "first_proofs (simple_proof H (chained i) (with_policy a i)) a (rn_spec i) (rn_facts i) = Inr first"
    "run_proofs H first ps (de_coverage (rx_envelope x))"
    "make_decision_proof H (rx_envelope x) ps (chained i) (with_policy a i) False = Inr dp"
    "hash_obj H True (result_payload (de_status (rx_envelope x)) (probe_breaches (ps @ [dp]))) = Inr rh"
    "r0 = draft_receipt H (rx_envelope x) (ps @ [dp]) rh (de_coverage (rx_envelope x)) (issue_args_of w a i slock eh lh)"
    "r = r0\<lparr> rc_report := (rc_report r0)\<lparr> rpi_report_hash := h \<rparr>, rc_receipt_hash := h' \<rparr>"
    "compute_receipt_hash H r = Inr h'" "to_report H (rx_envelope x) (Some r) (rx_traces x) [] = Inr (rx_report x)"
    "json_text (rx_report x) ''report_hash'' = Some h" "rf_lock (rn_facts i) \<noteq> None"
    "cm_complete (de_coverage (rx_envelope x))" "validate_envelope (rx_envelope x) = Inr (rx_envelope x)"
    "de_chain_status (rx_envelope x) = fst (rn_chain i)"
    "missing_kinds REQUIRED_PROOFS ps (de_status (rx_envelope x)) = []"
    "de_required_proof_ids (rx_envelope x) = required_ids REQUIRED_PROOFS ps (de_status (rx_envelope x)) (pf_proof_id dp)"
proof -
  from run obtain i first traces reject ps cov reject' where i: "read_inputs H cy w a = Inr i"
    and first: "first_proofs (simple_proof H (chained i) (with_policy a i)) a (rn_spec i) (rn_facts i) = Inr first"
    and ex: "examine (simple_proof H (chained i) (with_policy a i)) w (rn_facts i) (rn_spec i) (rn_suite i) first traces reject
        = Inr (ps, cov, reject')"
    and fin: "finish_run H w a i traces (ps, cov, reject') = Inr x"
    by (auto simp: run_redline_def rbind_Inr_iff Let_def)
  let ?ctx = "\<lparr> dc_suite_id = su_suite_id (rn_suite i), dc_spec_hash = rf_spec_hash (rn_facts i),
                dc_chain_status = fst (rn_chain i), dc_reject_reason = reject' \<rparr>"
  from fin r obtain e eh lh slock r1 js where e: "decide H REQUIRED_PROOFS ps cov ?ctx = Inr e"
    and env: "rx_envelope x = e\<lparr> de_capabilities := (de_capabilities e)\<lparr> cps_qwen_compile := qwen_compile (rn_spec i) \<rparr> \<rparr>"
    and slock: "(case su_suite_lock_hash (rn_suite i) of
        Some h \<Rightarrow> if h = '''' then hash_obj H True (suite_value (rn_suite i)) else Inr h
      | None \<Rightarrow> hash_obj H True (suite_value (rn_suite i))) = Inr slock"
    and issued: "issue_receipt H (rx_envelope x) ps cov (issue_args_of w a i slock eh lh) = Inr (Some r1)"
    and sealed: "seal_receipt H (rx_envelope x) r1 traces ps = Inr (r, rx_report x)" and tr: "rx_traces x = traces"
    unfolding finish_run_def prod.case rbind_Inr_iff Let_def by (auto simp: rbind_Inr_iff split: option.splits)
  have made: "list_all run_proof first" "labels first = [(PK_PACKAGE_CANONICAL, True), (PK_EDIT_PROVENANCE, False), (PK_SPEC_COMPILE, True)]"
    using first_proofs_made [OF first] by blast+
  from issued obtain dp rh h0 where
    dp: "make_decision_proof H (rx_envelope x) ps (chained i) (with_policy a i) False = Inr dp"
    and rh: "hash_obj H True (result_payload (de_status (rx_envelope x)) (probe_breaches (with_decision ps dp))) = Inr rh"
    and r1: "r1 = (draft_receipt H (rx_envelope x) (with_decision ps dp) rh cov (issue_args_of w a i slock eh lh))\<lparr> rc_receipt_hash := h0 \<rparr>"
    and st: "de_status (rx_envelope x) \<in> {St_PASS, St_WITHHELD, St_REDUCE_SIZE}"
    and ad: "ia_package_adapter_id (issue_args_of w a i slock eh lh) = PLAYBOOK_ADAPTER_ID"
    by (rule issued_receipt) (simp add: issue_args_of_def Let_def)
  have st': "de_status e \<in> {St_PASS, St_WITHHELD, St_REDUCE_SIZE}" using st by (simp add: env)
  from e st' obtain did where d: "dc_reject_reason ?ctx = None" "cm_complete cov" "de_coverage e = cov"
    "missing_kinds REQUIRED_PROOFS ps (de_status e) = []" "de_chain_status e = dc_chain_status ?ctx"
    "de_required_proof_ids e = required_ids REQUIRED_PROOFS ps (de_status e) did"
    "decision_proof_id H (de_status e) (de_reason_code e) (map pf_proof_id ps) cov (de_verdict_tier e) (de_adjusted_size_cap e) = Inr did"
    "validate_envelope e = Inr e" by (rule decide_issued)
  have rej: "reject' = None" using d(1) by simp
  have rp: "run_proofs H first ps cov" by (rule examine_made [OF ex [unfolded rej]])
  have all: "list_all run_proof ps" by (rule run_proofs_parts(1) [OF rp made])
  note wd = with_decision_run [OF all dp]
  have did: "did = pf_proof_id dp"
    using decision_proof_made [OF dp] d(3,7) by (simp add: env)
  have cov: "de_coverage (rx_envelope x) = cov" using d(3) by (simp add: env)
  have valid: "validate_envelope (rx_envelope x) = Inr (rx_envelope x)"
    using d(8) by (simp add: env validate_envelope_def validated_def split: if_splits)
  from sealed obtain h h' where s: "r = r1\<lparr> rc_report := (rc_report r1)\<lparr> rpi_report_hash := h \<rparr>, rc_receipt_hash := h' \<rparr>"
    "compute_receipt_hash H r = Inr h'" "to_report H (rx_envelope x) (Some r) traces ps = Inr (rx_report x)"
    "json_text (rx_report x) ''report_hash'' = Some h" by (rule sealed_receipt)
  have rep: "to_report H (rx_envelope x) (Some r) (rx_traces x) [] = Inr (rx_report x)"
    using s(3) by (simp add: to_report_def tr del: normalize.simps)
  have lock: "rf_lock (rn_facts i) \<noteq> None"
    using ad by (auto simp: issue_args_of_def Let_def PLAYBOOK_ADAPTER_ID_def split: if_splits)
  show thesis
    by (rule that [OF i slock first _ dp _ refl _ s(2) rep s(4) lock _ valid, of rh eh lh])
      (use rp rh d s(1) in \<open>simp_all add: cov wd r1 did env\<close>)
qed

section \<open>The receipt alone\<close>

lemma required_ids_set:
  "set (required_ids req ps s did) =
     (\<Union>k \<in> set (req s). if k = PK_DECISION then {did} else set (ids_of_kind ps k))"
  by (auto simp: required_ids_def split: if_splits)

lemma all_required_there:
  assumes "list_all run_proof ps" "pf_kind dp = PK_DECISION" "pf_verdict_bearing dp"
    and "missing_kinds REQUIRED_PROOFS ps s = []" "rc_proofs r = ps @ [dp]"
    and "rd_required_proof_ids (rc_decision r) = required_ids REQUIRED_PROOFS ps s (pf_proof_id dp)"
  shows "missing_required_proof_ids r s = []"
proof -
  have none: "ids_of_kind ps PK_DECISION = []"
    using assms(1) not_decision_prefix(2) by (auto simp: ids_of_kind_def filter_empty_conv list_all_iff)
  have ids: "ids_of_kind (ps @ [dp]) k = (if k = PK_DECISION then [pf_proof_id dp] else ids_of_kind ps k)" for k
    using none assms(2,3) by (simp add: ids_of_kind_def)
  have "filter (\<lambda>k. ids_of_kind (ps @ [dp]) k = []) (REQUIRED_PROOFS s) = []"
    using assms(4) by (auto simp: filter_empty_conv missing_kinds_def ids)
  moreover have "set (concat (map (ids_of_kind (ps @ [dp])) (REQUIRED_PROOFS s)))
      = set (required_ids REQUIRED_PROOFS ps s (pf_proof_id dp))"
    unfolding required_ids_set by (auto simp: ids split: if_splits)
  ultimately show ?thesis
    by (simp add: missing_required_proof_ids_def assms(5,6) Let_def unique_sorted_set)
qed

lemma decision_confirmed:
  assumes "make_decision_proof H env ps x y b = Inr dp" "list_all run_proof ps" "rc_proofs r = ps @ [dp]"
    and "re_status (rc_result r) = de_status env" "rd_reason_code (rc_decision r) = de_reason_code env"
    and "rc_coverage r = de_coverage env" "rd_verdict_tier (rc_decision r) = de_verdict_tier env"
    and "rd_adjusted_size_cap (rc_decision r) = de_adjusted_size_cap env" "decision_envelope_from_receipt r = Inr env"
  shows "on_single r PK_DECISION (decision_proof_ok H r) = Inr True"
proof -
  note dp = decision_proof_made [OF assms(1)]
  then obtain fps where fps: "traverse (\<lambda>p. hash_obj H True (proof_value p)) ps = Inr fps"
    "hash_obj H True (decision_inputs (sort fps) (sort (map pf_proof_id ps)) (de_coverage env)) = Inr (pf_inputs_hash dp)" by blast
  have k: "pf_kind p \<noteq> PK_DECISION" if "p \<in> set ps" for p
    using that assms(2) not_decision_prefix(2) by (simp add: list_all_iff)
  have others: "filter (\<lambda>p. pf_kind p \<noteq> PK_DECISION) (rc_proofs r) = ps"
    using k dp by (simp add: assms(3) filter_id_conv)
  have "filter (\<lambda>p. pf_kind p = PK_DECISION) (rc_proofs r) = [dp]"
    using k dp by (simp add: assms(3) filter_empty_conv)
  then have "single_proof r PK_DECISION = Some dp" by (simp add: single_proof_def)
  moreover have "decision_proof_ok H r dp = Inr True"
    using dp fps assms(4-9) by (simp add: decision_proof_ok_def others Let_def)
  ultimately show ?thesis by (simp add: on_single_def)
qed

lemma binding_holds:
  assumes "rc_proofs r = ps @ [dp]" "pf_kind dp = PK_DECISION" "distinct (map pf_proof_id (rc_proofs r))"
    and "pi_manifest_hash (rc_package r) = pi_identity_hash (rc_package r)"
    and "\<And>p. p \<in> set ps \<Longrightarrow> pf_kind p \<in> set NON_VERDICT_PROOF_KINDS \<Longrightarrow> \<not> pf_verdict_bearing p"
    and "\<And>k. k \<in> set SINGLETON_PROOF_KINDS \<Longrightarrow> length (filter (\<lambda>p. pf_kind p = k) ps) \<le> 1"
    and "list_all run_proof ps"
    and "hash_obj H True (result_payload (re_status (rc_result r)) (re_new_breaches (rc_result r))) = Inr (re_result_hash (rc_result r))"
    and "filter (\<lambda>p. pf_kind p = PK_PACKAGE_CANONICAL) ps = [p1]" "hash_obj H True (package_artifact r) = Inr (pf_artifact_hash p1)"
    and "filter (\<lambda>p. pf_kind p = PK_COVERAGE) ps = [p2]"
      "hash_obj H True (coverage_value (rc_coverage r)) = Inr (pf_artifact_hash p2)"
    and "on_single r PK_DECISION (decision_proof_ok H r) = Inr True"
  shows "receipt_binding_error H r = Inr None"
proof -
  have none: "filter (\<lambda>p. pf_kind p = PK_DECISION) ps = []"
    using assms(7) not_decision_prefix(2) by (auto simp: filter_empty_conv list_all_iff)
  have k: "length (filter (\<lambda>p. pf_kind p = k) (rc_proofs r)) \<le> 1" if "k \<in> set SINGLETON_PROOF_KINDS" for k
    using assms(6) [OF that] none by (auto simp: assms(1,2))
  have "\<not> list_ex (\<lambda>k. 1 < length (filter (\<lambda>p. pf_kind p = k) (rc_proofs r))) SINGLETON_PROOF_KINDS"
    using k by (auto simp: list_ex_iff not_less)
  moreover have "\<not> list_ex (\<lambda>p. pf_kind p \<in> set NON_VERDICT_PROOF_KINDS \<and> pf_verdict_bearing p) (rc_proofs r)"
    using assms(5) by (auto simp: list_ex_iff assms(1,2) NON_VERDICT_PROOF_KINDS_def)
  moreover have "single_proof r PK_PACKAGE_CANONICAL = Some p1" "single_proof r PK_COVERAGE = Some p2"
    using assms(9,11) by (simp_all add: single_proof_def assms(1,2))
  ultimately show ?thesis
    using assms(3,4,8,10,12,13) by (simp add: receipt_binding_error_def on_single_def)
qed

section \<open>The ledger that was written\<close>

lemma scan_other_keys:
  "read_entries_from H p ls = Inr es \<Longrightarrow> conflict_in (ledger_key_hash H r) ls = Inr () \<Longrightarrow>
   scan_ledger H r p n b m (ls @ ls') = scan_ledger H r (chain_tail entry_hash p es) (n + int (length es)) b m ls'"
proof (induction ls arbitrary: p n es)
  case (Cons l ls)
  show ?case
  proof (cases l)
    case (Json_Line t v)
    with Cons.prems obtain e h es' where v: "v = PDict e" "entry_hash e = Some h" "hash_obj H True (entry_body e) = Inr h"
      "map_of e ''previous_entry_hash'' = Some (PStr p)" "read_entries_from H h ls = Inr es'" "es = e # es'"
      by (auto simp: rbind_Inr_iff split: pyval.splits option.splits if_splits)
    with Cons.prems(2) Json_Line have "map_of e ''key_hash'' \<noteq> Some (PStr (ledger_key_hash H r))"
      "conflict_in (ledger_key_hash H r) ls = Inr ()" by (auto split: if_splits)
    with Cons.IH [OF v(5)] v Json_Line show ?thesis by (simp add: algebra_simps)
  qed (use Cons in simp_all)
qed simp

lemma new_entry_status:
  "map_of (appended H r p w) ''status'' = Some (PStr (status_value (re_status (rc_result r))))"
  by (simp add: appended_def new_entry_def text_entry_def Let_def)

lemma scan_own_entry:
  "\<exists>h. scan_ledger H r p n False False [entry_line (new_entry H r p w)] = Inr (Some (h, n + 1, True))
     \<and> entry_hash (appended H r p w) = Some h"
proof -
  from new_entry_reads(4) obtain h where "entry_hash (appended H r p w) = Some h"
    "hash_obj H True (entry_body (appended H r p w)) = Inr h" by blast
  then show ?thesis
    using new_entry_reads(1-3) [of H r p w] new_entry_status [of H r p w]
    by (simp add: entry_line_def appended_def [symmetric])
qed

text \<open>The ledger and the checkpoint that \<open>atomic_write_receipt\<close> leaves satisfy the verifier.\<close>

lemma written_ledger_checks:
  assumes "atomic_write_receipt H fs r wa label = (None, fs')"
  shows "\<exists>ls c tl_hash n. if_ledger fs' = Some ls \<and> if_checkpoint fs' = Some c \<and>
    scan_ledger H r genesis 0 False False ls = Inr (Some (tl_hash, n, True)) \<and> checkpoint_matches H r ls tl_hash n c = Inr True"
proof -
  from assms obtain ls c where ls: "append_ledger H (if_ledger fs) r wa = Inr ls"
    and c: "create_ledger_checkpoint H (Some ls) [rc_receipt_hash r] ''local-artifact'' label = Inr c"
    and free: "assert_no_issuance_conflict H (if_ledger fs) r = Inr ()"
    and fs': "if_ledger fs' = Some ls" "if_checkpoint fs' = Some c"
    by (auto simp: atomic_write_receipt_def Let_def split: sum.splits)
  let ?ls0 = "case if_ledger fs of None \<Rightarrow> [] | Some ls \<Rightarrow> ls"
  from append_ledger_Inr [OF ls] obtain es where es: "read_entries_from H genesis ?ls0 = Inr es"
    "ls = ?ls0 @ [entry_line (new_entry H r (chain_tail entry_hash genesis es) wa)]"
    "read_entries_from H genesis ls = Inr (es @ [appended H r (chain_tail entry_hash genesis es) wa])" .
  let ?p = "chain_tail entry_hash genesis es"
  have "conflict_in (ledger_key_hash H r) ?ls0 = Inr ()"
    using free by (auto simp: assert_no_issuance_conflict_def split: option.splits)
  from scan_other_keys [OF es(1) this] scan_own_entry [of H r ?p "int (length es)" wa] obtain h where
    scan: "scan_ledger H r genesis 0 False False ls = Inr (Some (h, int (length es) + 1, True))"
    and h: "entry_hash (appended H r ?p wa) = Some h" unfolding es(2) by auto
  have tl: "chain_tail entry_hash genesis (es @ [appended H r ?p wa]) = h" using h by (simp add: chain_tail_append)
  let ?d = "\<lambda>rt. draft_checkpoint H ls (es @ [appended H r ?p wa])
               (unique_sorted ([rc_receipt_hash r] @ entry_receipts (es @ [appended H r ?p wa]))) rt ''local-artifact'' label"
  from c es(3) obtain rt hc where rt: "merkle_root H (map PStr (unique_sorted ([rc_receipt_hash r] @ entry_receipts (es @ [appended H r ?p wa])))) = Inr rt"
    and hc: "compute_ledger_checkpoint_hash H (?d rt) = Inr hc" and c': "c = (?d rt)\<lparr> lc_checkpoint_hash := hc \<rparr>"
    unfolding create_ledger_checkpoint_def rbind_Inr_iff by (auto simp: read_ledger_entries_def)
  have "compute_ledger_checkpoint_hash H c = Inr hc"
    using hc by (simp add: c' compute_ledger_checkpoint_hash_def checkpoint_fields_def)
  then have "checkpoint_matches H r ls h (int (length es) + 1) c = Inr True"
    using rt tl by (simp add: checkpoint_matches_def c' draft_checkpoint_def)
  with scan fs' show ?thesis by blast
qed

section \<open>The whole\<close>

text \<open>The verifier's arguments for what a run left: the receipt, the report and the proofs of the run, and the ledger
  with its checkpoint beside them. Nothing is overridden, and the new run has the arguments of the first one.\<close>

definition beside :: "verify_args \<Rightarrow> world \<Rightarrow> run_args \<Rightarrow> run_artifacts \<Rightarrow> receipt \<Rightarrow> issuance_files \<Rightarrow> bool" where
  "beside v w a x r fs =
     (va_receipt v = Receipt_Object (Some (PStr (rc_version r))) (Inr r) \<and> va_level v = Some VL_REPLAYED \<and>
      va_package_given v \<and> va_suite_given v \<and> va_spec_given v \<and> va_world v = w \<and> va_ledger v = None \<and>
      va_checkpoint v = None \<and> va_report v = None \<and> va_default_report v = File (rx_report x) \<and>
      va_proofs v = Some (map (\<lambda>p. (proof_file_name (pf_proof_id p), File p)) (rc_proofs r)) \<and>
      (\<exists>ls c. if_ledger fs = Some ls \<and> if_checkpoint fs = Some c \<and> lf_ledger (va_default_files v) = File ls \<and>
         lf_checkpoint (va_default_files v) = File c) \<and>
      rerun_of v r = a)"

lemma proof_files_ok:
  assumes "distinct (map (\<lambda>p. proof_file_name (pf_proof_id p)) (rc_proofs r))"
  shows "external_proofs_error r (Some (map (\<lambda>p. (proof_file_name (pf_proof_id p), File p)) (rc_proofs r))) = None"
proof -
  let ?fs = "map (\<lambda>p. (proof_file_name (pf_proof_id p), File p)) (rc_proofs r)"
  have names: "map fst ?fs = map (\<lambda>p. proof_file_name (pf_proof_id p)) (rc_proofs r)" by (simp add: o_def)
  have same: "same_proof p p" for p by (simp add: same_proof_def same_dict_def list_all_iff)
  have "map_of ?fs (proof_file_name (pf_proof_id p)) = Some (File p)" if "p \<in> set (rc_proofs r)" for p
    using that assms by (intro map_of_is_SomeI) (simp_all add: o_def)
  then have "list_all (proof_file_ok ?fs) (rc_proofs r)"
    using same by (simp add: list_all_iff proof_file_ok_def)
  moreover have "distinct (map pf_proof_id (rc_proofs r))"
    using assms by (auto simp: distinct_map inj_on_def)
  ultimately show ?thesis unfolding external_proofs_error_def option.case names by simp
qed

lemma traverse_snoc: "traverse f xs = Inr ys \<Longrightarrow> f x = Inr y \<Longrightarrow> traverse f (xs @ [x]) = Inr (ys @ [y])"
  by (induction xs arbitrary: ys) (auto simp: rbind_Inr_iff)

lemma fingerprints_there:
  assumes "make_decision_proof H env ps x y b = Inr dp"
  shows "\<exists>hs. proof_fingerprint H (ps @ [dp]) = Inr hs"
proof -
  from decision_proof_made [OF assms] obtain fps where fps: "traverse (\<lambda>p. hash_obj H True (proof_value p)) ps = Inr fps"
    and "pf_meta dp = []" by blast
  then have "plain (proof_value dp)" by simp
  from plain_hashes [OF this] obtain h where "hash_obj H True (proof_value dp) = Inr h" by blast
  with fps have "traverse (\<lambda>p. hash_obj H True (proof_value p)) (ps @ [dp]) = Inr (fps @ [h])"
    by (rule traverse_snoc)
  then show ?thesis by (simp add: proof_fingerprint_def)
qed

lemma read_inputs_facts:
  assumes "read_inputs H cy w a = Inr i"
  shows "load_spec (wo_spec w) = Inr (rn_spec i) \<and> load_suite H w (wo_suite w) = Inr (rn_suite i) \<and>
    hash_obj H True (redline_spec_value (rn_spec i)) = Inr (rf_spec_hash (rn_facts i)) \<and>
    hash_tree H (wo_package w) = Inr (rf_package_hash (rn_facts i)) \<and>
    (\<exists>err. package_lock H w = Inr (rf_lock (rn_facts i), err)) \<and>
    (\<exists>bh. baseline_chain H cy (wo_now w) bh (ra_baseline_receipt a) (ra_trust_policy a) = Inr (rn_chain i))"
  using assms by (auto simp: read_inputs_def rbind_Inr_iff)

lemma chained_file:
  "baseline_chain H cy now bh br policy = Inr c \<Longrightarrow> fst c = CS_CHAINED \<Longrightarrow> \<exists>f fs. br = Some (f, fs) \<and> file_exists f"
  by (auto simp: baseline_chain_def unchained_def rbind_Inr_iff split: option.splits sum.splits if_splits
      dest!: read_json_Inr [THEN iffD1])

lemma locked_package:
  "package_lock H w = Inr (Some l, err) \<Longrightarrow>
   load_identity_lock H (case wo_package w of Tree fs \<Rightarrow> fs | _ \<Rightarrow> []) (wo_lock w) = Inr l"
  by (auto simp: package_lock_def split: sum.splits exn.splits)

lemma rerun_guard:
  assumes "read_inputs H cy w a = Inr i" "rerun_of v r = a" "run_redline H cy w a = Inr x"
    and "si_spec_hash (rc_spec r) = rf_spec_hash (rn_facts i)"
    and "(case su_suite_lock_hash (rn_suite i) of
        Some h \<Rightarrow> if h = '''' then hash_obj H True (suite_value (rn_suite i)) else Inr h
      | None \<Rightarrow> hash_obj H True (suite_value (rn_suite i))) = Inr (sui_suite_lock_hash (rc_suite r))"
    and "bi_chain_status (rc_baseline r) = fst (rn_chain i)"
  shows "guarded_rerun H cy w r (given_or (va_baseline_receipt v) (va_default_baseline v)) (ti_policy (va_trust v)) = Inr (Inr x)"
proof -
  let ?br = "given_or (va_baseline_receipt v) (va_default_baseline v)"
  let ?c = "bi_chain_status (rc_baseline r) = CS_CHAINED"
  from read_inputs_facts [OF assms(1)] obtain bh where f: "load_spec (wo_spec w) = Inr (rn_spec i)"
    "load_suite H w (wo_suite w) = Inr (rn_suite i)"
    "hash_obj H True (redline_spec_value (rn_spec i)) = Inr (rf_spec_hash (rn_facts i))"
    "baseline_chain H cy (wo_now w) bh (ra_baseline_receipt a) (ra_trust_policy a) = Inr (rn_chain i)" by blast
  have a: "rerun_args r (if ?c then Some ?br else None) (if ?c then ti_policy (va_trust v) else None) = a"
    using assms(2) by (simp add: rerun_of_def Let_def)
  have "file_exists (fst ?br)" if ?c
    using chained_file [OF f(4)] that assms(6) a by (auto simp: rerun_args_def)
  then show ?thesis
    using f(1-3) assms(3-5) a by (auto simp: guarded_rerun_def Let_def rbind_Inr_iff)
qed

lemma replay_reproduces:
  assumes g: "guarded_rerun H cy w r br policy = Inr (Inr x)" and x: "rx_receipt x = Some r"
    and "de_status (rx_envelope x) = re_status (rc_result r)" "de_reason_code (rx_envelope x) = rd_reason_code (rc_decision r)"
    "de_coverage (rx_envelope x) = rc_coverage r" "de_required_proof_ids (rx_envelope x) = rd_required_proof_ids (rc_decision r)"
    and "proof_fingerprint H (rc_proofs r) = Inr hs" "render_strength_summary r = rc_strength_summary r"
    and rep: "to_report H (rx_envelope x) (Some r) (rx_traces x) [] = Inr (rx_report x)"
    "json_text (rx_report x) ''report_hash'' = Some (rpi_report_hash (rc_report r))"
  shows "replay_error H cy w r (File (rx_report x)) br policy = Inr None"
proof -
  have "rerun_agrees H r x r = Inr True" using assms(3-8) by (simp add: rerun_agrees_def)
  with g x rep report_recomputed [OF rep] show ?thesis by (simp add: replay_error_def)
qed

text \<open>An attestation beside the receipt that verifies under the given key or policy.\<close>

definition attestation_ok :: "(string \<Rightarrow> string) \<Rightarrow> crypto \<Rightarrow> verify_args \<Rightarrow> ledger_checkpoint \<Rightarrow> bool" where
  "attestation_ok H cy v c =
     (\<exists>att policy. given_or (va_attestation v) (lf_attestation (va_default_files v)) = File att \<and>
        (case ti_policy (va_trust v) of None \<Rightarrow> policy = None | Some f \<Rightarrow> \<exists>p. f = File p \<and> policy = Some p) \<and>
        verify_checkpoint_attestation H cy c att (ti_public_key (va_trust v)) policy (wo_now (va_world v)) = Inr True)"

lemma ledger_verifies:
  assumes "atomic_write_receipt H fs r wa label = (None, fs')" "beside v w a x r fs'"
    and "trust_given v \<Longrightarrow> \<exists>c. if_checkpoint fs' = Some c \<and> attestation_ok H cy v c"
  shows "verify_ledger H cy v r VL_REPLAYED = Inr None"
proof -
  from written_ledger_checks [OF assms(1)] obtain ls c tl_hash n where l: "if_ledger fs' = Some ls" "if_checkpoint fs' = Some c"
    "scan_ledger H r genesis 0 False False ls = Inr (Some (tl_hash, n, True))" "checkpoint_matches H r ls tl_hash n c = Inr True"
    by blast
  from assms(2) l have v: "va_ledger v = None" "va_checkpoint v = None" "lf_ledger (va_default_files v) = File ls"
    "lf_checkpoint (va_default_files v) = File c" by (auto simp: beside_def)
  let ?att = "if trust_given v then Some (given_or (va_attestation v) (lf_attestation (va_default_files v))) else va_attestation v"
  have "ledger_checkpoint_error H cy (wo_now (va_world v)) r ls tl_hash n (File c) ?att (va_trust v) = Inr None"
  proof (cases "trust_given v")
    case False
    then show ?thesis using l(4) by (simp add: trust_given_def ledger_checkpoint_error_def attestation_error_def)
  next
    case True
    with assms(3) l(2) obtain att policy where a: "given_or (va_attestation v) (lf_attestation (va_default_files v)) = File att"
      "(case ti_policy (va_trust v) of None \<Rightarrow> policy = None | Some f \<Rightarrow> \<exists>p. f = File p \<and> policy = Some p)"
      "verify_checkpoint_attestation H cy c att (ti_public_key (va_trust v)) policy (wo_now (va_world v)) = Inr True"
      by (auto simp: attestation_ok_def)
    with True l(4) show ?thesis
      by (auto simp: ledger_checkpoint_error_def attestation_error_def split: option.splits)
  qed
  with l v show ?thesis by (simp add: verify_ledger_def ledger_error_def given_or_def)
qed

text \<open>The same in terms of the receipt: what it takes from the envelope and from the inputs of the run.\<close>

lemma run_receipt_fields:
  assumes run: "run_redline H cy w a = Inr x" "rx_receipt x = Some r"
  obtains i ps first dp l where "read_inputs H cy w a = Inr i" "rf_lock (rn_facts i) = Some l"
    "list_all run_proof first"
    "labels first = [(PK_PACKAGE_CANONICAL, True), (PK_EDIT_PROVENANCE, False), (PK_SPEC_COMPILE, True)]"
    "hash_obj H True (package_artifact r) = Inr (pf_artifact_hash (hd first))"
    "run_proofs H first ps (rc_coverage r)" "make_decision_proof H (rx_envelope x) ps (chained i) (with_policy a i) False = Inr dp"
    "rc_proofs r = ps @ [dp]" "decision_envelope_from_receipt r = Inr (rx_envelope x)"
    "rc_coverage r = de_coverage (rx_envelope x)" "cm_complete (rc_coverage r)"
    "re_status (rc_result r) = de_status (rx_envelope x)" "rd_reason_code (rc_decision r) = de_reason_code (rx_envelope x)"
    "rd_verdict_tier (rc_decision r) = de_verdict_tier (rx_envelope x)"
    "rd_adjusted_size_cap (rc_decision r) = de_adjusted_size_cap (rx_envelope x)"
    "rd_required_proof_ids (rc_decision r) = de_required_proof_ids (rx_envelope x)"
    "missing_kinds REQUIRED_PROOFS ps (re_status (rc_result r)) = []"
    "rd_required_proof_ids (rc_decision r) = required_ids REQUIRED_PROOFS ps (re_status (rc_result r)) (pf_proof_id dp)"
    "hash_obj H True (result_payload (re_status (rc_result r)) (re_new_breaches (rc_result r))) = Inr (re_result_hash (rc_result r))"
    "pi_manifest_hash (rc_package r) = pi_identity_hash (rc_package r)" "compute_receipt_hash H r = Inr (rc_receipt_hash r)"
    "pi_identity_hash (rc_package r) = rf_package_hash (rn_facts i)" "pi_identity_lock_hash (rc_package r) = pil_lock_hash l"
    "si_spec_hash (rc_spec r) = rf_spec_hash (rn_facts i)"
    "(case su_suite_lock_hash (rn_suite i) of
        Some h \<Rightarrow> if h = '''' then hash_obj H True (suite_value (rn_suite i)) else Inr h
      | None \<Rightarrow> hash_obj H True (suite_value (rn_suite i))) = Inr (sui_suite_lock_hash (rc_suite r))"
    "bi_chain_status (rc_baseline r) = fst (rn_chain i)" "render_strength_summary r = rc_strength_summary r"
    "to_report H (rx_envelope x) (Some r) (rx_traces x) [] = Inr (rx_report x)"
    "json_text (rx_report x) ''report_hash'' = Some (rpi_report_hash (rc_report r))" "rc_version r = ''redline.receipt.v3.3''"
proof -
  from run obtain i ps first dp rh slock eh lh h h' r0 where i: "read_inputs H cy w a = Inr i"
    and slock: "(case su_suite_lock_hash (rn_suite i) of
        Some h \<Rightarrow> if h = '''' then hash_obj H True (suite_value (rn_suite i)) else Inr h
      | None \<Rightarrow> hash_obj H True (suite_value (rn_suite i))) = Inr slock"
    and first: "first_proofs (simple_proof H (chained i) (with_policy a i)) a (rn_spec i) (rn_facts i) = Inr first"
    and rp: "run_proofs H first ps (de_coverage (rx_envelope x))"
    and dp: "make_decision_proof H (rx_envelope x) ps (chained i) (with_policy a i) False = Inr dp"
    and rh: "hash_obj H True (result_payload (de_status (rx_envelope x)) (probe_breaches (ps @ [dp]))) = Inr rh"
    and r0: "r0 = draft_receipt H (rx_envelope x) (ps @ [dp]) rh (de_coverage (rx_envelope x)) (issue_args_of w a i slock eh lh)"
    and r: "r = r0\<lparr> rc_report := (rc_report r0)\<lparr> rpi_report_hash := h \<rparr>, rc_receipt_hash := h' \<rparr>"
    and hash: "compute_receipt_hash H r = Inr h'"
    and rep: "to_report H (rx_envelope x) (Some r) (rx_traces x) [] = Inr (rx_report x)"
      "json_text (rx_report x) ''report_hash'' = Some h"
    and lock: "rf_lock (rn_facts i) \<noteq> None" and cov: "cm_complete (de_coverage (rx_envelope x))"
    and valid: "validate_envelope (rx_envelope x) = Inr (rx_envelope x)"
    and chain: "de_chain_status (rx_envelope x) = fst (rn_chain i)"
    and miss: "missing_kinds REQUIRED_PROOFS ps (de_status (rx_envelope x)) = []"
    and req: "de_required_proof_ids (rx_envelope x) = required_ids REQUIRED_PROOFS ps (de_status (rx_envelope x)) (pf_proof_id dp)"
    by (rule run_receipt)
  have made: "list_all run_proof first" "labels first = [(PK_PACKAGE_CANONICAL, True), (PK_EDIT_PROVENANCE, False), (PK_SPEC_COMPILE, True)]"
    using first_proofs_made [OF first] by blast+
  obtain l where l: "rf_lock (rn_facts i) = Some l" using lock by blast
  have fields: "rc_proofs r = ps @ [dp]" "re_status (rc_result r) = de_status (rx_envelope x)"
    "rd_reason_code (rc_decision r) = de_reason_code (rx_envelope x)" "rc_coverage r = de_coverage (rx_envelope x)"
    "rd_verdict_tier (rc_decision r) = de_verdict_tier (rx_envelope x)"
    "rd_adjusted_size_cap (rc_decision r) = de_adjusted_size_cap (rx_envelope x)"
    "rd_required_proof_ids (rc_decision r) = de_required_proof_ids (rx_envelope x)"
    "rpi_report_hash (rc_report r) = h" "rc_receipt_hash r = h'" "rc_version r = ''redline.receipt.v3.3''"
    "pi_manifest_hash (rc_package r) = pi_identity_hash (rc_package r)"
    "re_new_breaches (rc_result r) = probe_breaches (ps @ [dp])" "re_result_hash (rc_result r) = rh"
    "rc_strength_summary r = strength_summary (rc_proofs r) (length (sui_scenarios (rc_suite r)))"
    "bi_chain_status (rc_baseline r) = fst (rn_chain i)"
    using chain by (simp_all add: r r0 draft_receipt_def)
  have args: "pi_identity_hash (rc_package r) = rf_package_hash (rn_facts i)" "si_spec_hash (rc_spec r) = rf_spec_hash (rn_facts i)"
    "sui_suite_lock_hash (rc_suite r) = slock" "pi_identity_lock_hash (rc_package r) = pil_lock_hash l"
    "bi_package_hash (rc_baseline r) = rf_baseline_hash (rn_facts i)" "ci_package_hash (rc_candidate r) = rf_candidate_hash (rn_facts i)"
    by (simp_all add: r r0 draft_receipt_def issue_args_of_def Let_def l)
  have env: "decision_envelope_from_receipt r = Inr (rx_envelope x)"
    using valid by (cases "rx_envelope x") (simp add: decision_envelope_from_receipt_def r r0 draft_receipt_def)
  have "hash_obj H True (package_artifact r) = Inr (pf_artifact_hash (hd first))"
    using first_proofs_made [OF first] by (simp add: package_artifact_def args l)
  then show thesis
    using that [OF i l made] rp dp env cov miss req slock rh hash rep by (simp add: fields args render_strength_summary_eq)
qed

lemma run_receipt_verifies:
  assumes run: "run_redline H cy w a = Inr x" "rx_receipt x = Some r" and v: "beside v w a x r fs'"
    and names: "distinct (map (\<lambda>p. proof_file_name (pf_proof_id p)) (rc_proofs r))"
  shows "compute_receipt_hash H r = Inr (rc_receipt_hash r) \<and> missing_required_proof_ids r (re_status (rc_result r)) = [] \<and>
    receipt_binding_error H r = Inr None \<and> cm_complete (rc_coverage r) \<and>
    render_strength_summary r = rc_strength_summary r \<and> verify_package H cy v r VL_REPLAYED = Inr None \<and>
    rc_version r = ''redline.receipt.v3.3''"
proof (rule run_receipt_fields [OF run])
  fix i ps first dp l
  assume i: "read_inputs H cy w a = Inr i" and l: "rf_lock (rn_facts i) = Some l"
    and made: "list_all run_proof first"
      "labels first = [(PK_PACKAGE_CANONICAL, True), (PK_EDIT_PROVENANCE, False), (PK_SPEC_COMPILE, True)]"
    and pk: "hash_obj H True (package_artifact r) = Inr (pf_artifact_hash (hd first))"
    and rp: "run_proofs H first ps (rc_coverage r)"
    and dp: "make_decision_proof H (rx_envelope x) ps (chained i) (with_policy a i) False = Inr dp"
    and proofs: "rc_proofs r = ps @ [dp]" and env: "decision_envelope_from_receipt r = Inr (rx_envelope x)"
    and cov: "rc_coverage r = de_coverage (rx_envelope x)" "cm_complete (rc_coverage r)"
    and f: "re_status (rc_result r) = de_status (rx_envelope x)" "rd_reason_code (rc_decision r) = de_reason_code (rx_envelope x)"
      "rd_verdict_tier (rc_decision r) = de_verdict_tier (rx_envelope x)"
      "rd_adjusted_size_cap (rc_decision r) = de_adjusted_size_cap (rx_envelope x)"
      "rd_required_proof_ids (rc_decision r) = de_required_proof_ids (rx_envelope x)"
    and miss: "missing_kinds REQUIRED_PROOFS ps (re_status (rc_result r)) = []"
    and req: "rd_required_proof_ids (rc_decision r) = required_ids REQUIRED_PROOFS ps (re_status (rc_result r)) (pf_proof_id dp)"
    and res: "hash_obj H True (result_payload (re_status (rc_result r)) (re_new_breaches (rc_result r))) = Inr (re_result_hash (rc_result r))"
    and man: "pi_manifest_hash (rc_package r) = pi_identity_hash (rc_package r)"
    and hash: "compute_receipt_hash H r = Inr (rc_receipt_hash r)"
    and pkg: "pi_identity_hash (rc_package r) = rf_package_hash (rn_facts i)" "pi_identity_lock_hash (rc_package r) = pil_lock_hash l"
    and sp: "si_spec_hash (rc_spec r) = rf_spec_hash (rn_facts i)"
    and slock: "(case su_suite_lock_hash (rn_suite i) of
        Some h \<Rightarrow> if h = '''' then hash_obj H True (suite_value (rn_suite i)) else Inr h
      | None \<Rightarrow> hash_obj H True (suite_value (rn_suite i))) = Inr (sui_suite_lock_hash (rc_suite r))"
    and ch: "bi_chain_status (rc_baseline r) = fst (rn_chain i)" and st: "render_strength_summary r = rc_strength_summary r"
    and rep: "to_report H (rx_envelope x) (Some r) (rx_traces x) [] = Inr (rx_report x)"
      "json_text (rx_report x) ''report_hash'' = Some (rpi_report_hash (rc_report r))"
    and ver: "rc_version r = ''redline.receipt.v3.3''"
  note parts = run_proofs_parts [OF rp made]
  obtain p2 where p2: "filter (\<lambda>p. pf_kind p = PK_COVERAGE) ps = [p2]"
    "hash_obj H True (coverage_value (rc_coverage r)) = Inr (pf_artifact_hash p2)" using parts(3) by blast
  have kd: "pf_kind dp = PK_DECISION" "pf_verdict_bearing dp" using decision_proof_made [OF dp] by blast+
  have ids: "distinct (map pf_proof_id (rc_proofs r))" using names by (auto simp: distinct_map inj_on_def)
  have dec: "on_single r PK_DECISION (decision_proof_ok H r) = Inr True"
    by (rule decision_confirmed [OF dp parts(1) proofs f(1,2) cov(1) f(3,4) env])
  have bind: "receipt_binding_error H r = Inr None"
    by (rule binding_holds [OF proofs kd(1) ids man parts(5,4,1) res parts(2) pk p2 dec])
  obtain hs where hs: "proof_fingerprint H (rc_proofs r) = Inr hs" using fingerprints_there [OF dp] proofs by auto
  have b: "va_world v = w" "va_suite_given v" "va_spec_given v" "rerun_of v r = a"
    "va_proofs v = Some (map (\<lambda>p. (proof_file_name (pf_proof_id p), File p)) (rc_proofs r))"
    "given_or (va_report v) (va_default_report v) = File (rx_report x)"
    using v by (auto simp: beside_def given_or_def)
  have "replay_error H cy w r (File (rx_report x)) (given_or (va_baseline_receipt v) (va_default_baseline v))
      (ti_policy (va_trust v)) = Inr None"
    by (rule replay_reproduces [OF rerun_guard [OF i b(4) run(1) sp slock ch] run(2) _ _ _ _ hs st rep])
      (simp_all add: f cov)
  then have "verify_package H cy v r VL_REPLAYED = Inr None"
    using read_inputs_facts [OF i] l pkg locked_package b proof_files_ok [OF names]
    by (auto simp: verify_package_def)
  with hash all_required_there [OF parts(1) kd miss proofs req] bind cov(2) st ver show ?thesis by blast
qed

lemma run_verifies:
  assumes "run_redline H cy w a = Inr x" "rx_receipt x = Some r"
    and "atomic_write_receipt H fs r wa label = (None, fs')" "beside v w a x r fs'"
    and "distinct (map (\<lambda>p. proof_file_name (pf_proof_id p)) (rc_proofs r))"
    and "trust_given v \<Longrightarrow> \<exists>c. if_checkpoint fs' = Some c \<and> attestation_ok H cy v c"
  shows "\<exists>y. verify H cy v = Inr y \<and> vr_receipt_hash y = Some (rc_receipt_hash r) \<and>
    vr_status y =
      (if rd_reason_code (rc_decision r) = RC_BASELINE_GENESIS \<or> re_status (rc_result r) = St_PASS \<and> \<not> trust_given v
       then VS_UNVERIFIED_NO_VERDICT else VS_VERIFIED)"
proof -
  note c = run_receipt_verifies [OF assms(1,2,4,5)]
  note l = ledger_verifies [OF assms(3,4,6)]
  have v: "va_receipt v = Receipt_Object (Some (PStr ''redline.receipt.v3.3'')) (Inr r)" "va_level v = Some VL_REPLAYED"
    "va_ledger v = None" "va_package_given v" using assms(4) c by (auto simp: beside_def)
  have "verify H cy v = verify_receipt H cy v VL_REPLAYED r" by (simp add: verify_def v given_or_def)
  then show ?thesis
    using c l v by (simp add: verify_receipt_def result_of_def unverified_result_def)
qed


end
