(* ===== verification/Verifier_Sample.thy ===== *)
theory Verifier_Sample
  imports Runner_Sample Verifier_Complete
begin

text \<open>
  The sample runs of \<open>Runner_Sample\<close> written to a fresh directory and verified there: the witnesses of what
  verification means and of its completeness.
\<close>

definition sample_artifacts :: "bool \<Rightarrow> run_artifacts" where
  "sample_artifacts ok = projr (run_redline const_digest sample_crypto (sample_world ok) sample_run_args)"

definition sample_issued :: "bool \<Rightarrow> receipt" where
  "sample_issued ok = the (rx_receipt (sample_artifacts ok))"

definition sample_written :: "bool \<Rightarrow> issuance_files" where
  "sample_written ok = snd (atomic_write_receipt const_digest empty_files (sample_issued ok) None ''issuance-ledger.jsonl'')"

definition no_files :: ledger_files where
  "no_files = \<lparr> lf_ledger = No_File, lf_checkpoint = No_File, lf_attestation = No_File \<rparr>"

definition sample_verify_args :: "bool \<Rightarrow> verify_args" where
  "sample_verify_args ok =
     \<lparr> va_receipt = Receipt_Object (Some (PStr (rc_version (sample_issued ok)))) (Inr (sample_issued ok)),
       va_level = Some VL_REPLAYED, va_package_given = True, va_suite_given = True, va_spec_given = True,
       va_world = sample_world ok, va_ledger = None, va_checkpoint = None, va_attestation = None,
       va_default_files = \<lparr> lf_ledger = File (the (if_ledger (sample_written ok))),
                            lf_checkpoint = File (the (if_checkpoint (sample_written ok))), lf_attestation = No_File \<rparr>,
       va_trust = \<lparr> ti_public_key = None, ti_policy = None \<rparr>, va_baseline_receipt = None,
       va_default_baseline = (No_File, no_files), va_report = None,
       va_default_report = File (rx_report (sample_artifacts ok)),
       va_proofs = Some (map (\<lambda>p. (proof_file_name (pf_proof_id p), File p)) (rc_proofs (sample_issued ok))) \<rparr>"

lemma sample_run_facts:
  "run_redline const_digest sample_crypto (sample_world ok) sample_run_args = Inr (sample_artifacts ok)"
  "rx_receipt (sample_artifacts ok) = Some (sample_issued ok)"
  "\<not> ok \<Longrightarrow> de_status (rx_envelope (sample_artifacts ok)) = St_WITHHELD \<and>
     de_reason_code (rx_envelope (sample_artifacts ok)) = RC_NEW_BLOCK_BREACH"
  "\<exists>qs dp. kinds_of qs = sample_kinds \<and> rc_proofs (sample_issued ok) = with_decision (map const_proof qs) dp \<and>
     make_decision_proof const_digest (rx_envelope (sample_artifacts ok)) (map const_proof qs) False False False = Inr dp"
proof -
  obtain x r qs dp where x: "run_redline const_digest sample_crypto (sample_world ok) sample_run_args = Inr x"
    "de_status (rx_envelope x) = (if ok then St_PASS else St_WITHHELD)"
    "\<not> ok \<longrightarrow> de_reason_code (rx_envelope x) = RC_NEW_BLOCK_BREACH" "rx_receipt x = Some r" "kinds_of qs = sample_kinds"
    "make_decision_proof const_digest (rx_envelope x) (map const_proof qs) False False False = Inr dp"
    "rc_proofs r = with_decision (map const_proof qs) dp" using sample_run [of ok] by blast
  have a: "sample_artifacts ok = x" "sample_issued ok = r" using x by (simp_all add: sample_artifacts_def sample_issued_def)
  show "run_redline const_digest sample_crypto (sample_world ok) sample_run_args = Inr (sample_artifacts ok)"
    "rx_receipt (sample_artifacts ok) = Some (sample_issued ok)"
    "\<not> ok \<Longrightarrow> de_status (rx_envelope (sample_artifacts ok)) = St_WITHHELD \<and>
     de_reason_code (rx_envelope (sample_artifacts ok)) = RC_NEW_BLOCK_BREACH" using x a by simp_all
  show "\<exists>qs dp. kinds_of qs = sample_kinds \<and> rc_proofs (sample_issued ok) = with_decision (map const_proof qs) dp \<and>
     make_decision_proof const_digest (rx_envelope (sample_artifacts ok)) (map const_proof qs) False False False = Inr dp"
    using x a by blast
qed

lemma sample_names: "distinct (map (\<lambda>p. proof_file_name (pf_proof_id p)) (rc_proofs (sample_issued ok)))"
proof -
  obtain qs dp where q: "kinds_of qs = sample_kinds" "rc_proofs (sample_issued ok) = with_decision (map const_proof qs) dp"
    "make_decision_proof const_digest (rx_envelope (sample_artifacts ok)) (map const_proof qs) False False False = Inr dp"
    using sample_run_facts(4) by blast
  have p: "plain (decision_payload s r i c t cap)" for s r i c t cap
    by (simp add: decision_payload_def split: option.split)
  have "pf_proof_id dp = ''proof:decision:h''"
    using decision_proof_made [OF q(3)] by (auto simp: decision_proof_id_def const_hash [OF p] removeprefix_def startswith_def)
  then have d: "proof_file_name (pf_proof_id dp) = ''proof_decision_h.json''" by (simp add: proof_file_name_def)
  have "map (\<lambda>p. proof_file_name (pf_proof_id p)) (map const_proof qs)
      = map (\<lambda>k. proof_file_name (''proof:'' @ kind_value (fst k) @ '':h'')) (kinds_of qs)"
    by (simp add: kinds_of_def const_proof_def Let_def)
  also have "\<dots> = map (\<lambda>k. proof_file_name (''proof:'' @ kind_value (fst k) @ '':h'')) sample_kinds" by (simp only: q(1))
  finally have n: "map (\<lambda>p. proof_file_name (pf_proof_id p)) (map const_proof qs)
      = map (\<lambda>k. proof_file_name (''proof:'' @ kind_value (fst k) @ '':h'')) sample_kinds" .
  have "distinct (map (\<lambda>k. proof_file_name (''proof:'' @ kind_value (fst k) @ '':h'')) sample_kinds @ [''proof_decision_h.json''])"
    by code_simp
  then have "distinct (map (\<lambda>p. proof_file_name (pf_proof_id p)) (map const_proof qs @ [dp]))"
    by (simp only: map_append n list.map d)
  then show ?thesis by (auto simp: q(2) with_decision_def)
qed

lemma sample_rerun: "rerun_of (sample_verify_args ok) (sample_issued ok) = sample_run_args"
proof (rule run_receipt [OF sample_run_facts(1,2)])
  fix i ps dp rh slock eh lh h h' r0
  assume "read_inputs const_digest sample_crypto (sample_world ok) sample_run_args = Inr i"
    and r: "r0 = draft_receipt const_digest (rx_envelope (sample_artifacts ok)) (ps @ [dp]) rh
        (de_coverage (rx_envelope (sample_artifacts ok))) (issue_args_of (sample_world ok) sample_run_args i slock eh lh)"
      "sample_issued ok = r0\<lparr> rc_report := (rc_report r0)\<lparr> rpi_report_hash := h \<rparr>, rc_receipt_hash := h' \<rparr>"
    and c: "de_chain_status (rx_envelope (sample_artifacts ok)) = fst (rn_chain i)"
  then have i: "i = sample_inputs ok" by (simp add: sample_inputs_read)
  show ?thesis
    using c by (simp add: rerun_of_def rerun_args_def r draft_receipt_def issue_args_of_def i sample_inputs_def
        sample_run_args_def sample_provenance_def Let_def)
qed

lemma sample_write_ok:
  "atomic_write_receipt const_digest empty_files (sample_issued ok) None ''issuance-ledger.jsonl'' = (None, sample_written ok)"
proof -
  have "if_ledger empty_files = None" by (simp add: empty_files_def)
  from first_write_total [OF this] show ?thesis unfolding sample_written_def by (metis snd_conv)
qed

lemma sample_beside:
  "beside (sample_verify_args ok) (sample_world ok) sample_run_args (sample_artifacts ok) (sample_issued ok) (sample_written ok)"
proof -
  from written_ledger_checks [OF sample_write_ok] obtain ls c where "if_ledger (sample_written ok) = Some ls"
    "if_checkpoint (sample_written ok) = Some c" by blast
  then show ?thesis using sample_rerun [of ok] by (simp add: beside_def sample_verify_args_def)
qed

lemma sample_untrusted: "\<not> trust_given (sample_verify_args ok)"
  by (simp add: trust_given_def sample_verify_args_def)

lemma sample_status:
  "re_status (rc_result (sample_issued False)) = St_WITHHELD" "rd_reason_code (rc_decision (sample_issued False)) = RC_NEW_BLOCK_BREACH"
  using run_receipt_fields [OF sample_run_facts(1,2) [of False]] sample_run_facts(3) [of False] by metis+

lemma sample_verified:
  "\<exists>y. verify const_digest sample_crypto (sample_verify_args False) = Inr y \<and> vr_status y = VS_VERIFIED"
  using run_verifies [OF sample_run_facts(1,2) sample_write_ok sample_beside sample_names, of False] sample_untrusted sample_status
  by auto


theorem verified_sound_witness:
  "\<exists>r y ls. reproduced const_digest sample_crypto (sample_verify_args False) r y \<and>
     ledger_file (sample_verify_args False) = File ls \<and> ledger_holds const_digest r ls"
proof -
  obtain x where x: "verify const_digest sample_crypto (sample_verify_args False) = Inr x" "vr_status x = VS_VERIFIED"
    using sample_verified by blast
  from verified_sound [OF x] show ?thesis by blast
qed

end
