(* ===== verification/Release_Service.thy ===== *)
theory Release_Service
  imports Store_Facts Config
begin

text \<open>
  The handlers of \<open>src/redline/service/app.py\<close> that take a release candidate through its life: creation, the
  bound run, simulation evidence, risk policy, approval, rejection and kill. A handler is a function on
  the state of the service (the metadata store, the audit ledger and the JSON files of every release,
  the files of every run, the log of the requests to the exchange) that answers or raises; what it did
  before it raised stays done. \<open>utc_now()\<close>, \<open>uuid4()\<close> and the wall clock are functions of the number of
  their calls, which the state counts. The output files of a release are regular files of its own
  directory; the text of an error is left out. A request carries the principal that the gate of
  \<open>Auth\<close> admitted, or none.
\<close>

section \<open>State and control\<close>

record service =
  ss_store :: store
  ss_audit :: "string \<Rightarrow> json_line list option"
  ss_json :: "string \<Rightarrow> string \<Rightarrow> dict option"
  ss_tick :: nat

record service_env =
  sn_hash :: "string \<Rightarrow> string"
  sn_environ :: environ
  sn_now :: "nat \<Rightarrow> string"
  sn_uuid :: "nat \<Rightarrow> string"
  sn_micros :: "nat \<Rightarrow> int"
  sn_isoformat :: "int \<Rightarrow> string"

type_synonym ('s, 'a) act = "'s \<Rightarrow> (exn + 'a) \<times> 's"

definition sreturn :: "'a \<Rightarrow> ('s, 'a) act" where
  "sreturn x s = (Inr x, s)"

definition slift :: "exn + 'a \<Rightarrow> ('s, 'a) act" where
  "slift r s = (r, s)"

definition sbind :: "('s, 'a) act \<Rightarrow> ('a \<Rightarrow> ('s, 'b) act) \<Rightarrow> ('s, 'b) act" where
  "sbind m f s = (case m s of (Inl e, s') \<Rightarrow> (Inl e, s') | (Inr x, s') \<Rightarrow> f x s')"

lemma sbind_Inr: "sbind m f s = (Inr y, s') \<longleftrightarrow> (\<exists>x s1. m s = (Inr x, s1) \<and> f x s1 = (Inr y, s'))"
  by (auto simp: sbind_def split: prod.splits sum.splits)

lemma sbind_assoc: "sbind (sbind m f) g = sbind m (\<lambda>x. sbind (f x) g)"
  by (rule ext) (simp add: sbind_def split: prod.split sum.split)

lemma sreturn_bind [simp]: "sbind (sreturn x) f = f x"
  by (rule ext) (simp add: sbind_def sreturn_def)

text \<open>The clock of a request: each reading is the next one.\<close>

definition ticking :: "(nat \<Rightarrow> 'a) \<Rightarrow> ('b service_scheme, 'a) act" where
  "ticking f s = (Inr (f (ss_tick s)), s\<lparr> ss_tick := Suc (ss_tick s) \<rparr>)"

definition utc_now :: "'e service_env_scheme \<Rightarrow> ('b service_scheme, string) act" where
  "utc_now en = ticking (sn_now en)"

definition environ_flag :: "'e service_env_scheme \<Rightarrow> string \<Rightarrow> bool" where
  "environ_flag en name = (sn_environ en name = Some ''1'')"

definition release_freeze_enabled :: "'e service_env_scheme \<Rightarrow> bool" where
  "release_freeze_enabled en = environ_flag en ''REDLINE_RELEASE_FREEZE''"

definition execution_freeze_enabled :: "'e service_env_scheme \<Rightarrow> bool" where
  "execution_freeze_enabled en = environ_flag en ''REDLINE_EXECUTION_FREEZE''"

section \<open>Principals\<close>

definition current_principal :: "principal option \<Rightarrow> exn + principal" where
  "current_principal p = (case p of None \<Rightarrow> Inl (HTTPException 401) | Some x \<Rightarrow> Inr x)"

definition audit_actor :: "principal option \<Rightarrow> string \<Rightarrow> string" where
  "audit_actor p fallback = (case current_principal p of Inl _ \<Rightarrow> fallback | Inr x \<Rightarrow> pr_principal_id x)"

definition is_legacy_service_principal :: "principal \<Rightarrow> bool" where
  "is_legacy_service_principal p =
     (pr_auth_method p = ''service_token'' \<and> pr_token_label p = ''primary'' \<and>
      pr_principal_id p = ''service-token'' \<and> pr_role p = ''admin'')"

definition principal_audit_payload :: "principal \<Rightarrow> dict" where
  "principal_audit_payload p =
     [(''principal_id'', PStr (pr_principal_id p)), (''actor'', PStr (pr_principal_id p)),
      (''auth_method'', PStr (pr_auth_method p)), (''auth_subject'', opt_str (pr_subject p)),
      (''actor_display_name'', opt_str (pr_display_name p)), (''actor_role'', PStr (pr_role p)),
      (''actor_scopes'', strs (sort (pr_scopes p)))]"

section \<open>Store, files and audit ledger\<close>

definition get_release_or_404 :: "string \<Rightarrow> ('b service_scheme, release) act" where
  "get_release_or_404 rid s =
     (case get_release_candidate (ss_store s) rid of
        None \<Rightarrow> (Inl (HTTPException 404), s) | Some r \<Rightarrow> (Inr r, s))"

definition get_strategy_version_for_release_or_404 :: "release \<Rightarrow> ('b service_scheme, strategy_version) act" where
  "get_strategy_version_for_release_or_404 r s =
     (case get_strategy_version (ss_store s) (rl_version_id r) of
        None \<Rightarrow> (Inl (HTTPException 404), s) | Some v \<Rightarrow> (Inr v, s))"

definition get_run_or_404 :: "string \<Rightarrow> ('b service_scheme, run_response) act" where
  "get_run_or_404 rid s =
     (case get_run (ss_store s) rid of None \<Rightarrow> (Inl (HTTPException 404), s) | Some r \<Rightarrow> (Inr r, s))"

text \<open>\<open>service.store.update_release_candidate\<close>.\<close>

definition save_release :: "'e service_env_scheme \<Rightarrow> release \<Rightarrow> ('b service_scheme, release) act" where
  "save_release en r =
     sbind (utc_now en) (\<lambda>now s.
       case update_release_candidate (ss_store s) r now of
         Inl e \<Rightarrow> (Inl e, s)
       | Inr (saved, st) \<Rightarrow> (Inr saved, s\<lparr> ss_store := st \<rparr>))"

definition write_release_json :: "string \<Rightarrow> string \<Rightarrow> dict \<Rightarrow> ('b service_scheme, unit) act" where
  "write_release_json rid name payload s =
     (case release_dir rid of
        Inl e \<Rightarrow> (Inl e, s)
      | Inr _ \<Rightarrow> (Inr (), s\<lparr> ss_json := (ss_json s)(rid := (ss_json s rid)(name \<mapsto> payload)) \<rparr>))"

text \<open>\<open>append_release_audit_event\<close>: the ledger file first, then the copy in the store.\<close>

definition append_release_audit_event ::
  "'e service_env_scheme \<Rightarrow> string \<Rightarrow> string \<Rightarrow> string \<Rightarrow> dict \<Rightarrow> ('b service_scheme, dict) act" where
  "append_release_audit_event en rid event_type actor payload =
     sbind (utc_now en) (\<lambda>now s.
       case append_audit (sn_hash en) (ss_audit s rid) rid event_type actor now payload of
         Inl e \<Rightarrow> (Inl e, s)
       | Inr (ls, entry) \<Rightarrow>
           (let s1 = s\<lparr> ss_audit := (ss_audit s)(rid \<mapsto> ls) \<rparr>
            in case append_release_audit_entry (ss_store s1) rid entry of
                 Inl e \<Rightarrow> (Inl e, s1)
               | Inr st \<Rightarrow> (Inr entry, s1\<lparr> ss_store := st \<rparr>)))"

section \<open>Idempotency keys\<close>

text \<open>\<open>_idempotency_replay\<close> and \<open>_idempotency_store\<close>: an empty key is no key.\<close>

definition idempotency_replay ::
  "'e service_env_scheme \<Rightarrow> string \<Rightarrow> string option \<Rightarrow> pyval \<Rightarrow> ('b service_scheme, dict option) act" where
  "idempotency_replay en scope key payload s =
     (if \<not> nonempty key then (Inr None, s)
      else case get_idempotency_record (ss_store s) scope (the key) of
             None \<Rightarrow> (Inr None, s)
           | Some row \<Rightarrow>
               (case hash_obj (sn_hash en) True payload of
                  Inl e \<Rightarrow> (Inl e, s)
                | Inr h \<Rightarrow>
                    if id_request_hash row \<noteq> h then (Inl (HTTPException 409), s)
                    else (Inr (Some (id_response row)), s)))"

definition idempotency_store ::
  "'e service_env_scheme \<Rightarrow> string \<Rightarrow> string option \<Rightarrow> pyval \<Rightarrow> dict \<Rightarrow> int \<Rightarrow> ('b service_scheme, unit) act" where
  "idempotency_store en scope key payload response status_code =
     (if \<not> nonempty key then sreturn ()
      else sbind (slift (hash_obj (sn_hash en) True payload)) (\<lambda>h.
           sbind (utc_now en) (\<lambda>now s.
             (Inr (), s\<lparr> ss_store := put_idempotency_record (ss_store s) scope (the key) h response status_code now \<rparr>))))"

section \<open>Transitions\<close>

definition with_computed_release_tier :: "release \<Rightarrow> release" where
  "with_computed_release_tier r = r\<lparr> rl_release_tier := compute_release_tier r \<rparr>"

text \<open>\<open>_transition_release_or_409\<close>: missing evidence blocks the release instead of raising.\<close>

definition transition_release_or_409 ::
  "release \<Rightarrow> release_state \<Rightarrow> (release \<Rightarrow> release) \<Rightarrow> exn + release" where
  "transition_release_or_409 r to updates =
     (case transition_release r to updates of
        Inr r' \<Rightarrow> Inr (with_computed_release_tier r')
      | Inl (ReleaseTransitionMissingEvidenceError _ _ missing) \<Rightarrow>
          Inr (with_computed_release_tier
                 ((updates r)\<lparr> rl_state := Rel_BLOCKED_MISSING_EVIDENCE,
                              rl_metadata := put (rl_metadata r) ''missing_evidence'' (strs missing) \<rparr>))
      | Inl (ReleaseTransitionError _ _) \<Rightarrow> Inl (HTTPException 409))"

definition assert_release_not_terminal :: "release \<Rightarrow> exn + unit" where
  "assert_release_not_terminal r =
     (if is_terminal_release_state (rl_state r) then Inl (HTTPException 409) else Inr ())"

definition state_for_bound_run :: "run_response \<Rightarrow> release_state" where
  "state_for_bound_run run =
     (if rn_state run \<in> {Run_QUEUED, Run_RUNNING} then Rel_REDLINE_RUNNING
      else if rn_state run = Run_PASS \<and> rn_reason_code run = Some (reason_value RC_PASS) \<and> nonempty (rn_receipt_hash run)
      then Rel_REDLINE_PASSED
      else if rn_state run \<in> {Run_FAIL, Run_AMBER} then Rel_BLOCKED_WITHHELD
      else Rel_BLOCKED_UNVERIFIED)"

definition release_has_redline_pass :: "release \<Rightarrow> bool" where
  "release_has_redline_pass r =
     (nonempty (rl_run_id r) \<and> rl_redline_reason_code r = Some (reason_value RC_PASS) \<and> nonempty (rl_redline_receipt_hash r))"

definition has_risk_policy :: "release \<Rightarrow> bool" where
  "has_risk_policy r = (case rl_risk_policy r of None \<Rightarrow> False | Some p \<Rightarrow> p \<noteq> [])"

text \<open>Every change of the evidence drops the approval and the manifest.\<close>

definition drop_approval :: "release \<Rightarrow> release" where
  "drop_approval r = r\<lparr> rl_approval := None, rl_evidence_manifest := None, rl_evidence_manifest_hash := None \<rparr>"

definition release_answer ::
  "string \<Rightarrow> bool \<Rightarrow> release_state \<Rightarrow> string option \<Rightarrow> dict \<Rightarrow> action_response" where
  "release_answer rid ok state reason evidence =
     \<lparr> ar_release_id = rid, ar_ok = ok, ar_state = state, ar_reason_code = reason, ar_evidence = evidence \<rparr>"

definition release_blocked :: "release \<Rightarrow> string \<Rightarrow> action_response" where
  "release_blocked r reason = release_answer (rl_release_id r) False (rl_state r) (Some reason) []"


section \<open>Creation\<close>

text \<open>\<open>model_dump(mode="json")\<close> of a release candidate.\<close>

definition opt_dict :: "dict option \<Rightarrow> pyval" where
  "opt_dict d = (case d of None \<Rightarrow> PNone | Some x \<Rightarrow> PDict x)"

definition release_dump :: "release \<Rightarrow> dict" where
  "release_dump r =
     [(''release_id'', PStr (rl_release_id r)), (''strategy_id'', PStr (rl_strategy_id r)),
      (''version_id'', PStr (rl_version_id r)), (''state'', PStr (release_state_value (rl_state r))),
      (''release_tier'', PStr (release_tier_value (rl_release_tier r))), (''created_by'', PStr (rl_created_by r)),
      (''metadata'', PDict (rl_metadata r)), (''run_id'', opt_str (rl_run_id r)),
      (''redline_reason_code'', opt_str (rl_redline_reason_code r)),
      (''redline_receipt_hash'', opt_str (rl_redline_receipt_hash r)),
      (''redline_report_hash'', opt_str (rl_redline_report_hash r)),
      (''simulation_evidence'', opt_dict (rl_simulation_evidence r)),
      (''simulation_evidence_hash'', opt_str (rl_simulation_evidence_hash r)),
      (''risk_policy'', opt_dict (rl_risk_policy r)), (''risk_policy_hash'', opt_str (rl_risk_policy_hash r)),
      (''approval'', opt_dict (rl_approval r)), (''execution_run_id'', opt_str (rl_execution_run_id r)),
      (''execution_evidence'', opt_dict (rl_execution_evidence r)),
      (''evidence_manifest'', opt_dict (rl_evidence_manifest r)),
      (''evidence_manifest_hash'', opt_str (rl_evidence_manifest_hash r)),
      (''reject_reason'', opt_str (rl_reject_reason r)), (''killed_at'', opt_str (rl_killed_at r)),
      (''created_at'', PStr (rl_created_at r)), (''updated_at'', PStr (rl_updated_at r))]"

definition new_release :: "string \<Rightarrow> strategy_version \<Rightarrow> string \<Rightarrow> dict \<Rightarrow> string \<Rightarrow> release" where
  "new_release rid v created_by metadata now =
     \<lparr> rl_release_id = rid, rl_strategy_id = sv_strategy_id v, rl_version_id = sv_version_id v, rl_state = Rel_DRAFT,
       rl_release_tier = RTier_L0, rl_created_by = created_by, rl_metadata = metadata, rl_run_id = None,
       rl_redline_reason_code = None, rl_redline_receipt_hash = None, rl_redline_report_hash = None,
       rl_simulation_evidence = None, rl_simulation_evidence_hash = None, rl_risk_policy = None,
       rl_risk_policy_hash = None, rl_approval = None, rl_execution_run_id = None, rl_execution_evidence = None,
       rl_evidence_manifest = None, rl_evidence_manifest_hash = None, rl_reject_reason = None, rl_killed_at = None,
       rl_created_at = now, rl_updated_at = now \<rparr>"

text \<open>\<open>_release_id\<close> and \<open>_approval_nonce\<close>.\<close>

definition fresh_id ::
  "'e service_env_scheme \<Rightarrow> string \<Rightarrow> (string \<times> pyval) list \<Rightarrow> ('b service_scheme, string) act" where
  "fresh_id en pre body =
     sbind (ticking (sn_uuid en)) (\<lambda>nonce.
     sbind (slift (hash_obj (sn_hash en) True (PDict (body @ [(''nonce'', PStr nonce)])))) (\<lambda>h.
       sreturn (pre @ take 24 (removeprefix h ''sha256:''))))"

definition given_release_id ::
  "'e service_env_scheme \<Rightarrow> release_create_request \<Rightarrow> ('b service_scheme, string) act" where
  "given_release_id en p =
     (if nonempty (rcr_release_id p) then sreturn (the (rcr_release_id p))
      else fresh_id en ''rel_'' [(''payload'', release_create_value p)])"

definition created_metadata :: "principal \<Rightarrow> release_create_request \<Rightarrow> dict" where
  "created_metadata who p =
     (let m = (if map_of (rcr_metadata p) ''claimed_created_by'' = None
               then put (rcr_metadata p) ''claimed_created_by'' (PStr (rcr_created_by p)) else rcr_metadata p)
      in put m ''created_by_auth'' (PDict (principal_audit_payload who)))"

definition store_new_release ::
  "'e service_env_scheme \<Rightarrow> release \<Rightarrow> ('b service_scheme, release) act" where
  "store_new_release en r =
     sbind (utc_now en) (\<lambda>now s.
       case create_release_candidate (ss_store s) r now of
         Inl e \<Rightarrow> (Inl (if is_value_error e then HTTPException 409 else e), s)
       | Inr (created, st) \<Rightarrow> (Inr created, s\<lparr> ss_store := st \<rparr>))"

definition audit_creation ::
  "'e service_env_scheme \<Rightarrow> principal \<Rightarrow> strategy_version \<Rightarrow> release \<Rightarrow> ('b service_scheme, dict) act" where
  "audit_creation en who v created =
     sbind (append_release_audit_event en (rl_release_id created) ''strategy_version_created'' (rl_created_by created)
       [(''strategy_id'', PStr (sv_strategy_id v)), (''version_id'', PStr (sv_version_id v)),
        (''package_hash'', PStr (sv_package_hash v)), (''actor_auth'', PDict (principal_audit_payload who))]) (\<lambda>_.
     append_release_audit_event en (rl_release_id created) ''release_candidate_created'' (rl_created_by created)
       [(''state'', PStr (release_state_value (rl_state created))),
        (''actor_auth'', PDict (principal_audit_payload who))])"

text \<open>A replayed answer is the stored JSON, a new one the created release.\<close>

datatype 'a replayable = Replayed dict | Answered 'a

definition create_release_candidate_endpoint ::
  "'e service_env_scheme \<Rightarrow> principal option \<Rightarrow> release_create_request \<Rightarrow> string option \<Rightarrow>
   ('b service_scheme, release replayable) act" where
  "create_release_candidate_endpoint en request p key =
     sbind (idempotency_replay en ''release-candidates:create'' key (release_create_value p)) (\<lambda>replayed.
       case replayed of
         Some response \<Rightarrow> sreturn (Replayed response)
       | None \<Rightarrow>
           sbind (\<lambda>s. (Inr (get_strategy_version (ss_store s) (rcr_version_id p)), s)) (\<lambda>found.
             case found of
               None \<Rightarrow> slift (Inl (HTTPException 404))
             | Some v \<Rightarrow>
                 if rcr_strategy_id p \<noteq> None \<and> rcr_strategy_id p \<noteq> Some (sv_strategy_id v)
                 then slift (Inl (HTTPException 409))
                 else
                   sbind (given_release_id en p) (\<lambda>rid.
                   sbind (slift (current_principal request)) (\<lambda>principal.
                   sbind (utc_now en) (\<lambda>now.
                   sbind (\<lambda>s. (Inr (get_release_candidate (ss_store s) rid), s)) (\<lambda>existing.
                   sbind (store_new_release en
                     (new_release rid v
                        (if is_legacy_service_principal principal then rcr_created_by p else pr_principal_id principal)
                        (created_metadata principal p) now)) (\<lambda>created.
                   sbind (idempotency_store en ''release-candidates:create'' key (release_create_value p)
                            (release_dump created) 201) (\<lambda>_.
                     if existing = None
                     then sbind (audit_creation en principal v created) (\<lambda>_. sreturn (Answered created))
                     else sreturn (Answered created)))))))))"

section \<open>The bound run\<close>

definition bind_run_updates :: "run_response \<Rightarrow> release \<Rightarrow> release" where
  "bind_run_updates run r =
     drop_approval (r\<lparr> rl_run_id := Some (rn_run_id run), rl_redline_reason_code := rn_reason_code run,
                      rl_redline_receipt_hash := rn_receipt_hash run, rl_redline_report_hash := rn_report_hash run \<rparr>)"

definition bind_redline_run_endpoint ::
  "'e service_env_scheme \<Rightarrow> principal option \<Rightarrow> string \<Rightarrow> string \<Rightarrow> ('b service_scheme, action_response) act" where
  "bind_redline_run_endpoint en request rid run_id =
     sbind (get_release_or_404 rid) (\<lambda>r.
     sbind (get_run_or_404 run_id) (\<lambda>run.
       if rl_state r = Rel_KILLED then sreturn (release_blocked r ''RELEASE_KILLED'')
       else
         let to = state_for_bound_run run
         in sbind (slift (transition_release_or_409 r to (bind_run_updates run))) (\<lambda>r1.
            sbind (save_release en r1) (\<lambda>updated.
            sbind (append_release_audit_event en rid ''redline_run_bound'' (audit_actor request (rl_created_by r))
              [(''run_id'', PStr (rn_run_id run)), (''run_state'', PStr (run_state_value (rn_state run))),
               (''reason_code'', opt_str (rn_reason_code run))]) (\<lambda>_.
            sbind (if to = Rel_REDLINE_PASSED
                   then append_release_audit_event en rid ''redline_verified'' (audit_actor request (rl_created_by r))
                          [(''receipt_hash'', opt_str (rn_receipt_hash run)),
                           (''report_hash'', opt_str (rn_report_hash run))]
                   else sreturn []) (\<lambda>_.
              sreturn (release_answer rid (to = Rel_REDLINE_PASSED) (rl_state updated) (rn_reason_code run) [])))))))"

section \<open>Simulation evidence\<close>

definition simulation_record :: "string \<Rightarrow> simulation_evidence_request \<Rightarrow> string \<Rightarrow> dict" where
  "simulation_record rid p now =
     (''schema_version'', PStr ''redline.release.simulation_evidence.v1'') # simulation_request_dict p @
     [(''release_id'', PStr rid), (''imported_at'', PStr now)]"

text \<open>The rest of both imports, of a posted summary and of an uploaded file.\<close>

definition import_evidence ::
  "'e service_env_scheme \<Rightarrow> principal option \<Rightarrow> string \<Rightarrow> release \<Rightarrow> dict \<Rightarrow> string \<Rightarrow> (string \<Rightarrow> dict) \<Rightarrow>
   ('b service_scheme, action_response) act" where
  "import_evidence en request rid r evidence0 event_type payload =
     sbind (slift (simulation_evidence_hash (sn_hash en) evidence0)) (\<lambda>h.
       let evidence = put evidence0 ''evidence_hash'' (PStr h);
           to = (if has_risk_policy r \<and> release_has_redline_pass r then Rel_REVIEW_REQUIRED else Rel_EVIDENCE_COLLECTING)
       in sbind (write_release_json rid ''release-simulation-evidence.json'' evidence) (\<lambda>_.
          sbind (slift (transition_release_or_409 r to
                   (\<lambda>x. drop_approval (x\<lparr> rl_simulation_evidence := Some evidence,
                                         rl_simulation_evidence_hash := Some h \<rparr>)))) (\<lambda>r1.
          sbind (save_release en r1) (\<lambda>updated.
          sbind (append_release_audit_event en rid event_type (audit_actor request (rl_created_by r)) (payload h)) (\<lambda>_.
            sreturn (release_answer rid True (rl_state updated) None
                       [(''simulation_evidence_hash'', PStr h)]))))))"

definition import_simulation_evidence_endpoint ::
  "'e service_env_scheme \<Rightarrow> principal option \<Rightarrow> string \<Rightarrow> simulation_evidence_request \<Rightarrow>
   ('b service_scheme, action_response) act" where
  "import_simulation_evidence_endpoint en request rid p =
     sbind (get_release_or_404 rid) (\<lambda>r.
     sbind (slift (assert_release_not_terminal r)) (\<lambda>_.
     sbind (utc_now en) (\<lambda>now.
       import_evidence en request rid r (simulation_record rid p now) ''simulation_evidence_imported''
         (\<lambda>h. [(''evidence_hash'', PStr h), (''source'', PStr (simulation_source_value (se_source p))),
               (''symbol'', PStr (se_symbol p))]))))"

section \<open>Risk policy\<close>

definition breach_value :: "risk_decision \<Rightarrow> pyval" where
  "breach_value d = (if risk_blocked d then opt_str (risk_reason d) else PNone)"

definition bind_risk_policy_endpoint ::
  "'e service_env_scheme \<Rightarrow> principal option \<Rightarrow> string \<Rightarrow> risk_policy_request \<Rightarrow> ('b service_scheme, action_response) act" where
  "bind_risk_policy_endpoint en request rid p =
     sbind (get_release_or_404 rid) (\<lambda>r.
     sbind (slift (assert_release_not_terminal r)) (\<lambda>_.
     sbind (slift (risk_policy_breach (risk_policy_dict p) default_execution_request)) (\<lambda>decision.
     sbind (slift (policy_hash (sn_hash en) (risk_policy_dict p))) (\<lambda>h.
     sbind (utc_now en) (\<lambda>now.
       let policy_record = risk_policy_dict p @
             [(''schema_version'', PStr ''redline.release.risk_policy.v1''), (''policy_hash'', PStr h), (''bound_at'', PStr now)];
           to = (if risk_blocked decision then Rel_BLOCKED_RISK_POLICY
                 else if release_has_redline_pass r \<and> rl_simulation_evidence r \<noteq> None then Rel_REVIEW_REQUIRED
                 else Rel_EVIDENCE_COLLECTING)
       in sbind (write_release_json rid ''release-risk-policy.json'' policy_record) (\<lambda>_.
          sbind (slift (transition_release_or_409 r to
                   (\<lambda>x. drop_approval (x\<lparr> rl_risk_policy := Some policy_record, rl_risk_policy_hash := Some h \<rparr>)))) (\<lambda>r1.
          sbind (save_release en r1) (\<lambda>updated.
          sbind (append_release_audit_event en rid ''risk_policy_bound'' (audit_actor request (rl_created_by r))
                   [(''risk_policy_hash'', PStr h)]) (\<lambda>_.
          sbind (append_release_audit_event en rid ''risk_policy_checked'' (audit_actor request (rl_created_by r))
                   [(''ok'', PBool (\<not> risk_blocked decision)), (''breach'', breach_value decision),
                    (''risk_policy_decision'', PDict (risk_decision_dump decision))]) (\<lambda>_.
            sreturn (release_answer rid (\<not> risk_blocked decision) (rl_state updated)
                       (if risk_blocked decision then Some ''RISK_POLICY_BREACH'' else None)
                       [(''risk_policy_hash'', PStr h), (''breach'', breach_value decision),
                        (''risk_policy_decision'', PDict (risk_decision_dump decision))])))))))))))"


section \<open>Approval, rejection, kill\<close>

definition APPROVAL_ROLES :: "string list" where
  "APPROVAL_ROLES = [''reviewer'', ''release_manager'']"

record approval_request =
  aq_reviewer_id :: string
  aq_comment :: string
  aq_demo_mode :: bool

record reject_request =
  jq_reviewer_id :: string
  jq_comment :: string

definition approval_block_reason :: "store \<Rightarrow> release \<Rightarrow> exn + string option" where
  "approval_block_reason st r =
     (if rl_state r \<in> {Rel_KILLED, Rel_REJECTED, Rel_BLOCKED_WITHHELD, Rel_BLOCKED_UNVERIFIED, Rel_BLOCKED_RISK_POLICY,
                       Rel_BLOCKED_EXCHANGE_ERROR}
      then Inr (Some (upper (release_state_value (rl_state r))))
      else case rl_run_id r of
             None \<Rightarrow> Inr (Some ''RUN_REQUIRED'')
           | Some run_id \<Rightarrow>
               (case get_run st run_id of
                  None \<Rightarrow> Inr (Some ''RUN_NOT_FOUND'')
                | Some run \<Rightarrow>
                    if state_for_bound_run run \<noteq> Rel_REDLINE_PASSED then Inr (Some ''REDLINE_VERIFIED_PASS_REQUIRED'')
                    else if rl_redline_receipt_hash r \<noteq> rn_receipt_hash run \<or> \<not> nonempty (rl_redline_receipt_hash r)
                    then Inr (Some ''REDLINE_RECEIPT_REQUIRED'')
                    else case rl_risk_policy r of
                           None \<Rightarrow> Inr (Some ''RISK_POLICY_REQUIRED'')
                         | Some policy \<Rightarrow>
                             if rl_risk_policy_hash r = None then Inr (Some ''RISK_POLICY_REQUIRED'')
                             else rbind (risk_policy_breach policy default_execution_request) (\<lambda>decision.
                               if risk_blocked decision then Inr (Some ''RISK_POLICY_BREACH'')
                               else if truthy (get_default policy ''require_simulation_evidence'' (PBool True)) \<and>
                                       rl_simulation_evidence r = None
                               then Inr (Some ''SIMULATION_EVIDENCE_REQUIRED'')
                               else Inr None)))"

text \<open>\<open>str.replace\<close> of a non-empty text.\<close>

function replace_text :: "string \<Rightarrow> string \<Rightarrow> string \<Rightarrow> string" where
  "replace_text old new [] = []"
| "replace_text old new (c # s) =
     (if startswith (c # s) old then new @ replace_text old new (drop (length old - 1) s)
      else c # replace_text old new s)"
  by pat_completeness auto
termination
  by (relation "measure (\<lambda>(old, new, s). length s)") auto

text \<open>\<open>_approval_expires_at\<close>, in whole seconds.\<close>

definition approval_ttl :: "'e service_env_scheme \<Rightarrow> int" where
  "approval_ttl en =
     (case parse_int (environ_get (sn_environ en) ''REDLINE_APPROVAL_TTL_SECONDS'' ''900'') of
        None \<Rightarrow> 900 | Some v \<Rightarrow> max 1 v)"

definition approval_expires_at :: "'e service_env_scheme \<Rightarrow> ('b service_scheme, string) act" where
  "approval_expires_at en =
     sbind (ticking (sn_micros en)) (\<lambda>now.
       sreturn (replace_text ''+00:00'' ''Z'' (sn_isoformat en (now div 1000000 + approval_ttl en))))"

definition approval_nonce :: "'e service_env_scheme \<Rightarrow> ('b service_scheme, string) act" where
  "approval_nonce en = fresh_id en ''appr_'' []"

definition reviewer_fields :: "principal \<Rightarrow> string \<Rightarrow> string \<Rightarrow> dict" where
  "reviewer_fields p claimed comment =
     [(''reviewer_id'', PStr (pr_principal_id p)), (''reviewer_role'', PStr (pr_role p)),
      (''auth_method'', PStr (pr_auth_method p)), (''auth_subject'', opt_str (pr_subject p)),
      (''reviewer_display_name'', opt_str (pr_display_name p)), (''reviewer_email'', opt_str (pr_email p)),
      (''claimed_reviewer_id'', PStr claimed), (''comment'', PStr comment)]"

definition approval_record ::
  "'e service_env_scheme \<Rightarrow> principal \<Rightarrow> approval_request \<Rightarrow> release \<Rightarrow> strategy_version \<Rightarrow> string \<Rightarrow> string \<Rightarrow> string \<Rightarrow> dict" where
  "approval_record en p q r v now nonce expires =
     [(''schema_version'', PStr ''redline.release.approval.v1''), (''decision'', PStr ''approve'')] @
     reviewer_fields p (aq_reviewer_id q) (aq_comment q) @
     [(''approved_at'', PStr now), (''nonce'', PStr nonce), (''expires_at'', PStr expires), (''consumed_at'', PNone),
      (''evidence_manifest_hash'', PStr (evidence_fingerprint (sn_hash en) r (Some v))),
      (''package_hash'', PStr (sv_package_hash v)), (''identity_lock_hash'', opt_str (sv_identity_lock_hash v)),
      (''risk_policy_hash'', opt_str (rl_risk_policy_hash r)), (''demo_mode'', PBool (aq_demo_mode q))]"

text \<open>An approval of a release that is ready is one for a showcase order, kept in its metadata.\<close>

definition store_approval ::
  "'e service_env_scheme \<Rightarrow> release \<Rightarrow> dict \<Rightarrow> ('b service_scheme, release) act" where
  "store_approval en r approval =
     (if rl_state r = Rel_RELEASE_READY
      then save_release en (r\<lparr> rl_metadata := put (rl_metadata r) ''showcase_approval'' (PDict approval) \<rparr>)
      else sbind (slift (transition_release_or_409 r Rel_APPROVED (\<lambda>x. x\<lparr> rl_approval := Some approval \<rparr>))) (save_release en))"

definition grant_approval ::
  "'e service_env_scheme \<Rightarrow> principal \<Rightarrow> string \<Rightarrow> approval_request \<Rightarrow> release \<Rightarrow> ('b service_scheme, action_response) act" where
  "grant_approval en who rid q r =
     sbind (get_strategy_version_for_release_or_404 r) (\<lambda>v.
     sbind (utc_now en) (\<lambda>now.
     sbind (approval_nonce en) (\<lambda>nonce.
     sbind (approval_expires_at en) (\<lambda>expires.
       let approval = approval_record en who q r v now nonce expires
       in sbind (store_approval en r approval) (\<lambda>updated.
          sbind (append_release_audit_event en rid ''approval_granted'' (pr_principal_id who)
            [(''evidence_manifest_hash'', PStr (evidence_fingerprint (sn_hash en) r (Some v))),
             (''package_hash'', PStr (sv_package_hash v)), (''identity_lock_hash'', opt_str (sv_identity_lock_hash v)),
             (''risk_policy_hash'', opt_str (rl_risk_policy_hash r)),
             (''actor_auth'', PDict (principal_audit_payload who))]) (\<lambda>_.
            sreturn (release_answer rid True (rl_state updated) None [(''approval'', PDict approval)])))))))"

definition approve_release_endpoint ::
  "'e service_env_scheme \<Rightarrow> principal option \<Rightarrow> string \<Rightarrow> approval_request \<Rightarrow> ('b service_scheme, action_response) act" where
  "approve_release_endpoint en request rid q =
     sbind (get_release_or_404 rid) (\<lambda>r.
     sbind (slift (current_principal request)) (\<lambda>principal.
       let legacy = is_legacy_service_principal principal;
           refuse = (\<lambda>reason. sreturn (release_answer rid False Rel_BLOCKED_APPROVAL (Some reason) []))
       in if release_freeze_enabled en then sreturn (release_blocked r ''REDLINE_RELEASE_FREEZE'')
          else if pr_role principal \<notin> set APPROVAL_ROLES \<and> \<not> legacy then refuse ''APPROVAL_ROLE_DENIED''
          else if pr_principal_id principal = rl_created_by r \<and> \<not> legacy then refuse ''SELF_APPROVAL_FORBIDDEN''
          else sbind (\<lambda>s. (approval_block_reason (ss_store s) r, s)) (\<lambda>blocked.
                 case blocked of
                   Some reason \<Rightarrow> refuse reason
                 | None \<Rightarrow> grant_approval en principal rid q r)))"

definition rejection_record ::
  "'e service_env_scheme \<Rightarrow> principal \<Rightarrow> reject_request \<Rightarrow> release \<Rightarrow> strategy_version \<Rightarrow> string \<Rightarrow> dict" where
  "rejection_record en p q r v now =
     [(''schema_version'', PStr ''redline.release.approval.v1''), (''decision'', PStr ''reject'')] @
     reviewer_fields p (jq_reviewer_id q) (jq_comment q) @
     [(''rejected_at'', PStr now),
      (''evidence_manifest_hash'', PStr (evidence_fingerprint (sn_hash en) r (Some v))),
      (''risk_policy_hash'', opt_str (rl_risk_policy_hash r))]"

definition reject_release_endpoint ::
  "'e service_env_scheme \<Rightarrow> principal option \<Rightarrow> string \<Rightarrow> reject_request \<Rightarrow> ('b service_scheme, action_response) act" where
  "reject_release_endpoint en request rid q =
     sbind (get_release_or_404 rid) (\<lambda>r.
     sbind (slift (current_principal request)) (\<lambda>principal.
     sbind (utc_now en) (\<lambda>now.
     sbind (get_strategy_version_for_release_or_404 r) (\<lambda>v.
       let approval = rejection_record en principal q r v now
       in sbind (slift (transition_release_or_409 r Rel_REJECTED
                   (\<lambda>x. x\<lparr> rl_approval := Some approval, rl_reject_reason := Some (jq_comment q) \<rparr>))) (\<lambda>r1.
          sbind (save_release en r1) (\<lambda>updated.
          sbind (append_release_audit_event en rid ''approval_rejected'' (pr_principal_id principal)
            [(''comment'', PStr (jq_comment q)), (''actor_auth'', PDict (principal_audit_payload principal))]) (\<lambda>_.
            sreturn (release_answer rid True (rl_state updated) None [(''approval'', PDict approval)]))))))))"

definition kill_release_endpoint ::
  "'e service_env_scheme \<Rightarrow> principal option \<Rightarrow> string \<Rightarrow> ('b service_scheme, action_response) act" where
  "kill_release_endpoint en request rid =
     sbind (get_release_or_404 rid) (\<lambda>r.
     sbind (utc_now en) (\<lambda>now.
     sbind (slift (transition_release_or_409 r Rel_KILLED (\<lambda>x. x\<lparr> rl_killed_at := Some now \<rparr>))) (\<lambda>r1.
     sbind (save_release en r1) (\<lambda>updated.
     sbind (append_release_audit_event en rid ''release_killed'' (audit_actor request (rl_created_by r))
              [(''state'', PStr (release_state_value (rl_state updated)))]) (\<lambda>_.
       sreturn (release_answer rid True (rl_state updated) None []))))))"

end
