(* ===== verification/Demo_Order.thy ===== *)
theory Demo_Order
  imports Release_Service Execution Verifier
begin

text \<open>
  The handlers of \<open>src/redline/service/app.py\<close> that place an order: \<open>execute-demo\<close> for an approved release
  and the showcase orders of a release that is ready, with the verification of the run's receipt, the
  use of the approval and the adapter of \<open>Exchange\<close>. The state of the service gets the execution files
  of every directory and the log of the requests to the exchange. What the verifier reads from the run's
  directory is \<open>sn_inputs\<close>, the trust policy at a path \<open>sn_policy\<close>; \<open>sn_listing\<close> gives the bytes of the files in a directory,
  whose JSON layout is not modelled; \<open>sn_url\<close> is \<open>urlparse\<close>. The lock around an execution makes it one
  step. Left out are the HTML page of a showcase order and the text of a caught error.
\<close>

section \<open>State\<close>

record demo_service = service +
  ss_files :: "string \<Rightarrow> run_files"
  ss_sent :: http_log

record demo_env = service_env +
  sn_root :: string
  sn_crypto :: crypto
  sn_exchange :: exchange_env
  sn_injected :: bool
  sn_url :: "string \<Rightarrow> url_parts"
  sn_inputs :: "run_response \<Rightarrow> verify_args"
  sn_policy :: "string \<Rightarrow> trust_policy jfile"
  sn_listing :: "string \<Rightarrow> run_files \<Rightarrow> (string \<times> string) list"

definition exchange_of :: "demo_env \<Rightarrow> exchange_env" where
  "exchange_of en = (sn_exchange en)\<lparr> xe_hash := sn_hash en \<rparr>"

definition env_text :: "demo_env \<Rightarrow> string \<Rightarrow> string option" where
  "env_text en name = sn_environ en name"

section \<open>Artifact manifest\<close>

text \<open>\<open>build_artifact_manifest\<close> of \<open>service/artifacts.py\<close> on the files of the directory by relative path.\<close>

definition ARTIFACT_FILES :: "(string \<times> string \<times> string) list" where
  "ARTIFACT_FILES =
     [(''envelope'', ''decision-envelope'', ''envelope.json''), (''report'', ''report'', ''report.json''),
      (''receipt'', ''receipt'', ''receipt.json''), (''issuance-ledger'', ''ledger'', ''issuance-ledger.jsonl''),
      (''issuance-ledger-checkpoint'', ''ledger-checkpoint'', ''issuance-ledger.checkpoint.json''),
      (''execution-evidence'', ''execution-evidence'', ''execution-evidence.json''),
      (''execution-ledger'', ''execution-ledger'', ''execution-ledger.jsonl''),
      (''exchange-preflight-evidence'', ''exchange-preflight-evidence'', ''exchange-preflight-evidence.json''),
      (''order-status-evidence'', ''order-status-evidence'', ''order-status-evidence.json'')]"

definition make_artifact_info ::
  "(string \<Rightarrow> string) \<Rightarrow> string \<Rightarrow> string \<Rightarrow> string \<Rightarrow> string \<Rightarrow> string \<Rightarrow> artifact_info" where
  "make_artifact_info H run_id artifact_id kind rel content =
     \<lparr> ai_artifact_id = artifact_id, ai_kind = kind, ai_path = rel, ai_sha256 = hash_file H content,
       ai_bytes = int (length content), ai_download_url = ''/v1/runs/'' @ run_id @ ''/artifacts/'' @ artifact_id \<rparr>"

definition proof_names :: "(string \<times> string) list \<Rightarrow> string list" where
  "proof_names files =
     sort (map (drop (length ''proofs/''))
       (filter (\<lambda>p. startswith p ''proofs/'' \<and> endswith p ''.json'' \<and> CHR ''/'' \<notin> set (drop (length ''proofs/'') p))
         (map fst files)))"

definition build_artifact_manifest ::
  "(string \<Rightarrow> string) \<Rightarrow> string \<Rightarrow> (string \<times> string) list \<Rightarrow> artifact_manifest" where
  "build_artifact_manifest H run_id files =
     \<lparr> am_run_id = run_id,
       am_artifacts =
         List.map_filter (\<lambda>(i, kind, rel). map_option (make_artifact_info H run_id i kind rel) (map_of files rel)) ARTIFACT_FILES @
         List.map_filter (\<lambda>n. map_option (make_artifact_info H run_id (''proofs/'' @ n) ''proof'' (''proofs/'' @ n))
                            (map_of files (''proofs/'' @ n))) (proof_names files) \<rparr>"

section \<open>The use of an approval\<close>

text \<open>\<open>_is_expired_utc\<close>.\<close>

definition is_expired_utc :: "demo_env \<Rightarrow> string \<Rightarrow> ('b service_scheme, bool) act" where
  "is_expired_utc en v =
     (case parse_time (sn_crypto en) v of
        Inl _ \<Rightarrow> sreturn True
      | Inr t \<Rightarrow> sbind (ticking (sn_micros en)) (\<lambda>now. sreturn (t \<le> now)))"

definition approval_block_reason_for_execution ::
  "demo_env \<Rightarrow> release \<Rightarrow> strategy_version \<Rightarrow> dict option \<Rightarrow> ('b service_scheme, string option) act" where
  "approval_block_reason_for_execution en r v approval =
     (case approval of
        None \<Rightarrow> sreturn (Some ''APPROVAL_EVIDENCE_CHANGED'')
      | Some a \<Rightarrow>
          if get a ''evidence_manifest_hash'' \<noteq> PStr (evidence_fingerprint (sn_hash en) r (Some v))
          then sreturn (Some ''APPROVAL_EVIDENCE_CHANGED'')
          else if get a ''consumed_at'' \<noteq> PNone then sreturn (Some (reason_value RC_APPROVAL_CONSUMED))
          else sbind (case as_text (get a ''expires_at'') of None \<Rightarrow> sreturn True | Some t \<Rightarrow> is_expired_utc en t) (\<lambda>expired.
                 if expired then sreturn (Some (reason_value RC_APPROVAL_EXPIRED))
                 else if \<not> nonempty (as_text (get a ''nonce'')) then sreturn (Some ''APPROVAL_EVIDENCE_CHANGED'')
                 else sreturn None))"

datatype approval_kind = Release_Approval | Showcase_Approval

definition current_showcase_approval :: "release \<Rightarrow> dict option \<times> approval_kind" where
  "current_showcase_approval r =
     (case as_dict (get (rl_metadata r) ''showcase_approval'') of
        Some a \<Rightarrow> (Some a, Showcase_Approval)
      | None \<Rightarrow> (rl_approval r, Release_Approval))"

definition consume_current_approval ::
  "demo_env \<Rightarrow> release \<Rightarrow> approval_kind \<Rightarrow> ('b service_scheme, release option) act" where
  "consume_current_approval en r kind =
     (let approval = (if kind = Showcase_Approval then fst (current_showcase_approval r) else rl_approval r)
      in case map_option (\<lambda>a. get a ''nonce'') approval of
           Some (PStr nonce) \<Rightarrow>
             sbind (utc_now en) (\<lambda>t s.
               case (if kind = Showcase_Approval
                     then consume_release_showcase_approval (ss_store s) (rl_release_id r) nonce t
                     else consume_release_approval (ss_store s) (rl_release_id r) nonce t) of
                 (res, st) \<Rightarrow> (Inr res, s\<lparr> ss_store := st \<rparr>))
         | _ \<Rightarrow> sreturn None)"

definition apply_risk_policy_decision :: "execution_request \<Rightarrow> risk_decision \<Rightarrow> execution_request" where
  "apply_risk_policy_decision ex d = (case d of Reduce _ sz \<Rightarrow> ex\<lparr> ex_size := sz \<rparr> | _ \<Rightarrow> ex)"

section \<open>The verified run\<close>

record verified_demo =
  vd_intent :: execution_intent
  vd_receipt_hash :: string
  vd_chain_status :: string
  vd_strength_summary :: string

definition execution_blocked :: "string \<Rightarrow> string \<Rightarrow> dict \<Rightarrow> execution_response" where
  "execution_blocked run_id reason evidence =
     \<lparr> er_run_id = run_id, er_ok = False, er_state = ''blocked'', er_reason_code = Some reason, er_evidence = evidence \<rparr>"

text \<open>\<open>x or y\<close> on optional texts.\<close>

definition text_or :: "string option \<Rightarrow> string option \<Rightarrow> string option" where
  "text_or x y = (if nonempty x then x else y)"

definition trust_policy_path :: "demo_env \<Rightarrow> run_response \<Rightarrow> execution_request \<Rightarrow> string option" where
  "trust_policy_path en run ex =
     text_or (ex_trust_policy_path ex) (text_or (rn_baseline_trust_policy_path run) (env_text en ''REDLINE_TRUST_POLICY''))"

text \<open>The arguments that the call of \<open>verify\<close> fixes: level, package, suite and specification are given, the
  ledger, its checkpoint and its attestation are those beside the receipt.\<close>

definition verify_call :: "demo_env \<Rightarrow> run_response \<Rightarrow> string \<Rightarrow> verify_args" where
  "verify_call en run policy =
     (let v = sn_inputs en run
      in v\<lparr> va_level := Some VL_REPLAYED, va_package_given := True, va_suite_given := True, va_spec_given := True,
            va_ledger := None, va_checkpoint := None, va_attestation := None, va_report := None,
            va_trust := \<lparr> ti_public_key = None, ti_policy = Some (sn_policy en policy) \<rparr>,
            va_baseline_receipt := (if nonempty (rn_baseline_receipt_path run) then va_baseline_receipt v else None) \<rparr>)"

definition demo_intent :: "demo_env \<Rightarrow> execution_request \<Rightarrow> exn + execution_intent" where
  "demo_intent en ex =
     default_execution_intent
       (the (text_or (ex_symbol ex) (Some (environ_get (sn_environ en) ''REDLINE_BITGET_DEMO_SYMBOL'' DEFAULT_DEMO_SYMBOL))))
       (the (text_or (ex_product_type ex) (Some (environ_get (sn_environ en) ''REDLINE_BITGET_PRODUCT_TYPE'' DEFAULT_PRODUCT_TYPE))))
       ex"

text \<open>\<open>_verified_demo_execution_context\<close>: a blocked answer on the left.\<close>

definition verified_demo_execution_context ::
  "demo_env \<Rightarrow> run_response \<Rightarrow> execution_request \<Rightarrow> exn + (execution_response + verified_demo)" where
  "verified_demo_execution_context en run ex =
     (let blocked = (\<lambda>reason evidence. Inr (Inl (execution_blocked (rn_run_id run) reason evidence)))
      in if rn_state run \<noteq> Run_PASS
         then blocked (the (text_or (rn_reason_code run) (Some ''RUN_NOT_PASS'')))
                [(''run_state'', PStr (run_state_value (rn_state run)))]
         else if \<not> nonempty (trust_policy_path en run ex)
         then blocked (reason_value RC_BASELINE_UNCHAINED) [(''detail'', PStr ''trust policy is required'')]
         else
           rbind (verify (sn_hash en) (sn_crypto en) (verify_call en run (the (trust_policy_path en run ex)))) (\<lambda>v.
             if vr_status v \<noteq> VS_VERIFIED \<or> vr_reason v \<noteq> RC_PASS
             then blocked (reason_value (vr_reason v))
                    [(''verification_status'', PStr (verification_value (vr_status v))),
                     (''verification_level'', PStr (level_value (vr_level v)))]
             else if vr_chain_status v \<noteq> CS_CHAINED
             then blocked (reason_value RC_BASELINE_UNCHAINED) [(''chain_status'', PStr (chain_value (vr_chain_status v)))]
             else if rn_receipt_hash run = None \<or> vr_receipt_hash v \<noteq> rn_receipt_hash run
             then blocked (reason_value RC_RECEIPT_MISMATCH)
                    [(''receipt_hash'', PStr (case vr_receipt_hash v of None \<Rightarrow> [] | Some h \<Rightarrow> h))]
             else case demo_intent en ex of
                    Inl e \<Rightarrow> if is_value_error e then blocked (reason_value RC_SCHEMA_INVALID) [] else Inl e
                  | Inr i \<Rightarrow>
                      Inr (Inr \<lparr> vd_intent = i, vd_receipt_hash = the (rn_receipt_hash run),
                                 vd_chain_status = chain_value (vr_chain_status v),
                                 vd_strength_summary = vr_strength_summary v \<rparr>)))"


section \<open>Placing the order\<close>

definition demo_execution_credentials :: "demo_env \<Rightarrow> (string \<times> string \<times> string) option" where
  "demo_execution_credentials en =
     (let a = env_text en ''REDLINE_BITGET_DEMO_ACCESS_KEY'';
          b = env_text en ''REDLINE_BITGET_DEMO_SECRET_KEY'';
          c = env_text en ''REDLINE_BITGET_DEMO_PASSPHRASE''
      in if \<not> nonempty a \<or> \<not> nonempty b \<or> \<not> nonempty c then None else Some (the a, the b, the c))"

definition rstrip_slash :: "string \<Rightarrow> string" where
  "rstrip_slash s = rev (dropWhile (\<lambda>c. c = CHR ''/'') (rev s))"

definition paptrading :: "demo_env \<Rightarrow> string" where
  "paptrading en = environ_get (sn_environ en) ''REDLINE_BITGET_PAPTRADING'' ''1''"

definition demo_adapter :: "demo_env \<Rightarrow> exn + adapter" where
  "demo_adapter en =
     make_adapter (paptrading en)
       (sn_url en (rstrip_slash (environ_get (sn_environ en) ''REDLINE_BITGET_BASE_URL'' ''https://api.bitget.com'')))
       (sn_injected en) 10 1 (environ_flag en ''REDLINE_ALLOW_MAINNET_ORDER'')"

text \<open>The files of an execution: its own directory, the directory of its ledger, the directory of the run.\<close>

definition gather_files :: "demo_service \<Rightarrow> string \<Rightarrow> string \<Rightarrow> string \<Rightarrow> run_files" where
  "gather_files s out_dir ledger_dir run_dir =
     \<lparr> xf_evidence = xf_evidence (ss_files s out_dir), xf_ledger = xf_ledger (ss_files s ledger_dir),
       xf_preflight = xf_preflight (ss_files s out_dir), xf_status = xf_status (ss_files s out_dir),
       xf_issuance_ledger = xf_issuance_ledger (ss_files s run_dir),
       xf_issuance_checkpoint = xf_issuance_checkpoint (ss_files s run_dir) \<rparr>"

definition set_file :: "string \<Rightarrow> (run_files \<Rightarrow> run_files) \<Rightarrow> demo_service \<Rightarrow> demo_service" where
  "set_file dir f s = s\<lparr> ss_files := (ss_files s)(dir := f (ss_files s dir)) \<rparr>"

definition exchanging :: "(http_log \<Rightarrow> (exn + 'a) \<times> http_log) \<Rightarrow> (demo_service, 'a) act" where
  "exchanging f s = (case f (ss_sent s) of (r, sent) \<Rightarrow> (r, s\<lparr> ss_sent := sent \<rparr>))"

definition save_preflight :: "demo_env \<Rightarrow> string \<Rightarrow> preflight \<Rightarrow> (demo_service, preflight) act" where
  "save_preflight en dir e s =
     (case write_exchange_preflight_evidence (sn_hash en) (xf_preflight (ss_files s dir)) e of
        (r, f) \<Rightarrow> (r, set_file dir (\<lambda>fs. fs\<lparr> xf_preflight := f \<rparr>) s))"

definition save_order_status :: "demo_env \<Rightarrow> string \<Rightarrow> order_status \<Rightarrow> (demo_service, order_status) act" where
  "save_order_status en dir e s =
     (case write_order_status_evidence (sn_hash en) (xf_status (ss_files s dir)) e of
        (r, f) \<Rightarrow> (r, set_file dir (\<lambda>fs. fs\<lparr> xf_status := f \<rparr>) s))"

definition save_evidence ::
  "demo_env \<Rightarrow> string \<Rightarrow> string \<Rightarrow> string \<Rightarrow> evidence_args \<Rightarrow> (demo_service, execution_evidence) act" where
  "save_evidence en out_dir ledger_dir run_dir a s =
     (case write_execution_evidence_artifacts (sn_hash en) (gather_files s out_dir ledger_dir run_dir) a of
        (r, fs) \<Rightarrow> (r, set_file ledger_dir (\<lambda>x. x\<lparr> xf_ledger := xf_ledger fs \<rparr>)
                         (set_file out_dir (\<lambda>x. x\<lparr> xf_evidence := xf_evidence fs \<rparr>) s)))"

definition order_evidence_args ::
  "demo_env \<Rightarrow> run_response \<Rightarrow> verified_demo \<Rightarrow> placement \<Rightarrow> string \<Rightarrow> evidence_args" where
  "order_evidence_args en run c placed approval_hash =
     \<lparr> ea_run_id = rn_run_id run, ea_receipt_hash = vd_receipt_hash c, ea_verdict = St_PASS, ea_intent = vd_intent c,
       ea_order = placed, ea_order_mode = (if paptrading en \<noteq> ''1'' then ''mainnet'' else ''demo''),
       ea_paptrading = (if paptrading en = ''1'' then Some (paptrading en) else None), ea_approval_hash = approval_hash,
       ea_issuance_ledger_entry_hash = None, ea_issuance_checkpoint_hash = None \<rparr>"

definition place_verified_bitget_demo_order ::
  "demo_env \<Rightarrow> run_response \<Rightarrow> verified_demo \<Rightarrow> string \<Rightarrow> string \<Rightarrow> string \<Rightarrow> string \<Rightarrow>
   (demo_service, execution_evidence \<times> preflight \<times> order_status) act" where
  "place_verified_bitget_demo_order en run c client_oid out_dir ledger_dir approval_hash =
     (if demo_execution_credentials en = None
      then slift (Inl (ExecutionBlocked ''BITGET_DEMO_CREDENTIALS_REQUIRED''))
      else
        sbind (slift (demo_adapter en)) (\<lambda>ad.
        sbind (exchanging (preflight_exchange (exchange_of en) ad (rn_run_id run) (vd_receipt_hash c) (vd_intent c) client_oid))
          (\<lambda>pf.
        sbind (save_preflight en out_dir pf) (\<lambda>_.
          if \<not> pf_ok pf then slift (Inl (ExecutionBlocked ''EXCHANGE_PREFLIGHT_FAILED''))
          else
            sbind (exchanging (place_order (exchange_of en) ad (vd_intent c) (vd_receipt_hash c) client_oid)) (\<lambda>placed.
            sbind (save_evidence en out_dir ledger_dir (rn_out_dir run) (order_evidence_args en run c placed approval_hash))
              (\<lambda>evidence.
            sbind (exchanging (query_order_status (exchange_of en) ad (rn_run_id run) (vd_receipt_hash c) (vd_intent c)
                                 client_oid (Some (pl_bitget_order_id placed)))) (\<lambda>status.
            sbind (save_order_status en out_dir status) (\<lambda>_.
              if os_status status = ''unknown_reconciliation_required''
              then slift (Inl (ExecutionBlocked ''EXCHANGE_RECONCILIATION_REQUIRED''))
              else sreturn (evidence, pf, status)))))))))"

text \<open>\<open>except ExecutionBlocked\<close>: the answer is blocked, what was done before stays done.\<close>

fun blocked_reason :: "exn \<Rightarrow> string option" where
  "blocked_reason (ExecutionBlocked reason) = Some reason"
| "blocked_reason _ = None"

definition catching_blocked ::
  "('s, 'a) act \<Rightarrow> (string \<Rightarrow> 'a) \<Rightarrow> ('s, 'a) act" where
  "catching_blocked m handler s =
     (case m s of
        (Inl e, s') \<Rightarrow> (case blocked_reason e of None \<Rightarrow> (Inl e, s') | Some reason \<Rightarrow> (Inr (handler reason), s'))
      | (Inr x, s') \<Rightarrow> (Inr x, s'))"

definition update_manifest :: "demo_env \<Rightarrow> run_response \<Rightarrow> (demo_service, unit) act" where
  "update_manifest en run =
     sbind (utc_now en) (\<lambda>now s.
       (Inr (), s\<lparr> ss_store := update_artifact_manifest (ss_store s) (rn_run_id run)
          (build_artifact_manifest (sn_hash en) (rn_run_id run) (sn_listing en (rn_out_dir run) (ss_files s (rn_out_dir run)))) now \<rparr>))"

definition execution_done :: "run_response \<Rightarrow> string \<Rightarrow> dict \<Rightarrow> execution_response" where
  "execution_done run state evidence =
     \<lparr> er_run_id = rn_run_id run, er_ok = True, er_state = state, er_reason_code = None, er_evidence = evidence \<rparr>"

definition placed_dump :: "execution_evidence \<Rightarrow> preflight \<Rightarrow> order_status \<Rightarrow> dict" where
  "placed_dump evidence pf status =
     evidence_dump evidence @
     [(''preflight_hash'', PStr (pf_preflight_hash pf)), (''order_status_hash'', PStr (os_evidence_hash status)),
      (''order_status'', PStr (os_status status))]"

text \<open>The answer when the run has execution evidence already.\<close>

definition already_placed ::
  "demo_env \<Rightarrow> run_response \<Rightarrow> verified_demo \<Rightarrow> string \<Rightarrow> string \<Rightarrow> execution_evidence \<Rightarrow> (demo_service, execution_response) act" where
  "already_placed en run c client_oid approval_hash evidence =
     (let blocked = (\<lambda>reason e. sreturn (execution_blocked (rn_run_id run) reason e))
      in if ee_receipt_hash evidence \<noteq> vd_receipt_hash c \<or> ee_client_oid evidence \<noteq> client_oid
         then blocked ''EXECUTION_EVIDENCE_MISMATCH'' [(''detail'', PStr ''run already has different execution evidence'')]
         else if approval_hash \<noteq> UNAPPROVED_APPROVAL_HASH \<and> ee_approval evidence \<noteq> approval_hash
         then blocked ''EXECUTION_EVIDENCE_MISMATCH''
                [(''detail'', PStr ''execution evidence is not bound to current approval'')]
         else
           sbind (\<lambda>s. (Inr (xf_status (ss_files s (rn_out_dir run))), s)) (\<lambda>f.
             let finish = sbind (update_manifest en run) (\<lambda>_.
                            sreturn (execution_done run ''already_placed'' (evidence_dump evidence)))
             in if f = Absent then finish
                else sbind (slift (load_order_status_evidence (sn_hash en) f)) (\<lambda>status.
                       if os_status status = ''unknown_reconciliation_required''
                       then blocked ''EXCHANGE_RECONCILIATION_REQUIRED''
                              [(''order_status_hash'', PStr (os_evidence_hash status))]
                       else finish)))"

definition place_once ::
  "demo_env \<Rightarrow> run_response \<Rightarrow> verified_demo \<Rightarrow> string \<Rightarrow> string \<Rightarrow> (demo_service, execution_response) act" where
  "place_once en run c client_oid approval_hash =
     sbind (\<lambda>s. (execution_ledger_has_order (sn_hash en) (xf_ledger (ss_files s (rn_out_dir run)))
                    (vd_receipt_hash c) client_oid, s)) (\<lambda>known.
       if known
       then sreturn (execution_blocked (rn_run_id run) ''EXECUTION_EVIDENCE_MISSING''
                       [(''detail'', PStr ''execution ledger exists without evidence artifact'')])
       else
         sbind (place_verified_bitget_demo_order en run c client_oid (rn_out_dir run) (rn_out_dir run) approval_hash)
           (\<lambda>(evidence, pf, status).
         sbind (update_manifest en run) (\<lambda>_.
           sreturn (execution_done run ''placed'' (placed_dump evidence pf status)))))"

definition execute_bitget_demo_order ::
  "demo_env \<Rightarrow> run_response \<Rightarrow> execution_request \<Rightarrow> string \<Rightarrow> (demo_service, execution_response) act" where
  "execute_bitget_demo_order en run ex approval_hash =
     sbind (slift (verified_demo_execution_context en run ex)) (\<lambda>context.
       case context of
         Inl blocked \<Rightarrow> sreturn blocked
       | Inr c \<Rightarrow>
           sbind (slift (make_client_oid (sn_hash en) (vd_receipt_hash c) (vd_intent c))) (\<lambda>client_oid.
             catching_blocked
               (sbind (\<lambda>s. (Inr (xf_evidence (ss_files s (rn_out_dir run))), s)) (\<lambda>f.
                  if f = Absent then place_once en run c client_oid approval_hash
                  else sbind (slift (load_execution_evidence (sn_hash en) f))
                         (already_placed en run c client_oid approval_hash)))
               (\<lambda>reason. execution_blocked (rn_run_id run) reason [])))"


section \<open>\<open>execute-demo\<close>\<close>

definition mask_identifier :: "string \<Rightarrow> string" where
  "mask_identifier s = (if length s \<le> 8 then ''***'' else take 4 s @ ''***'' @ drop (length s - 4) s)"

definition order_id_of :: "dict \<Rightarrow> string" where
  "order_id_of evidence = (case as_text (get evidence ''bitget_order_id'') of None \<Rightarrow> [] | Some s \<Rightarrow> s)"

definition order_decision_payload :: "string \<Rightarrow> risk_decision \<Rightarrow> dict" where
  "order_decision_payload run_id d =
     [(''run_id'', PStr run_id), (''risk_policy_decision'', PDict (risk_decision_dump d))]"

definition breach_payload :: "risk_decision \<Rightarrow> dict" where
  "breach_payload d =
     [(''breach'', opt_str (risk_reason d)), (''risk_policy_decision'', PDict (risk_decision_dump d))]"

definition BLOCKED_STATES :: "release_state list" where
  "BLOCKED_STATES =
     [Rel_BLOCKED_WITHHELD, Rel_BLOCKED_UNVERIFIED, Rel_BLOCKED_MISSING_EVIDENCE, Rel_BLOCKED_RISK_POLICY,
      Rel_BLOCKED_APPROVAL, Rel_BLOCKED_EXCHANGE_ERROR]"

text \<open>A transition of the release that is stored at once.\<close>

definition move_release ::
  "demo_env \<Rightarrow> release \<Rightarrow> release_state \<Rightarrow> (release \<Rightarrow> release) \<Rightarrow> (demo_service, release) act" where
  "move_release en r to updates = sbind (slift (transition_release_or_409 r to updates)) (save_release en)"

text \<open>The order was placed: the evidence is read back from the file and the release becomes ready.\<close>

definition run_evidence ::
  "demo_env \<Rightarrow> run_response \<Rightarrow> (demo_service, exn + execution_evidence) act" where
  "run_evidence en run s = (Inr (load_execution_evidence (sn_hash en) (xf_evidence (ss_files s (rn_out_dir run)))), s)"

definition release_executed ::
  "demo_env \<Rightarrow> principal option \<Rightarrow> string \<Rightarrow> release \<Rightarrow> run_response \<Rightarrow> risk_decision \<Rightarrow> dict \<Rightarrow>
   (demo_service, action_response) act" where
  "release_executed en request rid r run d evidence =
     sbind (run_evidence en run) (\<lambda>loaded. case loaded of
        Inl e \<Rightarrow>
          (case blocked_reason e of
             Some reason \<Rightarrow> sreturn (release_answer rid False Rel_BLOCKED_EXCHANGE_ERROR (Some reason) [])
           | None \<Rightarrow> slift (Inl e))
      | Inr canonical \<Rightarrow>
          sbind (move_release en r Rel_RELEASE_READY
                   (\<lambda>x. x\<lparr> rl_execution_run_id := Some (rn_run_id run), rl_execution_evidence := Some (evidence_dump canonical),
                          rl_evidence_manifest := None, rl_evidence_manifest_hash := None \<rparr>)) (\<lambda>updated.
          sbind (append_release_audit_event en rid ''demo_order_placed'' (audit_actor request (rl_created_by r))
            [(''run_id'', PStr (rn_run_id run)), (''client_oid'', get evidence ''client_oid''),
             (''bitget_order_id'', PStr (mask_identifier (order_id_of evidence))),
             (''risk_policy_decision'', PDict (risk_decision_dump d))]) (\<lambda>_.
          sbind (append_release_audit_event en rid ''release_ready'' (audit_actor request (rl_created_by r))
            [(''state'', PStr (release_state_value (rl_state updated)))]) (\<lambda>_.
            sreturn (release_answer rid True (rl_state updated) None
                       (put evidence ''risk_policy_decision'' (PDict (risk_decision_dump d))))))))"

definition execution_answer ::
  "demo_env \<Rightarrow> principal option \<Rightarrow> string \<Rightarrow> release \<Rightarrow> run_response \<Rightarrow> risk_decision \<Rightarrow> execution_response \<Rightarrow>
   (demo_service, action_response) act" where
  "execution_answer en request rid r run d execution =
     (if er_ok execution then release_executed en request rid r run d (er_evidence execution)
      else
        sbind (move_release en r Rel_BLOCKED_EXCHANGE_ERROR id) (\<lambda>updated.
        sbind (append_release_audit_event en rid ''demo_order_blocked'' (audit_actor request (rl_created_by r))
          [(''reason_code'', opt_str (er_reason_code execution)), (''state'', PStr (er_state execution))]) (\<lambda>_.
          sreturn (release_answer rid False (rl_state updated) (er_reason_code execution) (er_evidence execution)))))"

definition request_order ::
  "demo_env \<Rightarrow> principal option \<Rightarrow> string \<Rightarrow> release \<Rightarrow> execution_request \<Rightarrow> risk_decision \<Rightarrow> run_response \<Rightarrow>
   (demo_service, action_response) act" where
  "request_order en request rid r ex d run =
     sbind (append_release_audit_event en rid ''demo_order_requested'' (audit_actor request (rl_created_by r))
              (order_decision_payload (rn_run_id run) d)) (\<lambda>_.
     sbind (slift (case rl_approval r of None \<Rightarrow> Inl TypeError | Some a \<Rightarrow> approval_record_hash (sn_hash en) a)) (\<lambda>h.
     sbind (execute_bitget_demo_order en run ex h) (execution_answer en request rid r run d)))"

definition execute_approved ::
  "demo_env \<Rightarrow> principal option \<Rightarrow> string \<Rightarrow> release \<Rightarrow> execution_request \<Rightarrow> risk_decision \<Rightarrow>
   (demo_service, action_response) act" where
  "execute_approved en request rid r ex d =
     (case rl_run_id r of
        None \<Rightarrow> sreturn (release_answer rid False Rel_BLOCKED_UNVERIFIED (Some ''RUN_REQUIRED'') [])
      | Some run_id \<Rightarrow> sbind (get_run_or_404 run_id) (request_order en request rid r ex d))"

definition execute_consumed ::
  "demo_env \<Rightarrow> principal option \<Rightarrow> string \<Rightarrow> execution_request \<Rightarrow> release \<Rightarrow> (demo_service, action_response) act" where
  "execute_consumed en request rid ex r =
     (case rl_risk_policy r of
        None \<Rightarrow> sreturn (release_answer rid False Rel_BLOCKED_RISK_POLICY (Some ''RISK_POLICY_REQUIRED'') [])
      | Some policy \<Rightarrow>
          sbind (slift (risk_policy_breach policy ex)) (\<lambda>d.
            if risk_blocked d
            then
              sbind (move_release en r Rel_BLOCKED_RISK_POLICY id) (\<lambda>updated.
              sbind (append_release_audit_event en rid ''risk_policy_checked'' (audit_actor request (rl_created_by r))
                       ((''ok'', PBool False) # breach_payload d)) (\<lambda>_.
                sreturn (release_answer rid False (rl_state updated) (Some ''RISK_POLICY_BREACH'') (breach_payload d))))
            else execute_approved en request rid r (apply_risk_policy_decision ex d) d))"

definition execute_with_approval ::
  "demo_env \<Rightarrow> principal option \<Rightarrow> string \<Rightarrow> execution_request \<Rightarrow> release \<Rightarrow> strategy_version \<Rightarrow>
   (demo_service, action_response) act" where
  "execute_with_approval en request rid ex r v =
     (let refuse = (\<lambda>reason. sreturn (release_answer rid False Rel_BLOCKED_APPROVAL (Some reason) []))
      in sbind (approval_block_reason_for_execution en r v (rl_approval r)) (\<lambda>block.
           case block of
             Some reason \<Rightarrow> refuse reason
           | None \<Rightarrow>
               sbind (consume_current_approval en r Release_Approval) (\<lambda>consumed.
                 case consumed of
                   None \<Rightarrow> refuse (reason_value RC_APPROVAL_CONSUMED)
                 | Some r' \<Rightarrow> execute_consumed en request rid ex r')))"

definition execute_release_demo_endpoint ::
  "demo_env \<Rightarrow> principal option \<Rightarrow> string \<Rightarrow> execution_request \<Rightarrow> (demo_service, action_response) act" where
  "execute_release_demo_endpoint en request rid ex =
     sbind (get_release_or_404 rid) (\<lambda>r.
       if execution_freeze_enabled en then sreturn (release_blocked r ''REDLINE_EXECUTION_FREEZE'')
       else case rl_execution_evidence r of
              Some evidence \<Rightarrow> sreturn (release_answer rid True (rl_state r) None evidence)
            | None \<Rightarrow>
                if rl_state r \<in> set BLOCKED_STATES
                then sreturn (release_answer rid False (rl_state r) (Some (upper (release_state_value (rl_state r)))) [])
                else if rl_state r \<noteq> Rel_APPROVED
                then sreturn (release_answer rid False (rl_state r) (Some ''RELEASE_NOT_APPROVED'') [])
                else sbind (get_strategy_version_for_release_or_404 r) (execute_with_approval en request rid ex r))"

text \<open>\<open>POST /runs/{run_id}/execute\<close> places the order of a run without a release.\<close>

definition execute_endpoint ::
  "demo_env \<Rightarrow> string \<Rightarrow> execution_request \<Rightarrow> (demo_service, execution_response) act" where
  "execute_endpoint en run_id ex =
     sbind (get_run_or_404 run_id) (\<lambda>run. execute_bitget_demo_order en run ex UNAPPROVED_APPROVAL_HASH)"

section \<open>Showcase orders\<close>

definition execution_request_value :: "execution_request \<Rightarrow> pyval" where
  "execution_request_value ex =
     PDict [(''symbol'', opt_str (ex_symbol ex)), (''product_type'', opt_str (ex_product_type ex)),
            (''margin_coin'', opt_str (ex_margin_coin ex)), (''size'', PStr (ex_size ex)), (''side'', PStr (ex_side ex)),
            (''trade_side'', opt_str (ex_trade_side ex)), (''order_type'', PStr (ex_order_type ex)),
            (''force'', opt_str (ex_force ex)), (''price'', opt_str (ex_price ex)),
            (''confirm_mainnet_order'', PBool (ex_confirm_mainnet_order ex)),
            (''trust_policy_path'', opt_str (ex_trust_policy_path ex))]"

definition action_response_dump :: "action_response \<Rightarrow> dict" where
  "action_response_dump a =
     [(''release_id'', PStr (ar_release_id a)), (''ok'', PBool (ar_ok a)),
      (''state'', PStr (release_state_value (ar_state a))), (''reason_code'', opt_str (ar_reason_code a)),
      (''evidence'', PDict (ar_evidence a))]"

definition showcase_scope :: "string \<Rightarrow> string" where
  "showcase_scope rid = ''release-candidates:'' @ rid @ '':demo-showcase-orders:create''"

definition showcase_dir :: "demo_env \<Rightarrow> string \<Rightarrow> string \<Rightarrow> string" where
  "showcase_dir en base attempt_id =
     sn_root en @ ''/'' @ base @ ''/demo-showcase-orders/'' @ attempt_id"

text \<open>The ledger of all showcase orders of a release is in the directory of the release.\<close>

definition showcase_dump ::
  "demo_env \<Rightarrow> string \<Rightarrow> string \<Rightarrow> string \<Rightarrow> execution_evidence \<Rightarrow> preflight \<Rightarrow> order_status \<Rightarrow> dict" where
  "showcase_dump en rid dir attempt_id evidence pf status =
     evidence_dump evidence @
     [(''attempt_id'', PStr attempt_id), (''evidence_path'', PStr (dir @ ''/execution-evidence.json'')),
      (''evidence_html_path'', PStr (dir @ ''/evidence.html'')),
      (''evidence_html_url'',
         PStr (''/v1/release-candidates/'' @ rid @ ''/demo-showcase-orders/'' @ attempt_id @ ''/evidence.html'')),
      (''preflight_hash'', PStr (pf_preflight_hash pf)),
      (''preflight_evidence_path'', PStr (dir @ ''/exchange-preflight-evidence.json'')),
      (''order_status'', PStr (os_status status)), (''order_status_hash'', PStr (os_evidence_hash status)),
      (''order_status_evidence_path'', PStr (dir @ ''/order-status-evidence.json'')), (''showcase'', PBool True)]"

definition execute_bitget_demo_showcase_order ::
  "demo_env \<Rightarrow> string \<Rightarrow> run_response \<Rightarrow> execution_request \<Rightarrow> string \<Rightarrow> (demo_service, execution_response) act" where
  "execute_bitget_demo_showcase_order en rid run ex approval_hash =
     sbind (slift (verified_demo_execution_context en run ex)) (\<lambda>context.
       case context of
         Inl blocked \<Rightarrow> sreturn blocked
       | Inr c \<Rightarrow>
           sbind (fresh_id en ''show_'' [(''release_id'', PStr rid), (''run_id'', PStr (rn_run_id run))]) (\<lambda>attempt_id.
           sbind (slift (make_showcase_client_oid (sn_hash en) (vd_receipt_hash c) (vd_intent c) attempt_id)) (\<lambda>client_oid.
           sbind (slift (release_dir rid)) (\<lambda>base.
             let dir = showcase_dir en base attempt_id
             in catching_blocked
                  (sbind (place_verified_bitget_demo_order en run c client_oid dir (sn_root en @ ''/'' @ base) approval_hash)
                     (\<lambda>(evidence, pf, status).
                       sreturn (execution_done run ''showcase_placed'' (showcase_dump en rid dir attempt_id evidence pf status))))
                  (\<lambda>reason. execution_blocked (rn_run_id run) reason [])))))"

text \<open>Every answer of the handler is recorded under the idempotency key, with the request as it is then.\<close>

definition record_answer ::
  "demo_env \<Rightarrow> string \<Rightarrow> string option \<Rightarrow> execution_request \<Rightarrow> action_response \<Rightarrow>
   (demo_service, action_response replayable) act" where
  "record_answer en rid key ex a =
     sbind (idempotency_store en (showcase_scope rid) key (execution_request_value ex) (action_response_dump a) 200) (\<lambda>_.
       sreturn (Answered a))"

definition place_showcase ::
  "demo_env \<Rightarrow> principal option \<Rightarrow> string \<Rightarrow> string option \<Rightarrow> execution_request \<Rightarrow> release \<Rightarrow> risk_decision \<Rightarrow>
   run_response \<Rightarrow> (demo_service, action_response replayable) act" where
  "place_showcase en request rid key ex r d run =
     (let actor = audit_actor request (rl_created_by r);
          answer = (\<lambda>ok reason evidence. record_answer en rid key ex (release_answer rid ok (rl_state r) reason evidence))
      in sbind (append_release_audit_event en rid ''showcase_demo_order_requested'' actor (order_decision_payload (rn_run_id run) d))
         (\<lambda>_.
         sbind (slift (approval_record_hash (sn_hash en)
                  (case fst (current_showcase_approval r) of None \<Rightarrow> [] | Some a \<Rightarrow> a))) (\<lambda>h.
         sbind (execute_bitget_demo_showcase_order en rid run ex h) (\<lambda>execution.
           if \<not> er_ok execution
           then
             sbind (append_release_audit_event en rid ''showcase_demo_order_blocked'' actor
               [(''reason_code'', opt_str (er_reason_code execution)), (''state'', PStr (er_state execution))]) (\<lambda>_.
               answer False (er_reason_code execution) (er_evidence execution))
           else
             sbind (append_release_audit_event en rid ''showcase_demo_order_placed'' actor
               [(''run_id'', PStr (rn_run_id run)), (''attempt_id'', get (er_evidence execution) ''attempt_id''),
                (''client_oid'', get (er_evidence execution) ''client_oid''),
                (''bitget_order_id'', PStr (mask_identifier (order_id_of (er_evidence execution)))),
                (''risk_policy_decision'', PDict (risk_decision_dump d))]) (\<lambda>_.
               answer True None (put (er_evidence execution) ''risk_policy_decision'' (PDict (risk_decision_dump d))))))))"

definition showcase_consumed ::
  "demo_env \<Rightarrow> principal option \<Rightarrow> string \<Rightarrow> string option \<Rightarrow> execution_request \<Rightarrow> release \<Rightarrow>
   (demo_service, action_response replayable) act" where
  "showcase_consumed en request rid key ex r =
     (let refuse = (\<lambda>x reason evidence. record_answer en rid key x (release_answer rid False (rl_state r) (Some reason) evidence))
      in case rl_risk_policy r of
           None \<Rightarrow> refuse ex ''RISK_POLICY_REQUIRED'' []
         | Some policy \<Rightarrow>
             sbind (slift (risk_policy_breach policy ex)) (\<lambda>d.
               if risk_blocked d
               then sbind (append_release_audit_event en rid ''showcase_risk_policy_checked'' (audit_actor request (rl_created_by r))
                      ((''ok'', PBool False) # breach_payload d)) (\<lambda>_. refuse ex ''RISK_POLICY_BREACH'' (breach_payload d))
               else
                 let ex' = apply_risk_policy_decision ex d
                 in case text_or (rl_execution_run_id r) (rl_run_id r) of
                      None \<Rightarrow> refuse ex' ''RUN_REQUIRED'' []
                    | Some run_id \<Rightarrow>
                        sbind (get_run_or_404 run_id) (\<lambda>run.
                        sbind (run_evidence en run) (\<lambda>loaded.
                            case loaded of
                              Inl e \<Rightarrow>
                                (case blocked_reason e of
                                   Some reason \<Rightarrow> refuse ex' ''RELEASE_EVIDENCE_CHANGED'' [(''detail'', PStr reason)]
                                 | None \<Rightarrow> slift (Inl e))
                            | Inr evidence \<Rightarrow>
                                if Some (evidence_dump evidence) \<noteq> rl_execution_evidence r
                                then refuse ex' ''RELEASE_EVIDENCE_CHANGED'' []
                                else place_showcase en request rid key ex' r d run))))"

definition create_release_demo_showcase_order_endpoint ::
  "demo_env \<Rightarrow> principal option \<Rightarrow> string \<Rightarrow> execution_request \<Rightarrow> string option \<Rightarrow>
   (demo_service, action_response replayable) act" where
  "create_release_demo_showcase_order_endpoint en request rid ex key =
     sbind (get_release_or_404 rid) (\<lambda>r.
     sbind (idempotency_replay en (showcase_scope rid) key (execution_request_value ex)) (\<lambda>replayed.
       case replayed of
         Some response \<Rightarrow> sreturn (Replayed response)
       | None \<Rightarrow>
           if execution_freeze_enabled en then record_answer en rid key ex (release_blocked r ''REDLINE_EXECUTION_FREEZE'')
           else if rl_state r \<noteq> Rel_RELEASE_READY \<or> rl_execution_evidence r = None
           then record_answer en rid key ex
                  (release_answer rid False (rl_state r) (Some ''RELEASE_DEMO_EXECUTION_REQUIRED'')
                     [(''detail'', PStr ''canonical execute-demo evidence is required before showcase orders'')])
           else
             sbind (get_strategy_version_for_release_or_404 r) (\<lambda>v.
             sbind (approval_block_reason_for_execution en r v (fst (current_showcase_approval r))) (\<lambda>block.
               case block of
                 Some reason \<Rightarrow> record_answer en rid key ex (release_answer rid False (rl_state r) (Some reason) [])
               | None \<Rightarrow>
                   sbind (consume_current_approval en r (snd (current_showcase_approval r))) (\<lambda>consumed.
                     case consumed of
                       None \<Rightarrow>
                         record_answer en rid key ex
                           (release_answer rid False (rl_state r) (Some (reason_value RC_APPROVAL_CONSUMED)) [])
                     | Some r' \<Rightarrow> showcase_consumed en request rid key ex r')))))"

end
