(* ===== verification/Job_Worker.thy ===== *)
theory Job_Worker
  imports Demo_Order
begin

text \<open>
  The job queue of \<open>src/redline/service/app.py\<close>: the endpoints that queue and cancel a job and the worker that
  claims queued jobs and runs \<open>execute-demo\<close> or a showcase order for each, logging its progress in the
  hash-chained event log of the job. The threads of the executor are left out: a worker is the loop
  \<open>drain_release_jobs\<close>, and its two steps, \<open>claim_release_job\<close> and \<open>work_on_job\<close>, are actions of their own
  that other requests can come between.
\<close>

section \<open>Data read back from JSON\<close>

text \<open>\<open>type(exc).__name__\<close>.\<close>

fun exn_name :: "exn \<Rightarrow> string" where
  "exn_name (CanonicalizationError r) = ''CanonicalizationError''"
| "exn_name (ReplayEngineError r) = ''ReplayEngineError''"
| "exn_name (ExecutionBlocked s) = ''ExecutionBlocked''"
| "exn_name (HTTPException n) = ''HTTPException''"
| "exn_name IssuanceLedgerConflict = ''IssuanceLedgerConflict''"
| "exn_name ValueError = ''ValueError''"
| "exn_name ValidationError = ''ValidationError''"
| "exn_name JSONDecodeError = ''JSONDecodeError''"
| "exn_name InvalidSignature = ''InvalidSignature''"
| "exn_name InvalidOperation = ''InvalidOperation''"
| "exn_name DivisionByZero = ''DivisionByZero''"
| "exn_name KeyError = ''KeyError''"
| "exn_name IndexError = ''IndexError''"
| "exn_name TypeError = ''TypeError''"
| "exn_name AttributeError = ''AttributeError''"
| "exn_name OSError = ''OSError''"
| "exn_name FileNotFoundError = ''FileNotFoundError''"
| "exn_name RuntimeError = ''RuntimeError''"
| "exn_name IntegrityError = ''IntegrityError''"

text \<open>Fields of a pydantic model that is read from JSON: a text, an optional text, one of some texts, a boolean.\<close>

definition text_field :: "dict \<Rightarrow> string \<Rightarrow> string option \<Rightarrow> exn + string" where
  "text_field d k dflt =
     (case map_of d k of
        Some (PStr s) \<Rightarrow> Inr s
      | Some _ \<Rightarrow> Inl ValidationError
      | None \<Rightarrow> (case dflt of None \<Rightarrow> Inl ValidationError | Some s \<Rightarrow> Inr s))"

definition opt_text_field :: "dict \<Rightarrow> string \<Rightarrow> string option \<Rightarrow> exn + string option" where
  "opt_text_field d k dflt =
     (case map_of d k of
        Some (PStr s) \<Rightarrow> Inr (Some s)
      | Some PNone \<Rightarrow> Inr None
      | Some _ \<Rightarrow> Inl ValidationError
      | None \<Rightarrow> Inr dflt)"

definition one_of :: "string list \<Rightarrow> string \<Rightarrow> exn + string" where
  "one_of choices s = (if s \<in> set choices then Inr s else Inl ValidationError)"

definition opt_one_of :: "string list \<Rightarrow> string option \<Rightarrow> exn + string option" where
  "opt_one_of choices x = (case x of None \<Rightarrow> Inr None | Some s \<Rightarrow> rbind (one_of choices s) (\<lambda>t. Inr (Some t)))"

fun as_bool :: "pyval \<Rightarrow> bool option" where
  "as_bool (PBool b) = Some b"
| "as_bool (PInt i) = (if i = 1 then Some True else if i = 0 then Some False else None)"
| "as_bool (PFloat s) = (if s = ''1.0'' then Some True else if s = ''0.0'' then Some False else None)"
| "as_bool (PStr s) =
     (if upper s \<in> {''1'', ''ON'', ''T'', ''TRUE'', ''Y'', ''YES''} then Some True
      else if upper s \<in> {''0'', ''OFF'', ''F'', ''FALSE'', ''N'', ''NO''} then Some False else None)"
| "as_bool _ = None"

definition bool_field :: "dict \<Rightarrow> string \<Rightarrow> bool option \<Rightarrow> exn + bool" where
  "bool_field d k dflt =
     (case (case map_of d k of None \<Rightarrow> dflt | Some v \<Rightarrow> as_bool v) of None \<Rightarrow> Inl ValidationError | Some b \<Rightarrow> Inr b)"

text \<open>\<open>ConfigDict(extra="forbid")\<close>.\<close>

definition only_fields :: "string list \<Rightarrow> dict \<Rightarrow> exn + unit" where
  "only_fields names d = (if list_all (\<lambda>(k, v). k \<in> set names) d then Inr () else Inl ValidationError)"

text \<open>\<open>ExecutionRequest.model_validate\<close>.\<close>

definition EXECUTION_FIELDS :: "string list" where
  "EXECUTION_FIELDS =
     [''symbol'', ''product_type'', ''margin_coin'', ''size'', ''side'', ''trade_side'', ''order_type'', ''force'', ''price'',
      ''confirm_mainnet_order'', ''trust_policy_path'']"

definition execution_request_of :: "dict \<Rightarrow> exn + execution_request" where
  "execution_request_of d =
     rbind (only_fields EXECUTION_FIELDS d) (\<lambda>_.
     rbind (opt_text_field d ''symbol'' None) (\<lambda>symbol.
     rbind (opt_text_field d ''product_type'' None) (\<lambda>product_type.
     rbind (opt_text_field d ''margin_coin'' None) (\<lambda>margin_coin.
     rbind (text_field d ''size'' (Some ''0.0001'')) (\<lambda>sz.
     rbind (rbind (text_field d ''side'' (Some ''buy'')) (one_of [''buy'', ''sell''])) (\<lambda>side.
     rbind (rbind (opt_text_field d ''trade_side'' (Some ''open'')) (opt_one_of [''open'', ''close''])) (\<lambda>trade_side.
     rbind (rbind (text_field d ''order_type'' (Some ''market'')) (one_of [''market'', ''limit''])) (\<lambda>order_type.
     rbind (rbind (opt_text_field d ''force'' None) (opt_one_of [''ioc'', ''fok'', ''gtc'', ''post_only''])) (\<lambda>force.
     rbind (opt_text_field d ''price'' None) (\<lambda>price.
     rbind (bool_field d ''confirm_mainnet_order'' (Some False)) (\<lambda>confirm.
     rbind (opt_text_field d ''trust_policy_path'' None) (\<lambda>path.
       Inr \<lparr> ex_symbol = symbol, ex_product_type = product_type, ex_margin_coin = margin_coin, ex_size = sz,
             ex_side = side, ex_trade_side = trade_side, ex_order_type = order_type, ex_force = force, ex_price = price,
             ex_confirm_mainnet_order = confirm, ex_trust_policy_path = path \<rparr>))))))))))))"

text \<open>\<open>ReleaseActionResponse.model_validate\<close> of a replayed answer.\<close>

definition RELEASE_STATES :: "release_state list" where
  "RELEASE_STATES =
     [Rel_DRAFT, Rel_REDLINE_RUNNING, Rel_REDLINE_PASSED, Rel_EVIDENCE_COLLECTING, Rel_REVIEW_REQUIRED, Rel_APPROVED,
      Rel_DEMO_EXECUTED, Rel_RELEASE_READY, Rel_RELEASED_DEMO, Rel_RELEASED_LIVE_GATED, Rel_BLOCKED_WITHHELD,
      Rel_BLOCKED_UNVERIFIED, Rel_BLOCKED_MISSING_EVIDENCE, Rel_BLOCKED_RISK_POLICY, Rel_BLOCKED_APPROVAL,
      Rel_BLOCKED_EXCHANGE_ERROR, Rel_KILLED, Rel_REJECTED]"

definition release_state_of :: "string \<Rightarrow> exn + release_state" where
  "release_state_of s =
     (case find (\<lambda>x. release_state_value x = s) RELEASE_STATES of None \<Rightarrow> Inl ValidationError | Some x \<Rightarrow> Inr x)"

definition action_response_of :: "dict \<Rightarrow> exn + action_response" where
  "action_response_of d =
     rbind (only_fields [''release_id'', ''ok'', ''state'', ''reason_code'', ''evidence''] d) (\<lambda>_.
     rbind (text_field d ''release_id'' None) (\<lambda>rid.
     rbind (bool_field d ''ok'' None) (\<lambda>ok.
     rbind (rbind (text_field d ''state'' None) release_state_of) (\<lambda>state.
     rbind (opt_text_field d ''reason_code'' None) (\<lambda>reason.
     rbind (case map_of d ''evidence'' of
              None \<Rightarrow> Inr [] | Some v \<Rightarrow> (case as_dict v of None \<Rightarrow> Inl ValidationError | Some e \<Rightarrow> Inr e)) (\<lambda>evidence.
       Inr (release_answer rid ok state reason evidence)))))))"


section \<open>The log and the status of a job\<close>

definition log_job_event ::
  "'e service_env_scheme \<Rightarrow> string \<Rightarrow> string \<Rightarrow> string \<Rightarrow> dict \<Rightarrow> ('b service_scheme, unit) act" where
  "log_job_event en rid jid event_type payload =
     sbind (utc_now en) (\<lambda>now s.
       case append_release_job_event (sn_hash en) (ss_store s) rid jid event_type payload now of
         Inl e \<Rightarrow> (Inl e, s)
       | Inr (event, st) \<Rightarrow> (Inr (), s\<lparr> ss_store := st \<rparr>))"

definition set_job_status ::
  "'e service_env_scheme \<Rightarrow> string \<Rightarrow> job_status \<Rightarrow> dict option \<Rightarrow> string option \<Rightarrow> string option \<Rightarrow>
   ('b service_scheme, unit) act" where
  "set_job_status en jid status result error_code error_message =
     sbind (utc_now en) (\<lambda>now s.
       (Inr (), s\<lparr> ss_store := mark_release_job_status (ss_store s) jid status result error_code error_message now \<rparr>))"

text \<open>\<open>_release_job_cancel_requested\<close>.\<close>

definition job_cancel_requested :: "'e service_env_scheme \<Rightarrow> string \<Rightarrow> string \<Rightarrow> ('b service_scheme, bool) act" where
  "job_cancel_requested en rid jid s =
     (rbind (list_release_job_events (sn_hash en) (ss_store s) rid jid)
        (\<lambda>es. Inr (list_ex (\<lambda>e. ev_event_type e = ''job_cancel_requested'') es)), s)"

section \<open>Running a job\<close>

text \<open>The start of both kinds of jobs, up to the answer whether the job was cancelled before it began.\<close>

definition start_job ::
  "'e service_env_scheme \<Rightarrow> string \<Rightarrow> string \<Rightarrow> job_type \<Rightarrow> bool \<Rightarrow> ('b service_scheme, bool) act" where
  "start_job en rid jid jt claimed =
     sbind (if claimed then sreturn () else set_job_status en jid Job_RUNNING None None None) (\<lambda>_.
     sbind (log_job_event en rid jid ''job_started'' [(''job_type'', PStr (job_type_value jt))]) (\<lambda>_.
     sbind (job_cancel_requested en rid jid) (\<lambda>cancel.
       if cancel
       then
         sbind (set_job_status en jid Job_CANCELLED None (Some ''JOB_CANCELLED'')
                  (Some ''release job cancelled before Bitget request'')) (\<lambda>_.
         sbind (log_job_event en rid jid ''job_cancelled'' [(''stage'', PStr ''before_bitget_request'')]) (\<lambda>_.
           sreturn True))
       else sreturn False)))"

definition of_release :: "(release \<Rightarrow> string option) \<Rightarrow> release option \<Rightarrow> pyval" where
  "of_release f r = (case r of None \<Rightarrow> PNone | Some x \<Rightarrow> opt_str (f x))"

definition log_release_checks ::
  "'e service_env_scheme \<Rightarrow> string \<Rightarrow> string \<Rightarrow> release option \<Rightarrow> ('b service_scheme, unit) act" where
  "log_release_checks en rid jid r =
     sbind (log_job_event en rid jid ''redline_verification_started'' [(''release_id'', PStr rid)]) (\<lambda>_.
     sbind (if r \<noteq> None \<and> rl_redline_reason_code (the r) = Some (reason_value RC_PASS)
            then log_job_event en rid jid ''redline_verification_passed''
                   [(''receipt_hash'', of_release rl_redline_receipt_hash r)]
            else sreturn ()) (\<lambda>_.
       log_job_event en rid jid ''risk_policy_checked'' [(''risk_policy_hash'', of_release rl_risk_policy_hash r)]))"

text \<open>The events of an order that was placed, with what the two kinds of jobs say of it.\<close>

definition job_succeeded ::
  "'e service_env_scheme \<Rightarrow> string \<Rightarrow> string \<Rightarrow> string list \<Rightarrow> string list \<Rightarrow> action_response \<Rightarrow>
   ('b service_scheme, unit) act" where
  "job_succeeded en rid jid placed_keys written_keys a =
     (let e = get (ar_evidence a); fields_of = map (\<lambda>k. (k, e k))
      in sbind (if truthy (e ''preflight_hash'')
                then log_job_event en rid jid ''exchange_preflight_passed'' (fields_of [''preflight_hash'']) else sreturn ()) (\<lambda>_.
         sbind (log_job_event en rid jid ''bitget_order_requested''
                  [(''mode'', PStr ''demo''), (''paptrading'', PStr ''1'')]) (\<lambda>_.
         sbind (log_job_event en rid jid ''bitget_order_placed'' (fields_of placed_keys)) (\<lambda>_.
         sbind (if truthy (e ''order_status_hash'')
                then log_job_event en rid jid ''bitget_reconciliation_succeeded''
                       (fields_of [''order_status_hash'', ''order_status''])
                else sreturn ()) (\<lambda>_.
         sbind (log_job_event en rid jid ''evidence_written'' (fields_of written_keys)) (\<lambda>_.
         sbind (set_job_status en jid Job_SUCCEEDED (Some (action_response_dump a)) None None) (\<lambda>_.
           log_job_event en rid jid ''job_succeeded'' [(''ok'', PBool True)])))))))"

definition job_refused ::
  "'e service_env_scheme \<Rightarrow> string \<Rightarrow> string \<Rightarrow> bool \<Rightarrow> action_response \<Rightarrow> ('b service_scheme, unit) act" where
  "job_refused en rid jid showcase a =
     (let reason = the (text_or (ar_reason_code a) (Some ''JOB_FAILED''));
          note = (\<lambda>event_type. log_job_event en rid jid event_type [(''reason_code'', PStr reason)])
      in sbind (if reason = ''EXCHANGE_PREFLIGHT_FAILED'' then note ''exchange_preflight_failed'' else sreturn ()) (\<lambda>_.
         sbind (if reason = ''EXCHANGE_RECONCILIATION_REQUIRED'' then note ''bitget_reconciliation_required''
                else sreturn ()) (\<lambda>_.
         sbind (if showcase \<and> startswith reason ''BITGET_''
                then log_job_event en rid jid ''bitget_order_requested''
                       [(''mode'', PStr ''demo''), (''paptrading'', PStr ''1''), (''reason_code'', PStr reason)]
                else sreturn ()) (\<lambda>_.
         sbind (set_job_status en jid Job_FAILED (Some (action_response_dump a)) (Some reason) (Some reason)) (\<lambda>_.
           note ''job_failed'')))))"

text \<open>\<open>except Exception\<close>: the job fails with the name of the exception.\<close>

definition failing_job ::
  "'e service_env_scheme \<Rightarrow> string \<Rightarrow> string \<Rightarrow> ('b service_scheme, unit) act \<Rightarrow> ('b service_scheme, unit) act" where
  "failing_job en rid jid m s =
     (case m s of
        (Inr _, s') \<Rightarrow> (Inr (), s')
      | (Inl e, s') \<Rightarrow>
          sbind (set_job_status en jid Job_FAILED None (Some (exn_name e)) (Some (exn_name e))) (\<lambda>_.
            log_job_event en rid jid ''job_failed'' [(''reason_code'', PStr (exn_name e))]) s')"

definition read_release :: "string \<Rightarrow> ('b service_scheme, release option) act" where
  "read_release rid s = (Inr (get_release_candidate (ss_store s) rid), s)"

text \<open>A replayed answer is validated into a response again.\<close>

definition showcase_response ::
  "demo_env \<Rightarrow> principal \<Rightarrow> string \<Rightarrow> execution_request \<Rightarrow> string \<Rightarrow> (demo_service, action_response) act" where
  "showcase_response en who rid ex key =
     sbind (create_release_demo_showcase_order_endpoint en (Some who) rid ex (Some key)) (\<lambda>answer.
       case answer of Answered a \<Rightarrow> sreturn a | Replayed d \<Rightarrow> slift (action_response_of d))"

definition run_showcase_order_job ::
  "demo_env \<Rightarrow> string \<Rightarrow> string \<Rightarrow> principal \<Rightarrow> execution_request \<Rightarrow> bool \<Rightarrow> (demo_service, unit) act" where
  "run_showcase_order_job en jid rid who ex claimed =
     failing_job en rid jid
       (sbind (start_job en rid jid Job_SHOWCASE_ORDER claimed) (\<lambda>cancelled.
          if cancelled then sreturn ()
          else
            sbind (read_release rid) (\<lambda>r.
            sbind (log_release_checks en rid jid r) (\<lambda>_.
            sbind (log_job_event en rid jid ''canonical_evidence_checked''
                     [(''execution_run_id'', of_release rl_execution_run_id r)]) (\<lambda>_.
            sbind (showcase_response en who rid ex (''release-job:'' @ jid)) (\<lambda>a.
              if ar_ok a
              then job_succeeded en rid jid [''bitget_order_id'', ''client_oid'', ''attempt_id'']
                     [''attempt_id'', ''evidence_hash'', ''response_hash''] a
              else job_refused en rid jid True a))))))"

definition run_canonical_execute_demo_job ::
  "demo_env \<Rightarrow> string \<Rightarrow> string \<Rightarrow> principal \<Rightarrow> execution_request \<Rightarrow> bool \<Rightarrow> (demo_service, unit) act" where
  "run_canonical_execute_demo_job en jid rid who ex claimed =
     failing_job en rid jid
       (sbind (start_job en rid jid Job_CANONICAL_EXECUTE_DEMO claimed) (\<lambda>cancelled.
          if cancelled then sreturn ()
          else
            sbind (read_release rid) (\<lambda>r.
            sbind (log_release_checks en rid jid r) (\<lambda>_.
            sbind (execute_release_demo_endpoint en (Some who) rid ex) (\<lambda>a.
              if ar_ok a
              then job_succeeded en rid jid [''bitget_order_id'', ''client_oid''] [''run_id'', ''response_hash''] a
              else job_refused en rid jid False a)))))"

section \<open>The worker\<close>

definition principal_for_release_job :: "job_work_item \<Rightarrow> principal" where
  "principal_for_release_job w =
     \<lparr> pr_principal_id = wi_requested_by w, pr_role = ''release_manager'',
       pr_scopes = unique_sorted [READ_ONLY, RELEASE_WRITE, EXECUTE_DEMO], pr_token_label = ''release-job'',
       pr_auth_method = ''service_token'', pr_subject = Some (wi_requested_by w),
       pr_display_name = Some (wi_requested_by w), pr_email = None \<rparr>"

definition claim_release_job :: "'e service_env_scheme \<Rightarrow> ('b service_scheme, job_work_item option) act" where
  "claim_release_job en =
     sbind (utc_now en) (\<lambda>now s.
       case claim_next_release_job (ss_store s) now of (w, st) \<Rightarrow> (Inr w, s\<lparr> ss_store := st \<rparr>))"

text \<open>The body of the loop for a claimed job. The request is validated outside of the job's \<open>try\<close>.\<close>

definition work_on_job :: "demo_env \<Rightarrow> job_work_item \<Rightarrow> (demo_service, unit) act" where
  "work_on_job en w =
     (let jid = wi_job_id w; rid = wi_release_id w; who = principal_for_release_job w
      in if wi_job_type w = Job_SHOWCASE_ORDER
         then sbind (slift (execution_request_of (wi_request w))) (\<lambda>ex. run_showcase_order_job en jid rid who ex True)
         else if wi_job_type w = Job_CANONICAL_EXECUTE_DEMO
         then sbind (slift (execution_request_of (wi_request w))) (\<lambda>ex. run_canonical_execute_demo_job en jid rid who ex True)
         else
           sbind (set_job_status en jid Job_FAILED None (Some ''JOB_TYPE_UNSUPPORTED'')
                    (Some (job_type_value (wi_job_type w)))) (\<lambda>_.
             log_job_event en rid jid ''job_failed'' [(''reason_code'', PStr ''JOB_TYPE_UNSUPPORTED'')]))"

text \<open>The loop, with fuel: \<open>None\<close> when it runs out. \<open>closing\<close> is \<open>service.closing\<close> at a time.\<close>

fun drain_release_jobs ::
  "nat \<Rightarrow> demo_env \<Rightarrow> (nat \<Rightarrow> bool) \<Rightarrow> demo_service \<Rightarrow> ((exn + unit) \<times> demo_service) option" where
  "drain_release_jobs 0 en closing s = None"
| "drain_release_jobs (Suc n) en closing s =
     (if closing (ss_tick s) then Some (Inr (), s)
      else case claim_release_job en s of
             (Inl e, s1) \<Rightarrow> Some (Inl e, s1)
           | (Inr None, s1) \<Rightarrow> Some (Inr (), s1)
           | (Inr (Some w), s1) \<Rightarrow>
               (case work_on_job en w s1 of
                  (Inl e, s2) \<Rightarrow> Some (Inl e, s2)
                | (Inr _, s2) \<Rightarrow> drain_release_jobs n en closing s2))"

section \<open>The endpoints\<close>

text \<open>\<open>model_dump(mode="json")\<close> of a job.\<close>

definition job_dump :: "release_job \<Rightarrow> dict" where
  "job_dump j =
     [(''job_id'', PStr (jb_job_id j)), (''release_id'', PStr (jb_release_id j)),
      (''job_type'', PStr (job_type_value (jb_job_type j))), (''status'', PStr (job_status_value (jb_status j))),
      (''requested_by'', PStr (jb_requested_by j)), (''request_hash'', PStr (jb_request_hash j)),
      (''idempotency_key'', opt_str (jb_idempotency_key j)),
      (''events_url'', PStr (''/v1/release-candidates/'' @ jb_release_id j @ ''/jobs/'' @ jb_job_id j @ ''/events'')),
      (''result'', opt_dict (jb_result j)), (''error_code'', opt_str (jb_error_code j)),
      (''error_message'', opt_str (jb_error_message j)), (''created_at'', PStr (jb_created_at j)),
      (''started_at'', opt_str (jb_started_at j)), (''finished_at'', opt_str (jb_finished_at j))]"

definition job_scope :: "string \<Rightarrow> string \<Rightarrow> string" where
  "job_scope rid name = ''release-candidates:'' @ rid @ '':jobs:'' @ name @ '':create''"

definition store_job ::
  "'e service_env_scheme \<Rightarrow> string \<Rightarrow> string \<Rightarrow> job_type \<Rightarrow> string \<Rightarrow> dict \<Rightarrow> string option \<Rightarrow> string \<Rightarrow>
   ('b service_scheme, release_job) act" where
  "store_job en jid rid jt request_hash payload key requested_by =
     sbind (utc_now en) (\<lambda>now s.
       case create_release_job (ss_store s) jid rid jt request_hash payload key requested_by now of
         Inl e \<Rightarrow> (Inl e, s) | Inr (j, st) \<Rightarrow> (Inr j, s\<lparr> ss_store := st \<rparr>))"

text \<open>Both endpoints queue a job; they differ in the first event and in the status code they record.\<close>

definition queue_job ::
  "'e service_env_scheme \<Rightarrow> principal option \<Rightarrow> string \<Rightarrow> execution_request \<Rightarrow> string option \<Rightarrow> string \<Rightarrow> job_type \<Rightarrow>
   (principal \<Rightarrow> dict) \<Rightarrow> int \<Rightarrow> ('b service_scheme, release_job replayable) act" where
  "queue_job en request rid ex key name jt queued_payload code =
     sbind (get_release_or_404 rid) (\<lambda>_.
     sbind (idempotency_replay en (job_scope rid name) key (execution_request_value ex)) (\<lambda>replayed.
       case replayed of
         Some d \<Rightarrow>
           sbind (\<lambda>s. (Inr (get_release_job (ss_store s) rid
                              (case as_text (get d ''job_id'') of None \<Rightarrow> [] | Some jid \<Rightarrow> jid)), s)) (\<lambda>current.
             sreturn (case current of None \<Rightarrow> Replayed d | Some j \<Rightarrow> Answered j))
       | None \<Rightarrow>
           sbind (slift (current_principal request)) (\<lambda>principal.
           sbind (slift (hash_obj (sn_hash en) True (execution_request_value ex))) (\<lambda>request_hash.
           sbind (fresh_id en ''job_'' [(''payload'', PDict [(''release_id'', PStr rid), (''job_type'', PStr (job_type_value jt)),
                                                          (''request_hash'', PStr request_hash)])]) (\<lambda>jid.
           sbind (store_job en jid rid jt request_hash (the (as_dict (execution_request_value ex))) key
                    (pr_principal_id principal)) (\<lambda>job.
           sbind (log_job_event en rid jid ''job_queued'' (queued_payload principal)) (\<lambda>_.
           sbind (idempotency_store en (job_scope rid name) key (execution_request_value ex) (job_dump job) code) (\<lambda>_.
             sreturn (Answered job)))))))))"

definition create_release_showcase_order_job_endpoint ::
  "'e service_env_scheme \<Rightarrow> principal option \<Rightarrow> string \<Rightarrow> execution_request \<Rightarrow> string option \<Rightarrow>
   ('b service_scheme, release_job replayable) act" where
  "create_release_showcase_order_job_endpoint en request rid ex key =
     queue_job en request rid ex key ''showcase-order'' Job_SHOWCASE_ORDER
       (\<lambda>_. [(''job_type'', PStr (job_type_value Job_SHOWCASE_ORDER))]) 202"

definition create_release_execute_demo_job_endpoint ::
  "'e service_env_scheme \<Rightarrow> principal option \<Rightarrow> string \<Rightarrow> execution_request \<Rightarrow> string option \<Rightarrow>
   ('b service_scheme, release_job replayable) act" where
  "create_release_execute_demo_job_endpoint en request rid ex key =
     queue_job en request rid ex key ''execute-demo'' Job_CANONICAL_EXECUTE_DEMO
       (\<lambda>p. [(''requested_by'', PStr (pr_principal_id p)), (''job_type'', PStr (job_type_value Job_CANONICAL_EXECUTE_DEMO))]) 200"

definition cancel_queued :: "'e service_env_scheme \<Rightarrow> string \<Rightarrow> string \<Rightarrow> ('b service_scheme, release_job option) act" where
  "cancel_queued en rid jid =
     sbind (utc_now en) (\<lambda>now s.
       case cancel_release_job (ss_store s) rid jid now of (j, st) \<Rightarrow> (Inr j, s\<lparr> ss_store := st \<rparr>))"

definition get_job_or_404 :: "string \<Rightarrow> string \<Rightarrow> ('b service_scheme, release_job) act" where
  "get_job_or_404 rid jid s =
     (case get_release_job (ss_store s) rid jid of None \<Rightarrow> (Inl (HTTPException 404), s) | Some j \<Rightarrow> (Inr j, s))"

definition cancel_release_job_endpoint ::
  "'e service_env_scheme \<Rightarrow> principal option \<Rightarrow> string \<Rightarrow> string \<Rightarrow> ('b service_scheme, release_job) act" where
  "cancel_release_job_endpoint en request rid jid =
     sbind (get_release_or_404 rid) (\<lambda>_.
     sbind (slift (current_principal request)) (\<lambda>principal.
     sbind (get_job_or_404 rid jid) (\<lambda>job.
       if jb_status job = Job_QUEUED
       then
         sbind (cancel_queued en rid jid) (\<lambda>cancelled.
           case cancelled of
             None \<Rightarrow> slift (Inl (HTTPException 404))
           | Some j \<Rightarrow>
               sbind (log_job_event en rid jid ''job_cancelled''
                        [(''actor'', PStr (pr_principal_id principal)), (''stage'', PStr ''queued'')]) (\<lambda>_. sreturn j))
       else if jb_status job = Job_RUNNING
       then
         sbind (log_job_event en rid jid ''job_cancel_requested''
                  [(''actor'', PStr (pr_principal_id principal)),
                   (''detail'', PStr ''Bitget request may already be in flight'')]) (\<lambda>_ s.
           (Inr (case get_release_job (ss_store s) rid jid of None \<Rightarrow> job | Some j \<Rightarrow> j), s))
       else sreturn job)))"

definition get_release_job_endpoint :: "string \<Rightarrow> string \<Rightarrow> ('b service_scheme, release_job) act" where
  "get_release_job_endpoint rid jid = sbind (get_release_or_404 rid) (\<lambda>_. get_job_or_404 rid jid)"

definition list_release_jobs_endpoint :: "string \<Rightarrow> ('b service_scheme, release_job list) act" where
  "list_release_jobs_endpoint rid =
     sbind (get_release_or_404 rid) (\<lambda>_ s. (Inr (list_release_jobs (ss_store s) rid 50), s))"

definition list_release_job_events_endpoint ::
  "'e service_env_scheme \<Rightarrow> string \<Rightarrow> string \<Rightarrow> ('b service_scheme, job_event list) act" where
  "list_release_job_events_endpoint en rid jid =
     sbind (get_release_job_endpoint rid jid) (\<lambda>_ s. (list_release_job_events (sn_hash en) (ss_store s) rid jid, s))"

end
