(* ===== verification/Service_Facts.thy ===== *)
theory Service_Facts
  imports Job_Worker
begin

text \<open>
  What any sequence of requests to the handlers of \<open>Release_Service\<close>, \<open>Demo_Order\<close> and \<open>Job_Worker\<close> does to the release
  candidates. \<open>machine_step\<close> is the specification: a candidate is created as a draft, keeps its identity
  and its creator, moves along the transition table and has, in every state, the evidence that the
  state asks for. The handlers refine it: each request is a sequence of its steps for every release.
\<close>

section \<open>The specification\<close>

definition evidence_ok :: "release \<Rightarrow> bool" where
  "evidence_ok r = (missing_evidence_for_target r (rl_state r) = [])"

definition same_identity :: "release \<Rightarrow> release \<Rightarrow> bool" where
  "same_identity r r' =
     (rl_release_id r' = rl_release_id r \<and> rl_strategy_id r' = rl_strategy_id r \<and>
      rl_version_id r' = rl_version_id r \<and> rl_created_by r' = rl_created_by r)"

inductive machine_step :: "release option \<Rightarrow> release option \<Rightarrow> bool" where
  created: "rl_state r = Rel_DRAFT \<Longrightarrow> machine_step None (Some r)"
| moved: "same_identity r r' \<Longrightarrow>
    rl_state r' = rl_state r \<or> rl_state r' \<in> set (ALLOWED_RELEASE_TRANSITIONS (rl_state r)) \<Longrightarrow>
    evidence_ok r' \<Longrightarrow> machine_step (Some r) (Some r')"

inductive_simps machine_from_some: "machine_step (Some r) x"
inductive_simps machine_from_none: "machine_step None x"

definition release_rows :: "'b service_scheme \<Rightarrow> release_row list" where
  "release_rows s = st_releases (ss_store s)"

definition view :: "release_row list \<Rightarrow> string \<Rightarrow> release option" where
  "view rows rid = map_option rr_release (first_row (\<lambda>row. row_id row = rid) rows)"

lemma get_release_view: "get_release_candidate (ss_store s) rid = view (release_rows s) rid"
  by (simp add: get_release_eq_row view_def release_rows_def)

lemma view_id: "view rows rid = Some r \<Longrightarrow> rl_release_id r = rid"
  using first_row_Some [of "\<lambda>row. row_id row = rid" rows] by (auto simp: view_def row_id_def)

text \<open>The abstraction: the releases of a store, and that they are all in order.\<close>

definition advances :: "release_row list \<Rightarrow> release_row list \<Rightarrow> bool" where
  "advances rows rows' = (\<forall>rid. machine_step\<^sup>*\<^sup>* (view rows rid) (view rows' rid))"

definition rows_ok :: "release_row list \<Rightarrow> bool" where
  "rows_ok rows = (distinct (map row_id rows) \<and> (\<forall>rid r. view rows rid = Some r \<longrightarrow> evidence_ok r))"

lemma advances_refl [simp]: "advances rows rows"
  by (simp add: advances_def)

lemma advances_trans: "advances a b \<Longrightarrow> advances b c \<Longrightarrow> advances a c"
  unfolding advances_def by (metis rtranclp_trans)

section \<open>Reasoning about handlers\<close>

named_theorems keeps_rules \<open>actions that leave every release candidate as it is\<close>
named_theorems moves_rules \<open>the structure of actions that move release candidates\<close>

definition keeps :: "('b service_scheme, 'a) act \<Rightarrow> bool" where
  "keeps m = (\<forall>s. release_rows (snd (m s)) = release_rows s)"

definition moves :: "'b service_scheme \<Rightarrow> ('b service_scheme, 'a) act \<Rightarrow> bool" where
  "moves s m =
     (rows_ok (release_rows s) \<longrightarrow>
        rows_ok (release_rows (snd (m s))) \<and> advances (release_rows s) (release_rows (snd (m s))))"

lemma keepsI: "(\<And>s. release_rows (snd (m s)) = release_rows s) \<Longrightarrow> keeps m"
  by (simp add: keeps_def)

lemma keeps_bind [keeps_rules]: "keeps m \<Longrightarrow> (\<And>x. keeps (f x)) \<Longrightarrow> keeps (sbind m f)"
  by (rule keepsI, simp add: sbind_def split: prod.split sum.split) (metis keeps_def snd_conv)

lemma keeps_basic [keeps_rules]:
  "keeps (sreturn x)" "keeps (slift r)" "keeps (ticking f)" "keeps (utc_now en)"
  "keeps (\<lambda>s. (g s, s))"
  by (simp_all add: keeps_def sreturn_def slift_def ticking_def utc_now_def release_rows_def)

lemma moves_keeps: "keeps m \<Longrightarrow> moves s m"
  by (simp add: keeps_def moves_def)

lemma moves_bind:
  assumes "moves s m" "\<And>x s1. m s = (Inr x, s1) \<Longrightarrow> moves s1 (f x)"
  shows "moves s (sbind m f)"
proof (cases "m s")
  case (Pair r s1)
  then show ?thesis
  proof (cases r)
    case (Inr x)
    with Pair assms(2) have "moves s1 (f x)" by blast
    with assms(1) Pair Inr show ?thesis
      unfolding moves_def sbind_def by (auto intro: advances_trans)
  qed (use assms(1) in \<open>simp add: moves_def sbind_def\<close>)
qed

lemma moves_bind_keeps:
  assumes "keeps m" "\<And>x s1. m s = (Inr x, s1) \<Longrightarrow> release_rows s1 = release_rows s \<Longrightarrow> moves s1 (f x)"
  shows "moves s (sbind m f)"
proof (rule moves_bind [OF moves_keeps [OF assms(1)]])
  fix x s1
  assume "m s = (Inr x, s1)"
  moreover from this assms(1) have "release_rows s1 = release_rows s" by (metis keeps_def snd_conv)
  ultimately show "moves s1 (f x)" by (rule assms(2))
qed

lemma moves_if [moves_rules]: "(b \<Longrightarrow> moves s x) \<Longrightarrow> (\<not> b \<Longrightarrow> moves s y) \<Longrightarrow> moves s (if b then x else y)"
  by simp

lemma moves_option [moves_rules]:
  "(v = None \<Longrightarrow> moves s x) \<Longrightarrow> (\<And>y. v = Some y \<Longrightarrow> moves s (f y)) \<Longrightarrow>
   moves s (case v of None \<Rightarrow> x | Some y \<Rightarrow> f y)"
  by (cases v) simp_all

lemma moves_let [moves_rules]: "moves s (f x) \<Longrightarrow> moves s (let y = x in f y)"
  by simp

lemma moves_bind_slift [moves_rules]: "(\<And>x. v = Inr x \<Longrightarrow> moves s (f x)) \<Longrightarrow> moves s (sbind (slift v) f)"
  by (cases v) (simp_all add: moves_def sbind_def slift_def)

lemma moves_sreturn [simp, moves_rules]: "moves s (sreturn x)"
  by (rule moves_keeps) (rule keeps_rules)

lemma moves_get_release [moves_rules]:
  assumes "\<And>r. view (release_rows s) rid = Some r \<Longrightarrow> rl_release_id r = rid \<Longrightarrow> moves s (f r)"
  shows "moves s (sbind (get_release_or_404 rid) f)"
  using assms view_id
  by (auto simp: moves_def sbind_def get_release_or_404_def get_release_view split: option.split)

section \<open>Actions that keep the releases\<close>

lemma keeps_get [keeps_rules]:
  "keeps (get_release_or_404 rid)" "keeps (get_strategy_version_for_release_or_404 r)" "keeps (get_run_or_404 rid)"
  by (simp_all add: keeps_def get_release_or_404_def get_strategy_version_for_release_or_404_def get_run_or_404_def
      split: option.split)

lemma keeps_write_json [keeps_rules]: "keeps (write_release_json rid name payload)"
  by (simp add: keeps_def write_release_json_def release_rows_def split: sum.split)

lemma audit_entry_releases: "append_release_audit_entry st rid e = Inr st' \<Longrightarrow> st_releases st' = st_releases st"
  by (auto simp: append_release_audit_entry_def split: option.splits pyval.splits if_splits)

lemma keeps_audit [keeps_rules]: "keeps (append_release_audit_event en rid et actor payload)"
  unfolding append_release_audit_event_def
  by (rule keeps_bind, rule keeps_rules, rule keepsI)
     (auto simp: release_rows_def Let_def dest: audit_entry_releases split: sum.split prod.split)

lemma keeps_replay [keeps_rules]: "keeps (idempotency_replay en scope key payload)"
  by (simp add: keeps_def idempotency_replay_def split: option.split sum.split)

lemma put_record_releases [simp]: "st_releases (put_idempotency_record st a b c d e f) = st_releases st"
  by (simp add: put_idempotency_record_def split: option.split)

lemma keeps_idempotency_store [keeps_rules]: "keeps (idempotency_store en scope key payload response code)"
proof (cases "nonempty key")
  case True
  show ?thesis
    unfolding idempotency_store_def
    by (simp only: True not_True_eq_False if_False, (rule keeps_bind, rule keeps_basic)+, rule keepsI)
       (simp add: release_rows_def)
next
  case False
  then show ?thesis by (simp only: idempotency_store_def not_False_eq_True if_True keeps_rules)
qed

lemma keeps_fresh_id [keeps_rules]: "keeps (fresh_id en pre body)"
  by (auto simp: fresh_id_def intro!: keeps_rules)


section \<open>Saving a release\<close>

lemma missing_only_state_and_evidence:
  "missing_evidence_for_target (r\<lparr> rl_updated_at := t \<rparr>) to = missing_evidence_for_target r to"
  by (cases "as_dict (get (rl_metadata r) ''live_gate'')")
     (simp_all add: missing_evidence_for_target_def missing_live_gate_controls_def requires_def policy_of_def)

lemma missing_tier:
  "to \<noteq> Rel_RELEASED_LIVE_GATED \<Longrightarrow>
   missing_evidence_for_target (r\<lparr> rl_release_tier := t \<rparr>) to = missing_evidence_for_target r to"
  by (simp add: missing_evidence_for_target_def requires_def policy_of_def)

lemma machine_step_updated:
  "machine_step (Some r) (Some r') \<Longrightarrow> machine_step (Some r) (Some (r'\<lparr> rl_updated_at := t \<rparr>))"
  by (simp add: machine_from_some same_identity_def evidence_ok_def missing_only_state_and_evidence)

lemma moves_save:
  assumes "view (release_rows s) (rl_release_id r') = Some r" "machine_step (Some r) (Some r')"
  shows "moves s (save_release en r')"
proof -
  have "moves s2 (\<lambda>s. case update_release_candidate (ss_store s) r' now of
      Inl e \<Rightarrow> (Inl e, s) | Inr (saved, st) \<Rightarrow> (Inr saved, s\<lparr> ss_store := st \<rparr>))"
    if s2: "release_rows s2 = release_rows s" for now and s2 :: "'a service_scheme"
  proof (cases "update_release_candidate (ss_store s2) r' now")
    case (Inr x)
    obtain saved st where x: "x = (saved, st)" by (cases x)
    let ?s3 = "s2\<lparr> ss_store := st \<rparr>"
    note u = update_release_Inr [OF Inr [unfolded x]]
    have saved: "machine_step (Some r) (Some saved)" unfolding u(1) by (rule machine_step_updated [OF assms(2)])
    have v: "view (release_rows ?s3) (rl_release_id r') = Some saved"
      "rid \<noteq> rl_release_id r' \<Longrightarrow> view (release_rows ?s3) rid = view (release_rows s2) rid" for rid
      using u(2) u(3) get_release_view [of ?s3] get_release_view [of s2] by simp_all
    have ids: "map row_id (release_rows ?s3) = map row_id (release_rows s2)"
      unfolding release_rows_def u(5) using update_release_row_ids [of "r'\<lparr> rl_updated_at := now \<rparr>"] by simp
    have "evidence_ok saved" using saved by (auto simp: machine_from_some)
    then have "rows_ok (release_rows s2) \<Longrightarrow> rows_ok (release_rows ?s3)"
      unfolding rows_ok_def ids using v by (metis option.inject)
    moreover have "advances (release_rows s2) (release_rows ?s3)"
      unfolding advances_def using v saved assms(1) s2 by (metis r_into_rtranclp rtranclp.rtrancl_refl)
    ultimately show ?thesis by (simp add: moves_def Inr x)
  qed (simp add: moves_def)
  then show ?thesis
    unfolding save_release_def by (intro moves_bind_keeps) (simp_all add: keeps_rules)
qed

section \<open>Transitions\<close>

text \<open>The updates of the handlers leave identity and state alone.\<close>

definition benign :: "(release \<Rightarrow> release) \<Rightarrow> bool" where
  "benign u = (\<forall>r. same_identity r (u r) \<and> rl_state (u r) = rl_state r)"

lemma blocked_allowed:
  assumes "rl_state r = to \<or> to \<in> set (ALLOWED_RELEASE_TRANSITIONS (rl_state r))"
    and "to \<notin> {Rel_RELEASE_READY, Rel_RELEASED_DEMO, Rel_RELEASED_LIVE_GATED} \<or> to = Rel_RELEASE_READY \<and> rl_state r = Rel_APPROVED"
    and "missing_evidence_for_target x to \<noteq> []"
  shows "Rel_BLOCKED_MISSING_EVIDENCE \<in> set (ALLOWED_RELEASE_TRANSITIONS (rl_state r))"
proof -
  have "to \<in> {Rel_REVIEW_REQUIRED, Rel_APPROVED, Rel_RELEASE_READY, Rel_RELEASED_DEMO, Rel_RELEASED_LIVE_GATED}"
    using assms(3) by (simp add: missing_evidence_for_target_def split: if_splits)
  with assms(1,2) show ?thesis by (cases "rl_state r") auto
qed

lemma transition_409_step:
  assumes t: "transition_release_or_409 r to u = Inr r'" and u: "benign u"
    and to: "to \<notin> {Rel_RELEASE_READY, Rel_RELEASED_DEMO, Rel_RELEASED_LIVE_GATED} \<or> to = Rel_RELEASE_READY \<and> rl_state r = Rel_APPROVED"
  shows "rl_release_id r' = rl_release_id r \<and> machine_step (Some r) (Some r')"
proof (cases "transition_release r to u")
  case (Inr x)
  then have x: "r' = x\<lparr> rl_release_tier := compute_release_tier x \<rparr>"
    using t by (simp add: transition_release_or_409_def with_computed_release_tier_def)
  from Inr have m: "missing_evidence_for_target x to = []" "x = u (r\<lparr> rl_state := to \<rparr>)"
    "rl_state r = to \<or> to \<in> set (ALLOWED_RELEASE_TRANSITIONS (rl_state r))" by (auto simp: transition_Inr)
  have i: "same_identity r x" "rl_state x = to"
    using u m(2) by (simp_all add: benign_def same_identity_def)
  have "to \<noteq> Rel_RELEASED_LIVE_GATED" using to by blast
  with m i show ?thesis
    by (auto simp: x machine_from_some same_identity_def evidence_ok_def missing_tier)
next
  case (Inl e)
  then obtain s0 t0 missing where e: "e = ReleaseTransitionMissingEvidenceError s0 t0 missing"
    using t by (cases e) (simp_all add: transition_release_or_409_def)
  with Inl have a: "rl_state r = to \<or> to \<in> set (ALLOWED_RELEASE_TRANSITIONS (rl_state r))"
    "missing_evidence_for_target (u (r\<lparr> rl_state := to \<rparr>)) to \<noteq> []" by (auto simp: transition_missing)
  have "Rel_BLOCKED_MISSING_EVIDENCE \<in> set (ALLOWED_RELEASE_TRANSITIONS (rl_state r))"
    by (rule blocked_allowed [OF a(1) to a(2)])
  moreover have "same_identity r (u r)" using u by (simp add: benign_def)
  moreover have "rl_state r' = Rel_BLOCKED_MISSING_EVIDENCE" "same_identity (u r) r'"
    using t Inl e by (auto simp: transition_release_or_409_def with_computed_release_tier_def same_identity_def)
  ultimately show ?thesis
    by (auto simp: machine_from_some same_identity_def evidence_ok_def missing_evidence_for_target_def)
qed

lemma moves_transition:
  assumes "transition_release_or_409 r to u = Inr r'" "view (release_rows s) rid = Some r" "benign u"
    and "to \<notin> {Rel_RELEASE_READY, Rel_RELEASED_DEMO, Rel_RELEASED_LIVE_GATED} \<or> to = Rel_RELEASE_READY \<and> rl_state r = Rel_APPROVED"
  shows "moves s (save_release en r')"
proof -
  from transition_409_step [OF assms(1,3,4)]
  have "rl_release_id r' = rl_release_id r" "machine_step (Some r) (Some r')" by blast+
  with view_id [OF assms(2)] assms(2) show ?thesis by (intro moves_save) simp_all
qed

lemma benign_updates:
  "benign id" "benign (bind_run_updates run)"
  "benign (\<lambda>x. drop_approval (x\<lparr> rl_simulation_evidence := a, rl_simulation_evidence_hash := b \<rparr>))"
  "benign (\<lambda>x. drop_approval (x\<lparr> rl_risk_policy := c, rl_risk_policy_hash := d \<rparr>))"
  "benign (\<lambda>x. x\<lparr> rl_approval := e \<rparr>)" "benign (\<lambda>x. x\<lparr> rl_approval := e, rl_reject_reason := f \<rparr>)"
  "benign (\<lambda>x. x\<lparr> rl_killed_at := g \<rparr>)"
  "benign (\<lambda>x. x\<lparr> rl_execution_run_id := h, rl_execution_evidence := i, rl_evidence_manifest := j,
                   rl_evidence_manifest_hash := k \<rparr>)"
  by (simp_all add: benign_def same_identity_def bind_run_updates_def drop_approval_def)

section \<open>The handlers of the release\<close>

lemma bound_state_targets:
  "state_for_bound_run run \<notin> {Rel_RELEASE_READY, Rel_RELEASED_DEMO, Rel_RELEASED_LIVE_GATED}"
  by (simp add: state_for_bound_run_def)

lemma kill_moves: "moves s (kill_release_endpoint en request rid)"
  unfolding kill_release_endpoint_def
  by (rule moves_get_release, rule moves_bind_keeps, rule keeps_rules, rule moves_bind_slift, rule moves_bind,
      rule moves_transition)
     (auto intro: benign_updates keeps_rules moves_keeps)


lemma draft_evidence: "rl_state r = Rel_DRAFT \<Longrightarrow> evidence_ok r"
  by (simp add: evidence_ok_def missing_evidence_for_target_def)

text \<open>A new row: a draft under an unused id.\<close>

lemma create_row:
  assumes "create_release_candidate st r now = Inr (created, st')"
  shows "st_releases st' = st_releases st \<or>
    (view (st_releases st) (rl_release_id r) = None \<and>
     (\<exists>x. rl_release_id x = rl_release_id r \<and> rl_state x = rl_state r \<and> st_releases st' = st_releases st @ [release_row_of x]))"
proof (cases "get_release_candidate st (rl_release_id r)")
  case None
  then have "view (st_releases st) (rl_release_id r) = None" by (simp add: get_release_eq_row view_def)
  moreover let ?x = "r\<lparr> rl_created_at := or_now (rl_created_at r) now, rl_updated_at := or_now (rl_updated_at r) now \<rparr>"
  have "st_releases st' = st_releases st @ [release_row_of ?x]"
    using assms None by (auto simp: create_release_candidate_def Let_def split: option.splits)
  moreover have "rl_release_id ?x = rl_release_id r" "rl_state ?x = rl_state r" by simp_all
  ultimately show ?thesis by blast
qed (use assms in \<open>simp add: create_release_candidate_def split: if_splits\<close>)

lemma view_append:
  "view (rows @ [release_row_of x]) rid =
     (case view rows rid of Some r \<Rightarrow> Some r | None \<Rightarrow> if rl_release_id x = rid then Some x else None)"
  by (simp add: view_def release_row_of_def row_id_def split: option.split)

lemma view_None: "view rows rid = None \<longleftrightarrow> rid \<notin> set (map row_id rows)"
  by (auto simp: view_def first_row_None)

lemma moves_append:
  assumes "rows_ok rows" "view rows (rl_release_id x) = None" "rl_state x = Rel_DRAFT"
  shows "rows_ok (rows @ [release_row_of x]) \<and> advances rows (rows @ [release_row_of x])"
proof
  have "distinct (map row_id (rows @ [release_row_of x]))"
    using assms(1,2) by (simp add: rows_ok_def view_None)
  moreover have "evidence_ok r" if "view (rows @ [release_row_of x]) rid = Some r" for rid r
    using that assms(1) draft_evidence [OF assms(3)]
    by (auto simp: view_append rows_ok_def split: option.splits if_splits)
  ultimately show "rows_ok (rows @ [release_row_of x])" by (simp add: rows_ok_def)
  have "machine_step None (Some x)" by (rule created) (rule assms(3))
  then show "advances rows (rows @ [release_row_of x])"
    using assms(2) by (auto simp: advances_def view_append split: option.split)
qed

lemma moves_create: "rl_state r = Rel_DRAFT \<Longrightarrow> moves s (store_new_release en r)"
  unfolding store_new_release_def
proof (rule moves_bind_keeps, rule keeps_rules)
  fix now and s1 :: "'a service_scheme"
  assume d: "rl_state r = Rel_DRAFT"
  show "moves s1 (\<lambda>s. case create_release_candidate (ss_store s) r now of
      Inl e \<Rightarrow> (Inl (if is_value_error e then HTTPException 409 else e), s)
    | Inr (created, st) \<Rightarrow> (Inr created, s\<lparr> ss_store := st \<rparr>))"
  proof (cases "create_release_candidate (ss_store s1) r now")
    case (Inr x)
    obtain saved st where x: "x = (saved, st)" by (cases x)
    from create_row [OF Inr [unfolded x]] d moves_append [of "release_rows s1"]
    show ?thesis by (auto simp: moves_def Inr x release_rows_def)
  qed (simp add: moves_def)
qed

lemma keeps_audit_creation [keeps_rules]: "keeps (audit_creation en who v r)"
  by (simp add: audit_creation_def keeps_rules)

lemma keeps_given_id [keeps_rules]: "keeps (given_release_id en p)"
  by (simp add: given_release_id_def keeps_rules)

lemma create_moves: "moves s (create_release_candidate_endpoint en request p key)"
  unfolding create_release_candidate_endpoint_def
  by (rule moves_rules | rule moves_create | (rule moves_bind_keeps, (rule keeps_rules)+) | rule moves_bind
      | (rule moves_keeps, (rule keeps_rules)+) | simp add: new_release_def)+


lemma keeps_if [keeps_rules]: "keeps x \<Longrightarrow> keeps y \<Longrightarrow> keeps (if b then x else y)"
  by simp

lemma keeps_option [keeps_rules]: "keeps x \<Longrightarrow> (\<And>y. keeps (f y)) \<Longrightarrow> keeps (case v of None \<Rightarrow> x | Some y \<Rightarrow> f y)"
  by (cases v) simp_all

lemma bind_run_moves: "moves s (bind_redline_run_endpoint en request rid run_id)"
  unfolding bind_redline_run_endpoint_def
  by (rule moves_rules | (rule moves_bind_keeps, (rule keeps_rules)+) | rule moves_bind
      | (rule moves_keeps, (rule keeps_rules)+)
      | (rule moves_transition, assumption, simp, rule benign_updates, use bound_state_targets in blast))+

lemma import_evidence_moves:
  assumes "view (release_rows s) rid = Some r"
  shows "moves s (import_evidence en request rid r evidence0 et payload)"
  unfolding import_evidence_def using assms
  by - (rule moves_rules | (rule moves_bind_keeps, (rule keeps_rules)+) | rule moves_bind
      | (rule moves_keeps, (rule keeps_rules)+)
      | (rule moves_transition, assumption, simp, rule benign_updates, simp))+

lemma import_moves: "moves s (import_simulation_evidence_endpoint en request rid p)"
  unfolding import_simulation_evidence_endpoint_def
  by (rule moves_rules | (rule moves_bind_keeps, (rule keeps_rules)+) | (rule import_evidence_moves, simp))+

lemma bind_policy_moves: "moves s (bind_risk_policy_endpoint en request rid p)"
  unfolding bind_risk_policy_endpoint_def
  by (rule moves_rules | (rule moves_bind_keeps, (rule keeps_rules)+) | rule moves_bind
      | (rule moves_keeps, (rule keeps_rules)+)
      | (rule moves_transition, assumption, simp, rule benign_updates, simp))+

lemma reject_moves: "moves s (reject_release_endpoint en request rid q)"
  unfolding reject_release_endpoint_def
  by (rule moves_rules | (rule moves_bind_keeps, (rule keeps_rules)+) | rule moves_bind
      | (rule moves_keeps, (rule keeps_rules)+)
      | (rule moves_transition, assumption, simp, rule benign_updates, simp))+


section \<open>Approvals\<close>

lemma moves_ok: "(rows_ok (release_rows s) \<Longrightarrow> moves s m) \<Longrightarrow> moves s m"
  by (auto simp: moves_def)

lemma approved_requires:
  "requires (r\<lparr> rl_approval := Some a, rl_updated_at := t \<rparr>) k = requires r k"
  "missing_live_gate_controls (r\<lparr> rl_approval := Some a, rl_updated_at := t \<rparr>) = missing_live_gate_controls r"
  by (cases "as_dict (get (rl_metadata r) ''live_gate'')";
      simp add: missing_live_gate_controls_def requires_def policy_of_def)+

lemma missing_approved:
  "missing_evidence_for_target r to = [] \<Longrightarrow>
   missing_evidence_for_target (r\<lparr> rl_approval := Some a, rl_updated_at := t \<rparr>) to = []"
  by (cases "to \<in> {Rel_REVIEW_REQUIRED, Rel_APPROVED, Rel_RELEASE_READY, Rel_RELEASED_DEMO, Rel_RELEASED_LIVE_GATED}";
      cases "to = Rel_RELEASED_LIVE_GATED")
     (simp_all add: missing_evidence_for_target_def approved_requires del: nonempty_iff insert_iff)

lemma missing_showcase:
  "missing_evidence_for_target (r\<lparr> rl_metadata := put (rl_metadata r) ''showcase_approval'' a, rl_updated_at := t \<rparr>) to
   = missing_evidence_for_target r to"
  by (cases "as_dict (get (rl_metadata r) ''live_gate'')")
     (simp_all add: missing_evidence_for_target_def missing_live_gate_controls_def requires_def policy_of_def)

lemma step_approved: "evidence_ok r \<Longrightarrow> machine_step (Some r) (Some (r\<lparr> rl_approval := Some a, rl_updated_at := t \<rparr>))"
  by (simp add: machine_from_some same_identity_def evidence_ok_def missing_approved)

lemma step_showcase:
  "evidence_ok r \<Longrightarrow>
   machine_step (Some r) (Some (r\<lparr> rl_metadata := put (rl_metadata r) ''showcase_approval'' a, rl_updated_at := t \<rparr>))"
  by (simp add: machine_from_some same_identity_def evidence_ok_def missing_showcase)

text \<open>An update of rows that takes their releases along the machine.\<close>

lemma update_rows_step:
  assumes ok: "rows_ok rows"
    and step: "\<And>row. row \<in> set rows \<Longrightarrow> P row \<Longrightarrow> evidence_ok (rr_release row) \<Longrightarrow>
      machine_step (Some (rr_release row)) (Some (rr_release (f row)))"
  shows "rows_ok (update_rows P f rows) \<and> advances rows (update_rows P f rows) \<and>
    view (update_rows P f rows) rid =
      map_option (\<lambda>row. rr_release (if P row then f row else row)) (first_row (\<lambda>row. row_id row = rid) rows)"
proof -
  have seen: "view rows (row_id row) = Some (rr_release row)" if "row \<in> set rows" for row
    using ok that unfolding rows_ok_def view_def by (metis first_row_key option.simps(9))
  then have ev: "evidence_ok (rr_release row)" if "row \<in> set rows" for row
    using ok that unfolding rows_ok_def by blast
  have mv: "machine_step (Some (rr_release row)) (Some (rr_release (f row)))" if "row \<in> set rows" "P row" for row
    using step that ev by blast
  then have id: "row_id (if P row then f row else row) = row_id row" if "row \<in> set rows" for row
    using that by (auto simp: machine_from_some same_identity_def row_id_def)
  have keys: "map row_id (update_rows P f rows) = map row_id rows" using id by (simp add: update_rows_def)
  have v: "first_row (\<lambda>row. row_id row = k) (update_rows P f rows)
      = map_option (\<lambda>row. if P row then f row else row) (first_row (\<lambda>row. row_id row = k) rows)" for k
    using id by (induction rows) (auto simp: update_rows_def)
  have new: "view (update_rows P f rows) k
      = map_option (\<lambda>row. rr_release (if P row then f row else row)) (first_row (\<lambda>row. row_id row = k) rows)" for k
    by (simp add: view_def v option.map_comp comp_def)
  have one: "machine_step\<^sup>*\<^sup>* (view rows k) (view (update_rows P f rows) k) \<and>
      (\<forall>r. view (update_rows P f rows) k = Some r \<longrightarrow> evidence_ok r)" for k
  proof (cases "first_row (\<lambda>row. row_id row = k) rows")
    case (Some row)
    from first_row_Some [OF this] have row: "row \<in> set rows" by simp
    have v0: "view rows k = Some (rr_release row)" using Some by (simp add: view_def)
    have v1: "view (update_rows P f rows) k = Some (rr_release (if P row then f row else row))" by (simp add: new Some)
    show ?thesis using mv [OF row] ev [OF row] unfolding v0 v1 by (auto simp: machine_from_some)
  qed (simp add: new, simp add: view_def)
  have "rows_ok (update_rows P f rows)" using ok keys one by (auto simp: rows_ok_def)
  with one new show ?thesis by (simp add: advances_def)
qed


text \<open>A consumed approval: the release that comes back is the stored one, in its old state.\<close>

lemma consume_rows:
  assumes "rows_ok (st_releases st)" "consume_release_approval st rid nonce t = (res, st')"
  shows "rows_ok (st_releases st') \<and> advances (st_releases st) (st_releases st') \<and>
    (\<forall>r'. res = Some r' \<longrightarrow> view (st_releases st') rid = Some r' \<and>
       (\<exists>r a. view (st_releases st) rid = Some r \<and> r' = r\<lparr> rl_approval := Some a, rl_updated_at := t \<rparr> \<and>
          consume_read st rid nonce t = Some a))"
proof (cases "consume_read st rid nonce t")
  case (Some d)
  let ?P = "\<lambda>row. row_id row = rid \<and> rr_approval_nonce row = Some nonce \<and> rr_approval_consumed_at row = None"
  let ?f = "\<lambda>row. row\<lparr> rr_release := (rr_release row)\<lparr> rl_approval := Some d, rl_updated_at := t \<rparr>,
                      rr_approval_consumed_at := Some t \<rparr>"
  let ?rows = "update_rows ?P ?f (st_releases st)"
  have st': "st_releases st' = ?rows"
    and res: "res = (if length (filter ?P (st_releases st)) \<noteq> 1 then None else get_release_candidate st' rid)"
    using assms(2) Some by (auto simp: consume_release_approval_def consume_write_def Let_def split: if_splits)
  have step: "machine_step (Some (rr_release row)) (Some (rr_release (?f row)))" if "evidence_ok (rr_release row)" for row
    using step_approved [OF that] by simp
  have u: "rows_ok ?rows \<and> advances (st_releases st) ?rows \<and>
      view ?rows rid = map_option (\<lambda>row. rr_release (if ?P row then ?f row else row))
        (first_row (\<lambda>row. row_id row = rid) (st_releases st))"
    by (rule update_rows_step [OF assms(1)]) (use step in blast)
  have "view ?rows rid = Some r' \<and> (\<exists>r a. view (st_releases st) rid = Some r \<and>
      r' = r\<lparr> rl_approval := Some a, rl_updated_at := t \<rparr> \<and> consume_read st rid nonce t = Some a)" if "res = Some r'" for r'
  proof -
    from that res have one: "length (filter ?P (st_releases st)) = 1" and g: "view ?rows rid = Some r'"
      by (auto simp: get_release_eq_row view_def st' split: if_splits)
    from one have "filter ?P (st_releases st) \<noteq> []" by (metis length_0_conv zero_neq_one)
    then obtain row where row: "row \<in> set (st_releases st)" "?P row" unfolding filter_empty_conv by blast
    have "first_row (\<lambda>x. row_id x = rid) (st_releases st) = Some row"
      using first_row_key [of row_id "st_releases st" row] assms(1) row by (auto simp: rows_ok_def)
    with u g row(2) have "r' = (rr_release row)\<lparr> rl_approval := Some d, rl_updated_at := t \<rparr>"
      "view (st_releases st) rid = Some (rr_release row)" by (auto simp: view_def)
    with g Some show ?thesis by blast
  qed
  with u st' show ?thesis by simp
qed (use assms in \<open>simp add: consume_release_approval_def\<close>)

lemma showcase_rows:
  assumes "rows_ok (st_releases st)" "consume_release_showcase_approval st rid nonce t = (res, st')"
  shows "rows_ok (st_releases st') \<and> advances (st_releases st) (st_releases st') \<and>
    (\<forall>r'. res = Some r' \<longrightarrow> view (st_releases st') rid = Some r')"
proof (cases "showcase_read st rid nonce t")
  case (Some seen)
  then obtain m a where seen: "seen = (m, put m ''showcase_approval'' a)"
    by (auto simp: showcase_read_def split: option.splits if_splits)
  let ?P = "\<lambda>row. row_id row = rid \<and> rl_metadata (rr_release row) = m"
  let ?f = "\<lambda>row. row\<lparr> rr_release := (rr_release row)\<lparr> rl_metadata := put m ''showcase_approval'' a, rl_updated_at := t \<rparr> \<rparr>"
  let ?rows = "update_rows ?P ?f (st_releases st)"
  have st': "st_releases st' = ?rows"
    and res: "res = (if length (filter ?P (st_releases st)) \<noteq> 1 then None else get_release_candidate st' rid)"
    using assms(2) Some
    by (auto simp: consume_release_showcase_approval_def showcase_write_def seen Let_def split: if_splits)
  have step: "machine_step (Some (rr_release row)) (Some (rr_release (?f row)))"
    if "evidence_ok (rr_release row)" "?P row" for row
    using step_showcase [OF that(1), where a = a and t = t] that(2) by auto
  have "rows_ok ?rows \<and> advances (st_releases st) ?rows \<and>
      view ?rows rid = map_option (\<lambda>row. rr_release (if ?P row then ?f row else row))
        (first_row (\<lambda>row. row_id row = rid) (st_releases st))"
    by (rule update_rows_step [OF assms(1)]) (use step in blast)
  with st' res show ?thesis by (auto simp: get_release_eq_row view_def split: if_splits)
qed (use assms in \<open>simp add: consume_release_showcase_approval_def\<close>)


lemma consume_current:
  assumes "consume_current_approval en r kind s = (res, s1)" "rows_ok (release_rows s)"
    and "view (release_rows s) rid = Some r"
  shows "rows_ok (release_rows s1) \<and> advances (release_rows s) (release_rows s1) \<and>
    (\<forall>r'. res = Inr (Some r') \<longrightarrow> view (release_rows s1) rid = Some r' \<and>
       (kind = Release_Approval \<longrightarrow>
          (\<exists>a t nonce. r' = r\<lparr> rl_approval := Some a, rl_updated_at := t \<rparr> \<and>
             consume_read (ss_store s) rid nonce t = Some a)))"
proof (cases "\<exists>nonce. map_option (\<lambda>a. get a ''nonce'')
    (if kind = Showcase_Approval then fst (current_showcase_approval r) else rl_approval r) = Some (PStr nonce)")
  case True
  then obtain nonce where n: "map_option (\<lambda>a. get a ''nonce'')
    (if kind = Showcase_Approval then fst (current_showcase_approval r) else rl_approval r) = Some (PStr nonce)" by blast
  note rid = view_id [OF assms(3)]
  let ?t = "sn_now en (ss_tick s)"
  obtain x st where c: "(if kind = Showcase_Approval
      then consume_release_showcase_approval (ss_store s) rid nonce ?t
      else consume_release_approval (ss_store s) rid nonce ?t) = (x, st)" by fastforce
  have r1: "res = Inr x" "s1 = s\<lparr> ss_tick := Suc (ss_tick s), ss_store := st \<rparr>"
    using assms(1) n c rid
    by (auto simp: consume_current_approval_def sbind_def utc_now_def ticking_def Let_def split: if_splits)
  show ?thesis
  proof (cases kind)
    case Release_Approval
    with c have "consume_release_approval (ss_store s) rid nonce ?t = (x, st)" by simp
    note q = consume_rows [OF assms(2) [unfolded release_rows_def] this]
    have rows: "release_rows s = st_releases (ss_store s)" "release_rows s1 = st_releases st"
      by (simp_all add: release_rows_def r1)
    from q assms(3) have "\<forall>r'. x = Some r' \<longrightarrow> view (st_releases st) rid = Some r' \<and>
        (\<exists>a t nonce. r' = r\<lparr> rl_approval := Some a, rl_updated_at := t \<rparr> \<and> consume_read (ss_store s) rid nonce t = Some a)"
      unfolding rows by (metis option.inject)
    with q show ?thesis unfolding rows r1(1) by (metis Inr_inject)
  next
    case Showcase_Approval
    with c have "consume_release_showcase_approval (ss_store s) rid nonce ?t = (x, st)" by simp
    from showcase_rows [OF _ this] assms(2) r1 Showcase_Approval show ?thesis by (auto simp: release_rows_def)
  qed
next
  case False
  then have "consume_current_approval en r kind s = (Inr None, s)"
    by (auto simp: consume_current_approval_def sreturn_def Let_def split: option.split pyval.split)
  with assms(1) have "res = Inr None" "s1 = s" by simp_all
  with assms(2) show ?thesis by simp
qed

lemma moves_consume:
  assumes "view (release_rows s) rid = Some r"
    and "\<And>x s1. consume_current_approval en r kind s = (Inr x, s1) \<Longrightarrow> rows_ok (release_rows s) \<Longrightarrow>
      (\<And>r'. x = Some r' \<Longrightarrow> view (release_rows s1) rid = Some r' \<and>
         (kind = Release_Approval \<longrightarrow> rl_state r' = rl_state r)) \<Longrightarrow> moves s1 (f x)"
  shows "moves s (sbind (consume_current_approval en r kind) f)"
proof (rule moves_ok)
  assume ok: "rows_ok (release_rows s)"
  show ?thesis
  proof (rule moves_bind)
    show "moves s (consume_current_approval en r kind)"
      unfolding moves_def by (metis consume_current [OF _ ok assms(1)] prod.collapse)
    fix x s1
    assume c: "consume_current_approval en r kind s = (Inr x, s1)"
    note k = consume_current [OF c ok assms(1)]
    show "moves s1 (f x)"
      by (rule assms(2) [OF c ok]) (use k in auto)
  qed
qed

section \<open>Approval and execution\<close>

lemma moves_store_approval:
  assumes "view (release_rows s) rid = Some r"
  shows "moves s (store_approval en r a)"
  unfolding store_approval_def
proof (rule moves_if)
  assume "rl_state r = Rel_RELEASE_READY"
  show "moves s (save_release en (r\<lparr> rl_metadata := put (rl_metadata r) ''showcase_approval'' (PDict a) \<rparr>))"
  proof (rule moves_ok)
    assume "rows_ok (release_rows s)"
    with assms have "evidence_ok r" by (simp add: rows_ok_def)
    from step_showcase [OF this, where a = "PDict a" and t = "rl_updated_at r"]
    have "machine_step (Some r) (Some (r\<lparr> rl_metadata := put (rl_metadata r) ''showcase_approval'' (PDict a) \<rparr>))" by simp
    then show "moves s (save_release en (r\<lparr> rl_metadata := put (rl_metadata r) ''showcase_approval'' (PDict a) \<rparr>))"
      by (rule moves_save [rotated]) (use assms view_id [OF assms] in simp)
  qed
next
  show "moves s (sbind (slift (transition_release_or_409 r Rel_APPROVED (\<lambda>x. x\<lparr> rl_approval := Some a \<rparr>))) (save_release en))"
    by (rule moves_bind_slift, rule moves_transition, assumption, rule assms, rule benign_updates) simp
qed

lemma keeps_approval_parts [keeps_rules]: "keeps (approval_nonce en)" "keeps (approval_expires_at en)"
  by (simp_all add: approval_nonce_def approval_expires_at_def keeps_rules)

lemma approve_moves: "moves s (approve_release_endpoint en request rid q)"
  unfolding approve_release_endpoint_def grant_approval_def Let_def
  by (rule moves_rules | (rule moves_bind_keeps, (rule keeps_rules)+) | rule moves_bind
      | (rule moves_keeps, (rule keeps_rules)+) | (rule moves_store_approval, simp))+

section \<open>Execution keeps the releases until the order is placed\<close>

lemma keeps_sum [keeps_rules]: "(\<And>y. keeps (f y)) \<Longrightarrow> (\<And>y. keeps (g y)) \<Longrightarrow> keeps (case v of Inl y \<Rightarrow> f y | Inr y \<Rightarrow> g y)"
  by (cases v) simp_all

lemma keeps_expired [keeps_rules]: "keeps (is_expired_utc en v)"
  by (simp add: is_expired_utc_def keeps_rules)

lemma keeps_block_reason [keeps_rules]: "keeps (approval_block_reason_for_execution en r v a)"
  unfolding approval_block_reason_for_execution_def by (rule keeps_rules)+

lemma keeps_files [keeps_rules]:
  "keeps (exchanging g)" "keeps (save_preflight en dir pf)" "keeps (save_order_status en dir os)"
  "keeps (save_evidence en out_dir ledger_dir run_dir a)" "keeps (update_manifest en run)"
  by (simp_all add: keeps_def exchanging_def save_preflight_def save_order_status_def save_evidence_def set_file_def
      release_rows_def update_manifest_def sbind_def utc_now_def ticking_def update_artifact_manifest_def update_run_def
      split: prod.split)

lemma keeps_prod [keeps_rules]: "(\<And>x y. keeps (f x y)) \<Longrightarrow> keeps (case p of (x, y) \<Rightarrow> f x y)"
  by (cases p) simp

lemma keeps_catching [keeps_rules]: "keeps m \<Longrightarrow> keeps (catching_blocked m h)"
  by (simp add: keeps_def catching_blocked_def split: prod.split sum.split option.split) (metis snd_conv)

lemma keeps_place [keeps_rules]: "keeps (place_verified_bitget_demo_order en run c oid dir ledger_dir h)"
  unfolding place_verified_bitget_demo_order_def by (rule keeps_rules)+

lemma keeps_once [keeps_rules]: "keeps (place_once en run c oid h)"
  unfolding place_once_def by (rule keeps_rules)+

lemma keeps_already [keeps_rules]: "keeps (already_placed en run c oid h e)"
  unfolding already_placed_def Let_def by (rule keeps_rules)+

lemma keeps_execute [keeps_rules]: "keeps (execute_bitget_demo_order en run ex h)"
  unfolding execute_bitget_demo_order_def by (rule keeps_rules)+

lemma keeps_execute_showcase [keeps_rules]: "keeps (execute_bitget_demo_showcase_order en rid run ex h)"
  unfolding execute_bitget_demo_showcase_order_def Let_def by (rule keeps_rules)+

lemma keeps_execute_endpoint [keeps_rules]: "keeps (execute_endpoint en run_id ex)"
  unfolding execute_endpoint_def by (rule keeps_rules)+


section \<open>The execution moves the release\<close>

lemma moves_move:
  assumes "view (release_rows s) rid = Some r" "benign u"
    and "to \<notin> {Rel_RELEASE_READY, Rel_RELEASED_DEMO, Rel_RELEASED_LIVE_GATED} \<or> to = Rel_RELEASE_READY \<and> rl_state r = Rel_APPROVED"
  shows "moves s (move_release en r to u)"
  unfolding move_release_def by (rule moves_bind_slift, rule moves_transition) (use assms in auto)

lemma moves_sum [moves_rules]:
  "(\<And>y. v = Inl y \<Longrightarrow> moves s (f y)) \<Longrightarrow> (\<And>y. v = Inr y \<Longrightarrow> moves s (g y)) \<Longrightarrow>
   moves s (case v of Inl y \<Rightarrow> f y | Inr y \<Rightarrow> g y)"
  by (cases v) simp_all

lemma keeps_run_evidence [keeps_rules]: "keeps (run_evidence en run)"
  unfolding run_evidence_def [abs_def] by (rule keeps_rules)

lemma executed_moves:
  assumes "view (release_rows s) rid = Some r" "rl_state r = Rel_APPROVED"
  shows "moves s (release_executed en request rid r run d evidence)"
  unfolding release_executed_def using assms
  by - (rule moves_rules | (rule moves_bind_keeps, (rule keeps_rules)+) | rule moves_bind
      | (rule moves_move, simp, rule benign_updates, simp) | (rule moves_keeps, (rule keeps_rules)+))+

lemma execute_approved_moves:
  assumes "view (release_rows s) rid = Some r" "rl_state r = Rel_APPROVED"
  shows "moves s (execute_approved en request rid r ex d)"
  unfolding execute_approved_def request_order_def execution_answer_def using assms
  by - (rule moves_rules | (rule moves_bind_keeps, (rule keeps_rules)+) | (rule executed_moves, simp, simp)
      | rule moves_bind | (rule moves_keeps, (rule keeps_rules)+)
      | (rule moves_move, simp, rule benign_updates, simp))+

lemma execute_consumed_moves:
  assumes "view (release_rows s) rid = Some r" "rl_state r = Rel_APPROVED"
  shows "moves s (execute_consumed en request rid ex r)"
  unfolding execute_consumed_def using assms
  by - (rule moves_rules | (rule execute_approved_moves, simp, simp) | rule moves_bind
      | (rule moves_move, simp, rule benign_updates, simp) | (rule moves_keeps, (rule keeps_rules)+))+

lemma execute_moves: "moves s (execute_release_demo_endpoint en request rid ex)"
  unfolding execute_release_demo_endpoint_def execute_with_approval_def
  by (rule moves_rules | (rule moves_consume, simp) | (rule execute_consumed_moves, simp, simp)
      | (rule moves_bind_keeps, (rule keeps_rules)+))+

lemma keeps_record_answer [keeps_rules]: "keeps (record_answer en rid key ex a)"
  unfolding record_answer_def by (rule keeps_rules)+

lemma keeps_place_showcase [keeps_rules]: "keeps (place_showcase en request rid key ex r d run)"
  unfolding place_showcase_def Let_def by (rule keeps_rules)+

lemma keeps_showcase [keeps_rules]: "keeps (showcase_consumed en request rid key ex r)"
  unfolding showcase_consumed_def Let_def by (rule keeps_rules)+

lemma showcase_moves: "moves s (create_release_demo_showcase_order_endpoint en request rid ex key)"
  unfolding create_release_demo_showcase_order_endpoint_def
  by (rule moves_rules | (rule moves_consume, simp) | (rule moves_bind_keeps, (rule keeps_rules)+)
      | (rule moves_keeps, (rule keeps_rules)+))+


section \<open>Jobs\<close>

lemma event_releases: "append_release_job_event H st rid jid et payload now = Inr (e, st') \<Longrightarrow> st_releases st' = st_releases st"
  by (auto simp: append_release_job_event_def Let_def rbind_Inr_iff split: if_splits)

lemma keeps_job_parts [keeps_rules]:
  "keeps (log_job_event en rid jid et payload)" "keeps (set_job_status en jid st result code message)"
  "keeps (job_cancel_requested en rid jid)" "keeps (read_release rid)" "keeps (claim_release_job en)"
  "keeps (cancel_queued en rid jid)" "keeps (get_job_or_404 rid jid)"
  "keeps (store_job en jid rid jt request_hash d key requested_by)"
  by (auto simp: keeps_def log_job_event_def set_job_status_def job_cancel_requested_def read_release_def claim_release_job_def
      cancel_queued_def get_job_or_404_def store_job_def sbind_def utc_now_def ticking_def release_rows_def
      mark_release_job_status_def claim_next_release_job_def cancel_release_job_def create_release_job_def Let_def
      dest: event_releases split: sum.split prod.split option.split list.split if_splits)

lemma keeps_job_log [keeps_rules]:
  "keeps (start_job en rid jid jt claimed)" "keeps (log_release_checks en rid jid r)"
  "keeps (job_succeeded en rid jid ks ws a)" "keeps (job_refused en rid jid sc a)"
  unfolding start_job_def log_release_checks_def job_succeeded_def job_refused_def Let_def by (rule keeps_rules)+

lemma moves_failing:
  fixes m :: "('b service_scheme, unit) act"
  assumes "moves s m"
  shows "moves s (failing_job en rid jid m)"
proof -
  have k: "keeps (sbind (set_job_status en jid Job_FAILED None (Some (exn_name e)) (Some (exn_name e)))
      (\<lambda>_. log_job_event en rid jid ''job_failed'' [(''reason_code'', PStr (exn_name e))]) :: ('b service_scheme, unit) act)" for e
    by (rule keeps_rules)+
  obtain r s1 where m: "m s = (r, s1)" by (cases "m s")
  show ?thesis
  proof (cases r)
    case (Inl e)
    with assms m k [of e] show ?thesis by (simp add: moves_def keeps_def failing_job_def)
  qed (use assms m in \<open>simp add: moves_def failing_job_def\<close>)
qed

lemma moves_replayable [moves_rules]:
  "(\<And>d. v = Replayed d \<Longrightarrow> moves s (f d)) \<Longrightarrow> (\<And>x. v = Answered x \<Longrightarrow> moves s (g x)) \<Longrightarrow>
   moves s (case v of Replayed d \<Rightarrow> f d | Answered x \<Rightarrow> g x)"
  by (cases v) simp_all

lemma showcase_response_moves: "moves s (showcase_response en who rid ex key)"
  unfolding showcase_response_def
  by (rule moves_bind, rule showcase_moves, rule moves_rules, (rule moves_keeps, rule keeps_rules)+)

lemma showcase_job_moves: "moves s (run_showcase_order_job en jid rid who ex claimed)"
  unfolding run_showcase_order_job_def
  by (rule moves_failing)
     (rule moves_rules | (rule moves_bind, rule showcase_response_moves) | (rule moves_bind_keeps, (rule keeps_rules)+) | rule moves_bind
      | (rule moves_keeps, (rule keeps_rules)+))+

lemma execute_job_moves: "moves s (run_canonical_execute_demo_job en jid rid who ex claimed)"
  unfolding run_canonical_execute_demo_job_def
  by (rule moves_failing)
     (rule moves_rules | (rule moves_bind, rule execute_moves) | (rule moves_bind_keeps, (rule keeps_rules)+) | rule moves_bind
      | (rule moves_keeps, (rule keeps_rules)+))+

lemma work_moves: "moves s (work_on_job en w)"
  unfolding work_on_job_def Let_def
  by (rule moves_rules | rule showcase_job_moves | rule execute_job_moves | (rule moves_keeps, (rule keeps_rules)+))+

lemma keeps_queue_job: "keeps (queue_job en request rid ex key name jt payload code)"
  unfolding queue_job_def by (rule keeps_rules)+

lemma keeps_cancel_job: "keeps (cancel_release_job_endpoint en request rid jid)"
  unfolding cancel_release_job_endpoint_def by (rule keeps_rules)+

section \<open>Requests\<close>

datatype request =
    Create_Release release_create_request "string option"
  | Bind_Run string string
  | Import_Evidence string simulation_evidence_request
  | Bind_Policy string risk_policy_request
  | Approve string approval_request
  | Reject string reject_request
  | Execute_Demo string execution_request
  | Execute_Run string execution_request
  | Showcase_Order string execution_request "string option"
  | Kill string
  | Queue_Execute_Job string execution_request "string option"
  | Queue_Showcase_Job string execution_request "string option"
  | Cancel_Job string string
  | Claim_Job
  | Work_On_Job job_work_item

definition quietly :: "('s, 'a) act \<Rightarrow> ('s, unit) act" where
  "quietly m = sbind m (\<lambda>_. sreturn ())"

fun handle_request :: "demo_env \<Rightarrow> principal option \<Rightarrow> request \<Rightarrow> (demo_service, unit) act" where
  "handle_request en who (Create_Release p key) = quietly (create_release_candidate_endpoint en who p key)"
| "handle_request en who (Bind_Run rid run_id) = quietly (bind_redline_run_endpoint en who rid run_id)"
| "handle_request en who (Import_Evidence rid p) = quietly (import_simulation_evidence_endpoint en who rid p)"
| "handle_request en who (Bind_Policy rid p) = quietly (bind_risk_policy_endpoint en who rid p)"
| "handle_request en who (Approve rid q) = quietly (approve_release_endpoint en who rid q)"
| "handle_request en who (Reject rid q) = quietly (reject_release_endpoint en who rid q)"
| "handle_request en who (Execute_Demo rid ex) = quietly (execute_release_demo_endpoint en who rid ex)"
| "handle_request en who (Execute_Run run_id ex) = quietly (execute_endpoint en run_id ex)"
| "handle_request en who (Showcase_Order rid ex key) = quietly (create_release_demo_showcase_order_endpoint en who rid ex key)"
| "handle_request en who (Kill rid) = quietly (kill_release_endpoint en who rid)"
| "handle_request en who (Queue_Execute_Job rid ex key) = quietly (create_release_execute_demo_job_endpoint en who rid ex key)"
| "handle_request en who (Queue_Showcase_Job rid ex key) = quietly (create_release_showcase_order_job_endpoint en who rid ex key)"
| "handle_request en who (Cancel_Job rid jid) = quietly (cancel_release_job_endpoint en who rid jid)"
| "handle_request en who Claim_Job = quietly (claim_release_job en)"
| "handle_request en who (Work_On_Job w) = quietly (work_on_job en w)"

text \<open>Requests one after the other, each with its environment and principal. The steps of the workers come between them.\<close>

fun serve :: "(demo_env \<times> principal option \<times> request) list \<Rightarrow> demo_service \<Rightarrow> demo_service" where
  "serve [] s = s"
| "serve ((en, who, q) # qs) s = serve qs (snd (handle_request en who q s))"

lemma moves_quietly: "moves s m \<Longrightarrow> moves s (quietly m)"
  unfolding quietly_def by (rule moves_bind) simp_all

lemma request_moves: "moves s (handle_request en who q)"
  by (cases q)
     (simp_all add: moves_quietly moves_keeps [OF keeps_execute_endpoint] create_moves bind_run_moves import_moves
        bind_policy_moves approve_moves reject_moves execute_moves showcase_moves kill_moves moves_keeps [OF keeps_queue_job]
        create_release_execute_demo_job_endpoint_def create_release_showcase_order_job_endpoint_def
        moves_keeps [OF keeps_cancel_job] moves_keeps [OF keeps_job_parts(5)] work_moves)

lemma serve_advances:
  "rows_ok (release_rows s) \<Longrightarrow>
   rows_ok (release_rows (serve qs s)) \<and> advances (release_rows s) (release_rows (serve qs s))"
proof (induction qs s rule: serve.induct)
  case (2 en who q qs s)
  from request_moves [of s en who q] "2.prems"
  have one: "rows_ok (release_rows (snd (handle_request en who q s)))"
    "advances (release_rows s) (release_rows (snd (handle_request en who q s)))" by (simp_all add: moves_def)
  from "2.IH" [OF one(1)] one(2) show ?case by (auto intro: advances_trans)
qed simp


end
