(* ===== verification/Order_Gate.thy ===== *)
theory Order_Gate
  imports Service_Facts
begin

text \<open>
  What has to hold before anything is sent to the exchange for a release. \<open>quiet\<close> actions send nothing;
  the only others are the calls of the adapter, so a request that sends something has passed every
  guard of \<open>execute-demo\<close> and of the verification of its run.
\<close>

section \<open>Actions that send nothing\<close>

named_theorems quiet_rules \<open>actions that send nothing to the exchange\<close>

definition quiet :: "(demo_service, 'a) act \<Rightarrow> bool" where
  "quiet m = (\<forall>s. ss_sent (snd (m s)) = ss_sent s)"

lemma quietI: "(\<And>s. ss_sent (snd (m s)) = ss_sent s) \<Longrightarrow> quiet m"
  by (simp add: quiet_def)

lemma quiet_bind [quiet_rules]: "quiet m \<Longrightarrow> (\<And>x. quiet (f x)) \<Longrightarrow> quiet (sbind m f)"
  by (rule quietI, simp add: sbind_def split: prod.split sum.split) (metis quiet_def snd_conv)

lemma quiet_basic [quiet_rules]:
  "quiet (sreturn x)" "quiet (slift r)" "quiet (ticking g)" "quiet (utc_now en)" "quiet (\<lambda>s. (h s, s))"
  by (simp_all add: quiet_def sreturn_def slift_def ticking_def utc_now_def)

lemma quiet_if [quiet_rules]: "quiet x \<Longrightarrow> quiet y \<Longrightarrow> quiet (if b then x else y)"
  by simp

lemma quiet_option [quiet_rules]: "quiet x \<Longrightarrow> (\<And>y. quiet (f y)) \<Longrightarrow> quiet (case v of None \<Rightarrow> x | Some y \<Rightarrow> f y)"
  by (cases v) simp_all

lemma quiet_sum [quiet_rules]:
  "(\<And>y. quiet (f y)) \<Longrightarrow> (\<And>y. quiet (g y)) \<Longrightarrow> quiet (case v of Inl y \<Rightarrow> f y | Inr y \<Rightarrow> g y)"
  by (cases v) simp_all

lemma quiet_get [quiet_rules]:
  "quiet (get_release_or_404 rid)" "quiet (get_strategy_version_for_release_or_404 r)" "quiet (get_run_or_404 rid)"
  by (simp_all add: quiet_def get_release_or_404_def get_strategy_version_for_release_or_404_def get_run_or_404_def
      split: option.split)

lemma quiet_audit [quiet_rules]: "quiet (append_release_audit_event en rid et actor payload)"
  unfolding append_release_audit_event_def
  by (rule quiet_bind, rule quiet_rules, rule quietI) (simp add: Let_def split: sum.split prod.split)

lemma quiet_save [quiet_rules]: "quiet (save_release en r)"
  unfolding save_release_def
  by (rule quiet_bind, rule quiet_rules, rule quietI) (simp split: sum.split prod.split)

lemma quiet_move [quiet_rules]: "quiet (move_release en r to u)"
  unfolding move_release_def by (rule quiet_rules)+

lemma quiet_consume [quiet_rules]: "quiet (consume_current_approval en r kind)"
  by (rule quietI)
     (simp add: consume_current_approval_def Let_def sbind_def utc_now_def ticking_def sreturn_def
        split: option.split pyval.split prod.split)

lemma quiet_block_reason [quiet_rules]: "quiet (approval_block_reason_for_execution en r v a)"
  unfolding approval_block_reason_for_execution_def is_expired_utc_def by (rule quiet_rules)+

lemma quiet_files [quiet_rules]:
  "quiet (save_preflight en dir pf)" "quiet (save_order_status en dir os)"
  "quiet (save_evidence en out_dir ledger_dir run_dir a)" "quiet (update_manifest en run)" "quiet (run_evidence en run)"
  by (simp_all add: quiet_def save_preflight_def save_order_status_def save_evidence_def set_file_def
      update_manifest_def sbind_def utc_now_def ticking_def run_evidence_def split: prod.split)

lemma quiet_already [quiet_rules]: "quiet (already_placed en run c oid h e)"
  unfolding already_placed_def Let_def by (rule quiet_rules)+

lemma quiet_released [quiet_rules]: "quiet (release_executed en request rid r run d evidence)"
  unfolding release_executed_def by (rule quiet_rules)+

text \<open>An action that sends something got past its quiet first part.\<close>

definition loud :: "demo_service \<Rightarrow> (demo_service, 'a) act \<Rightarrow> bool" where
  "loud s m = (ss_sent (snd (m s)) \<noteq> ss_sent s)"

lemma quiet_not_loud: "quiet m \<Longrightarrow> \<not> loud s m"
  by (simp add: quiet_def loud_def)

lemma loud_bind:
  assumes "loud s (sbind m f)" "quiet m"
  obtains x s1 where "m s = (Inr x, s1)" "ss_sent s1 = ss_sent s" "loud s1 (f x)" "sbind m f s = f x s1"
proof (cases "m s")
  case (Pair r s1)
  from assms(2) Pair have q: "ss_sent s1 = ss_sent s" by (metis quiet_def snd_conv)
  show thesis
  proof (cases r)
    case (Inl e)
    with assms(1) Pair q show thesis by (simp add: loud_def sbind_def)
  next
    case (Inr x)
    with Pair q assms(1) show thesis by (intro that) (simp_all add: loud_def sbind_def)
  qed
qed

lemma loud_first:
  assumes "loud s (sbind m f)" "\<And>x. quiet (f x)"
  shows "loud s m" "ss_sent (snd (sbind m f s)) = ss_sent (snd (m s))"
proof -
  show e: "ss_sent (snd (sbind m f s)) = ss_sent (snd (m s))"
    using assms(2) by (simp add: sbind_def split: prod.split sum.split) (metis quiet_def)
  with assms(1) show "loud s m" by (simp add: loud_def)
qed

section \<open>What the adapter sends\<close>

lemma preflight_sends:
  "sends (proper_request ad i oid) 0 sent (snd (preflight_exchange en ad run_id rh i oid sent))"
proof (cases "assert_mode ad i")
  case (Inr u)
  have one: "sends (proper_request ad i oid) 0 a (snd (request_json en ad p q auth a))" for p q auth a
    by (rule request_json_sends) (rule proper_GET, use Inr in simp)
  obtain r1 s1 where 1: "request_json en ad ''/api/v2/mix/market/contracts'' [(''productType'', xi_product_type i)] False sent
      = (r1, s1)" by fastforce
  obtain r2 s2 where 2: "request_json en ad ''/api/v2/mix/account/account''
      [(''symbol'', xi_symbol i), (''productType'', xi_product_type i), (''marginCoin'', xi_margin_coin i)] True s1 = (r2, s2)"
    by fastforce
  have "sends (proper_request ad i oid) 0 sent s1" "sends (proper_request ad i oid) 0 s1 s2"
    using one [of sent "''/api/v2/mix/market/contracts''" "[(''productType'', xi_product_type i)]" False]
      one [of s1 "''/api/v2/mix/account/account''"
        "[(''symbol'', xi_symbol i), (''productType'', xi_product_type i), (''marginCoin'', xi_margin_coin i)]" True]
    by (simp_all add: 1 2)
  moreover from this have "sends (proper_request ad i oid) 0 sent s2" using sends_trans [of _ 0 sent s1 0 s2] by simp
  ultimately show ?thesis
    unfolding preflight_exchange_def Inr by (simp add: 1 2 split: sum.split)
qed (simp add: preflight_exchange_def)

text \<open>An action that sends at most \<open>n\<close> orders, and only proper requests.\<close>

definition sending :: "(http_request \<Rightarrow> bool) \<Rightarrow> nat \<Rightarrow> (demo_service, 'a) act \<Rightarrow> bool" where
  "sending P n m = (\<forall>s. sends P n (ss_sent s) (ss_sent (snd (m s))))"

lemma sending_bind: "sending P k m \<Longrightarrow> (\<And>x. sending P n (f x)) \<Longrightarrow> sending P (k + n) (sbind m f)"
proof -
  assume m: "sending P k m" and f: "\<And>x. sending P n (f x)"
  have "sends P (k + n) (ss_sent s) (ss_sent (snd (sbind m f s)))" for s
  proof (cases "m s")
    case (Pair r s1)
    then have a: "sends P k (ss_sent s) (ss_sent s1)" using m by (metis sending_def snd_conv)
    show ?thesis
    proof (cases r)
      case (Inl e)
      from sends_trans [OF a sends_refl] Pair Inl show ?thesis by (simp add: sbind_def)
    next
      case (Inr x)
      have "sends P n (ss_sent s1) (ss_sent (snd (f x s1)))" using f by (simp add: sending_def)
      from sends_trans [OF a this] Pair Inr show ?thesis by (simp add: sbind_def)
    qed
  qed
  then show ?thesis by (simp add: sending_def)
qed

lemma sending_quiet: "quiet m \<Longrightarrow> sending P n m"
  by (simp add: sending_def quiet_def)

lemma sending_first: "sending P n m \<Longrightarrow> (\<And>x. sending P 0 (f x)) \<Longrightarrow> sending P n (sbind m f)"
  using sending_bind [of P n m 0 f] by simp

lemma sending_later: "sending P 0 m \<Longrightarrow> (\<And>x. sending P n (f x)) \<Longrightarrow> sending P n (sbind m f)"
  using sending_bind [of P 0 m n f] by simp

lemma sending_bind_quiet: "quiet m \<Longrightarrow> (\<And>x. sending P n (f x)) \<Longrightarrow> sending P n (sbind m f)"
  by (rule sending_later) (rule sending_quiet)

lemma sending_exchange:
  "(\<And>sent. sends P n sent (snd (g sent))) \<Longrightarrow> sending P n (exchanging g)"
  by (simp add: sending_def exchanging_def split: prod.split) (metis snd_conv)


lemma sending_if: "sending P n x \<Longrightarrow> sending P n y \<Longrightarrow> sending P n (if b then x else y)"
  by simp

lemma demo_adapter_retries: "demo_adapter en = Inr ad \<Longrightarrow> ad_max_retries ad = 1"
  by (auto simp: demo_adapter_def make_adapter_def split: if_splits)

lemma place_sends:
  assumes "demo_adapter en = Inr ad"
  shows "sending (proper_request ad (vd_intent c) oid) 2
    (place_verified_bitget_demo_order en run c oid dir ledger_dir h)"
proof -
  let ?P = "proper_request ad (vd_intent c) oid"
  let ?X = "exchange_of en"
  have pre: "sending ?P 0 (exchanging (preflight_exchange ?X ad (rn_run_id run) (vd_receipt_hash c) (vd_intent c) oid))"
    by (rule sending_exchange) (rule preflight_sends)
  have post: "sending ?P 2 (exchanging (place_order ?X ad (vd_intent c) (vd_receipt_hash c) oid))"
    using place_order_sends [of ad "vd_intent c" oid _ ?X "vd_receipt_hash c"] demo_adapter_retries [OF assms]
    by (intro sending_exchange) (simp add: numeral_2_eq_2)
  have query: "sending ?P 0 (exchanging (query_order_status ?X ad (rn_run_id run) (vd_receipt_hash c) (vd_intent c) oid oo))" for oo
    by (rule sending_exchange) (rule query_sends)
  have rest: "sending ?P 0 (sbind (save_order_status en dir status) (\<lambda>_.
      if os_status status = ''unknown_reconciliation_required''
      then slift (Inl (ExecutionBlocked ''EXCHANGE_RECONCILIATION_REQUIRED''))
      else sreturn (evidence, pf, status)))" for evidence pf status
    by (rule sending_quiet) (rule quiet_rules)+
  have "sending ?P 0 (sbind (save_evidence en dir ledger_dir (rn_out_dir run) (order_evidence_args en run c placed h)) (\<lambda>evidence.
      sbind (exchanging (query_order_status ?X ad (rn_run_id run) (vd_receipt_hash c) (vd_intent c) oid
               (Some (pl_bitget_order_id placed)))) (\<lambda>status.
      sbind (save_order_status en dir status) (\<lambda>_.
      if os_status status = ''unknown_reconciliation_required''
      then slift (Inl (ExecutionBlocked ''EXCHANGE_RECONCILIATION_REQUIRED''))
      else sreturn (evidence, pf, status)))))" for placed pf
    by (rule sending_bind_quiet, rule quiet_rules) (rule sending_first, rule query, rule rest)
  note after = sending_first [OF post this]
  have body: "sbind (slift (Inr ad)) f = f ad" for f :: "adapter \<Rightarrow> (demo_service, 'x) act"
    by (rule ext) (simp add: sbind_def slift_def)
  show ?thesis
    unfolding place_verified_bitget_demo_order_def assms body
    by (rule sending_if, rule sending_quiet, rule quiet_rules, rule sending_later,
        rule pre, rule sending_bind_quiet, rule quiet_rules, rule sending_if, rule sending_quiet, rule quiet_rules, rule after)
qed

lemma place_loud:
  assumes "loud s (place_verified_bitget_demo_order en run c oid dir ledger_dir h)"
  obtains ad where "demo_adapter en = Inr ad"
    "sends (proper_request ad (vd_intent c) oid) 2 (ss_sent s)
       (ss_sent (snd (place_verified_bitget_demo_order en run c oid dir ledger_dir h s)))"
proof (cases "demo_adapter en")
  case (Inl e)
  then have "quiet (place_verified_bitget_demo_order en run c oid dir ledger_dir h)"
    by (auto simp: place_verified_bitget_demo_order_def quiet_def sbind_def slift_def)
  with assms show thesis by (simp add: quiet_not_loud)
next
  case (Inr ad)
  from place_sends [OF Inr, of c oid run dir ledger_dir h, unfolded sending_def] that [OF Inr] show thesis by blast
qed

section \<open>The order of a run\<close>

lemma catching_log: "snd (catching_blocked m h s) = snd (m s)"
  by (simp add: catching_blocked_def split: prod.split sum.split option.split)

lemma bind_slift: "sbind (slift (Inr x)) f = f x"
  by (rule ext) (simp add: sbind_def slift_def)

lemma execute_loud:
  assumes "loud s (execute_bitget_demo_order en run ex h)"
  obtains c oid ad where "verified_demo_execution_context en run ex = Inr (Inr c)"
    "make_client_oid (sn_hash en) (vd_receipt_hash c) (vd_intent c) = Inr oid" "demo_adapter en = Inr ad"
    "xf_evidence (ss_files s (rn_out_dir run)) = Absent"
    "execution_ledger_has_order (sn_hash en) (xf_ledger (ss_files s (rn_out_dir run))) (vd_receipt_hash c) oid = Inr False"
    "sends (proper_request ad (vd_intent c) oid) 2 (ss_sent s) (ss_sent (snd (execute_bitget_demo_order en run ex h s)))"
proof -
  let ?M = "execute_bitget_demo_order en run ex h"
  obtain x where x: "verified_demo_execution_context en run ex = Inr x"
    using assms by (cases "verified_demo_execution_context en run ex")
      (auto simp: loud_def execute_bitget_demo_order_def sbind_def slift_def)
  obtain c where c: "x = Inr c"
    using assms x by (cases x) (auto simp: loud_def execute_bitget_demo_order_def sbind_def slift_def sreturn_def)
  obtain oid where oid: "make_client_oid (sn_hash en) (vd_receipt_hash c) (vd_intent c) = Inr oid"
    using assms x c by (cases "make_client_oid (sn_hash en) (vd_receipt_hash c) (vd_intent c)")
      (auto simp: loud_def execute_bitget_demo_order_def sbind_def slift_def)
  let ?f = "xf_evidence (ss_files s (rn_out_dir run))"
  let ?I = "\<lambda>f. if f = Absent then place_once en run c oid h
     else sbind (slift (load_execution_evidence (sn_hash en) f)) (already_placed en run c oid h)"
  have log: "ss_sent (snd (?M s)) = ss_sent (snd (?I ?f s))"
    by (simp add: execute_bitget_demo_order_def x c oid bind_slift catching_log) (simp add: sbind_def)
  have old: "quiet (sbind (slift (load_execution_evidence (sn_hash en) ?f)) (already_placed en run c oid h))"
    by (rule quiet_rules)+
  have absent: "?f = Absent"
  proof (rule ccontr)
    assume "?f \<noteq> Absent"
    then have "ss_sent (snd (?M s)) = ss_sent s" unfolding log if_not_P [OF \<open>?f \<noteq> Absent\<close>] using old unfolding quiet_def by blast
    with assms show False by (simp add: loud_def)
  qed
  let ?known = "execution_ledger_has_order (sn_hash en) (xf_ledger (ss_files s (rn_out_dir run))) (vd_receipt_hash c) oid"
  from assms log absent have loud: "loud s (place_once en run c oid h)" by (simp add: loud_def)
  have known: "?known = Inr False"
    using loud by (cases ?known) (auto simp: loud_def place_once_def sbind_def sreturn_def split: if_splits)
  let ?p = "place_verified_bitget_demo_order en run c oid (rn_out_dir run) (rn_out_dir run) h"
  let ?k = "\<lambda>(evidence, pf, status). sbind (update_manifest en run) (\<lambda>_.
     sreturn (execution_done run ''placed'' (placed_dump evidence pf status)))"
  have once: "place_once en run c oid h s = sbind ?p ?k s"
    using known by (simp add: place_once_def sbind_def)
  have q: "quiet (?k x)" for x by (cases x) (simp add: quiet_rules)
  have "loud s (sbind ?p ?k)" using loud once by (simp add: loud_def)
  note first = loud_first [OF this q]
  obtain ad where ad: "demo_adapter en = Inr ad"
    "sends (proper_request ad (vd_intent c) oid) 2 (ss_sent s) (ss_sent (snd (?p s)))"
    by (rule place_loud [OF first(1)])
  have "ss_sent (snd (?M s)) = ss_sent (snd (?p s))" using log absent once first(2) by simp
  with x c oid absent known ad show thesis by (intro that) simp_all
qed


text \<open>A verified context: the receipt of the run is verified, passing and chained, and it is the run's.\<close>

lemma context_verified:
  assumes "verified_demo_execution_context en run ex = Inr (Inr c)"
  shows "rn_state run = Run_PASS \<and> demo_intent en ex = Inr (vd_intent c) \<and> rn_receipt_hash run = Some (vd_receipt_hash c) \<and>
    (\<exists>policy v. trust_policy_path en run ex = Some policy \<and>
       verify (sn_hash en) (sn_crypto en) (verify_call en run policy) = Inr v \<and>
       vr_status v = VS_VERIFIED \<and> vr_reason v = RC_PASS \<and> vr_chain_status v = CS_CHAINED \<and>
       vr_receipt_hash v = Some (vd_receipt_hash c))"
  using assms
  by (auto simp: verified_demo_execution_context_def Let_def rbind_Inr_iff split: if_splits sum.splits)

section \<open>The approval\<close>

lemma approval_usable:
  assumes "approval_block_reason_for_execution en r v approval s = (Inr None, s1)"
  shows "\<exists>a t e n. approval = Some a \<and> get a ''evidence_manifest_hash'' = PStr (evidence_fingerprint (sn_hash en) r (Some v)) \<and>
    get a ''consumed_at'' = PNone \<and> as_text (get a ''expires_at'') = Some t \<and> parse_time (sn_crypto en) t = Inr e \<and>
    sn_micros en n < e"
proof -
  from assms obtain a where a: "approval = Some a"
    by (cases approval) (simp_all add: approval_block_reason_for_execution_def sreturn_def)
  from assms have h: "get a ''evidence_manifest_hash'' = PStr (evidence_fingerprint (sn_hash en) r (Some v))"
    "get a ''consumed_at'' = PNone"
    by (auto simp: approval_block_reason_for_execution_def a sreturn_def split: if_splits)
  from assms obtain s2 where x: "(case as_text (get a ''expires_at'') of None \<Rightarrow> sreturn True | Some t \<Rightarrow> is_expired_utc en t) s
      = (Inr False, s2)"
    by (auto simp: approval_block_reason_for_execution_def a h sbind_Inr sreturn_def split: if_splits)
  then obtain t where t: "as_text (get a ''expires_at'') = Some t" "is_expired_utc en t s = (Inr False, s2)"
    by (auto simp: sreturn_def split: option.splits)
  from t(2) obtain e where "parse_time (sn_crypto en) t = Inr e" "sn_micros en (ss_tick s) < e"
    by (auto simp: is_expired_utc_def sreturn_def sbind_def ticking_def split: sum.splits)
  with a h t(1) show ?thesis by blast
qed

text \<open>After its consumption the approval stays in the stored release.\<close>

definition holds_approval :: "string \<Rightarrow> dict \<Rightarrow> release_row list \<Rightarrow> bool" where
  "holds_approval rid a rows = (\<exists>r. view rows rid = Some r \<and> rl_approval r = Some a)"

definition ends :: "string \<Rightarrow> dict \<Rightarrow> demo_service \<Rightarrow> (demo_service, 'a) act \<Rightarrow> bool" where
  "ends rid a s m = holds_approval rid a (release_rows (snd (m s)))"

named_theorems ends_rules \<open>the structure of actions that keep an approval\<close>

lemma ends_bind:
  "ends rid a s m \<Longrightarrow>
   (\<And>x s1. m s = (Inr x, s1) \<Longrightarrow> holds_approval rid a (release_rows s1) \<Longrightarrow> ends rid a s1 (f x)) \<Longrightarrow>
   ends rid a s (sbind m f)"
  by (cases "m s"; cases "fst (m s)") (simp_all add: ends_def sbind_def)

lemma ends_keeps: "keeps m \<Longrightarrow> holds_approval rid a (release_rows s) \<Longrightarrow> ends rid a s m"
  by (simp add: ends_def keeps_def)

lemma ends_bind_keeps:
  assumes "keeps m" "holds_approval rid a (release_rows s)"
    and "\<And>x s1. m s = (Inr x, s1) \<Longrightarrow> release_rows s1 = release_rows s \<Longrightarrow> ends rid a s1 (f x)"
  shows "ends rid a s (sbind m f)"
  by (rule ends_bind, rule ends_keeps [OF assms(1,2)], rule assms(3)) (use assms(1) in \<open>auto simp: keeps_def dest: spec [of _ s]\<close>)

lemma ends_if [ends_rules]: "(b \<Longrightarrow> ends rid a s x) \<Longrightarrow> (\<not> b \<Longrightarrow> ends rid a s y) \<Longrightarrow> ends rid a s (if b then x else y)"
  by simp

lemma ends_option [ends_rules]:
  "(v = None \<Longrightarrow> ends rid a s x) \<Longrightarrow> (\<And>y. v = Some y \<Longrightarrow> ends rid a s (f y)) \<Longrightarrow>
   ends rid a s (case v of None \<Rightarrow> x | Some y \<Rightarrow> f y)"
  by (cases v) simp_all

lemma ends_sum [ends_rules]:
  "(\<And>y. v = Inl y \<Longrightarrow> ends rid a s (f y)) \<Longrightarrow> (\<And>y. v = Inr y \<Longrightarrow> ends rid a s (g y)) \<Longrightarrow>
   ends rid a s (case v of Inl y \<Rightarrow> f y | Inr y \<Rightarrow> g y)"
  by (cases v) simp_all

lemma transition_approval:
  assumes "transition_release_or_409 r to u = Inr r'" "\<And>x. rl_approval (u x) = rl_approval x" "benign u"
  shows "rl_approval r' = rl_approval r" "rl_release_id r' = rl_release_id r"
  using assms
  by (auto simp: transition_release_or_409_def with_computed_release_tier_def transition_Inr benign_def same_identity_def
      split: sum.splits transition_error.splits)

lemma ends_move:
  assumes v: "view (release_rows s) rid = Some r" "rl_approval r = Some a"
    and u: "\<And>x. rl_approval (u x) = rl_approval x" "benign u"
  shows "ends rid a s (move_release en r to u)"
proof (cases "transition_release_or_409 r to u")
  case (Inl e)
  then have "snd (move_release en r to u s) = s" by (simp add: move_release_def sbind_def slift_def)
  with v show ?thesis by (auto simp: ends_def holds_approval_def)
next
  case (Inr r')
  note t = transition_approval [OF Inr u]
  have m: "move_release en r to u = save_release en r'" by (simp add: move_release_def Inr bind_slift)
  let ?s1 = "s\<lparr> ss_tick := Suc (ss_tick s) \<rparr>"
  have rows: "release_rows ?s1 = release_rows s" by (simp add: release_rows_def)
  show ?thesis
  proof (cases "update_release_candidate (ss_store s) r' (sn_now en (ss_tick s))")
    case (Inl e)
    then have "snd (save_release en r' s) = ?s1"
      by (simp add: save_release_def sbind_def utc_now_def ticking_def)
    with v rows show ?thesis by (auto simp: ends_def holds_approval_def m)
  next
    case (Inr x)
    obtain saved st where x: "x = (saved, st)" by (cases x)
    note w = update_release_Inr [OF Inr [unfolded x]]
    have "view (st_releases st) rid = Some saved"
      using w(2) view_id [OF v(1)] t(2) by (simp add: get_release_eq_row view_def)
    moreover have "rl_approval saved = Some a" using w(1) t(1) v(2) by simp
    moreover have "release_rows (snd (save_release en r' s)) = st_releases st"
      by (simp add: save_release_def sbind_def utc_now_def ticking_def Inr x release_rows_def)
    ultimately show ?thesis by (simp add: ends_def holds_approval_def m)
  qed
qed

lemma ends_consumed:
  assumes "view (release_rows s) rid = Some r" "rl_approval r = Some a"
  shows "ends rid a s (execute_consumed en request rid ex r)"
proof -
  have h: "holds_approval rid a (release_rows s)" using assms by (simp add: holds_approval_def)
  show ?thesis
    unfolding execute_consumed_def execute_approved_def request_order_def execution_answer_def release_executed_def
    using assms h
    by - (rule ends_rules | (rule ends_bind_keeps, (rule keeps_rules)+, simp)
        | (rule ends_bind, rule ends_move, simp, simp, simp, rule benign_updates)
        | (rule ends_keeps, (rule keeps_rules)+, simp) | assumption)+
qed


section \<open>The gate\<close>

lemma quiet_answer [quiet_rules]: "quiet (execution_answer en request rid r run d execution)"
  unfolding execution_answer_def by (rule quiet_rules)+

lemma request_order_loud:
  assumes "loud s (request_order en request rid r ex d run)"
  obtains c oid ad where "verified_demo_execution_context en run ex = Inr (Inr c)"
    "make_client_oid (sn_hash en) (vd_receipt_hash c) (vd_intent c) = Inr oid" "demo_adapter en = Inr ad"
    "sends (proper_request ad (vd_intent c) oid) 2 (ss_sent s) (ss_sent (snd (request_order en request rid r ex d run s)))"
proof -
  let ?all = "request_order en request rid r ex d run s"
  obtain s1 where 1: "ss_sent s1 = ss_sent s"
    "loud s1 (sbind (slift (case rl_approval r of None \<Rightarrow> Inl TypeError | Some a \<Rightarrow> approval_record_hash (sn_hash en) a)) (\<lambda>h.
          sbind (execute_bitget_demo_order en run ex h) (execution_answer en request rid r run d)))"
    "?all = sbind (slift (case rl_approval r of None \<Rightarrow> Inl TypeError | Some a \<Rightarrow> approval_record_hash (sn_hash en) a)) (\<lambda>h.
          sbind (execute_bitget_demo_order en run ex h) (execution_answer en request rid r run d)) s1"
    by (rule loud_bind [OF assms [unfolded request_order_def], OF quiet_audit]) (simp add: request_order_def)
  obtain h s2 where 2: "ss_sent s2 = ss_sent s1"
    "loud s2 (sbind (execute_bitget_demo_order en run ex h) (execution_answer en request rid r run d))"
    "?all = sbind (execute_bitget_demo_order en run ex h) (execution_answer en request rid r run d) s2"
    by (rule loud_bind [OF 1(2), OF quiet_basic(2)]) (simp add: 1(3))
  note first = loud_first [OF 2(2) quiet_answer]
  obtain c oid ad where "verified_demo_execution_context en run ex = Inr (Inr c)"
    "make_client_oid (sn_hash en) (vd_receipt_hash c) (vd_intent c) = Inr oid" "demo_adapter en = Inr ad"
    "sends (proper_request ad (vd_intent c) oid) 2 (ss_sent s2) (ss_sent (snd (execute_bitget_demo_order en run ex h s2)))"
    by (rule execute_loud [OF first(1)])
  with first(2) 1(1) 2(1,3) show thesis by (intro that) simp_all
qed

lemma approved_loud:
  assumes "loud s (execute_approved en request rid r ex d)"
  obtains run_id run c oid ad where "rl_run_id r = Some run_id" "get_run (ss_store s) run_id = Some run"
    "verified_demo_execution_context en run ex = Inr (Inr c)"
    "make_client_oid (sn_hash en) (vd_receipt_hash c) (vd_intent c) = Inr oid" "demo_adapter en = Inr ad"
    "sends (proper_request ad (vd_intent c) oid) 2 (ss_sent s) (ss_sent (snd (execute_approved en request rid r ex d s)))"
proof (cases "rl_run_id r")
  case None
  with assms show thesis by (simp add: execute_approved_def loud_def sreturn_def)
next
  case (Some run_id)
  then have e: "execute_approved en request rid r ex d = sbind (get_run_or_404 run_id) (request_order en request rid r ex d)"
    by (simp add: execute_approved_def)
  obtain run s1 where 1: "get_run_or_404 run_id s = (Inr run, s1)" "ss_sent s1 = ss_sent s"
    "loud s1 (request_order en request rid r ex d run)"
    "execute_approved en request rid r ex d s = request_order en request rid r ex d run s1"
    by (rule loud_bind [OF assms [unfolded e], OF quiet_get(3)]) (simp add: e)
  have run: "get_run (ss_store s) run_id = Some run"
    using 1(1) by (auto simp: get_run_or_404_def split: option.splits)
  show thesis by (rule request_order_loud [OF 1(3)], rule that [OF Some run], assumption+) (simp add: 1(2,4))
qed

lemma consumed_loud:
  assumes "loud s (execute_consumed en request rid ex r)"
  obtains policy d where "rl_risk_policy r = Some policy" "risk_policy_breach policy ex = Inr d" "\<not> risk_blocked d"
    "loud s (execute_approved en request rid r (apply_risk_policy_decision ex d) d)"
    "execute_consumed en request rid ex r s = execute_approved en request rid r (apply_risk_policy_decision ex d) d s"
proof -
  from assms obtain policy where p: "rl_risk_policy r = Some policy"
    by (cases "rl_risk_policy r") (simp_all add: execute_consumed_def loud_def sreturn_def)
  from assms p obtain d where d: "risk_policy_breach policy ex = Inr d"
    by (cases "risk_policy_breach policy ex") (simp_all add: execute_consumed_def loud_def sbind_def slift_def)
  let ?stop = "sbind (move_release en r Rel_BLOCKED_RISK_POLICY id) (\<lambda>updated.
      sbind (append_release_audit_event en rid ''risk_policy_checked'' (audit_actor request (rl_created_by r))
               ((''ok'', PBool False) # breach_payload d)) (\<lambda>_.
        sreturn (release_answer rid False (rl_state updated) (Some ''RISK_POLICY_BREACH'') (breach_payload d))))"
  have e: "execute_consumed en request rid ex r = (if risk_blocked d then ?stop
      else execute_approved en request rid r (apply_risk_policy_decision ex d) d)"
    by (simp add: execute_consumed_def p d bind_slift)
  have "quiet ?stop" by (rule quiet_rules)+
  with assms e have b: "\<not> risk_blocked d" by (auto dest: quiet_not_loud)
  with assms e have "loud s (execute_approved en request rid r (apply_risk_policy_decision ex d) d)" by simp
  with p d b e show thesis by (intro that) simp_all
qed


lemma with_approval_loud:
  assumes l: "loud s (execute_with_approval en request rid ex r v)"
    and ok: "rows_ok (release_rows s)" "view (release_rows s) rid = Some r"
  obtains a t e n r' s1 where "rl_approval r = Some a"
    "get a ''evidence_manifest_hash'' = PStr (evidence_fingerprint (sn_hash en) r (Some v))" "get a ''consumed_at'' = PNone"
    "as_text (get a ''expires_at'') = Some t" "parse_time (sn_crypto en) t = Inr e" "sn_micros en n < e"
    "view (release_rows s1) rid = Some r'" "st_runs (ss_store s1) = st_runs (ss_store s)" "ss_sent s1 = ss_sent s"
    "\<exists>a' k. r' = r\<lparr> rl_approval := Some (put a ''consumed_at'' (PStr a')), rl_updated_at := k \<rparr>"
    "loud s1 (execute_consumed en request rid ex r')"
    "execute_with_approval en request rid ex r v s = execute_consumed en request rid ex r' s1"
proof -
  let ?after = "\<lambda>consumed. case consumed of
      None \<Rightarrow> sreturn (release_answer rid False Rel_BLOCKED_APPROVAL (Some (reason_value RC_APPROVAL_CONSUMED)) [])
    | Some r' \<Rightarrow> execute_consumed en request rid ex r'"
  let ?use = "sbind (consume_current_approval en r Release_Approval) ?after"
  obtain block s0 where b: "approval_block_reason_for_execution en r v (rl_approval r) s = (Inr block, s0)"
    "ss_sent s0 = ss_sent s"
    "loud s0 (case block of Some reason \<Rightarrow> sreturn (release_answer rid False Rel_BLOCKED_APPROVAL (Some reason) []) | None \<Rightarrow> ?use)"
    "execute_with_approval en request rid ex r v s =
       (case block of Some reason \<Rightarrow> sreturn (release_answer rid False Rel_BLOCKED_APPROVAL (Some reason) []) | None \<Rightarrow> ?use) s0"
    by (rule loud_bind [OF l [unfolded execute_with_approval_def Let_def], OF quiet_block_reason])
       (simp add: execute_with_approval_def)
  from b(3) have none: "block = None" by (cases block) (simp_all add: loud_def sreturn_def)
  from approval_usable [OF b(1) [unfolded none]] obtain a t e n where a: "rl_approval r = Some a"
    "get a ''evidence_manifest_hash'' = PStr (evidence_fingerprint (sn_hash en) r (Some v))" "get a ''consumed_at'' = PNone"
    "as_text (get a ''expires_at'') = Some t" "parse_time (sn_crypto en) t = Inr e" "sn_micros en n < e" by blast
  have s0: "ss_store s0 = ss_store s"
    using b(1) a by (auto simp: approval_block_reason_for_execution_def sbind_Inr sreturn_def is_expired_utc_def ticking_def
        split: if_splits sum.splits)
  then have rows0: "release_rows s0 = release_rows s" by (simp add: release_rows_def)
  obtain consumed s1 where c: "consume_current_approval en r Release_Approval s0 = (Inr consumed, s1)"
    "ss_sent s1 = ss_sent s0" "loud s1 (?after consumed)" "?use s0 = ?after consumed s1"
    by (rule loud_bind [OF b(3) [unfolded none option.case], OF quiet_consume])
  from c(3) obtain r' where r': "consumed = Some r'" by (cases consumed) (simp_all add: loud_def sreturn_def)
  from consume_current [OF c(1)] ok rows0 r' obtain a' k nonce where k: "view (release_rows s1) rid = Some r'"
    "r' = r\<lparr> rl_approval := Some a', rl_updated_at := k \<rparr>" "consume_read (ss_store s0) rid nonce k = Some a'"
    by metis
  have "get_release_candidate (ss_store s0) rid = Some r" using ok(2) rows0 by (simp add: get_release_view)
  with k(3) a(1) have "a' = put a ''consumed_at'' (PStr k)" by (simp add: consume_read_def split: if_splits)
  moreover have "st_runs (ss_store s1) = st_runs (ss_store s0)"
    using c(1) by (auto simp: consume_current_approval_def sbind_def utc_now_def ticking_def sreturn_def Let_def
        consume_release_approval_def consume_write_def split: option.splits pyval.splits prod.splits if_splits)
  moreover have "execute_with_approval en request rid ex r v s = execute_consumed en request rid ex r' s1"
    by (simp only: b(4) none option.case c(4) r')
  ultimately show thesis using a k c(2,3) b(2) s0 r' by (intro that [of a t e n s1 r']) auto
qed


text \<open>The approval is for the present evidence, not consumed, and not expired at some reading of the clock.\<close>

definition approval_stands :: "demo_env \<Rightarrow> release \<Rightarrow> strategy_version \<Rightarrow> dict \<Rightarrow> bool" where
  "approval_stands en r v a \<longleftrightarrow>
     get a ''evidence_manifest_hash'' = PStr (evidence_fingerprint (sn_hash en) r (Some v)) \<and>
     get a ''consumed_at'' = PNone \<and>
     (\<exists>t e n. as_text (get a ''expires_at'') = Some t \<and> parse_time (sn_crypto en) t = Inr e \<and> sn_micros en n < e)"

definition run_stands :: "demo_env \<Rightarrow> run_response \<Rightarrow> execution_request \<Rightarrow> string \<Rightarrow> bool" where
  "run_stands en run ex receipt_hash \<longleftrightarrow>
     rn_state run = Run_PASS \<and> rn_receipt_hash run = Some receipt_hash \<and>
     (\<exists>policy v. trust_policy_path en run ex = Some policy \<and>
        verify (sn_hash en) (sn_crypto en) (verify_call en run policy) = Inr v \<and>
        vr_status v = VS_VERIFIED \<and> vr_reason v = RC_PASS \<and> vr_chain_status v = CS_CHAINED \<and>
        vr_receipt_hash v = Some receipt_hash)"

lemma executed_gate:
  assumes ok: "rows_ok (release_rows s)" "view (release_rows s) rid = Some r"
    and l: "loud s (execute_with_approval en request rid ex r v)"
  shows "\<exists>a policy d run_id run receipt_hash i oid ad.
    rl_approval r = Some a \<and> approval_stands en r v a \<and>
    rl_risk_policy r = Some policy \<and> risk_policy_breach policy ex = Inr d \<and> \<not> risk_blocked d \<and>
    rl_run_id r = Some run_id \<and> get_run (ss_store s) run_id = Some run \<and>
    run_stands en run (apply_risk_policy_decision ex d) receipt_hash \<and>
    demo_intent en (apply_risk_policy_decision ex d) = Inr i \<and>
    make_client_oid (sn_hash en) receipt_hash i = Inr oid \<and> demo_adapter en = Inr ad \<and>
    sends (proper_request ad i oid) 2 (ss_sent s) (ss_sent (snd (execute_with_approval en request rid ex r v s))) \<and>
    (\<exists>t. holds_approval rid (put a ''consumed_at'' (PStr t))
       (release_rows (snd (execute_with_approval en request rid ex r v s))))"
proof -
  obtain a t e n r' s1 where a: "rl_approval r = Some a"
    "get a ''evidence_manifest_hash'' = PStr (evidence_fingerprint (sn_hash en) r (Some v))" "get a ''consumed_at'' = PNone"
    "as_text (get a ''expires_at'') = Some t" "parse_time (sn_crypto en) t = Inr e" "sn_micros en n < e"
    and s1: "view (release_rows s1) rid = Some r'" "st_runs (ss_store s1) = st_runs (ss_store s)" "ss_sent s1 = ss_sent s"
    and r': "\<exists>a' k. r' = r\<lparr> rl_approval := Some (put a ''consumed_at'' (PStr a')), rl_updated_at := k \<rparr>"
    and l1: "loud s1 (execute_consumed en request rid ex r')"
    and same: "execute_with_approval en request rid ex r v s = execute_consumed en request rid ex r' s1"
    by (rule with_approval_loud [OF l ok])
  obtain policy d where p: "rl_risk_policy r' = Some policy" "risk_policy_breach policy ex = Inr d" "\<not> risk_blocked d"
    "loud s1 (execute_approved en request rid r' (apply_risk_policy_decision ex d) d)"
    "execute_consumed en request rid ex r' s1 = execute_approved en request rid r' (apply_risk_policy_decision ex d) d s1"
    by (rule consumed_loud [OF l1])
  obtain run_id run c oid ad where x: "rl_run_id r' = Some run_id" "get_run (ss_store s1) run_id = Some run"
    "verified_demo_execution_context en run (apply_risk_policy_decision ex d) = Inr (Inr c)"
    "make_client_oid (sn_hash en) (vd_receipt_hash c) (vd_intent c) = Inr oid" "demo_adapter en = Inr ad"
    "sends (proper_request ad (vd_intent c) oid) 2 (ss_sent s1)
       (ss_sent (snd (execute_approved en request rid r' (apply_risk_policy_decision ex d) d s1)))"
    by (rule approved_loud [OF p(4)])
  obtain a' k where k: "r' = r\<lparr> rl_approval := Some (put a ''consumed_at'' (PStr a')), rl_updated_at := k \<rparr>" using r' by blast
  have stands: "approval_stands en r v a" using a unfolding approval_stands_def by blast
  have run: "get_run (ss_store s) run_id = Some run" using x(2) s1(2) by (simp add: get_run_def get_run_row_def)
  have rs: "run_stands en run (apply_risk_policy_decision ex d) (vd_receipt_hash c)"
    "demo_intent en (apply_risk_policy_decision ex d) = Inr (vd_intent c)"
    using context_verified [OF x(3)] unfolding run_stands_def by blast+
  have held: "holds_approval rid (put a ''consumed_at'' (PStr a'))
      (release_rows (snd (execute_with_approval en request rid ex r v s)))"
    using ends_consumed [OF s1(1), of "put a ''consumed_at'' (PStr a')" en request ex]
    by (simp add: ends_def same k)
  have sent: "sends (proper_request ad (vd_intent c) oid) 2 (ss_sent s)
      (ss_sent (snd (execute_with_approval en request rid ex r v s)))"
    using x(6) s1(3) p(5) same by simp
  have f: "rl_risk_policy r = Some policy" "rl_run_id r = Some run_id" using p(1) x(1) by (simp_all add: k)
  show ?thesis using a(1) stands f p(2,3) run rs x(4,5) sent held by blast
qed

lemma endpoint_loud:
  assumes "loud s (execute_release_demo_endpoint en request rid ex)"
  obtains r v where "view (release_rows s) rid = Some r" "rl_state r = Rel_APPROVED" "rl_execution_evidence r = None"
    "\<not> execution_freeze_enabled en" "get_strategy_version (ss_store s) (rl_version_id r) = Some v"
    "loud s (execute_with_approval en request rid ex r v)"
    "execute_release_demo_endpoint en request rid ex s = execute_with_approval en request rid ex r v s"
proof -
  from assms obtain r where r: "get_release_candidate (ss_store s) rid = Some r"
    by (cases "get_release_candidate (ss_store s) rid")
       (simp_all add: loud_def execute_release_demo_endpoint_def sbind_def get_release_or_404_def)
  have e: "execute_release_demo_endpoint en request rid ex s =
      (if execution_freeze_enabled en then sreturn (release_blocked r ''REDLINE_EXECUTION_FREEZE'')
       else case rl_execution_evidence r of
              Some evidence \<Rightarrow> sreturn (release_answer rid True (rl_state r) None evidence)
            | None \<Rightarrow>
                if rl_state r \<in> set BLOCKED_STATES
                then sreturn (release_answer rid False (rl_state r) (Some (upper (release_state_value (rl_state r)))) [])
                else if rl_state r \<noteq> Rel_APPROVED
                then sreturn (release_answer rid False (rl_state r) (Some ''RELEASE_NOT_APPROVED'') [])
                else sbind (get_strategy_version_for_release_or_404 r) (execute_with_approval en request rid ex r)) s"
    by (simp add: execute_release_demo_endpoint_def sbind_def get_release_or_404_def r)
  with assms have g: "\<not> execution_freeze_enabled en" "rl_execution_evidence r = None" "rl_state r = Rel_APPROVED"
    by (auto simp: loud_def sreturn_def split: option.splits if_splits)
  from g have e2: "execute_release_demo_endpoint en request rid ex s
      = sbind (get_strategy_version_for_release_or_404 r) (execute_with_approval en request rid ex r) s"
    unfolding e by (simp add: BLOCKED_STATES_def)
  with assms obtain v where v: "get_strategy_version (ss_store s) (rl_version_id r) = Some v"
    by (cases "get_strategy_version (ss_store s) (rl_version_id r)")
       (simp_all add: loud_def sbind_def get_strategy_version_for_release_or_404_def)
  with e2 have "execute_release_demo_endpoint en request rid ex s = execute_with_approval en request rid ex r v s"
    by (simp add: sbind_def get_strategy_version_for_release_or_404_def)
  with assms g v r show thesis by (intro that [of r v]) (simp_all add: loud_def get_release_view)
qed


end
