(* ===== verification/Service_Errors.thy ===== *)
theory Service_Errors
  imports Order_Gate
begin

text \<open>
  What the handlers do when they refuse: an answer with an HTTP error is given before anything is written
  to the store or to an audit ledger, and an approval is granted only to those and in the case it is for.
\<close>

section \<open>Errors that are not HTTP errors\<close>

fun not_http :: "exn + 'a \<Rightarrow> bool" where
  "not_http (Inl (HTTPException n)) = False"
| "not_http _ = True"

lemma not_http_bind: "not_http v \<Longrightarrow> (\<And>x. v = Inr x \<Longrightarrow> not_http (f x)) \<Longrightarrow> not_http (rbind v f)"
  by (cases v; cases "projl v") auto

lemma not_http_traverse: "(\<And>x. x \<in> set xs \<Longrightarrow> not_http (f x)) \<Longrightarrow> not_http (traverse f xs)"
  by (induction xs) (auto intro!: not_http_bind)

lemma normalize_not_http: "not_http (normalize en v)"
proof (induction en v rule: normalize.induct)
  case (9 en xs)
  then show ?case by (auto intro!: not_http_bind not_http_traverse)
next
  case (10 en kvs)
  then show ?case by (fastforce intro!: not_http_bind not_http_traverse)
next
  case (11 en kvs)
  then show ?case by (fastforce intro!: not_http_bind not_http_traverse)
qed (simp_all add: canonical_number_def Let_def)

lemma hash_not_http: "not_http (hash_obj H en v)"
  by (auto simp: hash_obj_def canonical_bytes_def intro!: not_http_bind normalize_not_http)

lemma ddiv_not_http: "not_http (ddiv a b)" and dmul_not_http: "not_http (dmul a b)"
  by (simp_all add: ddiv_def dmul_def dop_def Let_def)

lemma text_items_not_http: "not_http (text_items v)"
  by (cases v) (auto intro!: not_http_traverse split: option.split)

lemma decimal_field_not_http: "not_http (decimal_field p k)"
  by (simp add: decimal_field_def Let_def split: option.split)

lemma adjusted_not_http: "not_http (adjusted_execution_size sz a b)"
  unfolding adjusted_execution_size_def
  by (simp split: option.split pydec.split) (auto intro!: not_http_bind ddiv_not_http dmul_not_http)

lemma risk_not_http: "not_http (risk_policy_breach p ex)"
  unfolding risk_policy_breach_def Let_def
  by (auto intro!: not_http_bind text_items_not_http decimal_field_not_http adjusted_not_http split: option.split)

lemma load_audit_not_http: "not_http (load_audit_from H p ls)"
  by (induction H p ls rule: load_audit_from.induct)
     (auto intro!: not_http_bind hash_not_http simp: release_audit_entry_hash_def split: option.split)

lemma append_audit_not_http: "not_http (append_audit H f rid et actor now payload)"
  unfolding append_audit_def Let_def
  by (auto intro!: not_http_bind load_audit_not_http hash_not_http
      simp: release_dir_def load_release_audit_ledger_def release_audit_entry_hash_def split: option.split)

section \<open>Refusals\<close>

definition same_records :: "'b service_scheme \<Rightarrow> 'b service_scheme \<Rightarrow> bool" where
  "same_records s s' = (ss_store s' = ss_store s \<and> ss_audit s' = ss_audit s)"

lemma same_records_refl [simp]: "same_records s s"
  by (simp add: same_records_def)

lemma same_records_trans: "same_records a b \<Longrightarrow> same_records b c \<Longrightarrow> same_records a c"
  by (simp add: same_records_def)

text \<open>\<open>refuses\<close>: an HTTP error leaves the records; \<open>steady\<close>: so does success; \<open>unrefused\<close>: no HTTP error.\<close>

named_theorems refusal_rules \<open>how actions refuse\<close>

definition refuses :: "('b service_scheme, 'a) act \<Rightarrow> bool" where
  "refuses m = (\<forall>s n s'. m s = (Inl (HTTPException n), s') \<longrightarrow> n \<in> {401, 404, 409} \<and> same_records s s')"

definition steady :: "('b service_scheme, 'a) act \<Rightarrow> bool" where
  "steady m = (\<forall>s x s'. m s = (Inr x, s') \<longrightarrow> same_records s s')"

definition unrefused :: "('b service_scheme, 'a) act \<Rightarrow> bool" where
  "unrefused m = (\<forall>s. not_http (fst (m s)))"

lemma refuses_bind:
  assumes "refuses m" "steady m" "\<And>x. refuses (f x)"
  shows "refuses (sbind m f)"
  unfolding refuses_def
proof (intro allI impI)
  fix s n s'
  assume a: "sbind m f s = (Inl (HTTPException n), s')"
  show "n \<in> {401, 404, 409} \<and> same_records s s'"
  proof (cases "m s")
    case (Pair v s1)
    show ?thesis
    proof (cases v)
      case (Inl e)
      with a Pair have "m s = (Inl (HTTPException n), s')" by (simp add: sbind_def)
      with assms(1) show ?thesis unfolding refuses_def by blast
    next
      case (Inr x)
      with a Pair have "f x s1 = (Inl (HTTPException n), s')" by (simp add: sbind_def)
      with assms(3) have "n \<in> {401, 404, 409} \<and> same_records s1 s'" unfolding refuses_def by blast
      moreover have "same_records s s1" using assms(2) Pair Inr unfolding steady_def by blast
      ultimately show ?thesis using same_records_trans by blast
    qed
  qed
qed

lemma unrefused_refuses: "unrefused m \<Longrightarrow> refuses m"
  by (auto simp: unrefused_def refuses_def) (metis fst_conv not_http.simps(1))+

lemma unrefused_bind [refusal_rules]: "unrefused m \<Longrightarrow> (\<And>x. unrefused (f x)) \<Longrightarrow> unrefused (sbind m f)"
  unfolding unrefused_def sbind_def
proof (intro allI)
  fix s
  assume m: "\<forall>s. not_http (fst (m s))" and f: "\<And>x. \<forall>s. not_http (fst (f x s))"
  from m have "not_http (fst (m s))" by blast
  with f show "not_http (fst (case m s of (Inl e, s') \<Rightarrow> (Inl e, s') | (Inr x, s') \<Rightarrow> f x s'))"
    by (cases "m s"; cases "fst (m s)") (auto, metis not_http.simps(1) not_http.elims(3) old.sum.exhaust sum.inject(1))
qed

lemma refuses_last: "refuses m \<Longrightarrow> (\<And>x. unrefused (f x)) \<Longrightarrow> refuses (sbind m f)"
  unfolding refuses_def
proof (intro allI impI)
  fix s n s'
  assume m: "\<forall>s n s'. m s = (Inl (HTTPException n), s') \<longrightarrow> n \<in> {401, 404, 409} \<and> same_records s s'"
    and f: "\<And>x. unrefused (f x)" and a: "sbind m f s = (Inl (HTTPException n), s')"
  show "n \<in> {401, 404, 409} \<and> same_records s s'"
  proof (cases "m s")
    case (Pair v s1)
    show ?thesis
    proof (cases v)
      case (Inl e)
      with a Pair have "m s = (Inl (HTTPException n), s')" by (simp add: sbind_def)
      with m show ?thesis by blast
    next
      case (Inr x)
      with a Pair have "f x s1 = (Inl (HTTPException n), s')" by (simp add: sbind_def)
      with f [of x] show ?thesis unfolding unrefused_def by (metis fst_conv not_http.simps(1))
    qed
  qed
qed

lemma steady_basic [refusal_rules]:
  "steady (sreturn x)" "steady (slift r)" "steady (ticking g)" "steady (utc_now en)" "steady (\<lambda>s. (h s, s))"
  by (auto simp: steady_def sreturn_def slift_def ticking_def utc_now_def same_records_def)

lemma steady_bind [refusal_rules]:
  assumes "steady m" "\<And>x. steady (f x)"
  shows "steady (sbind m f)"
  unfolding steady_def
proof (intro allI impI)
  fix s y s'
  assume "sbind m f s = (Inr y, s')"
  then obtain x s1 where "m s = (Inr x, s1)" "f x s1 = (Inr y, s')" unfolding sbind_Inr by blast
  with assms show "same_records s s'" unfolding steady_def using same_records_trans by blast
qed

lemma steady_cases [refusal_rules]:
  "steady x \<Longrightarrow> steady y \<Longrightarrow> steady (if b then x else y)"
  by simp

lemma refuses_cases [refusal_rules]:
  "(b \<Longrightarrow> refuses x) \<Longrightarrow> (\<not> b \<Longrightarrow> refuses y) \<Longrightarrow> refuses (if b then x else y)"
  "refuses w \<Longrightarrow> (\<And>z. refuses (f z)) \<Longrightarrow> refuses (case v of None \<Rightarrow> w | Some z \<Rightarrow> f z)"
  by (simp_all split: option.split)

lemma unrefused_cases [refusal_rules]:
  "unrefused x \<Longrightarrow> unrefused y \<Longrightarrow> unrefused (if b then x else y)"
  by simp

lemma unrefused_basic [refusal_rules]:
  "unrefused (sreturn x)" "unrefused (ticking g)" "unrefused (utc_now en)" "unrefused (\<lambda>s. (Inr (h s), k s))"
  by (simp_all add: unrefused_def sreturn_def ticking_def utc_now_def)

lemma unrefused_slift: "not_http v \<Longrightarrow> unrefused (slift v)"
  by (simp add: unrefused_def slift_def)

lemma unrefused_read: "(\<And>s. not_http (g s)) \<Longrightarrow> unrefused (\<lambda>s. (g s, s))"
  by (simp add: unrefused_def)

lemmas reads_first = refuses_bind refuses_bind [OF unrefused_refuses]

section \<open>The steps of the handlers\<close>

lemma refuses_get [refusal_rules]:
  "refuses (get_release_or_404 rid)" "refuses (get_run_or_404 rid)"
  "refuses (get_strategy_version_for_release_or_404 r)" "refuses (slift (current_principal who))"
  "refuses (slift (assert_release_not_terminal r))" "refuses (slift (transition_release_or_409 r to u))"
  "refuses (slift (Inl (HTTPException 404)))" "refuses (slift (Inl (HTTPException 409)))"
  by (auto simp: refuses_def get_release_or_404_def get_run_or_404_def get_strategy_version_for_release_or_404_def slift_def
      current_principal_def assert_release_not_terminal_def transition_release_or_409_def
      split: option.splits if_splits sum.splits transition_error.splits)

lemma steady_get [refusal_rules]:
  "steady (get_release_or_404 rid)" "steady (get_run_or_404 rid)" "steady (get_strategy_version_for_release_or_404 r)"
  by (auto simp: steady_def get_release_or_404_def get_run_or_404_def get_strategy_version_for_release_or_404_def
      split: option.splits)

lemma steady_json [refusal_rules]: "steady (write_release_json rid name payload)"
  by (auto simp: steady_def write_release_json_def same_records_def split: sum.splits)

lemma unrefused_json [refusal_rules]: "unrefused (write_release_json rid name payload)"
  by (simp add: unrefused_def write_release_json_def release_dir_def)

lemma unrefused_hash [refusal_rules]: "unrefused (slift (hash_obj H en v))"
  by (rule unrefused_slift) (rule hash_not_http)

lemma not_http_case:
  "not_http v \<Longrightarrow> (\<And>x. v = Inr x \<Longrightarrow> not_http (fst (f x))) \<Longrightarrow>
   not_http (fst (case v of Inl e \<Rightarrow> (Inl e, s) | Inr x \<Rightarrow> f x))"
  by (cases v; cases "projl v") simp_all

lemma update_not_http: "not_http (update_release_candidate st r now)"
  by (simp add: update_release_candidate_def Let_def split: option.split)

lemma append_entry_not_http: "not_http (append_release_audit_entry st rid entry)"
  by (simp add: append_release_audit_entry_def split: option.split pyval.split)

lemma unrefused_save [refusal_rules]: "unrefused (save_release en r)"
  unfolding save_release_def
  by (rule unrefused_bind, rule refusal_rules)
     (auto simp: unrefused_def intro!: not_http_case update_not_http)

lemma unrefused_audit [refusal_rules]: "unrefused (append_release_audit_event en rid et actor payload)"
  unfolding append_release_audit_event_def
  by (rule unrefused_bind, rule refusal_rules)
     (auto simp: unrefused_def Let_def intro!: not_http_case append_audit_not_http append_entry_not_http)

lemma unrefused_fresh [refusal_rules]: "unrefused (fresh_id en pre body)" "unrefused (approval_nonce en)" "unrefused (approval_expires_at en)"
  unfolding approval_nonce_def approval_expires_at_def fresh_id_def by (rule refusal_rules)+

lemma steady_fresh [refusal_rules]: "steady (fresh_id en pre body)" "steady (approval_nonce en)" "steady (approval_expires_at en)"
  unfolding approval_nonce_def approval_expires_at_def fresh_id_def by (rule refusal_rules)+

lemma unrefused_given [refusal_rules]: "unrefused (given_release_id en p)" "steady (given_release_id en p)"
  unfolding given_release_id_def by (rule refusal_rules)+

lemma create_not_http: "not_http (create_release_candidate st r now)"
  by (auto simp: create_release_candidate_def Let_def split: option.split)

lemma refuses_store_new [refusal_rules]: "refuses (store_new_release en r)"
  unfolding store_new_release_def
proof (rule refuses_bind, rule unrefused_refuses, rule refusal_rules, rule refusal_rules)
  fix now
  show "refuses (\<lambda>s. case create_release_candidate (ss_store s) r now of
      Inl e \<Rightarrow> (Inl (if is_value_error e then HTTPException 409 else e), s)
    | Inr (created, st) \<Rightarrow> (Inr created, s\<lparr> ss_store := st \<rparr>))"
    unfolding refuses_def
  proof (intro allI impI)
    fix s n s'
    assume "(case create_release_candidate (ss_store s) r now of
        Inl e \<Rightarrow> (Inl (if is_value_error e then HTTPException 409 else e), s)
      | Inr (created, st) \<Rightarrow> (Inr created, s\<lparr> ss_store := st \<rparr>)) = (Inl (HTTPException n), s')"
    with create_not_http [of "ss_store s" r now] show "n \<in> {401, 404, 409} \<and> same_records s s'"
      by (cases "create_release_candidate (ss_store s) r now") (auto split: if_splits)
  qed
qed

lemma refuses_replay [refusal_rules]: "refuses (idempotency_replay en scope key payload)"
  using hash_not_http [of "sn_hash en" True payload]
  by (auto simp: refuses_def idempotency_replay_def split: if_splits option.splits sum.splits)

lemma steady_replay [refusal_rules]: "steady (idempotency_replay en scope key payload)"
  by (auto simp: steady_def idempotency_replay_def split: if_splits option.splits sum.splits)

lemma unrefused_idempotency_store [refusal_rules]: "unrefused (idempotency_store en scope key payload response code)"
proof (cases "nonempty key")
  case True
  then show ?thesis by (simp only: idempotency_store_def not_True_eq_False if_False) (rule refusal_rules)+
next
  case False
  then show ?thesis by (simp only: idempotency_store_def not_False_eq_True if_True refusal_rules)
qed

lemma unrefused_store_read [refusal_rules]:
  "unrefused (slift (risk_policy_breach p ex))" "unrefused (slift (policy_hash H p))"
  "unrefused (slift (simulation_evidence_hash H p))"
  by (auto simp: policy_hash_def simulation_evidence_hash_def intro!: unrefused_slift risk_not_http not_http_bind hash_not_http)

lemma unrefused_audit_creation [refusal_rules]: "unrefused (audit_creation en who v created)"
  unfolding audit_creation_def by (rule refusal_rules)+

lemma block_reason_not_http: "not_http (approval_block_reason st r)"
  by (auto simp: approval_block_reason_def intro!: not_http_bind risk_not_http split: option.split)

lemma refuses_block_reason [refusal_rules]: "refuses (\<lambda>s. (approval_block_reason (ss_store s) r, s))"
  by (rule unrefused_refuses) (simp add: unrefused_def block_reason_not_http)

section \<open>Every handler\<close>

lemma create_refuses: "refuses (create_release_candidate_endpoint en who p key)"
  unfolding create_release_candidate_endpoint_def
  by (rule refusal_rules | (rule reads_first, rule refusal_rules, rule refusal_rules)
      | (rule refuses_last, rule refusal_rules, (rule refusal_rules)+) | (rule unrefused_refuses, (rule refusal_rules)+))+

lemma bind_run_refuses: "refuses (bind_redline_run_endpoint en who rid run_id)"
  unfolding bind_redline_run_endpoint_def Let_def
  by (rule refusal_rules | (rule reads_first, rule refusal_rules, rule refusal_rules)
      | (rule unrefused_refuses, (rule refusal_rules)+))+

lemma import_refuses: "refuses (import_simulation_evidence_endpoint en who rid p)"
  unfolding import_simulation_evidence_endpoint_def import_evidence_def Let_def
  by (rule refusal_rules | (rule reads_first, rule refusal_rules, rule refusal_rules)
      | (rule unrefused_refuses, (rule refusal_rules)+))+

lemma bind_policy_refuses: "refuses (bind_risk_policy_endpoint en who rid p)"
  unfolding bind_risk_policy_endpoint_def Let_def
  by (rule refusal_rules | (rule reads_first, rule refusal_rules, rule refusal_rules)
      | (rule unrefused_refuses, (rule refusal_rules)+))+

lemma store_approval_refuses [refusal_rules]: "refuses (store_approval en r a)"
  unfolding store_approval_def
  by (rule refusal_rules | (rule reads_first, rule refusal_rules, rule refusal_rules)
      | (rule unrefused_refuses, (rule refusal_rules)+))+

lemma approve_refuses: "refuses (approve_release_endpoint en who rid q)"
  unfolding approve_release_endpoint_def grant_approval_def Let_def
  by (rule refusal_rules | (rule reads_first, rule refusal_rules, rule refusal_rules)
      | (rule refuses_last, rule refusal_rules, (rule refusal_rules)+) | (rule unrefused_refuses, (rule refusal_rules)+))+

lemma reject_refuses: "refuses (reject_release_endpoint en who rid q)"
  unfolding reject_release_endpoint_def Let_def
  by (rule refusal_rules | (rule reads_first, rule refusal_rules, rule refusal_rules)
      | (rule unrefused_refuses, (rule refusal_rules)+))+

lemma kill_refuses: "refuses (kill_release_endpoint en who rid)"
  unfolding kill_release_endpoint_def
  by (rule refusal_rules | (rule reads_first, rule refusal_rules, rule refusal_rules)
      | (rule unrefused_refuses, (rule refusal_rules)+))+


section \<open>Jobs\<close>

lemma append_event_not_http: "not_http (append_release_job_event H st rid jid et payload now)"
  by (auto simp: append_release_job_event_def Let_def intro!: not_http_bind hash_not_http)

lemma create_job_not_http: "not_http (create_release_job st jid rid jt request_hash d key requested_by now)"
  by (simp add: create_release_job_def Let_def split: option.split)

lemma unrefused_log_event [refusal_rules]: "unrefused (log_job_event en rid jid et payload)"
  unfolding log_job_event_def
  by (rule unrefused_bind, rule refusal_rules) (auto simp: unrefused_def intro!: not_http_case append_event_not_http)

lemma unrefused_store_job [refusal_rules]: "unrefused (store_job en jid rid jt request_hash d key requested_by)"
  unfolding store_job_def
  by (rule unrefused_bind, rule refusal_rules) (auto simp: unrefused_def intro!: not_http_case create_job_not_http)

lemma unrefused_claim [refusal_rules]: "unrefused (claim_release_job en)"
  unfolding claim_release_job_def
  by (rule unrefused_bind, rule refusal_rules) (simp add: unrefused_def split: prod.split)

lemma queue_refuses: "refuses (queue_job en who rid ex key name jt payload code)"
  unfolding queue_job_def
  by (rule refusal_rules | (rule reads_first, rule refusal_rules, rule refusal_rules) | (rule unrefused_refuses, (rule refusal_rules)+))+

lemma cancel_finds:
  assumes "get_release_job (ss_store s) rid jid \<noteq> None"
  obtains j s' where "cancel_queued en rid jid s = (Inr (Some j), s')"
proof -
  let ?st = "snd (cancel_release_job (ss_store s) rid jid (sn_now en (ss_tick s)))"
  from assms obtain j where j: "j \<in> set (st_jobs (ss_store s))" "jb_release_id j = rid" "jb_job_id j = jid"
    by (auto simp: get_release_job_def dest: first_row_Some)
  let ?Q = "\<lambda>j. jb_release_id j = rid \<and> jb_job_id j = jid \<and> jb_status j = Job_QUEUED"
  obtain f where f: "st_jobs ?st = update_rows ?Q f (st_jobs (ss_store s))"
    "\<And>x. jb_release_id (f x) = jb_release_id x \<and> jb_job_id (f x) = jb_job_id x"
    by (simp add: cancel_release_job_def Let_def)
  have "(if ?Q j then f j else j) \<in> set (st_jobs ?st)" unfolding f(1) update_rows_def set_map using j(1) by (rule imageI)
  moreover have "jb_release_id (if ?Q j then f j else j) = rid" "jb_job_id (if ?Q j then f j else j) = jid"
    using f(2) [of j] j(2,3) by simp_all
  ultimately have "\<exists>x \<in> set (st_jobs ?st). jb_release_id x = rid \<and> jb_job_id x = jid" by blast
  then obtain x where x: "get_release_job ?st rid jid = Some x"
    unfolding get_release_job_def by (metis (mono_tags, lifting) first_row_None option.exhaust)
  have "fst (cancel_release_job (ss_store s) rid jid (sn_now en (ss_tick s))) = get_release_job ?st rid jid"
    by (simp add: cancel_release_job_def Let_def)
  with x show thesis by (intro that) (simp add: cancel_queued_def sbind_def utc_now_def ticking_def split_beta)
qed

lemma cancel_unrefused:
  assumes "get_release_job (ss_store s) rid jid \<noteq> None" "\<And>j. unrefused (m j)"
  shows "not_http (fst (sbind (cancel_queued en rid jid)
    (\<lambda>c. case c of None \<Rightarrow> slift (Inl (HTTPException 404)) | Some j \<Rightarrow> m j) s))"
proof -
  obtain j s' where "cancel_queued en rid jid s = (Inr (Some j), s')" by (rule cancel_finds [OF assms(1)])
  with assms(2) [of j] show ?thesis by (simp add: sbind_def unrefused_def)
qed

lemma refuses_found:
  assumes "\<And>s j. get_release_job (ss_store s) rid jid = Some j \<Longrightarrow> not_http (fst (f j s))"
  shows "refuses (sbind (get_job_or_404 rid jid) f)"
  unfolding refuses_def
proof (intro allI impI)
  fix s n s'
  assume a: "sbind (get_job_or_404 rid jid) f s = (Inl (HTTPException n), s')"
  show "n \<in> {401, 404, 409} \<and> same_records s s'"
  proof (cases "get_release_job (ss_store s) rid jid")
    case None
    with a show ?thesis by (auto simp: sbind_def get_job_or_404_def)
  next
    case (Some j)
    with a have "f j s = (Inl (HTTPException n), s')" by (simp add: sbind_def get_job_or_404_def)
    with assms [OF Some] show ?thesis by simp
  qed
qed

lemma unrefusedD: "unrefused m \<Longrightarrow> not_http (fst (m s))"
  by (simp add: unrefused_def)

lemma cancel_refuses: "refuses (cancel_release_job_endpoint en who rid jid)"
  unfolding cancel_release_job_endpoint_def
proof (rule reads_first, rule refusal_rules, rule refusal_rules, rule reads_first, rule refusal_rules, rule refusal_rules,
    rule refuses_found)
  fix p j s
  assume found: "get_release_job (ss_store s) rid jid = Some j"
  show "not_http (fst ((if jb_status j = Job_QUEUED
      then sbind (cancel_queued en rid jid) (\<lambda>cancelled. case cancelled of
             None \<Rightarrow> slift (Inl (HTTPException 404))
           | Some j \<Rightarrow> sbind (log_job_event en rid jid ''job_cancelled''
                 [(''actor'', PStr (pr_principal_id p)), (''stage'', PStr ''queued'')]) (\<lambda>_. sreturn j))
      else if jb_status j = Job_RUNNING
      then sbind (log_job_event en rid jid ''job_cancel_requested''
                 [(''actor'', PStr (pr_principal_id p)), (''detail'', PStr ''Bitget request may already be in flight'')])
             (\<lambda>_ s. (Inr (case get_release_job (ss_store s) rid jid of None \<Rightarrow> j | Some j \<Rightarrow> j), s))
      else sreturn j) s))"
  proof (cases "jb_status j = Job_QUEUED")
    case True
    have "not_http (fst (sbind (cancel_queued en rid jid) (\<lambda>cancelled. case cancelled of
             None \<Rightarrow> slift (Inl (HTTPException 404))
           | Some j \<Rightarrow> sbind (log_job_event en rid jid ''job_cancelled''
                 [(''actor'', PStr (pr_principal_id p)), (''stage'', PStr ''queued'')]) (\<lambda>_. sreturn j)) s))"
      by (rule cancel_unrefused) (simp add: found, (rule refusal_rules)+)
    with True show ?thesis by simp
  next
    case False
    show ?thesis unfolding if_not_P [OF False] by (rule unrefusedD) (rule refusal_rules)+
  qed
qed

section \<open>Refused requests\<close>

text \<open>C7: a refused request changes nothing: when a request of the release life cycle is answered with an HTTP error, the
  error is 401, 404 or 409, and neither the metadata store nor any audit ledger has changed. (Requests that
  place an order are not meant: they use up the approval before they look for the run.)\<close>

theorem refused_requests_change_nothing:
  assumes "handle_request en who q s = (Inl (HTTPException n), s')"
    and "\<forall>x ex key w. q \<noteq> Execute_Demo x ex \<and> q \<noteq> Execute_Run x ex \<and> q \<noteq> Showcase_Order x ex key \<and> q \<noteq> Work_On_Job w"
  shows "n \<in> {401, 404, 409} \<and> ss_store s' = ss_store s \<and> ss_audit s' = ss_audit s"
proof -
  have c: "refuses (claim_release_job en)" by (rule unrefused_refuses) (rule refusal_rules)
  have q: "refuses (quietly m)" if "refuses m" for m :: "(demo_service, 'a) act"
    unfolding quietly_def by (rule refuses_last [OF that]) (rule refusal_rules)
  have "refuses (handle_request en who q)"
    using assms(2)
    by (cases q) (simp_all add: q create_refuses bind_run_refuses import_refuses bind_policy_refuses approve_refuses
        reject_refuses kill_refuses queue_refuses cancel_refuses c
        create_release_execute_demo_job_endpoint_def create_release_showcase_order_job_endpoint_def)
  with assms(1) show ?thesis unfolding refuses_def same_records_def by blast
qed

section \<open>The approval gate\<close>

lemma approval_reason_None:
  assumes "approval_block_reason st r = Inr None"
  obtains run_id run policy d where "rl_run_id r = Some run_id" "get_run st run_id = Some run" "rn_state run = Run_PASS"
    "rn_reason_code run = Some (reason_value RC_PASS)" "nonempty (rl_redline_receipt_hash r)"
    "rl_redline_receipt_hash r = rn_receipt_hash run" "rl_risk_policy r = Some policy"
    "risk_policy_breach policy default_execution_request = Inr d" "\<not> risk_blocked d"
    "rl_state r \<notin> {Rel_KILLED, Rel_REJECTED, Rel_BLOCKED_WITHHELD, Rel_BLOCKED_UNVERIFIED, Rel_BLOCKED_RISK_POLICY,
      Rel_BLOCKED_EXCHANGE_ERROR}"
proof -
  have passed: "rn_state run = Run_PASS \<and> rn_reason_code run = Some (reason_value RC_PASS)"
    if "state_for_bound_run run = Rel_REDLINE_PASSED" for run
    using that by (auto simp: state_for_bound_run_def split: if_splits)
  from assms show thesis
    by (auto simp: approval_block_reason_def rbind_Inr_iff split: if_splits option.splits intro!: that dest: passed)
qed

lemma save_release_Inr:
  assumes "save_release en r s = (Inr saved, s')"
  shows "\<exists>t. saved = r\<lparr> rl_updated_at := t \<rparr> \<and> view (release_rows s') (rl_release_id r) = Some saved"
  using assms
  by (auto simp: save_release_def sbind_def utc_now_def ticking_def release_rows_def view_def get_release_eq_row [symmetric]
      dest: update_release_Inr split: sum.splits)

definition approval_kept :: "release \<Rightarrow> dict \<Rightarrow> release \<Rightarrow> bool" where
  "approval_kept r a r' \<longleftrightarrow>
     (if rl_state r = Rel_RELEASE_READY
      then rl_state r' = Rel_RELEASE_READY \<and> get (rl_metadata r') ''showcase_approval'' = PDict a
      else rl_state r' \<in> {Rel_APPROVED, Rel_BLOCKED_MISSING_EVIDENCE} \<and> rl_approval r' = Some a)"

lemma transition_409_state:
  "transition_release_or_409 r to u = Inr r' \<Longrightarrow> benign u \<Longrightarrow> rl_state r' \<in> {to, Rel_BLOCKED_MISSING_EVIDENCE}"
  by (auto simp: transition_release_or_409_def with_computed_release_tier_def transition_Inr benign_def
      split: sum.splits transition_error.splits)

lemma store_approval_Inr:
  assumes "store_approval en r a s = (Inr updated, s')"
  shows "view (release_rows s') (rl_release_id r) = Some updated \<and> approval_kept r a updated"
proof (cases "rl_state r = Rel_RELEASE_READY")
  case True
  with assms show ?thesis by (auto simp: store_approval_def approval_kept_def dest!: save_release_Inr)
next
  case False
  let ?u = "\<lambda>x. x\<lparr> rl_approval := Some a \<rparr>"
  from assms False obtain r1 where r1: "transition_release_or_409 r Rel_APPROVED ?u = Inr r1" "save_release en r1 s = (Inr updated, s')"
    by (auto simp: store_approval_def sbind_Inr slift_def)
  have "rl_approval r1 = Some a"
    using r1(1) by (auto simp: transition_release_or_409_def with_computed_release_tier_def transition_Inr
        split: sum.splits transition_error.splits)
  moreover have "rl_release_id r1 = rl_release_id r"
    using r1(1) by (auto simp: transition_release_or_409_def with_computed_release_tier_def transition_Inr
        split: sum.splits transition_error.splits)
  moreover note transition_409_state [OF r1(1) benign_updates(5)] save_release_Inr [OF r1(2)]
  ultimately show ?thesis using False by (auto simp: approval_kept_def)
qed

lemma keeps_rows: "keeps m \<Longrightarrow> m s = (x, s') \<Longrightarrow> release_rows s' = release_rows s"
  by (metis keeps_def snd_conv)

lemma grant_Inr:
  assumes "grant_approval en who rid q r s = (Inr a, s')" "view (release_rows s) rid = Some r"
  obtains v approval r' where "get_strategy_version (ss_store s) (rl_version_id r) = Some v"
    "get approval ''evidence_manifest_hash'' = PStr (evidence_fingerprint (sn_hash en) r (Some v))"
    "get approval ''reviewer_id'' = PStr (pr_principal_id who)" "get approval ''consumed_at'' = PNone"
    "ar_evidence a = [(''approval'', PDict approval)]"
    "view (release_rows s') rid = Some r'" "approval_kept r approval r'" "ar_state a = rl_state r'"
proof -
  from assms(1) obtain v s1 now s2 nonce s3 expires s4 updated s5 e s6 where
    v: "get_strategy_version_for_release_or_404 r s = (Inr v, s1)"
    and a: "store_approval en r (approval_record en who q r v now nonce expires) s4 = (Inr updated, s5)"
    and b: "append_release_audit_event en rid ''approval_granted'' (pr_principal_id who)
            [(''evidence_manifest_hash'', PStr (evidence_fingerprint (sn_hash en) r (Some v))),
             (''package_hash'', PStr (sv_package_hash v)), (''identity_lock_hash'', opt_str (sv_identity_lock_hash v)),
             (''risk_policy_hash'', opt_str (rl_risk_policy_hash r)),
             (''actor_auth'', PDict (principal_audit_payload who))] s5 = (Inr e, s6)"
    and c: "a = release_answer rid True (rl_state updated) None
              [(''approval'', PDict (approval_record en who q r v now nonce expires))]" "s' = s6"
    unfolding grant_approval_def Let_def sbind_Inr sreturn_def by auto
  let ?a = "approval_record en who q r v now nonce expires"
  have "get_strategy_version (ss_store s) (rl_version_id r) = Some v"
    using v by (auto simp: get_strategy_version_for_release_or_404_def split: option.splits)
  moreover have "get ?a ''evidence_manifest_hash'' = PStr (evidence_fingerprint (sn_hash en) r (Some v))"
    "get ?a ''reviewer_id'' = PStr (pr_principal_id who)" "get ?a ''consumed_at'' = PNone"
    by (simp_all add: approval_record_def reviewer_fields_def get_def)
  moreover have "view (release_rows s') rid = Some updated" "approval_kept r ?a updated"
    using store_approval_Inr [OF a] keeps_rows [OF keeps_audit b] c(2) view_id [OF assms(2)] by simp_all
  ultimately show thesis using c(1) by (intro that) (simp_all add: release_answer_def)
qed

lemma approve_Inr:
  assumes "approve_release_endpoint en request rid q s = (Inr a, s')" "ar_ok a"
  obtains r who where "view (release_rows s) rid = Some r" "request = Some who" "\<not> release_freeze_enabled en"
    "is_legacy_service_principal who \<or> pr_role who \<in> set APPROVAL_ROLES \<and> pr_principal_id who \<noteq> rl_created_by r"
    "approval_block_reason (ss_store s) r = Inr None" "grant_approval en who rid q r s = (Inr a, s')"
proof -
  from assms(1) obtain r where r: "get_release_candidate (ss_store s) rid = Some r"
    by (auto simp: approve_release_endpoint_def sbind_Inr get_release_or_404_def split: option.splits)
  from assms(1) obtain who where who: "request = Some who"
    by (auto simp: approve_release_endpoint_def sbind_Inr slift_def current_principal_def split: option.splits)
  let ?no = "\<lambda>reason. sreturn (release_answer rid False Rel_BLOCKED_APPROVAL (Some reason) [])"
  let ?ask = "sbind (\<lambda>s. (approval_block_reason (ss_store s) r, s))
      (\<lambda>blocked. case blocked of Some reason \<Rightarrow> ?no reason | None \<Rightarrow> grant_approval en who rid q r)"
  have e: "approve_release_endpoint en request rid q s =
     (if release_freeze_enabled en then sreturn (release_blocked r ''REDLINE_RELEASE_FREEZE'')
      else if pr_role who \<notin> set APPROVAL_ROLES \<and> \<not> is_legacy_service_principal who then ?no ''APPROVAL_ROLE_DENIED''
      else if pr_principal_id who = rl_created_by r \<and> \<not> is_legacy_service_principal who
      then ?no ''SELF_APPROVAL_FORBIDDEN'' else ?ask) s"
    by (simp only: approve_release_endpoint_def sbind_def get_release_or_404_def r slift_def current_principal_def who Let_def
        option.case sum.case prod.case)
  have no: "\<not> ar_ok a" if "sreturn (release_answer x False y z w) s = (Inr a, s')" for x y z w
    using that by (auto simp: sreturn_def release_answer_def)
  have g: "\<not> release_freeze_enabled en"
    "is_legacy_service_principal who \<or> pr_role who \<in> set APPROVAL_ROLES \<and> pr_principal_id who \<noteq> rl_created_by r"
    and tried: "?ask s = (Inr a, s')"
    using assms no unfolding e release_blocked_def by (simp_all only: split: if_splits) blast+
  from tried obtain blocked where b: "approval_block_reason (ss_store s) r = Inr blocked"
    "(case blocked of Some reason \<Rightarrow> ?no reason | None \<Rightarrow> grant_approval en who rid q r) s = (Inr a, s')"
    unfolding sbind_Inr by auto
  with no assms(2) have "blocked = None" by (cases blocked) auto
  with b g r who show thesis by (intro that [of r who]) (simp_all add: get_release_view)
qed


end
