(* ===== verification/Job_Facts.thy ===== *)
theory Job_Facts
  imports Order_Gate
begin

text \<open>
  What the workers do with the job queue: a cancelled job sends nothing, and a worker that drains the queue comes
  to an end with every job that it took finished, whatever the orders answer or raise.
\<close>

section \<open>Actions that leave the jobs as they are\<close>

named_theorems idle_rules \<open>actions that change no job\<close>

definition jobs_of :: "'b service_scheme \<Rightarrow> release_job list" where
  "jobs_of s = st_jobs (ss_store s)"

definition idle :: "('b service_scheme, 'a) act \<Rightarrow> bool" where
  "idle m = (\<forall>s. jobs_of (snd (m s)) = jobs_of s)"

lemma idleI: "(\<And>s. jobs_of (snd (m s)) = jobs_of s) \<Longrightarrow> idle m"
  by (simp add: idle_def)

lemma idle_bind [idle_rules]: "idle m \<Longrightarrow> (\<And>x. idle (f x)) \<Longrightarrow> idle (sbind m f)"
  by (rule idleI, simp add: sbind_def split: prod.split sum.split) (metis idle_def snd_conv)

lemma idle_basic [idle_rules]:
  "idle (sreturn x)" "idle (slift r)" "idle (ticking g)" "idle (utc_now en)" "idle (\<lambda>s. (h s, s))"
  by (simp_all add: idle_def sreturn_def slift_def ticking_def utc_now_def jobs_of_def)

lemma idle_if [idle_rules]: "idle x \<Longrightarrow> idle y \<Longrightarrow> idle (if b then x else y)"
  by simp

lemma idle_option [idle_rules]: "idle x \<Longrightarrow> (\<And>y. idle (f y)) \<Longrightarrow> idle (case v of None \<Rightarrow> x | Some y \<Rightarrow> f y)"
  by (cases v) simp_all

lemma idle_sum [idle_rules]:
  "(\<And>y. idle (f y)) \<Longrightarrow> (\<And>y. idle (g y)) \<Longrightarrow> idle (case v of Inl y \<Rightarrow> f y | Inr y \<Rightarrow> g y)"
  by (cases v) simp_all

lemma idle_prod [idle_rules]: "(\<And>x y. idle (f x y)) \<Longrightarrow> idle (case p of (x, y) \<Rightarrow> f x y)"
  by (cases p) simp

lemma idle_replayable [idle_rules]:
  "(\<And>d. idle (f d)) \<Longrightarrow> (\<And>x. idle (g x)) \<Longrightarrow> idle (case v of Replayed d \<Rightarrow> f d | Answered x \<Rightarrow> g x)"
  by (cases v) simp_all

lemma idle_catching [idle_rules]: "idle m \<Longrightarrow> idle (catching_blocked m h)"
  by (simp add: idle_def catching_blocked_def split: prod.split sum.split option.split) (metis snd_conv)

lemma idle_get [idle_rules]:
  "idle (get_release_or_404 rid)" "idle (get_strategy_version_for_release_or_404 r)" "idle (get_run_or_404 rid)"
  "idle (read_release rid)" "idle (job_cancel_requested env rid jid)" "idle (run_evidence en run)"
  by (simp_all add: idle_def get_release_or_404_def get_strategy_version_for_release_or_404_def get_run_or_404_def
      read_release_def job_cancel_requested_def run_evidence_def split: option.split)

lemma update_release_jobs: "update_release_candidate st r now = Inr (saved, st') \<Longrightarrow> st_jobs st' = st_jobs st"
  by (auto simp: update_release_candidate_def Let_def split: if_splits option.splits)

lemma idle_save [idle_rules]: "idle (save_release en r)"
  unfolding save_release_def
  by (rule idle_bind, rule idle_rules, rule idleI) (auto simp: jobs_of_def dest: update_release_jobs split: sum.split)

lemma audit_entry_jobs: "append_release_audit_entry st rid e = Inr st' \<Longrightarrow> st_jobs st' = st_jobs st"
  by (auto simp: append_release_audit_entry_def split: option.splits pyval.splits if_splits)

lemma idle_audit [idle_rules]: "idle (append_release_audit_event en rid et actor payload)"
  unfolding append_release_audit_event_def
  by (rule idle_bind, rule idle_rules, rule idleI)
     (auto simp: jobs_of_def Let_def dest: audit_entry_jobs split: sum.split prod.split)

lemma idle_replay [idle_rules]: "idle (idempotency_replay en scope key payload)"
  by (simp add: idle_def idempotency_replay_def split: option.split sum.split)

lemma idle_idempotency_store [idle_rules]: "idle (idempotency_store en scope key payload response code)"
proof (cases "nonempty key")
  case True
  show ?thesis
    unfolding idempotency_store_def
    by (simp only: True not_True_eq_False if_False, (rule idle_bind, rule idle_basic)+, rule idleI)
       (simp add: jobs_of_def put_idempotency_record_def split: option.split)
next
  case False
  then show ?thesis by (simp only: idempotency_store_def not_False_eq_True if_True idle_rules)
qed

lemma idle_fresh_id [idle_rules]: "idle (fresh_id en pre body)"
  unfolding fresh_id_def by (rule idle_rules)+

lemma idle_move [idle_rules]: "idle (move_release en r to u)"
  unfolding move_release_def by (rule idle_rules)+

lemma consume_jobs:
  "st_jobs (snd (consume_release_approval st rid nonce t)) = st_jobs st"
  "st_jobs (snd (consume_release_showcase_approval st rid nonce t)) = st_jobs st"
  by (simp_all add: consume_release_approval_def consume_release_showcase_approval_def consume_write_def showcase_write_def
      Let_def
      split: option.split prod.split)

lemma idle_consume [idle_rules]: "idle (consume_current_approval en r kind)"
  by (rule idleI)
     (simp add: consume_current_approval_def Let_def sbind_def utc_now_def ticking_def sreturn_def jobs_of_def consume_jobs
        split_beta split: option.split pyval.split)

lemma idle_files [idle_rules]:
  "idle (exchanging g)" "idle (save_preflight en dir pf)" "idle (save_order_status en dir os)"
  "idle (save_evidence en out_dir ledger_dir run_dir a)" "idle (update_manifest en run)"
  by (simp_all add: idle_def jobs_of_def exchanging_def save_preflight_def save_order_status_def save_evidence_def set_file_def
      update_manifest_def sbind_def utc_now_def ticking_def update_artifact_manifest_def update_run_def split: prod.split)

lemma idle_orders [idle_rules]:
  "idle (place_verified_bitget_demo_order en run c oid dir ledger_dir h)" "idle (already_placed en run c oid h e)"
  unfolding place_verified_bitget_demo_order_def already_placed_def Let_def by (rule idle_rules)+

lemma idle_once [idle_rules]: "idle (place_once en run c oid h)"
  unfolding place_once_def by (rule idle_rules)+

lemma idle_execute [idle_rules]:
  "idle (execute_bitget_demo_order en run ex h)" "idle (execute_bitget_demo_showcase_order en rid run ex h)"
  unfolding execute_bitget_demo_order_def execute_bitget_demo_showcase_order_def Let_def by (rule idle_rules)+

lemma idle_block_reason [idle_rules]: "idle (approval_block_reason_for_execution en r v a)"
  unfolding approval_block_reason_for_execution_def is_expired_utc_def by (rule idle_rules)+

lemma idle_executed [idle_rules]: "idle (release_executed en request rid r run d evidence)"
  unfolding release_executed_def by (rule idle_rules)+

lemma idle_execute_demo [idle_rules]: "idle (execute_release_demo_endpoint en request rid ex)"
  unfolding execute_release_demo_endpoint_def execute_with_approval_def execute_consumed_def execute_approved_def
    request_order_def execution_answer_def Let_def
  by (rule idle_rules)+

lemma idle_record [idle_rules]: "idle (record_answer en rid key ex a)"
  unfolding record_answer_def by (rule idle_rules)+

lemma idle_showcase [idle_rules]: "idle (create_release_demo_showcase_order_endpoint en request rid ex key)"
  unfolding create_release_demo_showcase_order_endpoint_def showcase_consumed_def place_showcase_def Let_def
  by (rule idle_rules)+

lemma event_jobs: "append_release_job_event H st rid jid et payload now = Inr (e, st') \<Longrightarrow> st_jobs st' = st_jobs st"
  by (auto simp: append_release_job_event_def Let_def rbind_Inr_iff split: if_splits)

lemma idle_log [idle_rules]: "idle (log_job_event en rid jid et payload)"
  unfolding log_job_event_def
  by (rule idle_bind, rule idle_rules, rule idleI) (auto simp: jobs_of_def dest: event_jobs split: sum.split)

lemmas log_jobs = idle_log [unfolded idle_def, rule_format]

lemma idle_checks [idle_rules]: "idle (log_release_checks en rid jid r)"
  unfolding log_release_checks_def by (rule idle_rules)+

lemma idle_response [idle_rules]: "idle (showcase_response en who rid ex key)"
  unfolding showcase_response_def by (rule idle_rules)+


section \<open>What a worker does to its job\<close>

definition finished :: "release_job \<Rightarrow> bool" where
  "finished j = (jb_status j \<in> {Job_SUCCEEDED, Job_FAILED, Job_CANCELLED})"

text \<open>Only the job with one id changes, and it keeps its id.\<close>

definition job_frame :: "string \<Rightarrow> 'b service_scheme \<Rightarrow> 'b service_scheme \<Rightarrow> bool" where
  "job_frame jid s s' = (\<exists>f. (\<forall>j. jb_job_id (f j) = jb_job_id j) \<and>
     jobs_of s' = map (\<lambda>j. if jb_job_id j = jid then f j else j) (jobs_of s))"

definition job_over :: "string \<Rightarrow> 'b service_scheme \<Rightarrow> bool" where
  "job_over jid s = (\<forall>j \<in> set (jobs_of s). jb_job_id j = jid \<longrightarrow> finished j)"

definition settles :: "string \<Rightarrow> ('b service_scheme, 'a) act \<Rightarrow> bool" where
  "settles jid m = (\<forall>s x s'. m s = (Inr x, s') \<longrightarrow> job_over jid s')"

definition frames :: "string \<Rightarrow> ('b service_scheme, 'a) act \<Rightarrow> bool" where
  "frames jid m = (\<forall>s. job_frame jid s (snd (m s)))"

lemma job_frame_refl: "jobs_of s' = jobs_of s \<Longrightarrow> job_frame jid s s'"
  unfolding job_frame_def by (rule exI [of _ "\<lambda>j. j"]) simp

lemma job_frame_trans:
  assumes "job_frame jid a b" "job_frame jid b c"
  shows "job_frame jid a c"
proof -
  from assms obtain f g where f: "\<forall>j. jb_job_id (f j) = jb_job_id j"
    "jobs_of b = map (\<lambda>j. if jb_job_id j = jid then f j else j) (jobs_of a)"
    and g: "\<forall>j. jb_job_id (g j) = jb_job_id j" "jobs_of c = map (\<lambda>j. if jb_job_id j = jid then g j else j) (jobs_of b)"
    unfolding job_frame_def by blast
  then show ?thesis unfolding job_frame_def by (intro exI [of _ "g \<circ> f"]) auto
qed

named_theorems job_rules \<open>actions that change one job, and those that finish it\<close>

lemma frames_idle [job_rules]: "idle m \<Longrightarrow> frames jid m"
  by (simp add: frames_def idle_def job_frame_refl)

lemma frames_bind [job_rules]:
  assumes "frames jid m" "\<And>x. frames jid (f x)"
  shows "frames jid (sbind m f)"
  unfolding frames_def
proof
  fix s
  obtain r s1 where m: "m s = (r, s1)" by (cases "m s")
  then have s1: "job_frame jid s s1" using assms(1) unfolding frames_def by (metis snd_conv)
  show "job_frame jid s (snd (sbind m f s))"
  proof (cases r)
    case (Inr x)
    have "job_frame jid s1 (snd (f x s1))" using assms(2) by (simp add: frames_def)
    with s1 m Inr show ?thesis by (simp add: sbind_def job_frame_trans [OF s1])
  qed (use m s1 in \<open>simp add: sbind_def\<close>)
qed

lemma frames_if: "frames jid x \<Longrightarrow> frames jid y \<Longrightarrow> frames jid (if b then x else y)"
  by simp

lemma settles_bind [job_rules]: "(\<And>x. settles jid (f x)) \<Longrightarrow> settles jid (sbind m f)"
  unfolding settles_def sbind_Inr by blast

lemma settles_if [job_rules]: "settles jid x \<Longrightarrow> settles jid y \<Longrightarrow> settles jid (if b then x else y)"
  by simp

lemma settles_first:
  assumes "settles jid m" "\<And>x. idle (f x)"
  shows "settles jid (sbind m f)"
  unfolding settles_def sbind_Inr
proof (intro allI impI, elim exE conjE)
  fix s y s' x s1
  assume "m s = (Inr x, s1)" "f x s1 = (Inr y, s')"
  with assms have "job_over jid s1" "jobs_of s' = jobs_of s1" unfolding settles_def idle_def by (blast, metis snd_conv)
  then show "job_over jid s'" by (simp add: job_over_def)
qed

definition job_marked ::
  "job_status \<Rightarrow> dict option \<Rightarrow> string option \<Rightarrow> string option \<Rightarrow> string \<Rightarrow> release_job \<Rightarrow> release_job" where
  "job_marked st result code message now j =
     j\<lparr> jb_status := st,
        jb_started_at := (if st = Job_RUNNING then coalesce (jb_started_at j) (Some now) else jb_started_at j),
        jb_finished_at := coalesce (if st \<in> {Job_SUCCEEDED, Job_FAILED, Job_CANCELLED} then Some now else None)
                            (jb_finished_at j),
        jb_result := result, jb_error_code := code, jb_error_message := message \<rparr>"

lemma set_status_jobs:
  "jobs_of (snd (set_job_status en jid st result code message s)) =
     map (\<lambda>j. if jb_job_id j = jid then job_marked st result code message (sn_now en (ss_tick s)) j else j) (jobs_of s)"
  by (simp add: set_job_status_def sbind_def utc_now_def ticking_def jobs_of_def mark_release_job_status_def Let_def
      update_rows_def job_marked_def)

lemma job_marked_fields [simp]:
  "jb_job_id (job_marked st result code message now j) = jb_job_id j"
  "jb_status (job_marked st result code message now j) = st"
  by (simp_all add: job_marked_def)

lemma frames_status [job_rules]: "frames jid (set_job_status en jid st result code message)"
  unfolding frames_def job_frame_def set_status_jobs
proof
  fix s
  show "\<exists>f. (\<forall>j. jb_job_id (f j) = jb_job_id j) \<and>
     map (\<lambda>j. if jb_job_id j = jid then job_marked st result code message (sn_now en (ss_tick s)) j else j) (jobs_of s)
     = map (\<lambda>j. if jb_job_id j = jid then f j else j) (jobs_of s)"
    by (rule exI [of _ "job_marked st result code message (sn_now en (ss_tick s))"]) simp
qed

lemma status_over:
  assumes "st \<in> {Job_SUCCEEDED, Job_FAILED, Job_CANCELLED}"
  shows "job_over jid (snd (set_job_status en jid st result code message s))"
  unfolding job_over_def set_status_jobs set_map
proof (intro ballI impI)
  fix j
  assume "j \<in> (\<lambda>j. if jb_job_id j = jid then job_marked st result code message (sn_now en (ss_tick s)) j else j) ` set (jobs_of s)"
    and j: "jb_job_id j = jid"
  then obtain x where x: "j = (if jb_job_id x = jid then job_marked st result code message (sn_now en (ss_tick s)) x else x)"
    by blast
  with j have "jb_job_id x = jid" by (cases "jb_job_id x = jid") simp_all
  with x assms show "finished j" by (simp add: finished_def)
qed

lemma settles_status [job_rules]:
  "st \<in> {Job_SUCCEEDED, Job_FAILED, Job_CANCELLED} \<Longrightarrow> settles jid (set_job_status en jid st result code message)"
  unfolding settles_def using status_over by (metis snd_conv)

lemma outcome_frames [job_rules]:
  "frames jid (job_succeeded en rid jid ks ws a)" "frames jid (job_refused en rid jid sc a)"
  unfolding job_succeeded_def job_refused_def Let_def
  by (rule frames_bind | rule frames_status | (rule frames_idle, (rule idle_rules)+))+

lemma outcome_settles [job_rules]:
  "settles jid (job_succeeded en rid jid ks ws a)" "settles jid (job_refused en rid jid sc a)"
  unfolding job_succeeded_def job_refused_def Let_def
  by ((rule settles_first, rule settles_status, simp, rule idle_rules) | rule settles_bind)+


section \<open>Running one job\<close>

lemma frames_start [job_rules]: "frames jid (start_job en rid jid jt claimed)"
  unfolding start_job_def
  by (rule frames_bind | rule frames_if | rule frames_status | (rule frames_idle, (rule idle_rules)+))+

lemma start_cancelled:
  assumes "start_job en rid jid jt claimed s = (Inr True, s')"
  shows "job_over jid s'"
proof -
  from assms obtain s1 s2 s3 where
    "set_job_status en jid Job_CANCELLED None (Some ''JOB_CANCELLED'')
       (Some ''release job cancelled before Bitget request'') s1 = (Inr (), s2)"
    "log_job_event en rid jid ''job_cancelled'' [(''stage'', PStr ''before_bitget_request'')] s2 = (Inr (), s3)" "s3 = s'"
    by (auto simp: start_job_def sbind_Inr sreturn_def split: if_splits)
  note c = this
  have "job_over jid s2"
    using status_over [of Job_CANCELLED jid en None "Some ''JOB_CANCELLED''" "Some ''release job cancelled before Bitget request''" s1]
    by (simp add: c(1))
  moreover have "jobs_of s' = jobs_of s2"
    using log_jobs [of en rid jid "''job_cancelled''" "[(''stage'', PStr ''before_bitget_request'')]" s2] by (simp add: c(2,3))
  ultimately show ?thesis by (simp add: job_over_def)
qed

lemma settles_start:
  assumes "settles jid m"
  shows "settles jid (sbind (start_job en rid jid jt claimed) (\<lambda>cancelled. if cancelled then sreturn () else m))"
  unfolding settles_def sbind_Inr
proof (intro allI impI, elim exE conjE)
  fix s x s' c s1
  assume "start_job en rid jid jt claimed s = (Inr c, s1)" "(if c then sreturn () else m) s1 = (Inr x, s')"
  with assms start_cancelled [of en rid jid jt claimed s s1] show "job_over jid s'"
    unfolding settles_def by (cases c) (auto simp: sreturn_def)
qed

lemma failing_frames: "frames jid m \<Longrightarrow> frames jid (failing_job en rid jid m)"
  unfolding frames_def
proof
  fix s
  assume m: "\<forall>s. job_frame jid s (snd (m s))"
  obtain r s1 where r: "m s = (r, s1)" by (cases "m s")
  with m have s1: "job_frame jid s s1" by (metis snd_conv)
  have h: "frames jid (sbind (set_job_status en jid Job_FAILED None (Some (exn_name e)) (Some (exn_name e)))
      (\<lambda>_. log_job_event en rid jid ''job_failed'' [(''reason_code'', PStr (exn_name e))]))" for e
    by (rule frames_bind, rule frames_status, rule frames_idle, rule idle_rules)
  show "job_frame jid s (snd (failing_job en rid jid m s))"
  proof (cases r)
    case (Inl e)
    from h [of e, unfolded frames_def, rule_format, of s1] show ?thesis
      by (simp add: failing_job_def r Inl job_frame_trans [OF s1])
  qed (simp add: failing_job_def r s1)
qed

lemma failing_over:
  assumes "settles jid m"
  shows "job_over jid (snd (failing_job en rid jid m s))"
proof -
  obtain r s1 where r: "m s = (r, s1)" by (cases "m s")
  show ?thesis
  proof (cases r)
    case (Inr x)
    with assms r show ?thesis by (simp add: failing_job_def settles_def)
  next
    case (Inl e)
    obtain s2 where s2: "set_job_status en jid Job_FAILED None (Some (exn_name e)) (Some (exn_name e)) s1 = (Inr (), s2)"
      by (simp add: set_job_status_def sbind_def utc_now_def ticking_def)
    have "job_over jid s2" using status_over [of Job_FAILED jid en None _ _ s1] s2 by (metis insertCI snd_conv)
    moreover have "jobs_of (snd (log_job_event en rid jid ''job_failed'' [(''reason_code'', PStr (exn_name e))] s2)) = jobs_of s2"
      by (rule log_jobs)
    ultimately show ?thesis by (simp add: failing_job_def r Inl sbind_def s2 job_over_def)
  qed
qed

lemma run_job_frames [job_rules]:
  "frames jid (run_showcase_order_job en jid rid who ex claimed)"
  "frames jid (run_canonical_execute_demo_job en jid rid who ex claimed)"
  unfolding run_showcase_order_job_def run_canonical_execute_demo_job_def
  by (rule failing_frames,
      (rule frames_bind | rule frames_if | rule frames_start | rule outcome_frames | (rule frames_idle, (rule idle_rules)+))+)+

lemma run_job_over:
  "job_over jid (snd (run_showcase_order_job en jid rid who ex claimed s))"
  "job_over jid (snd (run_canonical_execute_demo_job en jid rid who ex claimed s))"
  unfolding run_showcase_order_job_def run_canonical_execute_demo_job_def
  by (rule failing_over, rule settles_start, (rule settles_bind | rule settles_if | rule outcome_settles)+)+

lemma work_frames: "frames (wi_job_id w) (work_on_job en w)"
  unfolding work_on_job_def Let_def
  by (rule frames_bind | rule frames_if | rule run_job_frames | rule frames_status | (rule frames_idle, (rule idle_rules)+))+

text \<open>The job is over after the work on it, also when the work raises.\<close>

lemma work_over:
  assumes "execution_request_of (wi_request w) = Inr ex"
  shows "job_over (wi_job_id w) (snd (work_on_job en w s))"
proof -
  have other: "job_over (wi_job_id w) (snd (sbind (set_job_status en (wi_job_id w) Job_FAILED None (Some c) (Some d))
      (\<lambda>_. log_job_event en rid (wi_job_id w) et p) s))" for c d rid et p
  proof -
    obtain s2 where s2: "set_job_status en (wi_job_id w) Job_FAILED None (Some c) (Some d) s = (Inr (), s2)"
      by (simp add: set_job_status_def sbind_def utc_now_def ticking_def)
    have "job_over (wi_job_id w) s2" using status_over [of Job_FAILED "wi_job_id w" en None _ _ s] s2 by (metis insertCI snd_conv)
    moreover have "jobs_of (snd (log_job_event en rid (wi_job_id w) et p s2)) = jobs_of s2"
      by (rule log_jobs)
    ultimately show ?thesis by (simp add: sbind_def s2 job_over_def)
  qed
  show ?thesis
    by (simp add: work_on_job_def Let_def assms bind_slift run_job_over other)
qed


section \<open>Draining the queue\<close>

text \<open>Between two states of the queue a job is as it was, or it was queued and is finished.\<close>

definition job_progress :: "release_job \<Rightarrow> release_job \<Rightarrow> bool" where
  "job_progress j j' \<longleftrightarrow> j' = j \<or> jb_status j = Job_QUEUED \<and> finished j' \<and> jb_job_id j' = jb_job_id j"

definition queued_jobs :: "'b service_scheme \<Rightarrow> release_job list" where
  "queued_jobs s = filter (\<lambda>j. jb_status j = Job_QUEUED) (jobs_of s)"

lemma progress_trans: "job_progress a b \<Longrightarrow> job_progress b c \<Longrightarrow> job_progress a c"
  by (auto simp: job_progress_def finished_def)

lemma progress_ids: "list_all2 job_progress xs ys \<Longrightarrow> map jb_job_id ys = map jb_job_id xs"
  by (induction xs ys rule: list_all2_induct) (auto simp: job_progress_def)

lemma progress_queued: "list_all2 job_progress xs ys \<Longrightarrow> y \<in> set ys \<Longrightarrow> jb_status y = Job_QUEUED \<Longrightarrow> y \<in> set xs"
  by (induction xs ys rule: list_all2_induct) (auto simp: job_progress_def finished_def)

lemma claim_cases:
  obtains s1 where "claim_release_job en s = (Inr None, s1)" "queued_jobs s = []" "jobs_of s1 = jobs_of s"
  | row s1 where "claim_release_job en s = (Inr (Some (work_item_of row)), s1)" "row \<in> set (queued_jobs s)"
      "job_frame (jb_job_id row) s s1"
proof (cases "sort_key jb_created_at (queued_jobs s)")
  case Nil
  then have "queued_jobs s = []" by (metis set_empty set_sort)
  moreover from Nil have "claim_release_job en s = (Inr None, s\<lparr> ss_tick := Suc (ss_tick s) \<rparr>)"
    by (simp add: claim_release_job_def sbind_def utc_now_def ticking_def claim_next_release_job_def
        queued_jobs_def jobs_of_def)
  moreover have "jobs_of (s\<lparr> ss_tick := Suc (ss_tick s) \<rparr>) = jobs_of s" by (simp add: jobs_of_def)
  ultimately show thesis using that(1) by blast
next
  case (Cons row rows)
  have row: "row \<in> set (queued_jobs s)" using Cons by (metis list.set_intros(1) set_sort)
  obtain s1 where s1: "claim_release_job en s = (Inr (Some (work_item_of row)), s1)"
    and jobs: "jobs_of s1 = update_rows (\<lambda>j. jb_job_id j = jb_job_id row \<and> jb_status j = Job_QUEUED)
       (\<lambda>j. j\<lparr> jb_status := Job_RUNNING, jb_started_at := coalesce (jb_started_at j) (Some (sn_now en (ss_tick s))) \<rparr>) (jobs_of s)"
    using Cons
    by (simp add: claim_release_job_def sbind_def utc_now_def ticking_def claim_next_release_job_def queued_jobs_def jobs_of_def)
  have "job_frame (jb_job_id row) s s1"
    unfolding job_frame_def jobs update_rows_def
    by (intro exI [of _ "\<lambda>j. if jb_status j = Job_QUEUED
          then j\<lparr> jb_status := Job_RUNNING, jb_started_at := coalesce (jb_started_at j) (Some (sn_now en (ss_tick s))) \<rparr> else j"]) simp
  with s1 row show thesis by (rule that(2))
qed

lemma one_job:
  assumes "distinct (map jb_job_id (jobs_of s))" "row \<in> set (queued_jobs s)" "job_frame (jb_job_id row) s s1"
    and "execution_request_of (jb_request row) = Inr ex"
    and s2: "s2 = snd (work_on_job en (work_item_of row) s1)"
  shows "list_all2 job_progress (jobs_of s) (jobs_of s2)" "length (queued_jobs s2) < length (queued_jobs s)"
proof -
  let ?id = "jb_job_id row"
  have w: "wi_job_id (work_item_of row) = ?id" "wi_request (work_item_of row) = jb_request row"
    by (simp_all add: work_item_of_def)
  have "job_frame ?id s1 s2" using work_frames [of "work_item_of row" en] unfolding w s2 frames_def by blast
  from job_frame_trans [OF assms(3) this] obtain f where f: "\<forall>j. jb_job_id (f j) = jb_job_id j"
    "jobs_of s2 = map (\<lambda>j. if jb_job_id j = ?id then f j else j) (jobs_of s)" unfolding job_frame_def by blast
  have over: "job_over ?id s2" using work_over [of "work_item_of row" ex en s1] assms(4) unfolding w s2 by blast
  have row: "row \<in> set (jobs_of s)" "jb_status row = Job_QUEUED" using assms(2) by (auto simp: queued_jobs_def)
  have fin: "finished (f row)" using over f row(1) by (auto simp: job_over_def)
  have same: "j = row" if "j \<in> set (jobs_of s)" "jb_job_id j = ?id" for j
    using assms(1) row(1) that by (auto simp: distinct_map dest: inj_onD)
  let ?g = "\<lambda>j. if jb_job_id j = ?id then f j else j"
  have p: "job_progress j (?g j)" if "j \<in> set (jobs_of s)" for j
    using same [OF that] fin row(2) f(1) by (auto simp: job_progress_def)
  then show "list_all2 job_progress (jobs_of s) (jobs_of s2)"
    unfolding f(2) list_all2_map2 by (simp add: list_all2_same)
  let ?q = "\<lambda>j. jb_status j = Job_QUEUED"
  have q: "?q (?g j) \<longleftrightarrow> ?q j \<and> j \<noteq> row" if "j \<in> set (jobs_of s)" for j
    using same [OF that] fin by (auto simp: finished_def)
  have "filter (?q \<circ> ?g) (jobs_of s) = filter (\<lambda>j. j \<noteq> row) (queued_jobs s)"
    unfolding queued_jobs_def filter_filter using q by (intro filter_cong) auto
  moreover have "length (filter (\<lambda>j. j \<noteq> row) (queued_jobs s)) < length (queued_jobs s)"
    by (rule length_filter_less [OF assms(2)]) simp
  ultimately show "length (queued_jobs s2) < length (queued_jobs s)"
    unfolding queued_jobs_def [of s2] f(2) filter_map length_map by simp
qed

lemma drain_ends:
  assumes "distinct (map jb_job_id (jobs_of s))"
    and "\<forall>j \<in> set (queued_jobs s). \<exists>ex. execution_request_of (jb_request j) = Inr ex"
    and "length (queued_jobs s) < n"
  shows "\<exists>r s'. drain_release_jobs n en closing s = Some (r, s') \<and> list_all2 job_progress (jobs_of s) (jobs_of s') \<and>
    (r = Inr () \<longrightarrow> queued_jobs s' = [] \<or> closing (ss_tick s'))"
  using assms
proof (induction n arbitrary: s)
  case (Suc n)
  have refl: "list_all2 job_progress (jobs_of s) (jobs_of s)" by (simp add: list_all2_same job_progress_def)
  show ?case
  proof (cases "closing (ss_tick s)")
    case open_for_work: False
    show ?thesis
    proof (cases rule: claim_cases [of en s])
      case (1 s1)
      with open_for_work refl show ?thesis by (simp add: queued_jobs_def)
    next
      case (2 row s1)
      from Suc.prems(2) 2(2) obtain ex where ex: "execution_request_of (jb_request row) = Inr ex" by blast
      obtain r s2 where work: "work_on_job en (work_item_of row) s1 = (r, s2)" by (cases "work_on_job en (work_item_of row) s1")
      then have "s2 = snd (work_on_job en (work_item_of row) s1)" by simp
      note step = one_job [OF Suc.prems(1) 2(2,3) ex this]
      show ?thesis
      proof (cases r)
        case (Inl e)
        with 2(1) work open_for_work step(1) show ?thesis by simp
      next
        case (Inr u)
        have "set (queued_jobs s2) \<subseteq> set (queued_jobs s)"
          using progress_queued [OF step(1)] by (auto simp: queued_jobs_def)
        with Suc.prems(2) have "\<forall>j \<in> set (queued_jobs s2). \<exists>ex. execution_request_of (jb_request j) = Inr ex" by blast
        moreover have "distinct (map jb_job_id (jobs_of s2))" using Suc.prems(1) progress_ids [OF step(1)] by simp
        moreover have "length (queued_jobs s2) < n" using step(2) Suc.prems(3) by simp
        ultimately obtain r' s' where rec: "drain_release_jobs n en closing s2 = Some (r', s')"
          "list_all2 job_progress (jobs_of s2) (jobs_of s')"
          "r' = Inr () \<longrightarrow> queued_jobs s' = [] \<or> closing (ss_tick s')" using Suc.IH [of s2] by blast
        have "list_all2 job_progress (jobs_of s) (jobs_of s')"
          by (rule list_all2_trans [OF progress_trans step(1) rec(2)])
        with rec 2(1) work open_for_work Inr show ?thesis by simp
      qed
    qed
  qed (use refl in simp)
qed simp

text \<open>C9: a worker comes to an end and leaves no job behind: with fuel for one more round than there are queued jobs, the
  drain of the queue ends, every job is as it was or was queued and is now succeeded, failed or
  cancelled (none is left running), whatever the orders answered or raised; and when the worker ends
  without an exception, no job is queued any more or the service is closing.\<close>

theorem worker_drains_queue:
  assumes "distinct (map jb_job_id (st_jobs (ss_store s)))"
    and "\<forall>j \<in> set (st_jobs (ss_store s)). jb_status j = Job_QUEUED \<longrightarrow> (\<exists>ex. execution_request_of (jb_request j) = Inr ex)"
    and "length (filter (\<lambda>j. jb_status j = Job_QUEUED) (st_jobs (ss_store s))) < n"
  shows "\<exists>r s'. drain_release_jobs n en closing s = Some (r, s') \<and>
    list_all2 (\<lambda>j j'. j' = j \<or> jb_status j = Job_QUEUED \<and> jb_job_id j' = jb_job_id j \<and>
                       jb_status j' \<in> {Job_SUCCEEDED, Job_FAILED, Job_CANCELLED}) (st_jobs (ss_store s)) (st_jobs (ss_store s')) \<and>
    (r = Inr () \<longrightarrow> (\<forall>j \<in> set (st_jobs (ss_store s')). jb_status j \<noteq> Job_QUEUED) \<or> closing (ss_tick s'))"
proof -
  have "\<forall>j \<in> set (queued_jobs s). \<exists>ex. execution_request_of (jb_request j) = Inr ex"
    using assms(2) by (simp add: queued_jobs_def jobs_of_def)
  with drain_ends [of s n en closing] assms(1,3) obtain r s' where d: "drain_release_jobs n en closing s = Some (r, s')"
    "list_all2 job_progress (jobs_of s) (jobs_of s')" "r = Inr () \<longrightarrow> queued_jobs s' = [] \<or> closing (ss_tick s')"
    unfolding queued_jobs_def jobs_of_def by blast
  have "list_all2 (\<lambda>j j'. j' = j \<or> jb_status j = Job_QUEUED \<and> jb_job_id j' = jb_job_id j \<and>
      jb_status j' \<in> {Job_SUCCEEDED, Job_FAILED, Job_CANCELLED}) (st_jobs (ss_store s)) (st_jobs (ss_store s'))"
    using d(2) unfolding jobs_of_def by (rule list.rel_mono_strong) (auto simp: job_progress_def finished_def)
  with d(1,3) show ?thesis by (auto simp: queued_jobs_def jobs_of_def filter_empty_conv)
qed


section \<open>Cancelled jobs\<close>

definition asked_to_stop :: "string \<Rightarrow> string \<Rightarrow> 'b service_scheme \<Rightarrow> bool" where
  "asked_to_stop rid jid s \<longleftrightarrow> (\<exists>e \<in> set (st_events (ss_store s)).
     ev_release_id e = rid \<and> ev_job_id e = jid \<and> ev_event_type e = ''job_cancel_requested'')"

lemma quiet_job_parts [quiet_rules]:
  "quiet (log_job_event en rid jid et payload)" "quiet (set_job_status en jid st result code message)"
  "quiet (job_cancel_requested env rid jid)"
  by (simp_all add: quiet_def log_job_event_def set_job_status_def job_cancel_requested_def sbind_def utc_now_def ticking_def
      split: sum.split prod.split)

lemma quiet_start [quiet_rules]: "quiet (start_job en rid jid jt claimed)"
  unfolding start_job_def by (rule quiet_rules)+

lemma logged_events:
  "log_job_event en rid jid et payload s = (Inr x, s') \<Longrightarrow>
   set (st_events (ss_store s)) \<subseteq> set (st_events (ss_store s'))"
  by (auto simp: log_job_event_def sbind_Inr utc_now_def ticking_def append_release_job_event_def Let_def rbind_Inr_iff
      split: sum.splits prod.splits if_splits)

lemma start_stops:
  assumes "asked_to_stop rid jid s" "start_job en rid jid jt True s = (Inr c, s')"
  shows "c"
proof (rule ccontr)
  assume "\<not> c"
  with assms(2) obtain s1 s2 where l: "log_job_event en rid jid ''job_started'' [(''job_type'', PStr (job_type_value jt))] s = (Inr (), s1)"
    and c: "job_cancel_requested en rid jid s1 = (Inr False, s2)"
    by (auto simp: start_job_def sbind_Inr sreturn_def split: if_splits)
  from c obtain es where es: "list_release_job_events (sn_hash en) (ss_store s1) rid jid = Inr es"
    "\<not> list_ex (\<lambda>e. ev_event_type e = ''job_cancel_requested'') es"
    by (auto simp: job_cancel_requested_def rbind_Inr_iff)
  from es(1) have "set es = {e \<in> set (st_events (ss_store s1)). ev_release_id e = rid \<and> ev_job_id e = jid}"
    by (auto simp: list_release_job_events_def Let_def rbind_Inr_iff)
  with assms(1) logged_events [OF l] es(2) show False by (auto simp: asked_to_stop_def list_ex_iff)
qed

lemma quiet_unsupported:
  "quiet (sbind (set_job_status en jid Job_FAILED None c d) (\<lambda>_. log_job_event en rid jid et p))"
  by (rule quiet_rules)+

lemma stopped_job:
  fixes s :: demo_service
  assumes "asked_to_stop rid jid s"
  shows "ss_sent (snd (failing_job en rid jid
    (sbind (start_job en rid jid jt True) (\<lambda>cancelled. if cancelled then sreturn () else m)) s)) = ss_sent s"
proof -
  let ?h = "\<lambda>e. sbind (set_job_status en jid Job_FAILED None (Some (exn_name e)) (Some (exn_name e)))
      (\<lambda>_. log_job_event en rid jid ''job_failed'' [(''reason_code'', PStr (exn_name e))]) :: (demo_service, unit) act"
  have h: "ss_sent (snd (?h e x)) = ss_sent x" for e x
    by (rule quiet_unsupported [unfolded quiet_def, rule_format])
  obtain r s1 where r: "start_job en rid jid jt True s = (r, s1)" by (cases "start_job en rid jid jt True s")
  have sent: "ss_sent s1 = ss_sent s"
    using quiet_start [of en rid jid jt True, unfolded quiet_def, rule_format, of s] by (simp only: r snd_conv)
  show ?thesis
  proof (cases r)
    case (Inl e)
    with r sent h [of e s1] show ?thesis by (simp add: failing_job_def sbind_def [of "start_job en rid jid jt True"])
  next
    case (Inr c)
    with start_stops [OF assms] r have "c" by blast
    with r Inr sent show ?thesis by (simp add: failing_job_def sbind_def sreturn_def)
  qed
qed

lemma stopped_runs:
  assumes "asked_to_stop rid jid s"
  shows "ss_sent (snd (run_showcase_order_job en jid rid who ex True s)) = ss_sent s"
    and "ss_sent (snd (run_canonical_execute_demo_job en jid rid who ex True s)) = ss_sent s"
  unfolding run_showcase_order_job_def run_canonical_execute_demo_job_def by (rule stopped_job [OF assms])+

text \<open>C8: a job that was asked to stop before its worker began sends nothing to the exchange, and it is over after the work
  on it, whatever else is in its log.\<close>

theorem cancelled_job_sends_nothing:
  assumes "\<exists>e \<in> set (st_events (ss_store s)). ev_release_id e = wi_release_id w \<and> ev_job_id e = wi_job_id w \<and>
      ev_event_type e = ''job_cancel_requested''"
    and "execution_request_of (wi_request w) = Inr ex"
  shows "ss_sent (snd (work_on_job en w s)) = ss_sent s \<and>
    (\<forall>j \<in> set (st_jobs (ss_store (snd (work_on_job en w s)))). jb_job_id j = wi_job_id w \<longrightarrow>
       jb_status j \<in> {Job_SUCCEEDED, Job_FAILED, Job_CANCELLED})"
proof -
  from assms(1) have a: "asked_to_stop (wi_release_id w) (wi_job_id w) s" unfolding asked_to_stop_def by blast
  have "ss_sent (snd (work_on_job en w s)) = ss_sent s"
  proof (cases "wi_job_type w = Job_SHOWCASE_ORDER")
    case True
    show ?thesis
      by (simp only: work_on_job_def Let_def True simp_thms if_True assms(2) bind_slift stopped_runs [OF a])
  next
    case False
    show ?thesis
    proof (cases "wi_job_type w = Job_CANONICAL_EXECUTE_DEMO")
      case True
      show ?thesis
        by (simp only: work_on_job_def Let_def True job_type.distinct simp_thms if_True if_False assms(2) bind_slift
            stopped_runs [OF a])
    next
      case other: False
      show ?thesis
        by (simp only: work_on_job_def Let_def False other if_False quiet_unsupported [unfolded quiet_def, rule_format])
    qed
  qed
  moreover have "job_over (wi_job_id w) (snd (work_on_job en w s))" by (rule work_over [OF assms(2)])
  ultimately show ?thesis by (simp add: job_over_def jobs_of_def finished_def)
qed

end
