(* ===== verification/Service_Sample.thy ===== *)
theory Service_Sample
  imports Service_Errors Job_Facts Verifier_Sample
begin

text \<open>
  A service with one reviewed release and its passing run: the witnesses of the properties of the handlers and of
  the worker of the job queue.
\<close>

definition sample_env :: demo_env where
  "sample_env =
     \<lparr> sn_hash = (\<lambda>b. ''digest''), sn_environ = (\<lambda>name. None), sn_now = (\<lambda>n. ''t1''), sn_uuid = (\<lambda>n. ''nonce''),
       sn_micros = (\<lambda>n. 0), sn_isoformat = (\<lambda>t. ''2026-01-01T00:15:00+00:00''), sn_root = ''/data'',
       sn_crypto = sample_crypto, sn_exchange = sample_exchange, sn_injected = False,
       sn_url = (\<lambda>u. \<lparr> up_scheme = ''https'', up_hostname = Some ''api.bitget.com'', up_port = None, up_path = [],
                       up_query = [], up_fragment = [] \<rparr>),
       sn_inputs = (\<lambda>run. sample_verify_args True), sn_policy = (\<lambda>p. No_File), sn_listing = (\<lambda>dir fs. []) \<rparr>"

definition sample_run_request :: run_create_request where
  "sample_run_request =
     \<lparr> rq_package_id = None, rq_package_path = Some ''pkg'', rq_baseline = ''baseline'', rq_candidate = ''candidate'',
       rq_suite_path = ''suite'', rq_spec_path = ''spec'', rq_baseline_receipt_path = None,
       rq_baseline_trust_policy_path = None, rq_baseline_version_id = None, rq_candidate_version_id = None \<rparr>"

definition sample_run_row :: run_row where
  "sample_run_row =
     \<lparr> ru_run = (new_run ''run_1'' ''req_1'' sample_run_request ''pkg'' ''out'' ''t0'')
         \<lparr> rn_state := Run_PASS, rn_reason_code := Some ''PASS'', rn_receipt_hash := Some ''sha256:a'' \<rparr>,
       ru_request = sample_run_request \<rparr>"

definition reviewed_policy :: dict where
  "reviewed_policy = [(''max_order_notional_usdt'', PInt 100), (''expected_order_notional_usdt'', PInt 10)]"

definition reviewed_release :: release where
  "reviewed_release = sample_release\<lparr> rl_state := Rel_REVIEW_REQUIRED, rl_approval := None, rl_risk_policy := Some reviewed_policy,
     rl_execution_run_id := None, rl_execution_evidence := None \<rparr>"

definition sample_service :: demo_service where
  "sample_service =
     \<lparr> ss_store = sample_store\<lparr> st_versions := [sample_version], st_releases := [release_row_of reviewed_release],
                               st_runs := [sample_run_row] \<rparr>,
       ss_audit = (\<lambda>rid. None), ss_json = (\<lambda>rid. Map.empty), ss_tick = 0,
       ss_files = (\<lambda>dir. \<lparr> xf_evidence = Absent, xf_ledger = Absent, xf_preflight = Absent, xf_status = Absent,
                          xf_issuance_ledger = Absent, xf_issuance_checkpoint = Absent \<rparr>), ss_sent = [] \<rparr>"

definition sample_approval_request :: approval_request where
  "sample_approval_request = \<lparr> aq_reviewer_id = ''ada'', aq_comment = ''fine'', aq_demo_mode = True \<rparr>"

lemma sample_service_rows: "rows_ok (release_rows sample_service)"
  by (auto simp: rows_ok_def release_rows_def sample_service_def view_def evidence_ok_def missing_evidence_for_target_def
      reviewed_release_def sample_release_def release_row_of_def split: if_splits)

lemma reviewed_breach: "risk_policy_breach reviewed_policy default_execution_request = Inr Allow"
  by (simp add: risk_policy_breach_def reviewed_policy_def default_execution_request_def get_default_def decimal_field_def Let_def pow10_def)

lemma sample_release_dir: "\<not> unsafe_path_part ''rel_1''"
  by code_simp

lemma audit_total:
  assumes "plain (PDict payload)" "ss_audit s ''rel_1'' = None"
  obtains e s' where "append_release_audit_event en ''rel_1'' et actor payload s = (Inr e, s')"
proof -
  let ?b = "audit_body ''rel_1'' et actor (sn_now en (ss_tick s)) payload genesis"
  have "plain (PDict ?b)" using assms(1) by (simp add: audit_body_def)
  then obtain h where h: "hash_obj (sn_hash en) True (PDict ?b) = Inr h" using plain_hashes by blast
  have b: "entry_body ?b = PDict ?b" by (simp add: entry_body_def audit_body_def)
  have "append_audit (sn_hash en) None ''rel_1'' et actor (sn_now en (ss_tick s)) payload
      = Inr ([Json_Value (PDict (?b @ [(''entry_hash'', PStr h)]))], ?b @ [(''entry_hash'', PStr h)])"
    using h b by (simp add: append_audit_def release_dir_def load_release_audit_ledger_def release_audit_entry_hash_def Let_def
        sample_release_dir)
  with assms(2) show thesis
    by (intro that) (simp add: append_release_audit_event_def sbind_def utc_now_def ticking_def Let_def
        append_release_audit_entry_def audit_body_def)
qed

lemma fresh_total:
  assumes "list_all (\<lambda>(k, v). plain v) body"
  obtains i where "fresh_id en pre body s = (Inr i, s\<lparr> ss_tick := Suc (ss_tick s) \<rparr>)"
proof -
  have "plain (PDict (body @ [(''nonce'', PStr (sn_uuid en (ss_tick s)))]))" using assms by simp
  then obtain h where "hash_obj (sn_hash en) True (PDict (body @ [(''nonce'', PStr (sn_uuid en (ss_tick s)))])) = Inr h"
    using plain_hashes by blast
  then show thesis by (intro that) (simp add: fresh_id_def sbind_def ticking_def slift_def sreturn_def)
qed

text \<open>The approval of the sample release is stored.\<close>

lemma sample_stored:
  assumes "ss_store s = ss_store sample_service" "ss_audit s = ss_audit sample_service"
  obtains r' s' where "store_approval sample_env reviewed_release a s = (Inr r', s')" "ss_audit s' = ss_audit sample_service"
proof -
  let ?r = "reviewed_release\<lparr> rl_state := Rel_APPROVED, rl_approval := Some a \<rparr>"
  have "transition_release reviewed_release Rel_APPROVED (\<lambda>x. x\<lparr> rl_approval := Some a \<rparr>) = Inr ?r"
    by (simp add: transition_Inr reviewed_release_def sample_release_def missing_evidence_for_target_def)
  then have t: "transition_release_or_409 reviewed_release Rel_APPROVED (\<lambda>x. x\<lparr> rl_approval := Some a \<rparr>)
      = Inr (with_computed_release_tier ?r)" by (simp add: transition_release_or_409_def)
  have i: "rl_release_id (with_computed_release_tier ?r) = ''rel_1''"
    by (simp add: with_computed_release_tier_def reviewed_release_def sample_release_def)
  have row: "row_id (release_row_of r) = rl_release_id r" for r by (simp add: row_id_def release_row_of_def)
  have "rl_release_id reviewed_release = ''rel_1''" by (simp add: reviewed_release_def sample_release_def)
  then obtain x where x: "update_release_candidate (ss_store s) (with_computed_release_tier ?r) (sn_now sample_env (ss_tick s)) = Inr x"
    using i by (simp add: assms update_release_candidate_def sample_service_def Let_def row get_release_eq_row update_rows_def)
  obtain r' st where x': "x = (r', st)" by (cases x)
  have "rl_state reviewed_release \<noteq> Rel_RELEASE_READY" by (simp add: reviewed_release_def)
  then have "store_approval sample_env reviewed_release a s
      = (Inr r', s\<lparr> ss_tick := Suc (ss_tick s), ss_store := st \<rparr>)"
    using x by (simp add: x' store_approval_def t sbind_def slift_def save_release_def utc_now_def ticking_def)
  then show thesis by (rule that) (simp add: assms(2))
qed

lemma sample_service_parts:
  "get_release_candidate (ss_store sample_service) ''rel_1'' = Some reviewed_release"
  "get_strategy_version (ss_store sample_service) ''v1'' = Some sample_version"
  "get_run (ss_store sample_service) ''run_1'' = Some (ru_run sample_run_row)"
  by (simp_all add: sample_service_def get_release_eq_row row_id_def release_row_of_def reviewed_release_def sample_release_def
      get_strategy_version_def sample_version_def get_run_def get_run_row_def sample_run_row_def new_run_def)

lemma sample_unblocked: "approval_block_reason (ss_store sample_service) reviewed_release = Inr None"
proof -
  have "state_for_bound_run (ru_run sample_run_row) = Rel_REDLINE_PASSED"
    by (simp add: state_for_bound_run_def sample_run_row_def new_run_def)
  moreover have "rl_redline_receipt_hash reviewed_release = rn_receipt_hash (ru_run sample_run_row)"
    "rl_run_id reviewed_release = Some ''run_1''" "rl_state reviewed_release = Rel_REVIEW_REQUIRED"
    "nonempty (rl_redline_receipt_hash reviewed_release)" "rl_risk_policy reviewed_release = Some reviewed_policy"
    "rl_risk_policy_hash reviewed_release \<noteq> None" "rl_simulation_evidence reviewed_release \<noteq> None"
    by (simp_all add: reviewed_release_def sample_release_def sample_run_row_def new_run_def)
  ultimately show ?thesis by (simp add: approval_block_reason_def sample_service_parts reviewed_breach risk_blocked_def)
qed

lemma sample_grants:
  obtains a s' where "grant_approval sample_env sample_principal ''rel_1'' sample_approval_request reviewed_release sample_service
     = (Inr a, s')" "ar_ok a"
proof -
  let ?s = "\<lambda>n. sample_service\<lparr> ss_tick := n \<rparr>"
  obtain nonce where n: "approval_nonce sample_env (?s 1) = (Inr nonce, ?s 2)"
    unfolding approval_nonce_def by (rule fresh_total [of "[]" sample_env "''appr_''" "?s 1"]) (simp_all add: numeral_2_eq_2)
  obtain expires where e: "approval_expires_at sample_env (?s 2) = (Inr expires, ?s 3)"
    by (simp add: approval_expires_at_def sbind_def ticking_def sreturn_def numeral_3_eq_3)
  have first: "get_strategy_version_for_release_or_404 reviewed_release sample_service = (Inr sample_version, sample_service)"
    "utc_now sample_env sample_service = (Inr ''t1'', ?s 1)"
    using sample_service_parts(2)
    by (simp_all add: get_strategy_version_for_release_or_404_def utc_now_def ticking_def reviewed_release_def sample_release_def
        sample_env_def sample_service_def)
  let ?a = "approval_record sample_env sample_principal sample_approval_request reviewed_release sample_version ''t1'' nonce expires"
  obtain r' s1 where w: "store_approval sample_env reviewed_release ?a (?s 3) = (Inr r', s1)" "ss_audit s1 = ss_audit sample_service"
    by (rule sample_stored [of "?s 3" ?a]) simp_all
  let ?payload = "[(''evidence_manifest_hash'', PStr (evidence_fingerprint (sn_hash sample_env) reviewed_release (Some sample_version))),
     (''package_hash'', PStr (sv_package_hash sample_version)), (''identity_lock_hash'', opt_str (sv_identity_lock_hash sample_version)),
     (''risk_policy_hash'', opt_str (rl_risk_policy_hash reviewed_release)),
     (''actor_auth'', PDict (principal_audit_payload sample_principal))]"
  obtain entry s2 where "append_release_audit_event sample_env ''rel_1'' ''approval_granted'' (pr_principal_id sample_principal) ?payload s1
      = (Inr entry, s2)"
    by (rule audit_total [of ?payload s1])
       (simp_all add: w(2) sample_service_def principal_audit_payload_def)
  then show thesis
    using first n e w(1)
    by (intro that) (simp add: grant_approval_def sbind_def Let_def sreturn_def, simp add: release_answer_def)
qed

lemma sample_approves:
  obtains a s' where "approve_release_endpoint sample_env (Some sample_principal) ''rel_1'' sample_approval_request sample_service
     = (Inr a, s')" "ar_ok a"
proof -
  obtain a s' where g: "grant_approval sample_env sample_principal ''rel_1'' sample_approval_request reviewed_release sample_service
     = (Inr a, s')" "ar_ok a" by (rule sample_grants)
  have "\<not> release_freeze_enabled sample_env" "pr_role sample_principal \<in> set APPROVAL_ROLES"
    "pr_principal_id sample_principal \<noteq> rl_created_by reviewed_release"
    by (simp_all add: release_freeze_enabled_def environ_flag_def sample_env_def sample_principal_def APPROVAL_ROLES_def
        reviewed_release_def sample_release_def)
  with g show thesis
    by (intro that) (simp_all add: approve_release_endpoint_def sbind_def get_release_or_404_def sample_service_parts slift_def
        current_principal_def Let_def sample_unblocked)
qed


theorem refused_requests_change_nothing_witness:
  "fst (handle_request sample_env None (Approve ''rel_1'' sample_approval_request) sample_service) = Inl (HTTPException 401) \<and>
   ss_store (snd (handle_request sample_env None (Approve ''rel_1'' sample_approval_request) sample_service)) = ss_store sample_service"
proof -
  obtain s' where s': "handle_request sample_env None (Approve ''rel_1'' sample_approval_request) sample_service
      = (Inl (HTTPException 401), s')"
    by (simp add: quietly_def approve_release_endpoint_def sbind_def get_release_or_404_def sample_service_parts slift_def
        current_principal_def)
  from refused_requests_change_nothing [OF s'] s' show ?thesis by simp
qed



lemma sample_job_request: "\<exists>ex. execution_request_of [] = Inr ex"
  by (simp add: execution_request_of_def only_fields_def opt_text_field_def text_field_def bool_field_def one_of_def opt_one_of_def)

lemma sample_service_jobs:
  "st_jobs (ss_store sample_service) = [new_job ''job_1'' ''rel_1'' Job_SHOWCASE_ORDER ''h'' [] None ''alice'' ''t0'']"
  by (simp add: sample_service_def sample_store_def)

theorem worker_drains_queue_witness:
  "\<exists>r s' j. drain_release_jobs 2 sample_env (\<lambda>_. False) sample_service = Some (r, s') \<and>
     st_jobs (ss_store s') = [j] \<and> jb_job_id j = ''job_1'' \<and>
     (jb_status j \<in> {Job_SUCCEEDED, Job_FAILED, Job_CANCELLED} \<or> (\<exists>e. r = Inl e))"
proof -
  let ?j = "new_job ''job_1'' ''rel_1'' Job_SHOWCASE_ORDER ''h'' [] None ''alice'' ''t0''"
  have j: "jb_request ?j = []" "jb_status ?j = Job_QUEUED" "jb_job_id ?j = ''job_1''" by (simp_all add: new_job_def)
  have "\<forall>j \<in> set (st_jobs (ss_store sample_service)). jb_status j = Job_QUEUED \<longrightarrow> (\<exists>ex. execution_request_of (jb_request j) = Inr ex)"
    using sample_job_request by (simp add: sample_service_jobs j)
  from worker_drains_queue [OF _ this, of 2 sample_env "\<lambda>_. False"] obtain r s' where
    d: "drain_release_jobs 2 sample_env (\<lambda>_. False) sample_service = Some (r, s')"
    and l: "list_all2 (\<lambda>j j'. j' = j \<or> jb_status j = Job_QUEUED \<and> jb_job_id j' = jb_job_id j \<and>
       jb_status j' \<in> {Job_SUCCEEDED, Job_FAILED, Job_CANCELLED}) [?j] (st_jobs (ss_store s'))"
    and q: "r = Inr () \<longrightarrow> (\<forall>j \<in> set (st_jobs (ss_store s')). jb_status j \<noteq> Job_QUEUED)"
    by (auto simp: sample_service_jobs j)
  from l obtain j' where j': "st_jobs (ss_store s') = [j']"
    "j' = ?j \<or> jb_job_id j' = jb_job_id ?j \<and> jb_status j' \<in> {Job_SUCCEEDED, Job_FAILED, Job_CANCELLED}"
    by (auto simp: list_all2_Cons1)
  have "jb_status j' \<in> {Job_SUCCEEDED, Job_FAILED, Job_CANCELLED} \<or> (\<exists>e. r = Inl e)"
    using j'(2) q j by (cases r) (auto simp: j'(1))
  with d j' j show ?thesis by auto
qed

definition stopping_service :: demo_service where
  "stopping_service = sample_service\<lparr> ss_store := (ss_store sample_service)\<lparr> st_events :=
     [\<lparr> ev_event_id = ''jevt_1'', ev_job_id = ''job_1'', ev_release_id = ''rel_1'', ev_sequence = 1,
        ev_event_type = ''job_cancel_requested'', ev_payload = [], ev_created_at = ''t1'', ev_previous_event_hash = genesis,
        ev_event_hash = ''h'' \<rparr>] \<rparr> \<rparr>"

definition stopping_work :: job_work_item where
  "stopping_work = \<lparr> wi_job_id = ''job_1'', wi_release_id = ''rel_1'', wi_job_type = Job_SHOWCASE_ORDER, wi_request = [],
     wi_requested_by = ''alice'' \<rparr>"

theorem cancelled_job_sends_nothing_witness:
  "ss_sent (snd (work_on_job sample_env stopping_work stopping_service)) = []"
proof -
  obtain ex where ex: "execution_request_of (wi_request stopping_work) = Inr ex"
    using sample_job_request by (auto simp: stopping_work_def)
  have "\<exists>e \<in> set (st_events (ss_store stopping_service)). ev_release_id e = wi_release_id stopping_work \<and>
      ev_job_id e = wi_job_id stopping_work \<and> ev_event_type e = ''job_cancel_requested''"
    by (simp add: stopping_service_def stopping_work_def)
  from cancelled_job_sends_nothing [OF this ex, of sample_env] show ?thesis
    by (simp add: stopping_service_def sample_service_def)
qed

end
