(* ===== verification/Spec2Isabelle.thy ===== *)
theory Spec2Isabelle
  imports Receipt Probes Engine Merkle Store_Facts Store_Events Config Execution Verifier_Sample Service_Sample
begin

text \<open>
  Playbook Redline decides whether a new version of a trading strategy may be released. A deterministic
  replay engine runs baseline and candidate over a suite of scenarios, probes compare the two traces,
  the proof kernel turns the probes' proofs into a verdict, and a receipt with the verdict goes into an
  append-only ledger that is pinned by a checkpoint. A service keeps strategy versions, runs and
  release candidates in a database and takes a release through evidence, review, approval and
  execution, every action leaving an entry in an audit ledger. The source is under \<open>src/src/redline\<close>;
  paths below are relative to it.

  \<^bold>\<open>Data.\<close> Python strings are HOL strings that hold their UTF-8 bytes, whose bytewise order is code
  point order. Integers are \<open>int\<close>; \<open>decimal.Decimal\<close> is a signed coefficient with an exponent and the
  special values, and the 28-digit context of the engine is written out (\<open>Decimal28\<close>). Code that raises
  returns \<open>exn + 'a\<close>. SHA-256 is a parameter \<open>H\<close>; where a property needs that two messages have
  different digests, it says so for exactly these messages. Files are values: the outcome of reading
  one is a datatype, a directory a map. JSON objects and \<open>dict[str, Any]\<close> are association lists.

  \<^bold>\<open>The theories of the replay and receipt core.\<close>
  \<^item> \<open>Prelude\<close>: exceptions as results, list helpers that the source defines, decimal text.
  \<^item> \<open>Canonical\<close> (\<open>canonical.py\<close>): quantised decimals, normalisation, canonical JSON, hashes of objects
    and of package trees. The lemmas: canonical bytes determine the normalised value, so a hash binds it.
  \<^item> \<open>Enums\<close>, \<open>Models\<close> (\<open>models.py\<close>, \<open>violations.py\<close>): the enumerations, the records and their
    validators.
  \<^item> \<open>Merkle\<close> (\<open>merkle.py\<close>): roots, proofs and their verification; completeness and soundness.
  \<^item> \<open>Proof_Kernel\<close> (\<open>proof_kernel.py\<close>): \<open>decide\<close> is total, and each verdict is characterised.
  \<^item> \<open>Decimal28\<close>, \<open>Probes\<close> (\<open>probes/\<close>): decimal arithmetic with its error bounds, the six probes.
  \<^item> \<open>Engine\<close> (\<open>engine_adapter/deterministic.py\<close>): parsing of bars and the trace of a run; no look-ahead.
  \<^item> \<open>Hash_Chain\<close>: the locale of an append-only hash chain. It is interpreted on the receipt ledger, on
    the audit ledger of releases and on the event log of jobs.
  \<^item> \<open>Receipt\<close> (\<open>receipt.py\<close>): issuing a receipt, the ledger, the anti-re-roll check, the checkpoint.

  \<^bold>\<open>The theories of runs and their verification.\<close>
  \<^item> \<open>Trust\<close> (\<open>trust.py\<close>): keys, attestations of a checkpoint, trust policies. The signature scheme is a record of
    functions; what is signed verifies, and what a policy accepts was signed.
  \<^item> \<open>Package_Identity\<close> (\<open>package_identity.py\<close>): the identity lock of a package.
  \<^item> \<open>Report\<close> (\<open>report.py\<close>), \<open>Runner\<close> (\<open>runner.py\<close>): \<open>run_redline\<close>, from the files of the package, the suite and
    the specification to traces, proofs, envelope, report and receipt. What a run reads from the outside is one record.
    The main lemma: a run that passes has every blocking probe hold on every trace.
  \<^item> \<open>Ledger_Check\<close>, \<open>Verifier\<close> (\<open>verifier.py\<close>): the scan of the ledger, the checks of a receipt, of one proof and of
    the bundle of a rejected run. What a verified receipt is worth, and (\<open>Verifier_Complete\<close>) that what a run writes
    verifies.
  \<^item> \<open>Runner_Sample\<close>, \<open>Verifier_Sample\<close>: two concrete runs, one that passes and one that is withheld and verified.

  \<^bold>\<open>The theories of the service.\<close>
  \<^item> \<open>Auth\<close>, \<open>Config\<close> (\<open>service/auth.py\<close>, \<open>service/config.py\<close>, parts of \<open>service/app.py\<close>): tokens, sessions, logins, the
    gate in front of every request with its rate limiter, the configuration and what production refuses.
  \<^item> \<open>Exchange\<close>, \<open>Execution\<close> (\<open>sponsor/bitget_execution.py\<close>): the demo execution adapter with its retries and
    recovery, the evidence of an order and the execution ledger. The exchange is a parameter.
  \<^item> \<open>Service_Models\<close> (\<open>service/models.py\<close>): Python dictionaries, the enumerations and records.
  \<^item> \<open>Transitions\<close> (\<open>service/transitions.py\<close>): the table of release transitions and the evidence each
    target needs; an inductive path relation with its invariants.
  \<^item> \<open>Release_Policy\<close>, \<open>Release_Audit\<close> (\<open>service/release.py\<close>): the risk policy with the size it cuts an
    order to, the release tier, the evidence fingerprint, the audit ledger.
  \<^item> \<open>Store\<close>, \<open>Store_Jobs\<close> (\<open>service/store.py\<close>): a record with one list of rows per table, one
    definition per method; \<open>Store_Facts\<close>, \<open>Store_Events\<close>: unique keys, single use of approvals under
    interleaving, queues that are drained (the locale \<open>work_queue\<close>, interpreted on jobs and on runs),
    the job event log.
  \<^item> \<open>Release_Service\<close> (\<open>service/app.py\<close>): the handlers of a release candidate, from creation to kill, as functions on
    the state of the service (store, audit ledgers, JSON files, a counter of clock and uuid readings) that answer
    or raise and keep what they did before. \<open>Demo_Order\<close>: the handlers that place orders, with the verification of
    the run (\<open>Verifier\<close>), the use of the approval (\<open>Store\<close>) and the adapter (\<open>Exchange\<close>, \<open>Execution\<close>); its state
    adds the execution files and the log of the requests to the exchange. An execution lock makes an order one step.
    \<open>Job_Worker\<close>: the endpoints that queue, cancel and list jobs, and the worker that claims a job and runs an order
    handler for it.
  \<^item> \<open>Service_Facts\<close>: the release machine as a specification; every handler refines it, so any sequence of requests
    and jobs does. \<open>Order_Gate\<close>: what has to hold before anything is sent for a release. \<open>Job_Facts\<close>: a worker ends and
    leaves no job behind, and a job that was asked to stop sends nothing. \<open>Service_Errors\<close>: refused requests change
    nothing, and who can approve what. \<open>Service_Sample\<close>: a reviewed release with its run and its job, the witnesses.

  \<^bold>\<open>Fuel.\<close> Recursion is structural or has a measure. The only fuel is that of \<open>drain\<close>, a client of the
  queues, and of \<open>drain_release_jobs\<close>, the loop of a worker: one more than the number of queued items is enough for both,
  and the theorems say so.

  \<^bold>\<open>Not modelled.\<close> Of \<open>service/app.py\<close>, the import of an uploaded evidence file, the threads that run the workers,
  package upload, the listing endpoints and the bundle and attestation endpoints; of \<open>service/release.py\<close>, the
  evidence bundle. The PostgreSQL store repeats the methods of the SQLite one. The strategy sandbox
  (processes, import and audit hooks of the interpreter) is a parameter of the engine. HTML, text and JSON presentation, the command line, the MCP server, the
  sponsor's data adapter and the HTTP layer itself are presentation or I/O around the modelled parts.
\<close>

end
